(* ===== verification/Prelude.thy ===== *)
theory Prelude
  imports Main "HOL-Library.Word"
begin

text \<open>
  Shared vocabulary of the development: the widths of Rust's integers, the result type
  with its sequencing operator, little-endian byte runs, saturating arithmetic, and the
  bounded queues that several components keep.  Nothing here is specific to one component.
\<close>

unbundle bit_operations_syntax

named_theorems wire_simps \<open>byte-level facts that carry the codec proofs\<close>
named_theorems frame_simps \<open>which part of a state an operation leaves alone\<close>

section \<open>Integers\<close>

type_synonym u8 = "8 word"
type_synonym u16 = "16 word"
type_synonym u32 = "32 word"
type_synonym u64 = "64 word"
type_synonym i32 = "32 word"

text \<open>Saturating operations of the unsigned types and of \<open>i32\<close> (two's complement).\<close>

definition sat_add :: "'a::len word \<Rightarrow> 'a word \<Rightarrow> 'a word" where
  "sat_add a b = (if uint a + uint b < 2 ^ LENGTH('a) then a + b else - 1)"

definition sat_sub :: "'a::len word \<Rightarrow> 'a word \<Rightarrow> 'a word" where
  "sat_sub a b = (if b \<le> a then a - b else 0)"

definition i32_sat :: "int \<Rightarrow> i32" where
  "i32_sat z = (if z < - (2 ^ 31) then 0x80000000 else if z > 2 ^ 31 - 1 then 0x7FFFFFFF else word_of_int z)"

definition i32_sat_add :: "i32 \<Rightarrow> i32 \<Rightarrow> i32" where
  "i32_sat_add a b = i32_sat (sint a + sint b)"

lemma uint_sat_add: "uint (sat_add a b) = min (uint a + uint b) (2 ^ LENGTH('a) - 1)"
  for a b :: "'a::len word"
proof (cases "uint a + uint b < 2 ^ LENGTH('a)")
  case True
  then show ?thesis
    by (simp add: sat_add_def uint_add_lem)
next
  case False
  then show ?thesis
    by (simp add: sat_add_def unsigned_minus_1_eq_mask mask_eq_exp_minus_1)
qed

lemma sat_add_ge: "a \<le> sat_add a b" for a b :: "'a::len word"
  using uint_lt2p [of a] by (simp add: word_le_def uint_sat_add)

lemma sat_add_1_neq: "a \<noteq> - 1 \<Longrightarrow> sat_add a 1 = a + 1 \<and> a < sat_add a 1" for a :: "u64"
proof -
  assume "a \<noteq> - 1"
  then have "uint a \<noteq> uint (- 1 :: u64)" by (metis word_of_int_uint)
  then have "uint a \<noteq> 2 ^ 64 - 1"
    by (simp add: unsigned_minus_1_eq_mask mask_eq_exp_minus_1)
  moreover have "uint a < 2 ^ 64"
    using uint_lt2p [of a] by simp
  ultimately have "uint a + 1 < 2 ^ 64" by simp
  then show ?thesis
    by (simp add: sat_add_def word_less_def uint_word_ariths)
qed

lemma uint_sat_sub: "uint (sat_sub a b) = max (uint a - uint b) 0"
  by (auto simp: sat_sub_def word_le_def uint_sub_lem [THEN iffD1] max_def)

lemma sint_i32_sat: "sint (i32_sat z) = max (- (2 ^ 31)) (min z (2 ^ 31 - 1))"
proof -
  consider "z < - (2 ^ 31)" | "z > 2 ^ 31 - 1" | "- (2 ^ 31) \<le> z" "z \<le> 2 ^ 31 - 1" by linarith
  then show ?thesis
  proof cases
    case 3
    then have "sint (word_of_int z :: i32) = z"
      by (simp add: sint_sbintrunc' signed_take_bit_int_eq_self)
    with 3 show ?thesis by (simp add: i32_sat_def)
  qed (simp_all add: i32_sat_def)
qed

lemma sint_i32_sat_add:
  "sint (i32_sat_add a b) = max (- (2 ^ 31)) (min (sint a + sint b) (2 ^ 31 - 1))"
  by (simp add: i32_sat_add_def sint_i32_sat)

section \<open>Results\<close>

datatype ('a, 'e) result = is_ok: Ok (ok_of: 'a) | Err (err_of: 'e)

text \<open>\<open>and_then\<close> is the \<open>?\<close> operator of the source: an error leaves the function at once.\<close>

primrec and_then :: "('a, 'e) result \<Rightarrow> ('a \<Rightarrow> ('b, 'e) result) \<Rightarrow> ('b, 'e) result" where
  "and_then (Ok x) k = k x"
| "and_then (Err e) k = Err e"

primrec map_ok :: "('a \<Rightarrow> 'b) \<Rightarrow> ('a, 'e) result \<Rightarrow> ('b, 'e) result" where
  "map_ok f (Ok x) = Ok (f x)"
| "map_ok f (Err e) = Err e"

primrec map_error :: "('e \<Rightarrow> 'f) \<Rightarrow> ('a, 'e) result \<Rightarrow> ('a, 'f) result" where
  "map_error f (Ok x) = Ok x"
| "map_error f (Err e) = Err (f e)"

primrec ok_or :: "'e \<Rightarrow> 'a option \<Rightarrow> ('a, 'e) result" where
  "ok_or e None = Err e"
| "ok_or e (Some x) = Ok x"

lemma and_then_Ok_iff [simp]: "and_then m k = Ok y \<longleftrightarrow> (\<exists>x. m = Ok x \<and> k x = Ok y)"
  by (cases m) auto

lemma and_then_Err_iff: "and_then m k = Err e \<longleftrightarrow> m = Err e \<or> (\<exists>x. m = Ok x \<and> k x = Err e)"
  by (cases m) auto

lemma map_ok_Ok_iff [simp]: "map_ok f m = Ok y \<longleftrightarrow> (\<exists>x. m = Ok x \<and> y = f x)"
  by (cases m) auto

lemma map_ok_Err_iff [simp]: "map_ok f m = Err e \<longleftrightarrow> m = Err e"
  by (cases m) auto

lemma ok_or_Ok_iff [simp]: "ok_or e m = Ok x \<longleftrightarrow> m = Some x"
  by (cases m) auto

lemma ok_or_Err_iff [simp]: "ok_or e m = Err e' \<longleftrightarrow> m = None \<and> e' = e"
  by (cases m) auto

section \<open>Little-endian byte runs\<close>

primrec to_le :: "nat \<Rightarrow> 'a::len word \<Rightarrow> u8 list" where
  "to_le 0 w = []"
| "to_le (Suc n) w = ucast w # to_le n (drop_bit 8 w)"

primrec from_le :: "u8 list \<Rightarrow> 'a::len word" where
  "from_le [] = 0"
| "from_le (b # bs) = ucast b OR push_bit 8 (from_le bs)"

lemma length_to_le [simp]: "length (to_le n w) = n"
  by (induction n arbitrary: w) auto

lemma from_le_to_le_take: "from_le (to_le n w) = take_bit (8 * n) w"
proof (induction n arbitrary: w)
  case 0
  then show ?case by simp
next
  case (Suc n)
  show ?case
    by (rule bit_word_eqI) (auto simp: Suc.IH bit_simps)
qed

lemma from_le_to_le [wire_simps]: "LENGTH('a) = 8 * n \<Longrightarrow> from_le (to_le n w) = w"
  for w :: "'a::len word"
  by (simp add: from_le_to_le_take take_bit_word_eq_self)

lemma bit_from_le_bound: "bit (from_le bs :: 'a::len word) i \<Longrightarrow> i < 8 * length bs"
proof (induction bs arbitrary: i)
  case Nil
  then show ?case by simp
next
  case (Cons b bs)
  have "bit b i \<Longrightarrow> i < 8" by (auto dest: bit_imp_le_length)
  moreover have "8 \<le> i \<Longrightarrow> bit (from_le bs :: 'a word) (i - 8) \<Longrightarrow> i - 8 < 8 * length bs"
    by (rule Cons.IH)
  ultimately show ?case
    using Cons.prems by (auto simp: bit_simps)
qed

lemma to_le_from_le: "8 * length bs \<le> LENGTH('a) \<Longrightarrow> to_le (length bs) (from_le bs :: 'a::len word) = bs"
proof (induction bs)
  case Nil
  then show ?case by simp
next
  case (Cons b bs)
  have "ucast (ucast b OR push_bit 8 (from_le bs) :: 'a word) = b"
    by (rule bit_word_eqI) (use Cons.prems in \<open>auto simp: bit_simps\<close>)
  moreover have "drop_bit 8 (ucast b OR push_bit 8 (from_le bs) :: 'a word) = take_bit (LENGTH('a) - 8) (from_le bs)"
    by (rule bit_word_eqI) (auto simp: bit_simps dest: bit_imp_le_length)
  moreover have "take_bit (LENGTH('a) - 8) (from_le bs :: 'a word) = from_le bs"
  proof -
    show ?thesis
      by (intro bit_word_eqI) (use Cons.prems in \<open>fastforce simp: bit_simps dest: bit_from_le_bound\<close>)
  qed
  ultimately show ?case using Cons by simp
qed

lemma those_not_None: "(\<And>x. x \<in> set xs \<Longrightarrow> x \<noteq> None) \<Longrightarrow> those xs \<noteq> None"
proof (induction xs)
  case (Cons a xs)
  then have "a \<noteq> None" "those xs \<noteq> None" by auto
  then show ?case by (auto split: option.splits)
qed simp

section \<open>Bounded queues\<close>

text \<open>
  Two disciplines recur.  \<open>push_bounded\<close> appends and evicts from the front once the queue is
  full; \<open>push_front_bounded\<close> puts the newest first and truncates the tail.
\<close>

definition push_bounded :: "nat \<Rightarrow> 'a \<Rightarrow> 'a list \<Rightarrow> 'a list" where
  "push_bounded cap x xs = (if length xs = cap then tl xs else xs) @ [x]"

definition push_front_bounded :: "nat \<Rightarrow> 'a \<Rightarrow> 'a list \<Rightarrow> 'a list" where
  "push_front_bounded cap x xs = take cap (x # xs)"

lemma length_push_bounded: "0 < cap \<Longrightarrow> length xs \<le> cap \<Longrightarrow> length (push_bounded cap x xs) \<le> cap"
  by (auto simp: push_bounded_def)

lemma push_bounded_last [simp]: "last (push_bounded cap x xs) = x"
  by (simp add: push_bounded_def)

lemma push_bounded_suffix: "0 < cap \<Longrightarrow> length xs \<le> cap \<Longrightarrow>
  push_bounded cap x xs = drop (length xs + 1 - cap) (xs @ [x])"
  by (cases xs) (auto simp: push_bounded_def le_Suc_eq)

lemma length_push_front_bounded [simp]: "length (push_front_bounded cap x xs) = min cap (Suc (length xs))"
  by (simp add: push_front_bounded_def)

lemma in_push_front_bounded: "0 < cap \<Longrightarrow> x \<in> set (push_front_bounded cap x xs)"
  by (cases cap) (auto simp: push_front_bounded_def)

lemma set_push_front_bounded: "set (push_front_bounded cap x xs) \<subseteq> insert x (set xs)"
  by (auto simp: push_front_bounded_def dest: in_set_takeD)

end
