(* ===== verification/Soft_Float.thy ===== *)
theory Soft_Float
  imports Prelude
begin

text \<open>
  Rust's \<open>f32\<close> and \<open>f64\<close>: IEEE-754 binary32 and binary64 with round-to-nearest, ties to even,
  executable on integers.  A finite float of a format is a sign and a \<^emph>\<open>magnitude\<close>, the bit
  pattern below the sign read as an integer; magnitudes are ordered as the values are.  Its value
  is an integer number of \<^emph>\<open>units\<close>, the least subnormal of the format, so every operation is
  exact integer arithmetic followed by one rounding.  The bit patterns themselves (\<open>F32\<close>,
  \<open>F64\<close>) keep NaN payloads, because the codecs copy them.  Where the standard leaves the
  payload of a computed NaN open, the quiet NaN is used.
\<close>

section \<open>Formats, magnitudes, units\<close>

record float_format =
  frac_bits :: nat
  exp_bits :: nat

definition b32 :: float_format where
  "b32 = \<lparr>frac_bits = 23, exp_bits = 8\<rparr>"

definition b64 :: float_format where
  "b64 = \<lparr>frac_bits = 52, exp_bits = 11\<rparr>"

definition inf_mag :: "float_format \<Rightarrow> int" where
  "inf_mag f = (2 ^ exp_bits f - 1) * 2 ^ frac_bits f"

definition one_units :: "float_format \<Rightarrow> int" where
  "one_units f = 2 ^ (2 ^ (exp_bits f - 1) - 2 + frac_bits f)"

definition mag_units :: "float_format \<Rightarrow> int \<Rightarrow> int" where
  "mag_units f m =
     (let e = m div 2 ^ frac_bits f; r = m mod 2 ^ frac_bits f
      in if e = 0 then r else (2 ^ frac_bits f + r) * 2 ^ nat (e - 1))"

lemma one_units_pos [simp]: "0 < one_units f"
  by (simp add: one_units_def)

lemma one_units_neq_0 [simp]: "one_units f \<noteq> 0" "0 \<le> one_units f"
  by (simp_all add: one_units_def)

lemma mag_units_nonneg: "0 \<le> m \<Longrightarrow> 0 \<le> mag_units f m"
  by (auto simp: mag_units_def Let_def)

section \<open>Rounding\<close>

function bitlen :: "int \<Rightarrow> nat" where
  "bitlen n = (if n \<le> 0 then 0 else Suc (bitlen (n div 2)))"
  by pat_completeness auto
termination
  by (relation "measure nat") auto

declare bitlen.simps [simp del]

lemma bitlen_nonpos [simp]: "n \<le> 0 \<Longrightarrow> bitlen n = 0"
  by (simp add: bitlen.simps)

lemma less_two_power_bitlen: "n < 2 ^ bitlen n"
proof (induction n rule: bitlen.induct)
  case (1 n)
  show ?case
  proof (cases "n \<le> 0")
    case True
    then show ?thesis by simp
  next
    case False
    with 1 have "n div 2 < 2 ^ bitlen (n div 2)" by simp
    with False show ?thesis by (simp add: bitlen.simps [of n])
  qed
qed

lemma two_power_bitlen_le: "0 < n \<Longrightarrow> 2 ^ (bitlen n - 1) \<le> n"
proof (induction n rule: bitlen.induct)
  case (1 n)
  show ?case
  proof (cases "n div 2 = 0")
    case True
    with 1 show ?thesis by (simp add: bitlen.simps [of n])
  next
    case False
    with 1 have p: "0 < n div 2" and "2 ^ (bitlen (n div 2) - 1) \<le> n div 2"
      by (auto simp: pos_imp_zdiv_pos_iff)
    moreover have "bitlen (n div 2) = Suc (bitlen (n div 2) - 1)"
      using p by (simp add: bitlen.simps [of "n div 2"])
    ultimately have "2 ^ bitlen (n div 2) \<le> 2 * (n div 2)"
      by (metis mult_le_cancel_left_pos power_Suc zero_less_numeral)
    with 1 show ?thesis by (simp add: bitlen.simps [of n])
  qed
qed

lemma bitlen_le_iff: "0 \<le> n \<Longrightarrow> bitlen n \<le> k \<longleftrightarrow> n < 2 ^ k"
proof
  assume "bitlen n \<le> k"
  then have "(2::int) ^ bitlen n \<le> 2 ^ k" by simp
  with less_two_power_bitlen [of n] show "n < 2 ^ k" by linarith
next
  assume "0 \<le> n" and less: "n < 2 ^ k"
  show "bitlen n \<le> k"
  proof (rule ccontr)
    assume "\<not> bitlen n \<le> k"
    then have "k \<le> bitlen n - 1" and "0 < n"
      using \<open>0 \<le> n\<close> by (auto simp: not_le order_le_less)
    then have "(2::int) ^ k \<le> 2 ^ (bitlen n - 1)" by simp
    with two_power_bitlen_le [OF \<open>0 < n\<close>] less show False by linarith
  qed
qed

lemma bitlen_mono: "m \<le> n \<Longrightarrow> bitlen m \<le> bitlen n"
  by (cases "m \<le> 0") (auto simp: bitlen_le_iff intro: le_less_trans less_two_power_bitlen)

text \<open>The integer nearest to \<open>num / den\<close>, the even one when two are equally near.\<close>

definition half_even :: "int \<Rightarrow> int \<Rightarrow> int" where
  "half_even num den =
     (let q = num div den; r = num mod den
      in if 2 * r < den \<or> 2 * r = den \<and> even q then q else q + 1)"

text \<open>
  The magnitude nearest to the value of \<open>num / den\<close> units.  The quantum is \<open>2 ^ k\<close> units; a
  mantissa that rounds up to the next power of two carries into the exponent by itself.
\<close>

definition round_mag :: "float_format \<Rightarrow> int \<Rightarrow> int \<Rightarrow> int" where
  "round_mag f num den =
     (let k = bitlen (num div den) - Suc (frac_bits f)
      in int k * 2 ^ frac_bits f + half_even num (den * 2 ^ k))"

lemma div_less_of_less_mult: "0 < c \<Longrightarrow> x < b * c \<Longrightarrow> x div c < b" for b c x :: int
proof (rule ccontr)
  assume "0 < c" "x < b * c" "\<not> x div c < b"
  then have "b * c \<le> (x div c) * c" by (intro mult_right_mono) auto
  also have "\<dots> \<le> x" using \<open>0 < c\<close> by (simp flip: minus_mod_eq_div_mult)
  finally show False using \<open>x < b * c\<close> by simp
qed

lemma half_even_bounds: "num div den \<le> half_even num den" "half_even num den \<le> num div den + 1"
  by (auto simp: half_even_def Let_def)

lemma half_even_mult [simp]: "0 < d \<Longrightarrow> half_even (n * d) d = n"
  by (simp add: half_even_def)

lemma half_even_1 [simp]: "half_even n 1 = n"
  using half_even_mult [of 1 n] by simp

lemma div_mono_ratio:
  fixes n1 n2 d1 d2 :: int
  assumes "0 < d1" "0 < d2" "n1 * d2 \<le> n2 * d1"
  shows "n1 div d1 \<le> n2 div d2"
proof -
  have a: "n1 div d1 = (n1 * d2) div (d1 * d2)"
    using assms by simp
  have b: "n2 div d2 = (n2 * d1) div (d1 * d2)"
    using assms by (simp only: mult.commute [of d1 d2]) simp
  have "(n1 * d2) div (d1 * d2) \<le> (n2 * d1) div (d1 * d2)"
    by (rule zdiv_mono1) (use assms in simp_all)
  then show ?thesis by (simp only: a b)
qed

lemma half_even_mono:
  assumes "0 < d1" "0 < d2" "n1 * d2 \<le> n2 * d1"
  shows "half_even n1 d1 \<le> half_even n2 d2"
proof (cases "n1 div d1 = n2 div d2")
  case False
  with div_mono_ratio [OF assms] half_even_bounds [of n1 d1] half_even_bounds [of n2 d2]
  show ?thesis by linarith
next
  case True
  define q where "q = n1 div d1"
  have n: "n1 = q * d1 + n1 mod d1" "n2 = q * d2 + n2 mod d2"
    by (simp add: q_def) (simp add: q_def True)
  have le: "(n1 mod d1) * d2 \<le> (n2 mod d2) * d1"
  proof -
    have "n1 * d2 = q * d1 * d2 + (n1 mod d1) * d2" "n2 * d1 = q * d1 * d2 + (n2 mod d2) * d1"
      by (subst n, simp add: algebra_simps)+
    with assms(3) show ?thesis by linarith
  qed
  have "2 * (n2 mod d2) < d2 \<Longrightarrow> 2 * (n1 mod d1) < d1"
  proof -
    assume "2 * (n2 mod d2) < d2"
    then have "(2 * (n2 mod d2)) * d1 < d2 * d1" using assms by simp
    moreover have "(2 * (n1 mod d1)) * d2 \<le> (2 * (n2 mod d2)) * d1" using le by linarith
    ultimately have "(2 * (n1 mod d1)) * d2 < d1 * d2" by (simp only: mult.commute [of d1 d2])
    with assms show ?thesis by simp
  qed
  moreover have "2 * (n2 mod d2) = d2 \<Longrightarrow> 2 * (n1 mod d1) \<le> d1"
  proof -
    assume "2 * (n2 mod d2) = d2"
    then have "(2 * (n2 mod d2)) * d1 = d2 * d1" by (simp only:)
    moreover have "(2 * (n1 mod d1)) * d2 \<le> (2 * (n2 mod d2)) * d1" using le by linarith
    ultimately have "(2 * (n1 mod d1)) * d2 \<le> d1 * d2" by (simp only: mult.commute [of d1 d2])
    with assms show ?thesis by simp
  qed
  ultimately show ?thesis
    using True by (auto simp: half_even_def Let_def q_def)
qed

lemma round_mag_mono:
  assumes "0 < d1" "0 < d2" "0 \<le> n1" "n1 * d2 \<le> n2 * d1"
  shows "round_mag f n1 d1 \<le> round_mag f n2 d2"
proof -
  define B where "B = (2::int) ^ frac_bits f"
  define k1 where "k1 = bitlen (n1 div d1) - Suc (frac_bits f)"
  define k2 where "k2 = bitlen (n2 div d2) - Suc (frac_bits f)"
  have q: "n1 div d1 \<le> n2 div d2" using assms by (simp add: div_mono_ratio)
  have q0: "0 \<le> n1 div d1" using assms by (simp add: pos_imp_zdiv_nonneg_iff)
  have k: "k1 \<le> k2" using bitlen_mono [OF q] by (simp add: k1_def k2_def)
  show ?thesis
  proof (cases "k1 = k2")
    case True
    have "half_even n1 (d1 * 2 ^ k1) \<le> half_even n2 (d2 * 2 ^ k1)"
    proof (rule half_even_mono)
      have "(n1 * d2) * 2 ^ k1 \<le> (n2 * d1) * 2 ^ k1" using assms by simp
      then show "n1 * (d2 * 2 ^ k1) \<le> n2 * (d1 * 2 ^ k1)" by (simp only: mult.assoc)
    qed (use assms in simp_all)
    with True show ?thesis by (simp add: round_mag_def Let_def k1_def k2_def)
  next
    case False
    with k have lt: "k1 < k2" by simp
    have "n1 div d1 < 2 * B * 2 ^ k1"
    proof -
      have "bitlen (n1 div d1) \<le> Suc (frac_bits f) + k1" by (simp add: k1_def)
      then have "n1 div d1 < 2 ^ (Suc (frac_bits f) + k1)" using q0 by (simp add: bitlen_le_iff)
      then show ?thesis by (simp add: B_def power_add)
    qed
    then have "(n1 div d1) div 2 ^ k1 < 2 * B"
      by (simp add: div_less_of_less_mult)
    then have h1: "half_even n1 (d1 * 2 ^ k1) \<le> 2 * B"
      using half_even_bounds [of n1 "d1 * 2 ^ k1"] assms by (simp add: zdiv_zmult2_eq)
    have "B * 2 ^ k2 \<le> n2 div d2"
    proof -
      have "bitlen (n2 div d2) - 1 = frac_bits f + k2" using lt by (simp add: k2_def)
      moreover have "0 < n2 div d2" using lt q0 q
        by (cases "n2 div d2 = 0") (auto simp: k2_def)
      ultimately show ?thesis using two_power_bitlen_le [of "n2 div d2"] by (simp add: B_def power_add)
    qed
    then have "B \<le> (n2 div d2) div 2 ^ k2"
      by (metis nonzero_mult_div_cancel_right power_not_zero zdiv_mono1 zero_less_numeral zero_less_power
          zero_neq_numeral)
    then have h2: "B \<le> half_even n2 (d2 * 2 ^ k2)"
      using half_even_bounds [of n2 "d2 * 2 ^ k2"] assms by (simp add: zdiv_zmult2_eq)
    have "int k1 * B + 2 * B \<le> int k2 * B + B"
    proof -
      have "(int k1 + 1) * B \<le> int k2 * B" using lt by (intro mult_right_mono) (auto simp: B_def)
      then show ?thesis by (simp add: algebra_simps)
    qed
    with h1 h2 show ?thesis
      by (simp add: round_mag_def Let_def flip: k1_def k2_def B_def)
  qed
qed

lemma round_mag_nonneg: "0 < d \<Longrightarrow> 0 \<le> n \<Longrightarrow> 0 \<le> round_mag f n d"
proof -
  assume "0 < d" "0 \<le> n"
  then have "0 \<le> n div (d * 2 ^ k)" for k by (simp add: pos_imp_zdiv_nonneg_iff)
  then have "0 \<le> half_even n (d * 2 ^ k)" for k
    using half_even_bounds(1) order_trans by blast
  then show ?thesis by (simp add: round_mag_def Let_def)
qed

text \<open>A representable value is its own rounding.\<close>

lemma round_mag_units [simp]: "0 \<le> m \<Longrightarrow> round_mag f (mag_units f m) 1 = m"
proof -
  assume m: "0 \<le> m"
  define B where "B = (2::int) ^ frac_bits f"
  define e where "e = m div B"
  define r where "r = m mod B"
  have B: "0 < B" and mer: "m = e * B + r" and r: "0 \<le> r" "r < B" and e: "0 \<le> e"
    using m by (simp_all add: B_def e_def r_def pos_imp_zdiv_nonneg_iff del: div_mult_mod_eq flip: div_mult_mod_eq [of m])
  show ?thesis
  proof (cases "e = 0")
    case True
    then have "mag_units f m = r" by (simp add: mag_units_def Let_def flip: B_def e_def r_def)
    moreover have "bitlen r - Suc (frac_bits f) = 0"
    proof -
      have "r < 2 ^ Suc (frac_bits f)" using r by (simp add: B_def)
      then show ?thesis using bitlen_le_iff [of r] r by simp
    qed
    ultimately show ?thesis using True mer by (simp add: round_mag_def)
  next
    case False
    define k where "k = nat (e - 1)"
    have u: "mag_units f m = (B + r) * 2 ^ k"
      using False by (simp add: mag_units_def Let_def k_def flip: B_def e_def r_def)
    have k: "int k = e - 1" using e False by (simp add: k_def)
    have "bitlen ((B + r) * 2 ^ k) = Suc (frac_bits f) + k"
    proof (rule antisym)
      have "(B + r) * 2 ^ k < (2 * B) * 2 ^ k" using r by simp
      then show "bitlen ((B + r) * 2 ^ k) \<le> Suc (frac_bits f) + k"
        using r B by (subst bitlen_le_iff) (simp_all add: B_def power_add)
      have "\<not> (B + r) * 2 ^ k < 2 ^ (frac_bits f + k)"
        using r by (simp add: B_def power_add)
      then have "\<not> bitlen ((B + r) * 2 ^ k) \<le> frac_bits f + k"
        using r B by (subst bitlen_le_iff) simp_all
      then show "Suc (frac_bits f) + k \<le> bitlen ((B + r) * 2 ^ k)" by simp
    qed
    then have "round_mag f (mag_units f m) 1 = int k * B + (B + r)"
      by (simp add: round_mag_def u flip: B_def)
    also have "\<dots> = (int k + 1) * B + r" by (simp add: algebra_simps)
    finally show ?thesis using mer k by simp
  qed
qed

lemma mag_units_strict_mono: "0 \<le> m \<Longrightarrow> m < n \<Longrightarrow> mag_units f m < mag_units f n"
proof (rule ccontr)
  assume m: "0 \<le> m" "m < n" and "\<not> mag_units f m < mag_units f n"
  then have "round_mag f (mag_units f n) 1 \<le> round_mag f (mag_units f m) 1"
    by (intro round_mag_mono) (auto simp: mag_units_nonneg)
  with m show False by simp
qed

lemma mag_units_le_iff: "0 \<le> m \<Longrightarrow> 0 \<le> n \<Longrightarrow> mag_units f m \<le> mag_units f n \<longleftrightarrow> m \<le> n"
  by (metis linorder_not_le mag_units_strict_mono order_le_less)

end
