(* ===== verification/Floats.thy ===== *)
theory Floats
  imports Soft_Float
begin

text \<open>
  The operations of \<open>f32\<close> and \<open>f64\<close> the program uses, once for both formats (\<open>fp\<close>, a decoded
  float) and then on bit patterns.  Comparisons are those of Rust: every one is false on a NaN,
  the two zeros are equal.
\<close>

section \<open>Decoded floats\<close>

datatype fp = FNan | FInf bool | FFin bool int

definition fp_pack :: "float_format \<Rightarrow> bool \<Rightarrow> int \<Rightarrow> fp" where
  "fp_pack f s m = (if inf_mag f \<le> m then FInf s else FFin s m)"

definition fp_ratio :: "float_format \<Rightarrow> bool \<Rightarrow> int \<Rightarrow> int \<Rightarrow> fp" where
  "fp_ratio f s num den = fp_pack f s (round_mag f num den)"

definition with_sign :: "bool \<Rightarrow> int \<Rightarrow> int" where
  "with_sign s z = (if s then - z else z)"

fun fp_key :: "float_format \<Rightarrow> fp \<Rightarrow> int" where
  "fp_key f FNan = 0"
| "fp_key f (FInf s) = with_sign s (inf_mag f)"
| "fp_key f (FFin s m) = with_sign s m"

definition fp_less :: "float_format \<Rightarrow> fp \<Rightarrow> fp \<Rightarrow> bool" where
  "fp_less f a b \<longleftrightarrow> a \<noteq> FNan \<and> b \<noteq> FNan \<and> fp_key f a < fp_key f b"

definition fp_less_eq :: "float_format \<Rightarrow> fp \<Rightarrow> fp \<Rightarrow> bool" where
  "fp_less_eq f a b \<longleftrightarrow> a \<noteq> FNan \<and> b \<noteq> FNan \<and> fp_key f a \<le> fp_key f b"

fun fp_finite :: "fp \<Rightarrow> bool" where
  "fp_finite (FFin s m) = True"
| "fp_finite _ = False"

fun fp_neg :: "fp \<Rightarrow> fp" where
  "fp_neg (FFin s m) = FFin (\<not> s) m"
| "fp_neg (FInf s) = FInf (\<not> s)"
| "fp_neg FNan = FNan"

fun fp_abs :: "fp \<Rightarrow> fp" where
  "fp_abs (FFin s m) = FFin False m"
| "fp_abs (FInf s) = FInf False"
| "fp_abs FNan = FNan"

fun fp_add :: "float_format \<Rightarrow> fp \<Rightarrow> fp \<Rightarrow> fp" where
  "fp_add f (FFin s m) (FFin t n) =
     (let z = with_sign s (mag_units f m) + with_sign t (mag_units f n)
      in if z = 0 then FFin (s \<and> t) 0 else fp_ratio f (z < 0) \<bar>z\<bar> 1)"
| "fp_add f (FInf s) (FInf t) = (if s = t then FInf s else FNan)"
| "fp_add f (FInf s) (FFin t n) = FInf s"
| "fp_add f (FFin s m) (FInf t) = FInf t"
| "fp_add f _ _ = FNan"

fun fp_mul :: "float_format \<Rightarrow> fp \<Rightarrow> fp \<Rightarrow> fp" where
  "fp_mul f (FFin s m) (FFin t n) = fp_ratio f (s \<noteq> t) (mag_units f m * mag_units f n) (one_units f)"
| "fp_mul f (FInf s) (FInf t) = FInf (s \<noteq> t)"
| "fp_mul f (FInf s) (FFin t n) = (if n = 0 then FNan else FInf (s \<noteq> t))"
| "fp_mul f (FFin s m) (FInf t) = (if m = 0 then FNan else FInf (s \<noteq> t))"
| "fp_mul f _ _ = FNan"

fun fp_div :: "float_format \<Rightarrow> fp \<Rightarrow> fp \<Rightarrow> fp" where
  "fp_div f (FFin s m) (FFin t n) =
     (if n = 0 then (if m = 0 then FNan else FInf (s \<noteq> t))
      else fp_ratio f (s \<noteq> t) (mag_units f m * one_units f) (mag_units f n))"
| "fp_div f (FInf s) (FFin t n) = FInf (s \<noteq> t)"
| "fp_div f (FFin s m) (FInf t) = FFin (s \<noteq> t) 0"
| "fp_div f _ _ = FNan"

text \<open>The remainder of truncated division, with the sign of the dividend; it is always exact.\<close>

fun fp_rem :: "float_format \<Rightarrow> fp \<Rightarrow> fp \<Rightarrow> fp" where
  "fp_rem f (FFin s m) (FFin t n) =
     (if n = 0 then FNan else fp_ratio f s (mag_units f m mod mag_units f n) 1)"
| "fp_rem f (FFin s m) (FInf t) = FFin s m"
| "fp_rem f _ _ = FNan"

text \<open>\<open>round\<close> takes halves away from zero.\<close>

fun fp_round :: "float_format \<Rightarrow> fp \<Rightarrow> fp" where
  "fp_round f (FFin s m) =
     fp_ratio f s ((2 * mag_units f m + one_units f) div (2 * one_units f) * one_units f) 1"
| "fp_round f v = v"

fun fp_trunc :: "float_format \<Rightarrow> fp \<Rightarrow> fp" where
  "fp_trunc f (FFin s m) = fp_ratio f s (mag_units f m div one_units f * one_units f) 1"
| "fp_trunc f v = v"

fun fp_ceil :: "float_format \<Rightarrow> fp \<Rightarrow> fp" where
  "fp_ceil f (FFin s m) =
     (if s then fp_ratio f s (mag_units f m div one_units f * one_units f) 1
      else fp_ratio f s ((mag_units f m + one_units f - 1) div one_units f * one_units f) 1)"
| "fp_ceil f v = v"

text \<open>\<open>as\<close> to an integer type of range \<open>lo..=hi\<close>: truncating and saturating, NaN to zero.\<close>

fun fp_to_int :: "float_format \<Rightarrow> int \<Rightarrow> int \<Rightarrow> fp \<Rightarrow> int" where
  "fp_to_int f lo hi FNan = 0"
| "fp_to_int f lo hi (FInf s) = (if s then lo else hi)"
| "fp_to_int f lo hi (FFin s m) = max lo (min hi (with_sign s (mag_units f m div one_units f)))"

definition fp_of_int :: "float_format \<Rightarrow> int \<Rightarrow> fp" where
  "fp_of_int f z = fp_ratio f (z < 0) (\<bar>z\<bar> * one_units f) 1"

text \<open>A literal \<open>num / den\<close> of the source.\<close>

definition fp_lit :: "float_format \<Rightarrow> int \<Rightarrow> int \<Rightarrow> fp" where
  "fp_lit f num den = fp_ratio f (num < 0) (\<bar>num\<bar> * one_units f) den"

section \<open>Bit patterns\<close>

datatype f32 = F32 (bits32: u32)
datatype f64 = F64 (bits64: u64)

definition fp32 :: "f32 \<Rightarrow> fp" where
  "fp32 x =
     (let s = bit (bits32 x) 31; m = uint (take_bit 31 (bits32 x))
      in if inf_mag b32 < m then FNan else fp_pack b32 s m)"

fun of_fp32 :: "fp \<Rightarrow> f32" where
  "of_fp32 FNan = F32 0x7FC00000"
| "of_fp32 (FInf s) = F32 (if s then 0xFF800000 else 0x7F800000)"
| "of_fp32 (FFin s m) = F32 (word_of_int (if s then 2 ^ 31 + m else m))"

definition fp64 :: "f64 \<Rightarrow> fp" where
  "fp64 x =
     (let s = bit (bits64 x) 63; m = uint (take_bit 63 (bits64 x))
      in if inf_mag b64 < m then FNan else fp_pack b64 s m)"

fun of_fp64 :: "fp \<Rightarrow> f64" where
  "of_fp64 FNan = F64 0x7FF8000000000000"
| "of_fp64 (FInf s) = F64 (if s then 0xFFF0000000000000 else 0x7FF0000000000000)"
| "of_fp64 (FFin s m) = F64 (word_of_int (if s then 2 ^ 63 + m else m))"

instantiation f32 :: "{plus, minus, uminus, times, inverse, ord, zero, one, abs}"
begin

definition plus_f32 :: "f32 \<Rightarrow> f32 \<Rightarrow> f32" where
  "plus_f32 x y = of_fp32 (fp_add b32 (fp32 x) (fp32 y))"
definition minus_f32 :: "f32 \<Rightarrow> f32 \<Rightarrow> f32" where
  "minus_f32 x y = of_fp32 (fp_add b32 (fp32 x) (fp_neg (fp32 y)))"
definition uminus_f32 :: "f32 \<Rightarrow> f32" where
  "uminus_f32 x = of_fp32 (fp_neg (fp32 x))"
definition abs_f32 :: "f32 \<Rightarrow> f32" where
  "abs_f32 x = of_fp32 (fp_abs (fp32 x))"
definition times_f32 :: "f32 \<Rightarrow> f32 \<Rightarrow> f32" where
  "times_f32 x y = of_fp32 (fp_mul b32 (fp32 x) (fp32 y))"
definition divide_f32 :: "f32 \<Rightarrow> f32 \<Rightarrow> f32" where
  "divide_f32 x y = of_fp32 (fp_div b32 (fp32 x) (fp32 y))"
definition inverse_f32 :: "f32 \<Rightarrow> f32" where
  "inverse_f32 x = of_fp32 (fp_div b32 (fp_lit b32 1 1) (fp32 x))"
definition less_f32 :: "f32 \<Rightarrow> f32 \<Rightarrow> bool" where
  "less_f32 x y = fp_less b32 (fp32 x) (fp32 y)"
definition less_eq_f32 :: "f32 \<Rightarrow> f32 \<Rightarrow> bool" where
  "less_eq_f32 x y = fp_less_eq b32 (fp32 x) (fp32 y)"
definition zero_f32 :: f32 where
  "zero_f32 = F32 0"
definition one_f32 :: f32 where
  "one_f32 = F32 0x3F800000"

instance ..

end

instantiation f64 :: "{plus, minus, uminus, times, inverse, ord, zero, one, abs}"
begin

definition plus_f64 :: "f64 \<Rightarrow> f64 \<Rightarrow> f64" where
  "plus_f64 x y = of_fp64 (fp_add b64 (fp64 x) (fp64 y))"
definition minus_f64 :: "f64 \<Rightarrow> f64 \<Rightarrow> f64" where
  "minus_f64 x y = of_fp64 (fp_add b64 (fp64 x) (fp_neg (fp64 y)))"
definition uminus_f64 :: "f64 \<Rightarrow> f64" where
  "uminus_f64 x = of_fp64 (fp_neg (fp64 x))"
definition abs_f64 :: "f64 \<Rightarrow> f64" where
  "abs_f64 x = of_fp64 (fp_abs (fp64 x))"
definition times_f64 :: "f64 \<Rightarrow> f64 \<Rightarrow> f64" where
  "times_f64 x y = of_fp64 (fp_mul b64 (fp64 x) (fp64 y))"
definition divide_f64 :: "f64 \<Rightarrow> f64 \<Rightarrow> f64" where
  "divide_f64 x y = of_fp64 (fp_div b64 (fp64 x) (fp64 y))"
definition inverse_f64 :: "f64 \<Rightarrow> f64" where
  "inverse_f64 x = of_fp64 (fp_div b64 (fp_lit b64 1 1) (fp64 x))"
definition less_f64 :: "f64 \<Rightarrow> f64 \<Rightarrow> bool" where
  "less_f64 x y = fp_less b64 (fp64 x) (fp64 y)"
definition less_eq_f64 :: "f64 \<Rightarrow> f64 \<Rightarrow> bool" where
  "less_eq_f64 x y = fp_less_eq b64 (fp64 x) (fp64 y)"
definition zero_f64 :: f64 where
  "zero_f64 = F64 0"
definition one_f64 :: f64 where
  "one_f64 = F64 0x3FF0000000000000"

instance ..

end

definition is_finite32 :: "f32 \<Rightarrow> bool" where
  "is_finite32 x = fp_finite (fp32 x)"

definition is_finite64 :: "f64 \<Rightarrow> bool" where
  "is_finite64 x = fp_finite (fp64 x)"

definition lit32 :: "int \<Rightarrow> int \<Rightarrow> f32" where
  "lit32 num den = of_fp32 (fp_lit b32 num den)"

definition lit64 :: "int \<Rightarrow> int \<Rightarrow> f64" where
  "lit64 num den = of_fp64 (fp_lit b64 num den)"

text \<open>\<open>clamp\<close>, \<open>min\<close> and \<open>max\<close> of the standard library (the latter two ignore one NaN).\<close>

definition clamp_ord :: "'a::ord \<Rightarrow> 'a \<Rightarrow> 'a \<Rightarrow> 'a" where
  "clamp_ord x lo hi =
     (let x = (if x < lo then lo else x) in if hi < x then hi else x)"

definition min32 :: "f32 \<Rightarrow> f32 \<Rightarrow> f32" where
  "min32 x y = (if fp32 x = FNan then y else if fp32 y = FNan then x else if y < x then y else x)"

definition max32 :: "f32 \<Rightarrow> f32 \<Rightarrow> f32" where
  "max32 x y = (if fp32 x = FNan then y else if fp32 y = FNan then x else if x < y then y else x)"

definition max64 :: "f64 \<Rightarrow> f64 \<Rightarrow> f64" where
  "max64 x y = (if fp64 x = FNan then y else if fp64 y = FNan then x else if x < y then y else x)"

definition rem_euclid32 :: "f32 \<Rightarrow> f32 \<Rightarrow> f32" where
  "rem_euclid32 x y =
     (let r = of_fp32 (fp_rem b32 (fp32 x) (fp32 y)) in if r < 0 then r + \<bar>y\<bar> else r)"

definition round32 :: "f32 \<Rightarrow> f32" where
  "round32 x = of_fp32 (fp_round b32 (fp32 x))"

definition round64 :: "f64 \<Rightarrow> f64" where
  "round64 x = of_fp64 (fp_round b64 (fp64 x))"

definition ceil64 :: "f64 \<Rightarrow> f64" where
  "ceil64 x = of_fp64 (fp_ceil b64 (fp64 x))"

definition trunc32 :: "f32 \<Rightarrow> f32" where
  "trunc32 x = of_fp32 (fp_trunc b32 (fp32 x))"

definition f32_as_u32 :: "f32 \<Rightarrow> u32" where
  "f32_as_u32 x = word_of_int (fp_to_int b32 0 (2 ^ 32 - 1) (fp32 x))"

definition f32_as_i32 :: "f32 \<Rightarrow> i32" where
  "f32_as_i32 x = word_of_int (fp_to_int b32 (- (2 ^ 31)) (2 ^ 31 - 1) (fp32 x))"

definition f64_as_u64 :: "f64 \<Rightarrow> u64" where
  "f64_as_u64 x = word_of_int (fp_to_int b64 0 (2 ^ 64 - 1) (fp64 x))"

definition f32_of_int :: "int \<Rightarrow> f32" where
  "f32_of_int z = of_fp32 (fp_of_int b32 z)"

definition f64_of_int :: "int \<Rightarrow> f64" where
  "f64_of_int z = of_fp64 (fp_of_int b64 z)"

section \<open>Facts about decoding and encoding\<close>

fun fp_valid :: "float_format \<Rightarrow> fp \<Rightarrow> bool" where
  "fp_valid f (FFin s m) \<longleftrightarrow> 0 \<le> m \<and> m < inf_mag f"
| "fp_valid f _ \<longleftrightarrow> True"

lemma inf_mag_simps [simp]: "inf_mag b32 = 0x7F800000" "inf_mag b64 = 0x7FF0000000000000"
  by (simp_all add: inf_mag_def b32_def b64_def)

lemma fp_valid_pack [simp]: "0 \<le> m \<Longrightarrow> fp_valid f (fp_pack f s m)"
  by (simp add: fp_pack_def)

lemma fp_valid_ratio [simp]: "0 \<le> n \<Longrightarrow> 0 < d \<Longrightarrow> fp_valid f (fp_ratio f s n d)"
  by (simp add: fp_ratio_def round_mag_nonneg)

lemma fp_valid_fp32 [simp]: "fp_valid b32 (fp32 x)"
  by (simp add: fp32_def Let_def)

lemma fp_valid_fp64 [simp]: "fp_valid b64 (fp64 x)"
  by (simp add: fp64_def Let_def)

lemma take_bit_sign_word: "0 \<le> m \<Longrightarrow> m < 2 ^ n \<Longrightarrow> n < LENGTH('a) \<Longrightarrow>
    uint (take_bit n (word_of_int (2 ^ n + m) :: 'a::len word)) = m"
proof -
  assume m: "0 \<le> m" "m < 2 ^ n" "n < LENGTH('a)"
  define z where "z = 2 ^ n + m"
  have "uint (take_bit n (word_of_int z :: 'a word)) = take_bit n z"
    using m(3) by (simp add: unsigned_take_bit_eq uint_word_of_int_eq take_bit_take_bit min_def)
  also have "\<dots> = m" using m by (simp add: z_def take_bit_eq_mod)
  finally show ?thesis by (simp add: z_def)
qed

lemma sign_word_clear: "0 \<le> m \<Longrightarrow> m < 2 ^ n \<Longrightarrow> n < LENGTH('a) \<Longrightarrow> \<not> bit (word_of_int m :: 'a::len word) n"
  by (simp add: bit_word_of_int_iff) (simp add: bit_iff_odd div_pos_pos_trivial)

lemma sign_word_set: "0 \<le> m \<Longrightarrow> m < 2 ^ n \<Longrightarrow> n < LENGTH('a) \<Longrightarrow> bit (word_of_int (2 ^ n + m) :: 'a::len word) n"
  by (simp only: bit_word_of_int_iff) (simp add: bit_iff_odd div_add_self1 div_pos_pos_trivial)

lemma fp32_of_fp32: "fp_valid b32 v \<Longrightarrow> fp32 (of_fp32 v) = v"
proof (cases v)
  case (FFin s m)
  assume "fp_valid b32 v"
  with FFin have m: "0 \<le> m" "m < 2 ^ 31" "m < 0x7F800000" by simp_all
  have "uint (take_bit 31 (word_of_int m :: u32)) = m"
    using m by (simp add: unsigned_take_bit_eq take_bit_int_eq_self_iff uint_word_of_int_eq take_bit_int_eq_self)
  moreover have "uint (take_bit 31 (word_of_int (2 ^ 31 + m) :: u32)) = m"
    using m by (intro take_bit_sign_word) simp_all
  moreover have "\<not> bit (word_of_int m :: u32) 31"
    using m by (intro sign_word_clear) simp_all
  moreover have "bit (word_of_int (2 ^ 31 + m) :: u32) 31"
    using m by (intro sign_word_set) simp_all
  ultimately show ?thesis using FFin m by (simp add: fp32_def fp_pack_def Let_def)
qed (simp_all add: fp32_def fp_pack_def)

lemma fp64_of_fp64: "fp_valid b64 v \<Longrightarrow> fp64 (of_fp64 v) = v"
proof (cases v)
  case (FFin s m)
  assume "fp_valid b64 v"
  with FFin have m: "0 \<le> m" "m < 2 ^ 63" "m < 0x7FF0000000000000" by simp_all
  have "uint (take_bit 63 (word_of_int m :: u64)) = m"
    using m by (simp add: unsigned_take_bit_eq take_bit_int_eq_self_iff uint_word_of_int_eq take_bit_int_eq_self)
  moreover have "uint (take_bit 63 (word_of_int (2 ^ 63 + m) :: u64)) = m"
    using m by (intro take_bit_sign_word) simp_all
  moreover have "\<not> bit (word_of_int m :: u64) 63"
    using m by (intro sign_word_clear) simp_all
  moreover have "bit (word_of_int (2 ^ 63 + m) :: u64) 63"
    using m by (intro sign_word_set) simp_all
  ultimately show ?thesis using FFin m by (simp add: fp64_def fp_pack_def Let_def)
qed (simp_all add: fp64_def fp_pack_def)

lemma of_fp32_fp32: "fp32 x \<noteq> FNan \<Longrightarrow> of_fp32 (fp32 x) = x"
proof -
  assume nan: "fp32 x \<noteq> FNan"
  obtain w where x: "x = F32 w" by (cases x)
  define m where "m = uint (take_bit 31 w)"
  have w: "w = word_of_int (if bit w 31 then 2 ^ 31 + m else m)"
  proof -
    have i: "uint w = take_bit 31 (uint w) + (if bit (uint w) 31 then 2 ^ 31 else 0)"
    proof -
      have "uint w < 2 ^ 32" using uint_lt2p [of w] by simp
      then have "uint w = take_bit (Suc 31) (uint w)" by (simp add: take_bit_int_eq_self)
      also have "\<dots> = take_bit 31 (uint w) + 2 ^ 31 * of_bool (bit (uint w) 31)"
        by (simp only: take_bit_Suc_from_most)
      finally show ?thesis by (cases "bit (uint w) 31") simp_all
    qed
    have "m = take_bit 31 (uint w)" by (simp add: m_def unsigned_take_bit_eq)
    with i have "uint w = (if bit w 31 then 2 ^ 31 + m else m)"
      by (auto simp: bit_uint_iff split: if_splits)
    then have "word_of_int (uint w) = (word_of_int (if bit w 31 then 2 ^ 31 + m else m) :: u32)" by simp
    then show ?thesis by (simp only: word_of_int_uint)
  qed
  have "m \<le> 0x7F800000" using nan by (auto simp: x fp32_def Let_def m_def split: if_splits)
  then consider "m < 0x7F800000" | "m = 0x7F800000" by linarith
  then show ?thesis
  proof cases
    case 1
    then have "fp32 x = FFin (bit w 31) m" by (simp add: x fp32_def Let_def fp_pack_def flip: m_def)
    with w show ?thesis by (simp add: x)
  next
    case 2
    then have "fp32 x = FInf (bit w 31)" by (simp add: x fp32_def Let_def fp_pack_def flip: m_def)
    with w 2 show ?thesis by (auto simp: x)
  qed
qed

lemma fp32_lit: "0 < den \<Longrightarrow> fp32 (lit32 num den) = fp_lit b32 num den"
  by (simp add: lit32_def fp_lit_def order_less_imp_le fp32_of_fp32)

section \<open>Ranges\<close>

definition within32 :: "f32 \<Rightarrow> f32 \<Rightarrow> f32 \<Rightarrow> bool" where
  "within32 lo hi x \<longleftrightarrow> is_finite32 x \<and> lo \<le> x \<and> x \<le> hi"

lemma finite_not_nan: "fp_finite v \<Longrightarrow> v \<noteq> FNan"
  by (cases v) auto

lemma clamp_within32: "is_finite32 x \<Longrightarrow> is_finite32 lo \<Longrightarrow> is_finite32 hi \<Longrightarrow> lo \<le> hi \<Longrightarrow>
    within32 lo hi (clamp_ord x lo hi)"
  by (auto simp: within32_def clamp_ord_def Let_def is_finite32_def less_f32_def less_eq_f32_def
      fp_less_def fp_less_eq_def dest: finite_not_nan)

lemma clamp_within32_id: "within32 lo hi x \<Longrightarrow> clamp_ord x lo hi = x"
  by (auto simp: within32_def clamp_ord_def Let_def is_finite32_def less_f32_def less_eq_f32_def
      fp_less_def fp_less_eq_def)

lemma within32_finite: "within32 lo hi x \<Longrightarrow> is_finite32 x"
  by (simp add: within32_def)

lemma mag_units_0 [simp]: "mag_units f 0 = 0"
  by (simp add: mag_units_def)

lemma mag_units_pos: "0 < m \<Longrightarrow> 0 < mag_units f m"
  using mag_units_strict_mono [of 0 m f] by simp

lemma round_mag_le: "0 < d \<Longrightarrow> 0 \<le> n \<Longrightarrow> 0 \<le> m \<Longrightarrow> n \<le> mag_units f m * d \<Longrightarrow> round_mag f n d \<le> m"
  using round_mag_mono [of d 1 n "mag_units f m" f] by simp

lemma fp_ratio_below: "0 < d \<Longrightarrow> 0 \<le> n \<Longrightarrow> 0 \<le> m \<Longrightarrow> m < inf_mag f \<Longrightarrow> n \<le> mag_units f m * d \<Longrightarrow>
    \<exists>q. fp_ratio f s n d = FFin s q \<and> 0 \<le> q \<and> q \<le> m"
  using round_mag_le [of d n m f] round_mag_nonneg [of d n f] by (simp add: fp_ratio_def fp_pack_def)

lemma finite32_cases: "is_finite32 x \<Longrightarrow> (\<And>s m. fp32 x = FFin s m \<Longrightarrow> 0 \<le> m \<Longrightarrow> m < inf_mag b32 \<Longrightarrow> P) \<Longrightarrow> P"
  using fp_valid_fp32 [of x] by (cases "fp32 x") (simp_all add: is_finite32_def)

lemma fp32_0 [simp]: "fp32 0 = FFin False 0"
  by (simp add: fp32_def zero_f32_def fp_pack_def)

lemma fp32_1 [simp]: "fp32 1 = FFin False 0x3F800000"
  by (simp add: fp32_def one_f32_def fp_pack_def)

lemma rem_euclid32_within:
  assumes "is_finite32 x" "fp32 y = FFin False n" "0 < n"
  shows "within32 0 y (rem_euclid32 x y)"
proof -
  obtain s m where x: "fp32 x = FFin s m" "0 \<le> m" using assms(1) by (rule finite32_cases)
  have n: "0 < mag_units b32 n" "n < inf_mag b32"
    using assms fp_valid_fp32 [of y] by (simp_all add: mag_units_pos)
  obtain q where q: "fp_rem b32 (fp32 x) (fp32 y) = FFin s q" "0 \<le> q" "q \<le> n"
    using fp_ratio_below [of 1 "mag_units b32 m mod mag_units b32 n" n b32 s] n assms x
    by (auto simp: pos_mod_bound order_less_imp_le)
  then have r: "fp32 (of_fp32 (fp_rem b32 (fp32 x) (fp32 y))) = FFin s q"
    using n by (simp add: fp32_of_fp32 del: of_fp32.simps)
  show ?thesis
  proof (cases "with_sign s q < 0")
    case False
    then show ?thesis
      using r q n assms by (auto simp: rem_euclid32_def Let_def less_f32_def fp_less_def within32_def
          is_finite32_def less_eq_f32_def fp_less_eq_def with_sign_def split: if_splits)
  next
    case True
    define z where "z = mag_units b32 n - mag_units b32 q"
    have z: "0 \<le> z" "z \<le> mag_units b32 n"
      using q assms by (simp_all add: z_def mag_units_le_iff mag_units_nonneg)
    obtain k where k: "fp_ratio b32 False z 1 = FFin False k" "0 \<le> k" "k \<le> n"
      using fp_ratio_below [of 1 z n b32 False] z n assms by auto
    have "fp_add b32 (FFin s q) (FFin False n) = FFin False (if z = 0 then 0 else k)"
      using True q z k by (auto simp: with_sign_def z_def Let_def split: if_splits)
    moreover have "fp32 \<bar>y\<bar> = FFin False n"
      using n assms by (simp add: abs_f32_def fp32_of_fp32 del: of_fp32.simps)
    moreover define r' where "r' = of_fp32 (fp_rem b32 (fp32 x) (fp32 y))"
    ultimately have "fp32 (r' + \<bar>y\<bar>) = FFin False (if z = 0 then 0 else k)"
      using r n k by (simp add: plus_f32_def fp32_of_fp32 del: of_fp32.simps fp_add.simps)
    moreover have "rem_euclid32 x y = r' + \<bar>y\<bar>"
      using r True by (simp add: rem_euclid32_def Let_def less_f32_def fp_less_def with_sign_def [of False] flip: r'_def)
    ultimately show ?thesis
      using k assms by (simp add: within32_def is_finite32_def less_eq_f32_def fp_less_eq_def with_sign_def)
  qed
qed

lemma scale_within32:
  assumes "within32 0 1 x" "fp32 y = FFin False n"
  shows "within32 0 y (x * y)"
proof -
  obtain s m where x: "fp32 x = FFin s m" "0 \<le> m" using assms(1) by (auto simp: within32_def elim: finite32_cases)
  have m: "m \<le> 0x3F800000" "s \<longrightarrow> m = 0"
    using assms(1) x by (auto simp: within32_def less_eq_f32_def fp_less_eq_def with_sign_def split: if_splits)
  have n: "0 \<le> n" "n < inf_mag b32" using assms fp_valid_fp32 [of y] by simp_all
  have "mag_units b32 m \<le> mag_units b32 0x3F800000" using m x by (simp add: mag_units_le_iff)
  also have "\<dots> = one_units b32" by (simp add: mag_units_def one_units_def b32_def)
  finally have "mag_units b32 m * mag_units b32 n \<le> mag_units b32 n * one_units b32"
    using n by (subst mult.commute [of "mag_units b32 n"]) (intro mult_right_mono mag_units_nonneg)
  then obtain q where q: "fp_ratio b32 (s \<noteq> False) (mag_units b32 m * mag_units b32 n) (one_units b32) = FFin (s \<noteq> False) q"
      "0 \<le> q" "q \<le> n"
    using fp_ratio_below [of "one_units b32" "mag_units b32 m * mag_units b32 n" n b32 "s \<noteq> False"] n x
    by (auto simp: mag_units_nonneg)
  moreover have "s \<longrightarrow> q = 0"
    using m q by (auto simp: fp_ratio_def fp_pack_def round_mag_def half_even_def split: if_splits)
  moreover have "fp32 (x * y) = FFin (s \<noteq> False) q"
    using x n q assms(2) by (simp add: times_f32_def fp32_of_fp32 del: of_fp32.simps)
  ultimately show ?thesis
    using n assms(2) by (auto simp: within32_def is_finite32_def less_eq_f32_def fp_less_eq_def with_sign_def)
qed

text \<open>Rounding and converting a float whose magnitude is at most a whole number \<open>k\<close>.\<close>

lemma mag_units_div_le: "0 \<le> q \<Longrightarrow> q \<le> n \<Longrightarrow> mag_units f n = k * one_units f \<Longrightarrow> mag_units f q div one_units f \<le> k"
  using zdiv_mono1 [of "mag_units f q" "mag_units f n" "one_units f"] mag_units_le_iff [of q n f] by simp

lemma fp_round_below:
  assumes "0 \<le> m" "m \<le> n" "n < inf_mag f" "mag_units f n = k * one_units f"
  shows "\<exists>q. fp_round f (FFin s m) = FFin s q \<and> 0 \<le> q \<and> q \<le> n"
proof -
  let ?o = "one_units f"
  have m: "0 \<le> mag_units f m" "mag_units f m \<le> k * ?o"
    using assms mag_units_le_iff [of m n f] by (simp_all add: mag_units_nonneg)
  have o: "0 < ?o" by simp
  have "(2 * mag_units f m + ?o) div (2 * ?o) \<le> (k * (2 * ?o) + ?o) div (2 * ?o)"
    using m by (intro zdiv_mono1) (simp_all add: algebra_simps)
  also have "\<dots> = k" using o div_mult_self3 [of "2 * ?o" k ?o] div_pos_pos_trivial [of ?o "2 * ?o"] by simp
  finally have "(2 * mag_units f m + ?o) div (2 * ?o) * ?o \<le> k * ?o" using o by (intro mult_right_mono) simp_all
  moreover have "0 \<le> (2 * mag_units f m + ?o) div (2 * ?o) * ?o"
    using m o by (intro mult_nonneg_nonneg) (simp_all add: pos_imp_zdiv_nonneg_iff)
  ultimately show ?thesis
    using assms fp_ratio_below [of 1 "(2 * mag_units f m + ?o) div (2 * ?o) * ?o" n f s] by simp
qed

lemma round32_below:
  assumes "fp32 x = FFin s m" "m \<le> n" "n < 0x7F800000" "mag_units b32 n = k * one_units b32"
  shows "\<exists>q. fp32 (round32 x) = FFin s q \<and> 0 \<le> q \<and> q \<le> n \<and> mag_units b32 q div one_units b32 \<le> k"
proof -
  have "0 \<le> m" using assms(1) fp_valid_fp32 [of x] by simp
  then obtain q where q: "fp_round b32 (FFin s m) = FFin s q" "0 \<le> q" "q \<le> n"
    using fp_round_below [of m n b32 k s] assms by auto
  then have "fp32 (round32 x) = FFin s q"
    using assms by (simp add: round32_def fp32_of_fp32 del: of_fp32.simps fp_round.simps)
  with q assms(4) show ?thesis by (auto intro: mag_units_div_le)
qed

lemma within32_0_cases: "within32 0 y x \<Longrightarrow> fp32 y = FFin False n \<Longrightarrow>
    (\<And>s m. fp32 x = FFin s m \<Longrightarrow> 0 \<le> m \<Longrightarrow> m \<le> n \<Longrightarrow> s \<longrightarrow> m = 0 \<Longrightarrow> P) \<Longrightarrow> P"
  using fp_valid_fp32 [of x] fp_valid_fp32 [of y]
  by (cases "fp32 x") (auto simp: within32_def is_finite32_def less_eq_f32_def fp_less_eq_def with_sign_def split: if_splits)

lemma rem_euclid32_id:
  assumes "within32 0 y x" "fp32 x \<noteq> fp32 y" "fp32 y = FFin False n" "0 < n"
  shows "rem_euclid32 x y = x"
proof -
  obtain s m where x: "fp32 x = FFin s m" "0 \<le> m" "m \<le> n" "s \<longrightarrow> m = 0"
    using assms(1,3) by (rule within32_0_cases)
  have "m < n" using x assms by (cases "m = n") auto
  then have "mag_units b32 m mod mag_units b32 n = mag_units b32 m"
    using x by (intro mod_pos_pos_trivial mag_units_strict_mono mag_units_nonneg)
  moreover have "m < inf_mag b32" using x fp_valid_fp32 [of x] by simp
  ultimately have "of_fp32 (fp_rem b32 (fp32 x) (fp32 y)) = of_fp32 (FFin s m)"
    using x assms(3,4) mag_units_pos [of n b32] by (simp add: fp_ratio_def fp_pack_def del: of_fp32.simps)
  also have "\<dots> = x" using x(1) of_fp32_fp32 [of x] by simp
  finally show ?thesis
    using x by (auto simp: rem_euclid32_def Let_def less_f32_def fp_less_def with_sign_def)
qed

section \<open>Small integers are exact\<close>

lemma bitlen_mult_power: "0 < z \<Longrightarrow> bitlen (z * 2 ^ k) = bitlen z + k"
proof (rule antisym)
  assume z: "0 < z"
  have "z * 2 ^ k < 2 ^ bitlen z * 2 ^ k" using less_two_power_bitlen [of z] by simp
  then show "bitlen (z * 2 ^ k) \<le> bitlen z + k" using z by (simp add: bitlen_le_iff power_add)
  have "0 < bitlen z" using z bitlen_le_iff [of z 0] by (cases "bitlen z") auto
  moreover have "2 ^ (bitlen z - 1) * 2 ^ k \<le> z * 2 ^ k" using two_power_bitlen_le [OF z] by simp
  ultimately show "bitlen z + k \<le> bitlen (z * 2 ^ k)"
    using z bitlen_le_iff [of "z * 2 ^ k" "bitlen z + k - 1"] by (cases "bitlen z") (auto simp: power_add not_less)
qed

definition format_ok :: "float_format \<Rightarrow> bool" where
  "format_ok f \<longleftrightarrow> 2 \<le> exp_bits f \<and> frac_bits f + 2 ^ (exp_bits f - 1) < 2 ^ exp_bits f"

lemma format_ok_b32 [simp]: "format_ok b32" and format_ok_b64 [simp]: "format_ok b64"
  by (simp_all add: format_ok_def b32_def b64_def)

lemma fp_of_int_exact:
  assumes f: "format_ok f" and z01: "0 \<le> z" "z < 2 ^ Suc (frac_bits f)"
  shows "\<exists>n. fp_of_int f z = FFin False n \<and> 0 \<le> n \<and> n < inf_mag f \<and> mag_units f n = z * one_units f"
proof (cases "z = 0")
  case True
  have "0 < inf_mag f" using f by (auto simp: inf_mag_def format_ok_def)
  with True show ?thesis
    by (simp add: fp_of_int_def fp_ratio_def round_mag_def fp_pack_def half_even_def)
next
  case False
  with z01 have z: "0 < z" by simp
  define F where "F = frac_bits f"
  define D where "D = 2 ^ (exp_bits f - 1) - (2::nat)"
  define L where "L = bitlen z"
  define r where "r = z * 2 ^ (Suc F - L) - 2 ^ F"
  define n where "n = int (L + D) * 2 ^ F + r"
  have D: "one_units f = 2 ^ (D + F)" by (simp add: one_units_def D_def F_def)
  have two: "(2::nat) \<le> 2 ^ (exp_bits f - 1)"
  proof -
    have "2 \<le> exp_bits f" using f by (simp add: format_ok_def)
    then have "1 \<le> exp_bits f - 1" by linarith
    then show ?thesis using power_increasing [of 1 "exp_bits f - 1" "2::nat"] by simp
  qed
  have L: "1 \<le> L" "L \<le> Suc F"
    using z z01 bitlen_le_iff [of z "Suc F"] bitlen_le_iff [of z 0] unfolding L_def F_def by (auto simp: not_le Suc_le_eq)
  have "(2::int) ^ F = 2 ^ (L - 1) * 2 ^ (Suc F - L)" using L by (simp flip: power_add)
  also have "\<dots> \<le> z * 2 ^ (Suc F - L)" using two_power_bitlen_le [OF z] by (simp add: L_def)
  finally have lo: "2 ^ F \<le> z * 2 ^ (Suc F - L)" .
  have "z * 2 ^ (Suc F - L) < 2 ^ L * 2 ^ (Suc F - L)" using less_two_power_bitlen [of z] by (simp add: L_def)
  also have "\<dots> = 2 * 2 ^ F" using L power_add [of "2::int" L "Suc F - L"] by simp
  finally have r: "0 \<le> r" "r < 2 ^ F" using lo by (simp_all add: r_def)
  have n0: "0 \<le> n" using r by (simp add: n_def)
  have "L + D < 2 ^ exp_bits f - 1" using f L two unfolding D_def F_def format_ok_def by linarith
  then have "L + D + 1 \<le> 2 ^ exp_bits f - (1::nat)" by simp
  then have "int (L + D + 1) \<le> int (2 ^ exp_bits f - 1)" by (simp only: of_nat_le_iff)
  then have "int (L + D) + 1 \<le> 2 ^ exp_bits f - 1" by (simp add: of_nat_diff)
  then have "(int (L + D) + 1) * 2 ^ F \<le> (2 ^ exp_bits f - 1) * 2 ^ F" by (intro mult_right_mono) simp_all
  then have ninf: "n < inf_mag f" using r by (simp add: n_def inf_mag_def F_def algebra_simps)
  have dm: "n div 2 ^ F = int (L + D)" "n mod 2 ^ F = r"
    using r div_pos_pos_trivial [of r "2 ^ F"] mod_pos_pos_trivial [of r "2 ^ F"]
    unfolding n_def by simp_all
  have "nat (int (L + D) - 1) = L + D - 1" by linarith
  then have "mag_units f n = (2 ^ F + r) * 2 ^ (L + D - 1)"
    using dm L by (simp add: mag_units_def Let_def F_def)
  also have "\<dots> = z * (2 ^ (Suc F - L) * 2 ^ (L + D - 1))" by (simp add: r_def)
  also have "\<dots> = z * one_units f" using L by (simp add: D add.commute flip: power_add)
  finally have u: "mag_units f n = z * one_units f" .
  then have "fp_of_int f z = FFin False n"
    using z n0 ninf round_mag_units [of n f] by (simp add: fp_of_int_def fp_ratio_def fp_pack_def)
  with n0 ninf u show ?thesis by blast
qed

lemma inf_mag_pos: "format_ok f \<Longrightarrow> 0 < inf_mag f"
  using fp_of_int_exact [of f 0] by auto

lemma frac_bits_simps [simp]: "frac_bits b32 = 23" "frac_bits b64 = 52"
  by (simp_all add: b32_def b64_def)

section \<open>Values between zero and a whole number\<close>

definition fp_upto :: "float_format \<Rightarrow> int \<Rightarrow> fp \<Rightarrow> bool" where
  "fp_upto f k v \<longleftrightarrow> (\<exists>s m. v = FFin s m \<and> 0 \<le> m \<and> m < inf_mag f \<and> (s \<longrightarrow> m = 0) \<and> mag_units f m \<le> k * one_units f)"

lemma fp_upto_FFin: "fp_upto f k (FFin s m) \<longleftrightarrow> 0 \<le> m \<and> m < inf_mag f \<and> (s \<longrightarrow> m = 0) \<and> mag_units f m \<le> k * one_units f"
  by (simp add: fp_upto_def)

lemma fp_upto_valid: "fp_upto f k v \<Longrightarrow> fp_valid f v \<and> fp_finite v"
  by (auto simp: fp_upto_def)

lemma fp_upto_mono: "fp_upto f j v \<Longrightarrow> j \<le> k \<Longrightarrow> fp_upto f k v"
proof (cases v)
  case (FFin s m)
  assume v: "fp_upto f j v" "j \<le> k"
  from v(2) have "j * one_units f \<le> k * one_units f" by (intro mult_right_mono) simp_all
  with v(1) FFin show ?thesis unfolding FFin fp_upto_FFin by (blast intro: order_trans)
qed (simp_all add: fp_upto_def)

lemma fp_upto_ratio:
  assumes "format_ok f" "0 \<le> k" "k < 2 ^ Suc (frac_bits f)" "0 < d" "0 \<le> n" "n \<le> k * one_units f * d"
  shows "fp_upto f k (fp_ratio f False n d)"
proof -
  obtain m where m: "0 \<le> m" "m < inf_mag f" "mag_units f m = k * one_units f"
    using fp_of_int_exact [OF assms(1-3)] by blast
  obtain q where "fp_ratio f False n d = FFin False q" "0 \<le> q" "q \<le> m"
    using fp_ratio_below [of d n m f False] assms m by auto
  with m show ?thesis using mag_units_le_iff [of q m f] by (simp add: fp_upto_FFin)
qed

lemma fp_upto_int: "format_ok f \<Longrightarrow> 0 \<le> k \<Longrightarrow> k < 2 ^ Suc (frac_bits f) \<Longrightarrow> fp_upto f k (fp_lit f k 1)"
  using fp_upto_ratio [of f k 1 "k * one_units f"] by (simp add: fp_lit_def)

lemma fp_upto_add:
  assumes "format_ok f" "0 \<le> a" "0 \<le> b" "a + b < 2 ^ Suc (frac_bits f)" "fp_upto f a x" "fp_upto f b y"
  shows "fp_upto f (a + b) (fp_add f x y)"
proof -
  obtain s m t n where x: "x = FFin s m" "0 \<le> m" "s \<longrightarrow> m = 0" "mag_units f m \<le> a * one_units f"
    and y: "y = FFin t n" "0 \<le> n" "t \<longrightarrow> n = 0" "mag_units f n \<le> b * one_units f"
    using assms(5,6) by (auto simp: fp_upto_def)
  have z: "with_sign s (mag_units f m) + with_sign t (mag_units f n) = mag_units f m + mag_units f n"
    using x y by (auto simp: with_sign_def)
  have nn: "0 \<le> mag_units f m + mag_units f n" using x y by (simp add: mag_units_nonneg)
  have "mag_units f m + mag_units f n \<le> (a + b) * one_units f * 1" using x y by (simp add: algebra_simps)
  from fp_upto_ratio [OF assms(1) _ assms(4) zero_less_one nn this] assms
  have "fp_upto f (a + b) (fp_ratio f False (mag_units f m + mag_units f n) 1)" by simp
  moreover have "0 < inf_mag f" using assms(1) by (rule inf_mag_pos)
  ultimately show ?thesis using x y z nn assms by (simp add: Let_def fp_upto_FFin not_less)
qed

lemma fp_upto_mul:
  assumes "format_ok f" "0 \<le> k" "k < 2 ^ Suc (frac_bits f)" "fp_upto f 1 x" "fp_upto f k y"
  shows "fp_upto f k (fp_mul f x y)"
proof -
  obtain s m t n where x: "x = FFin s m" "0 \<le> m" "s \<longrightarrow> m = 0" "mag_units f m \<le> one_units f"
    and y: "y = FFin t n" "0 \<le> n" "t \<longrightarrow> n = 0" "mag_units f n \<le> k * one_units f"
    using assms(4,5) by (auto simp: fp_upto_def)
  show ?thesis
  proof (cases "s \<noteq> t")
    case True
    then have "m = 0 \<or> n = 0" using x y by auto
    then have "fp_mul f x y = fp_ratio f True 0 (one_units f)" using True x y by auto
    moreover have "fp_ratio f True 0 (one_units f) = FFin True 0"
      using inf_mag_pos [OF assms(1)] by (simp add: fp_ratio_def fp_pack_def round_mag_def half_even_def)
    moreover have "0 < inf_mag f" using assms(1) by (rule inf_mag_pos)
    ultimately show ?thesis using assms by (simp add: fp_upto_FFin)
  next
    case False
    have "mag_units f m * mag_units f n \<le> one_units f * (k * one_units f)"
      using x y by (intro mult_mono) (simp_all add: mag_units_nonneg)
    then have "fp_upto f k (fp_ratio f False (mag_units f m * mag_units f n) (one_units f))"
      using assms x y by (intro fp_upto_ratio) (simp_all add: mag_units_nonneg mult.commute mult.left_commute)
    then show ?thesis using False x y by simp
  qed
qed

lemma fp64_upto: "fp_upto b64 k v \<Longrightarrow> fp64 (of_fp64 v) = v"
  by (simp add: fp_upto_valid fp64_of_fp64)

lemma fp64_0 [simp]: "fp64 0 = FFin False 0"
  by (simp add: fp64_def zero_f64_def fp_pack_def)

lemma fp64_1 [simp]: "fp64 1 = FFin False 0x3FF0000000000000"
  by (simp add: fp64_def one_f64_def fp_pack_def)

lemma one_units_b64: "one_units b64 = 2 ^ 1074"
  by (simp add: one_units_def b64_def)

lemma mag_units_one64: "mag_units b64 0x3FF0000000000000 = one_units b64"
  unfolding one_units_b64 by (simp add: mag_units_def b64_def)

lemma clamp_unit64: "fp64 x \<noteq> FNan \<Longrightarrow> fp_upto b64 1 (fp64 (clamp_ord x 0 1))"
proof -
  assume "fp64 x \<noteq> FNan"
  moreover have "fp_valid b64 (fp64 x)" by simp
  ultimately show ?thesis
    using mag_units_le_iff [of _ "0x3FF0000000000000" b64]
    by (cases "fp64 x") (auto simp: clamp_ord_def Let_def less_f64_def fp_less_def with_sign_def fp_upto_FFin
        mag_units_one64 not_less split: if_splits)
qed

text \<open>Multiplying a share by a weight and adding two shares, on bit patterns.\<close>

lemma upto64_mul: "fp_upto b64 1 (fp64 x) \<Longrightarrow> fp_upto b64 k (fp64 y) \<Longrightarrow> 0 \<le> k \<Longrightarrow> k < 2 ^ 53 \<Longrightarrow>
    fp_upto b64 k (fp64 (x * y))"
  using fp_upto_mul [of b64 k "fp64 x" "fp64 y"] by (simp add: times_f64_def fp64_upto)

lemma upto64_add: "fp_upto b64 a (fp64 x) \<Longrightarrow> fp_upto b64 b (fp64 y) \<Longrightarrow> 0 \<le> a \<Longrightarrow> 0 \<le> b \<Longrightarrow> a + b < 2 ^ 53 \<Longrightarrow>
    fp_upto b64 (a + b) (fp64 (x + y))"
  using fp_upto_add [of b64 a b "fp64 x" "fp64 y"] by (simp add: plus_f64_def fp64_upto)

lemma upto64_lit: "0 \<le> k \<Longrightarrow> k < 2 ^ 53 \<Longrightarrow> fp_upto b64 k (fp64 (lit64 k 1))"
  using fp_upto_int [of b64 k] by (simp add: lit64_def fp64_upto)

section \<open>Where a NaN cannot come from\<close>

lemma fp_neg_simps [simp]: "fp_valid f (fp_neg x) = fp_valid f x" "fp_neg x = FNan \<longleftrightarrow> x = FNan" "fp_finite (fp_neg x) = fp_finite x"
  by (cases x; simp)+

lemma fp_add_valid: "format_ok f \<Longrightarrow> fp_valid f x \<Longrightarrow> fp_valid f y \<Longrightarrow> fp_valid f (fp_add f x y)"
  using inf_mag_pos [of f] by (cases "(f, x, y)" rule: fp_add.cases) (auto simp: Let_def)

lemma fp_div_valid: "format_ok f \<Longrightarrow> fp_valid f x \<Longrightarrow> fp_valid f y \<Longrightarrow> fp_valid f (fp_div f x y)"
  using inf_mag_pos [of f] mag_units_pos [of _ f]
  by (cases "(f, x, y)" rule: fp_div.cases) (auto simp: mag_units_nonneg)

lemma fp_ratio_not_nan [simp]: "fp_ratio f s n d \<noteq> FNan"
  by (simp add: fp_ratio_def fp_pack_def)

lemma fp_add_not_nan: "fp_finite x \<Longrightarrow> y \<noteq> FNan \<Longrightarrow> fp_add f x y \<noteq> FNan"
  by (cases x; cases y) (auto simp: Let_def)

lemma fp_div_not_nan: "fp_finite x \<Longrightarrow> y = FFin t n \<Longrightarrow> n \<noteq> 0 \<Longrightarrow> fp_div f x y \<noteq> FNan"
  by (cases x) auto

lemma fp64_div: "fp64 (x / y) = fp_div b64 (fp64 x) (fp64 y)"
  by (simp add: divide_f64_def fp64_of_fp64 fp_div_valid)

lemma fp64_minus: "fp64 (x - y) = fp_add b64 (fp64 x) (fp_neg (fp64 y))"
  by (simp add: minus_f64_def fp64_of_fp64 fp_add_valid)

lemma finite64_cases: "is_finite64 x \<Longrightarrow> (\<And>s m. fp64 x = FFin s m \<Longrightarrow> 0 \<le> m \<Longrightarrow> m < inf_mag b64 \<Longrightarrow> P) \<Longrightarrow> P"
  using fp_valid_fp64 [of x] by (cases "fp64 x") (simp_all add: is_finite64_def)

lemma max64_1: "is_finite64 x \<Longrightarrow> \<exists>m. fp64 (max64 x 1) = FFin False m \<and> 0x3FF0000000000000 \<le> m \<and> m < inf_mag b64"
  by (erule finite64_cases) (auto simp: max64_def less_f64_def fp_less_def with_sign_def split: if_splits)

lemma lit64_nonzero: "0 < k \<Longrightarrow> k < 2 ^ 53 \<Longrightarrow> \<exists>n. fp64 (lit64 k 1) = FFin False n \<and> 0 < n \<and> n < inf_mag b64 \<and> mag_units b64 n = k * one_units b64"
proof -
  assume k: "0 < k" "k < 2 ^ 53"
  then obtain n where n: "fp_of_int b64 k = FFin False n" "0 \<le> n" "n < inf_mag b64" "mag_units b64 n = k * one_units b64"
    using fp_of_int_exact [of b64 k] by auto
  have "n \<noteq> 0" using n k by auto
  moreover have "fp_lit b64 k 1 = fp_of_int b64 k" by (simp add: fp_lit_def fp_of_int_def)
  moreover have "fp64 (of_fp64 (FFin False n)) = FFin False n" using n by (intro fp64_of_fp64) simp
  ultimately show ?thesis using n by (simp add: lit64_def)
qed

lemma fp_ceil_upto:
  assumes "format_ok f" "0 \<le> k" "k < 2 ^ Suc (frac_bits f)" "fp_upto f k v"
  shows "fp_upto f k (fp_ceil f v)"
proof -
  obtain s m where v: "v = FFin s m" "0 \<le> m" "s \<longrightarrow> m = 0" "mag_units f m \<le> k * one_units f"
    using assms(4) by (auto simp: fp_upto_def)
  have o: "0 < one_units f" by simp
  show ?thesis
  proof (cases s)
    case True
    then show ?thesis
      using v assms inf_mag_pos [OF assms(1)] by (simp add: fp_ratio_def fp_pack_def round_mag_def fp_upto_FFin)
  next
    case False
    have "(mag_units f m + one_units f - 1) div one_units f \<le> (k * one_units f + (one_units f - 1)) div one_units f"
      using v by (intro zdiv_mono1) simp_all
    also have "\<dots> = k" using o by (subst div_mult_self3) (simp_all add: div_pos_pos_trivial)
    finally have "(mag_units f m + one_units f - 1) div one_units f * one_units f \<le> k * one_units f"
      using o by (intro mult_right_mono) simp_all
    moreover have "0 \<le> (mag_units f m + one_units f - 1) div one_units f"
    proof -
      have "0 \<le> mag_units f m + one_units f - 1" using o mag_units_nonneg [OF v(2), of f] by linarith
      then show ?thesis using o by (simp only: pos_imp_zdiv_nonneg_iff)
    qed
    ultimately show ?thesis
      using False v assms fp_upto_ratio [of f k 1 "(mag_units f m + one_units f - 1) div one_units f * one_units f"] by simp
  qed
qed

lemma fp_mul_commute: "fp_mul f x y = fp_mul f y x"
proof -
  have "(s \<noteq> t) = (t \<noteq> s)" for s t :: bool by blast
  then have "fp_mul f (FFin s m) (FFin t n) = fp_mul f (FFin t n) (FFin s m)" for s m t n
    by (simp only: fp_mul.simps mult.commute)
  then show ?thesis by (cases x; cases y) (auto simp del: fp_mul.simps(1))
qed

lemma upto64_nat: "int k < 2 ^ 53 \<Longrightarrow> fp_upto b64 (int k) (fp64 (f64_of_int (int k)))"
  using fp_upto_int [of b64 "int k"] by (simp add: f64_of_int_def fp_of_int_def fp_lit_def fp64_upto)

lemma quantile_upto: "0 \<le> a \<Longrightarrow> a \<le> b \<Longrightarrow> 0 < b \<Longrightarrow> fp_upto b64 1 (fp64 (lit64 a b))"
  using fp_upto_ratio [of b64 1 b "a * one_units b64"] by (simp add: lit64_def fp_lit_def fp64_upto mult.commute mult_right_mono)

end
