(* ===== verification/Utf8.thy ===== *)
theory Utf8
  imports Prelude "HOL-Library.Char_ord"
begin

text \<open>
  Strings.  A Rust string is the list of its Unicode scalar values (\<open>ustring\<close>); what the source
  calls its length is the length of its UTF-8 encoding.  \<open>utf8_decode\<close> is \<open>std::str::from_utf8\<close>:
  it accepts exactly the well-formed sequences (no surrogate, no overlong form, nothing past
  U+10FFFF).  \<open>lit\<close> turns an ASCII literal of the source into a \<open>ustring\<close>.
\<close>

type_synonym ustring = "nat list"

definition lit :: "string \<Rightarrow> ustring" where
  "lit s = map of_char s"

definition scalar :: "nat \<Rightarrow> bool" where
  "scalar c \<longleftrightarrow> c < 0xD800 \<or> 0xE000 \<le> c \<and> c < 0x110000"

definition valid_str :: "ustring \<Rightarrow> bool" where
  "valid_str s \<longleftrightarrow> list_all scalar s"

definition cont_byte :: "nat \<Rightarrow> bool" where
  "cont_byte b \<longleftrightarrow> 0x80 \<le> b \<and> b < 0xC0"

definition utf8_char :: "nat \<Rightarrow> nat list" where
  "utf8_char c =
     (if c < 0x80 then [c]
      else if c < 0x800 then [0xC0 + c div 64, 0x80 + c mod 64]
      else if c < 0x10000 then [0xE0 + c div 4096, 0x80 + c div 64 mod 64, 0x80 + c mod 64]
      else [0xF0 + c div 262144, 0x80 + c div 4096 mod 64, 0x80 + c div 64 mod 64, 0x80 + c mod 64])"

definition utf8_bytes :: "ustring \<Rightarrow> nat list" where
  "utf8_bytes s = concat (map utf8_char s)"

fun utf8_chars :: "nat list \<Rightarrow> ustring option" where
  "utf8_chars [] = Some []"
| "utf8_chars (a # bs) =
     (if a < 0x80 then map_option (Cons a) (utf8_chars bs)
      else if a < 0xE0 then
        (case bs of b # bs' \<Rightarrow>
           let c = (a - 0xC0) * 64 + (b - 0x80)
           in if 0xC2 \<le> a \<and> cont_byte b then map_option (Cons c) (utf8_chars bs') else None
         | _ \<Rightarrow> None)
      else if a < 0xF0 then
        (case bs of b1 # b2 # bs' \<Rightarrow>
           let c = (a - 0xE0) * 4096 + (b1 - 0x80) * 64 + (b2 - 0x80)
           in if cont_byte b1 \<and> cont_byte b2 \<and> 0x800 \<le> c \<and> scalar c
              then map_option (Cons c) (utf8_chars bs') else None
         | _ \<Rightarrow> None)
      else
        (case bs of b1 # b2 # b3 # bs' \<Rightarrow>
           let c = (a - 0xF0) * 262144 + (b1 - 0x80) * 4096 + (b2 - 0x80) * 64 + (b3 - 0x80)
           in if cont_byte b1 \<and> cont_byte b2 \<and> cont_byte b3 \<and> 0x10000 \<le> c \<and> scalar c
              then map_option (Cons c) (utf8_chars bs') else None
         | _ \<Rightarrow> None))"

definition utf8_encode :: "ustring \<Rightarrow> u8 list" where
  "utf8_encode s = map word_of_nat (utf8_bytes s)"

definition utf8_decode :: "u8 list \<Rightarrow> ustring option" where
  "utf8_decode bs = utf8_chars (map unat bs)"

text \<open>\<open>str::len\<close> counts bytes.\<close>

definition str_len :: "ustring \<Rightarrow> nat" where
  "str_len s = length (utf8_bytes s)"

section \<open>Round trips\<close>

lemma utf8_bytes_Nil [simp]: "utf8_bytes [] = []"
  by (simp add: utf8_bytes_def)

lemma utf8_bytes_Cons [simp]: "utf8_bytes (c # s) = utf8_char c @ utf8_bytes s"
  by (simp add: utf8_bytes_def)

lemma utf8_bytes_append [simp]: "utf8_bytes (s @ t) = utf8_bytes s @ utf8_bytes t"
  by (simp add: utf8_bytes_def)

lemma split_base64: "c div 64 * 64 + c mod 64 = c" for c :: nat
  by simp

lemma utf8_chars_char: "scalar c \<Longrightarrow> utf8_chars (utf8_char c @ bs) = map_option (Cons c) (utf8_chars bs)"
proof -
  assume c: "scalar c"
  have m: "c mod 64 < 64" "c div 64 mod 64 < 64" "c div 4096 mod 64 < 64" by simp_all
  have d2: "c div 64 div 64 = c div 4096" "c div 4096 div 64 = c div 262144"
    by (simp_all add: div_mult2_eq [symmetric])
  consider "c < 0x80" | "0x80 \<le> c" "c < 0x800" | "0x800 \<le> c" "c < 0x10000" | "0x10000 \<le> c" by linarith
  then show ?thesis
  proof cases
    case 1
    then show ?thesis by (simp add: utf8_char_def)
  next
    case 2
    then have "2 \<le> c div 64" "c div 64 < 32" by simp_all
    with 2 m show ?thesis by (simp add: utf8_char_def cont_byte_def)
  next
    case 3
    have "c div 4096 * 4096 + c div 64 mod 64 * 64 + c mod 64 = c"
      using d2(1) div_mult_mod_eq [of "c div 64" 64] div_mult_mod_eq [of c 64] by linarith
    moreover have "c div 4096 < 16" using 3 by simp
    ultimately show ?thesis using 3 m c by (simp add: utf8_char_def cont_byte_def)
  next
    case 4
    have "c div 262144 * 262144 + c div 4096 mod 64 * 4096 + c div 64 mod 64 * 64 + c mod 64 = c"
      using d2 div_mult_mod_eq [of "c div 4096" 64] div_mult_mod_eq [of "c div 64" 64] div_mult_mod_eq [of c 64]
      by linarith
    with 4 m c show ?thesis by (simp add: utf8_char_def cont_byte_def)
  qed
qed

lemma utf8_chars_bytes: "\<forall>c \<in> set s. scalar c \<Longrightarrow> utf8_chars (utf8_bytes s) = Some s"
  by (induction s) (simp_all add: utf8_chars_char)

lemma utf8_char_less_256: "scalar c \<Longrightarrow> b \<in> set (utf8_char c) \<Longrightarrow> b < 256"
proof -
  assume c: "scalar c" "b \<in> set (utf8_char c)"
  have "c mod 64 < 64" "c div 64 mod 64 < 64" "c div 4096 mod 64 < 64" by simp_all
  moreover have "c < 0x800 \<Longrightarrow> c div 64 < 32" "c < 0x10000 \<Longrightarrow> c div 4096 < 16" "c div 262144 < 16"
    using c by (auto simp: scalar_def)
  ultimately show ?thesis using c by (auto simp: utf8_char_def split: if_splits)
qed

lemma utf8_bytes_less_256: "\<forall>c \<in> set s. scalar c \<Longrightarrow> b \<in> set (utf8_bytes s) \<Longrightarrow> b < 256"
  by (induction s) (auto dest: utf8_char_less_256)

lemma unat_of_small: "\<forall>b \<in> set bs. b < 256 \<Longrightarrow> map (\<lambda>b. unat (word_of_nat b :: u8)) bs = bs"
  by (induction bs) (auto simp: unat_of_nat)

lemma utf8_decode_encode: "\<forall>c \<in> set s. scalar c \<Longrightarrow> utf8_decode (utf8_encode s) = Some s"
  using utf8_bytes_less_256 [of s]
  by (simp add: utf8_decode_def utf8_encode_def comp_def unat_of_small utf8_chars_bytes)

lemma length_utf8_encode [simp]: "length (utf8_encode s) = str_len s"
  by (simp add: utf8_encode_def str_len_def)

lemma str_len_Nil [simp]: "str_len [] = 0"
  by (simp add: str_len_def)

lemma str_len_Cons: "str_len (c # s) = length (utf8_char c) + str_len s"
  by (simp add: str_len_def)

lemma length_utf8_char: "0 < length (utf8_char c)"
  by (simp add: utf8_char_def)

lemma str_len_0_iff [simp]: "str_len s = 0 \<longleftrightarrow> s = []"
  by (cases s) (auto simp: str_len_Cons utf8_char_def)

lemma utf8_char_2: "0x80 \<le> c \<Longrightarrow> c < 0x800 \<Longrightarrow> c = h * 64 + l \<Longrightarrow> l < 64 \<Longrightarrow> utf8_char c = [0xC0 + h, 0x80 + l]"
  by (simp add: utf8_char_def)

lemma utf8_char_3:
  assumes "0x800 \<le> c" "c < 0x10000" "c = (h * 64 + i) * 64 + l" "i < 64" "l < 64"
  shows "utf8_char c = [0xE0 + h, 0x80 + i, 0x80 + l]"
proof -
  define m where "m = h * 64 + i"
  have "c = m * 64 + l" using assms(3) by (simp only: m_def)
  then have "c div 64 = h * 64 + i" "c mod 64 = l" using assms(5) unfolding m_def [symmetric] by simp_all
  then have "c div 64 mod 64 = i" "c div 4096 = h"
    using assms(4) div_mult2_eq [of c 64 64] by simp_all
  then show ?thesis using assms(1,2) \<open>c mod 64 = l\<close> by (simp add: utf8_char_def)
qed

lemma utf8_char_4:
  assumes "0x10000 \<le> c" "c = ((h * 64 + i) * 64 + j) * 64 + l" "i < 64" "j < 64" "l < 64"
  shows "utf8_char c = [0xF0 + h, 0x80 + i, 0x80 + j, 0x80 + l]"
proof -
  define m where "m = (h * 64 + i) * 64 + j"
  have "c = m * 64 + l" using assms(2) by (simp only: m_def)
  then have a: "c div 64 = (h * 64 + i) * 64 + j" "c mod 64 = l" using assms(5) unfolding m_def [symmetric] by simp_all
  define n where "n = h * 64 + i"
  have "c div 64 = n * 64 + j" using a(1) by (simp only: n_def)
  then have b: "c div 64 mod 64 = j" "c div 4096 = h * 64 + i"
    using assms(4) div_mult2_eq [of c 64 64] unfolding n_def [symmetric] by simp_all
  then have "c div 4096 mod 64 = i" "c div 262144 = h"
    using assms(3) div_mult2_eq [of c 4096 64] by simp_all
  then show ?thesis using assms(1) a b by (simp add: utf8_char_def)
qed

lemma cont_byteE: "cont_byte b \<Longrightarrow> (\<And>k. b = 0x80 + k \<Longrightarrow> k < 64 \<Longrightarrow> P) \<Longrightarrow> P"
  by (rule meta_mp [of "b = 0x80 + (b - 0x80) \<and> b - 0x80 < 64"]) (auto simp: cont_byte_def)

lemma utf8_encode_Nil_iff [simp]: "utf8_encode s = [] \<longleftrightarrow> s = []"
  by (metis length_0_conv length_utf8_encode str_len_0_iff)

lemma str_len_pos [simp]: "0 < str_len s \<longleftrightarrow> s \<noteq> []"
  by (metis neq0_conv str_len_0_iff)

lemma utf8_chars_sound: "utf8_chars bs = Some s \<Longrightarrow> utf8_bytes s = bs \<and> (\<forall>c \<in> set s. scalar c)"
proof (induction bs arbitrary: s rule: utf8_chars.induct)
  case 1
  then show ?case by simp
next
  case (2 a bs)
  consider "a < 0x80" | "0x80 \<le> a" "a < 0xE0" | "0xE0 \<le> a" "a < 0xF0" | "0xF0 \<le> a" by linarith
  then show ?case
  proof cases
    case 1
    with 2(5) obtain s' where s: "utf8_chars bs = Some s'" "s = a # s'" by auto
    with 1 show ?thesis using 2(1) [of s'] by (simp add: utf8_char_def scalar_def)
  next
    case c: 2
    with 2(5) obtain b bs' s' where s: "bs = b # bs'" "0xC2 \<le> a" "cont_byte b"
      "utf8_chars bs' = Some s'" "s = ((a - 0xC0) * 64 + (b - 0x80)) # s'"
      by (auto simp: Let_def split: list.splits if_splits)
    have IH: "utf8_bytes s' = bs'" "\<forall>c \<in> set s'. scalar c"
      using 2(2) [of b bs' _ s'] c s by auto
    from s(3) obtain k where k: "b = 0x80 + k" "k < 64" by (rule cont_byteE)
    obtain h where h: "a = 0xC0 + h" using s(2) le_Suc_ex [of "0xC0" a] by auto
    have "utf8_char (h * 64 + k) = [0xC0 + h, 0x80 + k]"
      using s c k h by (intro utf8_char_2) auto
    with IH s c k h show ?thesis by (auto simp: scalar_def)
  next
    case c: 3
    with 2(5) obtain b1 b2 bs' s' where s: "bs = b1 # b2 # bs'" "cont_byte b1" "cont_byte b2"
      "0x800 \<le> (a - 0xE0) * 4096 + (b1 - 0x80) * 64 + (b2 - 0x80)"
      "scalar ((a - 0xE0) * 4096 + (b1 - 0x80) * 64 + (b2 - 0x80))"
      "utf8_chars bs' = Some s'" "s = ((a - 0xE0) * 4096 + (b1 - 0x80) * 64 + (b2 - 0x80)) # s'"
      by (auto simp: Let_def split: list.splits if_splits)
    have IH: "utf8_bytes s' = bs'" "\<forall>c \<in> set s'. scalar c"
      using 2(3) [of b1 _ b2 bs' _ s'] c s by auto
    from s(2) obtain i where i: "b1 = 0x80 + i" "i < 64" by (rule cont_byteE)
    from s(3) obtain l where l: "b2 = 0x80 + l" "l < 64" by (rule cont_byteE)
    obtain h where h: "a = 0xE0 + h" using c(1) by (metis le_add_diff_inverse)
    have "utf8_char (h * 4096 + i * 64 + l) = [0xE0 + h, 0x80 + i, 0x80 + l]"
      using s(4) c i l h by (intro utf8_char_3) auto
    with IH s(1,5,7) i l h show ?thesis by simp
  next
    case c: 4
    with 2(5) obtain b1 b2 b3 bs' s' where s: "bs = b1 # b2 # b3 # bs'" "cont_byte b1" "cont_byte b2" "cont_byte b3"
      "0x10000 \<le> (a - 0xF0) * 262144 + (b1 - 0x80) * 4096 + (b2 - 0x80) * 64 + (b3 - 0x80)"
      "scalar ((a - 0xF0) * 262144 + (b1 - 0x80) * 4096 + (b2 - 0x80) * 64 + (b3 - 0x80))"
      "utf8_chars bs' = Some s'"
      "s = ((a - 0xF0) * 262144 + (b1 - 0x80) * 4096 + (b2 - 0x80) * 64 + (b3 - 0x80)) # s'"
      by (auto simp: Let_def split: list.splits if_splits)
    have IH: "utf8_bytes s' = bs'" "\<forall>c \<in> set s'. scalar c"
      using 2(4) [of b1 _ b2 _ b3 bs' _ s'] c s by auto
    from s(2) obtain i where i: "b1 = 0x80 + i" "i < 64" by (rule cont_byteE)
    from s(3) obtain j where j: "b2 = 0x80 + j" "j < 64" by (rule cont_byteE)
    from s(4) obtain l where l: "b3 = 0x80 + l" "l < 64" by (rule cont_byteE)
    obtain h where h: "a = 0xF0 + h" using c(1) by (metis le_add_diff_inverse)
    have "utf8_char (h * 262144 + i * 4096 + j * 64 + l) = [0xF0 + h, 0x80 + i, 0x80 + j, 0x80 + l]"
      using s(5) i j l h by (intro utf8_char_4) auto
    with IH s(1,6,8) i j l h show ?thesis by simp
  qed
qed

lemma utf8_encode_decode: "utf8_decode bs = Some s \<Longrightarrow> utf8_encode s = bs \<and> (\<forall>c \<in> set s. scalar c)"
  using utf8_chars_sound [of "map unat bs" s] by (auto simp: utf8_decode_def utf8_encode_def intro: map_idI)

lemma valid_str_iff: "valid_str s \<longleftrightarrow> (\<forall>c \<in> set s. scalar c)"
  by (simp add: valid_str_def list_all_iff)

lemma valid_str_simps [simp]: "valid_str []" "valid_str (c # s) \<longleftrightarrow> scalar c \<and> valid_str s"
    "valid_str (s @ t) \<longleftrightarrow> valid_str s \<and> valid_str t"
  by (auto simp: valid_str_def)

lemma decode_encode_str [wire_simps]: "valid_str s \<Longrightarrow> utf8_decode (utf8_encode s) = Some s"
  by (simp add: valid_str_iff utf8_decode_encode)

lemma utf8_decode_len: "utf8_decode bs = Some s \<Longrightarrow> str_len s = length bs \<and> valid_str s"
  using utf8_encode_decode [of bs s] by (auto simp: valid_str_iff simp flip: length_utf8_encode)

lemma ascii_utf8: "\<forall>c \<in> set s. c < 128 \<Longrightarrow> utf8_encode s = map word_of_nat s"
  by (induction s) (simp_all add: utf8_encode_def utf8_char_def)

end
