(* ===== verification/Packet.thy ===== *)
theory Packet
  imports Floats Utf8
begin

text \<open>
  \<open>crates/protocol/src/packet.rs\<close>: pointer samples, their sanitising, and the binary pointer
  batch (a 16-byte header and 44 bytes a sample, all little-endian).
\<close>

section \<open>Data\<close>

definition PROTOCOL_VERSION :: u8 where
  "PROTOCOL_VERSION = 1"
definition MESSAGE_POINTER_BATCH :: u8 where
  "MESSAGE_POINTER_BATCH = 1"
definition BATCH_HEADER_LEN :: nat where
  "BATCH_HEADER_LEN = 16"
definition SAMPLE_LEN :: nat where
  "SAMPLE_LEN = 44"
definition MAX_SAMPLES_PER_BATCH :: nat where
  "MAX_SAMPLES_PER_BATCH = 512"

datatype protocol_error =
    InvalidVersion u8
  | InvalidMessageType u8
  | InvalidDevice u8
  | InvalidAction u8
  | InvalidKeyboardAction u8
  | InvalidCommand u8
  | InvalidKeyField
  | InvalidTextLength nat
  | InvalidUtf8
  | TooManySamples nat
  | Truncated nat nat
  | TrailingBytes nat

datatype device_type = Pen | Touch | Mouse

primrec device_type_as_u8 :: "device_type \<Rightarrow> u8" where
  "device_type_as_u8 Pen = 1"
| "device_type_as_u8 Touch = 2"
| "device_type_as_u8 Mouse = 3"

definition device_type_try_from :: "u8 \<Rightarrow> (device_type, protocol_error) result" where
  "device_type_try_from v =
     (if v = 1 then Ok Pen else if v = 2 then Ok Touch else if v = 3 then Ok Mouse else Err (InvalidDevice v))"

datatype action = Down | Move | Up | Cancel | Hover

definition is_terminal :: "action \<Rightarrow> bool" where
  "is_terminal a \<longleftrightarrow> a = Up \<or> a = Cancel"

definition is_contact :: "action \<Rightarrow> bool" where
  "is_contact a \<longleftrightarrow> a = Down \<or> a = Move"

primrec action_as_u8 :: "action \<Rightarrow> u8" where
  "action_as_u8 Down = 1"
| "action_as_u8 Move = 2"
| "action_as_u8 Up = 3"
| "action_as_u8 Cancel = 4"
| "action_as_u8 Hover = 5"

definition action_try_from :: "u8 \<Rightarrow> (action, protocol_error) result" where
  "action_try_from v =
     (if v = 1 then Ok Down else if v = 2 then Ok Move else if v = 3 then Ok Up
      else if v = 4 then Ok Cancel else if v = 5 then Ok Hover else Err (InvalidAction v))"

record pointer_sample =
  device_type :: device_type
  action :: action
  flags :: u16
  pointer_id :: u32
  sample_sequence :: u32
  x_norm :: f32
  y_norm :: f32
  pressure :: f32
  tilt_x_deg :: f32
  tilt_y_deg :: f32
  twist_deg :: f32
  client_time_ms :: f64

record pointer_batch =
  batch_sequence :: u32
  client_send_time_ms :: f64
  samples :: "pointer_sample list"

section \<open>Sanitising\<close>

definition finite_or :: "f32 \<Rightarrow> f32 \<Rightarrow> f32" where
  "finite_or v fallback = (if is_finite32 v then v else fallback)"

definition finite_or_zero64 :: "f64 \<Rightarrow> f64" where
  "finite_or_zero64 v = (if is_finite64 v then v else 0)"

definition f32_90 :: f32 where "f32_90 = F32 0x42B40000"
definition f32_neg_90 :: f32 where "f32_neg_90 = F32 0xC2B40000"
definition f32_360 :: f32 where "f32_360 = F32 0x43B40000"
definition f32_1024 :: f32 where "f32_1024 = F32 0x44800000"

definition sanitized :: "pointer_sample \<Rightarrow> pointer_sample" where
  "sanitized s = s\<lparr>
     x_norm := clamp_ord (finite_or (x_norm s) 0) 0 1,
     y_norm := clamp_ord (finite_or (y_norm s) 0) 0 1,
     pressure := clamp_ord (finite_or (pressure s) 0) 0 1,
     tilt_x_deg := clamp_ord (finite_or (tilt_x_deg s) 0) f32_neg_90 f32_90,
     tilt_y_deg := clamp_ord (finite_or (tilt_y_deg s) 0) f32_neg_90 f32_90,
     twist_deg := rem_euclid32 (finite_or (twist_deg s) 0) f32_360,
     client_time_ms := finite_or_zero64 (client_time_ms s)\<rparr>"

definition pressure_u32 :: "pointer_sample \<Rightarrow> u32" where
  "pressure_u32 s = f32_as_u32 (round32 (pressure (sanitized s) * f32_1024))"

definition tilt_i32 :: "pointer_sample \<Rightarrow> i32 \<times> i32" where
  "tilt_i32 s =
     (let s = sanitized s in (f32_as_i32 (round32 (tilt_x_deg s)), f32_as_i32 (round32 (tilt_y_deg s))))"

section \<open>Reading bytes\<close>

record cursor =
  cur_bytes :: "u8 list"
  cur_position :: nat

definition cursor_new :: "u8 list \<Rightarrow> cursor" where
  "cursor_new bs = \<lparr>cur_bytes = bs, cur_position = 0\<rparr>"

text \<open>
  \<open>take::<N>\<close>.  Slices are at most \<open>isize::MAX\<close> long, so the saturation of
  \<open>position.saturating_add(N)\<close> is written with the platform's maximum of 2^64 - 1.
\<close>

definition cursor_take :: "nat \<Rightarrow> cursor \<Rightarrow> (u8 list \<times> cursor, protocol_error) result" where
  "cursor_take n c =
     (let stop = min (cur_position c + n) (2 ^ 64 - 1)
      in if stop \<le> length (cur_bytes c)
         then Ok (take (stop - cur_position c) (drop (cur_position c) (cur_bytes c)), c\<lparr>cur_position := stop\<rparr>)
         else Err (Truncated stop (length (cur_bytes c))))"

definition cursor_u8 :: "cursor \<Rightarrow> (u8 \<times> cursor, protocol_error) result" where
  "cursor_u8 c = map_ok (\<lambda>(v, c). (hd v, c)) (cursor_take 1 c)"
definition cursor_u16 :: "cursor \<Rightarrow> (u16 \<times> cursor, protocol_error) result" where
  "cursor_u16 c = map_ok (\<lambda>(v, c). (from_le v, c)) (cursor_take 2 c)"
definition cursor_u32 :: "cursor \<Rightarrow> (u32 \<times> cursor, protocol_error) result" where
  "cursor_u32 c = map_ok (\<lambda>(v, c). (from_le v, c)) (cursor_take 4 c)"
definition cursor_f32 :: "cursor \<Rightarrow> (f32 \<times> cursor, protocol_error) result" where
  "cursor_f32 c = map_ok (\<lambda>(v, c). (F32 (from_le v), c)) (cursor_take 4 c)"
definition cursor_f64 :: "cursor \<Rightarrow> (f64 \<times> cursor, protocol_error) result" where
  "cursor_f64 c = map_ok (\<lambda>(v, c). (F64 (from_le v), c)) (cursor_take 8 c)"

section \<open>Writing bytes\<close>

definition put_u16 :: "u8 list \<Rightarrow> u16 \<Rightarrow> u8 list" where
  "put_u16 bs v = bs @ to_le 2 v"
definition put_u32 :: "u8 list \<Rightarrow> u32 \<Rightarrow> u8 list" where
  "put_u32 bs v = bs @ to_le 4 v"
definition put_f32 :: "u8 list \<Rightarrow> f32 \<Rightarrow> u8 list" where
  "put_f32 bs v = bs @ to_le 4 (bits32 v)"
definition put_f64 :: "u8 list \<Rightarrow> f64 \<Rightarrow> u8 list" where
  "put_f64 bs v = bs @ to_le 8 (bits64 v)"

definition encoded_len :: "pointer_batch \<Rightarrow> nat" where
  "encoded_len b = BATCH_HEADER_LEN + SAMPLE_LEN * length (samples b)"

definition put_sample :: "u8 list \<Rightarrow> pointer_sample \<Rightarrow> u8 list" where
  "put_sample bs s =
     (let bs = bs @ [device_type_as_u8 (device_type s)];
          bs = bs @ [action_as_u8 (action s)];
          bs = put_u16 bs (flags s);
          bs = put_u32 bs (pointer_id s);
          bs = put_u32 bs (sample_sequence s);
          bs = put_f32 bs (x_norm s);
          bs = put_f32 bs (y_norm s);
          bs = put_f32 bs (pressure s);
          bs = put_f32 bs (tilt_x_deg s);
          bs = put_f32 bs (tilt_y_deg s);
          bs = put_f32 bs (twist_deg s)
      in put_f64 bs (client_time_ms s))"

definition batch_encode :: "pointer_batch \<Rightarrow> (u8 list, protocol_error) result" where
  "batch_encode b =
     (if MAX_SAMPLES_PER_BATCH < length (samples b) then Err (TooManySamples (length (samples b)))
      else
        (let bs = [PROTOCOL_VERSION];
             bs = bs @ [MESSAGE_POINTER_BATCH];
             bs = put_u16 bs (word_of_nat (length (samples b)));
             bs = put_u32 bs (batch_sequence b);
             bs = put_f64 bs (client_send_time_ms b)
         in Ok (foldl put_sample bs (map sanitized (samples b)))))"

section \<open>Decoding\<close>

definition read_sample :: "cursor \<Rightarrow> (pointer_sample \<times> cursor, protocol_error) result" where
  "read_sample c =
     and_then (cursor_u8 c) (\<lambda>(d, c).
     and_then (device_type_try_from d) (\<lambda>device.
     and_then (cursor_u8 c) (\<lambda>(a, c).
     and_then (action_try_from a) (\<lambda>act.
     and_then (cursor_u16 c) (\<lambda>(fl, c).
     and_then (cursor_u32 c) (\<lambda>(pid, c).
     and_then (cursor_u32 c) (\<lambda>(sq, c).
     and_then (cursor_f32 c) (\<lambda>(x, c).
     and_then (cursor_f32 c) (\<lambda>(y, c).
     and_then (cursor_f32 c) (\<lambda>(p, c).
     and_then (cursor_f32 c) (\<lambda>(tx, c).
     and_then (cursor_f32 c) (\<lambda>(ty, c).
     and_then (cursor_f32 c) (\<lambda>(tw, c).
     and_then (cursor_f64 c) (\<lambda>(t, c).
       Ok (sanitized \<lparr>device_type = device, action = act, flags = fl, pointer_id = pid, sample_sequence = sq,
             x_norm = x, y_norm = y, pressure = p, tilt_x_deg = tx, tilt_y_deg = ty, twist_deg = tw,
             client_time_ms = t\<rparr>, c)))))))))))))))"

primrec read_samples :: "nat \<Rightarrow> cursor \<Rightarrow> (pointer_sample list \<times> cursor, protocol_error) result" where
  "read_samples 0 c = Ok ([], c)"
| "read_samples (Suc n) c =
     and_then (read_sample c) (\<lambda>(s, c). map_ok (\<lambda>(ss, c). (s # ss, c)) (read_samples n c))"

definition batch_decode :: "u8 list \<Rightarrow> (pointer_batch, protocol_error) result" where
  "batch_decode bytes =
     (if length bytes < BATCH_HEADER_LEN then Err (Truncated BATCH_HEADER_LEN (length bytes))
      else
        and_then (cursor_u8 (cursor_new bytes)) (\<lambda>(version, c).
        if version \<noteq> PROTOCOL_VERSION then Err (InvalidVersion version)
        else and_then (cursor_u8 c) (\<lambda>(message_type, c).
        if message_type \<noteq> MESSAGE_POINTER_BATCH then Err (InvalidMessageType message_type)
        else and_then (cursor_u16 c) (\<lambda>(count, c).
        let sample_count = unat count; expected = BATCH_HEADER_LEN + sample_count * SAMPLE_LEN
        in if MAX_SAMPLES_PER_BATCH < sample_count then Err (TooManySamples sample_count)
        else if length bytes \<noteq> expected then
          Err (if length bytes < expected then Truncated expected (length bytes)
               else TrailingBytes (length bytes - expected))
        else and_then (cursor_u32 c) (\<lambda>(sequence, c).
        and_then (cursor_f64 c) (\<lambda>(time, c).
        and_then (read_samples sample_count c) (\<lambda>(ss, c).
          Ok \<lparr>batch_sequence = sequence, client_send_time_ms = finite_or_zero64 time, samples = ss\<rparr>)))))))"

section \<open>Reading back what was written\<close>

definition rest :: "cursor \<Rightarrow> u8 list" where
  "rest c = drop (cur_position c) (cur_bytes c)"

definition advance :: "nat \<Rightarrow> cursor \<Rightarrow> cursor" where
  "advance n c = c\<lparr>cur_position := cur_position c + n\<rparr>"

lemma advance_simps [simp]:
  "rest (advance n c) = drop n (rest c)" "cur_position (advance n c) = cur_position c + n"
  "cur_bytes (advance n c) = cur_bytes c" "advance m (advance n c) = advance (n + m) c"
  by (simp_all add: rest_def advance_def add.commute add.assoc)

lemma cursor_new_simps [simp]: "rest (cursor_new bs) = bs" "cur_position (cursor_new bs) = 0"
    "cur_bytes (cursor_new bs) = bs"
  by (simp_all add: rest_def cursor_new_def)

lemma cursor_take_rest: "rest c = xs @ t \<Longrightarrow> length xs = n \<Longrightarrow> 0 < n \<Longrightarrow> cur_position c + n < 2 ^ 64 \<Longrightarrow>
    cursor_take n c = Ok (xs, advance n c)"
proof -
  assume r: "rest c = xs @ t" "length xs = n" "0 < n" and p: "cur_position c + n < 2 ^ 64"
  have "length (rest c) = n + length t" using r by simp
  then have "cur_position c + n \<le> length (cur_bytes c)" using r(3) by (simp add: rest_def)
  moreover have "take n (rest c) = xs" using r by simp
  ultimately show ?thesis
    using p by (simp add: cursor_take_def Let_def advance_def rest_def)
qed

lemma cursor_take_ok: "0 < n \<Longrightarrow> cur_position c + n < 2 ^ 64 \<Longrightarrow> n \<le> length (rest c) \<Longrightarrow>
    cursor_take n c = Ok (take n (rest c), advance n c)"
  by (rule cursor_take_rest [of _ _ "drop n (rest c)"]) simp_all

text \<open>
  The contract of one field of a packet: writing appends a fixed number of bytes, and reading
  at those bytes gives the value back and moves past them.
\<close>

locale wire_field =
  fixes put :: "u8 list \<Rightarrow> 'a \<Rightarrow> u8 list"
    and read :: "cursor \<Rightarrow> ('a \<times> cursor, protocol_error) result"
    and width :: nat
  assumes put_append: "put bs v = bs @ put [] v"
    and length_put: "length (put [] v) = width"
    and read_put: "rest c = put [] v @ t \<Longrightarrow> cur_position c + width < 2 ^ 64 \<Longrightarrow> read c = Ok (v, advance width c)"
begin

lemma length_put_append [simp]: "length (put bs v) = length bs + width"
  by (subst put_append) (simp add: length_put)

lemma rest_read: "rest c = put [] v @ t \<Longrightarrow> rest (advance width c) = t"
  by (simp add: length_put)

lemma read_last: "rest c = put [] v \<Longrightarrow> cur_position c + width < 2 ^ 64 \<Longrightarrow> read c = Ok (v, advance width c)"
  by (simp add: read_put)

lemma read_field: "rest c = put [] v @ t \<Longrightarrow> cur_position c + width < 2 ^ 64 \<Longrightarrow>
    and_then (read c) k = k (v, advance width c)"
  by (simp add: read_put)

end

definition put_u8 :: "u8 list \<Rightarrow> u8 \<Rightarrow> u8 list" where
  "put_u8 bs v = bs @ [v]"

interpretation fu8: wire_field put_u8 cursor_u8 1
proof
  show "cursor_u8 c = Ok (v, advance 1 c)" if "rest c = put_u8 [] v @ t" "cur_position c + 1 < 2 ^ 64" for c v t
    using that cursor_take_rest [of c "[v]" t 1] by (simp add: put_u8_def cursor_u8_def)
qed (simp_all add: put_u8_def)

interpretation fu16: wire_field put_u16 cursor_u16 2
  by unfold_locales (auto simp: put_u16_def cursor_u16_def cursor_take_rest [where n = 2] from_le_to_le)

interpretation fu32: wire_field put_u32 cursor_u32 4
  by unfold_locales (auto simp: put_u32_def cursor_u32_def cursor_take_rest [where n = 4] from_le_to_le)

interpretation ff32: wire_field put_f32 cursor_f32 4
  by unfold_locales (auto simp: put_f32_def cursor_f32_def cursor_take_rest [where n = 4] from_le_to_le)

interpretation ff64: wire_field put_f64 cursor_f64 8
  by unfold_locales (auto simp: put_f64_def cursor_f64_def cursor_take_rest [where n = 8] from_le_to_le)

lemmas field_append = fu16.put_append fu32.put_append ff32.put_append ff64.put_append

lemma device_type_round [simp]: "device_type_try_from (device_type_as_u8 d) = Ok d"
  by (cases d) (simp_all add: device_type_try_from_def)

lemma device_type_try_from_Ok: "device_type_try_from v = Ok d \<longleftrightarrow> v = device_type_as_u8 d"
  by (cases d) (auto simp: device_type_try_from_def)

lemma device_type_try_from_Err: "device_type_try_from v = Err e \<Longrightarrow> e = InvalidDevice v \<and> (\<forall>t. v \<noteq> device_type_as_u8 t)"
  using device_type_round by (fastforce simp del: device_type_round simp: device_type_try_from_def split: if_splits)

lemma action_round [simp]: "action_try_from (action_as_u8 a) = Ok a"
  by (cases a) (simp_all add: action_try_from_def)

lemma action_try_from_Ok: "action_try_from v = Ok a \<longleftrightarrow> v = action_as_u8 a"
  by (cases a) (auto simp: action_try_from_def)

lemma action_try_from_Err: "action_try_from v = Err e \<Longrightarrow> e = InvalidAction v \<and> (\<forall>t. v \<noteq> action_as_u8 t)"
  using action_round by (fastforce simp del: action_round simp: action_try_from_def split: if_splits)

definition sample_bytes :: "pointer_sample \<Rightarrow> u8 list" where
  "sample_bytes s = put_sample [] s"

lemma sample_bytes_fields: "sample_bytes s =
    put_u8 [] (device_type_as_u8 (device_type s)) @ put_u8 [] (action_as_u8 (action s)) @ put_u16 [] (flags s) @
    put_u32 [] (pointer_id s) @ put_u32 [] (sample_sequence s) @ put_f32 [] (x_norm s) @ put_f32 [] (y_norm s) @
    put_f32 [] (pressure s) @ put_f32 [] (tilt_x_deg s) @ put_f32 [] (tilt_y_deg s) @ put_f32 [] (twist_deg s) @
    put_f64 [] (client_time_ms s)"
  by (simp add: sample_bytes_def put_sample_def Let_def put_u8_def put_u16_def put_u32_def put_f32_def put_f64_def)

lemma put_sample_append: "put_sample bs s = bs @ sample_bytes s"
  by (simp add: sample_bytes_def put_sample_def Let_def put_u16_def put_u32_def put_f32_def put_f64_def)

lemma length_sample_bytes [simp]: "length (sample_bytes s) = 44"
  by (simp add: sample_bytes_fields)

lemma foldl_put_sample: "foldl put_sample bs ss = bs @ concat (map sample_bytes ss)"
  by (induction ss arbitrary: bs) (simp_all add: put_sample_append)

lemma read_sample_bytes: "rest c = sample_bytes s @ t \<Longrightarrow> cur_position c + 44 < 2 ^ 64 \<Longrightarrow>
    read_sample c = Ok (sanitized s, advance 44 c)"
  by (cases s)
    (simp add: read_sample_def sample_bytes_fields fu8.read_put fu16.read_put fu32.read_put ff32.read_put ff64.read_put
      fu8.length_put fu16.length_put fu32.length_put ff32.length_put ff64.length_put)

lemma read_samples_bytes: "rest c = concat (map sample_bytes ss) @ t \<Longrightarrow> cur_position c + 44 * length ss < 2 ^ 64 \<Longrightarrow>
    read_samples (length ss) c = Ok (map sanitized ss, advance (44 * length ss) c)"
proof (induction ss arbitrary: c)
  case Nil
  then show ?case by (simp add: advance_def)
next
  case (Cons s ss)
  then show ?case by (simp add: read_sample_bytes)
qed

section \<open>What sanitising guarantees\<close>

definition sample_ok :: "pointer_sample \<Rightarrow> bool" where
  "sample_ok s \<longleftrightarrow> within32 0 1 (x_norm s) \<and> within32 0 1 (y_norm s) \<and> within32 0 1 (pressure s) \<and>
     within32 f32_neg_90 f32_90 (tilt_x_deg s) \<and> within32 f32_neg_90 f32_90 (tilt_y_deg s) \<and>
     within32 0 f32_360 (twist_deg s) \<and> is_finite64 (client_time_ms s)"

lemma fp32_f32_90 [simp]: "fp32 f32_90 = FFin False 0x42B40000"
  by (simp add: fp32_def f32_90_def fp_pack_def)

lemma fp32_f32_neg_90 [simp]: "fp32 f32_neg_90 = FFin True 0x42B40000"
  by (simp add: fp32_def f32_neg_90_def fp_pack_def)

lemma fp32_f32_360 [simp]: "fp32 f32_360 = FFin False 0x43B40000"
  by (simp add: fp32_def f32_360_def fp_pack_def)

lemma fp32_f32_1024 [simp]: "fp32 f32_1024 = FFin False 0x44800000"
  by (simp add: fp32_def f32_1024_def fp_pack_def)

lemma finite_or_finite [simp]: "is_finite32 (finite_or v 0)"
  by (simp add: finite_or_def is_finite32_def)

lemma clamp_unit: "is_finite32 v \<Longrightarrow> within32 0 1 (clamp_ord v 0 1)"
  by (rule clamp_within32) (simp_all add: is_finite32_def less_eq_f32_def fp_less_eq_def with_sign_def)

lemma clamp_tilt: "is_finite32 v \<Longrightarrow> within32 f32_neg_90 f32_90 (clamp_ord v f32_neg_90 f32_90)"
  by (rule clamp_within32) (simp_all add: is_finite32_def less_eq_f32_def fp_less_eq_def with_sign_def)

lemma finite_or_zero64_finite [simp]: "is_finite64 (finite_or_zero64 v)"
  by (simp add: finite_or_zero64_def is_finite64_def fp64_def zero_f64_def fp_pack_def)

lemma sanitized_ok: "sample_ok (sanitized s)"
  by (auto simp: sample_ok_def sanitized_def intro: clamp_unit clamp_tilt rem_euclid32_within)

lemma read_sample_ok: "read_sample c = Ok (s, c') \<Longrightarrow> sample_ok s"
  by (auto simp: read_sample_def sanitized_ok)

lemma read_samples_ok: "read_samples n c = Ok (ss, c') \<Longrightarrow> length ss = n \<and> (\<forall>s \<in> set ss. sample_ok s)"
  by (induction n arbitrary: c ss) (auto dest: read_sample_ok)

section \<open>Decoding as a whole\<close>

lemma cursor_read_ok:
  "cur_position c + 8 < 2 ^ 64 \<Longrightarrow> 1 \<le> length (rest c) \<Longrightarrow> cursor_u8 c = Ok (hd (rest c), advance 1 c)"
  "cur_position c + 8 < 2 ^ 64 \<Longrightarrow> 2 \<le> length (rest c) \<Longrightarrow> cursor_u16 c = Ok (from_le (take 2 (rest c)), advance 2 c)"
  "cur_position c + 8 < 2 ^ 64 \<Longrightarrow> 4 \<le> length (rest c) \<Longrightarrow> cursor_u32 c = Ok (from_le (take 4 (rest c)), advance 4 c)"
  "cur_position c + 8 < 2 ^ 64 \<Longrightarrow> 4 \<le> length (rest c) \<Longrightarrow> cursor_f32 c = Ok (F32 (from_le (take 4 (rest c))), advance 4 c)"
  "cur_position c + 8 < 2 ^ 64 \<Longrightarrow> 8 \<le> length (rest c) \<Longrightarrow> cursor_f64 c = Ok (F64 (from_le (take 8 (rest c))), advance 8 c)"
  using cursor_take_ok [of 1 c] cursor_take_ok [of 2 c] cursor_take_ok [of 4 c] cursor_take_ok [of 8 c]
  by (simp_all add: cursor_u8_def cursor_u16_def cursor_u32_def cursor_f32_def cursor_f64_def hd_take)

lemma read_sample_total: "44 \<le> length (rest c) \<Longrightarrow> cur_position c + 52 < 2 ^ 64 \<Longrightarrow>
    (\<exists>s. read_sample c = Ok (s, advance 44 c)) \<or>
    (\<exists>d. read_sample c = Err (InvalidDevice d) \<and> (\<forall>t. d \<noteq> device_type_as_u8 t)) \<or>
    (\<exists>a. read_sample c = Err (InvalidAction a) \<and> (\<forall>t. a \<noteq> action_as_u8 t))"
proof -
  assume c: "44 \<le> length (rest c)" "cur_position c + 52 < 2 ^ 64"
  define d a where "d = hd (rest c)" and "a = hd (drop 1 (rest c))"
  have rd: "read_sample c = and_then (device_type_try_from d) (\<lambda>d. and_then (action_try_from a) (\<lambda>a.
      Ok (sanitized \<lparr>device_type = d, action = a, flags = from_le (take 2 (drop 2 (rest c))),
        pointer_id = from_le (take 4 (drop 4 (rest c))), sample_sequence = from_le (take 4 (drop 8 (rest c))),
        x_norm = F32 (from_le (take 4 (drop 12 (rest c)))), y_norm = F32 (from_le (take 4 (drop 16 (rest c)))),
        pressure = F32 (from_le (take 4 (drop 20 (rest c)))), tilt_x_deg = F32 (from_le (take 4 (drop 24 (rest c)))),
        tilt_y_deg = F32 (from_le (take 4 (drop 28 (rest c)))), twist_deg = F32 (from_le (take 4 (drop 32 (rest c)))),
        client_time_ms = F64 (from_le (take 8 (drop 36 (rest c))))\<rparr>, advance 44 c)))"
    using c by (simp add: read_sample_def cursor_read_ok d_def a_def del: One_nat_def)
  show ?thesis
  proof (cases "device_type_try_from d")
    case (Err e)
    then have "e = InvalidDevice d" "\<forall>t. d \<noteq> device_type_as_u8 t"
      using device_type_try_from_Err by blast+
    then show ?thesis using rd Err by simp
  next
    case (Ok dt)
    show ?thesis
    proof (cases "action_try_from a")
      case (Err e)
      then have "e = InvalidAction a" "\<forall>t. a \<noteq> action_as_u8 t"
        using action_try_from_Err by blast+
      then show ?thesis using rd Ok Err by simp
    qed (use rd Ok in simp)
  qed
qed

lemma read_samples_total: "44 * n \<le> length (rest c) \<Longrightarrow> cur_position c + 44 * n + 8 < 2 ^ 64 \<Longrightarrow>
    (\<exists>ss. read_samples n c = Ok (ss, advance (44 * n) c)) \<or>
    (\<exists>d. read_samples n c = Err (InvalidDevice d) \<and> (\<forall>t. d \<noteq> device_type_as_u8 t)) \<or>
    (\<exists>a. read_samples n c = Err (InvalidAction a) \<and> (\<forall>t. a \<noteq> action_as_u8 t))"
proof (induction n arbitrary: c)
  case 0
  then show ?case by (simp add: advance_def)
next
  case (Suc n)
  from Suc.prems have "44 \<le> length (rest c)" "cur_position c + 52 < 2 ^ 64" by simp_all
  from read_sample_total [OF this] consider
      s where "read_sample c = Ok (s, advance 44 c)"
    | d where "read_sample c = Err (InvalidDevice d)" "\<forall>t. d \<noteq> device_type_as_u8 t"
    | a where "read_sample c = Err (InvalidAction a)" "\<forall>t. a \<noteq> action_as_u8 t"
    by blast
  then show ?case
  proof cases
    case 1
    with Suc.IH [of "advance 44 c"] Suc.prems show ?thesis by auto
  qed simp_all
qed

definition header_count :: "u8 list \<Rightarrow> nat" where
  "header_count bytes = unat (from_le (take 2 (drop 2 bytes)) :: u16)"

lemma batch_decode_eq:
  assumes "BATCH_HEADER_LEN \<le> length bytes"
  shows "batch_decode bytes =
    (if hd bytes \<noteq> PROTOCOL_VERSION then Err (InvalidVersion (hd bytes))
     else if bytes ! 1 \<noteq> MESSAGE_POINTER_BATCH then Err (InvalidMessageType (bytes ! 1))
     else if MAX_SAMPLES_PER_BATCH < header_count bytes then Err (TooManySamples (header_count bytes))
     else if length bytes < 16 + 44 * header_count bytes then Err (Truncated (16 + 44 * header_count bytes) (length bytes))
     else if 16 + 44 * header_count bytes < length bytes then Err (TrailingBytes (length bytes - (16 + 44 * header_count bytes)))
     else map_ok (\<lambda>(ss, c). \<lparr>batch_sequence = from_le (take 4 (drop 4 bytes)),
         client_send_time_ms = finite_or_zero64 (F64 (from_le (take 8 (drop 8 bytes)))), samples = ss\<rparr>)
       (read_samples (header_count bytes) (advance 16 (cursor_new bytes))))"
proof -
  have l: "16 \<le> length bytes" using assms by (simp add: BATCH_HEADER_LEN_def)
  then have 1: "hd (drop 1 bytes) = bytes ! 1" by (simp add: hd_drop_conv_nth)
  let ?c = "cursor_new bytes"
  have r: "cursor_u8 ?c = Ok (hd bytes, advance 1 ?c)" "cursor_u8 (advance 1 ?c) = Ok (bytes ! 1, advance 2 ?c)"
    "cursor_u16 (advance 2 ?c) = Ok (from_le (take 2 (drop 2 bytes)), advance 4 ?c)"
    "cursor_u32 (advance 4 ?c) = Ok (from_le (take 4 (drop 4 bytes)), advance 8 ?c)"
    "cursor_f64 (advance 8 ?c) = Ok (F64 (from_le (take 8 (drop 8 bytes))), advance 16 ?c)"
    using l 1 by (simp_all add: cursor_read_ok del: One_nat_def)
  have n: "length bytes < BATCH_HEADER_LEN \<longleftrightarrow> False" "BATCH_HEADER_LEN + n * SAMPLE_LEN = 16 + 44 * n" for n
    using l by (simp_all add: BATCH_HEADER_LEN_def SAMPLE_LEN_def)
  have m: "and_then m (\<lambda>(ss, c). Ok (f ss)) = map_ok (\<lambda>(ss, c). f ss) m" for m :: "(pointer_sample list \<times> cursor, protocol_error) result"
      and f :: "pointer_sample list \<Rightarrow> pointer_batch"
    by (cases m) auto
  have e: "(if length bytes \<noteq> k then Err (if length bytes < k then t else u) else X) =
      (if length bytes < k then Err t else if k < length bytes then Err u else X)" for k t u and X :: "(pointer_batch, protocol_error) result"
    by auto
  show ?thesis
    unfolding batch_decode_def n r Let_def header_count_def [symmetric] if_False and_then.simps prod.case m
    by (simp only: e not_False_eq_True)
qed

lemma tiny_twist: "rem_euclid32 (F32 0x80000001) f32_360 = f32_360" "rem_euclid32 f32_360 f32_360 = 0"
    "is_finite32 (F32 0x80000001)" "is_finite32 f32_360"
  by code_simp+

text \<open>Sanitising is not idempotent: the remainder of the smallest negative twist rounds up to a full
  turn of 360 degrees, outside the half-open range, and a second pass reduces that to zero.\<close>
theorem sanitized_twist_not_idempotent:
  "twist_deg (sanitized (s\<lparr>twist_deg := F32 0x80000001\<rparr>)) = f32_360 \<and>
   twist_deg (sanitized (sanitized (s\<lparr>twist_deg := F32 0x80000001\<rparr>))) = 0"
  by (simp add: sanitized_def finite_or_def tiny_twist)

section \<open>Properties\<close>

lemma encode_eq: "length (samples b) \<le> 512 \<Longrightarrow> batch_encode b =
    Ok ([1, 1] @ to_le 2 (word_of_nat (length (samples b)) :: u16) @ to_le 4 (batch_sequence b) @
      to_le 8 (bits64 (client_send_time_ms b)) @ concat (map sample_bytes (map sanitized (samples b))))"
  by (simp add: batch_encode_def MAX_SAMPLES_PER_BATCH_def Let_def put_u16_def put_u32_def put_f64_def
      foldl_put_sample PROTOCOL_VERSION_def MESSAGE_POINTER_BATCH_def)

lemma length_concat_sample_bytes [simp]: "length (concat (map (sample_bytes \<circ> f) ss)) = 44 * length ss"
  by (induction ss) simp_all

lemma decode_encode:
  assumes n: "length (samples b) \<le> 512" and bs: "batch_encode b = Ok bytes"
  shows "batch_decode bytes = Ok (b\<lparr>client_send_time_ms := finite_or_zero64 (client_send_time_ms b),
    samples := map (sanitized \<circ> sanitized) (samples b)\<rparr>)"
proof -
  let ?n = "length (samples b)"
  have bytes: "bytes = [1, 1] @ to_le 2 (word_of_nat ?n :: u16) @ to_le 4 (batch_sequence b) @
      to_le 8 (bits64 (client_send_time_ms b)) @ concat (map sample_bytes (map sanitized (samples b)))"
    using encode_eq [OF n] bs by simp
  have c: "header_count bytes = ?n"
    using n by (simp add: header_count_def bytes from_le_to_le unat_of_nat)
  have l: "length bytes = 16 + 44 * ?n" by (simp add: bytes)
  have f: "from_le (take 4 (drop 4 bytes)) = batch_sequence b"
      "(from_le (take 8 (drop 8 bytes)) :: u64) = bits64 (client_send_time_ms b)"
    by (simp_all add: bytes from_le_to_le)
  have "rest (advance 16 (cursor_new bytes)) = concat (map sample_bytes (map sanitized (samples b))) @ []"
    by (simp add: bytes)
  then have "read_samples ?n (advance 16 (cursor_new bytes)) =
      Ok (map (sanitized \<circ> sanitized) (samples b), advance (44 * ?n) (advance 16 (cursor_new bytes)))"
    using read_samples_bytes [of "advance 16 (cursor_new bytes)" "map sanitized (samples b)" "[]"] n by simp
  moreover have "hd bytes = 1" "bytes ! 1 = 1" by (simp_all add: bytes)
  ultimately show ?thesis
    using n by (simp add: batch_decode_eq l c f BATCH_HEADER_LEN_def PROTOCOL_VERSION_def MESSAGE_POINTER_BATCH_def
        MAX_SAMPLES_PER_BATCH_def)
qed

text \<open>A sample sanitising leaves alone: in range, with a twist strictly below a full turn.\<close>

definition canonical :: "pointer_sample \<Rightarrow> bool" where
  "canonical s \<longleftrightarrow> sample_ok s \<and> fp32 (twist_deg s) \<noteq> fp32 f32_360"

lemma sanitized_canonical: "canonical s \<Longrightarrow> sanitized s = s"
proof -
  assume s: "canonical s"
  then have "finite_or_zero64 (client_time_ms s) = client_time_ms s"
    by (simp add: canonical_def sample_ok_def finite_or_zero64_def)
  moreover have "rem_euclid32 (twist_deg s) f32_360 = twist_deg s"
    using s by (intro rem_euclid32_id [of _ _ "0x43B40000"]) (simp_all add: canonical_def sample_ok_def)
  moreover have "clamp_ord (finite_or v 0) lo hi = v" if "within32 lo hi v" for v lo hi
    using that by (simp add: finite_or_def within32_finite clamp_within32_id)
  moreover have "finite_or (twist_deg s) 0 = twist_deg s"
    using s within32_finite by (auto simp: canonical_def sample_ok_def finite_or_def)
  ultimately show ?thesis
    using s by (simp add: canonical_def sample_ok_def sanitized_def)
qed

text \<open>C1: a batch of at most 512 samples encodes to \<open>16 + 44 n\<close> bytes, and decoding them gives
  the batch back with every sample sanitised; when the samples and the send time are already in
  their canonical range the round trip is exact.\<close>
theorem batch_roundtrip:
  assumes "length (samples b) \<le> MAX_SAMPLES_PER_BATCH"
  shows "\<exists>bytes. batch_encode b = Ok bytes \<and> length bytes = encoded_len b \<and>
    batch_decode bytes = Ok (b\<lparr>client_send_time_ms := finite_or_zero64 (client_send_time_ms b),
      samples := map (sanitized \<circ> sanitized) (samples b)\<rparr>) \<and>
    (is_finite64 (client_send_time_ms b) \<and> (\<forall>s \<in> set (samples b). canonical s) \<longrightarrow> batch_decode bytes = Ok b)"
proof -
  have n: "length (samples b) \<le> 512" using assms by (simp add: MAX_SAMPLES_PER_BATCH_def)
  obtain bytes where bytes: "batch_encode b = Ok bytes" "length bytes = encoded_len b"
    using encode_eq [OF n] by (simp add: encoded_len_def BATCH_HEADER_LEN_def SAMPLE_LEN_def)
  moreover have "map (sanitized \<circ> sanitized) (samples b) = samples b" if "\<forall>s \<in> set (samples b). canonical s"
    using that by (intro map_idI) (simp add: sanitized_canonical)
  ultimately show ?thesis
    using decode_encode [OF n bytes(1)] by (auto simp: finite_or_zero64_def)
qed

definition pen_sample :: pointer_sample where
  "pen_sample = \<lparr>device_type = Pen, action = Move, flags = 7, pointer_id = 42, sample_sequence = - 1,
     x_norm = F32 0x3E800000, y_norm = F32 0x3F400000, pressure = F32 0x3F000000, tilt_x_deg = F32 0xC1F00000,
     tilt_y_deg = F32 0x41F80000, twist_deg = F32 0x42F60000, client_time_ms = F64 0x407C840000000000\<rparr>"

definition pen_batch :: pointer_batch where
  "pen_batch = \<lparr>batch_sequence = 99, client_send_time_ms = F64 0x408F440000000000, samples = [pen_sample]\<rparr>"

lemma pen_batch_canonical: "is_finite64 (client_send_time_ms pen_batch) \<and> (\<forall>s \<in> set (samples pen_batch). canonical s)"
  by (simp add: pen_batch_def pen_sample_def canonical_def sample_ok_def within32_def is_finite32_def is_finite64_def
      fp32_def fp64_def fp_pack_def less_eq_f32_def fp_less_eq_def with_sign_def Let_def one_f32_def zero_f32_def
      f32_90_def f32_neg_90_def f32_360_def)

lemma batch_roundtrip_witness: "\<exists>bytes. batch_encode pen_batch = Ok bytes \<and> batch_decode bytes = Ok pen_batch"
  using batch_roundtrip [of pen_batch] pen_batch_canonical by (auto simp: pen_batch_def MAX_SAMPLES_PER_BATCH_def)

lemma batch_decode_facts:
  assumes "batch_decode bytes = Ok b"
  shows "length bytes = 16 + 44 * length (samples b) \<and> length (samples b) \<le> 512 \<and>
    (\<forall>s \<in> set (samples b). sample_ok s) \<and> is_finite64 (client_send_time_ms b)"
proof -
  have l: "BATCH_HEADER_LEN \<le> length bytes" using assms by (auto simp: batch_decode_def split: if_splits)
  obtain ss c where "read_samples (header_count bytes) (advance 16 (cursor_new bytes)) = Ok (ss, c)"
    "samples b = ss" "is_finite64 (client_send_time_ms b)" "header_count bytes \<le> 512"
    "length bytes = 16 + 44 * header_count bytes"
    using assms by (auto simp: batch_decode_eq [OF l] MAX_SAMPLES_PER_BATCH_def split: if_splits)
  then show ?thesis by (auto dest!: read_samples_ok)
qed

lemma batch_decode_bounds: "batch_decode bytes = Ok b \<Longrightarrow>
    length (samples b) \<le> 512 \<and> (\<forall>s \<in> set (samples b). sample_ok s)"
  using batch_decode_facts by blast

text \<open>Whatever bytes arrive, a batch that decodes has exactly the length its header announces, at
  most 512 samples, finite coordinates, pressure and tilt inside their ranges and a finite time.\<close>
theorem batch_decode_safe:
  assumes "batch_decode bytes = Ok b"
  shows "length bytes = encoded_len b \<and> length (samples b) \<le> MAX_SAMPLES_PER_BATCH \<and>
    (\<forall>s \<in> set (samples b). sample_ok s) \<and> is_finite64 (client_send_time_ms b)"
  using batch_decode_facts [OF assms]
  by (simp add: encoded_len_def BATCH_HEADER_LEN_def SAMPLE_LEN_def MAX_SAMPLES_PER_BATCH_def)

lemma batch_decode_safe_witness: "\<exists>bytes. batch_decode bytes = Ok pen_batch \<and> length bytes = 60"
proof -
  have n: "length (samples pen_batch) \<le> 512" by (simp add: pen_batch_def)
  obtain bytes where "batch_encode pen_batch = Ok bytes" using encode_eq [OF n] by blast
  with decode_encode [OF n] have d: "batch_decode bytes = Ok pen_batch"
    using pen_batch_canonical by (simp add: pen_batch_def sanitized_canonical finite_or_zero64_def)
  with batch_decode_safe [OF d] show ?thesis
    by (auto simp: encoded_len_def pen_batch_def BATCH_HEADER_LEN_def SAMPLE_LEN_def)
qed

text \<open>Every error of the decoder names its cause truthfully: the version or type byte that was
  wrong, the count above 512, the length that was missing or left over, the device or action byte
  that stands for no device or action; no other error is possible.\<close>
theorem batch_decode_error:
  assumes "batch_decode bytes = Err e"
  shows "case e of
      Truncated n m \<Rightarrow> m = length bytes \<and> m < n \<and> (n = BATCH_HEADER_LEN \<or> n = BATCH_HEADER_LEN + header_count bytes * SAMPLE_LEN)
    | TrailingBytes k \<Rightarrow> 0 < k \<and> length bytes = BATCH_HEADER_LEN + header_count bytes * SAMPLE_LEN + k
    | InvalidVersion v \<Rightarrow> v = hd bytes \<and> v \<noteq> PROTOCOL_VERSION
    | InvalidMessageType m \<Rightarrow> m = bytes ! 1 \<and> m \<noteq> MESSAGE_POINTER_BATCH
    | TooManySamples n \<Rightarrow> n = header_count bytes \<and> MAX_SAMPLES_PER_BATCH < n
    | InvalidDevice d \<Rightarrow> (\<forall>t. d \<noteq> device_type_as_u8 t)
    | InvalidAction a \<Rightarrow> (\<forall>t. a \<noteq> action_as_u8 t)
    | _ \<Rightarrow> False"
proof (cases "BATCH_HEADER_LEN \<le> length bytes")
  case False
  then show ?thesis using assms by (auto simp: batch_decode_def)
next
  case True
  have "44 * n \<le> length (rest (advance 16 (cursor_new bytes)))" if "length bytes = 16 + 44 * n" for n
    using that by simp
  with read_samples_total [of "header_count bytes" "advance 16 (cursor_new bytes)"]
  show ?thesis
    using assms by (auto simp: batch_decode_eq [OF True] BATCH_HEADER_LEN_def SAMPLE_LEN_def MAX_SAMPLES_PER_BATCH_def
        split: if_splits)
qed

lemma batch_decode_error_witness: "batch_decode [9] = Err (Truncated 16 1) \<and> (1::nat) < 16"
  using batch_decode_error [of "[9]" "Truncated 16 1"] by (simp add: batch_decode_def BATCH_HEADER_LEN_def)

lemma one_units_b32: "one_units b32 = 2 ^ 149"
  by (simp add: one_units_def b32_def)

lemma f32_as_u32_below: "fp32 x = FFin s q \<Longrightarrow> 0 \<le> q \<Longrightarrow> mag_units b32 q div one_units b32 \<le> k \<Longrightarrow> k < 2 ^ 32 \<Longrightarrow>
    uint (f32_as_u32 x) \<le> k"
  using mag_units_nonneg [of q b32] pos_imp_zdiv_nonneg_iff [of "one_units b32" "mag_units b32 q"]
  by (auto simp: f32_as_u32_def with_sign_def uint_word_of_int_eq take_bit_int_eq_self)

lemma f32_as_i32_below: "fp32 x = FFin s q \<Longrightarrow> 0 \<le> q \<Longrightarrow> mag_units b32 q div one_units b32 \<le> k \<Longrightarrow> k < 2 ^ 31 \<Longrightarrow>
    - k \<le> sint (f32_as_i32 x) \<and> sint (f32_as_i32 x) \<le> k"
proof -
  assume a: "fp32 x = FFin s q" "0 \<le> q" "mag_units b32 q div one_units b32 \<le> k" "k < 2 ^ 31"
  let ?v = "with_sign s (mag_units b32 q div one_units b32)"
  have "0 \<le> mag_units b32 q div one_units b32"
    using a mag_units_nonneg [of q b32] by (simp add: pos_imp_zdiv_nonneg_iff)
  then have "- k \<le> ?v" "?v \<le> k" using a by (auto simp: with_sign_def)
  moreover from this have "sint (word_of_int ?v :: i32) = ?v"
    using a(4) by (simp add: sint_sbintrunc' signed_take_bit_int_eq_self)
  ultimately show ?thesis using a by (simp add: f32_as_i32_def)
qed

text \<open>The native pen values derived from any sample, sanitised or not, stay inside the ranges
  Windows documents: pressure in 0..1024 and both tilts in -90..90.\<close>
theorem native_pen_ranges:
  "uint (pressure_u32 s) \<le> 1024 \<and> \<bar>sint (fst (tilt_i32 s))\<bar> \<le> 90 \<and> \<bar>sint (snd (tilt_i32 s))\<bar> \<le> 90"
proof -
  have 1024: "mag_units b32 0x44800000 = 1024 * one_units b32" and 90: "mag_units b32 0x42B40000 = 90 * one_units b32"
    by (simp_all add: one_units_b32) (simp_all add: mag_units_def b32_def)
  have ok: "sample_ok (sanitized s)" by (rule sanitized_ok)
  have "within32 0 f32_1024 (pressure (sanitized s) * f32_1024)"
    using ok by (intro scale_within32 [of _ _ "0x44800000"]) (simp_all add: sample_ok_def)
  then obtain sg m where "fp32 (pressure (sanitized s) * f32_1024) = FFin sg m" "m \<le> 0x44800000"
    by (rule within32_0_cases) simp_all
  then have p: "uint (pressure_u32 s) \<le> 1024"
    using round32_below [of _ sg m "0x44800000" 1024] 1024 f32_as_u32_below [of _ _ _ 1024]
    by (fastforce simp: pressure_u32_def)
  have t: "\<bar>sint (f32_as_i32 (round32 x))\<bar> \<le> 90" if "within32 f32_neg_90 f32_90 x" for x
  proof -
    have "\<exists>sg m. fp32 x = FFin sg m \<and> 0 \<le> m \<and> m \<le> 0x42B40000"
    proof (rule finite32_cases [of x])
      show "is_finite32 x" using that by (rule within32_finite)
      fix sg m assume "fp32 x = FFin sg m" "0 \<le> m"
      with that show ?thesis
        by (auto simp: within32_def less_eq_f32_def fp_less_eq_def with_sign_def split: if_splits)
    qed
    then obtain sg m where "fp32 x = FFin sg m" "0 \<le> m" "m \<le> 0x42B40000" by blast
    then obtain q where "fp32 (round32 x) = FFin sg q" "0 \<le> q" "mag_units b32 q div one_units b32 \<le> 90"
      using round32_below [of x sg m "0x42B40000" 90] 90 by auto
    from f32_as_i32_below [OF this] show ?thesis by (simp add: abs_le_iff)
  qed
  show ?thesis using p t ok by (simp add: tilt_i32_def Let_def sample_ok_def)
qed

end
