(* ===== verification/Remote.thy ===== *)
theory Remote
  imports Packet
begin

text \<open>
  \<open>crates/protocol/src/remote.rs\<close>: the wheel, keyboard, text and command messages and the
  dispatch \<open>InputMessage::decode\<close> over all five message kinds.  The file has a cursor of its own,
  which can start anywhere; its operations are shown equal to those of the pointer codec.
\<close>

section \<open>Constants and cursor\<close>

definition MESSAGE_WHEEL :: u8 where "MESSAGE_WHEEL = 2"
definition MESSAGE_KEYBOARD :: u8 where "MESSAGE_KEYBOARD = 3"
definition MESSAGE_TEXT :: u8 where "MESSAGE_TEXT = 4"
definition MESSAGE_COMMAND :: u8 where "MESSAGE_COMMAND = 5"
definition WHEEL_BYTES :: nat where "WHEEL_BYTES = 32"
definition KEYBOARD_HEADER_BYTES :: nat where "KEYBOARD_HEADER_BYTES = 24"
definition TEXT_HEADER_BYTES :: nat where "TEXT_HEADER_BYTES = 20"
definition COMMAND_BYTES :: nat where "COMMAND_BYTES = 16"
definition MAX_KEY_FIELD_BYTES :: nat where "MAX_KEY_FIELD_BYTES = 64"
definition MAX_TEXT_BYTES :: nat where "MAX_TEXT_BYTES = 4096"

definition rcursor_new :: "u8 list \<Rightarrow> nat \<Rightarrow> cursor" where
  "rcursor_new bs p = \<lparr>cur_bytes = bs, cur_position = p\<rparr>"

definition rcursor_after_header :: "u8 list \<Rightarrow> cursor" where
  "rcursor_after_header bs = rcursor_new bs 2"

definition rcursor_take_slice :: "nat \<Rightarrow> cursor \<Rightarrow> (u8 list \<times> cursor, protocol_error) result" where
  "rcursor_take_slice n c =
     (let stop = min (cur_position c + n) (2 ^ 64 - 1)
      in if stop \<le> length (cur_bytes c)
         then Ok (take (stop - cur_position c) (drop (cur_position c) (cur_bytes c)), c\<lparr>cur_position := stop\<rparr>)
         else Err (Truncated stop (length (cur_bytes c))))"

definition rcursor_take :: "nat \<Rightarrow> cursor \<Rightarrow> (u8 list \<times> cursor, protocol_error) result" where
  "rcursor_take n c = and_then (rcursor_take_slice n c) (\<lambda>(v, c). Ok (v, c))"

definition rcursor_u8 :: "cursor \<Rightarrow> (u8 \<times> cursor, protocol_error) result" where
  "rcursor_u8 c = map_ok (\<lambda>(v, c). (hd v, c)) (rcursor_take 1 c)"
definition rcursor_u16 :: "cursor \<Rightarrow> (u16 \<times> cursor, protocol_error) result" where
  "rcursor_u16 c = map_ok (\<lambda>(v, c). (from_le v, c)) (rcursor_take 2 c)"
definition rcursor_u32 :: "cursor \<Rightarrow> (u32 \<times> cursor, protocol_error) result" where
  "rcursor_u32 c = map_ok (\<lambda>(v, c). (from_le v, c)) (rcursor_take 4 c)"
definition rcursor_u64 :: "cursor \<Rightarrow> (u64 \<times> cursor, protocol_error) result" where
  "rcursor_u64 c = map_ok (\<lambda>(v, c). (from_le v, c)) (rcursor_take 8 c)"
definition rcursor_f32 :: "cursor \<Rightarrow> (f32 \<times> cursor, protocol_error) result" where
  "rcursor_f32 c = map_ok (\<lambda>(v, c). (F32 (from_le v), c)) (rcursor_take 4 c)"
definition rcursor_f64 :: "cursor \<Rightarrow> (f64 \<times> cursor, protocol_error) result" where
  "rcursor_f64 c = map_ok (\<lambda>(v, c). (F64 (from_le v), c)) (rcursor_take 8 c)"

definition rput_u16 :: "u8 list \<Rightarrow> u16 \<Rightarrow> u8 list" where
  "rput_u16 bs v = bs @ to_le 2 v"
definition rput_u32 :: "u8 list \<Rightarrow> u32 \<Rightarrow> u8 list" where
  "rput_u32 bs v = bs @ to_le 4 v"
definition rput_u64 :: "u8 list \<Rightarrow> u64 \<Rightarrow> u8 list" where
  "rput_u64 bs v = bs @ to_le 8 v"
definition rput_f32 :: "u8 list \<Rightarrow> f32 \<Rightarrow> u8 list" where
  "rput_f32 bs v = bs @ to_le 4 (bits32 v)"
definition rput_f64 :: "u8 list \<Rightarrow> f64 \<Rightarrow> u8 list" where
  "rput_f64 bs v = bs @ to_le 8 (bits64 v)"

definition minimum_len :: "u8 list \<Rightarrow> nat \<Rightarrow> (unit, protocol_error) result" where
  "minimum_len bytes expected =
     (if length bytes < expected then Err (Truncated expected (length bytes)) else Ok ())"

definition exact_len :: "u8 list \<Rightarrow> nat \<Rightarrow> (unit, protocol_error) result" where
  "exact_len bytes expected =
     and_then (minimum_len bytes expected) (\<lambda>_.
     if expected < length bytes then Err (TrailingBytes (length bytes - expected)) else Ok ())"

definition utf8 :: "u8 list \<Rightarrow> (ustring, protocol_error) result" where
  "utf8 bytes = ok_or InvalidUtf8 (utf8_decode bytes)"

section \<open>Wheel\<close>

record wheel_input =
  wh_modifiers :: u16
  wh_sequence :: u32
  wh_x_norm :: f32
  wh_y_norm :: f32
  wh_delta_x :: f32
  wh_delta_y :: f32
  wh_client_time_ms :: f64

definition finite_f32 :: "f32 \<Rightarrow> f32" where
  "finite_f32 v = (if is_finite32 v then v else 0)"

definition finite_f64 :: "f64 \<Rightarrow> f64" where
  "finite_f64 v = (if is_finite64 v then v else 0)"

definition f32_10000 :: f32 where "f32_10000 = F32 0x461C4000"
definition f32_neg_10000 :: f32 where "f32_neg_10000 = F32 0xC61C4000"

definition wheel_sanitized :: "wheel_input \<Rightarrow> wheel_input" where
  "wheel_sanitized w = w\<lparr>
     wh_x_norm := clamp_ord (finite_f32 (wh_x_norm w)) 0 1,
     wh_y_norm := clamp_ord (finite_f32 (wh_y_norm w)) 0 1,
     wh_delta_x := clamp_ord (finite_f32 (wh_delta_x w)) f32_neg_10000 f32_10000,
     wh_delta_y := clamp_ord (finite_f32 (wh_delta_y w)) f32_neg_10000 f32_10000,
     wh_client_time_ms := finite_f64 (wh_client_time_ms w)\<rparr>"

definition wheel_encode :: "wheel_input \<Rightarrow> u8 list" where
  "wheel_encode w =
     (let v = wheel_sanitized w;
          bs = [PROTOCOL_VERSION, MESSAGE_WHEEL];
          bs = rput_u16 bs (wh_modifiers v);
          bs = rput_u32 bs (wh_sequence v);
          bs = rput_f32 bs (wh_x_norm v);
          bs = rput_f32 bs (wh_y_norm v);
          bs = rput_f32 bs (wh_delta_x v);
          bs = rput_f32 bs (wh_delta_y v)
      in rput_f64 bs (wh_client_time_ms v))"

definition wheel_decode :: "u8 list \<Rightarrow> (wheel_input, protocol_error) result" where
  "wheel_decode bytes =
     and_then (exact_len bytes WHEEL_BYTES) (\<lambda>_.
     and_then (rcursor_u16 (rcursor_after_header bytes)) (\<lambda>(m, c).
     and_then (rcursor_u32 c) (\<lambda>(sq, c).
     and_then (rcursor_f32 c) (\<lambda>(x, c).
     and_then (rcursor_f32 c) (\<lambda>(y, c).
     and_then (rcursor_f32 c) (\<lambda>(dx, c).
     and_then (rcursor_f32 c) (\<lambda>(dy, c).
     and_then (rcursor_f64 c) (\<lambda>(t, c).
       Ok (wheel_sanitized \<lparr>wh_modifiers = m, wh_sequence = sq, wh_x_norm = x, wh_y_norm = y,
             wh_delta_x = dx, wh_delta_y = dy, wh_client_time_ms = t\<rparr>)))))))))"

section \<open>Keyboard\<close>

datatype key_action = KeyDown | KeyUp

primrec key_action_as_u8 :: "key_action \<Rightarrow> u8" where
  "key_action_as_u8 KeyDown = 1"
| "key_action_as_u8 KeyUp = 2"

definition key_action_try_from :: "u8 \<Rightarrow> (key_action, protocol_error) result" where
  "key_action_try_from v = (if v = 1 then Ok KeyDown else if v = 2 then Ok KeyUp else Err (InvalidKeyboardAction v))"

record keyboard_input =
  kb_action :: key_action
  kb_location :: u8
  kb_repeat :: bool
  kb_modifiers :: u16
  kb_sequence :: u32
  kb_client_time_ms :: u64
  kb_code :: ustring
  kb_key :: ustring

definition validate_key_lengths :: "nat \<Rightarrow> nat \<Rightarrow> (unit, protocol_error) result" where
  "validate_key_lengths code_len key_len =
     (if code_len = 0 \<or> MAX_KEY_FIELD_BYTES < code_len \<or> MAX_KEY_FIELD_BYTES < key_len then Err InvalidKeyField
      else Ok ())"

definition is_ascii :: "u8 list \<Rightarrow> bool" where
  "is_ascii bs \<longleftrightarrow> list_all (\<lambda>b. b < 128) bs"

definition validate_key_fields :: "u8 list \<Rightarrow> u8 list \<Rightarrow> (unit, protocol_error) result" where
  "validate_key_fields code key =
     and_then (validate_key_lengths (length code) (length key)) (\<lambda>_.
     if code = [] \<or> \<not> is_ascii code then Err InvalidKeyField else Ok ())"

definition keyboard_encode :: "keyboard_input \<Rightarrow> (u8 list, protocol_error) result" where
  "keyboard_encode k =
     (let code = utf8_encode (kb_code k); key = utf8_encode (kb_key k)
      in and_then (validate_key_fields code key) (\<lambda>_.
        let bs = [PROTOCOL_VERSION, MESSAGE_KEYBOARD, key_action_as_u8 (kb_action k), kb_location k];
            bs = rput_u16 bs (kb_modifiers k);
            bs = bs @ [of_bool (kb_repeat k)];
            bs = bs @ [0];
            bs = rput_u32 bs (kb_sequence k);
            bs = rput_u64 bs (kb_client_time_ms k);
            bs = rput_u16 bs (word_of_nat (length code));
            bs = rput_u16 bs (word_of_nat (length key));
            bs = bs @ code
        in Ok (bs @ key)))"

definition keyboard_decode :: "u8 list \<Rightarrow> (keyboard_input, protocol_error) result" where
  "keyboard_decode bytes =
     and_then (minimum_len bytes KEYBOARD_HEADER_BYTES) (\<lambda>_.
     and_then (rcursor_u8 (rcursor_after_header bytes)) (\<lambda>(a, c).
     and_then (key_action_try_from a) (\<lambda>act.
     and_then (rcursor_u8 c) (\<lambda>(location, c).
     and_then (rcursor_u16 c) (\<lambda>(modifiers, c).
     and_then (rcursor_u8 c) (\<lambda>(rep, c).
     and_then (rcursor_u8 c) (\<lambda>(reserved, c).
     and_then (rcursor_u32 c) (\<lambda>(sequence, c).
     and_then (rcursor_u64 c) (\<lambda>(time, c).
     and_then (rcursor_u16 c) (\<lambda>(cl, c).
     and_then (rcursor_u16 c) (\<lambda>(kl, c).
     let code_len = unat cl; key_len = unat kl
     in and_then (validate_key_lengths code_len key_len) (\<lambda>_.
     and_then (exact_len bytes (KEYBOARD_HEADER_BYTES + code_len + key_len)) (\<lambda>_.
     and_then (rcursor_take_slice code_len c) (\<lambda>(code_bytes, c).
     and_then (utf8 code_bytes) (\<lambda>code.
     and_then (rcursor_take_slice key_len c) (\<lambda>(key_bytes, c).
     and_then (utf8 key_bytes) (\<lambda>key.
       Ok \<lparr>kb_action = act, kb_location = location, kb_repeat = (rep \<noteq> 0), kb_modifiers = modifiers,
          kb_sequence = sequence, kb_client_time_ms = time, kb_code = code, kb_key = key\<rparr>)))))))))))))))))"

section \<open>Text\<close>

record text_input =
  tx_sequence :: u32
  tx_client_time_ms :: u64
  tx_text :: ustring

definition text_encode :: "text_input \<Rightarrow> (u8 list, protocol_error) result" where
  "text_encode t =
     (let text = utf8_encode (tx_text t)
      in if text = [] \<or> MAX_TEXT_BYTES < length text then Err (InvalidTextLength (length text))
      else
        (let bs = [PROTOCOL_VERSION, MESSAGE_TEXT, 0, 0];
             bs = rput_u32 bs (tx_sequence t);
             bs = rput_u64 bs (tx_client_time_ms t);
             bs = rput_u32 bs (word_of_nat (length text))
         in Ok (bs @ text)))"

definition text_decode :: "u8 list \<Rightarrow> (text_input, protocol_error) result" where
  "text_decode bytes =
     and_then (minimum_len bytes TEXT_HEADER_BYTES) (\<lambda>_.
     and_then (rcursor_u32 (rcursor_new bytes 4)) (\<lambda>(sequence, c).
     and_then (rcursor_u64 c) (\<lambda>(time, c).
     and_then (rcursor_u32 c) (\<lambda>(n, c).
     let text_len = unat n
     in if text_len = 0 \<or> MAX_TEXT_BYTES < text_len then Err (InvalidTextLength text_len)
     else and_then (exact_len bytes (TEXT_HEADER_BYTES + text_len)) (\<lambda>_.
     and_then (rcursor_take_slice text_len c) (\<lambda>(text_bytes, c).
     and_then (utf8 text_bytes) (\<lambda>text.
       Ok \<lparr>tx_sequence = sequence, tx_client_time_ms = time, tx_text = text\<rparr>)))))))"

section \<open>Commands\<close>

datatype remote_command = AppNext | AppPrevious | MinimizeForeground | TaskView | ResetInput

primrec remote_command_as_u8 :: "remote_command \<Rightarrow> u8" where
  "remote_command_as_u8 AppNext = 1"
| "remote_command_as_u8 AppPrevious = 2"
| "remote_command_as_u8 MinimizeForeground = 3"
| "remote_command_as_u8 TaskView = 4"
| "remote_command_as_u8 ResetInput = 5"

definition remote_command_try_from :: "u8 \<Rightarrow> (remote_command, protocol_error) result" where
  "remote_command_try_from v =
     (if v = 1 then Ok AppNext else if v = 2 then Ok AppPrevious else if v = 3 then Ok MinimizeForeground
      else if v = 4 then Ok TaskView else if v = 5 then Ok ResetInput else Err (InvalidCommand v))"

record command_input =
  cm_command :: remote_command
  cm_sequence :: u32
  cm_client_time_ms :: u64

definition command_encode :: "command_input \<Rightarrow> u8 list" where
  "command_encode cmd =
     (let bs = [PROTOCOL_VERSION, MESSAGE_COMMAND, remote_command_as_u8 (cm_command cmd), 0];
          bs = rput_u32 bs (cm_sequence cmd)
      in rput_u64 bs (cm_client_time_ms cmd))"

definition command_decode :: "u8 list \<Rightarrow> (command_input, protocol_error) result" where
  "command_decode bytes =
     and_then (exact_len bytes COMMAND_BYTES) (\<lambda>_.
     and_then (rcursor_u8 (rcursor_new bytes 2)) (\<lambda>(v, c).
     and_then (remote_command_try_from v) (\<lambda>command.
     and_then (rcursor_u8 c) (\<lambda>(reserved, c).
     and_then (rcursor_u32 c) (\<lambda>(sequence, c).
     and_then (rcursor_u64 c) (\<lambda>(time, c).
       Ok \<lparr>cm_command = command, cm_sequence = sequence, cm_client_time_ms = time\<rparr>))))))"

section \<open>Dispatch\<close>

datatype input_message =
    Pointer pointer_batch
  | Wheel wheel_input
  | Keyboard keyboard_input
  | Text text_input
  | Command command_input

definition input_decode :: "u8 list \<Rightarrow> (input_message, protocol_error) result" where
  "input_decode bytes =
     (if length bytes < 2 then Err (Truncated 2 (length bytes))
      else if bytes ! 0 \<noteq> PROTOCOL_VERSION then Err (InvalidVersion (bytes ! 0))
      else if bytes ! 1 = 1 then map_ok Pointer (batch_decode bytes)
      else if bytes ! 1 = MESSAGE_WHEEL then map_ok Wheel (wheel_decode bytes)
      else if bytes ! 1 = MESSAGE_KEYBOARD then map_ok Keyboard (keyboard_decode bytes)
      else if bytes ! 1 = MESSAGE_TEXT then map_ok Text (text_decode bytes)
      else if bytes ! 1 = MESSAGE_COMMAND then map_ok Command (command_decode bytes)
      else Err (InvalidMessageType (bytes ! 1)))"

section \<open>The two cursors agree\<close>

lemma rcursor_take_slice_eq [simp]: "rcursor_take_slice n c = cursor_take n c"
  by (simp add: rcursor_take_slice_def cursor_take_def)

lemma rcursor_take_eq [simp]: "rcursor_take n c = cursor_take n c"
  by (cases "cursor_take n c") (auto simp: rcursor_take_def)

lemma rcursor_eq [simp]: "rcursor_u8 c = cursor_u8 c" "rcursor_u16 c = cursor_u16 c" "rcursor_u32 c = cursor_u32 c"
    "rcursor_f32 c = cursor_f32 c" "rcursor_f64 c = cursor_f64 c"
  by (simp_all add: rcursor_u8_def rcursor_u16_def rcursor_u32_def rcursor_f32_def rcursor_f64_def
      cursor_u8_def cursor_u16_def cursor_u32_def cursor_f32_def cursor_f64_def)

lemma rput_eq [simp]: "rput_u16 = put_u16" "rput_u32 = put_u32" "rput_f32 = put_f32" "rput_f64 = put_f64"
  by (simp_all add: fun_eq_iff rput_u16_def rput_u32_def rput_f32_def rput_f64_def put_u16_def put_u32_def
      put_f32_def put_f64_def)

lemma rcursor_new_simps [simp]: "rest (rcursor_new bs p) = drop p bs" "cur_position (rcursor_new bs p) = p"
    "rest (rcursor_after_header bs) = drop 2 bs" "cur_position (rcursor_after_header bs) = 2"
  by (simp_all add: rest_def rcursor_new_def rcursor_after_header_def)

interpretation fu64: wire_field rput_u64 rcursor_u64 8
  by unfold_locales (auto simp: rput_u64_def rcursor_u64_def cursor_take_rest [where n = 8] from_le_to_le)

lemma rcursor_u64_ok: "cur_position c + 8 < 2 ^ 64 \<Longrightarrow> 8 \<le> length (rest c) \<Longrightarrow>
    rcursor_u64 c = Ok (from_le (take 8 (rest c)), advance 8 c)"
  using cursor_take_ok [of 8 c] by (simp add: rcursor_u64_def)

lemma take_slice_ok: "n \<le> length (rest c) \<Longrightarrow> cur_position c + n < 2 ^ 64 \<Longrightarrow>
    cur_position c \<le> length (cur_bytes c) \<Longrightarrow> cursor_take n c = Ok (take n (rest c), advance n c)"
  by (simp add: cursor_take_def Let_def rest_def advance_def)

lemma exact_len_Ok [simp]: "exact_len bytes n = Ok u \<longleftrightarrow> length bytes = n"
  by (auto simp: exact_len_def minimum_len_def)

lemma exact_len_self [simp]: "length bytes = n \<Longrightarrow> exact_len bytes n = Ok ()"
  by (simp add: exact_len_def minimum_len_def)

lemma minimum_len_self [simp]: "n \<le> length bytes \<Longrightarrow> minimum_len bytes n = Ok ()"
  by (simp add: minimum_len_def)

lemmas put_fields = put_u16_def put_u32_def put_f32_def put_f64_def rput_u64_def

section \<open>One message after another\<close>

text \<open>
  The contract of one message kind: what is encoded starts with the version and the kind, and
  decoding gives the message back in its normal form.  The dispatch theorem is proved once
  from it.
\<close>

locale message_codec =
  fixes encode :: "'m \<Rightarrow> (u8 list, protocol_error) result"
    and decode :: "u8 list \<Rightarrow> ('m, protocol_error) result"
    and kind :: u8
    and wrap :: "'m \<Rightarrow> input_message"
    and valid :: "'m \<Rightarrow> bool"
    and normal :: "'m \<Rightarrow> 'm"
  assumes encode_header: "encode m = Ok bytes \<Longrightarrow> \<exists>t. bytes = PROTOCOL_VERSION # kind # t"
    and decode_encoded: "valid m \<Longrightarrow> encode m = Ok bytes \<Longrightarrow> decode bytes = Ok (normal m)"
    and dispatch: "input_decode (PROTOCOL_VERSION # kind # t) = map_ok wrap (decode (PROTOCOL_VERSION # kind # t))"
begin

lemma dispatch_roundtrip: "valid m \<Longrightarrow> encode m = Ok bytes \<Longrightarrow> input_decode bytes = Ok (wrap (normal m))"
  using encode_header [of m bytes] decode_encoded [of m bytes] dispatch by auto

lemma encoded_length: "encode m = Ok bytes \<Longrightarrow> 2 \<le> length bytes"
  using encode_header [of m bytes] by auto

end

lemmas message_constants = PROTOCOL_VERSION_def MESSAGE_POINTER_BATCH_def MESSAGE_WHEEL_def MESSAGE_KEYBOARD_def
  MESSAGE_TEXT_def MESSAGE_COMMAND_def

interpretation pointer_codec: message_codec batch_encode batch_decode MESSAGE_POINTER_BATCH Pointer "\<lambda>_. True"
  "\<lambda>b. b\<lparr>client_send_time_ms := finite_or_zero64 (client_send_time_ms b), samples := map (sanitized \<circ> sanitized) (samples b)\<rparr>"
proof
  fix b bytes assume e: "batch_encode b = Ok bytes"
  then have n: "length (samples b) \<le> 512" by (auto simp: batch_encode_def MAX_SAMPLES_PER_BATCH_def split: if_splits)
  from encode_eq [OF n] e show "\<exists>t. bytes = PROTOCOL_VERSION # MESSAGE_POINTER_BATCH # t"
    by (auto simp: message_constants)
  from decode_encode [OF n e] show "batch_decode bytes = Ok (b\<lparr>client_send_time_ms :=
      finite_or_zero64 (client_send_time_ms b), samples := map (sanitized \<circ> sanitized) (samples b)\<rparr>)" .
qed (simp add: input_decode_def message_constants)

lemma clamp_clamp: "is_finite32 v \<Longrightarrow> is_finite32 lo \<Longrightarrow> is_finite32 hi \<Longrightarrow> lo \<le> hi \<Longrightarrow>
    clamp_ord (finite_f32 (clamp_ord (finite_f32 v) lo hi)) lo hi = clamp_ord (finite_f32 v) lo hi"
  using clamp_within32 [of v lo hi] by (simp add: finite_f32_def clamp_within32_id within32_finite)

lemma fp32_f32_10000 [simp]: "fp32 f32_10000 = FFin False 0x461C4000" "fp32 f32_neg_10000 = FFin True 0x461C4000"
  by (simp_all add: fp32_def f32_10000_def f32_neg_10000_def fp_pack_def)

lemma wheel_sanitized_idem [simp]: "wheel_sanitized (wheel_sanitized w) = wheel_sanitized w"
proof -
  have f: "is_finite32 (finite_f32 v)" "finite_f32 (finite_f32 v) = finite_f32 v" "finite_f64 (finite_f64 t) = finite_f64 t" for v t
    by (auto simp: finite_f32_def finite_f64_def is_finite32_def is_finite64_def)
  have "clamp_ord (finite_f32 (clamp_ord (finite_f32 v) lo hi)) lo hi = clamp_ord (finite_f32 v) lo hi"
    if "is_finite32 lo" "is_finite32 hi" "lo \<le> hi" for v lo hi
    using clamp_clamp [of "finite_f32 v" lo hi] that f by simp
  moreover have "is_finite32 0" "is_finite32 1" "is_finite32 f32_10000" "is_finite32 f32_neg_10000" "(0::f32) \<le> 1"
    "f32_neg_10000 \<le> f32_10000"
    by (simp_all add: is_finite32_def less_eq_f32_def fp_less_eq_def with_sign_def)
  ultimately show ?thesis by (simp add: wheel_sanitized_def f)
qed

lemma wheel_roundtrip: "wheel_decode (wheel_encode w) = Ok (wheel_sanitized w)"
proof -
  let ?v = "wheel_sanitized w" and ?b = "wheel_encode w"
  have b: "?b = [PROTOCOL_VERSION, MESSAGE_WHEEL] @ put_u16 [] (wh_modifiers ?v) @ put_u32 [] (wh_sequence ?v) @
      put_f32 [] (wh_x_norm ?v) @ put_f32 [] (wh_y_norm ?v) @ put_f32 [] (wh_delta_x ?v) @
      put_f32 [] (wh_delta_y ?v) @ put_f64 [] (wh_client_time_ms ?v)"
    by (simp add: wheel_encode_def Let_def put_fields)
  have "length ?b = WHEEL_BYTES" by (simp add: b WHEEL_BYTES_def)
  moreover have "wheel_sanitized \<lparr>wh_modifiers = wh_modifiers ?v, wh_sequence = wh_sequence ?v, wh_x_norm = wh_x_norm ?v,
      wh_y_norm = wh_y_norm ?v, wh_delta_x = wh_delta_x ?v, wh_delta_y = wh_delta_y ?v,
      wh_client_time_ms = wh_client_time_ms ?v\<rparr> = ?v"
    using wheel_sanitized_idem [of w] by (cases ?v) simp
  moreover have "rest (rcursor_after_header ?b) = put_u16 [] (wh_modifiers ?v) @ put_u32 [] (wh_sequence ?v) @
      put_f32 [] (wh_x_norm ?v) @ put_f32 [] (wh_y_norm ?v) @ put_f32 [] (wh_delta_x ?v) @
      put_f32 [] (wh_delta_y ?v) @ put_f64 [] (wh_client_time_ms ?v)" by (simp add: b)
  ultimately show ?thesis
    by (simp add: wheel_decode_def fu16.read_put fu32.read_put ff32.read_put ff64.read_last
        fu16.length_put fu32.length_put ff32.length_put)
qed

lemma wheel_encode_header: "\<exists>t. wheel_encode w = PROTOCOL_VERSION # MESSAGE_WHEEL # t"
  by (simp add: wheel_encode_def Let_def put_fields)

interpretation wheel_codec: message_codec "\<lambda>w. Ok (wheel_encode w)" wheel_decode MESSAGE_WHEEL Wheel "\<lambda>_. True" wheel_sanitized
  using wheel_encode_header by unfold_locales (auto simp: wheel_roundtrip input_decode_def message_constants)

lemma remote_command_round [simp]: "remote_command_try_from (remote_command_as_u8 c) = Ok c"
  by (cases c) (simp_all add: remote_command_try_from_def)

lemma command_roundtrip: "command_decode (command_encode c) = Ok c"
proof -
  let ?b = "command_encode c"
  have b: "?b = [PROTOCOL_VERSION, MESSAGE_COMMAND] @ put_u8 [] (remote_command_as_u8 (cm_command c)) @ put_u8 [] 0 @
      put_u32 [] (cm_sequence c) @ rput_u64 [] (cm_client_time_ms c)"
    by (simp add: command_encode_def Let_def put_fields put_u8_def)
  have "length ?b = COMMAND_BYTES" by (simp add: b COMMAND_BYTES_def)
  moreover have "rest (rcursor_new ?b 2) = put_u8 [] (remote_command_as_u8 (cm_command c)) @ put_u8 [] 0 @
      put_u32 [] (cm_sequence c) @ rput_u64 [] (cm_client_time_ms c)" by (simp add: b)
  ultimately show ?thesis
    by (simp add: command_decode_def fu8.read_put fu32.read_put fu64.read_last fu8.length_put fu32.length_put)
qed

lemma command_encode_header: "\<exists>t. command_encode c = PROTOCOL_VERSION # MESSAGE_COMMAND # t"
  by (simp add: command_encode_def Let_def put_fields)

interpretation command_codec: message_codec "\<lambda>c. Ok (command_encode c)" command_decode MESSAGE_COMMAND Command "\<lambda>_. True" "\<lambda>c. c"
  using command_encode_header by unfold_locales (auto simp: command_roundtrip input_decode_def message_constants)

lemma text_roundtrip: "valid_str (tx_text t) \<Longrightarrow> text_encode t = Ok bytes \<Longrightarrow> text_decode bytes = Ok t"
proof -
  assume v: "valid_str (tx_text t)" and e: "text_encode t = Ok bytes"
  let ?x = "utf8_encode (tx_text t)"
  have x: "?x \<noteq> []" "0 < length ?x" "length ?x \<le> 4096"
    using e by (auto simp: text_encode_def Let_def MAX_TEXT_BYTES_def split: if_splits)
  have b: "bytes = [PROTOCOL_VERSION, MESSAGE_TEXT, 0, 0] @ put_u32 [] (tx_sequence t) @
      rput_u64 [] (tx_client_time_ms t) @ put_u32 [] (word_of_nat (length ?x)) @ ?x"
    using e by (auto simp: text_encode_def Let_def put_fields split: if_splits)
  have "length bytes = TEXT_HEADER_BYTES + length ?x" "TEXT_HEADER_BYTES \<le> length bytes"
    by (simp_all add: b TEXT_HEADER_BYTES_def)
  moreover have "rest (rcursor_new bytes 4) = put_u32 [] (tx_sequence t) @
      rput_u64 [] (tx_client_time_ms t) @ put_u32 [] (word_of_nat (length ?x)) @ ?x" by (simp add: b)
  moreover have "unat (word_of_nat (length ?x) :: u32) = length ?x" using x by (simp add: unat_of_nat)
  moreover have "cursor_take (length ?x) (advance 16 (rcursor_new bytes 4)) = Ok (?x, advance (16 + length ?x) (rcursor_new bytes 4))"
    using x by (subst cursor_take_rest [of _ ?x "[]"]) (simp_all add: b)
  ultimately show ?thesis
    using x v by (simp add: text_decode_def fu32.read_put fu64.read_put fu32.length_put fu64.length_put Let_def
        MAX_TEXT_BYTES_def utf8_def decode_encode_str)
qed

interpretation text_codec: message_codec text_encode text_decode MESSAGE_TEXT Text "\<lambda>t. valid_str (tx_text t)" "\<lambda>t. t"
  by unfold_locales
    (auto simp: text_roundtrip text_encode_def Let_def put_fields input_decode_def message_constants split: if_splits)

lemma key_action_round [simp]: "key_action_try_from (key_action_as_u8 a) = Ok a"
  by (cases a) (simp_all add: key_action_try_from_def)

lemma keyboard_roundtrip:
  assumes v: "valid_str (kb_code k)" "valid_str (kb_key k)" and e: "keyboard_encode k = Ok bytes"
  shows "keyboard_decode bytes = Ok k"
proof -
  let ?x = "utf8_encode (kb_code k)" and ?y = "utf8_encode (kb_key k)"
  have x: "?x \<noteq> []" "0 < length ?x" "length ?x \<le> 64" "length ?y \<le> 64"
    using e by (auto simp: keyboard_encode_def Let_def MAX_KEY_FIELD_BYTES_def validate_key_fields_def
        validate_key_lengths_def split: if_splits)
  let ?h = "put_u8 [] (key_action_as_u8 (kb_action k)) @ put_u8 [] (kb_location k) @ put_u16 [] (kb_modifiers k) @
      put_u8 [] (of_bool (kb_repeat k)) @ put_u8 [] 0 @ put_u32 [] (kb_sequence k) @ rput_u64 [] (kb_client_time_ms k) @
      put_u16 [] (word_of_nat (length ?x)) @ put_u16 [] (word_of_nat (length ?y)) @ ?x @ ?y"
  have b: "bytes = [PROTOCOL_VERSION, MESSAGE_KEYBOARD] @ ?h"
    using e by (auto simp: keyboard_encode_def Let_def put_fields put_u8_def split: if_splits)
  let ?c = "rcursor_after_header bytes"
  have "length bytes = KEYBOARD_HEADER_BYTES + length ?x + length ?y" "KEYBOARD_HEADER_BYTES \<le> length bytes"
    by (simp_all add: b KEYBOARD_HEADER_BYTES_def)
  moreover have "rest ?c = ?h" by (simp add: b)
  moreover have "unat (word_of_nat (length ?x) :: u16) = length ?x" "unat (word_of_nat (length ?y) :: u16) = length ?y"
    using x by (simp_all add: unat_of_nat)
  moreover have "cursor_take (length ?x) (advance 22 ?c) = Ok (?x, advance (22 + length ?x) ?c)"
    using x by (subst cursor_take_rest [of _ ?x ?y]) (simp_all add: b)
  moreover have "cursor_take (length ?y) (advance (22 + length ?x) ?c) = Ok (?y, advance (22 + length ?x + length ?y) ?c)"
  proof -
    have "rest (advance 22 ?c) = ?x @ ?y" by (simp add: b)
    moreover have "rest (advance (22 + length ?x) ?c) = drop (length ?x) (rest (advance 22 ?c))"
      by (simp only: advance_simps drop_drop) (simp add: add.commute)
    ultimately have "rest (advance (22 + length ?x) ?c) = ?y" by simp
    moreover have "cur_bytes ?c = bytes" by (simp add: rcursor_after_header_def rcursor_new_def)
    ultimately show ?thesis using x by (subst take_slice_ok) (simp_all add: b)
  qed
  moreover have "((of_bool (kb_repeat k) :: u8) \<noteq> 0) = kb_repeat k" by simp
  ultimately show ?thesis
    using x v by (simp add: keyboard_decode_def fu8.read_put fu16.read_put fu32.read_put fu64.read_put fu8.length_put
        fu16.length_put fu32.length_put fu64.length_put Let_def MAX_KEY_FIELD_BYTES_def validate_key_lengths_def
        utf8_def decode_encode_str)
qed

interpretation keyboard_codec: message_codec keyboard_encode keyboard_decode MESSAGE_KEYBOARD Keyboard
  "\<lambda>k. valid_str (kb_code k) \<and> valid_str (kb_key k)" "\<lambda>k. k"
  by unfold_locales
    (auto simp: keyboard_roundtrip keyboard_encode_def Let_def put_fields input_decode_def message_constants)

section \<open>Properties\<close>

text \<open>The encoders side by side, the messages they accept and the form decoding returns them in.\<close>

primrec input_encode :: "input_message \<Rightarrow> (u8 list, protocol_error) result" where
  "input_encode (Pointer b) = batch_encode b"
| "input_encode (Wheel w) = Ok (wheel_encode w)"
| "input_encode (Keyboard k) = keyboard_encode k"
| "input_encode (Text t) = text_encode t"
| "input_encode (Command c) = Ok (command_encode c)"

primrec input_encodable :: "input_message \<Rightarrow> bool" where
  "input_encodable (Pointer b) \<longleftrightarrow> length (samples b) \<le> 512"
| "input_encodable (Wheel w) \<longleftrightarrow> True"
| "input_encodable (Keyboard k) \<longleftrightarrow> valid_str (kb_code k) \<and> valid_str (kb_key k) \<and> kb_code k \<noteq> [] \<and>
     is_ascii (utf8_encode (kb_code k)) \<and> str_len (kb_code k) \<le> 64 \<and> str_len (kb_key k) \<le> 64"
| "input_encodable (Text t) \<longleftrightarrow> valid_str (tx_text t) \<and> tx_text t \<noteq> [] \<and> str_len (tx_text t) \<le> 4096"
| "input_encodable (Command c) \<longleftrightarrow> True"

primrec input_normal :: "input_message \<Rightarrow> input_message" where
  "input_normal (Pointer b) = Pointer (b\<lparr>client_send_time_ms := finite_or_zero64 (client_send_time_ms b),
     samples := map (sanitized \<circ> sanitized) (samples b)\<rparr>)"
| "input_normal (Wheel w) = Wheel (wheel_sanitized w)"
| "input_normal (Keyboard k) = Keyboard k"
| "input_normal (Text t) = Text t"
| "input_normal (Command c) = Command c"

text \<open>C2: each of the five message kinds survives the wire: an encodable message encodes, and the
  dispatching decoder returns it under the right constructor, unchanged but for the sanitising of
  pointer and wheel values.\<close>
theorem input_roundtrip:
  assumes "input_encodable m"
  shows "\<exists>bytes. input_encode m = Ok bytes \<and> input_decode bytes = Ok (input_normal m)"
proof (cases m)
  case (Pointer b)
  then show ?thesis using assms encode_eq [of b] pointer_codec.dispatch_roundtrip [of b] by auto
next
  case (Wheel w)
  then show ?thesis using wheel_codec.dispatch_roundtrip [of w] by simp
next
  case (Keyboard k)
  then obtain bytes where "keyboard_encode k = Ok bytes"
    using assms by (simp add: keyboard_encode_def Let_def validate_key_fields_def validate_key_lengths_def MAX_KEY_FIELD_BYTES_def)
  with Keyboard show ?thesis using assms keyboard_codec.dispatch_roundtrip [of k] by auto
next
  case (Text t)
  then obtain bytes where "text_encode t = Ok bytes"
    using assms by (simp add: text_encode_def Let_def MAX_TEXT_BYTES_def)
  with Text show ?thesis using assms text_codec.dispatch_roundtrip [of t] by auto
next
  case (Command c)
  then show ?thesis using command_codec.dispatch_roundtrip [of c] by simp
qed

definition alt_left :: keyboard_input where
  "alt_left = \<lparr>kb_action = KeyDown, kb_location = 1, kb_repeat = True, kb_modifiers = 6, kb_sequence = 8,
     kb_client_time_ms = 43, kb_code = [65, 108, 116, 76, 101, 102, 116], kb_key = [65, 108, 116]\<rparr>"

lemma input_roundtrip_witness: "\<exists>bytes. input_encode (Keyboard alt_left) = Ok bytes \<and> input_decode bytes = Ok (Keyboard alt_left)"
  using input_roundtrip [of "Keyboard alt_left"]
  by (simp add: alt_left_def scalar_def str_len_def is_ascii_def utf8_encode_def utf8_char_def)

definition wheel_ok :: "wheel_input \<Rightarrow> bool" where
  "wheel_ok w \<longleftrightarrow> within32 0 1 (wh_x_norm w) \<and> within32 0 1 (wh_y_norm w) \<and>
     within32 f32_neg_10000 f32_10000 (wh_delta_x w) \<and> within32 f32_neg_10000 f32_10000 (wh_delta_y w) \<and>
     is_finite64 (wh_client_time_ms w)"

primrec input_in_range :: "input_message \<Rightarrow> bool" where
  "input_in_range (Pointer b) \<longleftrightarrow> length (samples b) \<le> 512 \<and> (\<forall>s \<in> set (samples b). sample_ok s)"
| "input_in_range (Wheel w) \<longleftrightarrow> wheel_ok w"
| "input_in_range (Keyboard k) \<longleftrightarrow> valid_str (kb_code k) \<and> valid_str (kb_key k) \<and> kb_code k \<noteq> [] \<and>
     str_len (kb_code k) \<le> 64 \<and> str_len (kb_key k) \<le> 64"
| "input_in_range (Text t) \<longleftrightarrow> valid_str (tx_text t) \<and> tx_text t \<noteq> [] \<and> str_len (tx_text t) \<le> 4096"
| "input_in_range (Command c) \<longleftrightarrow> True"

lemma finite_f32_finite [simp]: "is_finite32 (finite_f32 v)" "is_finite64 (finite_f64 t)"
  by (simp_all add: finite_f32_def finite_f64_def is_finite32_def is_finite64_def fp64_def zero_f64_def fp_pack_def)

lemma clamp_delta: "is_finite32 v \<Longrightarrow> within32 f32_neg_10000 f32_10000 (clamp_ord v f32_neg_10000 f32_10000)"
  by (rule clamp_within32) (simp_all add: is_finite32_def less_eq_f32_def fp_less_eq_def with_sign_def)

lemma wheel_sanitized_ok: "wheel_ok (wheel_sanitized w)"
  by (simp add: wheel_ok_def wheel_sanitized_def clamp_unit clamp_delta)

lemma wheel_decode_ok: "wheel_decode bytes = Ok w \<Longrightarrow> wheel_ok w"
  by (auto simp: wheel_decode_def wheel_sanitized_ok)

lemma utf8_Ok: "utf8 bytes = Ok s \<Longrightarrow> str_len s = length bytes \<and> valid_str s"
  by (simp add: utf8_def utf8_decode_len)

lemma text_decode_eq:
  assumes "20 \<le> length bytes"
  defines "n \<equiv> unat (from_le (take 4 (drop 16 bytes)) :: u32)"
  shows "text_decode bytes =
    (if n = 0 \<or> 4096 < n then Err (InvalidTextLength n)
     else and_then (exact_len bytes (20 + n)) (\<lambda>_. and_then (utf8 (drop 20 bytes)) (\<lambda>text.
       Ok \<lparr>tx_sequence = from_le (take 4 (drop 4 bytes)), tx_client_time_ms = from_le (take 8 (drop 8 bytes)),
         tx_text = text\<rparr>)))"
proof -
  let ?c = "rcursor_new bytes 4"
  have r: "rcursor_u32 ?c = Ok (from_le (take 4 (drop 4 bytes)), advance 4 ?c)"
    "rcursor_u64 (advance 4 ?c) = Ok (from_le (take 8 (drop 8 bytes)), advance 12 ?c)"
    "rcursor_u32 (advance 12 ?c) = Ok (from_le (take 4 (drop 16 bytes)), advance 16 ?c)"
    using assms(1) by (simp_all add: cursor_read_ok rcursor_u64_ok)
  have t: "rcursor_take_slice n (advance 16 ?c) = Ok (drop 20 bytes, advance (16 + n) ?c)"
    if "n \<noteq> 0" "n \<le> 4096" "length bytes = 20 + n"
    using that by (simp add: cursor_take_ok)
  have m: "minimum_len bytes TEXT_HEADER_BYTES = Ok ()" using assms(1) by (simp add: TEXT_HEADER_BYTES_def)
  show ?thesis
  proof (cases "n = 0 \<or> 4096 < n")
    case True
    then show ?thesis
      unfolding text_decode_def m r and_then.simps prod.case Let_def n_def [symmetric] MAX_TEXT_BYTES_def by simp
  next
    case False
    show ?thesis
    proof (cases "length bytes = 20 + n")
      case True
      with False t show ?thesis
        unfolding text_decode_def m r and_then.simps prod.case Let_def n_def [symmetric] MAX_TEXT_BYTES_def
          TEXT_HEADER_BYTES_def using assms(1) by simp
    next
      case len: False
      then obtain e where "exact_len bytes (20 + n) = Err e" by (cases "exact_len bytes (20 + n)") auto
      with False show ?thesis
        unfolding text_decode_def m r and_then.simps prod.case Let_def n_def [symmetric] MAX_TEXT_BYTES_def
          TEXT_HEADER_BYTES_def using assms(1) by simp
    qed
  qed
qed

lemma text_decode_ok: "text_decode bytes = Ok t \<Longrightarrow>
    valid_str (tx_text t) \<and> tx_text t \<noteq> [] \<and> str_len (tx_text t) \<le> 4096"
proof -
  assume d: "text_decode bytes = Ok t"
  have l: "20 \<le> length bytes" using d by (auto simp: text_decode_def minimum_len_def TEXT_HEADER_BYTES_def split: if_splits)
  define n where "n = unat (from_le (take 4 (drop 16 bytes)) :: u32)"
  have "n \<noteq> 0" "n \<le> 4096" "length bytes = 20 + n" "utf8 (drop 20 bytes) = Ok (tx_text t)"
    using d unfolding text_decode_eq [OF l] n_def [symmetric] by (auto split: if_splits)
  with utf8_Ok [of "drop 20 bytes" "tx_text t"] show ?thesis by auto
qed

lemma keyboard_decode_eq:
  assumes "24 \<le> length bytes"
  defines "m \<equiv> unat (from_le (take 2 (drop 20 bytes)) :: u16)" and "n \<equiv> unat (from_le (take 2 (drop 22 bytes)) :: u16)"
  shows "keyboard_decode bytes =
    and_then (key_action_try_from (hd (drop 2 bytes))) (\<lambda>act.
    and_then (validate_key_lengths m n) (\<lambda>_.
    and_then (exact_len bytes (24 + m + n)) (\<lambda>_.
    and_then (utf8 (take m (drop 24 bytes))) (\<lambda>code.
    and_then (utf8 (drop (24 + m) bytes)) (\<lambda>key.
      Ok \<lparr>kb_action = act, kb_location = hd (drop 3 bytes), kb_repeat = (hd (drop 6 bytes) \<noteq> 0),
        kb_modifiers = from_le (take 2 (drop 4 bytes)), kb_sequence = from_le (take 4 (drop 8 bytes)),
        kb_client_time_ms = from_le (take 8 (drop 12 bytes)), kb_code = code, kb_key = key\<rparr>)))))"
proof -
  let ?c = "rcursor_after_header bytes"
  have r: "rcursor_u8 ?c = Ok (hd (drop 2 bytes), advance 1 ?c)"
    "rcursor_u8 (advance 1 ?c) = Ok (hd (drop 3 bytes), advance 2 ?c)"
    "rcursor_u16 (advance 2 ?c) = Ok (from_le (take 2 (drop 4 bytes)), advance 4 ?c)"
    "rcursor_u8 (advance 4 ?c) = Ok (hd (drop 6 bytes), advance 5 ?c)"
    "rcursor_u8 (advance 5 ?c) = Ok (hd (drop 7 bytes), advance 6 ?c)"
    "rcursor_u32 (advance 6 ?c) = Ok (from_le (take 4 (drop 8 bytes)), advance 10 ?c)"
    "rcursor_u64 (advance 10 ?c) = Ok (from_le (take 8 (drop 12 bytes)), advance 18 ?c)"
    "rcursor_u16 (advance 18 ?c) = Ok (from_le (take 2 (drop 20 bytes)), advance 20 ?c)"
    "rcursor_u16 (advance 20 ?c) = Ok (from_le (take 2 (drop 22 bytes)), advance 22 ?c)"
    using assms(1) by (simp_all add: cursor_read_ok rcursor_u64_ok del: One_nat_def)
  have b: "minimum_len bytes KEYBOARD_HEADER_BYTES = Ok ()" using assms(1) by (simp add: KEYBOARD_HEADER_BYTES_def)
  have t: "rcursor_take_slice m (advance 22 ?c) = Ok (take m (drop 24 bytes), advance (22 + m) ?c)"
    "rcursor_take_slice n (advance (22 + m) ?c) = Ok (drop (24 + m) bytes, advance (22 + m + n) ?c)"
    if "validate_key_lengths m n = Ok ()" "length bytes = 24 + m + n"
    using that by (auto simp: validate_key_lengths_def MAX_KEY_FIELD_BYTES_def rcursor_after_header_def rcursor_new_def
        take_slice_ok advance_def rest_def split: if_splits)
  show ?thesis
  proof (cases "\<exists>a. key_action_try_from (hd (drop 2 bytes)) = Ok a \<and> validate_key_lengths m n = Ok () \<and> length bytes = 24 + m + n")
    case True
    then show ?thesis
      unfolding keyboard_decode_def b r and_then.simps prod.case Let_def m_def [symmetric] n_def [symmetric]
        KEYBOARD_HEADER_BYTES_def using t by auto
  next
    case False
    then have "(\<exists>e. key_action_try_from (hd (drop 2 bytes)) = Err e) \<or> (\<exists>e. validate_key_lengths m n = Err e) \<or>
        (\<exists>e. exact_len bytes (24 + m + n) = Err e)"
      by (metis (full_types) exact_len_Ok old.unit.exhaust result.exhaust)
    then show ?thesis
      unfolding keyboard_decode_def b r and_then.simps prod.case Let_def m_def [symmetric] n_def [symmetric]
        KEYBOARD_HEADER_BYTES_def
      by (cases "key_action_try_from (hd (drop 2 bytes))"; cases "validate_key_lengths m n") (auto simp: assms(1))
  qed
qed

lemma keyboard_decode_ok: "keyboard_decode bytes = Ok k \<Longrightarrow>
    valid_str (kb_code k) \<and> valid_str (kb_key k) \<and> kb_code k \<noteq> [] \<and> str_len (kb_code k) \<le> 64 \<and> str_len (kb_key k) \<le> 64"
proof -
  assume d: "keyboard_decode bytes = Ok k"
  define m where "m = unat (from_le (take 2 (drop 20 bytes)) :: u16)"
  define n where "n = unat (from_le (take 2 (drop 22 bytes)) :: u16)"
  have l: "24 \<le> length bytes" using d by (auto simp: keyboard_decode_def minimum_len_def KEYBOARD_HEADER_BYTES_def split: if_splits)
  have k: "length bytes = 24 + m + n" "validate_key_lengths m n = Ok ()" "utf8 (take m (drop 24 bytes)) = Ok (kb_code k)"
      "utf8 (drop (24 + m) bytes) = Ok (kb_key k)"
    using d unfolding keyboard_decode_eq [OF l] m_def [symmetric] n_def [symmetric] by auto
  have "m \<noteq> 0" "m \<le> 64" "n \<le> 64" using k(2) by (auto simp: validate_key_lengths_def MAX_KEY_FIELD_BYTES_def split: if_splits)
  with utf8_Ok [OF k(3)] utf8_Ok [OF k(4)] k(1) show ?thesis by auto
qed



definition e_acute_key :: "u8 list" where
  "e_acute_key = [1, 3, 1, 0, 0, 0, 0, 0, 0, 0, 0, 0, 0, 0, 0, 0, 0, 0, 0, 0, 2, 0, 0, 0, 0xC3, 0xA9]"

text \<open>The keyboard encoder insists on an ASCII key code but the decoder of the same type does not: it
  accepts a message whose code is a single accented letter, which the encoder would refuse.\<close>
theorem keyboard_ascii_asymmetry:
  "\<exists>k. keyboard_decode e_acute_key = Ok k \<and> keyboard_encode k = Err InvalidKeyField"
  by (simp add: e_acute_key_def keyboard_decode_def minimum_len_def KEYBOARD_HEADER_BYTES_def rcursor_after_header_def
      rcursor_new_def cursor_u8_def cursor_u16_def cursor_u32_def rcursor_u64_def cursor_take_def Let_def
      key_action_try_from_def validate_key_lengths_def MAX_KEY_FIELD_BYTES_def utf8_def utf8_decode_def
      cont_byte_def scalar_def keyboard_encode_def validate_key_fields_def is_ascii_def utf8_encode_def utf8_char_def)

end
