(* ===== verification/Geometry.thy ===== *)
theory Geometry
  imports Packet
begin

text \<open>
  \<open>crates/protocol/src/mapping.rs\<close>: from normalised coordinates to pixels of the captured
  display, and the rectangle the picture occupies in a viewport.
\<close>

section \<open>Data and operations\<close>

record normalized_point =
  np_u :: f32
  np_v :: f32

definition map_finite_or :: "f32 \<Rightarrow> f32 \<Rightarrow> f32" where
  "map_finite_or v fallback = (if is_finite32 v then v else fallback)"

definition clamped :: "normalized_point \<Rightarrow> normalized_point" where
  "clamped p = \<lparr>np_u = clamp_ord (map_finite_or (np_u p) 0) 0 1, np_v = clamp_ord (map_finite_or (np_v p) 0) 0 1\<rparr>"

record pixel_point =
  px_x :: i32
  px_y :: i32

record target_geometry =
  tg_left :: i32
  tg_top :: i32
  tg_width :: u32
  tg_height :: u32

definition geometry_map :: "target_geometry \<Rightarrow> normalized_point \<Rightarrow> pixel_point" where
  "geometry_map g p =
     (let p = clamped p;
          x_span = f32_of_int (uint (sat_sub (tg_width g) 1));
          y_span = f32_of_int (uint (sat_sub (tg_height g) 1))
      in \<lparr>px_x = i32_sat_add (tg_left g) (f32_as_i32 (round32 (np_u p * x_span))),
          px_y = i32_sat_add (tg_top g) (f32_as_i32 (round32 (np_v p * y_span)))\<rparr>)"

datatype fit_mode = Fit | Fill | OneToOne

record video_content_rect =
  vr_left :: f32
  vr_top :: f32
  vr_width :: f32
  vr_height :: f32

definition normalize :: "video_content_rect \<Rightarrow> f32 \<Rightarrow> f32 \<Rightarrow> bool \<Rightarrow> normalized_point option" where
  "normalize r x y clamp =
     (if vr_width r \<le> 0 \<or> vr_height r \<le> 0 then None
      else
        (let p = \<lparr>np_u = (x - vr_left r) / vr_width r, np_v = (y - vr_top r) / vr_height r\<rparr>
         in if clamp then Some (clamped p)
            else if (0 \<le> np_u p \<and> np_u p \<le> 1) \<and> (0 \<le> np_v p \<and> np_v p \<le> 1) then Some p
            else None))"

definition content_rect :: "f32 \<Rightarrow> f32 \<Rightarrow> f32 \<Rightarrow> f32 \<Rightarrow> fit_mode \<Rightarrow> video_content_rect" where
  "content_rect vw vh sw sh mode =
     (if vw \<le> 0 \<or> vh \<le> 0 \<or> sw \<le> 0 \<or> sh \<le> 0 then \<lparr>vr_left = 0, vr_top = 0, vr_width = 0, vr_height = 0\<rparr>
      else
        (let scale = (case mode of
               Fit \<Rightarrow> min32 (vw / sw) (vh / sh)
             | Fill \<Rightarrow> max32 (vw / sw) (vh / sh)
             | OneToOne \<Rightarrow> 1);
             width = sw * scale;
             height = sh * scale
         in \<lparr>vr_left = (vw - width) * F32 0x3F000000, vr_top = (vh - height) * F32 0x3F000000,
             vr_width = width, vr_height = height\<rparr>))"

section \<open>Bounds\<close>

lemma map_finite_or_finite [simp]: "is_finite32 (map_finite_or v 0)"
  by (simp add: map_finite_or_def is_finite32_def)

lemma clamped_unit [simp]: "within32 0 1 (np_u (clamped p))" "within32 0 1 (np_v (clamped p))"
  by (simp_all add: clamped_def clamp_unit)

lemma f32_of_int_exact:
  assumes "0 \<le> z" "z < 2 ^ 24"
  shows "\<exists>n. fp32 (f32_of_int z) = FFin False n \<and> 0 \<le> n \<and> n < 0x7F800000 \<and> mag_units b32 n = z * one_units b32"
proof -
  obtain n where n: "fp_of_int b32 z = FFin False n" "0 \<le> n" "n < inf_mag b32" "mag_units b32 n = z * one_units b32"
    using fp_of_int_exact [of b32 z] assms by auto
  then have "fp32 (f32_of_int z) = FFin False n" by (simp add: f32_of_int_def fp32_of_fp32 del: of_fp32.simps)
  with n show ?thesis by auto
qed

lemma scaled_pixel:
  assumes "within32 0 1 u" "0 \<le> z" "z < 2 ^ 24"
  shows "0 \<le> sint (f32_as_i32 (round32 (u * f32_of_int z))) \<and> sint (f32_as_i32 (round32 (u * f32_of_int z))) \<le> z"
proof -
  obtain n where n: "fp32 (f32_of_int z) = FFin False n" "0 \<le> n" "n < 0x7F800000" "mag_units b32 n = z * one_units b32"
    using f32_of_int_exact [OF assms(2,3)] by blast
  from scale_within32 [OF assms(1) n(1)] obtain s m
    where m: "fp32 (u * f32_of_int z) = FFin s m" "0 \<le> m" "m \<le> n" "s \<longrightarrow> m = 0"
    using n(1) by (rule within32_0_cases)
  show ?thesis
  proof (cases s)
    case True
    then obtain q where "fp32 (round32 (u * f32_of_int z)) = FFin s q" "0 \<le> q" "mag_units b32 q div one_units b32 \<le> 0"
      using round32_below [OF m(1), of 0 0] m by auto
    from f32_as_i32_below [OF this] show ?thesis using assms(2) by auto
  next
    case False
    obtain q where q: "fp32 (round32 (u * f32_of_int z)) = FFin s q" "0 \<le> q" "mag_units b32 q div one_units b32 \<le> z"
      using round32_below [OF m(1,3) n(3,4)] by blast
    have "0 \<le> mag_units b32 q div one_units b32" using q mag_units_nonneg [of q b32] by (simp add: pos_imp_zdiv_nonneg_iff)
    moreover from this have "sint (word_of_int (mag_units b32 q div one_units b32) :: i32) = mag_units b32 q div one_units b32"
      using q(3) assms(3) by (simp add: sint_sbintrunc' signed_take_bit_int_eq_self)
    ultimately show ?thesis using q False assms by (simp add: f32_as_i32_def with_sign_def)
  qed
qed

text \<open>C4: a normalised point, finite or not, lands on a pixel of the target: between its left and right
  (top and bottom) edge, clipped at the ends of \<open>i32\<close>, for targets up to 2^24 pixels a side.\<close>
theorem geometry_map_inside:
  assumes "0 < tg_width g" "uint (tg_width g) \<le> 2 ^ 24" "0 < tg_height g" "uint (tg_height g) \<le> 2 ^ 24"
  shows "sint (tg_left g) \<le> sint (px_x (geometry_map g p)) \<and>
      sint (px_x (geometry_map g p)) \<le> min (sint (tg_left g) + uint (tg_width g) - 1) (2 ^ 31 - 1) \<and>
      sint (tg_top g) \<le> sint (px_y (geometry_map g p)) \<and>
      sint (px_y (geometry_map g p)) \<le> min (sint (tg_top g) + uint (tg_height g) - 1) (2 ^ 31 - 1)"
proof -
  have e: "sint a \<le> sint (i32_sat_add a (f32_as_i32 (round32 (u * f32_of_int (uint (sat_sub w 1)))))) \<and>
      sint (i32_sat_add a (f32_as_i32 (round32 (u * f32_of_int (uint (sat_sub w 1)))))) \<le> min (sint a + uint w - 1) (2 ^ 31 - 1)"
    if w: "0 < w" "uint w \<le> 2 ^ 24" and u: "within32 0 1 u" for a :: i32 and w :: u32 and u
  proof -
    have p: "0 < uint w" using w(1) by (simp add: word_less_def)
    then have z: "uint (sat_sub w 1) = uint w - 1" by (simp add: uint_sat_sub)
    have "sint a \<le> 2 ^ 31 - 1" "- (2 ^ 31) \<le> sint a" using sint_lt [of a] sint_ge [of a] by simp_all
    then show ?thesis
      using scaled_pixel [OF u, of "uint w - 1"] p w(2) by (auto simp: sint_i32_sat_add z)
  qed
  show ?thesis
    using e [OF assms(1,2), of "np_u (clamped p)" "tg_left g"] e [OF assms(3,4), of "np_v (clamped p)" "tg_top g"]
    by (simp add: geometry_map_def Let_def)
qed

definition full_hd :: target_geometry where
  "full_hd = \<lparr>tg_left = - 1920, tg_top = 0, tg_width = 1920, tg_height = 1080\<rparr>"

lemma geometry_map_inside_witness:
  "- 1920 \<le> sint (px_x (geometry_map full_hd \<lparr>np_u = 1, np_v = 0\<rparr>)) \<and>
   sint (px_x (geometry_map full_hd \<lparr>np_u = 1, np_v = 0\<rparr>)) \<le> - 1"
  using geometry_map_inside [of full_hd "\<lparr>np_u = 1, np_v = 0\<rparr>"] by (simp add: full_hd_def)

lemma unit_contains: "0 \<le> x \<Longrightarrow> x \<le> 1 \<Longrightarrow> within32 0 1 x"
  by (cases "fp32 x") (auto simp: within32_def is_finite32_def less_eq_f32_def fp_less_eq_def with_sign_def split: if_splits)

text \<open>Every point the content rectangle yields has both coordinates finite and in 0..1, in the
  clamping mode and in the strict one, whatever the rectangle and the position are.\<close>
theorem normalize_in_unit:
  assumes "normalize r x y clamp = Some p"
  shows "within32 0 1 (np_u p) \<and> within32 0 1 (np_v p)"
  using assms by (auto simp: normalize_def Let_def unit_contains split: if_splits)

definition letterbox :: video_content_rect where
  "letterbox = \<lparr>vr_left = 0, vr_top = 0, vr_width = 1, vr_height = 1\<rparr>"

lemma normalize_in_unit_witness: "\<exists>p. normalize letterbox 1 0 True = Some p \<and> within32 0 1 (np_u p)"
proof -
  have "normalize letterbox 1 0 True \<noteq> None"
    by (simp add: normalize_def letterbox_def Let_def less_eq_f32_def fp_less_eq_def with_sign_def)
  then show ?thesis using normalize_in_unit [of letterbox 1 0 True] by blast
qed

end
