(* ===== verification/Strings.thy ===== *)
theory Strings
  imports Utf8
begin

text \<open>
  The string operations of the standard library that the program uses: trimming, decimal
  formatting and parsing, case folding of ASCII, splitting at a character.
\<close>

section \<open>Whitespace\<close>

definition is_whitespace :: "nat \<Rightarrow> bool" where
  "is_whitespace c \<longleftrightarrow> 9 \<le> c \<and> c \<le> 13 \<or> c = 32 \<or> c = 0x85 \<or> c = 0xA0 \<or> c = 0x1680 \<or>
     0x2000 \<le> c \<and> c \<le> 0x200A \<or> c = 0x2028 \<or> c = 0x2029 \<or> c = 0x202F \<or> c = 0x205F \<or> c = 0x3000"

definition trim_start :: "(nat \<Rightarrow> bool) \<Rightarrow> ustring \<Rightarrow> ustring" where
  "trim_start p s = dropWhile p s"

definition trim_end :: "(nat \<Rightarrow> bool) \<Rightarrow> ustring \<Rightarrow> ustring" where
  "trim_end p s = rev (dropWhile p (rev s))"

definition trim :: "ustring \<Rightarrow> ustring" where
  "trim s = trim_end is_whitespace (trim_start is_whitespace s)"

lemma trim_end_suffix: "\<exists>t. s = trim_end p s @ t \<and> (\<forall>c \<in> set t. p c)"
proof -
  have "rev s = takeWhile p (rev s) @ dropWhile p (rev s)" by simp
  then have "rev (rev s) = rev (dropWhile p (rev s)) @ rev (takeWhile p (rev s))" by (metis rev_append)
  then have "s = trim_end p s @ rev (takeWhile p (rev s))" by (simp add: trim_end_def)
  moreover have "\<forall>c \<in> set (rev (takeWhile p (rev s))). p c" by (auto dest: set_takeWhileD)
  ultimately show ?thesis by blast
qed

lemma set_trim_start: "set (trim_start p s) \<subseteq> set s"
  by (auto simp: trim_start_def dest: set_dropWhileD)

lemma set_trim_end: "set (trim_end p s) \<subseteq> set s"
  by (auto simp: trim_end_def dest: set_dropWhileD)

lemma set_trim: "set (trim s) \<subseteq> set s"
  using set_trim_end [of is_whitespace "trim_start is_whitespace s"] set_trim_start [of is_whitespace s]
  by (simp add: trim_def)

lemma trim_end_id: "s \<noteq> [] \<Longrightarrow> \<not> p (last s) \<Longrightarrow> trim_end p s = s"
  by (cases s rule: rev_cases) (simp_all add: trim_end_def)

lemma trim_start_id: "s \<noteq> [] \<Longrightarrow> \<not> p (hd s) \<Longrightarrow> trim_start p s = s"
  by (cases s) (simp_all add: trim_start_def)

lemma trim_id: "\<forall>c \<in> set s. \<not> is_whitespace c \<Longrightarrow> trim s = s"
  by (cases "s = []") (simp_all add: trim_def trim_start_id trim_end_id, simp add: trim_start_def trim_end_def)

section \<open>Decimal numbers\<close>

fun show_nat :: "nat \<Rightarrow> ustring" where
  "show_nat n = (if n < 10 then [48 + n] else show_nat (n div 10) @ [48 + n mod 10])"

declare show_nat.simps [simp del]

definition pad_start :: "nat \<Rightarrow> nat \<Rightarrow> ustring \<Rightarrow> ustring" where
  "pad_start width c s = replicate (width - length s) c @ s"

definition is_digit :: "nat \<Rightarrow> bool" where
  "is_digit c \<longleftrightarrow> 48 \<le> c \<and> c \<le> 57"

definition digits_value :: "ustring \<Rightarrow> nat" where
  "digits_value s = foldl (\<lambda>n c. 10 * n + (c - 48)) 0 s"

text \<open>\<open>str::parse\<close> for an unsigned type: an optional plus sign, at least one digit, no overflow.\<close>

definition parse_unsigned :: "nat \<Rightarrow> ustring \<Rightarrow> nat option" where
  "parse_unsigned limit s =
     (let ds = (case s of c # t \<Rightarrow> if c = 43 then t else s | [] \<Rightarrow> [])
      in if ds \<noteq> [] \<and> list_all is_digit ds \<and> digits_value ds < limit then Some (digits_value ds) else None)"

lemma show_nat_nonempty [simp]: "show_nat n \<noteq> []"
  by (subst show_nat.simps) simp

lemma show_nat_digits: "list_all is_digit (show_nat n)"
proof (induction n rule: show_nat.induct)
  case (1 n)
  have "n mod 10 < 10" by simp
  with 1 show ?case by (subst show_nat.simps) (auto simp: list_all_iff is_digit_def)
qed

lemma digits_value_show_nat: "digits_value (show_nat n) = n"
  by (induction n rule: show_nat.induct) (subst show_nat.simps, simp add: digits_value_def)

lemma show_nat_inj: "show_nat m = show_nat n \<longleftrightarrow> m = n"
  by (metis digits_value_show_nat)

lemma parse_show_nat: "n < limit \<Longrightarrow> parse_unsigned limit (show_nat n) = Some n"
proof -
  assume n: "n < limit"
  obtain c t where s: "show_nat n = c # t" by (cases "show_nat n") simp_all
  with show_nat_digits [of n] have "c \<noteq> 43" by (auto simp: is_digit_def)
  then show ?thesis
    using n show_nat_digits [of n] digits_value_show_nat [of n] by (simp add: parse_unsigned_def s)
qed

lemma parse_unsigned_bound: "parse_unsigned limit s = Some n \<Longrightarrow> n < limit"
  by (auto simp: parse_unsigned_def Let_def split: if_splits)

lemma length_show_nat_le: "n < 10 ^ k \<Longrightarrow> 0 < k \<Longrightarrow> length (show_nat n) \<le> k"
proof (induction n arbitrary: k rule: show_nat.induct)
  case (1 n)
  show ?case
  proof (cases "n < 10")
    case True
    then show ?thesis using 1(3) by (subst show_nat.simps) simp
  next
    case False
    then obtain j where k: "k = Suc j" "0 < j" using 1(2,3) by (cases k; cases "k = 1") auto
    then have "n div 10 < 10 ^ j" using 1(2) by (simp add: less_mult_imp_div_less mult.commute)
    from 1(1) [OF False this k(2)] False k show ?thesis by (subst show_nat.simps) simp
  qed
qed

section \<open>Case folding and splitting\<close>

definition ascii_lower :: "nat \<Rightarrow> nat" where
  "ascii_lower c = (if 65 \<le> c \<and> c \<le> 90 then c + 32 else c)"

definition to_ascii_lowercase :: "ustring \<Rightarrow> ustring" where
  "to_ascii_lowercase s = map ascii_lower s"

definition eq_ignore_ascii_case :: "ustring \<Rightarrow> ustring \<Rightarrow> bool" where
  "eq_ignore_ascii_case s t \<longleftrightarrow> to_ascii_lowercase s = to_ascii_lowercase t"

fun strip_prefix :: "ustring \<Rightarrow> ustring \<Rightarrow> ustring option" where
  "strip_prefix [] s = Some s"
| "strip_prefix (c # p) [] = None"
| "strip_prefix (c # p) (d # s) = (if c = d then strip_prefix p s else None)"

fun split_once :: "nat \<Rightarrow> ustring \<Rightarrow> (ustring \<times> ustring) option" where
  "split_once c [] = None"
| "split_once c (d # s) = (if c = d then Some ([], s) else map_option (\<lambda>(a, b). (d # a, b)) (split_once c s))"

fun split_on :: "nat \<Rightarrow> ustring \<Rightarrow> ustring list" where
  "split_on c [] = [[]]"
| "split_on c (d # s) = (if c = d then [] # split_on c s
     else (case split_on c s of w # ws \<Rightarrow> (d # w) # ws | [] \<Rightarrow> [[d]]))"

lemma strip_prefix_Some: "strip_prefix p s = Some t \<longleftrightarrow> s = p @ t"
  by (induction p s rule: strip_prefix.induct) auto

lemma split_once_Some: "split_once c s = Some (a, b) \<longleftrightarrow> s = a @ c # b \<and> c \<notin> set a"
proof (induction s arbitrary: a)
  case Nil
  then show ?case by simp
next
  case (Cons d s)
  then show ?case by (cases a) auto
qed

lemma split_once_None: "split_once c s = None \<longleftrightarrow> c \<notin> set s"
  by (induction s) auto

end
