(* ===== verification/Session.thy ===== *)
theory Session
  imports Strings
begin

text \<open>
  \<open>crates/core/src/session.rs\<close>: the pairing session.  SHA-256, the URL-safe base64 encoder and
  the random source are crates outside the repository: the first two are the fields of
  \<open>session_crypto\<close>, random values are arguments.  Times are nanoseconds of a monotonic clock;
  the mutex makes every operation one atomic step on \<open>session_state\<close>.
\<close>

section \<open>State\<close>

type_synonym uuid = "128 word"

record session_crypto =
  sha256 :: "u8 list \<Rightarrow> u8 list"
  base64url :: "u8 list \<Rightarrow> ustring"

record session_draws =
  dr_u32 :: u32
  dr_secret :: "u8 list"
  dr_uuid :: uuid
  dr_now :: nat
  dr_wall :: int

record session_state =
  session_id :: uuid
  pin :: ustring
  qr_secret :: ustring
  qr_secret_hash :: "u8 list"
  access_token_hash :: "u8 list option"
  created_at :: nat
  created_wall :: int
  paired :: bool

datatype pair_method = PairPin | PairQr

record pair_result =
  access_token :: ustring
  pr_session_id :: uuid
  pr_method :: pair_method

record public_session =
  ps_product :: ustring
  ps_host_name :: ustring
  ps_session_id :: uuid
  ps_paired :: bool
  ps_expires_in_seconds :: nat
  ps_mode :: ustring
  ps_created_at :: int

datatype session_error = Expired | InvalidCredentials

section \<open>Operations\<close>

definition secs :: "nat \<Rightarrow> nat" where
  "secs n = n * 1000000000"

definition as_secs :: "nat \<Rightarrow> nat" where
  "as_secs d = d div 1000000000"

definition UNPAIRED_TTL :: nat where
  "UNPAIRED_TTL = secs (10 * 60)"

definition session_elapsed :: "nat \<Rightarrow> session_state \<Rightarrow> nat" where
  "session_elapsed now s = now - created_at s"

definition random_token :: "session_crypto \<Rightarrow> u8 list \<Rightarrow> ustring" where
  "random_token cr data = base64url cr data"

definition hash :: "session_crypto \<Rightarrow> ustring \<Rightarrow> u8 list" where
  "hash cr value = sha256 cr (utf8_encode value)"

definition constant_eq :: "u8 list \<Rightarrow> u8 list \<Rightarrow> bool" where
  "constant_eq left right \<longleftrightarrow> length left = length right \<and> list_all (\<lambda>(a, b). a = b) (zip left right)"

definition new_session_state :: "session_crypto \<Rightarrow> session_draws \<Rightarrow> session_state" where
  "new_session_state cr d =
     (let pin = pad_start 6 48 (show_nat (unat (dr_u32 d) mod 1000000));
          secret = random_token cr (dr_secret d)
      in \<lparr>session_id = dr_uuid d, pin = pin, qr_secret = secret, qr_secret_hash = hash cr secret,
          access_token_hash = None, created_at = dr_now d, created_wall = dr_wall d, paired = False\<rparr>)"

definition session_public :: "nat \<Rightarrow> ustring \<Rightarrow> ustring \<Rightarrow> session_state \<Rightarrow> public_session" where
  "session_public now host_name mode s =
     \<lparr>ps_product = lit ''NFiDB'', ps_host_name = host_name, ps_session_id = session_id s, ps_paired = paired s,
      ps_expires_in_seconds = as_secs (UNPAIRED_TTL - session_elapsed now s), ps_mode = mode,
      ps_created_at = created_wall s\<rparr>"

definition session_expires_in_seconds :: "nat \<Rightarrow> session_state \<Rightarrow> nat" where
  "session_expires_in_seconds now s =
     (if paired s then as_secs UNPAIRED_TTL else as_secs (UNPAIRED_TTL - session_elapsed now s))"

definition session_rotate :: "session_crypto \<Rightarrow> session_draws \<Rightarrow> session_state \<Rightarrow> session_state" where
  "session_rotate cr d s = new_session_state cr d"

definition rotate_if_expired :: "session_crypto \<Rightarrow> session_draws \<Rightarrow> session_state \<Rightarrow> bool \<times> session_state" where
  "rotate_if_expired cr d s =
     (if \<not> paired s \<and> UNPAIRED_TTL \<le> session_elapsed (dr_now d) s then (True, new_session_state cr d) else (False, s))"

definition ensure_not_expired :: "nat \<Rightarrow> session_state \<Rightarrow> (unit, session_error) result" where
  "ensure_not_expired now s =
     (if \<not> paired s \<and> UNPAIRED_TTL < session_elapsed now s then Err Expired else Ok ())"

definition issue_access_token ::
  "session_crypto \<Rightarrow> u8 list \<Rightarrow> pair_method \<Rightarrow> session_state \<Rightarrow> (pair_result, session_error) result \<times> session_state" where
  "issue_access_token cr bytes m s =
     (let token = random_token cr bytes;
          s' = s\<lparr>access_token_hash := Some (hash cr token), paired := True\<rparr>
      in (Ok \<lparr>access_token = token, pr_session_id = session_id s', pr_method = m\<rparr>, s'))"

definition pair_with_pin ::
  "session_crypto \<Rightarrow> nat \<Rightarrow> u8 list \<Rightarrow> ustring \<Rightarrow> session_state \<Rightarrow> (pair_result, session_error) result \<times> session_state" where
  "pair_with_pin cr now bytes given s =
     (case ensure_not_expired now s of
        Err e \<Rightarrow> (Err e, s)
      | Ok _ \<Rightarrow>
          if \<not> constant_eq (utf8_encode (pin s)) (utf8_encode (trim given)) then (Err InvalidCredentials, s)
          else issue_access_token cr bytes PairPin s)"

definition pair_with_qr_secret ::
  "session_crypto \<Rightarrow> nat \<Rightarrow> u8 list \<Rightarrow> ustring \<Rightarrow> session_state \<Rightarrow> (pair_result, session_error) result \<times> session_state" where
  "pair_with_qr_secret cr now bytes given s =
     (case ensure_not_expired now s of
        Err e \<Rightarrow> (Err e, s)
      | Ok _ \<Rightarrow>
          if \<not> constant_eq (qr_secret_hash s) (hash cr given) then (Err InvalidCredentials, s)
          else issue_access_token cr bytes PairQr s)"

definition authorize :: "session_crypto \<Rightarrow> ustring \<Rightarrow> session_state \<Rightarrow> bool" where
  "authorize cr token s =
     (case access_token_hash s of None \<Rightarrow> False | Some expected \<Rightarrow> constant_eq expected (hash cr token))"

definition session_disconnect :: "session_state \<Rightarrow> session_state" where
  "session_disconnect s = s\<lparr>access_token_hash := None, paired := False\<rparr>"

section \<open>Basic facts\<close>

lemma constant_eq_iff [simp]: "constant_eq l r \<longleftrightarrow> l = r"
proof
  assume "constant_eq l r"
  then show "l = r"
    by (intro nth_equalityI) (auto simp: constant_eq_def list_all_length)
qed (simp add: constant_eq_def list_all_length)

lemma utf8_encode_inj: "valid_str s \<Longrightarrow> valid_str t \<Longrightarrow> utf8_encode s = utf8_encode t \<longleftrightarrow> s = t"
  by (metis decode_encode_str option.inject)

lemma new_session_simps [simp]:
  "access_token_hash (new_session_state cr d) = None" "paired (new_session_state cr d) = False"
  "created_at (new_session_state cr d) = dr_now d"
  "qr_secret_hash (new_session_state cr d) = hash cr (qr_secret (new_session_state cr d))"
  by (simp_all add: new_session_state_def Let_def)

definition six_digits :: "ustring \<Rightarrow> bool" where
  "six_digits s \<longleftrightarrow> length s = 6 \<and> list_all is_digit s"

lemma new_session_pin: "six_digits (pin (new_session_state cr d))"
proof -
  have "length (show_nat (unat (dr_u32 d) mod 1000000)) \<le> 6" by (rule length_show_nat_le) simp_all
  then show ?thesis
    using show_nat_digits by (auto simp: six_digits_def new_session_state_def Let_def pad_start_def list_all_iff is_digit_def)
qed

lemma issue_access_token_eq: "issue_access_token cr bytes m s =
    (Ok \<lparr>access_token = random_token cr bytes, pr_session_id = session_id s, pr_method = m\<rparr>,
     s\<lparr>access_token_hash := Some (hash cr (random_token cr bytes)), paired := True\<rparr>)"
  by (simp add: issue_access_token_def Let_def)

definition session_ok :: "session_crypto \<Rightarrow> session_state \<Rightarrow> bool" where
  "session_ok cr s \<longleftrightarrow> (paired s \<longleftrightarrow> access_token_hash s \<noteq> None) \<and> six_digits (pin s) \<and>
     qr_secret_hash s = hash cr (qr_secret s)"

lemma new_session_ok: "session_ok cr (new_session_state cr d)"
  by (simp add: session_ok_def new_session_pin del: new_session_simps(4)) (rule new_session_simps(4))

lemma issue_ok: "session_ok cr s \<Longrightarrow> session_ok cr (snd (issue_access_token cr bytes m s))"
  by (simp add: session_ok_def issue_access_token_eq)

lemma pair_with_pin_cases: "pair_with_pin cr now bytes given s = (r, s') \<Longrightarrow>
    (\<exists>e. r = Err e \<and> s' = s) \<or> (r, s') = issue_access_token cr bytes PairPin s"
  by (auto simp: pair_with_pin_def split: result.splits if_splits)

lemma pair_with_qr_cases: "pair_with_qr_secret cr now bytes given s = (r, s') \<Longrightarrow>
    (\<exists>e. r = Err e \<and> s' = s) \<or> (r, s') = issue_access_token cr bytes PairQr s"
  by (auto simp: pair_with_qr_secret_def split: result.splits if_splits)

section \<open>Runs of a session\<close>

text \<open>
  Every history of the manager's operations, with a ghost component: the token the abstract
  session accepts, if any.  The abstract session has no hash and no clock: pairing sets its
  token, rotation and disconnection clear it, everything else leaves it.
\<close>

primrec token_after :: "(pair_result, session_error) result \<Rightarrow> ustring option \<Rightarrow> ustring option" where
  "token_after (Ok p) g = Some (access_token p)"
| "token_after (Err e) g = g"

inductive session_run :: "session_crypto \<Rightarrow> session_state \<Rightarrow> nat \<Rightarrow> ustring option \<Rightarrow> bool" for cr where
  start: "session_run cr (new_session_state cr d) (dr_now d) None"
| tick: "session_run cr s now g \<Longrightarrow> now \<le> later \<Longrightarrow> session_run cr s later g"
| rotate: "session_run cr s now g \<Longrightarrow> dr_now d = now \<Longrightarrow> session_run cr (session_rotate cr d s) now None"
| rotate_expired: "session_run cr s now g \<Longrightarrow> dr_now d = now \<Longrightarrow> rotate_if_expired cr d s = (b, s') \<Longrightarrow>
    session_run cr s' now (if b then None else g)"
| by_pin: "session_run cr s now g \<Longrightarrow> pair_with_pin cr now bytes given s = (r, s') \<Longrightarrow>
    session_run cr s' now (token_after r g)"
| by_qr: "session_run cr s now g \<Longrightarrow> pair_with_qr_secret cr now bytes given s = (r, s') \<Longrightarrow>
    session_run cr s' now (token_after r g)"
| leave: "session_run cr s now g \<Longrightarrow> session_run cr (session_disconnect s) now None"

lemma session_run_inv: "session_run cr s now g \<Longrightarrow>
    session_ok cr s \<and> created_at s \<le> now \<and> access_token_hash s = map_option (hash cr) g"
proof (induction rule: session_run.induct)
  case (start d)
  then show ?case by (simp add: new_session_ok)
next
  case (tick s now g later)
  then show ?case by auto
next
  case (rotate s now g d)
  then show ?case by (simp add: session_rotate_def new_session_ok)
next
  case (rotate_expired s now g d b s')
  then show ?case by (auto simp: rotate_if_expired_def new_session_ok split: if_splits)
next
  case (by_pin s now g bytes given r s')
  then show ?case using pair_with_pin_cases [OF by_pin.hyps(2)]
    by (auto simp: issue_access_token_eq session_ok_def)
next
  case (by_qr s now g bytes given r s')
  then show ?case using pair_with_qr_cases [OF by_qr.hyps(2)]
    by (auto simp: issue_access_token_eq session_ok_def)
next
  case (leave s now g)
  then show ?case by (auto simp: session_disconnect_def session_ok_def)
qed

text \<open>C5: in every reachable session a token is authorised exactly when its hash is that of the one
  token issued since the last rotation or disconnection; the session counts as paired exactly when
  there is such a token, its PIN has six digits and the QR hash matches the QR secret.\<close>
theorem session_refines_single_token:
  assumes "session_run cr s now g"
  shows "(authorize cr t s \<longleftrightarrow> (\<exists>k. g = Some k \<and> hash cr k = hash cr t)) \<and> (paired s \<longleftrightarrow> g \<noteq> None) \<and>
    six_digits (pin s) \<and> qr_secret_hash s = hash cr (qr_secret s)"
  using session_run_inv [OF assms] by (cases g) (auto simp: authorize_def session_ok_def)

definition toy_crypto :: session_crypto where
  "toy_crypto = \<lparr>sha256 = (\<lambda>bs. bs), base64url = map unat\<rparr>"

definition toy_draws :: session_draws where
  "toy_draws = \<lparr>dr_u32 = 1000042, dr_secret = [65, 66], dr_uuid = 7, dr_now = 5, dr_wall = 0\<rparr>"

lemma replicate_four: "replicate 4 x = [x, x, x, x]"
proof -
  have "(4::nat) = Suc (Suc (Suc (Suc 0)))" by simp
  then show ?thesis by (simp only: replicate.simps)
qed

lemma toy_pin: "pin (new_session_state toy_crypto toy_draws) = [48, 48, 48, 48, 52, 50]"
  by (simp add: new_session_state_def toy_draws_def pad_start_def show_nat.simps Let_def replicate_four)

lemma toy_pairing: "pair_with_pin toy_crypto 6 [67] [32, 48, 48, 48, 48, 52, 50] (new_session_state toy_crypto toy_draws) =
    issue_access_token toy_crypto [67] PairPin (new_session_state toy_crypto toy_draws)"
  by (simp add: pair_with_pin_def ensure_not_expired_def session_elapsed_def UNPAIRED_TTL_def secs_def toy_pin
      trim_def trim_start_def trim_end_def is_whitespace_def) (simp add: toy_draws_def)

lemma session_refines_single_token_witness:
  "\<exists>s. session_run toy_crypto s 6 (Some [67]) \<and> authorize toy_crypto [67] s \<and> \<not> authorize toy_crypto [68] s"
proof -
  let ?s = "new_session_state toy_crypto toy_draws"
  obtain r s' where i: "issue_access_token toy_crypto [67] PairPin ?s = (r, s')" by fastforce
  have "session_run toy_crypto ?s 6 None"
    using session_run.tick [OF session_run.start [of toy_crypto toy_draws], of 6] by (simp add: toy_draws_def)
  from session_run.by_pin [OF this toy_pairing [unfolded i]]
  have "session_run toy_crypto s' 6 (token_after r None)" .
  moreover have "token_after r None = Some [67]"
    using i by (auto simp: issue_access_token_eq random_token_def toy_crypto_def)
  ultimately have run: "session_run toy_crypto s' 6 (Some [67])" by simp
  have "hash toy_crypto [67] \<noteq> hash toy_crypto [68]"
    by (simp add: hash_def toy_crypto_def utf8_encode_def utf8_char_def)
  with run session_refines_single_token [OF run] show ?thesis by blast
qed

text \<open>Pairing with a PIN or a QR secret has three outcomes.  An unpaired session older than the time
  limit answers Expired; otherwise credentials that do not match answer InvalidCredentials; both leave
  the session as it was.  Matching credentials pair the session and return the token it now accepts.\<close>
theorem pairing_outcome:
  assumes "session_ok cr s" "valid_str given"
  shows "pair_with_pin cr now bytes given s =
      (if \<not> paired s \<and> UNPAIRED_TTL < session_elapsed now s then (Err Expired, s)
       else if trim given \<noteq> pin s then (Err InvalidCredentials, s)
       else issue_access_token cr bytes PairPin s) \<and>
    pair_with_qr_secret cr now bytes given s =
      (if \<not> paired s \<and> UNPAIRED_TTL < session_elapsed now s then (Err Expired, s)
       else if hash cr given \<noteq> hash cr (qr_secret s) then (Err InvalidCredentials, s)
       else issue_access_token cr bytes PairQr s) \<and>
    authorize cr (random_token cr bytes) (snd (issue_access_token cr bytes m s))"
proof -
  have "valid_str (pin s)"
    using assms(1) by (auto simp: session_ok_def six_digits_def list_all_iff is_digit_def valid_str_iff scalar_def)
  moreover have "valid_str (trim given)" using assms(2) set_trim [of given] by (auto simp: valid_str_iff)
  ultimately show ?thesis
    using assms(1) utf8_encode_inj [of "pin s" "trim given"]
    by (auto simp: pair_with_pin_def pair_with_qr_secret_def ensure_not_expired_def issue_access_token_eq authorize_def
        session_ok_def)
qed

lemma pairing_outcome_witness:
  "fst (pair_with_pin toy_crypto 6 [67] [49] (new_session_state toy_crypto toy_draws)) = Err InvalidCredentials"
  using pairing_outcome [OF new_session_ok, of "[49]" toy_crypto 6 "[67]" toy_draws]
  by (simp add: toy_pin scalar_def trim_def trim_start_def trim_end_def is_whitespace_def session_elapsed_def
      UNPAIRED_TTL_def secs_def)

text \<open>Expiry.  At the exact time limit a pairing attempt is still accepted but a rotation check
  already replaces the credentials; after a rotation check nothing is expired; rotation is the only
  effect of the check and never touches a paired session; and rotating or disconnecting makes every
  token invalid.\<close>
theorem expiry_and_revocation:
  "(ensure_not_expired now s = Err Expired \<longleftrightarrow> \<not> paired s \<and> UNPAIRED_TTL < session_elapsed now s) \<and>
   ensure_not_expired (dr_now d) (snd (rotate_if_expired cr d s)) = Ok () \<and>
   (fst (rotate_if_expired cr d s) \<longleftrightarrow> \<not> paired s \<and> UNPAIRED_TTL \<le> session_elapsed (dr_now d) s) \<and>
   rotate_if_expired cr d (s\<lparr>paired := True\<rparr>) = (False, s\<lparr>paired := True\<rparr>) \<and>
   \<not> authorize cr t (session_rotate cr d s) \<and> \<not> authorize cr t (session_disconnect s)"
  by (auto simp: ensure_not_expired_def rotate_if_expired_def authorize_def session_rotate_def session_disconnect_def
      session_elapsed_def UNPAIRED_TTL_def secs_def)

text \<open>The two views of a paired session's expiry disagree: once its time limit has passed the public
  view reports 0 seconds while the host's own view still reports the full ten minutes.\<close>
theorem expiry_views_differ:
  "ps_expires_in_seconds (session_public (created_at s + UNPAIRED_TTL) h m (s\<lparr>paired := True\<rparr>)) = 0 \<and>
   session_expires_in_seconds (created_at s + UNPAIRED_TTL) (s\<lparr>paired := True\<rparr>) = 600"
  by (simp add: session_public_def session_expires_in_seconds_def session_elapsed_def UNPAIRED_TTL_def secs_def as_secs_def)

end
