(* ===== verification/Config.thy ===== *)
theory Config
  imports Floats Strings
begin

text \<open>
  \<open>crates/core/src/config.rs\<close>: capture and encoder modes, editable video presets, the migration of
  old configurations and the read-modify-write of the configuration file.  The TOML reader and
  printer are a crate outside the repository and are parameters; the file system is the record
  \<open>config_disk\<close>.
\<close>

section \<open>Modes\<close>

datatype capture_mode = PenDisplay | InputOnly | DisplayOnly

datatype video_profile = Fast | Balanced | Sharp

primrec profile_max_width :: "video_profile \<Rightarrow> u32" where
  "profile_max_width Fast = 1280"
| "profile_max_width Balanced = 1920"
| "profile_max_width Sharp = 2560"

primrec profile_bitrate_bps :: "video_profile \<Rightarrow> u32" where
  "profile_bitrate_bps Fast = 5000000"
| "profile_bitrate_bps Balanced = 10000000"
| "profile_bitrate_bps Sharp = 18000000"

primrec profile_label :: "video_profile \<Rightarrow> ustring" where
  "profile_label Fast = lit ''Fast''"
| "profile_label Balanced = lit ''Balanced''"
| "profile_label Sharp = lit ''Sharp''"

datatype video_codec = H264 | Hevc | Av1

primrec codec_label :: "video_codec \<Rightarrow> ustring" where
  "codec_label H264 = lit ''H.264''"
| "codec_label Hevc = lit ''HEVC''"
| "codec_label Av1 = lit ''AV1''"

primrec codec_mime_type :: "video_codec \<Rightarrow> ustring" where
  "codec_mime_type H264 = lit ''video/H264''"
| "codec_mime_type Hevc = lit ''video/H265''"
| "codec_mime_type Av1 = lit ''video/AV1''"

datatype encoder_mode = Auto | H264Hardware | HevcHardware | Av1Hardware | H264Software

primrec mode_codec :: "encoder_mode \<Rightarrow> video_codec option" where
  "mode_codec Auto = None"
| "mode_codec H264Hardware = Some H264"
| "mode_codec HevcHardware = Some Hevc"
| "mode_codec Av1Hardware = Some Av1"
| "mode_codec H264Software = Some H264"

definition requires_hardware :: "encoder_mode \<Rightarrow> bool" where
  "requires_hardware m \<longleftrightarrow> m \<in> {H264Hardware, HevcHardware, Av1Hardware}"

primrec mode_label :: "encoder_mode \<Rightarrow> ustring" where
  "mode_label Auto = lit ''Auto '' @ [0x2014] @ lit '' Recommended''"
| "mode_label H264Hardware = lit ''H.264 Hardware''"
| "mode_label HevcHardware = lit ''HEVC Hardware''"
| "mode_label Av1Hardware = lit ''AV1 Hardware''"
| "mode_label H264Software = lit ''H.264 Software''"

section \<open>Presets\<close>

record codec_bitrates =
  h264_mbps :: f32
  hevc_mbps :: "f32 option"
  av1_mbps :: "f32 option"

definition unwrap_or :: "'a option \<Rightarrow> 'a \<Rightarrow> 'a" where
  "unwrap_or m d = (case m of Some x \<Rightarrow> x | None \<Rightarrow> d)"

primrec bitrate_for_codec :: "codec_bitrates \<Rightarrow> video_codec \<Rightarrow> f32" where
  "bitrate_for_codec b H264 = h264_mbps b"
| "bitrate_for_codec b Hevc = unwrap_or (hevc_mbps b) (h264_mbps b)"
| "bitrate_for_codec b Av1 = unwrap_or (av1_mbps b) (h264_mbps b)"

primrec set_bitrate_for_codec :: "codec_bitrates \<Rightarrow> video_codec \<Rightarrow> f32 \<Rightarrow> codec_bitrates" where
  "set_bitrate_for_codec b H264 mbps = b\<lparr>h264_mbps := mbps\<rparr>"
| "set_bitrate_for_codec b Hevc mbps = b\<lparr>hevc_mbps := Some mbps\<rparr>"
| "set_bitrate_for_codec b Av1 mbps = b\<lparr>av1_mbps := Some mbps\<rparr>"

definition default_bitrates :: codec_bitrates where
  "default_bitrates = \<lparr>h264_mbps = lit32 10 1, hevc_mbps = None, av1_mbps = None\<rparr>"

record video_preset =
  max_width :: u32
  max_fps :: u32
  bitrates :: codec_bitrates

definition preset_bitrate_bps :: "video_preset \<Rightarrow> video_codec \<Rightarrow> u32" where
  "preset_bitrate_bps p c = f32_as_u32 (round32 (bitrate_for_codec (bitrates p) c * lit32 1000000 1))"

definition bitrate_ok :: "f32 \<Rightarrow> bool" where
  "bitrate_ok v \<longleftrightarrow> \<not> (\<not> is_finite32 v \<or> \<not> (lit32 1 2 \<le> v \<and> v \<le> lit32 200 1))"

definition preset_validate :: "video_preset \<Rightarrow> (unit, ustring) result" where
  "preset_validate p =
     (if \<not> (320 \<le> max_width p \<and> max_width p \<le> 7680) then Err (lit ''maximum width must be between 320 and 7680 pixels'')
      else if \<not> (1 \<le> max_fps p \<and> max_fps p \<le> 120) then Err (lit ''frame rate must be between 1 and 120 fps'')
      else if list_all (\<lambda>m. case m of None \<Rightarrow> True | Some v \<Rightarrow> bitrate_ok v)
          [Some (h264_mbps (bitrates p)), hevc_mbps (bitrates p), av1_mbps (bitrates p)] then Ok ()
      else Err (lit ''bitrate must be between 0.5 and 200 Mbps''))"

definition default_preset :: video_preset where
  "default_preset = \<lparr>max_width = 1920, max_fps = 60, bitrates = default_bitrates\<rparr>"

record video_presets =
  vp_fast :: video_preset
  vp_balanced :: video_preset
  vp_sharp :: video_preset

primrec presets_get :: "video_presets \<Rightarrow> video_profile \<Rightarrow> video_preset" where
  "presets_get ps Fast = vp_fast ps"
| "presets_get ps Balanced = vp_balanced ps"
| "presets_get ps Sharp = vp_sharp ps"

text \<open>\<open>get_mut\<close>: the update through the mutable reference.\<close>

primrec presets_modify :: "video_profile \<Rightarrow> (video_preset \<Rightarrow> video_preset) \<Rightarrow> video_presets \<Rightarrow> video_presets" where
  "presets_modify Fast f ps = ps\<lparr>vp_fast := f (vp_fast ps)\<rparr>"
| "presets_modify Balanced f ps = ps\<lparr>vp_balanced := f (vp_balanced ps)\<rparr>"
| "presets_modify Sharp f ps = ps\<lparr>vp_sharp := f (vp_sharp ps)\<rparr>"

definition default_presets :: video_presets where
  "default_presets =
     \<lparr>vp_fast = \<lparr>max_width = 1280, max_fps = 60, bitrates = default_bitrates\<lparr>h264_mbps := lit32 5 1\<rparr>\<rparr>,
      vp_balanced = default_preset,
      vp_sharp = \<lparr>max_width = 2560, max_fps = 60, bitrates = default_bitrates\<lparr>h264_mbps := lit32 18 1\<rparr>\<rparr>\<rparr>"

section \<open>The configuration\<close>

record network_config =
  nc_port :: u16
  nc_mdns :: bool
  nc_require_pin :: bool

definition default_network :: network_config where
  "default_network = \<lparr>nc_port = 47831, nc_mdns = True, nc_require_pin = True\<rparr>"

record video_config =
  profile :: video_profile
  encoder :: encoder_mode
  cursor :: bool
  presets :: video_presets
  legacy_max_fps :: "u32 option"

definition default_video :: video_config where
  "default_video = \<lparr>profile = Balanced, encoder = Auto, cursor = True, presets = default_presets, legacy_max_fps = None\<rparr>"

definition active_preset :: "video_config \<Rightarrow> video_preset" where
  "active_preset v =
     (let preset = presets_get (presets v) (profile v)
      in case legacy_max_fps v of
           Some fps \<Rightarrow> preset\<lparr>max_fps := clamp_ord fps 1 120\<rparr>
         | None \<Rightarrow> preset)"

definition migrate_legacy :: "video_config \<Rightarrow> video_config" where
  "migrate_legacy v =
     (case legacy_max_fps v of
        Some fps \<Rightarrow> v\<lparr>legacy_max_fps := None,
          presets := presets_modify (profile v) (\<lambda>p. p\<lparr>max_fps := clamp_ord fps 1 120\<rparr>) (presets v)\<rparr>
      | None \<Rightarrow> v)"

definition video_validate :: "video_config \<Rightarrow> (unit, ustring) result" where
  "video_validate v =
     and_then (preset_validate (vp_fast (presets v))) (\<lambda>_.
     and_then (preset_validate (vp_balanced (presets v))) (\<lambda>_.
       preset_validate (vp_sharp (presets v))))"

record input_config =
  ic_pen :: bool
  ic_touch :: bool
  ic_mouse :: bool
  ic_keyboard :: bool
  ic_gestures :: bool
  ic_strict_palm_rejection :: bool
  ic_focus_target_on_pen_down :: bool

definition default_input :: input_config where
  "default_input = \<lparr>ic_pen = True, ic_touch = False, ic_mouse = True, ic_keyboard = True, ic_gestures = True,
     ic_strict_palm_rejection = True, ic_focus_target_on_pen_down = True\<rparr>"

record file_transfer_config =
  fc_enabled :: bool
  fc_max_file_size_mib :: u64
  fc_rate_limit_mbps :: u32
  fc_pause_while_drawing :: bool
  fc_inbox_directory :: "ustring option"

definition default_file_transfer :: file_transfer_config where
  "default_file_transfer = \<lparr>fc_enabled = True, fc_max_file_size_mib = 10 * 1024, fc_rate_limit_mbps = 32,
     fc_pause_while_drawing = True, fc_inbox_directory = None\<rparr>"

record app_config =
  ac_mode :: capture_mode
  ac_monitor_index :: nat
  ac_network :: network_config
  ac_video :: video_config
  ac_input :: input_config
  ac_file_transfer :: file_transfer_config
  ac_show_advanced_stats :: bool

definition default_app :: app_config where
  "default_app = \<lparr>ac_mode = PenDisplay, ac_monitor_index = 1, ac_network = default_network, ac_video = default_video,
     ac_input = default_input, ac_file_transfer = default_file_transfer, ac_show_advanced_stats = False\<rparr>"

section \<open>The configuration file\<close>

datatype io_error = IoNotFound | IoInvalidData | IoOther

record config_disk =
  disk_config_dir :: bool
  disk_can_create :: bool
  disk_can_write :: bool
  disk_read_error :: "io_error option"
  disk_file :: "ustring option"

record toml =
  toml_from_str :: "ustring \<Rightarrow> app_config option"
  toml_to_string :: "app_config \<Rightarrow> ustring option"

definition config_path :: "config_disk \<Rightarrow> (unit, io_error) result" where
  "config_path d = (if disk_config_dir d then Ok () else Err IoNotFound)"

definition read_config :: "config_disk \<Rightarrow> (ustring, io_error) result" where
  "read_config d =
     (case disk_file d of
        None \<Rightarrow> Err IoNotFound
      | Some t \<Rightarrow> (case disk_read_error d of Some e \<Rightarrow> Err e | None \<Rightarrow> Ok t))"

definition config_load :: "toml \<Rightarrow> config_disk \<Rightarrow> (app_config, io_error) result" where
  "config_load tm d =
     and_then (config_path d) (\<lambda>_.
     case read_config d of
       Ok contents \<Rightarrow>
         and_then (ok_or IoInvalidData (toml_from_str tm contents)) (\<lambda>config.
         let config = config\<lparr>ac_video := migrate_legacy (ac_video config)\<rparr>
         in and_then (map_error (\<lambda>_. IoInvalidData) (video_validate (ac_video config))) (\<lambda>_. Ok config))
     | Err e \<Rightarrow> if e = IoNotFound then Ok default_app else Err e)"

definition config_save :: "toml \<Rightarrow> app_config \<Rightarrow> config_disk \<Rightarrow> (unit, io_error) result \<times> config_disk" where
  "config_save tm c d =
     (case config_path d of Err e \<Rightarrow> (Err e, d) | Ok _ \<Rightarrow>
      if \<not> disk_can_create d then (Err IoOther, d)
      else case toml_to_string tm c of None \<Rightarrow> (Err IoOther, d) | Some contents \<Rightarrow>
        if \<not> disk_can_write d then (Err IoOther, d) else (Ok (), d\<lparr>disk_file := Some contents\<rparr>))"

definition save_video_settings :: "toml \<Rightarrow> video_config \<Rightarrow> config_disk \<Rightarrow> (unit, io_error) result \<times> config_disk" where
  "save_video_settings tm v d =
     (case video_validate v of Err e \<Rightarrow> (Err IoOther, d) | Ok _ \<Rightarrow>
      case config_load tm d of Err e \<Rightarrow> (Err e, d) | Ok config \<Rightarrow>
        config_save tm (config\<lparr>ac_video := v\<rparr>) d)"

section \<open>Presets and migration\<close>

lemma presets_get_modify [simp]: "presets_get (presets_modify p f ps) q = (if p = q then f (presets_get ps q) else presets_get ps q)"
  by (cases p; cases q) simp_all

lemma bitrate_set_get: "bitrate_for_codec (set_bitrate_for_codec b c v) c = v"
  by (cases c) (simp_all add: unwrap_or_def)

lemma bitrate_set_other: "c \<noteq> H264 \<Longrightarrow> d \<noteq> c \<Longrightarrow> bitrate_for_codec (set_bitrate_for_codec b c v) d = bitrate_for_codec b d"
  by (cases c; cases d) (simp_all add: unwrap_or_def)

definition preset_valid :: "video_preset \<Rightarrow> bool" where
  "preset_valid p \<longleftrightarrow> 320 \<le> max_width p \<and> max_width p \<le> 7680 \<and> 1 \<le> max_fps p \<and> max_fps p \<le> 120 \<and>
     (\<forall>c. bitrate_ok (bitrate_for_codec (bitrates p) c))"

lemma all_codecs: "(\<forall>c. P c) \<longleftrightarrow> P H264 \<and> P Hevc \<and> P Av1"
  by (metis video_codec.exhaust)

lemma all_profiles: "(\<forall>p. P p) \<longleftrightarrow> P Fast \<and> P Balanced \<and> P Sharp"
  by (metis video_profile.exhaust)

lemma preset_validate_iff: "preset_validate p = Ok () \<longleftrightarrow> preset_valid p"
  by (auto simp: preset_validate_def preset_valid_def unwrap_or_def all_codecs split: option.splits)

lemma video_validate_iff: "video_validate v = Ok () \<longleftrightarrow> (\<forall>p. preset_valid (presets_get (presets v) p))"
  by (simp add: video_validate_def preset_validate_iff all_profiles)

text \<open>Migrating an old configuration keeps what it meant: the active preset is unchanged, the old
  field is gone, the other presets are untouched, and migrating again changes nothing.\<close>
theorem migrate_legacy_keeps_active_preset:
  "active_preset (migrate_legacy v) = active_preset v \<and> legacy_max_fps (migrate_legacy v) = None \<and>
   profile (migrate_legacy v) = profile v \<and> encoder (migrate_legacy v) = encoder v \<and>
   {p. presets_get (presets (migrate_legacy v)) p \<noteq> presets_get (presets v) p} \<subseteq> {profile v} \<and>
   migrate_legacy (migrate_legacy v) = migrate_legacy v"
  by (auto simp: active_preset_def migrate_legacy_def Let_def split: option.splits if_splits)

lemma default_bitrates_ok:
  "bitrate_ok (lit32 5 1)" "bitrate_ok (lit32 10 1)" "bitrate_ok (lit32 18 1)"
  by code_simp+

lemma default_video_valid: "video_validate default_video = Ok ()"
  by (simp add: video_validate_iff all_profiles preset_valid_def all_codecs default_video_def default_presets_def
      default_preset_def default_bitrates_def unwrap_or_def default_bitrates_ok)

text \<open>A configuration that loads, from a file or from the defaults, has three valid presets and no
  legacy field; validation accepts exactly the presets of 320..7680 pixels, 1..120 frames a second and
  0.5..200 Mbps for every codec.\<close>
theorem loaded_config_valid:
  assumes "config_load tm d = Ok c"
  shows "legacy_max_fps (ac_video c) = None \<and> (\<forall>p. preset_validate (presets_get (presets (ac_video c)) p) = Ok ()) \<and>
    (preset_validate q = Ok () \<longleftrightarrow> preset_valid q)"
proof -
  have m: "legacy_max_fps (migrate_legacy v) = None" for v
    by (simp add: migrate_legacy_def split: option.splits)
  have "map_error f m = Ok x \<longleftrightarrow> m = Ok x" for f :: "ustring \<Rightarrow> io_error" and m and x :: unit
    by (cases m) auto
  then have "legacy_max_fps (ac_video c) = None \<and> video_validate (ac_video c) = Ok ()"
    using assms m default_video_valid
    by (auto simp: config_load_def Let_def default_app_def default_video_def split: result.splits if_splits)
  then show ?thesis by (simp add: video_validate_iff preset_validate_iff)
qed

definition empty_disk :: config_disk where
  "empty_disk = \<lparr>disk_config_dir = True, disk_can_create = True, disk_can_write = True, disk_read_error = None, disk_file = None\<rparr>"

definition toy_toml :: "app_config \<Rightarrow> toml" where
  "toy_toml c = \<lparr>toml_from_str = (\<lambda>_. Some c), toml_to_string = (\<lambda>_. Some [])\<rparr>"

definition sharp_app :: app_config where
  "sharp_app = default_app\<lparr>ac_video := default_video\<lparr>profile := Sharp\<rparr>\<rparr>"

lemma loaded_config_valid_witness:
  "config_load (toy_toml sharp_app) empty_disk = Ok default_app \<and> legacy_max_fps (ac_video default_app) = None"
proof -
  have l: "config_load (toy_toml sharp_app) empty_disk = Ok default_app"
    by (simp add: config_load_def config_path_def read_config_def empty_disk_def)
  with loaded_config_valid [OF l] show ?thesis by simp
qed

text \<open>Saving video settings is a read-modify-write: invalid settings and an unreadable file leave the
  disk as it was; otherwise the file printed from the loaded configuration with only the video part
  replaced is written, and loading it again returns exactly that configuration.  The TOML crate is
  used under its round-trip law for the configuration written.\<close>
theorem save_video_settings_roundtrip:
  assumes "config_load tm d = Ok old" "disk_can_create d" "disk_can_write d" "disk_read_error d = None"
    and "legacy_max_fps v = None"
    and "toml_to_string tm (old\<lparr>ac_video := v\<rparr>) = Some t" "toml_from_str tm t = Some (old\<lparr>ac_video := v\<rparr>)"
  shows "(\<exists>e. video_validate v = Err e \<and> save_video_settings tm v d = (Err IoOther, d)) \<or>
    (\<exists>d'. save_video_settings tm v d = (Ok (), d') \<and> d' = d\<lparr>disk_file := Some t\<rparr> \<and>
      config_load tm d' = Ok (old\<lparr>ac_video := v\<rparr>))"
proof (cases "video_validate v")
  case (Err e)
  then show ?thesis by (simp add: save_video_settings_def)
next
  case (Ok u)
  have p: "disk_config_dir d" using assms(1) by (auto simp: config_load_def config_path_def split: if_splits)
  then have "save_video_settings tm v d = (Ok (), d\<lparr>disk_file := Some t\<rparr>)"
    using Ok assms by (simp add: save_video_settings_def config_save_def config_path_def)
  moreover have "config_load tm (d\<lparr>disk_file := Some t\<rparr>) = Ok (old\<lparr>ac_video := v\<rparr>)"
    using Ok assms p by (simp add: config_load_def config_path_def read_config_def migrate_legacy_def)
  ultimately show ?thesis by blast
qed

definition sharp_video :: video_config where
  "sharp_video = default_video\<lparr>profile := Sharp\<rparr>"

lemma save_video_settings_roundtrip_witness:
  "\<exists>d'. save_video_settings (toy_toml (default_app\<lparr>ac_video := sharp_video\<rparr>)) sharp_video empty_disk = (Ok (), d') \<and>
    config_load (toy_toml (default_app\<lparr>ac_video := sharp_video\<rparr>)) d' = Ok (default_app\<lparr>ac_video := sharp_video\<rparr>)"
proof -
  let ?tm = "toy_toml (default_app\<lparr>ac_video := sharp_video\<rparr>)"
  have "config_load ?tm empty_disk = Ok default_app"
    by (simp add: config_load_def config_path_def read_config_def empty_disk_def)
  moreover have "video_validate sharp_video = Ok ()"
    using default_video_valid by (simp add: sharp_video_def video_validate_iff)
  ultimately show ?thesis
    using save_video_settings_roundtrip [of ?tm empty_disk default_app sharp_video "[]"]
    by (auto simp: empty_disk_def toy_toml_def sharp_video_def default_video_def)
qed

end
