(* ===== verification/Video.thy ===== *)
theory Video
  imports Config
begin

text \<open>
  \<open>crates/core/src/video.rs\<close>: what an encoder and a browser can do, the compatibility matrix of the
  manual modes, and the score that ranks the candidates of the automatic mode.  The reasons of
  \<open>AutoScore\<close> are the constructors of \<open>gate\<close> with the numbers the message prints.
\<close>

section \<open>Capabilities\<close>

datatype encoder_backend = MediaFoundationHardware | OpenH264Software

primrec backend_label :: "encoder_backend \<Rightarrow> ustring" where
  "backend_label MediaFoundationHardware = lit ''Media Foundation hardware''"
| "backend_label OpenH264Software = lit ''OpenH264 software''"

datatype pipeline_memory_mode = GpuZeroCopy | GpuAssisted | CpuCopy | CpuPreprocessing

primrec memory_mode_label :: "pipeline_memory_mode \<Rightarrow> ustring" where
  "memory_mode_label GpuZeroCopy = lit ''GPU zero-copy''"
| "memory_mode_label GpuAssisted = lit ''GPU assisted''"
| "memory_mode_label CpuCopy = lit ''CPU copy''"
| "memory_mode_label CpuPreprocessing = lit ''CPU preprocess''"

datatype capability_state = Detected | Initializeable | Functional | BenchmarkTested | CapUnavailable | Failed

definition is_usable :: "capability_state \<Rightarrow> bool" where
  "is_usable s \<longleftrightarrow> s = Functional \<or> s = BenchmarkTested"

record encoder_capability =
  ec_id :: ustring
  ec_codec :: video_codec
  ec_backend :: encoder_backend
  ec_hardware :: bool
  ec_encoder_name :: ustring
  ec_adapter_name :: "ustring option"
  ec_adapter_luid :: "ustring option"
  ec_vendor :: "ustring option"
  ec_driver_version :: "ustring option"
  ec_input_formats :: "ustring list"
  ec_profiles :: "ustring list"
  ec_low_latency :: "bool option"
  ec_rate_control :: "ustring list"
  ec_maximum_tested_width :: "u32 option"
  ec_maximum_tested_height :: "u32 option"
  ec_maximum_tested_fps :: "u32 option"
  ec_state :: capability_state
  ec_failure_reason :: "ustring option"

definition capability_mode :: "encoder_capability \<Rightarrow> encoder_mode" where
  "capability_mode c =
     (case (ec_codec c, ec_hardware c) of
        (H264, True) \<Rightarrow> H264Hardware
      | (Hevc, True) \<Rightarrow> HevcHardware
      | (Av1, True) \<Rightarrow> Av1Hardware
      | (H264, False) \<Rightarrow> H264Software
      | (_, False) \<Rightarrow> Auto)"

record browser_codec_capability =
  bc_reported :: bool
  bc_included_in_sdp :: bool
  bc_negotiated :: bool
  bc_first_keyframe_received :: bool
  bc_presented :: bool
  bc_mime_types :: "ustring list"
  bc_failure_reason :: "ustring option"

definition default_browser_codec :: browser_codec_capability where
  "default_browser_codec = \<lparr>bc_reported = False, bc_included_in_sdp = False, bc_negotiated = False,
     bc_first_keyframe_received = False, bc_presented = False, bc_mime_types = [], bc_failure_reason = None\<rparr>"

record browser_video_capabilities =
  bv_user_agent :: ustring
  bv_set_codec_preferences :: bool
  bv_h264 :: browser_codec_capability
  bv_hevc :: browser_codec_capability
  bv_av1 :: browser_codec_capability

definition default_browser :: browser_video_capabilities where
  "default_browser = \<lparr>bv_user_agent = [], bv_set_codec_preferences = False, bv_h264 = default_browser_codec,
     bv_hevc = default_browser_codec, bv_av1 = default_browser_codec\<rparr>"

primrec browser_get :: "browser_video_capabilities \<Rightarrow> video_codec \<Rightarrow> browser_codec_capability" where
  "browser_get b H264 = bv_h264 b"
| "browser_get b Hevc = bv_hevc b"
| "browser_get b Av1 = bv_av1 b"

primrec browser_modify ::
  "video_codec \<Rightarrow> (browser_codec_capability \<Rightarrow> browser_codec_capability) \<Rightarrow> browser_video_capabilities \<Rightarrow> browser_video_capabilities" where
  "browser_modify H264 f b = b\<lparr>bv_h264 := f (bv_h264 b)\<rparr>"
| "browser_modify Hevc f b = b\<lparr>bv_hevc := f (bv_hevc b)\<rparr>"
| "browser_modify Av1 f b = b\<lparr>bv_av1 := f (bv_av1 b)\<rparr>"

section \<open>Compatibility matrix\<close>

datatype mode_availability = Available | Provisional | Experimental | Unavailable

record compatibility_entry =
  ce_mode :: encoder_mode
  ce_codec :: video_codec
  ce_host_detected :: bool
  ce_host_functional :: bool
  ce_browser_reported :: bool
  ce_negotiated :: bool
  ce_presentation_verified :: bool
  ce_availability :: mode_availability
  ce_reason :: ustring

fun find_map :: "('a \<Rightarrow> 'b option) \<Rightarrow> 'a list \<Rightarrow> 'b option" where
  "find_map f [] = None"
| "find_map f (x # xs) = (case f x of Some y \<Rightarrow> Some y | None \<Rightarrow> find_map f xs)"

text \<open>The four manual modes all have a codec, so the \<open>expect\<close> of the source cannot fail.\<close>

definition manual_modes :: "encoder_mode list" where
  "manual_modes = [H264Hardware, HevcHardware, Av1Hardware, H264Software]"

definition compatibility_entry_for ::
  "encoder_capability list \<Rightarrow> browser_video_capabilities \<Rightarrow> encoder_mode \<Rightarrow> compatibility_entry" where
  "compatibility_entry_for host browser mode =
     (let codec = the (mode_codec mode);
          candidates = filter (\<lambda>item. capability_mode item = mode) host;
          host_detected = (candidates \<noteq> []);
          host_functional = list_ex (\<lambda>item. is_usable (ec_state item)) candidates;
          receiver = browser_get browser codec;
          availability =
            (if \<not> host_detected \<or> \<not> host_functional then Unavailable
             else if bc_presented receiver then Available
             else if bc_negotiated receiver \<or> bc_first_keyframe_received receiver then Experimental
             else if bc_reported receiver then Provisional
             else Unavailable);
          reason =
            (case availability of
               Available \<Rightarrow> codec_label codec @ lit '' encode and browser presentation verified''
             | Experimental \<Rightarrow> codec_label codec @ lit '' negotiated, but decoded presentation is not verified''
             | Provisional \<Rightarrow> lit ''browser reports '' @ codec_label codec @ lit '', pending an end-to-end playback test''
             | Unavailable \<Rightarrow>
                 if \<not> host_detected then lit ''no '' @ mode_label mode @ lit '' encoder candidate was detected on this PC''
                 else if \<not> host_functional then
                   unwrap_or (find_map ec_failure_reason candidates)
                     (mode_label mode @ lit '' was detected but failed its initialization test'')
                 else lit ''the browser did not report '' @ codec_label codec @ lit '' receive support'')
      in \<lparr>ce_mode = mode, ce_codec = codec, ce_host_detected = host_detected, ce_host_functional = host_functional,
          ce_browser_reported = bc_reported receiver, ce_negotiated = bc_negotiated receiver,
          ce_presentation_verified = bc_presented receiver, ce_availability = availability, ce_reason = reason\<rparr>)"

definition compatibility_matrix ::
  "encoder_capability list \<Rightarrow> browser_video_capabilities \<Rightarrow> compatibility_entry list" where
  "compatibility_matrix host browser = map (compatibility_entry_for host browser) manual_modes"

section \<open>Automatic selection score\<close>

record benchmark_metrics =
  bm_requested_fps :: f64
  bm_encoded_fps :: f64
  bm_presented_fps :: "f64 option"
  bm_encode_mean_ms :: f64
  bm_encode_p95_ms :: f64
  bm_preprocess_mean_ms :: f64
  bm_preprocess_p95_ms :: f64
  bm_actual_mbps :: f64
  bm_cpu_percent :: "f64 option"
  bm_working_set_mib :: "f64 option"
  bm_drop_percent :: f64
  bm_freeze_count :: "u64 option"
  bm_pipeline_p95_ms :: "f64 option"
  bm_quality_score :: "f64 option"

datatype gate = FpsGate f64 f64 | EncodeGate f64 | DropGate f64 | FreezeGate

record score_components =
  sc_bandwidth :: f64
  sc_cpu :: f64
  sc_frame_stability :: f64
  sc_latency :: f64
  sc_memory :: f64
  sc_quality :: f64

record auto_score =
  as_mode :: encoder_mode
  as_passed_gates :: bool
  as_score :: "f64 option"
  as_components :: "score_components option"
  as_reasons :: "gate list"

definition MAX_ENCODE_P95_FRACTION_OF_FRAME :: f64 where "MAX_ENCODE_P95_FRACTION_OF_FRAME = lit64 72 100"
definition MIN_FPS_FRACTION :: f64 where "MIN_FPS_FRACTION = lit64 92 100"
definition MAX_DROP_PERCENT :: f64 where "MAX_DROP_PERCENT = lit64 5 1"

definition frame_budget_ms :: "benchmark_metrics \<Rightarrow> f64" where
  "frame_budget_ms b = lit64 1000 1 / max64 (bm_requested_fps b) 1"

definition actual_fps :: "benchmark_metrics \<Rightarrow> f64" where
  "actual_fps b = unwrap_or (bm_presented_fps b) (bm_encoded_fps b)"

definition failed_gates :: "benchmark_metrics \<Rightarrow> gate list" where
  "failed_gates b =
     (if actual_fps b < bm_requested_fps b * MIN_FPS_FRACTION
      then [FpsGate (actual_fps b) (bm_requested_fps b * MIN_FPS_FRACTION)] else []) @
     (if frame_budget_ms b * MAX_ENCODE_P95_FRACTION_OF_FRAME < bm_encode_p95_ms b
      then [EncodeGate (bm_encode_p95_ms b)] else []) @
     (if MAX_DROP_PERCENT < bm_drop_percent b then [DropGate (bm_drop_percent b)] else []) @
     (case bm_freeze_count b of Some n \<Rightarrow> if 0 < n then [FreezeGate] else [] | None \<Rightarrow> [])"

definition share :: "f64 \<Rightarrow> f64 \<Rightarrow> f64" where
  "share v weight = clamp_ord v 0 1 * weight"

definition candidate_components :: "benchmark_metrics \<Rightarrow> score_components" where
  "candidate_components b =
     \<lparr>sc_bandwidth = share (1 - bm_actual_mbps b / lit64 20 1) (lit64 18 1),
      sc_cpu = (case bm_cpu_percent b of None \<Rightarrow> lit64 15 2 | Some v \<Rightarrow> share (1 - v / lit64 100 1) (lit64 10 1)),
      sc_frame_stability = share (actual_fps b / max64 (bm_requested_fps b) 1) (lit64 25 1),
      sc_latency = share (1 - bm_encode_p95_ms b / frame_budget_ms b) (lit64 35 1),
      sc_memory = (case bm_working_set_mib b of None \<Rightarrow> lit64 9 2 | Some v \<Rightarrow> share (1 - v / lit64 2048 1) (lit64 6 1)),
      sc_quality = (case bm_quality_score b of None \<Rightarrow> lit64 3 1 | Some v \<Rightarrow> share v (lit64 6 1))\<rparr>"

text \<open>The components are summed in the order of the ordered map's keys.\<close>

definition components_sum :: "score_components \<Rightarrow> f64" where
  "components_sum c = foldl (+) 0 [sc_bandwidth c, sc_cpu c, sc_frame_stability c, sc_latency c, sc_memory c, sc_quality c]"

definition score_auto_candidate :: "encoder_mode \<Rightarrow> benchmark_metrics \<Rightarrow> auto_score" where
  "score_auto_candidate mode b =
     (let reasons = failed_gates b;
          passed_gates = (reasons = [])
      in if \<not> passed_gates then
           \<lparr>as_mode = mode, as_passed_gates = passed_gates, as_score = None, as_components = None, as_reasons = reasons\<rparr>
         else
           (let components = candidate_components b
            in \<lparr>as_mode = mode, as_passed_gates = passed_gates, as_score = Some (components_sum components),
                as_components = Some components, as_reasons = reasons\<rparr>))"

section \<open>Settings and run-time state\<close>

record auto_benchmark_observation =
  ao_schema_version :: u32
  ao_nfidb_version :: ustring
  ao_receiver_runtime :: ustring
  ao_encoder_id :: ustring
  ao_mode :: encoder_mode
  ao_profile :: video_profile
  ao_max_width :: u32
  ao_requested_fps :: u32
  ao_end_to_end_verified :: bool
  ao_recorded_unix_ms :: nat
  ao_metrics :: benchmark_metrics
  ao_score :: auto_score

record video_settings_snapshot =
  vs_revision :: u64
  vs_settings :: video_config

record set_video_settings_request =
  sv_base_revision :: u64
  sv_settings :: video_config

record video_runtime_status =
  vr_requested_mode :: encoder_mode
  vr_active_mode :: encoder_mode
  vr_codec :: video_codec
  vr_backend :: encoder_backend
  vr_encoder_name :: ustring
  vr_hardware :: bool
  vr_pipeline_memory_mode :: pipeline_memory_mode
  vr_output_width :: u32
  vr_output_height :: u32
  vr_target_fps :: u32
  vr_target_bitrate_bps :: u32
  vr_restart_count :: u64
  vr_switching :: bool
  vr_auto_selection_reason :: ustring
  vr_last_error :: "ustring option"

section \<open>The matrix\<close>

lemma manual_mode_codec: "m \<in> set manual_modes \<Longrightarrow> mode_codec m \<noteq> None"
  by (auto simp: manual_modes_def)

lemma capability_mode_codec: "capability_mode c \<noteq> Auto \<Longrightarrow> mode_codec (capability_mode c) = Some (ec_codec c)"
  by (auto simp: capability_mode_def split: video_codec.splits bool.splits)

definition host_can :: "encoder_capability list \<Rightarrow> encoder_mode \<Rightarrow> bool" where
  "host_can host mode \<longleftrightarrow> (\<exists>c \<in> set host. capability_mode c = mode \<and> is_usable (ec_state c))"

text \<open>The compatibility matrix has one entry for each manual mode, in the fixed order.  A mode is
  available exactly when some host encoder of that mode works and the browser has presented its codec;
  it is offered at all exactly when the host can encode it and the browser has at least reported,
  negotiated or received it; no software HEVC or AV1 encoder ever makes a mode available.\<close>
theorem compatibility_matrix_sound:
  "map ce_mode (compatibility_matrix host browser) = manual_modes \<and>
   (\<forall>e. e \<in> set (compatibility_matrix host browser) \<longrightarrow>
     (ce_availability e = Available \<longleftrightarrow> host_can host (ce_mode e) \<and> bc_presented (browser_get browser (ce_codec e))) \<and>
     (ce_availability e \<noteq> Unavailable \<longleftrightarrow> host_can host (ce_mode e) \<and>
       (let r = browser_get browser (ce_codec e)
        in bc_presented r \<or> bc_negotiated r \<or> bc_first_keyframe_received r \<or> bc_reported r)) \<and>
     mode_codec (ce_mode e) = Some (ce_codec e) \<and>
     (host_can host (ce_mode e) \<longrightarrow> (\<exists>c \<in> set host. ec_codec c = ce_codec e \<and> is_usable (ec_state c) \<and>
       (ec_hardware c \<or> ce_codec e = H264))))"
proof -
  have m: "ce_mode (compatibility_entry_for host browser m) = m" for m
    by (simp add: compatibility_entry_for_def Let_def)
  have e: "(ce_availability e = Available \<longleftrightarrow> host_can host (ce_mode e) \<and> bc_presented (browser_get browser (ce_codec e))) \<and>
      (ce_availability e \<noteq> Unavailable \<longleftrightarrow> host_can host (ce_mode e) \<and>
       (let r = browser_get browser (ce_codec e)
        in bc_presented r \<or> bc_negotiated r \<or> bc_first_keyframe_received r \<or> bc_reported r)) \<and>
      ce_codec e = the (mode_codec m)" if "e = compatibility_entry_for host browser m" for e m
    unfolding that by (auto simp: compatibility_entry_for_def Let_def host_can_def list_ex_iff filter_empty_conv)
  have c: "ec_codec c = the (mode_codec m) \<and> (ec_hardware c \<or> ec_codec c = H264)" if "capability_mode c = m" "m \<in> set manual_modes" for c m
    using that by (auto simp: capability_mode_def manual_modes_def split: video_codec.splits bool.splits)
  show ?thesis
  proof (intro conjI allI impI)
    show "map ce_mode (compatibility_matrix host browser) = manual_modes"
      by (simp add: compatibility_matrix_def comp_def m)
  next
    fix e assume "e \<in> set (compatibility_matrix host browser)"
    then obtain m where em: "e = compatibility_entry_for host browser m" "m \<in> set manual_modes"
      by (auto simp: compatibility_matrix_def)
    note E = e [OF em(1)]
    have "ce_mode e = m" using em(1) m by simp
    show "(ce_availability e = Available) = (host_can host (ce_mode e) \<and> bc_presented (browser_get browser (ce_codec e)))"
      "(ce_availability e \<noteq> Unavailable) = (host_can host (ce_mode e) \<and>
         (let r = browser_get browser (ce_codec e)
          in bc_presented r \<or> bc_negotiated r \<or> bc_first_keyframe_received r \<or> bc_reported r))"
      using E by blast+
    show "mode_codec (ce_mode e) = Some (ce_codec e)"
      using E manual_mode_codec [OF em(2)] \<open>ce_mode e = m\<close> by auto
    show "\<exists>c \<in> set host. ec_codec c = ce_codec e \<and> is_usable (ec_state c) \<and> (ec_hardware c \<or> ce_codec e = H264)"
      if "host_can host (ce_mode e)"
    proof -
      from that obtain k where k: "k \<in> set host" "capability_mode k = m" "is_usable (ec_state k)"
        using \<open>ce_mode e = m\<close> by (auto simp: host_can_def)
      with c [OF k(2) em(2)] E show ?thesis by auto
    qed
  qed
qed

definition software_h264 :: encoder_capability where
  "software_h264 = \<lparr>ec_id = [], ec_codec = H264, ec_backend = OpenH264Software, ec_hardware = False, ec_encoder_name = [],
     ec_adapter_name = None, ec_adapter_luid = None, ec_vendor = None, ec_driver_version = None, ec_input_formats = [],
     ec_profiles = [], ec_low_latency = None, ec_rate_control = [], ec_maximum_tested_width = None,
     ec_maximum_tested_height = None, ec_maximum_tested_fps = None, ec_state = Functional, ec_failure_reason = None\<rparr>"

lemma compatibility_matrix_sound_witness:
  "ce_availability (compatibility_matrix [software_h264] (default_browser\<lparr>bv_h264 := default_browser_codec\<lparr>bc_presented := True\<rparr>\<rparr>) ! 3) = Available"
proof -
  let ?b = "default_browser\<lparr>bv_h264 := default_browser_codec\<lparr>bc_presented := True\<rparr>\<rparr>"
  let ?e = "compatibility_entry_for [software_h264] ?b H264Software"
  have e: "?e \<in> set (compatibility_matrix [software_h264] ?b)" "compatibility_matrix [software_h264] ?b ! 3 = ?e"
    by (simp_all add: compatibility_matrix_def manual_modes_def)
  have "ce_mode ?e = H264Software" "ce_codec ?e = H264" by (simp_all add: compatibility_entry_for_def Let_def)
  moreover have "host_can [software_h264] H264Software"
    by (simp add: host_can_def software_h264_def capability_mode_def is_usable_def)
  ultimately show ?thesis
    using compatibility_matrix_sound [of "[software_h264]" ?b] e by simp
qed

section \<open>The score\<close>

definition metrics_finite :: "benchmark_metrics \<Rightarrow> bool" where
  "metrics_finite b \<longleftrightarrow> is_finite64 (bm_requested_fps b) \<and> is_finite64 (bm_encoded_fps b) \<and>
     is_finite64 (bm_encode_p95_ms b) \<and> is_finite64 (bm_actual_mbps b) \<and>
     list_all (\<lambda>m. case m of None \<Rightarrow> True | Some v \<Rightarrow> is_finite64 v)
       [bm_presented_fps b, bm_cpu_percent b, bm_working_set_mib b, bm_quality_score b]"

lemma share_upto: "fp64 v \<noteq> FNan \<Longrightarrow> 0 \<le> k \<Longrightarrow> k < 2 ^ 53 \<Longrightarrow> fp_upto b64 k (fp64 (share v (lit64 k 1)))"
  unfolding share_def by (intro upto64_mul clamp_unit64 upto64_lit)

lemma one_minus_not_nan: "fp64 v \<noteq> FNan \<Longrightarrow> fp64 (1 - v) \<noteq> FNan"
  by (simp add: fp64_minus fp_add_not_nan del: fp_add.simps)

lemma div_lit_not_nan: "is_finite64 v \<Longrightarrow> 0 < k \<Longrightarrow> k < 2 ^ 53 \<Longrightarrow> fp64 (v / lit64 k 1) \<noteq> FNan"
  using lit64_nonzero [of k] fp_div_not_nan [of "fp64 v" _ False _ b64]
  by (fastforce simp: fp64_div is_finite64_def simp del: fp_div.simps)

lemma frame_budget_positive:
  assumes "is_finite64 (bm_requested_fps b)"
  shows "\<exists>n. fp64 (frame_budget_ms b) = FFin False n \<and> n \<noteq> 0"
proof -
  obtain m where m: "fp64 (max64 (bm_requested_fps b) 1) = FFin False m" "0x3FF0000000000000 \<le> m" "m < inf_mag b64"
    using max64_1 [OF assms] by blast
  obtain k where k: "fp64 (lit64 1000 1) = FFin False k" "0 < k" "k < inf_mag b64" "mag_units b64 k = 1000 * one_units b64"
    using lit64_nonzero [of 1000] by auto
  have pos: "0 < mag_units b64 m" using m by (intro mag_units_pos) simp
  have "one_units b64 \<le> mag_units b64 m"
    using mag_units_le_iff [of "0x3FF0000000000000" m b64] m by (simp add: mag_units_one64)
  then have le: "mag_units b64 k * one_units b64 \<le> mag_units b64 k * mag_units b64 m"
    using k by (intro mult_left_mono) simp_all
  obtain q where q: "fp_ratio b64 False (mag_units b64 k * one_units b64) (mag_units b64 m) = FFin False q" "0 \<le> q"
    using fp_ratio_below [OF pos _ _ k(3) le] k by auto
  have "mag_units b64 m < mag_units b64 (inf_mag b64)" using m by (intro mag_units_strict_mono) simp_all
  also have "\<dots> = 2 ^ 2098" unfolding inf_mag_simps by (simp add: mag_units_def b64_def)
  also have "\<dots> \<le> mag_units b64 k * one_units b64" by (simp add: k(4) one_units_b64)
  finally have "1 * mag_units b64 m \<le> mag_units b64 k * one_units b64 * 1" by simp
  then have "round_mag b64 1 1 \<le> round_mag b64 (mag_units b64 k * one_units b64) (mag_units b64 m)"
    using pos by (intro round_mag_mono) simp_all
  moreover have "round_mag b64 1 1 = 1" using round_mag_units [of 1 b64] by (simp add: mag_units_def b64_def)
  ultimately have "q \<noteq> 0" using q by (auto simp: fp_ratio_def fp_pack_def split: if_splits)
  moreover have "fp64 (frame_budget_ms b) = FFin False q"
    using q m k pos by (auto simp: frame_budget_ms_def fp64_div)
  ultimately show ?thesis by blast
qed

lemma components_upto:
  assumes "metrics_finite b"
  shows "fp_upto b64 18 (fp64 (sc_bandwidth (candidate_components b)))" "fp_upto b64 10 (fp64 (sc_cpu (candidate_components b)))"
    "fp_upto b64 25 (fp64 (sc_frame_stability (candidate_components b)))" "fp_upto b64 35 (fp64 (sc_latency (candidate_components b)))"
    "fp_upto b64 6 (fp64 (sc_memory (candidate_components b)))" "fp_upto b64 6 (fp64 (sc_quality (candidate_components b)))"
proof -
  have l: "fp_upto b64 10 (fp64 (lit64 15 2))" "fp_upto b64 6 (fp64 (lit64 9 2))"
    using fp_upto_ratio [of b64 10 2 "15 * one_units b64"] fp_upto_ratio [of b64 6 2 "9 * one_units b64"]
    by (simp_all add: lit64_def fp_lit_def fp64_upto)
  have nn: "fp64 v \<noteq> FNan" if "is_finite64 v" for v using that by (auto simp: is_finite64_def)
  obtain n where "fp64 (frame_budget_ms b) = FFin False n" "n \<noteq> 0"
    using frame_budget_positive [of b] assms by (auto simp: metrics_finite_def)
  then have "fp64 (bm_encode_p95_ms b / frame_budget_ms b) \<noteq> FNan"
    using assms by (simp add: fp64_div fp_div_not_nan metrics_finite_def is_finite64_def del: fp_div.simps)
  moreover have "fp64 (actual_fps b / max64 (bm_requested_fps b) 1) \<noteq> FNan"
  proof -
    obtain m where "fp64 (max64 (bm_requested_fps b) 1) = FFin False m" "m \<noteq> 0"
      using max64_1 [of "bm_requested_fps b"] assms by (auto simp: metrics_finite_def)
    then show ?thesis
      using assms by (simp add: fp64_div fp_div_not_nan metrics_finite_def is_finite64_def actual_fps_def unwrap_or_def
          del: fp_div.simps split: option.splits)
  qed
  ultimately show "fp_upto b64 18 (fp64 (sc_bandwidth (candidate_components b)))" "fp_upto b64 10 (fp64 (sc_cpu (candidate_components b)))"
    "fp_upto b64 25 (fp64 (sc_frame_stability (candidate_components b)))" "fp_upto b64 35 (fp64 (sc_latency (candidate_components b)))"
    "fp_upto b64 6 (fp64 (sc_memory (candidate_components b)))" "fp_upto b64 6 (fp64 (sc_quality (candidate_components b)))"
    using assms l upto64_lit [of 3] fp_upto_mono [of b64 3 _ 6]
    by (auto simp: candidate_components_def metrics_finite_def share_upto one_minus_not_nan div_lit_not_nan nn
        split: option.splits)
qed

lemma components_sum_upto:
  assumes "metrics_finite b"
  shows "fp_upto b64 100 (fp64 (components_sum (candidate_components b)))"
proof -
  note c = components_upto [OF assms]
  have "fp_upto b64 0 (fp64 0)" by (simp add: fp_upto_FFin)
  from upto64_add [OF upto64_add [OF upto64_add [OF upto64_add [OF upto64_add [OF upto64_add [OF this c(1)] c(2)] c(3)] c(4)] c(5)] c(6)]
  show ?thesis by (simp add: components_sum_def)
qed

text \<open>The automatic score.  A candidate passes exactly when none of the four gates (frame rate, encode
  time, drops, freezes) names a reason; it has a score exactly when it passes; and for finite
  measurements the score, six rounded double-precision terms, lies between 0 and 100.\<close>
theorem score_auto_candidate_bounded:
  assumes "metrics_finite b"
  shows "let r = score_auto_candidate mode b in
    as_reasons r = failed_gates b \<and> (as_passed_gates r \<longleftrightarrow> failed_gates b = []) \<and>
    (as_score r = None \<longleftrightarrow> \<not> as_passed_gates r) \<and>
    (case as_score r of None \<Rightarrow> True | Some v \<Rightarrow> fp_upto b64 100 (fp64 v))"
  using components_sum_upto [OF assms] by (simp add: score_auto_candidate_def Let_def)

definition still_metrics :: benchmark_metrics where
  "still_metrics = \<lparr>bm_requested_fps = 0, bm_encoded_fps = 0, bm_presented_fps = None, bm_encode_mean_ms = 0,
     bm_encode_p95_ms = 0, bm_preprocess_mean_ms = 0, bm_preprocess_p95_ms = 0, bm_actual_mbps = 0, bm_cpu_percent = None,
     bm_working_set_mib = None, bm_drop_percent = 1, bm_freeze_count = Some 2, bm_pipeline_p95_ms = None, bm_quality_score = None\<rparr>"

lemma score_auto_candidate_bounded_witness:
  "FreezeGate \<in> set (as_reasons (score_auto_candidate H264Hardware still_metrics)) \<and>
   as_score (score_auto_candidate H264Hardware still_metrics) = None"
proof -
  have "metrics_finite still_metrics" by (simp add: metrics_finite_def still_metrics_def is_finite64_def)
  from score_auto_candidate_bounded [OF this, of H264Hardware]
  have s: "as_reasons (score_auto_candidate H264Hardware still_metrics) = failed_gates still_metrics"
    "as_passed_gates (score_auto_candidate H264Hardware still_metrics) \<longleftrightarrow> failed_gates still_metrics = []"
    "as_score (score_auto_candidate H264Hardware still_metrics) = None \<longleftrightarrow>
      \<not> as_passed_gates (score_auto_candidate H264Hardware still_metrics)"
    by (simp_all add: Let_def)
  have "FreezeGate \<in> set (failed_gates still_metrics)" by (simp add: failed_gates_def still_metrics_def)
  with s show ?thesis by auto
qed

end
