(* ===== verification/Metrics.thy ===== *)
theory Metrics
  imports Remote Floats
begin

text \<open>
  \<open>crates/core/src/metrics.rs\<close>: the counters of a running host.  Every atomic operation is one step
  on the record \<open>metrics\<close>; the 64-bit counters wrap like \<open>fetch_add\<close>.  Clock readings are arguments
  (nanoseconds).  Indexing out of range in \<open>latency_percentile\<close> is the value None.
\<close>

section \<open>State\<close>

definition RATE_WINDOW :: nat where
  "RATE_WINDOW = 250000000"

record rate_state =
  rt_at :: nat
  rt_capture_frames :: u64
  rt_encoded_frames :: u64
  rt_input_samples :: u64
  rt_coalesced_samples :: u64
  rt_capture_fps :: f64
  rt_encoded_fps :: f64
  rt_input_samples_per_sec :: f64
  rt_coalesced_samples_per_sec :: f64

definition default_rate_state :: "nat \<Rightarrow> rate_state" where
  "default_rate_state now = \<lparr>rt_at = now, rt_capture_frames = 0, rt_encoded_frames = 0, rt_input_samples = 0,
     rt_coalesced_samples = 0, rt_capture_fps = 0, rt_encoded_fps = 0, rt_input_samples_per_sec = 0,
     rt_coalesced_samples_per_sec = 0\<rparr>"

record input_continuity =
  ct_expected_batch :: "u32 option"
  ct_expected_sample :: "u32 option"
  ct_active_pointers :: "(u8 \<times> u32) set"
  ct_pressure_min :: f32
  ct_pressure_max :: f32
  ct_tilt_x_min :: f32
  ct_tilt_x_max :: f32
  ct_tilt_y_min :: f32
  ct_tilt_y_max :: f32

definition default_continuity :: input_continuity where
  "default_continuity = \<lparr>ct_expected_batch = None, ct_expected_sample = None, ct_active_pointers = {},
     ct_pressure_min = 1, ct_pressure_max = 0, ct_tilt_x_min = 0, ct_tilt_x_max = 0, ct_tilt_y_min = 0, ct_tilt_y_max = 0\<rparr>"

record metrics =
  m_connected :: bool
  m_capture_frames :: u64
  m_encoded_frames :: u64
  m_encoded_keyframes :: u64
  m_dropped_frames :: u64
  m_video_transport_drops :: u64
  m_video_startup_delta_frames :: u64
  m_video_startup_wait_micros :: u64
  m_video_recovery_requests :: u64
  m_encoded_bytes :: u64
  m_preprocessed_frames :: u64
  m_preprocess_micros :: u64
  m_preprocess_micros_total :: u64
  m_preprocess_micros_max :: u64
  m_encode_micros :: u64
  m_encode_micros_total :: u64
  m_encode_micros_max :: u64
  m_encode_samples :: "u64 list"
  m_preprocess_samples :: "u64 list"
  m_input_batches :: u64
  m_input_samples :: u64
  m_injected_samples :: u64
  m_input_errors :: u64
  m_mouse_samples :: u64
  m_wheel_events :: u64
  m_keyboard_events :: u64
  m_text_events :: u64
  m_text_bytes :: u64
  m_command_events :: u64
  m_client_clock_offset_bits :: u64
  m_input_arrival_micros :: u64
  m_input_arrival_micros_total :: u64
  m_input_arrival_micros_max :: u64
  m_input_arrival_samples :: u64
  m_input_inject_micros :: u64
  m_input_inject_micros_total :: u64
  m_input_inject_micros_max :: u64
  m_input_inject_samples :: u64
  m_coalesced_samples :: u64
  m_batch_sequence_gaps :: u64
  m_sample_sequence_gaps :: u64
  m_out_of_order_batches :: u64
  m_out_of_order_samples :: u64
  m_lifecycle_errors :: u64
  m_last_batch_sequence :: u32
  m_last_sample_sequence :: u32
  m_last_pressure_bits :: u32
  m_last_tilt_x_bits :: u32
  m_last_tilt_y_bits :: u32
  m_rtt_micros :: u64
  m_process_cpu_bits :: u64
  m_working_set_bytes :: u64
  m_peak_working_set_bytes :: u64
  m_source_width :: u32
  m_source_height :: u32
  m_output_width :: u32
  m_output_height :: u32
  m_rate_state :: rate_state
  m_input_continuity :: input_continuity

definition default_metrics :: "nat \<Rightarrow> metrics" where
  "default_metrics now = \<lparr>m_connected = False,
     m_capture_frames = 0, m_encoded_frames = 0, m_encoded_keyframes = 0, m_dropped_frames = 0,
     m_video_transport_drops = 0, m_video_startup_delta_frames = 0, m_video_startup_wait_micros = 0,
     m_video_recovery_requests = 0, m_encoded_bytes = 0, m_preprocessed_frames = 0, m_preprocess_micros = 0,
     m_preprocess_micros_total = 0, m_preprocess_micros_max = 0, m_encode_micros = 0, m_encode_micros_total = 0,
     m_encode_micros_max = 0, m_encode_samples = [], m_preprocess_samples = [], m_input_batches = 0,
     m_input_samples = 0, m_injected_samples = 0, m_input_errors = 0, m_mouse_samples = 0, m_wheel_events = 0,
     m_keyboard_events = 0, m_text_events = 0, m_text_bytes = 0, m_command_events = 0,
     m_client_clock_offset_bits = 0, m_input_arrival_micros = 0, m_input_arrival_micros_total = 0,
     m_input_arrival_micros_max = 0, m_input_arrival_samples = 0, m_input_inject_micros = 0,
     m_input_inject_micros_total = 0, m_input_inject_micros_max = 0, m_input_inject_samples = 0,
     m_coalesced_samples = 0, m_batch_sequence_gaps = 0, m_sample_sequence_gaps = 0, m_out_of_order_batches = 0,
     m_out_of_order_samples = 0, m_lifecycle_errors = 0, m_last_batch_sequence = 0, m_last_sample_sequence = 0,
     m_last_pressure_bits = 0, m_last_tilt_x_bits = 0, m_last_tilt_y_bits = 0, m_rtt_micros = 0,
     m_process_cpu_bits = 0, m_working_set_bytes = 0, m_peak_working_set_bytes = 0, m_source_width = 0,
     m_source_height = 0, m_output_width = 0, m_output_height = 0, m_rate_state = default_rate_state now,
     m_input_continuity = default_continuity\<rparr>"

section \<open>Helpers\<close>

definition MAX_SAMPLES :: nat where
  "MAX_SAMPLES = 1024"

definition push_latency_sample :: "u64 list \<Rightarrow> u64 \<Rightarrow> u64 list" where
  "push_latency_sample xs v = (if length xs = MAX_SAMPLES then tl xs else xs) @ [v]"

definition micros_of :: "nat \<Rightarrow> u64" where
  "micros_of d = word_of_nat (min (d div 1000) (2 ^ 64 - 1))"

definition millis :: "u64 \<Rightarrow> f64" where
  "millis w = f64_of_int (uint w) / lit64 1000 1"

definition mebibytes :: "u64 \<Rightarrow> f64" where
  "mebibytes w = f64_of_int (uint w) / (lit64 1024 1 * lit64 1024 1)"

definition average_micros :: "u64 \<Rightarrow> u64 \<Rightarrow> f64" where
  "average_micros tot count =
     (if count = 0 then 0 else f64_of_int (uint tot) / f64_of_int (uint count) / lit64 1000 1)"

definition percentile_index :: "nat \<Rightarrow> f64 \<Rightarrow> nat" where
  "percentile_index n quantile = unat (f64_as_u64 (ceil64 (f64_of_int (int (n - 1)) * quantile)))"

definition latency_percentile :: "u64 list \<Rightarrow> f64 \<Rightarrow> f64 option" where
  "latency_percentile xs quantile =
     (if xs = [] then Some 0
      else
        (let values = sort xs;
             index = percentile_index (length values) quantile
         in if index < length values then Some (millis (values ! index)) else None))"

definition latency_mean :: "u64 list \<Rightarrow> f64" where
  "latency_mean xs =
     (if xs = [] then 0
      else f64_of_int (uint (sum_list xs)) / f64_of_int (int (length xs)) / lit64 1000 1)"

definition as_secs_f64 :: "nat \<Rightarrow> f64" where
  "as_secs_f64 d = f64_of_int (int (d div 1000000000)) + f64_of_int (int (d mod 1000000000)) / lit64 1000000000 1"

definition epoch_ms :: "nat \<Rightarrow> f64" where
  "epoch_ms since_epoch = as_secs_f64 since_epoch * lit64 1000 1"

text \<open>
  \<open>observe_sequence\<close> returns the next expected number and what it adds to the gap and the
  out-of-order counter.
\<close>

definition observe_sequence :: "u32 option \<Rightarrow> u32 \<Rightarrow> u32 option \<times> u64 \<times> u64" where
  "observe_sequence expected received =
     (case expected of
        Some next \<Rightarrow>
          (let forward = received - next
           in if forward = 0 then (Some (received + 1), 0, 0)
              else if forward < push_bit 31 1 then (Some (received + 1), ucast forward, 0)
              else (expected, 0, 1))
      | None \<Rightarrow> (Some (received + 1), 0, 0))"

section \<open>Operations\<close>

definition set_connected :: "bool \<Rightarrow> metrics \<Rightarrow> metrics" where
  "set_connected v m = m\<lparr>m_connected := v\<rparr>"

definition captured :: "u32 \<Rightarrow> u32 \<Rightarrow> metrics \<Rightarrow> metrics" where
  "captured w h m = m\<lparr>m_capture_frames := m_capture_frames m + 1, m_source_width := w, m_source_height := h\<rparr>"

definition encoded :: "nat \<Rightarrow> u64 \<Rightarrow> u32 \<Rightarrow> u32 \<Rightarrow> metrics \<Rightarrow> metrics" where
  "encoded bytes micros w h m = m\<lparr>
     m_encoded_frames := m_encoded_frames m + 1,
     m_encoded_bytes := m_encoded_bytes m + word_of_nat bytes,
     m_encode_micros := micros,
     m_encode_micros_total := m_encode_micros_total m + micros,
     m_encode_micros_max := max (m_encode_micros_max m) micros,
     m_encode_samples := push_latency_sample (m_encode_samples m) micros,
     m_output_width := w, m_output_height := h\<rparr>"

definition preprocessed :: "u64 \<Rightarrow> metrics \<Rightarrow> metrics" where
  "preprocessed micros m = m\<lparr>
     m_preprocessed_frames := m_preprocessed_frames m + 1,
     m_preprocess_micros := micros,
     m_preprocess_micros_total := m_preprocess_micros_total m + micros,
     m_preprocess_micros_max := max (m_preprocess_micros_max m) micros,
     m_preprocess_samples := push_latency_sample (m_preprocess_samples m) micros\<rparr>"

definition encoded_keyframe :: "metrics \<Rightarrow> metrics" where
  "encoded_keyframe m = m\<lparr>m_encoded_keyframes := m_encoded_keyframes m + 1\<rparr>"

definition dropped_frame :: "metrics \<Rightarrow> metrics" where
  "dropped_frame m = m\<lparr>m_dropped_frames := m_dropped_frames m + 1\<rparr>"

definition video_transport_dropped :: "u64 \<Rightarrow> metrics \<Rightarrow> metrics" where
  "video_transport_dropped n m = m\<lparr>m_video_transport_drops := m_video_transport_drops m + n\<rparr>"

definition video_startup_delta_frame_skipped :: "metrics \<Rightarrow> metrics" where
  "video_startup_delta_frame_skipped m = m\<lparr>m_video_startup_delta_frames := m_video_startup_delta_frames m + 1\<rparr>"

definition video_started :: "nat \<Rightarrow> metrics \<Rightarrow> metrics" where
  "video_started wait m = m\<lparr>m_video_startup_wait_micros := micros_of wait\<rparr>"

definition video_recovery_requested :: "metrics \<Rightarrow> metrics" where
  "video_recovery_requested m = m\<lparr>m_video_recovery_requests := m_video_recovery_requests m + 1\<rparr>"

definition observe_input_arrival :: "nat \<Rightarrow> pointer_batch \<Rightarrow> metrics \<Rightarrow> metrics" where
  "observe_input_arrival since_epoch b m =
     (if samples b = [] then m
      else
        (let sample = last (samples b);
             offset_ms = F64 (m_client_clock_offset_bits m);
             arrival_ms = epoch_ms since_epoch - (client_time_ms sample + offset_ms)
         in if \<not> is_finite64 arrival_ms \<or> \<not> (lit64 (- 50) 1 \<le> arrival_ms \<and> arrival_ms \<le> lit64 5000 1) then m
            else
              (let micros = f64_as_u64 (max64 arrival_ms 0 * lit64 1000 1)
               in m\<lparr>m_input_arrival_micros := micros,
                    m_input_arrival_micros_total := m_input_arrival_micros_total m + micros,
                    m_input_arrival_micros_max := max (m_input_arrival_micros_max m) micros,
                    m_input_arrival_samples := m_input_arrival_samples m + 1\<rparr>)))"

definition pointer_key :: "pointer_sample \<Rightarrow> u8 \<times> u32" where
  "pointer_key s = (device_type_as_u8 (device_type s), pointer_id s)"

definition observe_ranges :: "pointer_sample \<Rightarrow> metrics \<Rightarrow> metrics" where
  "observe_ranges s m =
     (if device_type s \<noteq> Pen then m
      else
        (let c = m_input_continuity m
         in m\<lparr>m_last_pressure_bits := bits32 (pressure s), m_last_tilt_x_bits := bits32 (tilt_x_deg s),
              m_last_tilt_y_bits := bits32 (tilt_y_deg s),
              m_input_continuity := c\<lparr>
                ct_pressure_min := min32 (ct_pressure_min c) (pressure s),
                ct_pressure_max := max32 (ct_pressure_max c) (pressure s),
                ct_tilt_x_min := min32 (ct_tilt_x_min c) (tilt_x_deg s),
                ct_tilt_x_max := max32 (ct_tilt_x_max c) (tilt_x_deg s),
                ct_tilt_y_min := min32 (ct_tilt_y_min c) (tilt_y_deg s),
                ct_tilt_y_max := max32 (ct_tilt_y_max c) (tilt_y_deg s)\<rparr>\<rparr>))"

definition observe_lifecycle :: "pointer_sample \<Rightarrow> metrics \<Rightarrow> metrics" where
  "observe_lifecycle s m =
     (let c = m_input_continuity m;
          active = ct_active_pointers c;
          key = pointer_key s;
          known = (key \<in> active);
          after = (\<lambda>set' bad. m\<lparr>m_input_continuity := c\<lparr>ct_active_pointers := set'\<rparr>,
            m_lifecycle_errors := m_lifecycle_errors m + of_bool bad\<rparr>)
      in case action s of
           Down \<Rightarrow> after (insert key active) known
         | Move \<Rightarrow> after active (\<not> known)
         | Up \<Rightarrow> after (active - {key}) (\<not> known)
         | Cancel \<Rightarrow> after (active - {key}) (\<not> known)
         | Hover \<Rightarrow> m)"

definition observe_sample :: "pointer_sample \<Rightarrow> metrics \<Rightarrow> metrics" where
  "observe_sample s m =
     (let m = (if device_type s = Mouse then m\<lparr>m_mouse_samples := m_mouse_samples m + 1\<rparr> else m);
          c = m_input_continuity m;
          (expected, gaps, late) = observe_sequence (ct_expected_sample c) (sample_sequence s);
          m = m\<lparr>m_input_continuity := c\<lparr>ct_expected_sample := expected\<rparr>,
                m_sample_sequence_gaps := m_sample_sequence_gaps m + gaps,
                m_out_of_order_samples := m_out_of_order_samples m + late,
                m_last_sample_sequence := sample_sequence s\<rparr>;
          s = sanitized s
      in observe_lifecycle s (observe_ranges s m))"

definition input_batch :: "nat \<Rightarrow> pointer_batch \<Rightarrow> metrics \<Rightarrow> metrics" where
  "input_batch since_epoch b m =
     (let m = m\<lparr>m_input_batches := m_input_batches m + 1,
                m_input_samples := m_input_samples m + word_of_nat (length (samples b)),
                m_coalesced_samples := m_coalesced_samples m + word_of_nat (length (samples b) - 1),
                m_last_batch_sequence := batch_sequence b\<rparr>;
          m = observe_input_arrival since_epoch b m;
          c = m_input_continuity m;
          (expected, gaps, late) = observe_sequence (ct_expected_batch c) (batch_sequence b);
          m = m\<lparr>m_input_continuity := c\<lparr>ct_expected_batch := expected\<rparr>,
                m_batch_sequence_gaps := m_batch_sequence_gaps m + gaps,
                m_out_of_order_batches := m_out_of_order_batches m + late\<rparr>
      in fold observe_sample (samples b) m)"

definition input_injected :: "nat \<Rightarrow> nat \<Rightarrow> metrics \<Rightarrow> metrics" where
  "input_injected count elapsed m =
     (let micros = micros_of elapsed
      in m\<lparr>m_injected_samples := m_injected_samples m + word_of_nat count,
           m_input_inject_micros := micros,
           m_input_inject_micros_total := m_input_inject_micros_total m + micros,
           m_input_inject_micros_max := max (m_input_inject_micros_max m) micros,
           m_input_inject_samples := m_input_inject_samples m + 1\<rparr>)"

definition metrics_input_error :: "metrics \<Rightarrow> metrics" where
  "metrics_input_error m = m\<lparr>m_input_errors := m_input_errors m + 1\<rparr>"

definition metrics_wheel_input :: "metrics \<Rightarrow> metrics" where
  "metrics_wheel_input m = m\<lparr>m_wheel_events := m_wheel_events m + 1\<rparr>"

definition metrics_keyboard_input :: "metrics \<Rightarrow> metrics" where
  "metrics_keyboard_input m = m\<lparr>m_keyboard_events := m_keyboard_events m + 1\<rparr>"

definition metrics_text_input :: "text_input \<Rightarrow> metrics \<Rightarrow> metrics" where
  "metrics_text_input t m = m\<lparr>m_text_events := m_text_events m + 1,
     m_text_bytes := m_text_bytes m + word_of_nat (str_len (tx_text t))\<rparr>"

definition metrics_command_input :: "metrics \<Rightarrow> metrics" where
  "metrics_command_input m = m\<lparr>m_command_events := m_command_events m + 1\<rparr>"

definition reset_input_continuity :: "metrics \<Rightarrow> metrics" where
  "reset_input_continuity m = m\<lparr>m_input_continuity := (m_input_continuity m)\<lparr>ct_expected_batch := None,
     ct_expected_sample := None, ct_active_pointers := {}\<rparr>\<rparr>"

definition has_active_pointers :: "metrics \<Rightarrow> bool" where
  "has_active_pointers m \<longleftrightarrow> ct_active_pointers (m_input_continuity m) \<noteq> {}"

definition set_rtt_ms :: "f64 \<Rightarrow> metrics \<Rightarrow> metrics" where
  "set_rtt_ms rtt m = m\<lparr>m_rtt_micros := f64_as_u64 (max64 rtt 0 * lit64 1000 1)\<rparr>"

definition process_resources :: "f64 \<Rightarrow> u64 \<Rightarrow> u64 \<Rightarrow> metrics \<Rightarrow> metrics" where
  "process_resources cpu ws peak m =
     (let m = (if is_finite64 cpu then m\<lparr>m_process_cpu_bits := bits64 (max64 cpu 0)\<rparr> else m)
      in m\<lparr>m_working_set_bytes := ws, m_peak_working_set_bytes := max (m_peak_working_set_bytes m) (max peak ws)\<rparr>)"

definition reset_video_latency_samples :: "metrics \<Rightarrow> metrics" where
  "reset_video_latency_samples m = m\<lparr>m_encode_samples := [], m_preprocess_samples := []\<rparr>"

definition set_client_clock_offset_ms :: "f64 \<Rightarrow> metrics \<Rightarrow> metrics" where
  "set_client_clock_offset_ms offset m =
     (if is_finite64 offset then m\<lparr>m_client_clock_offset_bits := bits64 offset\<rparr> else m)"

section \<open>Snapshots\<close>

record metrics_snapshot =
  ms_connected :: bool
  ms_capture_fps :: f64
  ms_encoded_fps :: f64
  ms_input_samples_per_sec :: f64
  ms_coalesced_samples_per_sec :: f64
  ms_capture_frames :: u64
  ms_encoded_frames :: u64
  ms_encoded_keyframes :: u64
  ms_dropped_frames :: u64
  ms_video_transport_drops :: u64
  ms_video_startup_delta_frames :: u64
  ms_video_startup_wait_ms :: f64
  ms_video_recovery_requests :: u64
  ms_encoded_bytes :: u64
  ms_input_batches :: u64
  ms_input_samples :: u64
  ms_injected_samples :: u64
  ms_input_errors :: u64
  ms_mouse_samples :: u64
  ms_wheel_events :: u64
  ms_keyboard_events :: u64
  ms_text_events :: u64
  ms_text_bytes :: u64
  ms_command_events :: u64
  ms_client_clock_offset_ms :: f64
  ms_input_arrival_ms :: f64
  ms_average_input_arrival_ms :: f64
  ms_max_input_arrival_ms :: f64
  ms_input_inject_ms :: f64
  ms_average_input_inject_ms :: f64
  ms_max_input_inject_ms :: f64
  ms_batch_sequence_gaps :: u64
  ms_sample_sequence_gaps :: u64
  ms_out_of_order_batches :: u64
  ms_out_of_order_samples :: u64
  ms_lifecycle_errors :: u64
  ms_active_pointers :: u32
  ms_last_batch_sequence :: u32
  ms_last_sample_sequence :: u32
  ms_pressure :: f32
  ms_pressure_min :: f32
  ms_pressure_max :: f32
  ms_tilt_x :: f32
  ms_tilt_y :: f32
  ms_tilt_x_min :: f32
  ms_tilt_x_max :: f32
  ms_tilt_y_min :: f32
  ms_tilt_y_max :: f32
  ms_rtt_ms :: f64
  ms_process_cpu_percent :: f64
  ms_working_set_mib :: f64
  ms_peak_working_set_mib :: f64
  ms_encode_ms :: f64
  ms_preprocess_ms :: f64
  ms_average_preprocess_ms :: f64
  ms_max_preprocess_ms :: f64
  ms_preprocess_p50_ms :: f64
  ms_preprocess_p95_ms :: f64
  ms_preprocess_p99_ms :: f64
  ms_recent_preprocess_mean_ms :: f64
  ms_average_encode_ms :: f64
  ms_max_encode_ms :: f64
  ms_encode_p50_ms :: f64
  ms_encode_p95_ms :: f64
  ms_encode_p99_ms :: f64
  ms_recent_encode_mean_ms :: f64
  ms_source_width :: u32
  ms_source_height :: u32
  ms_output_width :: u32
  ms_output_height :: u32

definition rate_update :: "nat \<Rightarrow> metrics \<Rightarrow> rate_state" where
  "rate_update now m =
     (let rate = m_rate_state m;
          elapsed = now - rt_at rate
      in if RATE_WINDOW \<le> elapsed then
           (let seconds = max64 (as_secs_f64 elapsed) (lit64 1 1000);
                per_sec = (\<lambda>a b. f64_of_int (uint (sat_sub a b)) / seconds)
            in \<lparr>rt_at = now, rt_capture_frames = m_capture_frames m, rt_encoded_frames = m_encoded_frames m,
                rt_input_samples = m_input_samples m, rt_coalesced_samples = m_coalesced_samples m,
                rt_capture_fps = per_sec (m_capture_frames m) (rt_capture_frames rate),
                rt_encoded_fps = per_sec (m_encoded_frames m) (rt_encoded_frames rate),
                rt_input_samples_per_sec = per_sec (m_input_samples m) (rt_input_samples rate),
                rt_coalesced_samples_per_sec = per_sec (m_coalesced_samples m) (rt_coalesced_samples rate)\<rparr>)
         else rate)"

definition snapshot_percentiles :: "metrics \<Rightarrow> f64 list option" where
  "snapshot_percentiles m = those
     [latency_percentile (m_preprocess_samples m) (lit64 50 100),
      latency_percentile (m_preprocess_samples m) (lit64 95 100),
      latency_percentile (m_preprocess_samples m) (lit64 99 100),
      latency_percentile (m_encode_samples m) (lit64 50 100),
      latency_percentile (m_encode_samples m) (lit64 95 100),
      latency_percentile (m_encode_samples m) (lit64 99 100)]"

definition metrics_snapshot_view :: "metrics \<Rightarrow> rate_state \<Rightarrow> f64 list \<Rightarrow> metrics_snapshot" where
  "metrics_snapshot_view m rate ps =
     \<lparr>ms_connected = m_connected m, ms_capture_fps = rt_capture_fps rate, ms_encoded_fps = rt_encoded_fps rate,
     ms_input_samples_per_sec = rt_input_samples_per_sec rate,
     ms_coalesced_samples_per_sec = rt_coalesced_samples_per_sec rate, ms_capture_frames = m_capture_frames m,
     ms_encoded_frames = m_encoded_frames m, ms_encoded_keyframes = m_encoded_keyframes m,
     ms_dropped_frames = m_dropped_frames m, ms_video_transport_drops = m_video_transport_drops m,
     ms_video_startup_delta_frames = m_video_startup_delta_frames m,
     ms_video_startup_wait_ms = millis (m_video_startup_wait_micros m),
     ms_video_recovery_requests = m_video_recovery_requests m, ms_encoded_bytes = m_encoded_bytes m,
     ms_input_batches = m_input_batches m, ms_input_samples = m_input_samples m,
     ms_injected_samples = m_injected_samples m, ms_input_errors = m_input_errors m,
     ms_mouse_samples = m_mouse_samples m, ms_wheel_events = m_wheel_events m,
     ms_keyboard_events = m_keyboard_events m, ms_text_events = m_text_events m, ms_text_bytes = m_text_bytes m,
     ms_command_events = m_command_events m, ms_client_clock_offset_ms = F64 (m_client_clock_offset_bits m),
     ms_input_arrival_ms = millis (m_input_arrival_micros m),
     ms_average_input_arrival_ms = average_micros (m_input_arrival_micros_total m) (m_input_arrival_samples m),
     ms_max_input_arrival_ms = millis (m_input_arrival_micros_max m),
     ms_input_inject_ms = millis (m_input_inject_micros m),
     ms_average_input_inject_ms = average_micros (m_input_inject_micros_total m) (m_input_inject_samples m),
     ms_max_input_inject_ms = millis (m_input_inject_micros_max m),
     ms_batch_sequence_gaps = m_batch_sequence_gaps m, ms_sample_sequence_gaps = m_sample_sequence_gaps m,
     ms_out_of_order_batches = m_out_of_order_batches m, ms_out_of_order_samples = m_out_of_order_samples m,
     ms_lifecycle_errors = m_lifecycle_errors m,
     ms_active_pointers = word_of_nat (card (ct_active_pointers (m_input_continuity m))),
     ms_last_batch_sequence = m_last_batch_sequence m, ms_last_sample_sequence = m_last_sample_sequence m,
     ms_pressure = F32 (m_last_pressure_bits m), ms_pressure_min = ct_pressure_min (m_input_continuity m),
     ms_pressure_max = ct_pressure_max (m_input_continuity m), ms_tilt_x = F32 (m_last_tilt_x_bits m),
     ms_tilt_y = F32 (m_last_tilt_y_bits m), ms_tilt_x_min = ct_tilt_x_min (m_input_continuity m),
     ms_tilt_x_max = ct_tilt_x_max (m_input_continuity m), ms_tilt_y_min = ct_tilt_y_min (m_input_continuity m),
     ms_tilt_y_max = ct_tilt_y_max (m_input_continuity m), ms_rtt_ms = millis (m_rtt_micros m),
     ms_process_cpu_percent = F64 (m_process_cpu_bits m), ms_working_set_mib = mebibytes (m_working_set_bytes m),
     ms_peak_working_set_mib = mebibytes (m_peak_working_set_bytes m), ms_encode_ms = millis (m_encode_micros m),
     ms_preprocess_ms = millis (m_preprocess_micros m),
     ms_average_preprocess_ms = average_micros (m_preprocess_micros_total m) (m_preprocessed_frames m),
     ms_max_preprocess_ms = millis (m_preprocess_micros_max m),
     ms_preprocess_p50_ms = ps ! 0,
     ms_preprocess_p95_ms = ps ! 1,
     ms_preprocess_p99_ms = ps ! 2,
     ms_recent_preprocess_mean_ms = latency_mean (m_preprocess_samples m),
     ms_average_encode_ms = average_micros (m_encode_micros_total m) (m_encoded_frames m),
     ms_max_encode_ms = millis (m_encode_micros_max m),
     ms_encode_p50_ms = ps ! 3,
     ms_encode_p95_ms = ps ! 4,
     ms_encode_p99_ms = ps ! 5,
     ms_recent_encode_mean_ms = latency_mean (m_encode_samples m), ms_source_width = m_source_width m,
     ms_source_height = m_source_height m, ms_output_width = m_output_width m,
     ms_output_height = m_output_height m\<rparr>"

definition metrics_take_snapshot :: "nat \<Rightarrow> metrics \<Rightarrow> (metrics_snapshot \<times> metrics) option" where
  "metrics_take_snapshot now m =
     (let rate = rate_update now m; m = m\<lparr>m_rate_state := rate\<rparr>
      in map_option (\<lambda>ps. (metrics_snapshot_view m rate ps, m)) (snapshot_percentiles m))"

section \<open>Sequence numbers\<close>

lemma sanitized_keeps [simp]: "action (sanitized s) = action s" "pointer_key (sanitized s) = pointer_key s"
    "device_type (sanitized s) = device_type s"
  by (simp_all add: sanitized_def pointer_key_def)

lemma observe_ranges_frame [frame_simps]:
  "m_sample_sequence_gaps (observe_ranges s m) = m_sample_sequence_gaps m"
  "m_out_of_order_samples (observe_ranges s m) = m_out_of_order_samples m"
  "ct_expected_sample (m_input_continuity (observe_ranges s m)) = ct_expected_sample (m_input_continuity m)"
  "ct_active_pointers (m_input_continuity (observe_ranges s m)) = ct_active_pointers (m_input_continuity m)"
  "m_lifecycle_errors (observe_ranges s m) = m_lifecycle_errors m"
  "m_mouse_samples (observe_ranges s m) = m_mouse_samples m"
  "m_encode_samples (observe_ranges s m) = m_encode_samples m"
  "m_preprocess_samples (observe_ranges s m) = m_preprocess_samples m"
  by (simp_all add: observe_ranges_def Let_def)

lemma observe_lifecycle_frame [frame_simps]:
  "m_sample_sequence_gaps (observe_lifecycle s m) = m_sample_sequence_gaps m"
  "m_out_of_order_samples (observe_lifecycle s m) = m_out_of_order_samples m"
  "ct_expected_sample (m_input_continuity (observe_lifecycle s m)) = ct_expected_sample (m_input_continuity m)"
  "m_mouse_samples (observe_lifecycle s m) = m_mouse_samples m"
  "m_encode_samples (observe_lifecycle s m) = m_encode_samples m"
  "m_preprocess_samples (observe_lifecycle s m) = m_preprocess_samples m"
  by (simp_all add: observe_lifecycle_def Let_def split: action.splits)

lemma observe_sample_sequence:
  "ct_expected_sample (m_input_continuity (observe_sample s m)) =
     fst (observe_sequence (ct_expected_sample (m_input_continuity m)) (sample_sequence s))"
  "m_sample_sequence_gaps (observe_sample s m) = m_sample_sequence_gaps m +
     fst (snd (observe_sequence (ct_expected_sample (m_input_continuity m)) (sample_sequence s)))"
  "m_out_of_order_samples (observe_sample s m) = m_out_of_order_samples m +
     snd (snd (observe_sequence (ct_expected_sample (m_input_continuity m)) (sample_sequence s)))"
  by (simp_all add: observe_sample_def Let_def frame_simps split: prod.splits)

lemma observe_sample_windows [simp]:
  "m_encode_samples (observe_sample s m) = m_encode_samples m"
  "m_preprocess_samples (observe_sample s m) = m_preprocess_samples m"
  by (simp_all add: observe_sample_def Let_def frame_simps split: prod.splits)

text \<open>The sequence numbers of a sender that skips \<open>g\<close> numbers before each message, from \<open>e\<close> on.\<close>

fun numbered :: "u32 \<Rightarrow> nat list \<Rightarrow> u32 list" where
  "numbered e [] = []"
| "numbered e (g # gs) = (e + word_of_nat g) # numbered (e + word_of_nat g + 1) gs"

lemma observe_forward: "g < 2 ^ 31 \<Longrightarrow>
    observe_sequence (Some e) (e + word_of_nat g) = (Some (e + word_of_nat g + 1), word_of_nat g, 0)"
proof -
  assume g: "g < 2 ^ 31"
  have u: "unat (word_of_nat g :: u32) = g" using g by (simp add: unat_of_nat)
  have "(word_of_nat g :: u32) < push_bit 31 1" using g u by (simp add: word_less_nat_alt)
  moreover have "(ucast (word_of_nat g :: u32) :: u64) = word_of_nat g"
  proof -
    have "(word_of_nat (unat (word_of_nat g :: u32)) :: u64) = ucast (word_of_nat g :: u32)" by (simp only: of_nat_unat)
    then show ?thesis by (simp add: u)
  qed
  moreover have "(word_of_nat g :: u32) = 0 \<Longrightarrow> g = 0" using u by (metis unat_0)
  ultimately show ?thesis by (auto simp: observe_sequence_def Let_def)
qed

text \<open>The gap counter counts exactly the sample numbers a sender skipped, however the batches are cut
  and across the wrap-around of the 32-bit numbers, as long as no single gap reaches 2^31; nothing is
  then reported out of order and the next expected number is the sender's next one.\<close>
theorem sample_gaps_exact:
  assumes "ct_expected_sample (m_input_continuity m) = Some e" "map sample_sequence ss = numbered e gs"
    "\<forall>g \<in> set gs. g < 2 ^ 31"
  shows "m_sample_sequence_gaps (fold observe_sample ss m) = m_sample_sequence_gaps m + word_of_nat (sum_list gs) \<and>
    m_out_of_order_samples (fold observe_sample ss m) = m_out_of_order_samples m \<and>
    ct_expected_sample (m_input_continuity (fold observe_sample ss m)) = Some (e + word_of_nat (sum_list gs + length gs))"
  using assms
proof (induction gs arbitrary: ss m e)
  case Nil
  then show ?case by simp
next
  case (Cons g gs)
  then obtain s ss' where ss: "ss = s # ss'" "sample_sequence s = e + word_of_nat g"
    "map sample_sequence ss' = numbered (e + word_of_nat g + 1) gs" by auto
  have f: "observe_sequence (Some e) (e + word_of_nat g) = (Some (e + word_of_nat g + 1), word_of_nat g, 0)"
    using Cons.prems(3) by (intro observe_forward) simp
  have "ct_expected_sample (m_input_continuity (observe_sample s m)) = Some (e + word_of_nat g + 1)"
    by (simp add: observe_sample_sequence Cons.prems(1) ss(2) f)
  from Cons.IH [OF this ss(3)] Cons.prems(3) show ?case
    by (simp add: ss(1) observe_sample_sequence Cons.prems(1) ss(2) f add.assoc)
qed

lemma sample_gaps_exact_witness:
  "m_sample_sequence_gaps (fold observe_sample [pen_sample\<lparr>sample_sequence := - 1\<rparr>, pen_sample\<lparr>sample_sequence := 3\<rparr>]
     ((default_metrics 0)\<lparr>m_input_continuity := default_continuity\<lparr>ct_expected_sample := Some (- 1)\<rparr>\<rparr>)) = 3"
  using sample_gaps_exact [of "(default_metrics 0)\<lparr>m_input_continuity := default_continuity\<lparr>ct_expected_sample := Some (- 1)\<rparr>\<rparr>"
      "- 1" "[pen_sample\<lparr>sample_sequence := - 1\<rparr>, pen_sample\<lparr>sample_sequence := 3\<rparr>]" "[0, 3]"]
  by (simp add: default_metrics_def)

section \<open>Active pointers\<close>

lemma observe_sample_active:
  "ct_active_pointers (m_input_continuity (observe_sample s m)) =
     (let a = ct_active_pointers (m_input_continuity m)
      in case action s of Down \<Rightarrow> insert (pointer_key s) a | Up \<Rightarrow> a - {pointer_key s} | Cancel \<Rightarrow> a - {pointer_key s}
         | _ \<Rightarrow> a)"
  by (cases "action s") (auto simp: observe_sample_def Let_def observe_lifecycle_def frame_simps split: prod.splits)

definition touches_lifecycle :: "u8 \<times> u32 \<Rightarrow> pointer_sample \<Rightarrow> bool" where
  "touches_lifecycle k s \<longleftrightarrow> pointer_key s = k \<and> action s \<noteq> Move \<and> action s \<noteq> Hover"

text \<open>After any run of samples a pointer is active exactly when its last press, release or cancel in
  the run was a press, or there was none and it was active before: moves and hovers never create a
  contact, and no release is lost.\<close>
theorem active_pointers_exact:
  "k \<in> ct_active_pointers (m_input_continuity (fold observe_sample ss m)) \<longleftrightarrow>
     (let ls = filter (touches_lifecycle k) ss
      in if ls = [] then k \<in> ct_active_pointers (m_input_continuity m) else action (last ls) = Down)"
proof (induction ss rule: rev_induct)
  case Nil
  then show ?case by simp
next
  case (snoc s ss)
  show ?case
    by (cases "action s") (auto simp: observe_sample_active snoc Let_def touches_lifecycle_def)
qed

section \<open>Latency windows\<close>

lemma push_latency_sample_bounded: "push_latency_sample xs v = push_bounded 1024 v xs"
  by (simp add: push_latency_sample_def push_bounded_def MAX_SAMPLES_def)

lemma window_fold: "fold (\<lambda>v xs. push_latency_sample xs v) vs [] = drop (length vs - 1024) vs"
proof (induction vs rule: rev_induct)
  case Nil
  then show ?case by simp
next
  case (snoc v vs)
  have "length (drop (length vs - 1024) vs) \<le> 1024" by simp
  moreover have "1024 \<le> length vs \<Longrightarrow> Suc (length vs - 1024) = length vs - 1023" by linarith
  ultimately show ?case
    using snoc by (cases "1024 \<le> length vs") (auto simp: push_latency_sample_bounded push_bounded_suffix)
qed

lemma percentile_index_bound:
  assumes "0 < n" "n \<le> 2 ^ 53" "fp_upto b64 1 (fp64 q)"
  shows "percentile_index n q < n"
proof -
  let ?k = "int (n - 1)"
  have k: "0 \<le> ?k" "?k < 2 ^ 53" using assms by auto
  have "fp_upto b64 ?k (fp64 (f64_of_int ?k * q))"
    using fp_upto_mul [of b64 ?k "fp64 q" "fp64 (f64_of_int ?k)"] upto64_nat [of "n - 1"] k assms(3)
    by (simp add: times_f64_def fp64_upto fp_mul_commute [of b64 "fp64 q"])
  then have "fp_upto b64 ?k (fp64 (ceil64 (f64_of_int ?k * q)))"
    using k fp_ceil_upto [of b64 ?k "fp64 (f64_of_int ?k * q)"] by (simp add: ceil64_def fp64_upto del: fp_ceil.simps)
  then obtain s m where m: "fp64 (ceil64 (f64_of_int ?k * q)) = FFin s m" "0 \<le> m" "s \<longrightarrow> m = 0" "mag_units b64 m \<le> ?k * one_units b64"
    by (auto simp: fp_upto_def)
  have "mag_units b64 m div one_units b64 \<le> ?k"
    using zdiv_mono1 [OF m(4), of "one_units b64"] by simp
  moreover have "0 \<le> mag_units b64 m div one_units b64" using m mag_units_nonneg [of m b64] by (simp add: pos_imp_zdiv_nonneg_iff)
  moreover have "with_sign s (mag_units b64 m div one_units b64) = mag_units b64 m div one_units b64"
    using m(3) by (cases s) (simp_all add: with_sign_def)
  moreover define d where "d = mag_units b64 m div one_units b64"
  ultimately have d: "fp_to_int b64 0 (2 ^ 64 - 1) (FFin s m) = d" "0 \<le> d" "d \<le> ?k"
    using k by simp_all
  have "f64_as_u64 (ceil64 (f64_of_int ?k * q)) = word_of_int d"
    unfolding f64_as_u64_def m(1) d(1) ..
  moreover have "uint (word_of_int d :: u64) = d"
  proof -
    have "d < 2 ^ 53" using d(3) k(2) by (rule le_less_trans)
    also have "(2::int) ^ 53 < 2 ^ 64" by simp
    finally have "d < 2 ^ 64" .
    with d(2) show ?thesis by (simp add: uint_word_of_int_eq take_bit_int_eq_self)
  qed
  ultimately have "uint (f64_as_u64 (ceil64 (f64_of_int ?k * q))) \<le> ?k" using d(3) by simp
  then have "percentile_index n q \<le> n - 1"
    unfolding percentile_index_def unat_eq_nat_uint nat_le_iff .
  with assms(1) show ?thesis by linarith
qed

lemma latency_percentile_total: "length xs \<le> 2 ^ 53 \<Longrightarrow> fp_upto b64 1 (fp64 q) \<Longrightarrow>
    \<exists>v. latency_percentile xs q = Some v \<and> (xs = [] \<and> v = 0 \<or> (\<exists>x \<in> set xs. v = millis x))"
proof (cases "xs = []")
  case False
  assume "length xs \<le> 2 ^ 53" "fp_upto b64 1 (fp64 q)"
  with False have "percentile_index (length xs) q < length (sort xs)"
    using percentile_index_bound [of "length xs" q] by simp
  moreover from this have "sort xs ! percentile_index (length xs) q \<in> set xs" by (metis nth_mem set_sort)
  ultimately show ?thesis using False by (auto simp: latency_percentile_def Let_def)
qed (simp add: latency_percentile_def)

text \<open>The latency window of the metrics always holds the most recent 1024 samples in order, and a
  percentile of a window of any realistic size never indexes out of range: it is one of the samples.\<close>
theorem latency_window_exact:
  assumes "length vs < 2 ^ 53" "0 \<le> a" "a \<le> b" "0 < b"
  shows "fold (\<lambda>v xs. push_latency_sample xs v) vs [] = drop (length vs - 1024) vs \<and>
    (\<exists>v. latency_percentile vs (lit64 a b) = Some v \<and> (vs = [] \<and> v = 0 \<or> (\<exists>x \<in> set vs. v = millis x)))"
  using assms window_fold [of vs] latency_percentile_total [OF _ quantile_upto [of a b], of vs] by simp

lemma latency_window_exact_witness:
  "\<exists>v. latency_percentile [5, 3] (lit64 95 100) = Some v \<and> (v = millis 5 \<or> v = millis 3)"
  using latency_window_exact [of "[5, 3]" 95 100] by auto

section \<open>Runs\<close>

text \<open>Every history of the public operations of the metrics.\<close>

inductive metrics_run :: "metrics \<Rightarrow> bool" where
  m_start: "metrics_run (default_metrics now)"
| m_connect: "metrics_run m \<Longrightarrow> metrics_run (set_connected v m)"
| m_captured: "metrics_run m \<Longrightarrow> metrics_run (captured w h m)"
| m_encoded: "metrics_run m \<Longrightarrow> metrics_run (encoded bytes us w h m)"
| m_preprocessed: "metrics_run m \<Longrightarrow> metrics_run (preprocessed us m)"
| m_keyframe: "metrics_run m \<Longrightarrow> metrics_run (encoded_keyframe m)"
| m_dropped: "metrics_run m \<Longrightarrow> metrics_run (dropped_frame m)"
| m_transport: "metrics_run m \<Longrightarrow> metrics_run (video_transport_dropped n m)"
| m_delta: "metrics_run m \<Longrightarrow> metrics_run (video_startup_delta_frame_skipped m)"
| m_started: "metrics_run m \<Longrightarrow> metrics_run (video_started d m)"
| m_recovery: "metrics_run m \<Longrightarrow> metrics_run (video_recovery_requested m)"
| m_batch: "metrics_run m \<Longrightarrow> metrics_run (input_batch t b m)"
| m_injected: "metrics_run m \<Longrightarrow> metrics_run (input_injected k d m)"
| m_error: "metrics_run m \<Longrightarrow> metrics_run (metrics_input_error m)"
| m_wheel: "metrics_run m \<Longrightarrow> metrics_run (metrics_wheel_input m)"
| m_keyboard: "metrics_run m \<Longrightarrow> metrics_run (metrics_keyboard_input m)"
| m_text: "metrics_run m \<Longrightarrow> metrics_run (metrics_text_input x m)"
| m_command: "metrics_run m \<Longrightarrow> metrics_run (metrics_command_input m)"
| m_reset: "metrics_run m \<Longrightarrow> metrics_run (reset_input_continuity m)"
| m_rtt: "metrics_run m \<Longrightarrow> metrics_run (set_rtt_ms r m)"
| m_resources: "metrics_run m \<Longrightarrow> metrics_run (process_resources c ws pk m)"
| m_clear: "metrics_run m \<Longrightarrow> metrics_run (reset_video_latency_samples m)"
| m_offset: "metrics_run m \<Longrightarrow> metrics_run (set_client_clock_offset_ms r m)"
| m_snapshot: "metrics_run m \<Longrightarrow> metrics_take_snapshot now m = Some (s, m') \<Longrightarrow> metrics_run m'"

lemma push_window: "length xs \<le> 1024 \<Longrightarrow> length (push_latency_sample xs v) \<le> 1024"
  by (simp add: push_latency_sample_bounded length_push_bounded)

lemma fold_observe_windows [simp]:
  "m_encode_samples (fold observe_sample ss m) = m_encode_samples m"
  "m_preprocess_samples (fold observe_sample ss m) = m_preprocess_samples m"
  by (induction ss arbitrary: m) simp_all

lemma input_batch_windows [simp]:
  "m_encode_samples (input_batch t b m) = m_encode_samples m"
  "m_preprocess_samples (input_batch t b m) = m_preprocess_samples m"
  by (simp_all add: input_batch_def observe_input_arrival_def Let_def split: prod.splits)

lemmas operation_defs = set_connected_def captured_def encoded_def preprocessed_def encoded_keyframe_def dropped_frame_def
  video_transport_dropped_def video_startup_delta_frame_skipped_def video_started_def video_recovery_requested_def
  input_injected_def metrics_input_error_def metrics_wheel_input_def metrics_keyboard_input_def metrics_text_input_def
  metrics_command_input_def reset_input_continuity_def set_rtt_ms_def process_resources_def reset_video_latency_samples_def
  set_client_clock_offset_ms_def

lemma metrics_run_windows: "metrics_run m \<Longrightarrow> length (m_encode_samples m) \<le> 1024 \<and> length (m_preprocess_samples m) \<le> 1024"
proof (induction rule: metrics_run.induct)
  case (m_snapshot m now s m')
  then show ?case by (auto simp: metrics_take_snapshot_def Let_def)
qed (simp_all add: operation_defs push_window Let_def default_metrics_def)

lemma snapshot_exists:
  assumes "metrics_run m"
  shows "length (m_encode_samples m) \<le> 1024 \<and> length (m_preprocess_samples m) \<le> 1024 \<and>
    (\<exists>s. metrics_take_snapshot now m = Some (s, m\<lparr>m_rate_state := rate_update now m\<rparr>))"
proof -
  note w = metrics_run_windows [OF assms]
  have "\<exists>v. latency_percentile xs (lit64 k 100) = Some v" if "length xs \<le> 1024" "0 \<le> k" "k \<le> 100" for xs k
    using latency_percentile_total [OF _ quantile_upto [of k 100], of xs] that by auto
  then have "snapshot_percentiles (m\<lparr>m_rate_state := rate_update now m\<rparr>) \<noteq> None"
    unfolding snapshot_percentiles_def using w by (intro those_not_None) auto
  with w show ?thesis by (auto simp: metrics_take_snapshot_def Let_def)
qed

text \<open>A snapshot of the metrics never fails: after any history of the operations both latency windows
  hold at most 1024 samples and each of the six percentiles the snapshot reads is defined; taking it
  changes nothing but the rate window.\<close>
theorem snapshot_total:
  assumes "metrics_run m"
  shows "length (m_encode_samples m) \<le> 1024 \<and> length (m_preprocess_samples m) \<le> 1024 \<and>
    (\<exists>s. metrics_take_snapshot now m = Some (s, m\<lparr>m_rate_state := rate_update now m\<rparr>))"
  using assms by (rule snapshot_exists)

lemma snapshot_total_witness: "\<exists>s m'. metrics_take_snapshot 9 (dropped_frame (default_metrics 0)) = Some (s, m')"
  using snapshot_total [OF m_dropped [OF m_start [of 0]], of 9] by blast

end
