(* ===== verification/Transfer_Names.thy ===== *)
theory Transfer_Names
  imports Strings Floats Session
begin

text \<open>
  The pure helpers of \<open>crates/transport/src/file_transfer.rs\<close>: HTTP byte ranges, the
  Content-Disposition header, file-name and MIME sanitising, the choice of a free destination
  name, hexadecimal digests and the texts of limits.  File names are those of Windows, where the
  host runs; a path is the name of a leaf in a known directory.
\<close>

section \<open>Errors\<close>

datatype transfer_error_kind = Disabled | Unauthorized | NotFound | Invalid | TooLarge | Conflict | Range | Io

record transfer_error =
  te_kind :: transfer_error_kind
  te_message :: ustring
  te_expected_offset :: "u64 option"

definition transfer_error_new :: "transfer_error_kind \<Rightarrow> ustring \<Rightarrow> transfer_error" where
  "transfer_error_new kind message = \<lparr>te_kind = kind, te_message = message, te_expected_offset = None\<rparr>"

definition transfer_error_conflict :: "ustring \<Rightarrow> u64 \<Rightarrow> transfer_error" where
  "transfer_error_conflict message offset = \<lparr>te_kind = Conflict, te_message = message, te_expected_offset = Some offset\<rparr>"

section \<open>Byte ranges\<close>

record byte_range =
  br_start :: u64
  br_end :: u64

definition range_len :: "byte_range \<Rightarrow> u64" where
  "range_len r = br_end r - br_start r + 1"

definition parse_u64 :: "ustring \<Rightarrow> u64 option" where
  "parse_u64 s = map_option word_of_nat (parse_unsigned (2 ^ 64) s)"

definition range_error :: "string \<Rightarrow> transfer_error" where
  "range_error message = transfer_error_new Range (lit message)"

definition range_bounds :: "u64 \<Rightarrow> ustring \<Rightarrow> ustring \<Rightarrow> (byte_range, transfer_error) result" where
  "range_bounds size' start stop =
     (if start = [] then
        and_then (ok_or (range_error ''invalid suffix range'')
          (case parse_u64 stop of Some v \<Rightarrow> if 0 < v then Some v else None | None \<Rightarrow> None)) (\<lambda>suffix.
        let n = min suffix size' in Ok \<lparr>br_start = size' - n, br_end = size' - 1\<rparr>)
      else
        and_then (ok_or (range_error ''invalid range start'') (parse_u64 start)) (\<lambda>first.
        and_then
          (if stop = [] then Ok (size' - 1)
           else map_ok (\<lambda>v. min v (size' - 1)) (ok_or (range_error ''invalid range end'') (parse_u64 stop))) (\<lambda>final.
        Ok \<lparr>br_start = first, br_end = final\<rparr>)))"

definition range_check :: "u64 \<Rightarrow> byte_range \<Rightarrow> (byte_range option, transfer_error) result" where
  "range_check size' r =
     (if size' \<le> br_start r \<or> br_end r < br_start r
      then Err (range_error ''requested byte range is not satisfiable'')
      else Ok (Some r))"

definition parse_range :: "ustring option \<Rightarrow> u64 \<Rightarrow> (byte_range option, transfer_error) result" where
  "parse_range header size' =
     (case header of
        None \<Rightarrow> Ok None
      | Some text \<Rightarrow>
          if size' = 0 then Err (range_error ''an empty file has no satisfiable byte range'')
          else
            and_then (ok_or (range_error ''only byte ranges are supported'') (strip_prefix (lit ''bytes='') text)) (\<lambda>spec.
            if 44 \<in> set spec then Err (range_error ''multiple byte ranges are not supported'')
            else
              and_then (ok_or (range_error ''malformed byte range'') (split_once 45 spec)) (\<lambda>(start, stop).
              and_then (range_bounds size' start stop) (range_check size'))))"

section \<open>Headers and names\<close>

definition is_ascii_alphanumeric :: "nat \<Rightarrow> bool" where
  "is_ascii_alphanumeric c \<longleftrightarrow> 48 \<le> c \<and> c \<le> 57 \<or> 65 \<le> c \<and> c \<le> 90 \<or> 97 \<le> c \<and> c \<le> 122"

definition is_ascii_graphic :: "nat \<Rightarrow> bool" where
  "is_ascii_graphic c \<longleftrightarrow> 33 \<le> c \<and> c \<le> 126"

definition is_control :: "nat \<Rightarrow> bool" where
  "is_control c \<longleftrightarrow> c < 32 \<or> 127 \<le> c \<and> c < 160"

definition hex_upper :: "nat \<Rightarrow> nat" where
  "hex_upper d = (if d < 10 then 48 + d else 55 + d)"

definition hex_lower :: "nat \<Rightarrow> nat" where
  "hex_lower d = (if d < 10 then 48 + d else 87 + d)"

definition content_disposition :: "ustring \<Rightarrow> ustring" where
  "content_disposition name =
     (let fallback = map (\<lambda>c. if is_ascii_alphanumeric c \<or> c \<in> {46, 45, 95, 32} then c else 95) name;
          encoded = concat (map (\<lambda>b. if is_ascii_alphanumeric b \<or> b \<in> {45, 46, 95} then [b]
            else [37, hex_upper (b div 16), hex_upper (b mod 16)]) (utf8_bytes name))
      in lit ''attachment; filename='' @ [34] @ fallback @ [34] @ lit ''; filename*=UTF-8'' @ [39, 39] @ encoded)"

text \<open>
  \<open>Path::file_name\<close> on Windows: a drive prefix is no part of it, empty components and single dots
  are skipped, and a path that ends in two dots has none.  (Network and verbatim prefixes are not
  parsed; a name with one holds a separator and is refused either way.)
\<close>

definition drive_prefix :: "ustring \<Rightarrow> bool" where
  "drive_prefix s = (case s of c # d # _ \<Rightarrow> d = 58 \<and> (65 \<le> c \<and> c \<le> 90 \<or> 97 \<le> c \<and> c \<le> 122) | _ \<Rightarrow> False)"

definition leaf_name :: "ustring \<Rightarrow> ustring option" where
  "leaf_name s =
     (let t = (if drive_prefix s then drop 2 s else s);
          components = filter (\<lambda>c. c \<noteq> [] \<and> c \<noteq> [46]) (split_on 47 (map (\<lambda>c. if c = 92 then 47 else c) t))
      in if components = [] \<or> last components = [46, 46] then None else Some (last components))"

definition forbidden_char :: "nat \<Rightarrow> bool" where
  "forbidden_char c \<longleftrightarrow> c \<in> {60, 62, 58, 34, 47, 92, 124, 63, 42}"

definition reserved_stems :: "ustring list" where
  "reserved_stems = map lit [''CON'', ''PRN'', ''AUX'', ''NUL'', ''COM1'', ''COM2'', ''COM3'', ''COM4'', ''COM5'', ''COM6'',
     ''COM7'', ''COM8'', ''COM9'', ''LPT1'', ''LPT2'', ''LPT3'', ''LPT4'', ''LPT5'', ''LPT6'', ''LPT7'', ''LPT8'', ''LPT9'']"

definition to_ascii_uppercase :: "ustring \<Rightarrow> ustring" where
  "to_ascii_uppercase s = map (\<lambda>c. if 97 \<le> c \<and> c \<le> 122 then c - 32 else c) s"

definition reserved_name :: "ustring \<Rightarrow> bool" where
  "reserved_name name \<longleftrightarrow> to_ascii_uppercase (takeWhile (\<lambda>c. c \<noteq> 46) name) \<in> set reserved_stems"

definition sanitize_filename :: "ustring \<Rightarrow> (ustring, ustring) result" where
  "sanitize_filename v =
     and_then (ok_or (lit ''file name is empty'') (leaf_name v)) (\<lambda>leaf.
     if leaf \<noteq> v \<or> 47 \<in> set v \<or> 92 \<in> set v then Err (lit ''file name may not contain a path'')
     else
       (let name = take 180 (map (\<lambda>c. if forbidden_char c then 95 else c) (filter (\<lambda>c. \<not> is_control c) leaf));
            name = trim_end (\<lambda>c. c = 46 \<or> c = 32) (trim name)
        in if name = [] \<or> name = [46] \<or> name = [46, 46] then Err (lit ''file name is empty after sanitization'')
           else Ok (if reserved_name name then 95 # name else name)))"

definition octet_stream :: ustring where
  "octet_stream = lit ''application/octet-stream''"

definition sanitize_mime :: "ustring \<Rightarrow> ustring" where
  "sanitize_mime v =
     (let v = trim v
      in if str_len v \<le> 127 \<and> v \<noteq> [] \<and> list_all (\<lambda>b. is_ascii_graphic b \<and> b \<noteq> 13 \<and> b \<noteq> 10) (utf8_bytes v)
         then v else octet_stream)"

section \<open>A free destination\<close>

definition file_stem_extension :: "ustring \<Rightarrow> ustring \<times> ustring option" where
  "file_stem_extension name =
     (let ext = takeWhile (\<lambda>c. c \<noteq> 46) (rev name)
      in if length ext = length name \<or> Suc (length ext) = length name then (name, None)
         else (take (length name - Suc (length ext)) name, Some (rev ext)))"

definition numbered_name :: "ustring \<Rightarrow> nat \<Rightarrow> ustring" where
  "numbered_name name suffix =
     (let (stem, extension) = file_stem_extension name
      in case extension of
           None \<Rightarrow> stem @ lit '' ('' @ show_nat suffix @ lit '')''
         | Some e \<Rightarrow> stem @ lit '' ('' @ show_nat suffix @ lit '').'' @ e)"

function first_free :: "(ustring \<Rightarrow> bool) \<Rightarrow> ustring \<Rightarrow> nat \<Rightarrow> ustring option" where
  "first_free taken name suffix =
     (if 100000 \<le> suffix then None
      else if \<not> taken (numbered_name name suffix) then Some (numbered_name name suffix)
      else first_free taken name (suffix + 1))"
  by pat_completeness auto
termination by (relation "measure (\<lambda>(_, _, suffix). 100000 - suffix)") auto

declare first_free.simps [simp del]

text \<open>The text of a UUID: thirty-two lower-case hexadecimal digits in five groups.\<close>

definition nibbles :: "uuid \<Rightarrow> nat list" where
  "nibbles u = map (\<lambda>i. unat (take_bit 4 (drop_bit (4 * (31 - i)) u))) [0..<32]"

definition uuid_text :: "uuid \<Rightarrow> ustring" where
  "uuid_text u =
     (let h = map hex_lower (nibbles u)
      in take 8 h @ [45] @ take 4 (drop 8 h) @ [45] @ take 4 (drop 12 h) @ [45] @ take 4 (drop 16 h) @ [45] @ drop 20 h)"

definition unique_destination :: "(ustring \<Rightarrow> bool) \<Rightarrow> uuid \<Rightarrow> ustring \<Rightarrow> ustring" where
  "unique_destination taken fresh name =
     (if \<not> taken name then name
      else case first_free taken name 1 of
        Some n \<Rightarrow> n
      | None \<Rightarrow> uuid_text fresh @ [45] @ name)"

section \<open>Digests and limits\<close>

definition hex_text :: "u8 list \<Rightarrow> ustring" where
  "hex_text bs = concat (map (\<lambda>b. [hex_lower (unat b div 16), hex_lower (unat b mod 16)]) bs)"

definition hex_sha256 :: "session_crypto \<Rightarrow> u8 list \<Rightarrow> ustring" where
  "hex_sha256 cr bs = hex_text (sha256 cr bs)"

text \<open>\<open>{:.n}\<close>: the exact decimal value rounded to n places, halves to even.\<close>

fun fmt_fixed :: "nat \<Rightarrow> fp \<Rightarrow> ustring" where
  "fmt_fixed n FNan = lit ''NaN''"
| "fmt_fixed n (FInf s) = (if s then [45] else []) @ lit ''inf''"
| "fmt_fixed n (FFin s m) =
     (let z = nat (half_even (mag_units b64 m * 10 ^ n) (one_units b64))
      in (if s then [45] else []) @ show_nat (z div 10 ^ n) @
         (if n = 0 then [] else [46] @ pad_start n 48 (show_nat (z mod 10 ^ n))))"

definition human_bytes :: "u64 \<Rightarrow> ustring" where
  "human_bytes bytes =
     (let mib = lit64 1024 1 * lit64 1024 1
      in if bytes < 1024 * 1024 * 1024 then fmt_fixed 0 (fp64 (f64_of_int (uint bytes) / mib)) @ lit '' MiB''
         else fmt_fixed 1 (fp64 (f64_of_int (uint bytes) / (mib * lit64 1024 1))) @ lit '' GiB'')"

section \<open>Byte ranges are inside the file\<close>

lemma uint_pos: "s \<noteq> 0 \<Longrightarrow> 0 < uint s" for s :: "'a::len word"
  using uint_nonnegative [of s] by (metis less_le uint_0_iff)

lemma uint_pred: "s \<noteq> 0 \<Longrightarrow> uint (s - 1) = uint s - 1" for s :: u64
proof -
  assume "s \<noteq> 0"
  then have "0 < uint s" by (rule uint_pos)
  then have "1 \<le> s" by (simp add: word_le_def)
  then show ?thesis by (simp add: uint_sub_lem [THEN iffD1] word_le_def)
qed

lemma range_len_bound:
  assumes "br_start r \<le> br_end r" "br_end r < s"
  shows "uint (range_len r) = uint (br_end r) - uint (br_start r) + 1" and "range_len r \<le> s" and "0 < range_len r"
proof -
  have d: "uint (br_end r - br_start r) = uint (br_end r) - uint (br_start r)"
    using assms(1) by (simp add: uint_sub_lem [THEN iffD1] word_le_def)
  have "0 \<le> uint (br_start r)" "uint (br_end r) < uint s" "uint s < 2 ^ 64"
    using assms(2) uint_lt2p [of s] by (simp_all add: word_less_def)
  then have b: "uint (br_end r) - uint (br_start r) + 1 \<le> uint s" "uint s < 2 ^ 64" by linarith+
  moreover have "uint (br_start r) \<le> uint (br_end r)" using assms(1) by (simp add: word_le_def)
  ultimately show e: "uint (range_len r) = uint (br_end r) - uint (br_start r) + 1"
    by (simp add: range_len_def uint_word_ariths d)
  show "range_len r \<le> s" using b by (simp add: word_le_def e)
  show "0 < range_len r" using assms(1) by (simp add: word_less_def word_le_def e)
qed

lemma range_bounds_Ok: "range_bounds s start stop = Ok r \<Longrightarrow> br_end r \<le> s - 1"
  by (auto simp: range_bounds_def Let_def split: if_splits option.splits)

lemma range_bounds_Err: "range_bounds s start stop = Err e \<Longrightarrow> \<exists>m. e = range_error m"
  by (auto simp: range_bounds_def Let_def and_then_Err_iff split: if_splits option.splits)

lemma range_check_simps:
  "range_check s r = Ok x \<longleftrightarrow> br_start r < s \<and> br_start r \<le> br_end r \<and> x = Some r"
  "range_check s r = Err e \<Longrightarrow> \<exists>m. e = range_error m"
  by (auto simp: range_check_def split: if_splits)

lemma range_error_simps [simp]: "te_kind (range_error m) = Range" "te_expected_offset (range_error m) = None"
  by (simp_all add: range_error_def transfer_error_new_def)

lemma parse_range_Some:
  assumes "parse_range header s = Ok (Some r)"
  obtains t where "header = Some t" and "s \<noteq> 0" and "br_start r < s" and "br_start r \<le> br_end r" and "br_end r \<le> s - 1"
  using assms
  by (auto simp: parse_range_def range_check_simps dest: range_bounds_Ok split: option.splits if_splits prod.splits)

lemma parse_range_Err:
  assumes "parse_range header s = Err e"
  shows "header \<noteq> None" and "\<exists>m. e = range_error m"
  using assms
  by (auto simp: parse_range_def and_then_Err_iff dest: range_bounds_Err range_check_simps(2)
      split: option.splits if_splits prod.splits)

lemma parse_range_no_range: "parse_range header s = Ok None \<longleftrightarrow> header = None"
  by (auto simp: parse_range_def range_check_simps split: option.splits if_splits prod.splits)

text \<open>Every byte range accepted from a Range header is non-empty and lies inside the file, so
  its length neither wraps nor exceeds the file; without a header there is no range, and every
  refusal is a range error that names no resume offset.\<close>
theorem parse_range_sound:
  "(case parse_range header s of
      Ok None \<Rightarrow> header = None
    | Ok (Some r) \<Rightarrow> header \<noteq> None \<and> br_start r \<le> br_end r \<and> br_end r < s \<and>
        uint (range_len r) = uint (br_end r) - uint (br_start r) + 1 \<and> range_len r \<le> s
    | Err e \<Rightarrow> header \<noteq> None \<and> te_kind e = Range \<and> te_expected_offset e = None)"
proof (cases "parse_range header s")
  case (Ok x)
  show ?thesis
  proof (cases x)
    case None
    with Ok have "header = None" by (simp add: parse_range_no_range)
    with Ok None show ?thesis by simp
  next
    case (Some r)
    with Ok obtain t where h: "header = Some t" "s \<noteq> 0" "br_start r \<le> br_end r" "br_end r \<le> s - 1"
      by (auto elim: parse_range_Some)
    from h(2,4) have "br_end r < s" by (simp add: word_le_def word_less_def uint_pred)
    then show ?thesis using Ok Some h range_len_bound [of r s] by simp
  qed
next
  case (Err e)
  then obtain m where "e = range_error m" "header \<noteq> None" using parse_range_Err by blast
  then show ?thesis using Err by simp
qed

section \<open>The accepted forms\<close>

lemma parse_u64_show: "parse_u64 (show_nat (unat a)) = Some a"
  using unsigned_less [of a, where ?'a = nat] by (simp add: parse_u64_def parse_show_nat)

lemma show_nat_free: "\<not> is_digit c \<Longrightarrow> c \<notin> set (show_nat n)"
  using show_nat_digits [of n] by (auto simp: list_all_iff)

lemma split_once_dash: "45 \<notin> set a \<Longrightarrow> split_once 45 (a @ 45 # b) = Some (a, b)"
  by (simp add: split_once_Some)

lemma parse_range_text:
  assumes "s \<noteq> 0" "44 \<notin> set a" "44 \<notin> set b" "45 \<notin> set a"
  shows "parse_range (Some (lit ''bytes='' @ a @ 45 # b)) s = and_then (range_bounds s a b) (range_check s)"
proof -
  have "strip_prefix (lit ''bytes='') (lit ''bytes='' @ a @ 45 # b) = Some (a @ 45 # b)"
    by (simp add: strip_prefix_Some)
  with assms show ?thesis by (simp add: parse_range_def split_once_dash)
qed

text \<open>What each of the three forms of a Range header asks for: \<open>bytes=a-b\<close> is the bytes from a to
  b, cut at the end of the file; \<open>bytes=a-\<close> is everything from a; \<open>bytes=-n\<close> is the last n bytes, or
  the whole file when it is shorter; an empty or reversed interval is refused.\<close>
theorem parse_range_forms:
  assumes "s \<noteq> 0"
  shows "parse_range (Some (lit ''bytes='' @ show_nat (unat a) @ 45 # show_nat (unat b))) s =
        (if a < s \<and> a \<le> min b (s - 1) then Ok (Some \<lparr>br_start = a, br_end = min b (s - 1)\<rparr>)
         else Err (range_error ''requested byte range is not satisfiable'')) \<and>
    parse_range (Some (lit ''bytes='' @ show_nat (unat a) @ [45])) s =
        (if a < s then Ok (Some \<lparr>br_start = a, br_end = s - 1\<rparr>)
         else Err (range_error ''requested byte range is not satisfiable'')) \<and>
    parse_range (Some (lit ''bytes='' @ 45 # show_nat (unat b))) s =
        (if b = 0 then Err (range_error ''invalid suffix range'')
         else Ok (Some \<lparr>br_start = s - min b s, br_end = s - 1\<rparr>))"
proof (intro conjI)
  have free: "44 \<notin> set (show_nat n)" "45 \<notin> set (show_nat n)" for n
    by (simp_all add: show_nat_free is_digit_def)
  show "parse_range (Some (lit ''bytes='' @ show_nat (unat a) @ 45 # show_nat (unat b))) s =
      (if a < s \<and> a \<le> min b (s - 1) then Ok (Some \<lparr>br_start = a, br_end = min b (s - 1)\<rparr>)
       else Err (range_error ''requested byte range is not satisfiable''))"
    using assms free by (auto simp: parse_range_text range_bounds_def parse_u64_show range_check_def not_less not_le min_less_iff_disj)
  have "a < s \<longleftrightarrow> a \<le> s - 1" using assms by (simp add: word_le_def word_less_def uint_pred)
  then show "parse_range (Some (lit ''bytes='' @ show_nat (unat a) @ [45])) s =
      (if a < s then Ok (Some \<lparr>br_start = a, br_end = s - 1\<rparr>)
       else Err (range_error ''requested byte range is not satisfiable''))"
    using assms free parse_range_text [of s "show_nat (unat a)" "[]"]
    by (simp add: range_bounds_def parse_u64_show range_check_def) (meson not_le)
  have "b \<noteq> 0 \<Longrightarrow> s - min b s < s \<and> s - min b s \<le> s - 1"
  proof -
    assume "b \<noteq> 0"
    then have "0 < uint (min b s)" "uint (min b s) \<le> uint s"
      using assms by (auto simp: min_def word_le_def intro: uint_pos)
    then show ?thesis using assms
      by (simp add: word_le_def word_less_def uint_pred uint_sub_lem [THEN iffD1])
  qed
  then show "parse_range (Some (lit ''bytes='' @ 45 # show_nat (unat b))) s =
      (if b = 0 then Err (range_error ''invalid suffix range'')
       else Ok (Some \<lparr>br_start = s - min b s, br_end = s - 1\<rparr>))"
    using assms free parse_range_text [of s "[]" "show_nat (unat b)"]
    by (simp add: range_bounds_def parse_u64_show range_check_def Let_def word_gt_0) (meson not_le not_less)
qed

theorem parse_range_forms_witness:
  "parse_range (Some (lit ''bytes='' @ show_nat (unat (2 :: u64)) @ 45 # show_nat (unat (90 :: u64)))) 10 =
    Ok (Some \<lparr>br_start = 2, br_end = 9\<rparr>)"
  using parse_range_forms [of 10 2 90] by simp

section \<open>Sanitised names\<close>

lemma leaf_name_plain:
  assumes "47 \<notin> set v" "92 \<notin> set v" "v \<noteq> []" "v \<noteq> [46]" "v \<noteq> [46, 46]" "\<not> drive_prefix v"
  shows "leaf_name v = Some v"
proof -
  have "map (\<lambda>c. if c = 92 then 47 else c) v = v" using assms(2) by (induction v) auto
  moreover have "split_on 47 v = [v]" using assms(1) by (induction v) auto
  ultimately show ?thesis using assms by (simp add: leaf_name_def)
qed

lemma drive_prefix_colon: "58 \<notin> set v \<Longrightarrow> \<not> drive_prefix v"
  by (auto simp: drive_prefix_def split: list.splits)

lemma last_trim_end: "trim_end p s \<noteq> [] \<Longrightarrow> \<not> p (last (trim_end p s))"
  using hd_dropWhile [of p "rev s"] by (simp add: trim_end_def last_rev)

lemma length_trim_end: "length (trim_end p s) \<le> length s"
  by (simp add: trim_end_def length_dropWhile_le [of p "rev s", simplified])

lemma length_trim: "length (trim s) \<le> length s"
  using length_trim_end [of is_whitespace "trim_start is_whitespace s"] length_dropWhile_le [of is_whitespace s]
  by (simp add: trim_def trim_start_def)

definition cleaned :: "ustring \<Rightarrow> ustring" where
  "cleaned v = trim_end (\<lambda>c. c = 46 \<or> c = 32)
     (trim (take 180 (map (\<lambda>c. if forbidden_char c then 95 else c) (filter (\<lambda>c. \<not> is_control c) v))))"

lemma cleaned_chars: "c \<in> set (cleaned v) \<Longrightarrow> c = 95 \<or> c \<in> set v \<and> \<not> is_control c \<and> \<not> forbidden_char c"
proof -
  assume "c \<in> set (cleaned v)"
  then have "c \<in> set (trim (take 180 (map (\<lambda>c. if forbidden_char c then 95 else c) (filter (\<lambda>c. \<not> is_control c) v))))"
    unfolding cleaned_def by (rule subsetD [OF set_trim_end])
  then have "c \<in> set (take 180 (map (\<lambda>c. if forbidden_char c then 95 else c) (filter (\<lambda>c. \<not> is_control c) v)))"
    by (rule subsetD [OF set_trim])
  then show ?thesis by (auto dest!: in_set_takeD)
qed

lemma length_cleaned: "length (cleaned v) \<le> 180"
  unfolding cleaned_def by (rule order.trans [OF length_trim_end], rule order.trans [OF length_trim]) simp

lemma last_cleaned: "cleaned v \<noteq> [] \<Longrightarrow> last (cleaned v) \<noteq> 46 \<and> last (cleaned v) \<noteq> 32"
  unfolding cleaned_def by (drule last_trim_end) simp

lemma sanitize_filename_eq: "sanitize_filename v =
  and_then (ok_or (lit ''file name is empty'') (leaf_name v)) (\<lambda>leaf.
    if leaf \<noteq> v \<or> 47 \<in> set v \<or> 92 \<in> set v then Err (lit ''file name may not contain a path'')
    else if cleaned leaf = [] \<or> cleaned leaf = [46] \<or> cleaned leaf = [46, 46] then Err (lit ''file name is empty after sanitization'')
    else Ok (if reserved_name (cleaned leaf) then 95 # cleaned leaf else cleaned leaf))"
  unfolding sanitize_filename_def cleaned_def Let_def by (rule refl)

lemma underscore_ok: "\<not> is_control 95 \<and> \<not> forbidden_char 95"
  by (simp add: is_control_def forbidden_char_def)

lemma reserved_no_underscore: "reserved_name (95 # n) \<Longrightarrow> False"
  by (auto simp: reserved_name_def reserved_stems_def lit_def to_ascii_uppercase_def)

lemma sanitize_filename_OkD:
  assumes "sanitize_filename v = Ok n"
  shows "leaf_name v = Some v" and "47 \<notin> set v" and "92 \<notin> set v" and "cleaned v \<noteq> []"
    and "n = (if reserved_name (cleaned v) then 95 # cleaned v else cleaned v)"
  using assms by (auto simp: sanitize_filename_eq split: if_splits)

definition safe_name :: "ustring \<Rightarrow> bool" where
  "safe_name n \<longleftrightarrow> n \<noteq> [] \<and> length n \<le> 181 \<and> last n \<noteq> 46 \<and> last n \<noteq> 32 \<and> \<not> reserved_name n \<and>
     list_all (\<lambda>c. \<not> is_control c \<and> \<not> forbidden_char c) n"

lemma sanitize_filename_chars:
  assumes "sanitize_filename v = Ok n" "c \<in> set n"
  shows "c = 95 \<or> c \<in> set v" and "\<not> is_control c \<and> \<not> forbidden_char c"
  using assms(2) sanitize_filename_OkD(5) [OF assms(1)] cleaned_chars [of c v] underscore_ok by (auto split: if_splits)

lemma sanitize_filename_safe_name:
  assumes "sanitize_filename v = Ok n"
  shows "safe_name n"
proof -
  note D = sanitize_filename_OkD [OF assms]
  have "last n \<noteq> 46 \<and> last n \<noteq> 32" "n \<noteq> []"
    using last_cleaned [of v] D(4,5) by (auto split: if_splits)
  moreover have "\<not> reserved_name n" using D(5) reserved_no_underscore by (auto split: if_splits)
  moreover have "length n \<le> 181" using length_cleaned [of v] D(5) by (auto split: if_splits)
  ultimately show ?thesis
    unfolding safe_name_def list_all_iff using sanitize_filename_chars(2) [OF assms] by blast
qed

lemma safe_name_leaf: "safe_name n \<Longrightarrow> leaf_name n = Some n"
proof -
  assume s: "safe_name n"
  then have "58 \<notin> set n" "47 \<notin> set n" "92 \<notin> set n" by (auto simp: safe_name_def list_all_iff forbidden_char_def)
  moreover have "n \<noteq> [46]" "n \<noteq> [46, 46]" "n \<noteq> []" using s by (auto simp: safe_name_def)
  ultimately show ?thesis by (simp add: leaf_name_plain drive_prefix_colon)
qed

text \<open>Every file name accepted from a browser or from the queue is a harmless leaf: it is not
  empty, at most 181 characters, holds no control character and none of the nine characters that
  Windows forbids (so no separator, no drive and no stream), does not end in a dot or a blank, is no
  reserved device name, resolves to itself as a leaf, and consists of characters of the name given
  apart from underscores; a name that holds a separator is never accepted.\<close>
theorem sanitize_filename_safe:
  assumes "sanitize_filename v = Ok n"
  shows "safe_name n \<and> leaf_name n = Some n \<and> set n \<subseteq> insert 95 (set v) \<and> 47 \<notin> set v \<and> 92 \<notin> set v"
  using sanitize_filename_safe_name [OF assms] sanitize_filename_chars(1) [OF assms] sanitize_filename_OkD(2,3) [OF assms]
  by (auto simp: safe_name_leaf)

lemmas name_simps = leaf_name_def drive_prefix_def is_control_def forbidden_char_def trim_def trim_start_def trim_end_def
  is_whitespace_def reserved_name_def reserved_stems_def to_ascii_uppercase_def

theorem sanitize_filename_safe_witness:
  "safe_name (lit ''_CON.txt'') \<and> leaf_name (lit ''_CON.txt'') = Some (lit ''_CON.txt'')"
proof -
  have "sanitize_filename (lit '' CON.txt..'') = Ok (lit ''_CON.txt'')"
    by (simp add: lit_def sanitize_filename_eq cleaned_def name_simps)
  from sanitize_filename_safe [OF this] show ?thesis by simp
qed

text \<open>A name that is already harmless is kept exactly: sanitising changes nothing in a name of at
  most 180 characters without control or forbidden characters that is no reserved device name,
  starts with no blank and ends in neither a dot nor a blank.\<close>
theorem sanitize_filename_keeps:
  assumes "safe_name n" "length n \<le> 180" "\<not> is_whitespace (hd n)" "\<not> is_whitespace (last n)"
  shows "sanitize_filename n = Ok n"
proof -
  have ok: "\<forall>c \<in> set n. \<not> is_control c \<and> \<not> forbidden_char c" and ne: "n \<noteq> []" and
    l: "last n \<noteq> 46" "last n \<noteq> 32" and r: "\<not> reserved_name n"
    using assms(1) by (auto simp: safe_name_def list_all_iff)
  have f: "58 \<notin> set n" "47 \<notin> set n" "92 \<notin> set n" using ok by (auto simp: forbidden_char_def)
  have "map (\<lambda>c. if forbidden_char c then 95 else c) (filter (\<lambda>c. \<not> is_control c) n) = n"
    using ok by (induction n) auto
  moreover have "trim n = n" using ne assms(3,4) by (simp add: trim_def trim_start_id trim_end_id)
  ultimately have "cleaned n = n" using ne l assms(2) by (simp add: cleaned_def trim_end_id)
  moreover have "n \<noteq> [46]" "n \<noteq> [46, 46]" using l by auto
  moreover have "leaf_name n = Some n" using assms(1) by (rule safe_name_leaf)
  ultimately show ?thesis using f ne r by (simp add: sanitize_filename_eq)
qed

theorem sanitize_filename_keeps_witness: "sanitize_filename (lit ''a b.tar'') = Ok (lit ''a b.tar'')"
  by (rule sanitize_filename_keeps) (simp_all add: lit_def safe_name_def is_whitespace_def name_simps)

section \<open>A free destination is found\<close>

lemma first_free_Some:
  "first_free taken name k = Some n \<Longrightarrow> \<exists>i. k \<le> i \<and> i < 100000 \<and> n = numbered_name name i \<and> \<not> taken n"
proof (induction taken name k rule: first_free.induct)
  case (1 taken name k)
  show ?case
  proof (cases "taken (numbered_name name k) \<and> k < 100000")
    case True
    with 1(2) have "first_free taken name (k + 1) = Some n" by (subst (asm) first_free.simps) simp
    with 1(1) True obtain i where "k + 1 \<le> i" "i < 100000" "n = numbered_name name i" "\<not> taken n"
      by (auto simp: not_le)
    then show ?thesis by (intro exI [of _ i]) simp
  next
    case False
    with 1(2) show ?thesis by (subst (asm) first_free.simps) (auto split: if_splits)
  qed
qed

lemma first_free_None:
  "first_free taken name k = None \<Longrightarrow> k \<le> i \<Longrightarrow> i < 100000 \<Longrightarrow> taken (numbered_name name i)"
proof (induction taken name k rule: first_free.induct)
  case (1 taken name k)
  then have k: "k < 100000" by simp
  with 1(2) have t: "taken (numbered_name name k)" "first_free taken name (k + 1) = None"
    by (subst (asm) first_free.simps, simp split: if_splits)+
  show ?case
  proof (cases "i = k")
    case False
    with 1(1) [OF _ _ t(2)] 1(3,4) k t(1) show ?thesis by simp
  qed (simp add: t(1))
qed

text \<open>A finished upload never lands on an existing file: the chosen name is free unless the name
  and all its 99,999 numbered variants are taken, in which case a fresh UUID is put in front; a free
  name is used as it is, and otherwise the smallest variant is a numbered one.\<close>
theorem unique_destination_free:
  "taken (unique_destination taken u name) =
     (taken name \<and> (\<forall>i. 1 \<le> i \<and> i < 100000 \<longrightarrow> taken (numbered_name name i)) \<and> taken (uuid_text u @ [45] @ name)) \<and>
   (\<not> taken name \<longrightarrow> unique_destination taken u name = name)"
proof (cases "taken name")
  case True
  show ?thesis
  proof (cases "first_free taken name 1")
    case None
    then have "1 \<le> i \<Longrightarrow> i < 100000 \<Longrightarrow> taken (numbered_name name i)" for i by (rule first_free_None)
    with None True show ?thesis by (auto simp: unique_destination_def)
  next
    case (Some n)
    then obtain i where "1 \<le> i" "i < 100000" "n = numbered_name name i" "\<not> taken n"
      using first_free_Some by blast
    with Some True show ?thesis by (auto simp: unique_destination_def)
  qed
qed (simp add: unique_destination_def)

theorem unique_destination_free_witness:
  "unique_destination (\<lambda>n. n = lit ''a.txt'' \<or> n = lit ''a (1).txt'') 0 (lit ''b'') = lit ''b''"
  using unique_destination_free [of "\<lambda>n. n = lit ''a.txt'' \<or> n = lit ''a (1).txt''" 0 "lit ''b''"]
  by (simp add: lit_def)

section \<open>UUID texts identify\<close>

lemma nibbles_less: "n \<in> set (nibbles u) \<Longrightarrow> n < 16"
proof -
  assume "n \<in> set (nibbles u)"
  then obtain i where "n = unat (take_bit 4 (drop_bit (4 * (31 - i)) u))" by (auto simp: nibbles_def)
  then show "n < 16"
    using take_bit_nat_less_exp [of 4 "unat (drop_bit (4 * (31 - i)) u)"] by (simp only: unsigned_take_bit_eq) simp
qed

lemma nibbles_inj: "nibbles u = nibbles v \<Longrightarrow> u = v"
proof (rule bit_word_eqI)
  fix n assume e: "nibbles u = nibbles v" and n: "n < LENGTH(128)"
  define i where "i = 31 - n div 4"
  have i: "i < 32" "31 - i = n div 4" using n by (simp_all add: i_def)
  from e i(1) have "nibbles u ! i = nibbles v ! i" by simp
  with i have "unat (take_bit 4 (drop_bit (4 * (n div 4)) u)) = unat (take_bit 4 (drop_bit (4 * (n div 4)) v))"
    by (simp add: nibbles_def)
  then have "take_bit 4 (drop_bit (4 * (n div 4)) u) = take_bit 4 (drop_bit (4 * (n div 4)) v)"
    by (simp only: word_unat_eq_iff)
  then have "bit (take_bit 4 (drop_bit (4 * (n div 4)) u)) (n mod 4) = bit (take_bit 4 (drop_bit (4 * (n div 4)) v)) (n mod 4)"
    by simp
  then have "bit u (4 * (n div 4) + n mod 4) = bit v (4 * (n div 4) + n mod 4)"
    by (simp add: bit_take_bit_iff bit_drop_bit_eq del: mult_div_mod_eq div_mult_mod_eq)
  then show "bit u n = bit v n" by (simp only: mult_div_mod_eq)
qed

lemma hex_lower_inj: "a < 16 \<Longrightarrow> b < 16 \<Longrightarrow> hex_lower a = hex_lower b \<longleftrightarrow> a = b"
  by (auto simp: hex_lower_def)

lemma length_nibbles [simp]: "length (nibbles u) = 32"
  by (simp add: nibbles_def)

lemma uuid_text_inj: "uuid_text u = uuid_text v \<longleftrightarrow> u = v"
proof
  assume e: "uuid_text u = uuid_text v"
  let ?g = "\<lambda>h :: ustring. take 8 h @ [45] @ take 4 (drop 8 h) @ [45] @ take 4 (drop 12 h) @ [45] @ take 4 (drop 16 h) @ [45] @ drop 20 h"
  have inj: "?g h = ?g k \<Longrightarrow> length h = 32 \<Longrightarrow> length k = 32 \<Longrightarrow> h = k" for h k
  proof -
    assume g: "?g h = ?g k" and l: "length h = 32" "length k = 32"
    have "take 8 h = take 8 k" "take 4 (drop 8 h) = take 4 (drop 8 k)" "take 4 (drop 12 h) = take 4 (drop 12 k)"
      "take 4 (drop 16 h) = take 4 (drop 16 k)" "drop 20 h = drop 20 k"
      using g l by (simp_all add: append_eq_append_conv)
    moreover have "x = take 8 x @ take 4 (drop 8 x) @ take 4 (drop 12 x) @ take 4 (drop 16 x) @ drop 20 x" for x :: ustring
    proof -
      have step: "take 4 (drop m x) @ drop (4 + m) x = drop m x" for m
        using append_take_drop_id [of 4 "drop m x"] by (simp only: drop_drop)
      have "take 4 (drop 8 x) @ drop 12 x = drop 8 x" "take 4 (drop 12 x) @ drop 16 x = drop 12 x"
        "take 4 (drop 16 x) @ drop 20 x = drop 16 x"
        using step [of 8] step [of 12] step [of 16] by (simp_all only: numeral_plus_numeral add_num_simps)
      then show ?thesis by (simp only: append_take_drop_id)
    qed
    ultimately show "h = k" by metis
  qed
  have "map hex_lower (nibbles u) = map hex_lower (nibbles v)"
    using e by - (rule inj, simp_all add: uuid_text_def Let_def)
  then have "nibbles u = nibbles v"
    by (rule map_inj_on) (rule inj_onI, metis Un_iff hex_lower_inj nibbles_less)
  then show "u = v" by (rule nibbles_inj)
qed simp

section \<open>The Content-Disposition header\<close>

definition hex_value :: "nat \<Rightarrow> nat" where
  "hex_value c = (if c < 58 then c - 48 else c - 55)"

fun percent_decode :: "ustring \<Rightarrow> nat list" where
  "percent_decode [] = []"
| "percent_decode (c # s) =
     (if c = 37 then (case s of a # b # t \<Rightarrow> (16 * hex_value a + hex_value b) # percent_decode t | _ \<Rightarrow> [])
      else c # percent_decode s)"

lemma hex_value_upper [simp]: "d < 16 \<Longrightarrow> hex_value (hex_upper d) = d"
  by (auto simp: hex_value_def hex_upper_def)

lemma hex_upper_alphanumeric: "d < 16 \<Longrightarrow> is_ascii_alphanumeric (hex_upper d)"
  by (auto simp: hex_upper_def is_ascii_alphanumeric_def)

definition percent_byte :: "nat \<Rightarrow> ustring" where
  "percent_byte b = (if is_ascii_alphanumeric b \<or> b \<in> {45, 46, 95} then [b]
     else [37, hex_upper (b div 16), hex_upper (b mod 16)])"

lemma percent_roundtrip: "\<forall>b \<in> set bs. b < 256 \<Longrightarrow> percent_decode (concat (map percent_byte bs)) = bs"
proof (induction bs)
  case (Cons b bs)
  have "b div 16 < 16" using Cons.prems by auto
  moreover have "b = 37 \<Longrightarrow> \<not> is_ascii_alphanumeric b" by (simp add: is_ascii_alphanumeric_def)
  ultimately show ?case using Cons by (auto simp: percent_byte_def)
qed simp

lemma percent_chars:
  "\<forall>b \<in> set bs. b < 256 \<Longrightarrow> c \<in> set (concat (map percent_byte bs)) \<Longrightarrow> is_ascii_alphanumeric c \<or> c \<in> {37, 45, 46, 95}"
proof -
  assume bs: "\<forall>b \<in> set bs. b < 256" and "c \<in> set (concat (map percent_byte bs))"
  then obtain b where "b \<in> set bs" and c: "c \<in> set (percent_byte b)" by auto
  with bs have "b div 16 < 16" "b mod 16 < 16" by auto
  with c show ?thesis by (auto simp: percent_byte_def hex_upper_alphanumeric split: if_splits)
qed

text \<open>The Content-Disposition header of any file name is a single well-formed line: between its
  two quotes stand only letters, digits, dots, dashes, underscores and blanks, one for each
  character of the name; the extended part holds only unreserved characters and percent escapes,
  and decoding it gives the UTF-8 bytes of the name back.\<close>
theorem content_disposition_wellformed:
  assumes "valid_str name"
  shows "\<exists>fallback encoded. content_disposition name =
      lit ''attachment; filename='' @ [34] @ fallback @ [34] @ lit ''; filename*=UTF-8'' @ [39, 39] @ encoded \<and>
    length fallback = length name \<and>
    list_all (\<lambda>c. is_ascii_alphanumeric c \<or> c \<in> {32, 45, 46, 95}) fallback \<and>
    list_all (\<lambda>c. is_ascii_alphanumeric c \<or> c \<in> {37, 45, 46, 95}) encoded \<and>
    percent_decode encoded = utf8_bytes name"
proof (intro exI conjI)
  have b: "\<forall>b \<in> set (utf8_bytes name). b < 256"
    using assms utf8_bytes_less_256 [of name] by (auto simp: valid_str_iff)
  show "content_disposition name =
      lit ''attachment; filename='' @ [34] @ map (\<lambda>c. if is_ascii_alphanumeric c \<or> c \<in> {46, 45, 95, 32} then c else 95) name
      @ [34] @ lit ''; filename*=UTF-8'' @ [39, 39] @ concat (map percent_byte (utf8_bytes name))"
    unfolding content_disposition_def percent_byte_def Let_def by (rule refl)
  show "list_all (\<lambda>c. is_ascii_alphanumeric c \<or> c \<in> {37, 45, 46, 95}) (concat (map percent_byte (utf8_bytes name)))"
    unfolding list_all_iff using percent_chars [OF b] by blast
  show "percent_decode (concat (map percent_byte (utf8_bytes name))) = utf8_bytes name"
    by (rule percent_roundtrip [OF b])
qed (auto simp: list_all_iff)

theorem content_disposition_wellformed_witness:
  "\<exists>fallback encoded. content_disposition [97, 34, 13, 233] =
    lit ''attachment; filename='' @ [34] @ fallback @ [34] @ lit ''; filename*=UTF-8'' @ [39, 39] @ encoded \<and>
    percent_decode encoded = utf8_bytes [97, 34, 13, 233]"
proof -
  have "valid_str [97, 34, 13, 233]" by (simp add: valid_str_def scalar_def)
  from content_disposition_wellformed [OF this] show ?thesis by blast
qed

end
