(* ===== verification/Transfers.thy ===== *)
theory Transfers
  imports Transfer_Names Metrics "HOL-Library.AList"
begin

text \<open>
  \<open>FileTransferManager\<close> of \<open>crates/transport/src/file_transfer.rs\<close>: the queue of files for the
  tablet, chunked uploads into a staging directory, their publication in the inbox, downloads as
  streams with their guard, pacing and statistics.  Hash maps are association lists in iteration
  order; a directory maps leaf names (the inbox: names folded the way the file system compares
  them) to contents.  Every call into the operating system takes its outcome as an argument, so
  each failure is a branch; locks make the operations atomic steps, and the suspension points of
  pacing are explicit lists of what the waiting task observes.
\<close>

section \<open>Data\<close>

definition UPLOAD_CHUNK_SIZE :: u64 where "UPLOAD_CHUNK_SIZE = 1024 * 1024"
definition DOWNLOAD_CHUNK_SIZE :: u64 where "DOWNLOAD_CHUNK_SIZE = 64 * 1024"
definition MAX_ACTIVE_UPLOADS :: nat where "MAX_ACTIVE_UPLOADS = 32"
definition MAX_OUTBOX_FILES :: nat where "MAX_OUTBOX_FILES = 1000"
definition MAX_RECENT_TRANSFERS :: nat where "MAX_RECENT_TRANSFERS = 100"
definition MAX_COMPLETED_UPLOAD_TICKETS :: nat where "MAX_COMPLETED_UPLOAD_TICKETS = 100"
definition TRANSFER_RATE_WINDOW :: nat where "TRANSFER_RATE_WINDOW = secs 1"

type_synonym directory = "ustring \<rightharpoonup> u8 list"

record platform =
  pf_crypto :: session_crypto
  pf_fold :: "ustring \<Rightarrow> ustring"
  pf_exists_message :: ustring
  pf_missing_message :: ustring
  pf_mime :: "ustring \<Rightarrow> ustring"

datatype io_outcome = IoOk | IoFail ustring

record file_transfer_options =
  fo_enabled :: bool
  fo_max_file_size_bytes :: u64
  fo_rate_limit_mbps :: u32
  fo_pause_while_drawing :: bool
  fo_inbox_directory :: ustring

record outgoing_file =
  of_id :: uuid
  of_name :: ustring
  of_size :: u64
  of_mime :: ustring
  of_queued_epoch_ms :: u64
  of_sha256 :: "ustring option"

record active_upload =
  au_id :: uuid
  au_name :: ustring
  au_size :: u64
  au_received :: u64
  au_started_epoch_ms :: u64

datatype transfer_direction = IpadToWindows | WindowsToIpad

record completed_transfer =
  ct_direction :: transfer_direction
  ct_name :: ustring
  ct_bytes :: u64
  ct_duration_ms :: u64
  ct_average_mbps :: f64
  ct_sha256 :: "ustring option"
  ct_completed_epoch_ms :: u64
  ct_status :: ustring

record transfer_stats =
  ts_upload_bytes :: u64
  ts_download_bytes :: u64
  ts_uploads_completed :: u64
  ts_downloads_completed :: u64
  ts_canceled_transfers :: u64
  ts_failed_transfers :: u64
  ts_active_uploads :: u32
  ts_active_downloads :: u32
  ts_upload_mbps :: f64
  ts_download_mbps :: f64

record file_transfer_snapshot =
  fs_enabled :: bool
  fs_max_file_size_bytes :: u64
  fs_chunk_size_bytes :: u64
  fs_rate_limit_mbps :: u32
  fs_pause_while_drawing :: bool
  fs_inbox_directory :: ustring
  fs_outbox :: "outgoing_file list"
  fs_active_uploads :: "active_upload list"
  fs_recent :: "completed_transfer list"
  fs_stats :: transfer_stats

record browser_file_listing =
  bl_enabled :: bool
  bl_max_file_size_bytes :: u64
  bl_chunk_size_bytes :: u64
  bl_rate_limit_mbps :: u32
  bl_pause_while_drawing :: bool
  bl_inbox_name :: ustring
  bl_outbox :: "outgoing_file list"
  bl_active_uploads :: "active_upload list"
  bl_recent :: "completed_transfer list"
  bl_stats :: transfer_stats

record upload_ticket =
  ut_upload_id :: uuid
  ut_name :: ustring
  ut_size :: u64
  ut_uploaded_bytes :: u64
  ut_chunk_size_bytes :: u64

record upload_progress_info =
  up_upload_id :: uuid
  up_uploaded_bytes :: u64
  up_total_bytes :: u64

record upload_complete =
  uc_upload_id :: uuid
  uc_name :: ustring
  uc_size :: u64
  uc_sha256 :: ustring

record outgoing_record =
  or_public :: outgoing_file
  or_path :: ustring
  or_modified :: "int option"

record upload_state =
  us_part_path :: ustring
  us_received :: u64
  us_started :: nat

record upload_record =
  ur_state :: upload_state
  ur_received :: u64
  ur_id :: uuid
  ur_session_id :: uuid
  ur_name :: ustring
  ur_mime :: ustring
  ur_size :: u64
  ur_started_epoch_ms :: u64

record completed_upload_record =
  cu_session_id :: uuid
  cu_response :: upload_complete

datatype rate_direction = Upload | Download

record rate_event =
  re_at :: nat
  re_direction :: rate_direction
  re_bytes :: u64

record file_manager =
  fm_enabled :: bool
  fm_max_file_size_bytes :: u64
  fm_rate_limit_mbps :: u32
  fm_pause_while_drawing :: bool
  fm_inbox_directory :: ustring
  fm_outbox :: "(uuid \<times> outgoing_record) list"
  fm_uploads :: "(uuid \<times> upload_record) list"
  fm_completed_uploads :: "completed_upload_record list"
  fm_recent :: "completed_transfer list"
  fm_rate :: "rate_event list"
  fm_upload_bytes :: u64
  fm_download_bytes :: u64
  fm_uploads_completed :: u64
  fm_downloads_completed :: u64
  fm_canceled_transfers :: u64
  fm_failed_transfers :: u64
  fm_active_downloads :: u32
  fm_checksum_queue :: "(uuid \<times> ustring) list"
  fm_staging :: directory
  fm_inbox :: directory

section \<open>Files\<close>

definition part_name :: "uuid \<Rightarrow> ustring" where
  "part_name uid = lit ''nfidb-'' @ uuid_text uid @ lit ''.part''"

definition incoming_name :: "uuid \<Rightarrow> ustring" where
  "incoming_name uid = lit ''.nfidb-'' @ uuid_text uid @ lit ''.incoming''"

definition ends_with :: "ustring \<Rightarrow> ustring \<Rightarrow> bool" where
  "ends_with s t \<longleftrightarrow> length t \<le> length s \<and> drop (length s - length t) s = t"

definition starts_with :: "ustring \<Rightarrow> ustring \<Rightarrow> bool" where
  "starts_with s t \<longleftrightarrow> take (length t) s = t"

definition cleanup_staging_directory :: "(ustring \<Rightarrow> bool) \<Rightarrow> directory \<Rightarrow> directory" where
  "cleanup_staging_directory removed d =
     (\<lambda>n. if starts_with n (lit ''nfidb-'') \<and> ends_with n (lit ''.part'') \<and> removed n then None else d n)"

text \<open>A write at an offset: a gap is filled with zeros, nothing is cut off behind it.\<close>

definition overwrite :: "nat \<Rightarrow> u8 list \<Rightarrow> u8 list \<Rightarrow> u8 list" where
  "overwrite offset bs content =
     (if bs = [] then content
      else take offset content @ replicate (offset - length content) 0 @ bs @ drop (offset + length bs) content)"

datatype write_outcome = WriteOk | WriteNotOpened ustring | WriteFailed nat ustring

definition write_part :: "platform \<Rightarrow> write_outcome \<Rightarrow> ustring \<Rightarrow> nat \<Rightarrow> u8 list \<Rightarrow> directory \<Rightarrow> (unit, ustring) result \<times> directory" where
  "write_part pf outcome path offset bs d =
     (case d path of
        None \<Rightarrow> (Err (pf_missing_message pf), d)
      | Some content \<Rightarrow>
          (case outcome of
             WriteOk \<Rightarrow> (Ok (), d(path \<mapsto> overwrite offset bs content))
           | WriteNotOpened e \<Rightarrow> (Err e, d)
           | WriteFailed n e \<Rightarrow> (Err e, d(path \<mapsto> overwrite offset (take n bs) content))))"

definition hash_file :: "platform \<Rightarrow> io_outcome \<Rightarrow> u8 list option \<Rightarrow> (ustring, ustring) result" where
  "hash_file pf outcome content =
     (case content of
        None \<Rightarrow> Err (pf_missing_message pf)
      | Some bs \<Rightarrow> (case outcome of IoFail e \<Rightarrow> Err e | IoOk \<Rightarrow> Ok (hex_sha256 (pf_crypto pf) bs)))"

datatype copy_outcome = Copied nat | CopyFailed nat ustring

record move_outcomes =
  mv_rename :: io_outcome
  mv_copy :: copy_outcome
  mv_publish :: io_outcome
  mv_removed :: bool

definition io_error :: "ustring \<Rightarrow> transfer_error" where
  "io_error e = transfer_error_new Io e"

definition move_completed_file ::
  "platform \<Rightarrow> move_outcomes \<Rightarrow> ustring \<Rightarrow> ustring \<Rightarrow> uuid \<Rightarrow> u64 \<Rightarrow> directory \<Rightarrow> directory \<Rightarrow>
   (unit, transfer_error) result \<times> directory \<times> directory" where
  "move_completed_file pf mv part destination uid expected staging inbox =
     (let target = pf_fold pf destination;
          temporary = pf_fold pf (incoming_name uid)
      in case (staging part, mv_rename mv) of
           (Some content, IoOk) \<Rightarrow> (Ok (), staging(part := None), inbox(target \<mapsto> content))
         | (found, renamed) \<Rightarrow>
             (let rename_error = (case renamed of IoFail e \<Rightarrow> e | IoOk \<Rightarrow> pf_missing_message pf);
                  inbox = inbox(temporary := None)
              in case found of
                   None \<Rightarrow> (Err (io_error (lit ''failed to move upload ('' @ rename_error @ lit ''); fallback copy failed: '' @
                      pf_missing_message pf)), staging, inbox)
                 | Some content \<Rightarrow>
                     (case mv_copy mv of
                        CopyFailed n e \<Rightarrow>
                          (Err (io_error (lit ''failed to move upload ('' @ rename_error @ lit ''); fallback copy failed: '' @ e)),
                           staging, inbox(temporary := if n = 0 then None else Some (take n content)))
                      | Copied n \<Rightarrow>
                          (let copied = word_of_nat (length (take n content)) :: u64
                           in if copied \<noteq> expected then
                                (Err (io_error (lit ''fallback copy wrote '' @ show_nat (unat copied) @ lit '' of '' @
                                  show_nat (unat expected) @ lit '' bytes'')), staging, inbox)
                              else
                                (case mv_publish mv of
                                   IoFail e \<Rightarrow> (Err (io_error (lit ''failed to publish copied upload: '' @ e)), staging, inbox)
                                 | IoOk \<Rightarrow> (Ok (), if mv_removed mv then staging(part := None) else staging,
                                     inbox(target \<mapsto> take n content)))))))"

section \<open>Guards and records\<close>

definition ensure_enabled :: "bool \<Rightarrow> (unit, transfer_error) result" where
  "ensure_enabled enabled =
     (if enabled then Ok () else Err (transfer_error_new Disabled (lit ''file transfer is disabled on Windows'')))"

definition ensure_session :: "session_state \<Rightarrow> uuid \<Rightarrow> (unit, transfer_error) result" where
  "ensure_session ses sid =
     (if session_id ses = sid \<and> paired ses then Ok ()
      else Err (transfer_error_new Unauthorized (lit ''paired session changed during transfer'')))"

definition lookup_upload_record :: "uuid \<Rightarrow> uuid \<Rightarrow> file_manager \<Rightarrow> (upload_record, transfer_error) result" where
  "lookup_upload_record uid sid m =
     (case map_of (fm_uploads m) uid of
        None \<Rightarrow> Err (transfer_error_new NotFound (lit ''upload was not found''))
      | Some r \<Rightarrow>
          if ur_session_id r \<noteq> sid then Err (transfer_error_new Unauthorized (lit ''upload belongs to a different session''))
          else Ok r)"

definition completed_upload :: "uuid \<Rightarrow> uuid \<Rightarrow> file_manager \<Rightarrow> upload_complete option" where
  "completed_upload uid sid m =
     map_option cu_response (List.find (\<lambda>r. cu_session_id r = sid \<and> uc_upload_id (cu_response r) = uid) (fm_completed_uploads m))"

definition transfer_epoch_ms :: "int \<Rightarrow> u64" where
  "transfer_epoch_ms wall = word_of_int (min (max wall 0 div 1000000) (2 ^ 64 - 1))"

definition upload_public :: "upload_record \<Rightarrow> active_upload" where
  "upload_public r = \<lparr>au_id = ur_id r, au_name = ur_name r, au_size = ur_size r, au_received = ur_received r,
     au_started_epoch_ms = ur_started_epoch_ms r\<rparr>"

definition upload_ticket_of :: "upload_record \<Rightarrow> upload_ticket" where
  "upload_ticket_of r = \<lparr>ut_upload_id = ur_id r, ut_name = ur_name r, ut_size = ur_size r, ut_uploaded_bytes = ur_received r,
     ut_chunk_size_bytes = UPLOAD_CHUNK_SIZE\<rparr>"

definition prune_rate_events :: "nat \<Rightarrow> rate_event list \<Rightarrow> rate_event list" where
  "prune_rate_events now events = dropWhile (\<lambda>e. TRANSFER_RATE_WINDOW < now - re_at e) events"

definition record_bytes :: "nat \<Rightarrow> rate_direction \<Rightarrow> u64 \<Rightarrow> file_manager \<Rightarrow> file_manager" where
  "record_bytes now dir bytes m =
     (let m = (case dir of
          Upload \<Rightarrow> m\<lparr>fm_upload_bytes := fm_upload_bytes m + bytes\<rparr>
        | Download \<Rightarrow> m\<lparr>fm_download_bytes := fm_download_bytes m + bytes\<rparr>)
      in m\<lparr>fm_rate := prune_rate_events now (fm_rate m @ [\<lparr>re_at = now, re_direction = dir, re_bytes = bytes\<rparr>])\<rparr>)"

definition rate_totals :: "rate_event list \<Rightarrow> u64 \<times> u64" where
  "rate_totals events = foldl (\<lambda>(upload, download) e. case re_direction e of
     Upload \<Rightarrow> (upload + re_bytes e, download) | Download \<Rightarrow> (upload, download + re_bytes e)) (0, 0) events"

definition megabits_of :: "u64 \<Rightarrow> f64" where
  "megabits_of bytes = f64_of_int (uint bytes) * lit64 8 1 / lit64 1000000 1"

definition manager_stats :: "nat \<Rightarrow> file_manager \<Rightarrow> transfer_stats \<times> file_manager" where
  "manager_stats now m =
     (let rate = prune_rate_events now (fm_rate m);
          (upload, download) = rate_totals rate
      in (\<lparr>ts_upload_bytes = fm_upload_bytes m, ts_download_bytes = fm_download_bytes m,
           ts_uploads_completed = fm_uploads_completed m, ts_downloads_completed = fm_downloads_completed m,
           ts_canceled_transfers = fm_canceled_transfers m, ts_failed_transfers = fm_failed_transfers m,
           ts_active_uploads = word_of_nat (length (fm_uploads m)), ts_active_downloads = fm_active_downloads m,
           ts_upload_mbps = megabits_of upload, ts_download_mbps = megabits_of download\<rparr>,
          m\<lparr>fm_rate := rate\<rparr>))"

definition record_completed ::
  "int \<Rightarrow> transfer_direction \<Rightarrow> ustring \<Rightarrow> u64 \<Rightarrow> nat \<Rightarrow> ustring option \<Rightarrow> string \<Rightarrow> file_manager \<Rightarrow> file_manager" where
  "record_completed wall direction name bytes duration sha status m =
     (let seconds = max64 (as_secs_f64 duration) (lit64 1 1000);
          transfer = \<lparr>ct_direction = direction, ct_name = name, ct_bytes = bytes,
            ct_duration_ms = word_of_nat (min (duration div 1000000) (2 ^ 64 - 1)),
            ct_average_mbps = f64_of_int (uint bytes) * lit64 8 1 / seconds / lit64 1000000 1,
            ct_sha256 = sha, ct_completed_epoch_ms = transfer_epoch_ms wall, ct_status = lit status\<rparr>
      in m\<lparr>fm_recent := push_front_bounded MAX_RECENT_TRANSFERS transfer (fm_recent m)\<rparr>)"

section \<open>Pacing\<close>

text \<open>
  Each entry of the list is what one round of the loop sees: the pause setting, the metrics and
  the session.  Without an entry that lets it pass, the task is still waiting.
\<close>

type_synonym pace_view = "bool \<times> metrics \<times> session_state"

fun pace_wait :: "uuid \<Rightarrow> pace_view list \<Rightarrow> (unit, transfer_error) result option" where
  "pace_wait sid [] = None"
| "pace_wait sid ((pause, mx, ses) # views) =
     (if pause \<and> has_active_pointers mx then
        (case ensure_session ses sid of Err e \<Rightarrow> Some (Err e) | Ok _ \<Rightarrow> pace_wait sid views)
      else Some (ensure_session ses sid))"

definition pace_delay :: "u32 \<Rightarrow> u64 \<Rightarrow> f64 option" where
  "pace_delay megabits bytes =
     (if 0 < megabits \<and> 0 < bytes
      then Some (f64_of_int (uint bytes) * lit64 8 1 / (f64_of_int (uint megabits) * lit64 1000000 1)) else None)"

text \<open>The last argument is the session that the task finds after sleeping for the delay.\<close>

definition pace ::
  "pace_view list \<Rightarrow> (f64 option \<Rightarrow> session_state) \<Rightarrow> u64 \<Rightarrow> uuid \<Rightarrow> file_manager \<Rightarrow> (unit, transfer_error) result option" where
  "pace views after bytes sid m =
     (case ensure_enabled (fm_enabled m) of
        Err e \<Rightarrow> Some (Err e)
      | Ok _ \<Rightarrow> (case pace_wait sid views of
            None \<Rightarrow> None
          | Some (Err e) \<Rightarrow> Some (Err e)
          | Some (Ok _) \<Rightarrow> Some (ensure_session (after (pace_delay (fm_rate_limit_mbps m) bytes)) sid)))"

section \<open>Configuration and the queue for the tablet\<close>

definition manager_new :: "(ustring \<Rightarrow> bool) \<Rightarrow> file_transfer_options \<Rightarrow> directory \<Rightarrow> directory \<Rightarrow> file_manager" where
  "manager_new removed options staging inbox =
     \<lparr>fm_enabled = fo_enabled options, fm_max_file_size_bytes = fo_max_file_size_bytes options,
      fm_rate_limit_mbps = fo_rate_limit_mbps options, fm_pause_while_drawing = fo_pause_while_drawing options,
      fm_inbox_directory = fo_inbox_directory options, fm_outbox = [], fm_uploads = [], fm_completed_uploads = [],
      fm_recent = [], fm_rate = [], fm_upload_bytes = 0, fm_download_bytes = 0, fm_uploads_completed = 0,
      fm_downloads_completed = 0, fm_canceled_transfers = 0, fm_failed_transfers = 0, fm_active_downloads = 0,
      fm_checksum_queue = [], fm_staging = cleanup_staging_directory removed staging, fm_inbox = inbox\<rparr>"

definition configure_transfers :: "bool \<Rightarrow> u64 \<Rightarrow> u32 \<Rightarrow> bool \<Rightarrow> file_manager \<Rightarrow> file_manager" where
  "configure_transfers enabled max_size rate_mbps pause m =
     m\<lparr>fm_enabled := enabled, fm_max_file_size_bytes := max_size, fm_rate_limit_mbps := rate_mbps,
       fm_pause_while_drawing := pause\<rparr>"

text \<open>What the operating system says about a path that is queued.\<close>

record path_facts =
  pt_display :: ustring
  pt_canonical :: "(ustring, ustring) result"
  pt_metadata :: "(bool \<times> u64 \<times> int option, ustring) result"
  pt_file_name :: "ustring option"

definition queue_outgoing ::
  "platform \<Rightarrow> bool \<Rightarrow> uuid \<Rightarrow> int \<Rightarrow> path_facts \<Rightarrow> file_manager \<Rightarrow> (outgoing_file, ustring) result \<times> file_manager" where
  "queue_outgoing pf worker_alive fresh wall p m =
     (let outcome =
        (if \<not> fm_enabled m then Err (lit ''file transfer is disabled'')
         else if MAX_OUTBOX_FILES \<le> length (fm_outbox m)
         then Err (lit ''the iPad queue is limited to '' @ show_nat MAX_OUTBOX_FILES @ lit '' files'')
         else
           and_then (map_error (\<lambda>e. lit ''failed to open '' @ pt_display p @ lit '': '' @ e) (pt_canonical p)) (\<lambda>canon.
           and_then (map_error (\<lambda>e. lit ''failed to inspect '' @ canon @ lit '': '' @ e) (pt_metadata p)) (\<lambda>(is_file, len, modified).
           if \<not> is_file then Err (canon @ lit '' is not a regular file'')
           else if fm_max_file_size_bytes m < len
           then Err (canon @ lit '' exceeds the configured '' @ human_bytes (fm_max_file_size_bytes m) @ lit '' limit'')
           else
             and_then (ok_or (lit ''the selected file name is not valid UTF-8'') (pt_file_name p)) (\<lambda>raw_name.
             and_then (sanitize_filename raw_name) (\<lambda>name.
             Ok (canon, \<lparr>or_public = \<lparr>of_id = fresh, of_name = name, of_size = len, of_mime = pf_mime pf canon,
                   of_queued_epoch_ms = transfer_epoch_ms wall, of_sha256 = None\<rparr>,
                 or_path = canon, or_modified = modified\<rparr>))))))
      in case outcome of
           Err e \<Rightarrow> (Err e, m)
         | Ok (canon, record) \<Rightarrow>
             (let m = m\<lparr>fm_outbox := AList.update fresh record (fm_outbox m)\<rparr>
              in if worker_alive
                 then (Ok (or_public record), m\<lparr>fm_checksum_queue := fm_checksum_queue m @ [(fresh, canon)]\<rparr>)
                 else (Err (lit ''checksum worker is unavailable''), m\<lparr>fm_outbox := AList.delete fresh (fm_outbox m)\<rparr>)))"

definition checksum_step :: "platform \<Rightarrow> io_outcome \<Rightarrow> (ustring \<Rightarrow> u8 list option) \<Rightarrow> file_manager \<Rightarrow> file_manager" where
  "checksum_step pf outcome disk m =
     (case fm_checksum_queue m of
        [] \<Rightarrow> m
      | (uid, path) # queue \<Rightarrow>
          (let m = m\<lparr>fm_checksum_queue := queue\<rparr>
           in case (hash_file pf outcome (disk path), map_of (fm_outbox m) uid) of
                (Ok h, Some r) \<Rightarrow>
                  m\<lparr>fm_outbox := AList.update uid (r\<lparr>or_public := (or_public r)\<lparr>of_sha256 := Some h\<rparr>\<rparr>) (fm_outbox m)\<rparr>
              | _ \<Rightarrow> m))"

definition remove_outgoing :: "uuid \<Rightarrow> file_manager \<Rightarrow> bool \<times> file_manager" where
  "remove_outgoing uid m =
     (map_of (fm_outbox m) uid \<noteq> None, m\<lparr>fm_outbox := AList.delete uid (fm_outbox m)\<rparr>)"

definition clear_outgoing :: "file_manager \<Rightarrow> file_manager" where
  "clear_outgoing m = m\<lparr>fm_outbox := []\<rparr>"

definition manager_snapshot :: "nat \<Rightarrow> file_manager \<Rightarrow> file_transfer_snapshot \<times> file_manager" where
  "manager_snapshot now m =
     (let (stats, m') = manager_stats now m
      in (\<lparr>fs_enabled = fm_enabled m, fs_max_file_size_bytes = fm_max_file_size_bytes m,
           fs_chunk_size_bytes = UPLOAD_CHUNK_SIZE, fs_rate_limit_mbps = fm_rate_limit_mbps m,
           fs_pause_while_drawing = fm_pause_while_drawing m, fs_inbox_directory = fm_inbox_directory m,
           fs_outbox = sort_key of_queued_epoch_ms (map (or_public \<circ> snd) (fm_outbox m)),
           fs_active_uploads = sort_key au_started_epoch_ms (map (upload_public \<circ> snd) (fm_uploads m)),
           fs_recent = fm_recent m, fs_stats = stats\<rparr>, m'))"

definition browser_listing :: "uuid \<Rightarrow> nat \<Rightarrow> file_manager \<Rightarrow> browser_file_listing \<times> file_manager" where
  "browser_listing sid now m =
     (let (snap, m') = manager_snapshot now m
      in (\<lparr>bl_enabled = fs_enabled snap, bl_max_file_size_bytes = fs_max_file_size_bytes snap,
           bl_chunk_size_bytes = fs_chunk_size_bytes snap, bl_rate_limit_mbps = fs_rate_limit_mbps snap,
           bl_pause_while_drawing = fs_pause_while_drawing snap,
           bl_inbox_name = (case leaf_name (fm_inbox_directory m) of Some n \<Rightarrow> n | None \<Rightarrow> lit ''NFiDB Inbox''),
           bl_outbox = fs_outbox snap,
           bl_active_uploads = filter (\<lambda>u. case map_of (fm_uploads m') (au_id u) of
              None \<Rightarrow> False | Some r \<Rightarrow> ur_session_id r = sid) (fs_active_uploads snap),
           bl_recent = fs_recent snap, bl_stats = fs_stats snap\<rparr>, m'))"

section \<open>Uploads\<close>

definition create_upload ::
  "platform \<Rightarrow> io_outcome \<Rightarrow> session_state \<Rightarrow> nat \<Rightarrow> int \<Rightarrow> uuid \<Rightarrow> uuid \<Rightarrow> uuid option \<Rightarrow> ustring \<Rightarrow> ustring \<Rightarrow> u64 \<Rightarrow>
   file_manager \<Rightarrow> (upload_ticket, transfer_error) result \<times> file_manager" where
  "create_upload pf opened ses now wall fresh sid requested name mime sz m =
     (case and_then (ensure_enabled (fm_enabled m)) (\<lambda>_. ensure_session ses sid) of
        Err e \<Rightarrow> (Err e, m)
      | Ok _ \<Rightarrow>
          if fm_max_file_size_bytes m < sz
          then (Err (transfer_error_new TooLarge
                 (lit ''file exceeds the configured '' @ human_bytes (fm_max_file_size_bytes m) @ lit '' limit'')), m)
          else (case sanitize_filename name of
                  Err message \<Rightarrow> (Err (transfer_error_new Invalid message), m)
                | Ok name \<Rightarrow>
                    (let mime = sanitize_mime mime;
                         uid = (case requested of Some r \<Rightarrow> r | None \<Rightarrow> fresh);
                         part = part_name uid
                     in case map_of (fm_uploads m) uid of
                          Some r \<Rightarrow>
                            if ur_session_id r = sid \<and> ur_name r = name \<and> ur_mime r = mime \<and> ur_size r = sz
                            then (Ok (upload_ticket_of r), m)
                            else (Err (transfer_error_new Conflict (lit ''upload identifier is already in use'')), m)
                        | None \<Rightarrow>
                            if MAX_ACTIVE_UPLOADS \<le> length (fm_uploads m)
                            then (Err (transfer_error_new Conflict (lit ''too many unfinished uploads; cancel one and try again'')), m)
                            else if fm_staging m part \<noteq> None then (Err (io_error (pf_exists_message pf)), m)
                            else (case opened of
                                    IoFail e \<Rightarrow> (Err (io_error e), m)
                                  | IoOk \<Rightarrow>
                                      (let record = \<lparr>ur_state = \<lparr>us_part_path = part, us_received = 0, us_started = now\<rparr>,
                                             ur_received = 0, ur_id = uid, ur_session_id = sid, ur_name = name, ur_mime = mime,
                                             ur_size = sz, ur_started_epoch_ms = transfer_epoch_ms wall\<rparr>
                                       in (Ok (upload_ticket_of record),
                                           m\<lparr>fm_staging := (fm_staging m)(part \<mapsto> []),
                                             fm_uploads := AList.update uid record (fm_uploads m)\<rparr>))))))"

definition upload_progress :: "uuid \<Rightarrow> uuid \<Rightarrow> file_manager \<Rightarrow> (upload_progress_info, transfer_error) result" where
  "upload_progress uid sid m =
     (case completed_upload uid sid m of
        Some c \<Rightarrow> Ok \<lparr>up_upload_id = uid, up_uploaded_bytes = uc_size c, up_total_bytes = uc_size c\<rparr>
      | None \<Rightarrow> map_ok (\<lambda>r. \<lparr>up_upload_id = uid, up_uploaded_bytes = ur_received r, up_total_bytes = ur_size r\<rparr>)
          (lookup_upload_record uid sid m))"

text \<open>Everything that happens to a chunk before pacing: the checks, the write and the new offset.\<close>

definition chunk_checks ::
  "platform \<Rightarrow> session_state \<Rightarrow> uuid \<Rightarrow> uuid \<Rightarrow> u64 \<Rightarrow> u8 list \<Rightarrow> ustring \<Rightarrow> file_manager \<Rightarrow> (upload_record, transfer_error) result" where
  "chunk_checks pf ses uid sid offset bs expected m =
     and_then (ensure_enabled (fm_enabled m)) (\<lambda>_.
     and_then (ensure_session ses sid) (\<lambda>_.
     if unat UPLOAD_CHUNK_SIZE < length bs then Err (transfer_error_new TooLarge (lit ''upload chunk exceeds the 1 MiB limit''))
     else if str_len expected \<noteq> 64 \<or> \<not> eq_ignore_ascii_case (hex_sha256 (pf_crypto pf) bs) expected
     then Err (transfer_error_conflict (lit ''upload chunk checksum did not match'') offset)
     else and_then (lookup_upload_record uid sid m) (\<lambda>r.
     if offset \<noteq> us_received (ur_state r)
     then Err (transfer_error_conflict (lit ''upload offset is stale; resume from the expected offset'') (us_received (ur_state r)))
     else if ur_size r < sat_add (us_received (ur_state r)) (word_of_nat (length bs))
     then Err (transfer_error_new Invalid (lit ''upload contains more bytes than declared''))
     else Ok r)))"

definition accept_chunk ::
  "platform \<Rightarrow> write_outcome \<Rightarrow> session_state \<Rightarrow> uuid \<Rightarrow> uuid \<Rightarrow> u64 \<Rightarrow> u8 list \<Rightarrow> ustring \<Rightarrow> file_manager \<Rightarrow>
   (upload_record, transfer_error) result \<times> file_manager" where
  "accept_chunk pf written ses uid sid offset bs expected m =
     (case chunk_checks pf ses uid sid offset bs expected m of
        Err e \<Rightarrow> (Err e, m)
      | Ok r \<Rightarrow>
          (let (outcome, staging) = write_part pf written (us_part_path (ur_state r)) (unat offset) bs (fm_staging m);
               m = m\<lparr>fm_staging := staging\<rparr>
           in case outcome of
                Err e \<Rightarrow> (Err (io_error e), m)
              | Ok _ \<Rightarrow>
                  (let next_offset = sat_add (us_received (ur_state r)) (word_of_nat (length bs));
                       r = r\<lparr>ur_state := (ur_state r)\<lparr>us_received := next_offset\<rparr>, ur_received := next_offset\<rparr>
                   in (Ok r, m\<lparr>fm_uploads := AList.update uid r (fm_uploads m)\<rparr>))))"

definition write_upload_chunk ::
  "platform \<Rightarrow> write_outcome \<Rightarrow> pace_view list \<Rightarrow> (f64 option \<Rightarrow> session_state) \<Rightarrow> session_state \<Rightarrow> nat \<Rightarrow> uuid \<Rightarrow> uuid \<Rightarrow> u64 \<Rightarrow>
   u8 list \<Rightarrow> ustring \<Rightarrow> file_manager \<Rightarrow> (upload_progress_info, transfer_error) result option \<times> file_manager" where
  "write_upload_chunk pf written views after ses now uid sid offset bs expected m =
     (case accept_chunk pf written ses uid sid offset bs expected m of
        (Err e, m) \<Rightarrow> (Some (Err e), m)
      | (Ok r, m) \<Rightarrow>
          (let bytes = word_of_nat (length bs);
               m = record_bytes now Upload bytes m
           in (map_option (map_ok (\<lambda>_. \<lparr>up_upload_id = uid, up_uploaded_bytes = us_received (ur_state r), up_total_bytes = ur_size r\<rparr>))
                 (pace views after bytes sid m), m)))"

definition complete_upload ::
  "platform \<Rightarrow> io_outcome \<Rightarrow> move_outcomes \<Rightarrow> session_state \<Rightarrow> nat \<Rightarrow> int \<Rightarrow> uuid \<Rightarrow> uuid \<Rightarrow> uuid \<Rightarrow> file_manager \<Rightarrow>
   (upload_complete, transfer_error) result \<times> file_manager" where
  "complete_upload pf hashed mv ses now wall fresh uid sid m =
     (case and_then (ensure_enabled (fm_enabled m)) (\<lambda>_. ensure_session ses sid) of
        Err e \<Rightarrow> (Err e, m)
      | Ok _ \<Rightarrow>
      (case completed_upload uid sid m of
         Some c \<Rightarrow> (Ok c, m)
       | None \<Rightarrow>
       (case lookup_upload_record uid sid m of
          Err e \<Rightarrow> (Err e, m)
        | Ok r \<Rightarrow>
            if us_received (ur_state r) \<noteq> ur_size r
            then (Err (transfer_error_conflict (lit ''upload is incomplete'') (us_received (ur_state r))), m)
            else
              (let part = us_part_path (ur_state r)
               in case map_error io_error (hash_file pf hashed (fm_staging m part)) of
                    Err e \<Rightarrow> (Err e, m)
                  | Ok digest \<Rightarrow>
                      (let destination = unique_destination (\<lambda>n. fm_inbox m (pf_fold pf n) \<noteq> None) fresh (ur_name r);
                           (moved, staging, inbox) =
                             move_completed_file pf mv part destination uid (ur_size r) (fm_staging m) (fm_inbox m);
                           m = m\<lparr>fm_staging := staging, fm_inbox := inbox\<rparr>
                       in case moved of
                            Err e \<Rightarrow> (Err e, m)
                          | Ok _ \<Rightarrow>
                              (let m = m\<lparr>fm_uploads := AList.delete uid (fm_uploads m),
                                         fm_uploads_completed := fm_uploads_completed m + 1\<rparr>;
                                   m = record_completed wall IpadToWindows destination (ur_size r) (now - us_started (ur_state r))
                                         (Some digest) ''completed'' m;
                                   response = \<lparr>uc_upload_id = uid, uc_name = destination, uc_size = ur_size r, uc_sha256 = digest\<rparr>
                               in (Ok response, m\<lparr>fm_completed_uploads := push_front_bounded MAX_COMPLETED_UPLOAD_TICKETS
                                     \<lparr>cu_session_id = sid, cu_response = response\<rparr> (fm_completed_uploads m)\<rparr>)))))))"

definition cancel_upload ::
  "bool \<Rightarrow> nat \<Rightarrow> int \<Rightarrow> uuid \<Rightarrow> uuid \<Rightarrow> file_manager \<Rightarrow> (unit, transfer_error) result \<times> file_manager" where
  "cancel_upload removed now wall uid sid m =
     (if completed_upload uid sid m \<noteq> None then (Ok (), m)
      else case lookup_upload_record uid sid m of
        Err e \<Rightarrow> (Err e, m)
      | Ok r \<Rightarrow>
          (let part = us_part_path (ur_state r);
               m = m\<lparr>fm_uploads := AList.delete uid (fm_uploads m),
                     fm_staging := if removed then (fm_staging m)(part := None) else fm_staging m,
                     fm_canceled_transfers := fm_canceled_transfers m + 1\<rparr>
           in (Ok (), record_completed wall IpadToWindows (ur_name r) (us_received (ur_state r))
                 (now - us_started (ur_state r)) None ''canceled'' m)))"

definition cancel_session_uploads :: "(uuid \<Rightarrow> bool) \<Rightarrow> uuid \<Rightarrow> file_manager \<Rightarrow> file_manager" where
  "cancel_session_uploads removed sid m =
     (let records = filter (\<lambda>(uid, r). ur_session_id r = sid) (fm_uploads m);
          m = m\<lparr>fm_uploads := filter (\<lambda>(uid, r). ur_session_id r \<noteq> sid) (fm_uploads m)\<rparr>;
          m = foldl (\<lambda>m (uid, r). m\<lparr>fm_staging := if removed (ur_id r) then (fm_staging m)(part_name (ur_id r) := None) else fm_staging m,
                fm_canceled_transfers := fm_canceled_transfers m + 1\<rparr>) m records
      in m\<lparr>fm_completed_uploads := filter (\<lambda>c. cu_session_id c \<noteq> sid) (fm_completed_uploads m)\<rparr>)"

end
