(* ===== verification/Downloads.thy ===== *)
theory Downloads
  imports Transfers
begin

text \<open>
  The download half of \<open>crates/transport/src/file_transfer.rs\<close>: \<open>open_download\<close>, the stream it
  returns and the guard that accounts for the transfer when the stream is dropped.  The open file
  is its path and position; what the operating system reads there is an argument of each poll.
\<close>

section \<open>Data\<close>

record download_guard =
  dg_outbox_id :: uuid
  dg_session_id :: uuid
  dg_name :: ustring
  dg_sha256 :: "ustring option"
  dg_expected_bytes :: u64
  dg_transferred :: u64
  dg_started :: nat
  dg_completed :: bool
  dg_remove_after_complete :: bool

record download_stream =
  ds_path :: ustring
  ds_position :: nat
  ds_remaining :: u64
  ds_guard :: download_guard

datatype download_body = EmptyBody | StreamBody download_stream

record download_source =
  dl_body :: download_body
  dl_file :: outgoing_file
  dl_range :: byte_range
  dl_partial :: bool

record disk_facts =
  dk_metadata :: "(u64 \<times> int option) option"
  dk_open :: io_outcome
  dk_seek :: io_outcome

section \<open>Opening\<close>

definition download_checks ::
  "disk_facts \<Rightarrow> session_state \<Rightarrow> uuid \<Rightarrow> uuid \<Rightarrow> ustring option \<Rightarrow> file_manager \<Rightarrow>
   (outgoing_record \<times> byte_range option, transfer_error) result" where
  "download_checks disk ses uid sid header m =
     and_then (ensure_enabled (fm_enabled m)) (\<lambda>_.
     and_then (ensure_session ses sid) (\<lambda>_.
     and_then (ok_or (transfer_error_new NotFound (lit ''file is no longer queued'')) (map_of (fm_outbox m) uid)) (\<lambda>r.
     and_then (ok_or (transfer_error_new NotFound (lit ''queued file is no longer available'')) (dk_metadata disk)) (\<lambda>(len, modified).
     if len \<noteq> of_size (or_public r) \<or> modified \<noteq> or_modified r
     then Err (transfer_error_new Conflict (lit ''queued file changed on disk; remove it and add it again''))
     else map_ok (\<lambda>range. (r, range)) (parse_range header (of_size (or_public r)))))))"

definition whole_file :: "u64 \<Rightarrow> byte_range" where
  "whole_file sz = \<lparr>br_start = 0, br_end = sat_sub sz 1\<rparr>"

definition open_download ::
  "disk_facts \<Rightarrow> session_state \<Rightarrow> nat \<Rightarrow> int \<Rightarrow> uuid \<Rightarrow> uuid \<Rightarrow> ustring option \<Rightarrow> bool \<Rightarrow> file_manager \<Rightarrow>
   (download_source, transfer_error) result \<times> file_manager" where
  "open_download disk ses now wall uid sid header remove_after m =
     (case download_checks disk ses uid sid header m of
        Err e \<Rightarrow> (Err e, m)
      | Ok (r, requested) \<Rightarrow>
          (let file = or_public r;
               sz = of_size file;
               range = (case requested of Some x \<Rightarrow> x | None \<Rightarrow> whole_file sz)
           in if sz = 0 then
                (let m = record_completed wall WindowsToIpad (of_name file) 0 0 (of_sha256 file) ''completed''
                       (m\<lparr>fm_downloads_completed := fm_downloads_completed m + 1\<rparr>);
                     m = (if remove_after then snd (remove_outgoing uid m) else m)
                 in (Ok \<lparr>dl_body = EmptyBody, dl_file = file, dl_range = \<lparr>br_start = 0, br_end = 0\<rparr>, dl_partial = requested \<noteq> None\<rparr>, m))
              else if sz \<le> br_start range \<or> sz \<le> br_end range \<or> br_end range < br_start range
              then (Err (range_error ''requested byte range is outside the file''), m)
              else (case (dk_open disk, dk_seek disk) of
                      (IoFail e, _) \<Rightarrow> (Err (io_error e), m)
                    | (IoOk, IoFail e) \<Rightarrow> (Err (io_error e), m)
                    | (IoOk, IoOk) \<Rightarrow>
                        (let guard = \<lparr>dg_outbox_id = uid, dg_session_id = sid, dg_name = of_name file, dg_sha256 = of_sha256 file,
                               dg_expected_bytes = range_len range, dg_transferred = 0, dg_started = now, dg_completed = False,
                               dg_remove_after_complete = (remove_after \<and> br_start range = 0 \<and> br_end range = sz - 1)\<rparr>;
                             stream = \<lparr>ds_path = or_path r, ds_position = unat (br_start range), ds_remaining = range_len range,
                               ds_guard = guard\<rparr>
                         in (Ok \<lparr>dl_body = StreamBody stream, dl_file = file, dl_range = range, dl_partial = requested \<noteq> None\<rparr>,
                             m\<lparr>fm_active_downloads := fm_active_downloads m + 1\<rparr>)))))"

section \<open>The guard\<close>

definition guard_finish :: "nat \<Rightarrow> int \<Rightarrow> string \<Rightarrow> download_guard \<Rightarrow> file_manager \<Rightarrow> file_manager" where
  "guard_finish now wall status g m =
     record_completed wall WindowsToIpad (dg_name g) (dg_transferred g) (now - dg_started g) (dg_sha256 g) status m"

definition guard_complete :: "nat \<Rightarrow> int \<Rightarrow> download_guard \<Rightarrow> file_manager \<Rightarrow> download_guard \<times> file_manager" where
  "guard_complete now wall g m =
     (if dg_completed g then (g, m)
      else
        (let m = guard_finish now wall ''completed'' g (m\<lparr>fm_downloads_completed := fm_downloads_completed m + 1\<rparr>);
             m = (if dg_remove_after_complete g then snd (remove_outgoing (dg_outbox_id g) m) else m)
         in (g\<lparr>dg_completed := True\<rparr>, m)))"

definition guard_drop :: "session_state \<Rightarrow> nat \<Rightarrow> int \<Rightarrow> download_guard \<Rightarrow> file_manager \<Rightarrow> file_manager" where
  "guard_drop ses now wall g m =
     (let m = m\<lparr>fm_active_downloads := fm_active_downloads m - 1\<rparr>
      in if dg_completed g then m
         else if session_id ses \<noteq> dg_session_id g
         then guard_finish now wall ''session-ended'' g (m\<lparr>fm_failed_transfers := fm_failed_transfers m + 1\<rparr>)
         else if dg_transferred g < dg_expected_bytes g
         then guard_finish now wall ''interrupted'' g (m\<lparr>fm_failed_transfers := fm_failed_transfers m + 1\<rparr>)
         else
           (let m = m\<lparr>fm_downloads_completed := fm_downloads_completed m + 1\<rparr>;
                m = (if dg_remove_after_complete g then snd (remove_outgoing (dg_outbox_id g) m) else m)
            in guard_finish now wall ''completed'' g m))"

section \<open>The stream\<close>

datatype read_outcome = ReadBytes "u8 list" | ReadFailed ustring

datatype poll_result = PollEnd | PollPending | PollItem "(u8 list, ustring) result"

record poll_view =
  pv_now :: nat
  pv_wall :: int
  pv_views :: "pace_view list"
  pv_after :: "f64 option \<Rightarrow> session_state"
  pv_read :: "nat \<Rightarrow> nat \<Rightarrow> read_outcome"

definition download_amount :: "download_stream \<Rightarrow> u64" where
  "download_amount st = min (ds_remaining st) DOWNLOAD_CHUNK_SIZE"

definition download_poll :: "poll_view \<Rightarrow> download_stream \<Rightarrow> file_manager \<Rightarrow> poll_result \<times> download_stream \<times> file_manager" where
  "download_poll v st m =
     (if ds_remaining st = 0 then
        (let (g, m) = guard_complete (pv_now v) (pv_wall v) (ds_guard st) m in (PollEnd, st\<lparr>ds_guard := g\<rparr>, m))
      else
        (let amount = download_amount st
         in case pace (pv_views v) (pv_after v) amount (dg_session_id (ds_guard st)) m of
              None \<Rightarrow> (PollPending, st, m)
            | Some (Err e) \<Rightarrow> (PollItem (Err (te_message e)), st, m)
            | Some (Ok _) \<Rightarrow>
                (case pv_read v (ds_position st) (unat amount) of
                   ReadFailed e \<Rightarrow> (PollItem (Err e), st, m)
                 | ReadBytes [] \<Rightarrow> (PollItem (Err (lit ''queued file ended early'')), st, m)
                 | ReadBytes bs \<Rightarrow>
                     (let read = word_of_nat (length bs) :: u64;
                          st = st\<lparr>ds_position := ds_position st + length bs, ds_remaining := sat_sub (ds_remaining st) read,
                                  ds_guard := (ds_guard st)\<lparr>dg_transferred := dg_transferred (ds_guard st) + read\<rparr>\<rparr>
                      in (PollItem (Ok bs), st, record_bytes (pv_now v) Download read m)))))"

text \<open>
  A consumer polls any number of times and then drops the stream, or reaches its end, where the
  stream is dropped with the state that produced the end.
\<close>

fun download_run :: "session_state \<Rightarrow> nat \<Rightarrow> int \<Rightarrow> poll_view list \<Rightarrow> download_stream \<Rightarrow> file_manager \<Rightarrow> u8 list \<times> bool \<times> file_manager" where
  "download_run ses now wall [] st m = ([], False, guard_drop ses now wall (ds_guard st) m)"
| "download_run ses now wall (v # vs) st m =
     (case download_poll v st m of
        (PollEnd, st, m) \<Rightarrow> ([], True, guard_drop ses now wall (ds_guard st) m)
      | (PollPending, st, m) \<Rightarrow> download_run ses now wall vs st m
      | (PollItem (Ok bs), st, m) \<Rightarrow> (let (later, ended, m) = download_run ses now wall vs st m in (bs @ later, ended, m))
      | (PollItem (Err e), st, m) \<Rightarrow> download_run ses now wall vs st m)"

end
