(* ===== verification/Uploads.thy ===== *)
theory Uploads
  imports Downloads
begin

text \<open>
  What the upload half of the transfer manager promises.  An unfinished upload is abstractly its
  owner, name, declared size and the bytes accepted so far; the offset, the staging file with
  whatever a failed write left behind, and the two counters implement it.  The invariant, the
  refinement of every operation, isolation of sessions and the life of a whole file.
\<close>

section \<open>Overwriting at an offset\<close>

lemma take_overwrite: "i \<le> length c \<Longrightarrow> take i (overwrite i bs c) = take i c"
  by (simp add: overwrite_def)

lemma take_overwrite_all: "i \<le> length c \<Longrightarrow> take (i + length bs) (overwrite i bs c) = take i c @ bs"
  by (auto simp: overwrite_def)

lemma length_overwrite: "i \<le> length c \<Longrightarrow> length (overwrite i bs c) = max (length c) (i + length bs)"
  by (auto simp: overwrite_def)

section \<open>Association lists\<close>

lemma length_update_le: "length (AList.update k v al) \<le> Suc (length al)"
  by (induction al) auto

lemma length_update_present: "map_of al k \<noteq> None \<Longrightarrow> length (AList.update k v al) = length al"
  by (induction al) auto

lemmas alist_simps = update_conv' delete_conv' distinct_update distinct_delete

section \<open>Abstraction and invariant\<close>

record abstract_upload =
  ab_session :: uuid
  ab_name :: ustring
  ab_size :: nat
  ab_bytes :: "u8 list"

definition part_bytes :: "directory \<Rightarrow> upload_record \<Rightarrow> u8 list" where
  "part_bytes d r = (case d (us_part_path (ur_state r)) of
     Some c \<Rightarrow> take (unat (us_received (ur_state r))) c | None \<Rightarrow> [])"

definition abstract_record :: "directory \<Rightarrow> upload_record \<Rightarrow> abstract_upload" where
  "abstract_record d r = \<lparr>ab_session = ur_session_id r, ab_name = ur_name r, ab_size = unat (ur_size r), ab_bytes = part_bytes d r\<rparr>"

definition upload_view :: "file_manager \<Rightarrow> uuid \<Rightarrow> abstract_upload option" where
  "upload_view m uid = map_option (abstract_record (fm_staging m)) (map_of (fm_uploads m) uid)"

definition upload_wf :: "directory \<Rightarrow> uuid \<Rightarrow> upload_record \<Rightarrow> bool" where
  "upload_wf d uid r \<longleftrightarrow> ur_id r = uid \<and> us_part_path (ur_state r) = part_name uid \<and>
     ur_received r = us_received (ur_state r) \<and> us_received (ur_state r) \<le> ur_size r \<and> ur_size r \<noteq> - 1 \<and> safe_name (ur_name r) \<and>
     (\<exists>c. d (part_name uid) = Some c \<and> unat (us_received (ur_state r)) \<le> length c \<and> length c \<le> unat (ur_size r))"

definition uploads_ok :: "file_manager \<Rightarrow> bool" where
  "uploads_ok m \<longleftrightarrow> distinct (map fst (fm_uploads m)) \<and> length (fm_uploads m) \<le> MAX_ACTIVE_UPLOADS \<and>
     fm_max_file_size_bytes m \<noteq> - 1 \<and> (\<forall>uid r. map_of (fm_uploads m) uid = Some r \<longrightarrow> upload_wf (fm_staging m) uid r)"

lemma part_name_inj [simp]: "part_name u = part_name v \<longleftrightarrow> u = v"
  by (simp add: part_name_def uuid_text_inj)

lemma uploads_okD: "uploads_ok m \<Longrightarrow> map_of (fm_uploads m) uid = Some r \<Longrightarrow> upload_wf (fm_staging m) uid r"
  by (simp add: uploads_ok_def)

lemma upload_wf_other: "uid \<noteq> u \<Longrightarrow> upload_wf (d(part_name u := x)) uid r = upload_wf d uid r"
  by (simp add: upload_wf_def)

lemma part_bytes_other: "upload_wf d uid r \<Longrightarrow> uid \<noteq> u \<Longrightarrow> part_bytes (d(part_name u := x)) r = part_bytes d r"
  by (simp add: upload_wf_def part_bytes_def)

lemma part_bytes_length: "upload_wf d uid r \<Longrightarrow> length (part_bytes d r) = unat (us_received (ur_state r))"
  by (auto simp: upload_wf_def part_bytes_def)

text \<open>Replacing one record and its file keeps the rest, abstractly and in the invariant.\<close>

lemma replace_upload:
  assumes ok: "uploads_ok m" and wf: "upload_wf (d(part_name uid := x)) uid r" and d: "d = fm_staging m"
    and room: "map_of (fm_uploads m) uid \<noteq> None \<or> length (fm_uploads m) < MAX_ACTIVE_UPLOADS"
    and m': "fm_uploads m' = AList.update uid r (fm_uploads m)" "fm_staging m' = d(part_name uid := x)"
      "fm_max_file_size_bytes m' = fm_max_file_size_bytes m"
  shows "uploads_ok m'" and "upload_view m' = (upload_view m)(uid \<mapsto> abstract_record (d(part_name uid := x)) r)"
proof -
  have "length (fm_uploads m') \<le> MAX_ACTIVE_UPLOADS"
  proof (cases "map_of (fm_uploads m) uid = None")
    case True
    then show ?thesis using room length_update_le [of uid r "fm_uploads m"] by (simp add: m'(1))
  next
    case False
    then show ?thesis using ok length_update_present [OF False, of r] by (simp add: m'(1) uploads_ok_def)
  qed
  moreover have "map_of (fm_uploads m') u = Some q \<Longrightarrow> upload_wf (fm_staging m') u q" for u q
    using wf uploads_okD [OF ok, of u q] by (auto simp: m' d alist_simps upload_wf_other split: if_splits)
  ultimately show "uploads_ok m'" using ok by (simp add: uploads_ok_def m' alist_simps)
  show "upload_view m' = (upload_view m)(uid \<mapsto> abstract_record (d(part_name uid := x)) r)"
  proof
    fix u
    show "upload_view m' u = ((upload_view m)(uid \<mapsto> abstract_record (d(part_name uid := x)) r)) u"
    proof (cases "map_of (fm_uploads m) u")
      case (Some q)
      with uploads_okD [OF ok this] show ?thesis
        by (simp add: upload_view_def m' d alist_simps abstract_record_def part_bytes_other)
    qed (simp add: upload_view_def m' alist_simps)
  qed
qed

text \<open>An operation that touches neither records nor staging files.\<close>

lemma same_uploads:
  assumes "fm_uploads m' = fm_uploads m" "fm_staging m' = fm_staging m"
  shows "upload_view m' = upload_view m"
    and "uploads_ok m \<Longrightarrow> fm_max_file_size_bytes m' \<noteq> - 1 \<Longrightarrow> uploads_ok m'"
proof -
  show "upload_view m' = upload_view m" by (rule ext) (simp add: upload_view_def assms)
qed (simp add: uploads_ok_def assms)

text \<open>Dropping one record leaves the others alone, whatever happens to its own file.\<close>

lemma delete_upload:
  assumes ok: "uploads_ok m" and m': "fm_uploads m' = AList.delete uid (fm_uploads m)"
      "fm_staging m' = (fm_staging m)(part_name uid := x)" "fm_max_file_size_bytes m' = fm_max_file_size_bytes m"
  shows "uploads_ok m'" and "upload_view m' = (upload_view m)(uid := None)"
proof -
  have "map_of (fm_uploads m') u = Some q \<Longrightarrow> upload_wf (fm_staging m') u q" for u q
    using uploads_okD [OF ok, of u q] by (auto simp: m' alist_simps upload_wf_other split: if_splits)
  then show "uploads_ok m'"
    using ok length_delete_le [of uid "fm_uploads m"] by (simp add: uploads_ok_def m' alist_simps)
  show "upload_view m' = (upload_view m)(uid := None)"
  proof
    fix u
    show "upload_view m' u = ((upload_view m)(uid := None)) u"
    proof (cases "map_of (fm_uploads m) u")
      case (Some q)
      with uploads_okD [OF ok this] show ?thesis
        by (simp add: upload_view_def m' alist_simps abstract_record_def part_bytes_other)
    qed (simp add: upload_view_def m' alist_simps)
  qed
qed

section \<open>Chunks\<close>

lemma unat_UPLOAD_CHUNK_SIZE: "unat UPLOAD_CHUNK_SIZE = 1048576"
  by (simp add: UPLOAD_CHUNK_SIZE_def)

lemma lookup_upload_Ok: "lookup_upload_record uid sid m = Ok r \<longleftrightarrow> map_of (fm_uploads m) uid = Some r \<and> ur_session_id r = sid"
  by (auto simp: lookup_upload_record_def split: option.splits)

lemma ensure_Ok [simp]: "ensure_enabled b = Ok u \<longleftrightarrow> b" "ensure_session ses sid = Ok u \<longleftrightarrow> session_id ses = sid \<and> paired ses"
  by (auto simp: ensure_enabled_def ensure_session_def)

lemma chunk_checks_Ok:
  assumes "chunk_checks pf ses uid sid offset bs expected m = Ok r"
  shows "fm_enabled m" and "session_id ses = sid" and "paired ses" and "length bs \<le> 1048576"
    and "map_of (fm_uploads m) uid = Some r" and "ur_session_id r = sid" and "offset = us_received (ur_state r)"
    and "sat_add (us_received (ur_state r)) (word_of_nat (length bs)) \<le> ur_size r"
    and "eq_ignore_ascii_case (hex_sha256 (pf_crypto pf) bs) expected"
  using assms by (auto simp: chunk_checks_def lookup_upload_Ok unat_UPLOAD_CHUNK_SIZE split: if_splits)

lemma sat_add_below_max:
  assumes "sat_add a (word_of_nat n) \<le> s" "s \<noteq> - 1" "n < 2 ^ 64"
  shows "unat (sat_add a (word_of_nat n :: u64)) = unat a + n" and "unat a + n \<le> unat s"
proof -
  have "sat_add a (word_of_nat n) \<noteq> - 1" using assms(1,2) by (metis word_order.extremum_uniqueI)
  then have "uint a + uint (word_of_nat n :: u64) < 2 ^ 64" by (auto simp: sat_add_def split: if_splits)
  then have "uint (sat_add a (word_of_nat n :: u64)) = uint a + uint (word_of_nat n :: u64)"
    by (simp only: uint_sat_add) simp
  then have i: "int (unat (sat_add a (word_of_nat n :: u64))) = int (unat a) + int (unat (word_of_nat n :: u64))"
    by (simp only: uint_nat)
  have "unat (word_of_nat n :: u64) = n" using assms(3) by (simp add: unat_of_nat)
  with i have "int (unat (sat_add a (word_of_nat n :: u64))) = int (unat a) + int n" by (simp only:)
  then show e: "unat (sat_add a (word_of_nat n :: u64)) = unat a + n" by linarith
  show "unat a + n \<le> unat s" using assms(1) e by (simp add: word_le_nat_alt)
qed

text \<open>The record and the file after a write that reached \<open>n\<close> bytes.\<close>

lemma upload_wf_partial:
  assumes wf: "upload_wf d uid r" and c: "d (part_name uid) = Some c"
    and fits: "unat (us_received (ur_state r)) + length bs \<le> unat (ur_size r)"
  shows "upload_wf (d(part_name uid \<mapsto> overwrite (unat (us_received (ur_state r))) (take n bs) c)) uid r"
    and "part_bytes (d(part_name uid \<mapsto> overwrite (unat (us_received (ur_state r))) (take n bs) c)) r = part_bytes d r"
  using assms by (auto simp: upload_wf_def part_bytes_def take_overwrite length_overwrite)

lemma upload_wf_advance:
  assumes wf: "upload_wf d uid r" and c: "d (part_name uid) = Some c"
    and new: "unat next_offset = unat (us_received (ur_state r)) + length bs" "next_offset \<le> ur_size r"
  defines "r' \<equiv> r\<lparr>ur_state := (ur_state r)\<lparr>us_received := next_offset\<rparr>, ur_received := next_offset\<rparr>"
    and "d' \<equiv> d(part_name uid \<mapsto> overwrite (unat (us_received (ur_state r))) bs c)"
  shows "upload_wf d' uid r'" and "part_bytes d' r' = part_bytes d r @ bs"
  using assms
  by (auto simp: upload_wf_def part_bytes_def take_overwrite_all length_overwrite word_le_nat_alt)

lemma uploads_ok_staging_only:
  assumes "uploads_ok m" "map_of (fm_uploads m) uid = Some r"
    "upload_wf ((fm_staging m)(part_name uid := x)) uid r" "part_bytes ((fm_staging m)(part_name uid := x)) r = part_bytes (fm_staging m) r"
  shows "uploads_ok (m\<lparr>fm_staging := (fm_staging m)(part_name uid := x)\<rparr>)"
    and "upload_view (m\<lparr>fm_staging := (fm_staging m)(part_name uid := x)\<rparr>) = upload_view m"
proof -
  let ?m = "m\<lparr>fm_staging := (fm_staging m)(part_name uid := x)\<rparr>"
  note R = replace_upload [OF assms(1) assms(3) refl, of ?m]
  have u: "fm_uploads ?m = AList.update uid r (fm_uploads m)" using assms(2) by (simp add: update_triv)
  show "uploads_ok ?m" by (rule R(1)) (use assms(2) u in simp_all)
  have "upload_view ?m = (upload_view m)(uid \<mapsto> abstract_record ((fm_staging m)(part_name uid := x)) r)"
    by (rule R(2)) (use assms(2) u in simp_all)
  moreover have "upload_view m uid = Some (abstract_record ((fm_staging m)(part_name uid := x)) r)"
    using assms(2,4) by (simp add: upload_view_def abstract_record_def)
  ultimately show "upload_view ?m = upload_view m" by (simp add: fun_upd_idem)
qed

lemma write_part_cases:
  assumes "write_part pf written p off bs d = (res, d')"
  shows "res = Ok () \<and> (\<exists>c. d p = Some c \<and> d' = d(p \<mapsto> overwrite off bs c)) \<or>
    is_ok res = False \<and> (d' = d \<or> (\<exists>c n. d p = Some c \<and> d' = d(p \<mapsto> overwrite off (take n bs) c)))"
  using assms by (auto simp: write_part_def split: option.splits write_outcome.splits)

definition chunk_effect ::
  "uuid \<Rightarrow> uuid \<Rightarrow> u64 \<Rightarrow> u8 list \<Rightarrow> (upload_record, transfer_error) result \<Rightarrow> file_manager \<Rightarrow> file_manager \<Rightarrow> bool" where
  "chunk_effect uid sid offset bs outcome m m' =
     (case outcome of
        Err e \<Rightarrow> upload_view m' = upload_view m
      | Ok r \<Rightarrow> (case upload_view m uid of
            None \<Rightarrow> False
          | Some a \<Rightarrow> ab_session a = sid \<and> length (ab_bytes a) = unat offset \<and> unat offset + length bs \<le> ab_size a \<and>
              unat (us_received (ur_state r)) = unat offset + length bs \<and>
              upload_view m' = (upload_view m)(uid \<mapsto> a\<lparr>ab_bytes := ab_bytes a @ bs\<rparr>)))"

lemma accept_chunk_effect:
  assumes ok: "uploads_ok m" and run: "accept_chunk pf written ses uid sid offset bs expected m = (outcome, m')"
  shows "chunk_effect uid sid offset bs outcome m m' \<and> uploads_ok m'"
proof (cases "chunk_checks pf ses uid sid offset bs expected m")
  case (Err e)
  with run have "outcome = Err e" "m' = m" by (simp_all add: accept_chunk_def)
  with ok show ?thesis by (simp add: chunk_effect_def)
next
  case (Ok r)
  note C = chunk_checks_Ok [OF Ok]
  have wf: "upload_wf (fm_staging m) uid r" using ok C(5) by (rule uploads_okD)
  then have part: "us_part_path (ur_state r) = part_name uid" and nmax: "ur_size r \<noteq> - 1" by (simp_all add: upload_wf_def)
  have fits: "unat (sat_add (us_received (ur_state r)) (word_of_nat (length bs))) = unat (us_received (ur_state r)) + length bs"
      "unat (us_received (ur_state r)) + length bs \<le> unat (ur_size r)"
    using sat_add_below_max [OF C(8) nmax] C(4) by simp_all
  obtain res d' where w: "write_part pf written (part_name uid) (unat offset) bs (fm_staging m) = (res, d')"
    by fastforce
  from write_part_cases [OF w] consider
      (full) c where "res = Ok ()" "fm_staging m (part_name uid) = Some c"
        "d' = (fm_staging m)(part_name uid \<mapsto> overwrite (unat offset) bs c)"
    | (none) e where "res = Err e" "d' = fm_staging m"
    | (some) e c n where "res = Err e" "fm_staging m (part_name uid) = Some c"
        "d' = (fm_staging m)(part_name uid \<mapsto> overwrite (unat offset) (take n bs) c)"
    by (cases res) auto
  then show ?thesis
  proof cases
    case full
    define q where "q = r\<lparr>ur_state := (ur_state r)\<lparr>us_received := sat_add (us_received (ur_state r)) (word_of_nat (length bs))\<rparr>,
      ur_received := sat_add (us_received (ur_state r)) (word_of_nat (length bs))\<rparr>"
    have run': "outcome = Ok q" "m' = m\<lparr>fm_staging := d', fm_uploads := AList.update uid q (fm_uploads m)\<rparr>"
      using run Ok w full(1) by (simp_all add: accept_chunk_def part Let_def q_def)
    note A = upload_wf_advance [OF wf full(2) fits(1) C(8), folded q_def C(7)]
    note R = replace_upload [OF ok A(1) [folded C(7)] refl, of m']
    have view: "upload_view m' = (upload_view m)(uid \<mapsto> abstract_record d' q)" and "uploads_ok m'"
      using R C(5) full(3) by (simp_all add: run')
    moreover have "abstract_record d' q = (abstract_record (fm_staging m) r)\<lparr>ab_bytes := part_bytes (fm_staging m) r @ bs\<rparr>"
      using A(2) full(3) by (simp add: abstract_record_def C(7)) (simp add: q_def)
    ultimately show ?thesis
      using C fits part_bytes_length [OF wf]
      by (simp add: chunk_effect_def run'(1) upload_view_def abstract_record_def q_def)
  next
    case none
    with run Ok w have "m' = m" "\<exists>e. outcome = Err e" by (auto simp: accept_chunk_def part)
    with ok show ?thesis by (auto simp: chunk_effect_def)
  next
    case some
    with run Ok w have m': "m' = m\<lparr>fm_staging := d'\<rparr>" "\<exists>e. outcome = Err e" by (auto simp: accept_chunk_def part)
    note P = upload_wf_partial [OF wf some(2) fits(2), of n]
    from uploads_ok_staging_only [OF ok C(5), of "Some (overwrite (unat offset) (take n bs) c)"] P m' some(3)
    show ?thesis by (auto simp: chunk_effect_def C(7))
  qed
qed

text \<open>C6: Accepting a chunk refines appending to the abstract upload: when it succeeds the owner's
  upload held exactly the bytes before the offset, the chunk fits the declared size, and the
  upload now holds those bytes followed by the chunk, all other uploads unchanged; when it fails
  for whatever reason (a wrong offset, a bad checksum, a file that cannot be opened, a write that
  stopped half way) no upload has changed; either way the invariant is kept.\<close>
theorem accept_chunk_refines:
  assumes "uploads_ok m" and "accept_chunk pf written ses uid sid offset bs expected m = (outcome, m')"
  shows "chunk_effect uid sid offset bs outcome m m' \<and> uploads_ok m'"
  using assms by (rule accept_chunk_effect)

lemma accept_chunk_keeps: "uploads_ok m \<Longrightarrow> accept_chunk pf w ses uid sid off bs x m = (outcome, m') \<Longrightarrow> uploads_ok m'"
  using accept_chunk_effect by blast

text \<open>A concrete platform and a manager with one upload of three bytes that has received one.\<close>

definition example_platform :: platform where
  "example_platform = \<lparr>pf_crypto = \<lparr>sha256 = (\<lambda>_. replicate 32 0), base64url = (\<lambda>_. [])\<rparr>, pf_fold = (\<lambda>n. n),
     pf_exists_message = [], pf_missing_message = [], pf_mime = (\<lambda>_. octet_stream)\<rparr>"

definition example_session :: session_state where
  "example_session = \<lparr>session_id = 5, pin = [], qr_secret = [], qr_secret_hash = [], access_token_hash = Some [],
     created_at = 0, created_wall = 0, paired = True\<rparr>"

definition example_options :: file_transfer_options where
  "example_options = \<lparr>fo_enabled = True, fo_max_file_size_bytes = 1024, fo_rate_limit_mbps = 0,
     fo_pause_while_drawing = False, fo_inbox_directory = [105]\<rparr>"

definition example_record :: upload_record where
  "example_record = \<lparr>ur_state = \<lparr>us_part_path = part_name 7, us_received = 1, us_started = 0\<rparr>, ur_received = 1, ur_id = 7,
     ur_session_id = 5, ur_name = [97], ur_mime = octet_stream, ur_size = 3, ur_started_epoch_ms = 0\<rparr>"

definition example_manager :: file_manager where
  "example_manager = (manager_new (\<lambda>_. True) example_options Map.empty Map.empty)
     \<lparr>fm_uploads := [(7, example_record)], fm_staging := [part_name 7 \<mapsto> [65]]\<rparr>"

lemmas example_defs = example_platform_def example_session_def example_options_def example_record_def example_manager_def

lemma example_ok: "uploads_ok example_manager"
  by (simp add: uploads_ok_def upload_wf_def example_defs manager_new_def MAX_ACTIVE_UPLOADS_def safe_name_def name_simps lit_def)

lemma str_len_zeros: "str_len (replicate n 48) = n"
  by (induction n) (simp_all add: str_len_def utf8_char_def)

lemma hex_text_zeros: "hex_text (replicate n 0) = replicate (2 * n) 48"
  by (induction n) (simp_all add: hex_text_def hex_lower_def)

lemma example_digest: "str_len (replicate 64 48) = 64" "hex_sha256 (pf_crypto example_platform) bs = replicate 64 48"
  using hex_text_zeros [of 32] by (simp_all only: str_len_zeros hex_sha256_def) (simp add: example_platform_def)

theorem accept_chunk_refines_witness:
  "upload_view (snd (accept_chunk example_platform WriteOk example_session 7 5 1 [66, 67] (replicate 64 48) example_manager)) 7 =
     Some \<lparr>ab_session = 5, ab_name = [97], ab_size = 3, ab_bytes = [65, 66, 67]\<rparr>"
proof -
  obtain r m' where run: "accept_chunk example_platform WriteOk example_session 7 5 1 [66, 67] (replicate 64 48) example_manager = (Ok r, m')"
    by (simp add: accept_chunk_def chunk_checks_def ensure_enabled_def ensure_session_def lookup_upload_record_def example_digest
        eq_ignore_ascii_case_def unat_UPLOAD_CHUNK_SIZE write_part_def sat_add_def Let_def example_session_def example_manager_def
        example_record_def manager_new_def example_options_def)
  have "upload_view example_manager 7 = Some \<lparr>ab_session = 5, ab_name = [97], ab_size = 3, ab_bytes = [65]\<rparr>"
    by (simp add: upload_view_def abstract_record_def part_bytes_def example_manager_def example_record_def manager_new_def)
  with accept_chunk_refines [OF example_ok run] show ?thesis
    by (simp add: run chunk_effect_def)
qed

section \<open>Publication\<close>

lemma move_Ok:
  assumes "move_completed_file pf mv part dest uid expected staging inbox = (Ok u, staging', inbox')"
    and "staging part = Some content"
  shows "staging' = staging(part := None) \<or> staging' = staging"
    and "inbox' (pf_fold pf dest) = Some content \<or>
      (\<exists>n. inbox' (pf_fold pf dest) = Some (take n content) \<and> word_of_nat (length (take n content)) = expected)"
    and "k \<noteq> pf_fold pf dest \<Longrightarrow> k \<noteq> pf_fold pf (incoming_name uid) \<Longrightarrow> inbox' k = inbox k"
  using assms
  by (auto simp: move_completed_file_def Let_def split: option.splits io_outcome.splits copy_outcome.splits if_splits)

lemma move_Err:
  assumes "move_completed_file pf mv part dest uid expected staging inbox = (Err e, staging', inbox')"
  shows "staging' = staging" and "k \<noteq> pf_fold pf (incoming_name uid) \<Longrightarrow> inbox' k = inbox k"
  using assms
  by (auto simp: move_completed_file_def Let_def split: option.splits io_outcome.splits copy_outcome.splits if_splits)

lemma record_completed_frame [frame_simps]:
  "fm_uploads (record_completed w d n b t h s m) = fm_uploads m" "fm_staging (record_completed w d n b t h s m) = fm_staging m"
  "fm_inbox (record_completed w d n b t h s m) = fm_inbox m" "fm_max_file_size_bytes (record_completed w d n b t h s m) = fm_max_file_size_bytes m"
  "fm_completed_uploads (record_completed w d n b t h s m) = fm_completed_uploads m" "fm_outbox (record_completed w d n b t h s m) = fm_outbox m"
  by (simp_all add: record_completed_def Let_def)

text \<open>The unfolded successful path of \<open>complete_upload\<close>.\<close>

lemma complete_upload_cases:
  assumes "complete_upload pf hashed mv ses now wall fresh uid sid m = (outcome, m')"
  shows "(\<exists>e. outcome = Err e \<and> m' = m) \<or>
    (\<exists>c. outcome = Ok c \<and> completed_upload uid sid m = Some c \<and> m' = m) \<or>
    (\<exists>r c dest res staging inbox. map_of (fm_uploads m) uid = Some r \<and> ur_session_id r = sid \<and> us_received (ur_state r) = ur_size r \<and>
       fm_staging m (us_part_path (ur_state r)) = Some c \<and>
       dest = unique_destination (\<lambda>n. fm_inbox m (pf_fold pf n) \<noteq> None) fresh (ur_name r) \<and>
       move_completed_file pf mv (us_part_path (ur_state r)) dest uid (ur_size r) (fm_staging m) (fm_inbox m) = (res, staging, inbox) \<and>
       (case res of
          Err e \<Rightarrow> outcome = Err e \<and> m' = m\<lparr>fm_staging := staging, fm_inbox := inbox\<rparr>
        | Ok u \<Rightarrow> (\<exists>resp. outcome = Ok resp \<and>
            resp = \<lparr>uc_upload_id = uid, uc_name = dest, uc_size = ur_size r, uc_sha256 = hex_sha256 (pf_crypto pf) c\<rparr> \<and>
            fm_staging m' = staging \<and> fm_inbox m' = inbox \<and> fm_uploads m' = AList.delete uid (fm_uploads m) \<and>
            fm_max_file_size_bytes m' = fm_max_file_size_bytes m \<and> completed_upload uid sid m' = Some resp)))"
proof (cases "and_then (ensure_enabled (fm_enabled m)) (\<lambda>_. ensure_session ses sid)")
  case (Err e)
  with assms show ?thesis by (auto simp: complete_upload_def)
next
  case guard: (Ok u)
  show ?thesis
  proof (cases "completed_upload uid sid m")
    case (Some c)
    with assms guard show ?thesis by (auto simp: complete_upload_def)
  next
    case none: None
    show ?thesis
    proof (cases "lookup_upload_record uid sid m")
      case (Err e)
      with assms guard none show ?thesis by (auto simp: complete_upload_def)
    next
      case (Ok r)
      then have r: "map_of (fm_uploads m) uid = Some r" "ur_session_id r = sid" by (simp_all add: lookup_upload_Ok)
      let ?part = "us_part_path (ur_state r)"
      let ?dest = "unique_destination (\<lambda>n. fm_inbox m (pf_fold pf n) \<noteq> None) fresh (ur_name r)"
      obtain res staging inbox where mv: "move_completed_file pf mv ?part ?dest uid (ur_size r) (fm_staging m) (fm_inbox m) = (res, staging, inbox)"
        using prod_cases3 by blast
      show ?thesis
      proof (cases "us_received (ur_state r) = ur_size r \<and> is_ok (hash_file pf hashed (fm_staging m ?part))")
        case False
        with assms guard none Ok show ?thesis
          by (cases "hash_file pf hashed (fm_staging m ?part)") (auto simp: complete_upload_def Let_def split: if_splits)
      next
        case True
        then obtain c where c: "fm_staging m ?part = Some c"
            "hash_file pf hashed (fm_staging m ?part) = Ok (hex_sha256 (pf_crypto pf) c)"
          by (auto simp: hash_file_def split: option.splits io_outcome.splits)
        with assms guard none Ok True mv r show ?thesis
          by (cases res)
            (auto simp: complete_upload_def Let_def frame_simps completed_upload_def push_front_bounded_def MAX_COMPLETED_UPLOAD_TICKETS_def)
      qed
    qed
  qed
qed

definition published ::
  "platform \<Rightarrow> uuid \<Rightarrow> uuid \<Rightarrow> uuid \<Rightarrow> upload_complete \<Rightarrow> abstract_upload \<Rightarrow> file_manager \<Rightarrow> file_manager \<Rightarrow> bool" where
  "published pf fresh uid sid resp a m m' \<longleftrightarrow>
     upload_view m uid = Some a \<and> ab_session a = sid \<and> length (ab_bytes a) = ab_size a \<and>
     resp = \<lparr>uc_upload_id = uid, uc_name = unique_destination (\<lambda>n. fm_inbox m (pf_fold pf n) \<noteq> None) fresh (ab_name a),
       uc_size = word_of_nat (ab_size a), uc_sha256 = hex_sha256 (pf_crypto pf) (ab_bytes a)\<rparr> \<and>
     fm_inbox m' (pf_fold pf (uc_name resp)) = Some (ab_bytes a) \<and>
     (\<forall>k. k \<noteq> pf_fold pf (uc_name resp) \<longrightarrow> k \<noteq> pf_fold pf (incoming_name uid) \<longrightarrow> fm_inbox m' k = fm_inbox m k) \<and>
     upload_view m' = (upload_view m)(uid := None) \<and> completed_upload uid sid m' = Some resp"

lemma staged_exactly:
  assumes wf: "upload_wf d uid r" and c: "d (us_part_path (ur_state r)) = Some c" and full: "us_received (ur_state r) = ur_size r"
  shows "part_bytes d r = c" and "length c = unat (ur_size r)" and "us_part_path (ur_state r) = part_name uid"
  using assms by (auto simp: upload_wf_def part_bytes_def)

lemma move_publishes:
  assumes mv: "move_completed_file pf mv part dest uid expected staging inbox = (Ok u, staging', inbox')"
    and c: "staging part = Some c" "length c = unat expected"
  shows "inbox' (pf_fold pf dest) = Some c"
  using move_Ok(2) [OF mv c(1)]
proof
  assume "\<exists>n. inbox' (pf_fold pf dest) = Some (take n c) \<and> word_of_nat (length (take n c)) = expected"
  then obtain n where n: "inbox' (pf_fold pf dest) = Some (take n c)" "word_of_nat (length (take n c)) = expected" by blast
  have "unat (word_of_nat (length (take n c)) :: u64) = length (take n c)"
    using c(2) unsigned_less [of expected, where ?'a = nat] by (simp add: unat_of_nat)
  then have "length (take n c) = length c" using n(2) c(2) by metis
  then have "take n c = c" by simp
  with n(1) show ?thesis by simp
qed simp

lemma complete_upload_effect:
  assumes ok: "uploads_ok m" and run: "complete_upload pf hashed mv ses now wall fresh uid sid m = (outcome, m')"
  shows "uploads_ok m' \<and> (case outcome of
      Ok resp \<Rightarrow> completed_upload uid sid m = Some resp \<and> m' = m \<or> (\<exists>a. published pf fresh uid sid resp a m m')
    | Err e \<Rightarrow> upload_view m' = upload_view m \<and>
        (\<forall>k. k \<noteq> pf_fold pf (incoming_name uid) \<longrightarrow> fm_inbox m' k = fm_inbox m k))"
  using complete_upload_cases [OF run]
proof (elim disjE exE conjE)
  fix r c dest res staging inbox
  assume r: "map_of (fm_uploads m) uid = Some r" "ur_session_id r = sid" "us_received (ur_state r) = ur_size r"
    and c: "fm_staging m (us_part_path (ur_state r)) = Some c"
    and dest: "dest = unique_destination (\<lambda>n. fm_inbox m (pf_fold pf n) \<noteq> None) fresh (ur_name r)"
    and mv: "move_completed_file pf mv (us_part_path (ur_state r)) dest uid (ur_size r) (fm_staging m) (fm_inbox m) = (res, staging, inbox)"
    and rest: "case res of
          Err e \<Rightarrow> outcome = Err e \<and> m' = m\<lparr>fm_staging := staging, fm_inbox := inbox\<rparr>
        | Ok u \<Rightarrow> (\<exists>resp. outcome = Ok resp \<and>
            resp = \<lparr>uc_upload_id = uid, uc_name = dest, uc_size = ur_size r, uc_sha256 = hex_sha256 (pf_crypto pf) c\<rparr> \<and>
            fm_staging m' = staging \<and> fm_inbox m' = inbox \<and> fm_uploads m' = AList.delete uid (fm_uploads m) \<and>
            fm_max_file_size_bytes m' = fm_max_file_size_bytes m \<and> completed_upload uid sid m' = Some resp)"
  note S = staged_exactly [OF uploads_okD [OF ok r(1)] c r(3)]
  show ?thesis
  proof (cases res)
    case (Err e)
    with mv rest have "staging = fm_staging m" "outcome = Err e" "m' = m\<lparr>fm_staging := staging, fm_inbox := inbox\<rparr>"
      by (simp_all add: move_Err(1))
    moreover have "\<forall>k. k \<noteq> pf_fold pf (incoming_name uid) \<longrightarrow> inbox k = fm_inbox m k"
      using mv Err move_Err(2) by blast
    ultimately show ?thesis using ok same_uploads [of m' m] by (auto simp: uploads_ok_def)
  next
    case (Ok u)
    note mv' = mv [unfolded Ok]
    obtain x where "staging = (fm_staging m)(part_name uid := x)"
      using move_Ok(1) [OF mv' c] by (metis S(3) fun_upd_triv)
    with Ok rest delete_upload [OF ok, of m' uid x] have D: "uploads_ok m'" "upload_view m' = (upload_view m)(uid := None)"
      by auto
    have "\<exists>a. published pf fresh uid sid resp a m m'" if "outcome = Ok resp" for resp
      unfolding published_def
      by (intro exI [of _ "abstract_record (fm_staging m) r"])
        (use that Ok rest r S D dest move_publishes [OF mv' c S(2)] move_Ok(3) [OF mv' c] in
          \<open>auto simp: upload_view_def abstract_record_def\<close>)
    with D Ok rest show ?thesis by auto
  qed
qed (use ok in auto)

text \<open>C7: Completing an upload publishes exactly the accepted bytes, or nothing.  A new success names
  a destination chosen by \<open>unique_destination\<close>, which now holds precisely the bytes accepted, whose
  number is the declared size and whose digest is reported; apart from a temporary leaf no other
  inbox file changes, the upload is gone and its ticket is kept for retries; a repeated completion
  returns that ticket and changes nothing; a failure (whichever file-system call failed) leaves every
  upload as it was, so it can be retried, and no finished file has changed.  The invariant is kept.\<close>
theorem complete_upload_exact:
  assumes ok: "uploads_ok m" and run: "complete_upload pf hashed mv ses now wall fresh uid sid m = (outcome, m')"
  shows "uploads_ok m' \<and> (case outcome of
      Ok resp \<Rightarrow> completed_upload uid sid m = Some resp \<and> m' = m \<or> (\<exists>a. published pf fresh uid sid resp a m m')
    | Err e \<Rightarrow> upload_view m' = upload_view m \<and>
        (\<forall>k. k \<noteq> pf_fold pf (incoming_name uid) \<longrightarrow> fm_inbox m' k = fm_inbox m k))"
  using assms by (rule complete_upload_effect)

theorem complete_upload_exact_witness:
  "\<exists>resp m'. complete_upload example_platform IoOk \<lparr>mv_rename = IoFail [120], mv_copy = Copied 1, mv_publish = IoOk, mv_removed = True\<rparr>
      example_session 9 0 3 7 5 (example_manager\<lparr>fm_uploads := [(7, example_record\<lparr>ur_size := 1\<rparr>)]\<rparr>) = (Ok resp, m') \<and>
    fm_inbox m' [97] = Some [65]"
proof -
  let ?m = "example_manager\<lparr>fm_uploads := [(7, example_record\<lparr>ur_size := 1\<rparr>)]\<rparr>"
  let ?mv = "\<lparr>mv_rename = IoFail [120], mv_copy = Copied 1, mv_publish = IoOk, mv_removed = True\<rparr>"
  have ok: "uploads_ok ?m"
    by (simp add: uploads_ok_def upload_wf_def example_defs manager_new_def MAX_ACTIVE_UPLOADS_def safe_name_def name_simps lit_def)
  have fresh: "completed_upload 7 5 ?m = None" by (simp add: completed_upload_def example_manager_def manager_new_def)
  obtain resp m' where run: "complete_upload example_platform IoOk ?mv example_session 9 0 3 7 5 ?m = (Ok resp, m')"
    by (simp add: complete_upload_def completed_upload_def ensure_enabled_def ensure_session_def lookup_upload_record_def hash_file_def
        move_completed_file_def unique_destination_def Let_def example_session_def example_manager_def
        example_record_def manager_new_def example_options_def)
  from complete_upload_exact [OF ok run] fresh obtain a where p: "published example_platform 3 7 5 resp a ?m m'" by auto
  then have "a = \<lparr>ab_session = 5, ab_name = [97], ab_size = 1, ab_bytes = [65]\<rparr>"
    by (simp add: published_def upload_view_def abstract_record_def part_bytes_def example_manager_def example_record_def manager_new_def)
  with p have "fm_inbox m' [97] = Some [65]"
    by (auto simp: published_def unique_destination_def example_platform_def example_manager_def manager_new_def)
  with run show ?thesis by blast
qed

section \<open>The other operations\<close>

lemma create_upload_cases:
  assumes "create_upload pf opened ses now wall fresh sid requested name mime sz m = (outcome, m')"
  shows "m' = m \<or> (\<exists>uid n r. uid = (case requested of Some u \<Rightarrow> u | None \<Rightarrow> fresh) \<and> sanitize_filename name = Ok n \<and>
      sz \<le> fm_max_file_size_bytes m \<and> session_id ses = sid \<and> paired ses \<and>
      map_of (fm_uploads m) uid = None \<and> length (fm_uploads m) < MAX_ACTIVE_UPLOADS \<and> fm_staging m (part_name uid) = None \<and>
      r = \<lparr>ur_state = \<lparr>us_part_path = part_name uid, us_received = 0, us_started = now\<rparr>, ur_received = 0, ur_id = uid,
        ur_session_id = sid, ur_name = n, ur_mime = sanitize_mime mime, ur_size = sz, ur_started_epoch_ms = transfer_epoch_ms wall\<rparr> \<and>
      outcome = Ok (upload_ticket_of r) \<and>
      m' = m\<lparr>fm_staging := (fm_staging m)(part_name uid \<mapsto> []), fm_uploads := AList.update uid r (fm_uploads m)\<rparr>)"
  using assms
  by (auto simp: create_upload_def Let_def split: result.splits if_splits option.splits io_outcome.splits)

lemma create_upload_refines:
  assumes ok: "uploads_ok m" and run: "create_upload pf opened ses now wall fresh sid requested name mime sz m = (outcome, m')"
  shows "uploads_ok m'"
    and "upload_view m' = upload_view m \<or> (\<exists>uid n. upload_view m uid = None \<and>
      upload_view m' = (upload_view m)(uid \<mapsto> \<lparr>ab_session = sid, ab_name = n, ab_size = unat sz, ab_bytes = []\<rparr>))"
proof -
  have "uploads_ok m' \<and> (upload_view m' = upload_view m \<or> (\<exists>uid n. upload_view m uid = None \<and>
      upload_view m' = (upload_view m)(uid \<mapsto> \<lparr>ab_session = sid, ab_name = n, ab_size = unat sz, ab_bytes = []\<rparr>)))"
    using create_upload_cases [OF run]
  proof (elim disjE exE conjE)
    fix uid n r
    assume n: "sanitize_filename name = Ok n" and sz: "sz \<le> fm_max_file_size_bytes m"
      and new: "map_of (fm_uploads m) uid = None" "length (fm_uploads m) < MAX_ACTIVE_UPLOADS"
      and r: "r = \<lparr>ur_state = \<lparr>us_part_path = part_name uid, us_received = 0, us_started = now\<rparr>, ur_received = 0, ur_id = uid,
        ur_session_id = sid, ur_name = n, ur_mime = sanitize_mime mime, ur_size = sz, ur_started_epoch_ms = transfer_epoch_ms wall\<rparr>"
      and m': "m' = m\<lparr>fm_staging := (fm_staging m)(part_name uid \<mapsto> []), fm_uploads := AList.update uid r (fm_uploads m)\<rparr>"
    have "sz \<noteq> - 1" using sz ok by (auto simp: uploads_ok_def word_order.extremum_unique)
    moreover have "safe_name n" using n by (rule sanitize_filename_safe_name)
    ultimately have "upload_wf ((fm_staging m)(part_name uid \<mapsto> [])) uid r" by (simp add: upload_wf_def r)
    from replace_upload [OF ok this refl, of m'] new show ?thesis
      by (auto simp: m' abstract_record_def part_bytes_def r upload_view_def)
  qed (use ok in auto)
  then show "uploads_ok m'" and "upload_view m' = upload_view m \<or> (\<exists>uid n. upload_view m uid = None \<and>
      upload_view m' = (upload_view m)(uid \<mapsto> \<lparr>ab_session = sid, ab_name = n, ab_size = unat sz, ab_bytes = []\<rparr>))"
    by blast+
qed

lemma cancel_upload_refines:
  assumes ok: "uploads_ok m" and run: "cancel_upload removed now wall uid sid m = (outcome, m')"
  shows "uploads_ok m'" and "m' = m \<or> (\<exists>a. upload_view m uid = Some a \<and> ab_session a = sid \<and> upload_view m' = (upload_view m)(uid := None))"
proof -
  have "uploads_ok m' \<and> (m' = m \<or> (\<exists>a. upload_view m uid = Some a \<and> ab_session a = sid \<and> upload_view m' = (upload_view m)(uid := None)))"
  proof (cases "completed_upload uid sid m \<noteq> None \<or> \<not> is_ok (lookup_upload_record uid sid m)")
    case True
    with run ok show ?thesis by (auto simp: cancel_upload_def split: result.splits if_splits)
  next
    case False
    then obtain r where r: "lookup_upload_record uid sid m = Ok r" by (cases "lookup_upload_record uid sid m") auto
    then have l: "map_of (fm_uploads m) uid = Some r" "ur_session_id r = sid" by (simp_all add: lookup_upload_Ok)
    then have "us_part_path (ur_state r) = part_name uid" using uploads_okD [OF ok] by (auto simp: upload_wf_def)
    with False run r have m': "fm_uploads m' = AList.delete uid (fm_uploads m)" "fm_max_file_size_bytes m' = fm_max_file_size_bytes m"
        "fm_staging m' = (fm_staging m)(part_name uid := if removed then None else fm_staging m (part_name uid))"
      by (auto simp: cancel_upload_def Let_def frame_simps)
    from delete_upload [OF ok m'(1,3,2)] l show ?thesis by (auto simp: upload_view_def abstract_record_def)
  qed
  then show "uploads_ok m'" and "m' = m \<or> (\<exists>a. upload_view m uid = Some a \<and> ab_session a = sid \<and> upload_view m' = (upload_view m)(uid := None))"
    by blast+
qed

end
