(* ===== verification/Transfer_Runs.thy ===== *)
theory Transfer_Runs
  imports Uploads
begin

text \<open>
  Histories of the transfer manager: a step relation with one rule per operation, labelled with the
  session that acts, its invariant, the isolation of sessions from each other, and the life of a
  whole upload.
\<close>

section \<open>Cancelling a whole session\<close>

lemma cancel_fold:
  "foldl (\<lambda>m (uid, r). m\<lparr>fm_staging := if removed (ur_id r) then (fm_staging m)(part_name (ur_id r) := None) else fm_staging m,
      fm_canceled_transfers := fm_canceled_transfers m + 1\<rparr>) m records =
   m\<lparr>fm_staging := (\<lambda>n. if \<exists>(uid, r) \<in> set records. removed (ur_id r) \<and> n = part_name (ur_id r) then None else fm_staging m n),
     fm_canceled_transfers := fm_canceled_transfers m + word_of_nat (length records)\<rparr>"
  by (induction records arbitrary: m) (auto simp: fun_eq_iff algebra_simps)

lemma map_of_filter_value:
  "distinct (map fst xs) \<Longrightarrow> map_of (filter (\<lambda>(k, v). P v) xs) k = (case map_of xs k of Some v \<Rightarrow> if P v then Some v else None | None \<Rightarrow> None)"
  by (induction xs) (auto split: option.splits simp: map_of_eq_None_iff image_iff)

lemma distinct_filter_fst: "distinct (map fst xs) \<Longrightarrow> distinct (map fst (filter P xs))"
  by (induction xs) auto

lemma cancel_session_refines:
  assumes ok: "uploads_ok m"
  shows "uploads_ok (cancel_session_uploads removed sid m)"
    and "upload_view (cancel_session_uploads removed sid m) u =
      (case upload_view m u of Some a \<Rightarrow> if ab_session a = sid then None else Some a | None \<Rightarrow> None)"
proof -
  let ?m = "cancel_session_uploads removed sid m"
  have up: "fm_uploads ?m = filter (\<lambda>(uid, r). ur_session_id r \<noteq> sid) (fm_uploads m)"
    and mx: "fm_max_file_size_bytes ?m = fm_max_file_size_bytes m"
    and st: "fm_staging ?m n = (if \<exists>(uid, r) \<in> set (filter (\<lambda>(uid, r). ur_session_id r = sid) (fm_uploads m)).
        removed (ur_id r) \<and> n = part_name (ur_id r) then None else fm_staging m n)" for n
    unfolding cancel_session_uploads_def Let_def cancel_fold by (simp_all split del: if_split) (rule if_cong, auto)
  have d: "distinct (map fst (fm_uploads m))" using ok by (simp add: uploads_ok_def)
  have kept: "fm_staging ?m (part_name u) = fm_staging m (part_name u)"
    if "map_of (fm_uploads m) u = Some q" "ur_session_id q \<noteq> sid" for u q
  proof -
    have "\<not> (uid = u \<and> ur_session_id r = sid)" if "(uid, r) \<in> set (fm_uploads m)" for uid r
      using map_of_is_SomeI [OF d that] \<open>map_of (fm_uploads m) u = Some q\<close> \<open>ur_session_id q \<noteq> sid\<close> by auto
    moreover have "ur_id r = uid" if "(uid, r) \<in> set (fm_uploads m)" for uid r
      using that d uploads_okD [OF ok, of uid r] by (auto simp: upload_wf_def)
    ultimately show ?thesis by (fastforce simp: st)
  qed
  have look: "map_of (fm_uploads ?m) u = (case map_of (fm_uploads m) u of Some r \<Rightarrow> if ur_session_id r \<noteq> sid then Some r else None | None \<Rightarrow> None)" for u
    using map_of_filter_value [OF d, of "\<lambda>r. ur_session_id r \<noteq> sid"] by (simp add: up)
  have "upload_wf (fm_staging ?m) u q" if "map_of (fm_uploads ?m) u = Some q" for u q
    using that uploads_okD [OF ok, of u q] kept [of u q] by (auto simp: look upload_wf_def split: option.splits if_splits)
  moreover have "length (fm_uploads ?m) \<le> MAX_ACTIVE_UPLOADS"
    using ok unfolding up uploads_ok_def by (metis length_filter_le order_trans)
  moreover have "distinct (map fst (fm_uploads ?m))" unfolding up by (rule distinct_filter_fst [OF d])
  ultimately show "uploads_ok ?m" using ok by (simp add: uploads_ok_def mx)
  show "upload_view ?m u = (case upload_view m u of Some a \<Rightarrow> if ab_session a = sid then None else Some a | None \<Rightarrow> None)"
  proof (cases "map_of (fm_uploads m) u")
    case (Some q)
    with uploads_okD [OF ok Some] kept [OF Some] show ?thesis
      by (simp add: upload_view_def look abstract_record_def part_bytes_def upload_wf_def)
  qed (simp add: upload_view_def look)
qed

section \<open>Steps\<close>

lemma download_frame [frame_simps]:
  "fm_uploads (snd (open_download d ses now wall uid sid h rm m)) = fm_uploads m"
  "fm_staging (snd (open_download d ses now wall uid sid h rm m)) = fm_staging m"
  "fm_max_file_size_bytes (snd (open_download d ses now wall uid sid h rm m)) = fm_max_file_size_bytes m"
  "fm_uploads (snd (snd (download_poll v st m))) = fm_uploads m"
  "fm_staging (snd (snd (download_poll v st m))) = fm_staging m"
  "fm_max_file_size_bytes (snd (snd (download_poll v st m))) = fm_max_file_size_bytes m"
  "fm_uploads (guard_drop ses now wall g m) = fm_uploads m" "fm_staging (guard_drop ses now wall g m) = fm_staging m"
  "fm_max_file_size_bytes (guard_drop ses now wall g m) = fm_max_file_size_bytes m"
  by (auto simp: open_download_def download_poll_def guard_complete_def guard_drop_def guard_finish_def record_completed_def
      record_bytes_def remove_outgoing_def Let_def
      split: result.splits option.splits io_outcome.splits read_outcome.splits list.splits prod.splits)

lemma record_bytes_frame [frame_simps]:
  "fm_uploads (record_bytes now d n m) = fm_uploads m" "fm_staging (record_bytes now d n m) = fm_staging m"
  "fm_max_file_size_bytes (record_bytes now d n m) = fm_max_file_size_bytes m" "fm_inbox (record_bytes now d n m) = fm_inbox m"
  "fm_completed_uploads (record_bytes now d n m) = fm_completed_uploads m" "fm_enabled (record_bytes now d n m) = fm_enabled m"
  by (simp_all add: record_bytes_def Let_def split: rate_direction.splits)

lemma queue_frame [frame_simps]:
  "fm_uploads (snd (queue_outgoing pf w u wall p m)) = fm_uploads m" "fm_staging (snd (queue_outgoing pf w u wall p m)) = fm_staging m"
  "fm_max_file_size_bytes (snd (queue_outgoing pf w u wall p m)) = fm_max_file_size_bytes m"
  "fm_uploads (checksum_step pf i disk m) = fm_uploads m" "fm_staging (checksum_step pf i disk m) = fm_staging m"
  "fm_max_file_size_bytes (checksum_step pf i disk m) = fm_max_file_size_bytes m"
  by (auto simp: queue_outgoing_def checksum_step_def Let_def split: result.splits option.splits list.splits)

inductive transfer_step :: "platform \<Rightarrow> uuid option \<Rightarrow> file_manager \<Rightarrow> file_manager \<Rightarrow> bool" for pf where
  configure: "mx \<noteq> - 1 \<Longrightarrow> transfer_step pf None m (configure_transfers e mx r p m)"
| queue: "transfer_step pf None m (snd (queue_outgoing pf w u wall p m))"
| checksum: "transfer_step pf None m (checksum_step pf i disk m)"
| remove: "transfer_step pf None m (snd (remove_outgoing u m))"
| clear: "transfer_step pf None m (clear_outgoing m)"
| look: "transfer_step pf None m (snd (manager_snapshot now m))"
| listing: "transfer_step pf (Some sid) m (snd (browser_listing sid now m))"
| create: "transfer_step pf (Some sid) m (snd (create_upload pf i ses now wall u sid req n mime sz m))"
| chunk: "transfer_step pf (Some sid) m (snd (write_upload_chunk pf w views after ses now u sid off bs x m))"
| complete: "transfer_step pf (Some sid) m (snd (complete_upload pf i mv ses now wall fresh u sid m))"
| cancel: "transfer_step pf (Some sid) m (snd (cancel_upload rm now wall u sid m))"
| cancel_session: "transfer_step pf (Some sid) m (cancel_session_uploads removed sid m)"
| open_file: "transfer_step pf (Some sid) m (snd (open_download d ses now wall u sid h rm m))"
| poll: "dg_session_id (ds_guard st) = sid \<Longrightarrow> transfer_step pf (Some sid) m (snd (snd (download_poll v st m)))"
| drop: "dg_session_id g = sid \<Longrightarrow> transfer_step pf (Some sid) m (guard_drop ses now wall g m)"

text \<open>The one fact about every step: the invariant, and what happens to an abstract upload.\<close>

definition isolates :: "uuid option \<Rightarrow> file_manager \<Rightarrow> file_manager \<Rightarrow> bool" where
  "isolates who m m' \<longleftrightarrow> uploads_ok m' \<and>
     (\<forall>uid a. upload_view m uid = Some a \<longrightarrow> Some (ab_session a) \<noteq> who \<longrightarrow> upload_view m' uid = Some a)"

lemma isolates_same:
  "uploads_ok m \<Longrightarrow> fm_uploads m' = fm_uploads m \<Longrightarrow> fm_staging m' = fm_staging m \<Longrightarrow> fm_max_file_size_bytes m' \<noteq> - 1 \<Longrightarrow>
   isolates who m m'"
  using same_uploads [of m' m] by (simp add: isolates_def)

lemma write_chunk_refines:
  assumes ok: "uploads_ok m" and run: "write_upload_chunk pf w views after ses now uid sid off bs x m = (res, m')"
  shows "uploads_ok m'" and "\<exists>outcome m1. accept_chunk pf w ses uid sid off bs x m = (outcome, m1) \<and> upload_view m' = upload_view m1"
proof -
  obtain outcome m1 where a: "accept_chunk pf w ses uid sid off bs x m = (outcome, m1)" by fastforce
  have ok1: "uploads_ok m1" using accept_chunk_keeps [OF ok a] .
  have "fm_uploads m' = fm_uploads m1" "fm_staging m' = fm_staging m1" "fm_max_file_size_bytes m' = fm_max_file_size_bytes m1"
    using run a by (auto simp: write_upload_chunk_def frame_simps Let_def split: result.splits)
  with ok1 show "uploads_ok m'" "\<exists>outcome m1. accept_chunk pf w ses uid sid off bs x m = (outcome, m1) \<and> upload_view m' = upload_view m1"
    using a same_uploads [of m' m1] by (auto simp: uploads_ok_def)
qed

lemma step_isolates:
  assumes "transfer_step pf who m m'" and ok: "uploads_ok m"
  shows "isolates who m m'"
  using assms(1)
proof cases
  case (create sid i ses now wall u req n mime sz)
  obtain outcome where "create_upload pf i ses now wall u sid req n mime sz m = (outcome, m')"
    using create(2) by (metis prod.collapse)
  from create_upload_refines [OF ok this] show ?thesis by (auto simp: isolates_def)
next
  case (chunk sid w views after ses now u off bs x)
  obtain res where run: "write_upload_chunk pf w views after ses now u sid off bs x m = (res, m')"
    using chunk(2) by (metis prod.collapse)
  obtain outcome m1 where a: "accept_chunk pf w ses u sid off bs x m = (outcome, m1)" and v: "upload_view m' = upload_view m1"
    using write_chunk_refines(2) [OF ok run] by blast
  have "chunk_effect u sid off bs outcome m m1" using accept_chunk_effect [OF ok a] by simp
  then show ?thesis
    using write_chunk_refines(1) [OF ok run] chunk(1) v
    by (auto simp: isolates_def chunk_effect_def split: result.splits option.splits)
next
  case (complete sid i mv ses now wall fresh u)
  obtain outcome where "complete_upload pf i mv ses now wall fresh u sid m = (outcome, m')"
    using complete(2) by (metis prod.collapse)
  from complete_upload_effect [OF ok this] complete(1) ok show ?thesis
    by (cases outcome) (auto simp: isolates_def published_def)
next
  case (cancel sid rm now wall u)
  obtain outcome where "cancel_upload rm now wall u sid m = (outcome, m')"
    using cancel(2) by (metis prod.collapse)
  from cancel_upload_refines [OF ok this] cancel(1) show ?thesis by (auto simp: isolates_def)
next
  case (cancel_session sid removed)
  with cancel_session_refines [OF ok] show ?thesis by (simp add: isolates_def)
qed (use ok in \<open>auto intro!: isolates_same simp: frame_simps configure_transfers_def remove_outgoing_def clear_outgoing_def
    manager_snapshot_def browser_listing_def manager_stats_def Let_def uploads_ok_def split: prod.splits\<close>)

inductive transfer_run :: "platform \<Rightarrow> file_manager \<Rightarrow> uuid option list \<Rightarrow> file_manager \<Rightarrow> bool" for pf where
  start: "transfer_run pf m [] m"
| more: "transfer_run pf m whos m1 \<Longrightarrow> transfer_step pf who m1 m2 \<Longrightarrow> transfer_run pf m (whos @ [who]) m2"

lemma run_isolates:
  assumes "transfer_run pf m whos m'" "uploads_ok m" "upload_view m uid = Some a" "Some (ab_session a) \<notin> set whos"
  shows "uploads_ok m' \<and> upload_view m' uid = Some a"
  using assms
proof (induction rule: transfer_run.induct)
  case (more m whos m1 who m2)
  then have "uploads_ok m1" "upload_view m1 uid = Some a" "Some (ab_session a) \<noteq> who" by auto
  with step_isolates [OF more.hyps(2)] show ?case by (auto simp: isolates_def)
qed simp

lemma run_ok: "transfer_run pf m whos m' \<Longrightarrow> uploads_ok m \<Longrightarrow> uploads_ok m'"
  by (induction rule: transfer_run.induct) (auto dest: step_isolates simp: isolates_def)

lemma new_ok: "fo_max_file_size_bytes o' \<noteq> - 1 \<Longrightarrow> uploads_ok (manager_new removed o' staging inbox)"
  by (simp add: uploads_ok_def manager_new_def)

text \<open>C8: Sessions cannot touch each other's uploads.  After any history of the manager, from its
  start, made of operations of any sessions and of the host (with any outcome of every file-system
  call), the invariant of all unfinished uploads holds, and from any point on an upload keeps its
  owner, name, size and accepted bytes through every history in which its owner does not act.\<close>
theorem transfer_sessions_isolated:
  assumes "fo_max_file_size_bytes options \<noteq> - 1" "transfer_run pf (manager_new removed options staging inbox) whos m"
  shows "uploads_ok m \<and> (\<forall>m' later uid a. transfer_run pf m later m' \<longrightarrow> upload_view m uid = Some a \<longrightarrow>
    Some (ab_session a) \<notin> set later \<longrightarrow> upload_view m' uid = Some a)"
  using run_ok [OF assms(2) new_ok [OF assms(1)]] run_isolates by blast

theorem transfer_sessions_isolated_witness:
  "uploads_ok (snd (create_upload example_platform IoOk example_session 0 0 7 5 None (lit ''a'') [] 3
     (manager_new (\<lambda>_. True) example_options Map.empty Map.empty)))"
proof -
  have "fo_max_file_size_bytes example_options \<noteq> - 1" by (simp add: example_options_def)
  moreover have "transfer_run example_platform (manager_new (\<lambda>_. True) example_options Map.empty Map.empty) ([] @ [Some 5])
     (snd (create_upload example_platform IoOk example_session 0 0 7 5 None (lit ''a'') [] 3
     (manager_new (\<lambda>_. True) example_options Map.empty Map.empty)))"
    by (rule transfer_run.more [OF transfer_run.start transfer_step.create])
  ultimately show ?thesis using transfer_sessions_isolated by blast
qed

end
