(* ===== verification/Ordered_Map.thy ===== *)
theory Ordered_Map
  imports Prelude "HOL-Library.List_Lexorder"
begin

text \<open>
  \<open>BTreeMap\<close>: an association list in ascending order of its keys.  Strings are ordered by code point,
  which is the byte order of their UTF-8 text.
\<close>

fun btree_insert :: "'k::linorder \<Rightarrow> 'v \<Rightarrow> ('k \<times> 'v) list \<Rightarrow> ('k \<times> 'v) list" where
  "btree_insert k v [] = [(k, v)]"
| "btree_insert k v ((l, w) # al) =
     (if k < l then (k, v) # (l, w) # al else if k = l then (k, v) # al else (l, w) # btree_insert k v al)"

definition btree_remove :: "'k::linorder \<Rightarrow> ('k \<times> 'v) list \<Rightarrow> ('k \<times> 'v) list" where
  "btree_remove k al = filter (\<lambda>(l, w). l \<noteq> k) al"

definition btree_ok :: "('k::linorder \<times> 'v) list \<Rightarrow> bool" where
  "btree_ok al \<longleftrightarrow> sorted_wrt (<) (map fst al)"

lemma btree_insert_keys: "fst ` set (btree_insert k v al) = insert k (fst ` set al)"
  by (induction k v al rule: btree_insert.induct) auto

lemma btree_insert_map: "btree_ok al \<Longrightarrow> map_of (btree_insert k v al) = (map_of al)(k \<mapsto> v)"
proof (induction k v al rule: btree_insert.induct)
  case (2 k v l w al)
  then show ?case by (auto simp: btree_ok_def fun_eq_iff)
qed auto

lemma btree_insert_ok: "btree_ok al \<Longrightarrow> btree_ok (btree_insert k v al)"
proof (induction k v al rule: btree_insert.induct)
  case (2 k v l w al)
  have "x \<in> fst ` set (btree_insert k v al) \<Longrightarrow> x = k \<or> x \<in> fst ` set al" for x
    by (simp add: btree_insert_keys)
  with 2 show ?case by (fastforce simp: btree_ok_def)
qed (simp add: btree_ok_def)

lemma btree_insert_length: "length al \<le> length (btree_insert k v al)" "length (btree_insert k v al) \<le> Suc (length al)"
  by (induction k v al rule: btree_insert.induct) auto

lemma btree_insert_new: "k \<notin> fst ` set al \<Longrightarrow> length (btree_insert k v al) = Suc (length al)"
  by (induction k v al rule: btree_insert.induct) auto

lemma btree_insert_values: "snd ` set (btree_insert k v al) \<subseteq> insert v (snd ` set al)"
  by (induction k v al rule: btree_insert.induct) auto

lemma btree_ok_distinct: "btree_ok al \<Longrightarrow> distinct (map fst al)"
  by (simp add: btree_ok_def strict_sorted_iff)

lemma btree_remove_ok: "btree_ok al \<Longrightarrow> btree_ok (btree_remove k al)"
  unfolding btree_ok_def btree_remove_def by (induction al) auto

lemma btree_remove_keys: "fst ` set (btree_remove k al) = fst ` set al - {k}"
  by (auto simp: btree_remove_def)

lemma btree_remove_map: "map_of (btree_remove k al) = (map_of al)(k := None)"
  by (induction al) (auto simp: btree_remove_def fun_eq_iff)

lemma btree_empty [simp]: "btree_ok []"
  by (simp add: btree_ok_def)

end
