(* ===== verification/Injector.thy ===== *)
theory Injector
  imports Remote Geometry Strings Ordered_Map
begin

text \<open>
  \<open>crates/host-windows/src/input.rs\<close>: the injector that turns protocol input into native pointer,
  mouse and keyboard events.  The Win32 interface is not code of the repository: the flags of an
  event are named constants, and the desktop is a log of the events it accepted together with its
  answers to the calls still to come (whether \<open>SendInput\<close> took all events or stopped early, whether a pointer frame
  was injected, the error code, the time that passed), so every failure is a branch.  The one law
  assumed of it is documented: a synthetic device refuses a frame with more contacts than it was
  created for.
\<close>

section \<open>Native events\<close>

datatype pointer_flag =
    FlagNew | FlagInRange | FlagInContact | FlagDown | FlagUpdate | FlagUp | FlagPrimary | FlagConfidence | FlagCanceled

datatype button_change = ChangeNone | ChangeFirstButtonDown | ChangeFirstButtonUp

datatype native_device = NativePen | NativeTouch

record native_rect =
  nr_left :: i32
  nr_top :: i32
  nr_right :: i32
  nr_bottom :: i32

record pointer_info =
  pi_device :: native_device
  pi_id :: u32
  pi_flags :: "pointer_flag set"
  pi_window :: nat
  pi_point :: pixel_point
  pi_change :: button_change
  pi_barrel :: bool
  pi_pressure :: u32
  pi_rotation :: u32
  pi_tilt_x :: i32
  pi_tilt_y :: i32
  pi_contact :: native_rect

datatype mouse_flag =
    MouseMove | MouseAbsolute | MouseVirtualDesk | MouseWheel | MouseHWheel
  | LeftDown | LeftUp | RightDown | RightUp | MiddleDown | MiddleUp | XDown | XUp

datatype native_input =
    MouseInput i32 i32 u32 "mouse_flag set"
  | KeyInput u16 bool bool
  | UnicodeInput u16 bool

datatype native_event = InputEvent native_input | FrameEvent "pointer_info list"

record os_answer =
  an_sent :: "nat option"
  an_injected :: bool
  an_code :: int
  an_extra :: nat
  an_text :: ustring

record desktop =
  dk_log :: "native_event list"
  dk_calls :: nat
  dk_answers :: "nat \<Rightarrow> os_answer"
  dk_screen :: "i32 \<times> i32 \<times> i32 \<times> i32"
  dk_foreground :: bool

definition next_answer :: "desktop \<Rightarrow> os_answer" where
  "next_answer d = dk_answers d (dk_calls d)"

definition MAX_TOUCH_CONTACTS :: nat where "MAX_TOUCH_CONTACTS = 10"
definition ERROR_NOT_READY :: int where "ERROR_NOT_READY = 21"
definition INJECTION_RETRY_LIMIT :: nat where "INJECTION_RETRY_LIMIT = 50000000"
definition INJECTION_RETRY_BACKOFF :: nat where "INJECTION_RETRY_BACKOFF = 100000"

definition capacity :: "native_device \<Rightarrow> nat" where
  "capacity dev = (case dev of NativePen \<Rightarrow> 1 | NativeTouch \<Rightarrow> MAX_TOUCH_CONTACTS)"

definition last_error :: "ustring \<Rightarrow> os_answer \<Rightarrow> ustring" where
  "last_error context a = context @ lit '' failed: '' @ an_text a"

definition inject_once :: "native_device \<Rightarrow> pointer_info list \<Rightarrow> desktop \<Rightarrow> bool \<times> desktop" where
  "inject_once dev infos d =
     (let a = next_answer d; d = d\<lparr>dk_calls := dk_calls d + 1\<rparr>
      in if an_injected a \<and> length infos \<le> capacity dev then (True, d\<lparr>dk_log := dk_log d @ [FrameEvent infos]\<rparr>) else (False, d))"

text \<open>
  The retry loop sleeps at least the back-off between attempts, so before attempt i at least i
  back-offs have passed; the loop gives up at the limit, hence after at most 500 retries.
\<close>

function inject_with_retry :: "native_device \<Rightarrow> pointer_info list \<Rightarrow> ustring \<Rightarrow> nat \<Rightarrow> desktop \<Rightarrow> (unit, ustring) result \<times> desktop" where
  "inject_with_retry dev infos context i d =
     (let a = next_answer d; (injected, d) = inject_once dev infos d
      in if injected then (Ok (), d)
         else if an_code a \<noteq> ERROR_NOT_READY \<or> INJECTION_RETRY_LIMIT \<le> INJECTION_RETRY_BACKOFF * i + an_extra a
         then (Err (last_error context a), d)
         else inject_with_retry dev infos context (i + 1) d)"
  by pat_completeness auto
termination
  by (relation "measure (\<lambda>(_, _, _, i, _). 500 - i)")
    (auto simp: INJECTION_RETRY_LIMIT_def INJECTION_RETRY_BACKOFF_def)

declare inject_with_retry.simps [simp del]

definition send_native_inputs :: "native_input list \<Rightarrow> string \<Rightarrow> desktop \<Rightarrow> (unit, ustring) result \<times> desktop" where
  "send_native_inputs inputs context d =
     (if inputs = [] then (Ok (), d)
      else
        (let a = next_answer d;
             sent = (case an_sent a of None \<Rightarrow> length inputs | Some n \<Rightarrow> min n (length inputs));
             d = d\<lparr>dk_calls := dk_calls d + 1, dk_log := dk_log d @ map InputEvent (take sent inputs)\<rparr>
         in if sent = length inputs then (Ok (), d)
            else (Err (last_error (lit context @ lit '' sent '' @ show_nat sent @ lit ''/'' @ show_nat (length inputs) @ lit '' events'') a), d)))"

section \<open>State\<close>

record injector_options =
  io_pen_enabled :: bool
  io_touch_enabled :: bool
  io_mouse_enabled :: bool
  io_keyboard_enabled :: bool
  io_gestures_enabled :: bool
  io_strict_palm_rejection :: bool

definition default_injector_options :: injector_options where
  "default_injector_options = \<lparr>io_pen_enabled = True, io_touch_enabled = False, io_mouse_enabled = True,
     io_keyboard_enabled = True, io_gestures_enabled = True, io_strict_palm_rejection = True\<rparr>"

record active_pointer =
  ap_pointer_id :: u32
  ap_point :: pixel_point
  ap_pressure :: u32
  ap_tilt_x :: i32
  ap_tilt_y :: i32
  ap_down :: bool

record injector_state =
  is_pen :: "active_pointer option"
  is_touches :: "(u32 \<times> active_pointer) list"
  is_mouse_buttons :: u16
  is_pressed_keys :: "(ustring \<times> u16) list"
  is_wheel_remainder_x :: f32
  is_wheel_remainder_y :: f32

record pointer_injector =
  in_state :: injector_state
  in_target :: target_geometry
  in_options :: injector_options
  in_target_window :: nat

definition initial_injector_state :: injector_state where
  "initial_injector_state = \<lparr>is_pen = None, is_touches = [], is_mouse_buttons = 0, is_pressed_keys = [],
     is_wheel_remainder_x = 0, is_wheel_remainder_y = 0\<rparr>"

definition injector_new :: "bool \<Rightarrow> bool \<Rightarrow> ustring \<Rightarrow> target_geometry \<Rightarrow> injector_options \<Rightarrow> (pointer_injector, ustring) result" where
  "injector_new pen_created touch_created os_text target options =
     (if \<not> pen_created then Err (lit ''CreateSyntheticPointerDevice(PT_PEN) failed: '' @ os_text)
      else if \<not> touch_created then Err (lit ''CreateSyntheticPointerDevice(PT_TOUCH) failed: '' @ os_text)
      else Ok \<lparr>in_state = initial_injector_state, in_target = target, in_options = options, in_target_window = 0\<rparr>)"

definition set_target :: "target_geometry \<Rightarrow> pointer_injector \<Rightarrow> pointer_injector" where
  "set_target target j = j\<lparr>in_target := target\<rparr>"

definition set_options :: "injector_options \<Rightarrow> pointer_injector \<Rightarrow> pointer_injector" where
  "set_options options j = j\<lparr>in_options := options\<rparr>"

definition set_target_window :: "nat \<Rightarrow> pointer_injector \<Rightarrow> pointer_injector" where
  "set_target_window hwnd j = j\<lparr>in_target_window := hwnd\<rparr>"

section \<open>Mouse and keyboard events\<close>

definition BROWSER_BUTTON_PRIMARY :: u16 where "BROWSER_BUTTON_PRIMARY = 1"
definition BROWSER_BUTTON_SECONDARY :: u16 where "BROWSER_BUTTON_SECONDARY = 2"
definition BROWSER_BUTTON_AUXILIARY :: u16 where "BROWSER_BUTTON_AUXILIARY = 4"
definition BROWSER_BUTTON_BACK :: u16 where "BROWSER_BUTTON_BACK = 8"
definition BROWSER_BUTTON_FORWARD :: u16 where "BROWSER_BUTTON_FORWARD = 16"
definition XBUTTON1 :: u32 where "XBUTTON1 = 1"
definition XBUTTON2 :: u32 where "XBUTTON2 = 2"
definition WHEEL_SCALE :: f32 where "WHEEL_SCALE = lit32 6 5"

definition max_i32 :: "i32 \<Rightarrow> i32 \<Rightarrow> i32" where
  "max_i32 a b = (if a <s b then b else a)"

text \<open>\<open>saturating_sub(1)\<close> of a value that is at least one never saturates.\<close>

definition virtual_axis :: "i32 \<Rightarrow> i32 \<Rightarrow> i32 \<Rightarrow> i32" where
  "virtual_axis coordinate origin extent =
     (let extent = sint (max_i32 extent 1) - 1;
          v = min (max (sint (coordinate - origin)) 0) extent
      in word_of_int (v * 65535 div max extent 1))"

definition virtual_desktop_coordinates :: "pixel_point \<Rightarrow> desktop \<Rightarrow> i32 \<times> i32" where
  "virtual_desktop_coordinates p d =
     (let (left, top, width, height) = dk_screen d
      in (virtual_axis (px_x p) left width, virtual_axis (px_y p) top height))"

definition mouse_move_input :: "pixel_point \<Rightarrow> desktop \<Rightarrow> native_input" where
  "mouse_move_input p d =
     (let (x, y) = virtual_desktop_coordinates p d in MouseInput x y 0 {MouseMove, MouseAbsolute, MouseVirtualDesk})"

definition append_button :: "u16 \<Rightarrow> u16 \<Rightarrow> u16 \<Rightarrow> mouse_flag \<Rightarrow> mouse_flag \<Rightarrow> u32 \<Rightarrow> native_input list" where
  "append_button previous current bits down up data =
     (if previous AND bits = 0 \<and> current AND bits \<noteq> 0 then [MouseInput 0 0 data {down}]
      else if previous AND bits \<noteq> 0 \<and> current AND bits = 0 then [MouseInput 0 0 data {up}]
      else [])"

definition mouse_button_changes :: "u16 \<Rightarrow> u16 \<Rightarrow> native_input list" where
  "mouse_button_changes previous current =
     append_button previous current BROWSER_BUTTON_PRIMARY LeftDown LeftUp 0 @
     append_button previous current BROWSER_BUTTON_SECONDARY RightDown RightUp 0 @
     append_button previous current BROWSER_BUTTON_AUXILIARY MiddleDown MiddleUp 0 @
     append_button previous current BROWSER_BUTTON_BACK XDown XUp XBUTTON1 @
     append_button previous current BROWSER_BUTTON_FORWARD XDown XUp XBUTTON2"

definition is_extended_virtual_key :: "u16 \<Rightarrow> bool" where
  "is_extended_virtual_key key \<longleftrightarrow> 0x21 \<le> key \<and> key \<le> 0x28 \<or> key = 0x2D \<or> key = 0x2E \<or> 0x5B \<le> key \<and> key \<le> 0x5D \<or>
     key = 0x6F \<or> key = 0xA3 \<or> key = 0xA5"

definition named_keys :: "(string \<times> u16) list" where
  "named_keys =
    [(''Backspace'', 0x08), (''Tab'', 0x09), (''Enter'', 0x0D), (''NumpadEnter'', 0x0D), (''ShiftLeft'', 0xA0),
     (''ShiftRight'', 0xA1), (''ControlLeft'', 0xA2), (''ControlRight'', 0xA3), (''AltLeft'', 0xA4), (''AltRight'', 0xA5),
     (''Pause'', 0x13), (''CapsLock'', 0x14), (''KanaMode'', 0x15), (''Escape'', 0x1B), (''Convert'', 0x1C),
     (''NonConvert'', 0x1D), (''Space'', 0x20), (''PageUp'', 0x21), (''PageDown'', 0x22), (''End'', 0x23), (''Home'', 0x24),
     (''ArrowLeft'', 0x25), (''ArrowUp'', 0x26), (''ArrowRight'', 0x27), (''ArrowDown'', 0x28), (''PrintScreen'', 0x2C),
     (''Insert'', 0x2D), (''Delete'', 0x2E), (''Help'', 0x2F), (''MetaLeft'', 0x5B), (''OSLeft'', 0x5B), (''MetaRight'', 0x5C),
     (''OSRight'', 0x5C), (''ContextMenu'', 0x5D), (''Semicolon'', 0xBA), (''Equal'', 0xBB), (''Comma'', 0xBC),
     (''Minus'', 0xBD), (''Period'', 0xBE), (''Slash'', 0xBF), (''Backquote'', 0xC0), (''BracketLeft'', 0xDB),
     (''Backslash'', 0xDC), (''BracketRight'', 0xDD), (''Quote'', 0xDE), (''IntlBackslash'', 0xE2), (''NumpadMultiply'', 0x6A),
     (''NumpadAdd'', 0x6B), (''NumpadSubtract'', 0x6D), (''NumpadDecimal'', 0x6E), (''NumpadDivide'', 0x6F), (''NumLock'', 0x90),
     (''ScrollLock'', 0x91), (''BrowserBack'', 0xA6), (''BrowserForward'', 0xA7), (''BrowserRefresh'', 0xA8),
     (''BrowserStop'', 0xA9), (''BrowserSearch'', 0xAA), (''BrowserFavorites'', 0xAB), (''BrowserHome'', 0xAC),
     (''AudioVolumeMute'', 0xAD), (''AudioVolumeDown'', 0xAE), (''AudioVolumeUp'', 0xAF), (''MediaTrackNext'', 0xB0),
     (''MediaTrackPrevious'', 0xB1), (''MediaStop'', 0xB2), (''MediaPlayPause'', 0xB3), (''LaunchMail'', 0xB4),
     (''MediaSelect'', 0xB5), (''LaunchApp1'', 0xB6), (''LaunchApp2'', 0xB7)]"

definition parse_u16 :: "ustring \<Rightarrow> nat option" where
  "parse_u16 s = parse_unsigned (2 ^ 16) s"

definition ascii_upper_byte :: "nat \<Rightarrow> nat" where
  "ascii_upper_byte b = (if 97 \<le> b \<and> b \<le> 122 then b - 32 else b)"

definition virtual_key_number :: "ustring \<Rightarrow> u16 option" where
  "virtual_key_number code =
     (case map_of (map (\<lambda>(n, k). (lit n, k)) named_keys) code of
        Some k \<Rightarrow> Some k
      | None \<Rightarrow>
          if str_len code = 4 \<and> strip_prefix (lit ''Key'') code \<noteq> None
          then Some (word_of_nat (ascii_upper_byte (utf8_bytes code ! 3)))
          else if str_len code = 6 \<and> strip_prefix (lit ''Digit'') code \<noteq> None
          then Some (word_of_nat (utf8_bytes code ! 5))
          else
            (case (case strip_prefix (lit ''F'') code of None \<Rightarrow> None | Some v \<Rightarrow> parse_u16 v) of
               Some n \<Rightarrow>
                 if 1 \<le> n \<and> n \<le> 24 then Some (0x6F + word_of_nat n)
                 else (case (case strip_prefix (lit ''Numpad'') code of None \<Rightarrow> None | Some v \<Rightarrow> parse_u16 v) of
                         Some n \<Rightarrow> if n \<le> 9 then Some (0x60 + word_of_nat n) else None | None \<Rightarrow> None)
             | None \<Rightarrow>
                 (case (case strip_prefix (lit ''Numpad'') code of None \<Rightarrow> None | Some v \<Rightarrow> parse_u16 v) of
                    Some n \<Rightarrow> if n \<le> 9 then Some (0x60 + word_of_nat n) else None | None \<Rightarrow> None)))"

definition virtual_key_for_code :: "ustring \<Rightarrow> (u16 \<times> bool) option" where
  "virtual_key_for_code code = map_option (\<lambda>k. (k, is_extended_virtual_key k)) (virtual_key_number code)"

definition scaled_wheel_delta :: "f32 \<Rightarrow> bool \<Rightarrow> f32" where
  "scaled_wheel_delta delta horizontal = delta * WHEEL_SCALE * (if horizontal then 1 else - 1)"

definition take_integral_delta :: "f32 \<Rightarrow> i32 \<times> f32" where
  "take_integral_delta remainder =
     (let whole = f32_as_i32 (clamp_ord (trunc32 remainder) (f32_of_int (- (2 ^ 31))) (f32_of_int (2 ^ 31 - 1)))
      in (whole, remainder - f32_of_int (sint whole)))"

section \<open>Releasing\<close>

definition release_remote_state :: "injector_state \<Rightarrow> desktop \<Rightarrow> (unit, ustring) result \<times> injector_state \<times> desktop" where
  "release_remote_state s d =
     (let inputs = mouse_button_changes (is_mouse_buttons s) 0 @
            map (\<lambda>(code, vk). KeyInput vk True (is_extended_virtual_key vk)) (rev (is_pressed_keys s))
      in case send_native_inputs inputs ''SendInput(reset remote input)'' d of
           (Err e, d) \<Rightarrow> (Err e, s, d)
         | (Ok _, d) \<Rightarrow> (Ok (), s\<lparr>is_mouse_buttons := 0, is_pressed_keys := [], is_wheel_remainder_x := 0, is_wheel_remainder_y := 0\<rparr>, d))"

definition no_rect :: native_rect where
  "no_rect = \<lparr>nr_left = 0, nr_top = 0, nr_right = 0, nr_bottom = 0\<rparr>"

definition release_info :: "active_pointer \<Rightarrow> pointer_info" where
  "release_info a = \<lparr>pi_device = NativePen, pi_id = max (ap_pointer_id a) 1, pi_flags = {FlagInRange, FlagUp, FlagPrimary},
     pi_window = 0, pi_point = ap_point a, pi_change = ChangeFirstButtonUp, pi_barrel = False, pi_pressure = ap_pressure a,
     pi_rotation = 0, pi_tilt_x = ap_tilt_x a, pi_tilt_y = ap_tilt_y a, pi_contact = no_rect\<rparr>"

definition release_pen :: "injector_state \<Rightarrow> desktop \<Rightarrow> (unit, ustring) result \<times> injector_state \<times> desktop" where
  "release_pen s d =
     (case is_pen s of
        None \<Rightarrow> (Ok (), s, d)
      | Some active \<Rightarrow>
          (let s = s\<lparr>is_pen := None\<rparr>
           in if \<not> ap_down active then (Ok (), s, d)
              else
                (let a = next_answer d; (injected, d) = inject_once NativePen [release_info active] d
                 in if injected then (Ok (), s, d) else (Err (last_error (lit ''reset PT_PEN'') a), s, d))))"

definition touch_info :: "active_pointer \<Rightarrow> pointer_flag set \<Rightarrow> nat \<Rightarrow> pointer_info" where
  "touch_info a fl window = \<lparr>pi_device = NativeTouch, pi_id = ap_pointer_id a, pi_flags = fl, pi_window = window,
     pi_point = ap_point a, pi_change = ChangeNone, pi_barrel = False, pi_pressure = max (ap_pressure a) 1, pi_rotation = 90,
     pi_tilt_x = 0, pi_tilt_y = 0, pi_contact = \<lparr>nr_left = px_x (ap_point a) - 4, nr_top = px_y (ap_point a) - 4,
       nr_right = px_x (ap_point a) + 4, nr_bottom = px_y (ap_point a) + 4\<rparr>\<rparr>"

definition reset_all :: "pointer_injector \<Rightarrow> desktop \<Rightarrow> (unit, ustring) result \<times> pointer_injector \<times> desktop" where
  "reset_all j d =
     (case release_pen (in_state j) d of
        (Err e, s, d) \<Rightarrow> (Err e, j\<lparr>in_state := s\<rparr>, d)
      | (Ok _, s, d) \<Rightarrow>
          (let contacts = map (\<lambda>(i, active). touch_info active {FlagCanceled, FlagUp} (in_target_window j)) (is_touches s);
               a = next_answer d;
               (injected, d) = (if is_touches s = [] then (True, d) else inject_once NativeTouch contacts d)
           in if \<not> injected then (Err (last_error (lit ''reset PT_TOUCH'') a), j\<lparr>in_state := s\<rparr>, d)
              else
                (let (r, s, d) = release_remote_state (s\<lparr>is_touches := []\<rparr>) d in (r, j\<lparr>in_state := s\<rparr>, d))))"

section \<open>Pen, touch and mouse samples\<close>

definition pen_barrel_from_browser_buttons :: "u16 \<Rightarrow> bool" where
  "pen_barrel_from_browser_buttons buttons \<longleftrightarrow> buttons AND BROWSER_BUTTON_SECONDARY \<noteq> 0"

definition pen_pointer_flags :: "action \<Rightarrow> bool \<Rightarrow> pointer_flag set" where
  "pen_pointer_flags a was_down =
     (case a of
        Down \<Rightarrow> {FlagNew, FlagInRange, FlagInContact, FlagDown, FlagPrimary, FlagConfidence}
      | Move \<Rightarrow> if was_down then {FlagInRange, FlagInContact, FlagUpdate, FlagPrimary, FlagConfidence}
                else {FlagInRange, FlagUpdate, FlagPrimary}
      | Hover \<Rightarrow> {FlagInRange, FlagUpdate, FlagPrimary}
      | Up \<Rightarrow> {FlagInRange, FlagUp, FlagPrimary}
      | Cancel \<Rightarrow> {FlagCanceled, FlagUp, FlagPrimary})"

definition pen_button_change :: "action \<Rightarrow> button_change" where
  "pen_button_change a = (case a of Down \<Rightarrow> ChangeFirstButtonDown | Up \<Rightarrow> ChangeFirstButtonUp | Cancel \<Rightarrow> ChangeFirstButtonUp
     | Move \<Rightarrow> ChangeNone | Hover \<Rightarrow> ChangeNone)"

definition pen_down :: "injector_state \<Rightarrow> bool" where
  "pen_down s \<longleftrightarrow> (case is_pen s of Some a \<Rightarrow> ap_down a | None \<Rightarrow> False)"

definition inject_pen ::
  "injector_state \<Rightarrow> pointer_sample \<Rightarrow> pixel_point \<Rightarrow> nat \<Rightarrow> desktop \<Rightarrow> (unit, ustring) result \<times> injector_state \<times> desktop" where
  "inject_pen s sample point window d =
     (let (released, s, d) =
        (if (case is_pen s of Some a \<Rightarrow> ap_pointer_id a \<noteq> pointer_id sample | None \<Rightarrow> False) then release_pen s d else (Ok (), s, d))
      in case released of
           Err e \<Rightarrow> (Err e, s, d)
         | Ok _ \<Rightarrow>
             (let pressure = pressure_u32 sample;
                  (tilt_x, tilt_y) = tilt_i32 sample;
                  was_down = pen_down s;
                  info = \<lparr>pi_device = NativePen, pi_id = max (pointer_id sample) 1, pi_flags = pen_pointer_flags (action sample) was_down,
                    pi_window = window, pi_point = point, pi_change = pen_button_change (action sample),
                    pi_barrel = pen_barrel_from_browser_buttons (flags sample), pi_pressure = pressure,
                    pi_rotation = f32_as_u32 (round32 (twist_deg sample)), pi_tilt_x = tilt_x, pi_tilt_y = tilt_y, pi_contact = no_rect\<rparr>
              in case inject_with_retry NativePen [info] (lit ''InjectSyntheticPointerInput(PT_PEN)'') 0 d of
                   (Err e, d) \<Rightarrow> (Err e, s, d)
                 | (Ok _, d) \<Rightarrow>
                     (Ok (),
                      s\<lparr>is_pen := (if is_terminal (action sample) then None
                         else Some \<lparr>ap_pointer_id = pointer_id sample, ap_point = point, ap_pressure = pressure, ap_tilt_x = tilt_x,
                           ap_tilt_y = tilt_y, ap_down = action sample \<in> {Down, Move} \<and> (action sample = Down \<or> was_down)\<rparr>)\<rparr>, d)))"

definition touch_flags :: "action \<Rightarrow> pointer_flag set option" where
  "touch_flags a =
     (case a of
        Down \<Rightarrow> Some {FlagNew, FlagInRange, FlagInContact, FlagDown}
      | Move \<Rightarrow> Some {FlagInRange, FlagInContact, FlagUpdate}
      | Up \<Rightarrow> Some {FlagUp}
      | Cancel \<Rightarrow> Some {FlagCanceled, FlagUp}
      | Hover \<Rightarrow> None)"

definition touch_contacts :: "(u32 \<times> active_pointer) list \<Rightarrow> u32 \<Rightarrow> action \<Rightarrow> nat \<Rightarrow> pointer_info list" where
  "touch_contacts touches uid a window =
     concat (map (\<lambda>(i, active).
       case (if i = uid then touch_flags a else Some {FlagInRange, FlagInContact, FlagUpdate}) of
         None \<Rightarrow> []
       | Some fl \<Rightarrow> [touch_info active (insert FlagConfidence fl) window]) touches)"

definition inject_touch ::
  "injector_state \<Rightarrow> pointer_sample \<Rightarrow> pixel_point \<Rightarrow> nat \<Rightarrow> desktop \<Rightarrow> (unit, ustring) result \<times> injector_state \<times> desktop" where
  "inject_touch s sample point window d =
     (let uid = max (pointer_id sample) 1;
          active = \<lparr>ap_pointer_id = uid, ap_point = point, ap_pressure = max (pressure_u32 sample) 1, ap_tilt_x = 0, ap_tilt_y = 0,
            ap_down = True\<rparr>;
          s = (if action sample \<in> {Down, Move} then s\<lparr>is_touches := btree_insert uid active (is_touches s)\<rparr> else s);
          contacts = touch_contacts (is_touches s) uid (action sample) window @
            (if is_terminal (action sample) \<and> uid \<notin> fst ` set (is_touches s)
             then [touch_info \<lparr>ap_pointer_id = uid, ap_point = point, ap_pressure = 1, ap_tilt_x = 0, ap_tilt_y = 0, ap_down = False\<rparr>
                    (if action sample = Cancel then {FlagUp, FlagCanceled} else {FlagUp}) window]
             else []);
          (injected, d) = (if contacts = [] then (Ok (), d)
            else inject_with_retry NativeTouch contacts (lit ''InjectSyntheticPointerInput(PT_TOUCH)'') 0 d)
      in case injected of
           Err e \<Rightarrow> (Err e, s, d)
         | Ok _ \<Rightarrow> (Ok (), if is_terminal (action sample) then s\<lparr>is_touches := btree_remove uid (is_touches s)\<rparr> else s, d))"

definition inject_mouse ::
  "injector_state \<Rightarrow> pointer_sample \<Rightarrow> pixel_point \<Rightarrow> desktop \<Rightarrow> (unit, ustring) result \<times> injector_state \<times> desktop" where
  "inject_mouse s sample point d =
     (let inputs = (if action sample \<noteq> Cancel then [mouse_move_input point d] else []) @
            mouse_button_changes (is_mouse_buttons s) (flags sample)
      in case send_native_inputs inputs ''SendInput(mouse)'' d of
           (Err e, d) \<Rightarrow> (Err e, s, d)
         | (Ok _, d) \<Rightarrow> (Ok (), s\<lparr>is_mouse_buttons := (if is_terminal (action sample) then 0 else flags sample)\<rparr>, d))"

section \<open>Wheel, keys, text and commands\<close>

definition inject_wheel_native ::
  "injector_state \<Rightarrow> wheel_input \<Rightarrow> pixel_point \<Rightarrow> desktop \<Rightarrow> (unit, ustring) result \<times> injector_state \<times> desktop" where
  "inject_wheel_native s input point d =
     (let (horizontal, rx) = take_integral_delta (is_wheel_remainder_x s + scaled_wheel_delta (wh_delta_x input) True);
          (vertical, ry) = take_integral_delta (is_wheel_remainder_y s + scaled_wheel_delta (wh_delta_y input) False);
          s = s\<lparr>is_wheel_remainder_x := rx, is_wheel_remainder_y := ry\<rparr>;
          inputs = [mouse_move_input point d] @ (if vertical \<noteq> 0 then [MouseInput 0 0 vertical {MouseWheel}] else []) @
            (if horizontal \<noteq> 0 then [MouseInput 0 0 horizontal {MouseHWheel}] else []);
          (r, d) = send_native_inputs inputs ''SendInput(wheel)'' d
      in (r, s, d))"

definition inject_keyboard_native ::
  "injector_state \<Rightarrow> keyboard_input \<Rightarrow> desktop \<Rightarrow> (unit, ustring) result \<times> injector_state \<times> desktop" where
  "inject_keyboard_native s input d =
     (case virtual_key_for_code (kb_code input) of
        None \<Rightarrow> (Err (lit ''unsupported DOM keyboard code '' @ kb_code input), s, d)
      | Some (vk, extended) \<Rightarrow>
          (case kb_action input of
             KeyDown \<Rightarrow>
               (case send_native_inputs [KeyInput vk False extended] ''SendInput(key down)'' d of
                  (Err e, d) \<Rightarrow> (Err e, s, d)
                | (Ok _, d) \<Rightarrow> (Ok (), s\<lparr>is_pressed_keys := btree_insert (kb_code input) vk (is_pressed_keys s)\<rparr>, d))
           | KeyUp \<Rightarrow>
               (let vk = (case map_of (is_pressed_keys s) (kb_code input) of Some v \<Rightarrow> v | None \<Rightarrow> vk);
                    s = s\<lparr>is_pressed_keys := btree_remove (kb_code input) (is_pressed_keys s)\<rparr>;
                    (r, d) = send_native_inputs [KeyInput vk True extended] ''SendInput(key up)'' d
                in (r, s, d))))"

definition utf16_units :: "nat \<Rightarrow> u16 list" where
  "utf16_units c = (if c < 0x10000 then [word_of_nat c]
     else [word_of_nat (0xD800 + (c - 0x10000) div 0x400), word_of_nat (0xDC00 + (c - 0x10000) mod 0x400)])"

fun text_inputs :: "bool \<Rightarrow> ustring \<Rightarrow> native_input list" where
  "text_inputs previous_cr [] = []"
| "text_inputs previous_cr (c # cs) =
     (if c = 13 \<or> c = 10 then
        (if c = 10 \<and> previous_cr then text_inputs False cs
         else [KeyInput 0x0D False False, KeyInput 0x0D True False] @ text_inputs (c = 13) cs)
      else concat (map (\<lambda>u. [UnicodeInput u False, UnicodeInput u True]) (utf16_units c)) @ text_inputs False cs)"

definition inject_text_native :: "text_input \<Rightarrow> desktop \<Rightarrow> (unit, ustring) result \<times> desktop" where
  "inject_text_native input d = send_native_inputs (text_inputs False (tx_text input)) ''SendInput(Unicode text)'' d"

definition chord_inputs :: "(u16 \<times> bool) list \<Rightarrow> native_input list" where
  "chord_inputs ks = map (\<lambda>(k, e). KeyInput k False e) ks @ map (\<lambda>(k, e). KeyInput k True e) (rev ks)"

definition send_chord :: "(u16 \<times> bool) list \<Rightarrow> desktop \<Rightarrow> (unit, ustring) result \<times> desktop" where
  "send_chord ks d = send_native_inputs (chord_inputs ks) ''SendInput(command chord)'' d"

definition keep_injector :: "pointer_injector \<Rightarrow> (unit, ustring) result \<times> desktop \<Rightarrow> (unit, ustring) result \<times> pointer_injector \<times> desktop" where
  "keep_injector j r = (fst r, j, snd r)"

definition inject_command_native :: "pointer_injector \<Rightarrow> remote_command \<Rightarrow> desktop \<Rightarrow> (unit, ustring) result \<times> pointer_injector \<times> desktop" where
  "inject_command_native j cmd d =
     (case cmd of
        AppNext \<Rightarrow> keep_injector j (send_chord [(0x12, False), (0x09, False)] d)
      | AppPrevious \<Rightarrow> keep_injector j (send_chord [(0x12, False), (0x10, False), (0x09, False)] d)
      | TaskView \<Rightarrow> keep_injector j (send_chord [(0x5B, True), (0x09, False)] d)
      | MinimizeForeground \<Rightarrow>
          keep_injector j (if dk_foreground d then (Ok (), d) else (Err (lit ''Windows has no foreground window to minimize''), d))
      | ResetInput \<Rightarrow> reset_all j d)"

section \<open>The sink\<close>

definition with_state :: "pointer_injector \<Rightarrow> (unit, ustring) result \<times> injector_state \<times> desktop \<Rightarrow> (unit, ustring) result \<times> pointer_injector \<times> desktop" where
  "with_state j r = (case r of (res, s, d) \<Rightarrow> (res, j\<lparr>in_state := s\<rparr>, d))"

definition target_point :: "pointer_injector \<Rightarrow> f32 \<Rightarrow> f32 \<Rightarrow> pixel_point" where
  "target_point j x y = geometry_map (in_target j) \<lparr>np_u = x, np_v = y\<rparr>"

definition inject_sample ::
  "pointer_injector \<Rightarrow> pointer_sample \<Rightarrow> injector_state \<Rightarrow> desktop \<Rightarrow> (unit, ustring) result \<times> injector_state \<times> desktop" where
  "inject_sample j sample s d =
     (let options = in_options j; point = target_point j (x_norm sample) (y_norm sample)
      in case device_type sample of
           Pen \<Rightarrow> if io_pen_enabled options then inject_pen s sample point (in_target_window j) d else (Ok (), s, d)
         | Touch \<Rightarrow>
             if io_touch_enabled options \<and> \<not> (io_strict_palm_rejection options \<and> pen_down s)
             then inject_touch s sample point (in_target_window j) d else (Ok (), s, d)
         | Mouse \<Rightarrow> if io_mouse_enabled options then inject_mouse s sample point d else (Ok (), s, d))"

fun inject_samples ::
  "pointer_injector \<Rightarrow> pointer_sample list \<Rightarrow> injector_state \<Rightarrow> desktop \<Rightarrow> (unit, ustring) result \<times> injector_state \<times> desktop" where
  "inject_samples j [] s d = (Ok (), s, d)"
| "inject_samples j (x # xs) s d =
     (case inject_sample j x s d of (Err e, s, d) \<Rightarrow> (Err e, s, d) | (Ok _, s, d) \<Rightarrow> inject_samples j xs s d)"

definition inject_batch :: "pointer_batch \<Rightarrow> pointer_injector \<Rightarrow> desktop \<Rightarrow> (unit, ustring) result \<times> pointer_injector \<times> desktop" where
  "inject_batch batch j d = with_state j (inject_samples j (samples batch) (in_state j) d)"

definition inject_wheel :: "wheel_input \<Rightarrow> pointer_injector \<Rightarrow> desktop \<Rightarrow> (unit, ustring) result \<times> pointer_injector \<times> desktop" where
  "inject_wheel input j d =
     (if \<not> io_mouse_enabled (in_options j) then (Ok (), j, d)
      else with_state j (inject_wheel_native (in_state j) input (target_point j (wh_x_norm input) (wh_y_norm input)) d))"

definition inject_keyboard :: "keyboard_input \<Rightarrow> pointer_injector \<Rightarrow> desktop \<Rightarrow> (unit, ustring) result \<times> pointer_injector \<times> desktop" where
  "inject_keyboard input j d =
     (if \<not> io_keyboard_enabled (in_options j) then (Ok (), j, d) else with_state j (inject_keyboard_native (in_state j) input d))"

definition inject_text :: "text_input \<Rightarrow> pointer_injector \<Rightarrow> desktop \<Rightarrow> (unit, ustring) result \<times> pointer_injector \<times> desktop" where
  "inject_text input j d =
     (if \<not> io_keyboard_enabled (in_options j) then (Ok (), j, d) else keep_injector j (inject_text_native input d))"

definition inject_command :: "command_input \<Rightarrow> pointer_injector \<Rightarrow> desktop \<Rightarrow> (unit, ustring) result \<times> pointer_injector \<times> desktop" where
  "inject_command input j d =
     (if cm_command input \<noteq> ResetInput \<and> \<not> io_gestures_enabled (in_options j) then (Ok (), j, d)
      else inject_command_native j (cm_command input) d)"

definition set_remote_input_options :: "bool \<Rightarrow> bool \<Rightarrow> pointer_injector \<Rightarrow> desktop \<Rightarrow> (unit, ustring) result \<times> pointer_injector \<times> desktop" where
  "set_remote_input_options touch gestures j d =
     (case reset_all j d of
        (Err e, j, d) \<Rightarrow> (Err e, j, d)
      | (Ok _, j, d) \<Rightarrow>
          (Ok (), j\<lparr>in_options := (in_options j)\<lparr>io_touch_enabled := touch, io_gestures_enabled := gestures\<rparr>\<rparr>, d))"

section \<open>Process set-up\<close>

text \<open>\<open>code\<close> is the operating system's error when the call fails; 5 is access denied.\<close>

definition set_per_monitor_dpi_awareness :: "bool \<Rightarrow> int \<Rightarrow> ustring \<Rightarrow> (unit, ustring) result" where
  "set_per_monitor_dpi_awareness succeeded code os_text =
     (if \<not> succeeded \<and> code \<noteq> 5 then Err (lit ''SetProcessDpiAwarenessContext failed: '' @ os_text) else Ok ())"

end
