(* ===== verification/Sink.thy ===== *)
theory Sink
  imports Remote Metrics Strings
begin

text \<open>
  The trait \<open>InputSink\<close> of \<open>crates/core/src/lib.rs\<close>, the logging sink and the keyframe request of the
  same file, and \<open>process_input_packet\<close> of \<open>crates/transport/src/lib.rs\<close>, the one place where bytes from a
  peer reach a sink.  An implementation of the trait is a record of its methods over its own state;
  the contract the transport relies on is the locale \<open>releasing_sink\<close>: calls keep a sink sound, and a
  reset that succeeds leaves nothing pressed.
\<close>

section \<open>The trait\<close>

record 's input_sink =
  sk_inject_batch :: "pointer_batch \<Rightarrow> 's \<Rightarrow> (unit, ustring) result \<times> 's"
  sk_inject_wheel :: "wheel_input \<Rightarrow> 's \<Rightarrow> (unit, ustring) result \<times> 's"
  sk_inject_keyboard :: "keyboard_input \<Rightarrow> 's \<Rightarrow> (unit, ustring) result \<times> 's"
  sk_inject_text :: "text_input \<Rightarrow> 's \<Rightarrow> (unit, ustring) result \<times> 's"
  sk_inject_command :: "command_input \<Rightarrow> 's \<Rightarrow> (unit, ustring) result \<times> 's"
  sk_reset_all :: "'s \<Rightarrow> (unit, ustring) result \<times> 's"
  sk_set_remote_input_options :: "bool \<Rightarrow> bool \<Rightarrow> 's \<Rightarrow> (unit, ustring) result \<times> 's"

text \<open>The default body of the trait's last method.\<close>

definition default_set_remote_input_options :: "bool \<Rightarrow> bool \<Rightarrow> 's \<Rightarrow> (unit, ustring) result \<times> 's" where
  "default_set_remote_input_options touch gestures s = (Ok (), s)"

text \<open>A call of the trait, and the histories of calls.\<close>

datatype sink_call = CallMessage input_message | CallReset | CallOptions bool bool

primrec deliver :: "'s input_sink \<Rightarrow> input_message \<Rightarrow> 's \<Rightarrow> (unit, ustring) result \<times> 's" where
  "deliver k (Pointer b) = sk_inject_batch k b"
| "deliver k (Wheel w) = sk_inject_wheel k w"
| "deliver k (Keyboard b) = sk_inject_keyboard k b"
| "deliver k (Text t) = sk_inject_text k t"
| "deliver k (Command c) = sk_inject_command k c"

primrec sink_call_run :: "'s input_sink \<Rightarrow> sink_call \<Rightarrow> 's \<Rightarrow> (unit, ustring) result \<times> 's" where
  "sink_call_run k (CallMessage m) = deliver k m"
| "sink_call_run k CallReset = sk_reset_all k"
| "sink_call_run k (CallOptions t g) = sk_set_remote_input_options k t g"

definition sink_history :: "'s input_sink \<Rightarrow> sink_call list \<Rightarrow> 's \<Rightarrow> 's" where
  "sink_history k cs s = fold (\<lambda>c s. snd (sink_call_run k c s)) cs s"

lemma sink_history_simps [simp]:
  "sink_history k [] s = s" "sink_history k (c # cs) s = sink_history k cs (snd (sink_call_run k c s))"
  "sink_history k (cs @ ds) s = sink_history k ds (sink_history k cs s)"
  by (simp_all add: sink_history_def)

section \<open>The logging sink and the keyframe request\<close>

text \<open>
  Lines are printed by debug builds only.  The names of the commands are the derived \<open>Debug\<close> of
  \<open>RemoteCommand\<close>.
\<close>

definition tracing_fallback :: "bool \<Rightarrow> ustring \<Rightarrow> ustring list \<Rightarrow> ustring list" where
  "tracing_fallback debug message printed = (if debug then printed @ [message] else printed)"

definition command_debug :: "remote_command \<Rightarrow> ustring" where
  "command_debug c = (case c of AppNext \<Rightarrow> lit ''AppNext'' | AppPrevious \<Rightarrow> lit ''AppPrevious'' | TaskView \<Rightarrow> lit ''TaskView''
     | MinimizeForeground \<Rightarrow> lit ''MinimizeForeground'' | ResetInput \<Rightarrow> lit ''ResetInput'')"

definition show_word :: "u32 \<Rightarrow> ustring" where "show_word w = show_nat (unat w)"

definition logging_input_sink :: "bool \<Rightarrow> ustring list input_sink" where
  "logging_input_sink debug = \<lparr>
     sk_inject_batch = \<lambda>b s. (Ok (), tracing_fallback debug
       (lit ''input batch '' @ show_word (batch_sequence b) @ lit '': '' @ show_nat (length (samples b)) @ lit '' samples'') s),
     sk_inject_wheel = \<lambda>w s. (Ok (), tracing_fallback debug (lit ''wheel input '' @ show_word (wh_sequence w)) s),
     sk_inject_keyboard = \<lambda>k s. (Ok (), tracing_fallback debug
       (lit ''keyboard input '' @ show_word (kb_sequence k) @ lit '': '' @ kb_code k) s),
     sk_inject_text = \<lambda>t s. (Ok (), tracing_fallback debug
       (lit ''text input '' @ show_word (tx_sequence t) @ lit '': '' @ show_nat (str_len (tx_text t)) @ lit '' UTF-8 bytes'') s),
     sk_inject_command = \<lambda>c s. (Ok (), tracing_fallback debug
       (lit ''command input '' @ show_word (cm_sequence c) @ lit '': '' @ command_debug (cm_command c)) s),
     sk_reset_all = \<lambda>s. (Ok (), tracing_fallback debug (lit ''input state reset'') s),
     sk_set_remote_input_options = default_set_remote_input_options\<rparr>"

text \<open>\<open>KeyframeRequest\<close> is one shared flag; \<open>take\<close> returns the old value.\<close>

definition keyframe_request :: "bool \<Rightarrow> bool" where "keyframe_request pending = True"

definition keyframe_take :: "bool \<Rightarrow> bool \<times> bool" where "keyframe_take pending = (pending, False)"

section \<open>Packets\<close>

text \<open>\<open>now\<close> is the clock when the batch is counted, \<open>elapsed\<close> the time the injection took, both in nanoseconds.\<close>

definition count_message :: "nat \<Rightarrow> input_message \<Rightarrow> metrics \<Rightarrow> metrics" where
  "count_message now msg m =
     (case msg of
        Pointer b \<Rightarrow> input_batch now b m
      | Wheel w \<Rightarrow> metrics_wheel_input m
      | Keyboard k \<Rightarrow> metrics_keyboard_input m
      | Text t \<Rightarrow> metrics_text_input t m
      | Command c \<Rightarrow> metrics_command_input m)"

definition message_count :: "input_message \<Rightarrow> nat" where
  "message_count msg = (case msg of Pointer b \<Rightarrow> length (samples b) | _ \<Rightarrow> 1)"

definition process_input_packet :: "'s input_sink \<Rightarrow> nat \<Rightarrow> nat \<Rightarrow> u8 list \<Rightarrow> metrics \<times> 's \<Rightarrow> metrics \<times> 's" where
  "process_input_packet k now elapsed bytes ms =
     (case input_decode bytes of
        Err e \<Rightarrow> ms
      | Ok msg \<Rightarrow>
          (let m = count_message now msg (fst ms); (r, s) = deliver k msg (snd ms)
           in case r of
                Ok _ \<Rightarrow> (input_injected (message_count msg) elapsed m, s)
              | Err _ \<Rightarrow> (metrics_input_error m, s)))"

section \<open>The contract\<close>

definition packet_polite :: "(sink_call \<Rightarrow> bool) \<Rightarrow> u8 list \<Rightarrow> bool" where
  "packet_polite polite bytes \<longleftrightarrow> (case input_decode bytes of Ok msg \<Rightarrow> polite (CallMessage msg) | Err e \<Rightarrow> True)"

locale releasing_sink =
  fixes sink :: "'s input_sink"
    and sound :: "'s \<Rightarrow> bool"
    and polite :: "sink_call \<Rightarrow> bool"
    and released :: "'s \<Rightarrow> bool"
  assumes call_sound: "sound s \<Longrightarrow> polite c \<Longrightarrow> sound (snd (sink_call_run sink c s))"
    and reset_polite: "polite CallReset"
    and options_polite: "polite (CallOptions touch gestures)"
    and reset_releases: "sound s \<Longrightarrow> sk_reset_all sink s = (Ok (), t) \<Longrightarrow> released t"
begin

lemma history_sound: "sound s \<Longrightarrow> \<forall>c\<in>set cs. polite c \<Longrightarrow> sound (sink_history sink cs s)"
  by (induction cs arbitrary: s) (auto intro: call_sound)

lemma packet_sound:
  assumes "sound (snd ms)" "packet_polite polite bytes"
  shows "sound (snd (process_input_packet sink now elapsed bytes ms))"
proof (cases "input_decode bytes")
  case (Ok msg)
  have "sound (snd (deliver sink msg (snd ms)))"
    using call_sound [OF assms(1), of "CallMessage msg"] assms(2) Ok by (simp add: packet_polite_def)
  then show ?thesis
    by (auto simp: process_input_packet_def Ok Let_def split: prod.splits result.splits)
qed (use assms in \<open>simp add: process_input_packet_def\<close>)

lemma reset_sound: "sound s \<Longrightarrow> sound (snd (sk_reset_all sink s))"
  using call_sound [of s CallReset] reset_polite by simp

lemma options_sound: "sound s \<Longrightarrow> sound (snd (sk_set_remote_input_options sink t g s))"
  using call_sound [of s "CallOptions t g"] options_polite by simp

lemma reset_after_history:
  assumes "sound s" "\<forall>c\<in>set cs. polite c" "sk_reset_all sink (sink_history sink cs s) = (Ok (), t)"
  shows "released t"
  using reset_releases [OF history_sound [OF assms(1,2)] assms(3)] .

end

text \<open>The logging sink holds nothing at all.\<close>

interpretation logging: releasing_sink "logging_input_sink debug" "\<lambda>s. True" "\<lambda>c. True" "\<lambda>s. True"
  by unfold_locales auto

lemma logging_accepts: "is_ok (fst (sink_call_run (logging_input_sink debug) c s))"
proof (cases c)
  case (CallMessage msg)
  then show ?thesis by (cases msg) (simp_all add: logging_input_sink_def)
qed (simp_all add: logging_input_sink_def default_set_remote_input_options_def)

end
