(* ===== verification/Injection.thy ===== *)
theory Injection
  imports Injector Sink
begin

text \<open>
  What the injector leaves pressed.  The keys, buttons and contacts that the desktop holds are
  computed from the log of events it accepted; the injector's own state must cover them, so that a
  reset can release them all.
\<close>

section \<open>What the desktop holds\<close>

datatype mouse_button = LeftButton | RightButton | MiddleButton | XButton u32

record held =
  hd_keys :: "u16 set"
  hd_buttons :: "mouse_button set"
  hd_pen :: bool
  hd_touches :: "u32 set"

definition nothing_held :: held where
  "nothing_held = \<lparr>hd_keys = {}, hd_buttons = {}, hd_pen = False, hd_touches = {}\<rparr>"

definition pressed_by :: "u32 \<Rightarrow> mouse_flag set \<Rightarrow> mouse_button set" where
  "pressed_by data fl = (if LeftDown \<in> fl then {LeftButton} else {}) \<union> (if RightDown \<in> fl then {RightButton} else {}) \<union>
     (if MiddleDown \<in> fl then {MiddleButton} else {}) \<union> (if XDown \<in> fl then {XButton data} else {})"

definition released_by :: "u32 \<Rightarrow> mouse_flag set \<Rightarrow> mouse_button set" where
  "released_by data fl = (if LeftUp \<in> fl then {LeftButton} else {}) \<union> (if RightUp \<in> fl then {RightButton} else {}) \<union>
     (if MiddleUp \<in> fl then {MiddleButton} else {}) \<union> (if XUp \<in> fl then {XButton data} else {})"

primrec apply_input :: "native_input \<Rightarrow> held \<Rightarrow> held" where
  "apply_input (MouseInput dx dy data fl) h = h\<lparr>hd_buttons := (hd_buttons h \<union> pressed_by data fl) - released_by data fl\<rparr>"
| "apply_input (KeyInput vk up extended) h = h\<lparr>hd_keys := (if up then hd_keys h - {vk} else insert vk (hd_keys h))\<rparr>"
| "apply_input (UnicodeInput u up) h = h"

definition apply_info :: "pointer_info \<Rightarrow> held \<Rightarrow> held" where
  "apply_info i h =
     (case pi_device i of
        NativePen \<Rightarrow> h\<lparr>hd_pen := FlagInContact \<in> pi_flags i\<rparr>
      | NativeTouch \<Rightarrow> h\<lparr>hd_touches := (if FlagInContact \<in> pi_flags i then insert (pi_id i) (hd_touches h) else hd_touches h - {pi_id i})\<rparr>)"

primrec apply_event :: "native_event \<Rightarrow> held \<Rightarrow> held" where
  "apply_event (InputEvent i) h = apply_input i h"
| "apply_event (FrameEvent infos) h = fold apply_info infos h"

definition held_after :: "native_event list \<Rightarrow> held" where
  "held_after events = fold apply_event events nothing_held"

definition desktop_holds :: "desktop \<Rightarrow> held" where
  "desktop_holds d = held_after (dk_log d)"

text \<open>A desktop that takes every event it can: only a frame beyond the capacity is refused.\<close>

definition cooperative :: "desktop \<Rightarrow> bool" where
  "cooperative d \<longleftrightarrow> (\<forall>i. an_sent (dk_answers d i) = None \<and> an_injected (dk_answers d i))"

lemma send_cooperative:
  assumes "cooperative d"
  shows "\<exists>d'. send_native_inputs inputs ctxt d = (Ok (), d') \<and> cooperative d' \<and>
    desktop_holds d' = fold apply_input inputs (desktop_holds d)"
proof (cases "inputs = []")
  case False
  have "fold apply_event (map InputEvent inputs) h = fold apply_input inputs h" for h
    by (induction inputs arbitrary: h) auto
  with False assms show ?thesis
    by (simp add: send_native_inputs_def Let_def cooperative_def next_answer_def desktop_holds_def held_after_def)
qed (use assms in \<open>auto simp: send_native_inputs_def\<close>)

lemma inject_once_cooperative:
  assumes "cooperative d" "inject_once dev infos d = (injected, d')"
  shows "cooperative d'" and "injected \<longleftrightarrow> length infos \<le> capacity dev"
    and "desktop_holds d' = (if injected then fold apply_info infos (desktop_holds d) else desktop_holds d)"
  using assms
  by (auto simp: inject_once_def Let_def cooperative_def next_answer_def desktop_holds_def held_after_def split: if_splits)

lemma inject_retry_cooperative:
  assumes "cooperative d" "inject_with_retry dev infos ctxt i d = (r, d')"
  shows "cooperative d' \<and> (is_ok r \<longleftrightarrow> length infos \<le> capacity dev) \<and>
    desktop_holds d' = (if is_ok r then fold apply_info infos (desktop_holds d) else desktop_holds d)"
  using assms
proof (induction dev infos ctxt i d rule: inject_with_retry.induct)
  case (1 dev infos ctxt i d)
  obtain injected d1 where o: "inject_once dev infos d = (injected, d1)" by fastforce
  note C = inject_once_cooperative [OF 1(2) o]
  show ?case
  proof (cases injected)
    case True
    with 1(3) o C show ?thesis by (subst (asm) inject_with_retry.simps) (auto simp: Let_def)
  next
    case False
    show ?thesis
    proof (cases "an_code (next_answer d) \<noteq> ERROR_NOT_READY \<or> INJECTION_RETRY_LIMIT \<le> INJECTION_RETRY_BACKOFF * i + an_extra (next_answer d)")
      case True
      with False 1(3) o C show ?thesis by (subst (asm) inject_with_retry.simps) (auto simp: Let_def)
    next
      case stop: False
      have next_try: "inject_with_retry dev infos ctxt (i + 1) d1 = (r, d')"
        using 1(3) False stop o by (subst (asm) inject_with_retry.simps) (simp add: Let_def)
      have "cooperative d' \<and> (is_ok r \<longleftrightarrow> length infos \<le> capacity dev) \<and>
          desktop_holds d' = (if is_ok r then fold apply_info infos (desktop_holds d1) else desktop_holds d1)"
        by (rule 1(1) [OF refl o [symmetric] refl _ _ C(1) next_try]) (use False stop in simp_all)
      with C(3) False show ?thesis by simp
    qed
  qed
qed


section \<open>What the state promises\<close>

primrec held_by :: "u16 \<Rightarrow> mouse_button \<Rightarrow> bool" where
  "held_by w LeftButton = (w AND BROWSER_BUTTON_PRIMARY \<noteq> 0)"
| "held_by w RightButton = (w AND BROWSER_BUTTON_SECONDARY \<noteq> 0)"
| "held_by w MiddleButton = (w AND BROWSER_BUTTON_AUXILIARY \<noteq> 0)"
| "held_by w (XButton x) = (x = XBUTTON1 \<and> w AND BROWSER_BUTTON_BACK \<noteq> 0 \<or> x = XBUTTON2 \<and> w AND BROWSER_BUTTON_FORWARD \<noteq> 0)"

definition state_ok :: "injector_state \<Rightarrow> bool" where
  "state_ok s \<longleftrightarrow> btree_ok (is_touches s) \<and> btree_ok (is_pressed_keys s) \<and>
     (\<forall>(i, a)\<in>set (is_touches s). ap_pointer_id a = i) \<and>
     (\<forall>(c, vk)\<in>set (is_pressed_keys s). map_option fst (virtual_key_for_code c) = Some vk)"

definition covers :: "injector_state \<Rightarrow> held \<Rightarrow> bool" where
  "covers s h \<longleftrightarrow> hd_keys h \<subseteq> snd ` set (is_pressed_keys s) \<and> (\<forall>b\<in>hd_buttons h. held_by (is_mouse_buttons s) b) \<and>
     (hd_pen h \<longrightarrow> pen_down s) \<and> hd_touches h \<subseteq> fst ` set (is_touches s)"

lemma covers_nothing: "covers s nothing_held"
  by (simp add: covers_def nothing_held_def)

lemma append_button_step:
  assumes "pressed_by data {down} = {b}" "released_by data {down} = {}" "released_by data {up} = {b}" "pressed_by data {up} = {}"
  shows "x \<in> hd_buttons (fold apply_input (append_button p c m down up data) h) \<longleftrightarrow>
    (if x = b then p AND m = 0 \<and> c AND m \<noteq> 0 \<or> x \<in> hd_buttons h \<and> (p AND m = 0 \<or> c AND m \<noteq> 0) else x \<in> hd_buttons h)"
  using assms by (auto simp: append_button_def)

lemma button_changes_keep:
  "hd_keys (fold apply_input (mouse_button_changes p c) h) = hd_keys h"
  "hd_pen (fold apply_input (mouse_button_changes p c) h) = hd_pen h"
  "hd_touches (fold apply_input (mouse_button_changes p c) h) = hd_touches h"
  by (simp_all add: mouse_button_changes_def append_button_def)

lemma button_changes_held:
  assumes "\<forall>b\<in>hd_buttons h. held_by p b" "b \<in> hd_buttons (fold apply_input (mouse_button_changes p c) h)"
  shows "held_by c b"
proof -
  have X: "XBUTTON1 \<noteq> XBUTTON2" "XBUTTON2 \<noteq> XBUTTON1" by (simp_all add: XBUTTON1_def XBUTTON2_def)
  have steps:
    "x \<in> hd_buttons (fold apply_input (append_button p c m LeftDown LeftUp 0) h) \<longleftrightarrow>
      (if x = LeftButton then p AND m = 0 \<and> c AND m \<noteq> 0 \<or> x \<in> hd_buttons h \<and> (p AND m = 0 \<or> c AND m \<noteq> 0) else x \<in> hd_buttons h)"
    "x \<in> hd_buttons (fold apply_input (append_button p c m RightDown RightUp 0) h) \<longleftrightarrow>
      (if x = RightButton then p AND m = 0 \<and> c AND m \<noteq> 0 \<or> x \<in> hd_buttons h \<and> (p AND m = 0 \<or> c AND m \<noteq> 0) else x \<in> hd_buttons h)"
    "x \<in> hd_buttons (fold apply_input (append_button p c m MiddleDown MiddleUp 0) h) \<longleftrightarrow>
      (if x = MiddleButton then p AND m = 0 \<and> c AND m \<noteq> 0 \<or> x \<in> hd_buttons h \<and> (p AND m = 0 \<or> c AND m \<noteq> 0) else x \<in> hd_buttons h)"
    "x \<in> hd_buttons (fold apply_input (append_button p c m XDown XUp v) h) \<longleftrightarrow>
      (if x = XButton v then p AND m = 0 \<and> c AND m \<noteq> 0 \<or> x \<in> hd_buttons h \<and> (p AND m = 0 \<or> c AND m \<noteq> 0) else x \<in> hd_buttons h)"
    for x m v h
    by (rule append_button_step; simp add: pressed_by_def released_by_def)+
  have before: "b \<in> hd_buttons h \<longrightarrow> held_by p b"
    using assms(1) by blast
  consider "b = LeftButton" | "b = RightButton" | "b = MiddleButton" | "b = XButton XBUTTON1" | "b = XButton XBUTTON2"
    | v where "b = XButton v" "v \<noteq> XBUTTON1" "v \<noteq> XBUTTON2"
    by (cases b) auto
  then show ?thesis
  proof cases
    case 6
    then have "b \<in> hd_buttons h"
      using assms(2) unfolding mouse_button_changes_def fold_append comp_apply steps by simp
    with assms(1) 6 show ?thesis by auto
  qed (use assms(2) before in \<open>(unfold mouse_button_changes_def fold_append comp_apply steps),
    (simp only: mouse_button.simps if_True if_False X held_by.simps simp_thms, blast)\<close>)+
qed

lemma key_inputs_held:
  "fold apply_input (map (\<lambda>(c, vk). KeyInput vk True (e vk)) ks) h = h\<lparr>hd_keys := hd_keys h - snd ` set ks\<rparr>"
  by (induction ks arbitrary: h) (auto simp: Diff_insert2 [symmetric])

text \<open>A chord releases every key it presses.\<close>

lemma chord_held: "fold apply_input (chord_inputs ks) h = h\<lparr>hd_keys := hd_keys h - fst ` set ks\<rparr>"
proof -
  have down: "fold apply_input (map (\<lambda>(k, e). KeyInput k False e) ks) h = h\<lparr>hd_keys := hd_keys h \<union> fst ` set ks\<rparr>" for h ks
    by (induction ks arbitrary: h) auto
  have up: "fold apply_input (map (\<lambda>(k, e). KeyInput k True e) ks) h = h\<lparr>hd_keys := hd_keys h - fst ` set ks\<rparr>" for h ks
    by (induction ks arbitrary: h) (auto simp: Diff_insert2 [symmetric])
  have "hd_keys h \<union> fst ` set ks - fst ` set ks = hd_keys h - fst ` set ks" by blast
  then show ?thesis by (simp add: chord_inputs_def down up)
qed

lemma text_held: "hd_keys (fold apply_input (text_inputs cr cs) h) \<subseteq> hd_keys h \<and>
    hd_buttons (fold apply_input (text_inputs cr cs) h) = hd_buttons h \<and>
    hd_pen (fold apply_input (text_inputs cr cs) h) = hd_pen h \<and> hd_touches (fold apply_input (text_inputs cr cs) h) = hd_touches h"
proof -
  have units: "fold apply_input (concat (map (\<lambda>u. [UnicodeInput u False, UnicodeInput u True]) us)) h = h" for us h
    by (induction us) simp_all
  show ?thesis
  proof (induction cr cs arbitrary: h rule: text_inputs.induct)
    case (2 cr c cs)
    show ?case
    proof (cases "c = 13 \<or> c = 10")
      case True
      then show ?thesis
        using 2(1) [of h] 2(2) [of "h\<lparr>hd_keys := insert 0xD (hd_keys h) - {0xD}\<rparr>"] by (auto split: if_splits)
    next
      case False
      then show ?thesis using 2(3) [of h] by (simp add: units)
    qed
  qed simp
qed


section \<open>Every operation keeps the promise\<close>

definition good :: "injector_state \<Rightarrow> desktop \<Rightarrow> bool" where
  "good s d \<longleftrightarrow> cooperative d \<and> state_ok s \<and> covers s (desktop_holds d)"

text \<open>A browser reports no pressed buttons with the last sample of a mouse gesture; a client need not.\<close>

definition polite_sample :: "pointer_sample \<Rightarrow> bool" where
  "polite_sample p \<longleftrightarrow> (device_type p = Mouse \<and> is_terminal (action p) \<longrightarrow> flags p = 0)"

lemma send_good:
  assumes "good s d" "state_ok s'" "covers s' (fold apply_input inputs (desktop_holds d))"
  shows "\<exists>d'. send_native_inputs inputs ctxt d = (Ok (), d') \<and> good s' d'"
  using send_cooperative [of d inputs ctxt] assms by (auto simp: good_def)

lemma release_remote_good:
  assumes "good s d"
  shows "\<exists>s' d'. release_remote_state s d = (Ok (), s', d') \<and> good s' d' \<and> is_pen s' = is_pen s \<and> is_touches s' = is_touches s \<and>
    hd_keys (desktop_holds d') = {} \<and> hd_buttons (desktop_holds d') = {}"
proof -
  let ?inputs = "mouse_button_changes (is_mouse_buttons s) 0 @
    map (\<lambda>(code, vk). KeyInput vk True (is_extended_virtual_key vk)) (rev (is_pressed_keys s))"
  let ?h = "fold apply_input ?inputs (desktop_holds d)"
  let ?s = "s\<lparr>is_mouse_buttons := 0, is_pressed_keys := [], is_wheel_remainder_x := 0, is_wheel_remainder_y := 0\<rparr>"
  have C: "covers s (desktop_holds d)" "state_ok s" and coop: "cooperative d"
    using assms by (simp_all add: good_def)
  obtain d' where d': "send_native_inputs ?inputs ''SendInput(reset remote input)'' d = (Ok (), d')" "cooperative d'" "desktop_holds d' = ?h"
    using send_cooperative [OF coop, of ?inputs] by blast
  have keys: "hd_keys ?h = {}"
    using C(1) by (auto simp: key_inputs_held button_changes_keep covers_def)
  have "\<not> held_by 0 b" for b by (cases b) simp_all
  with C(1) have buttons: "hd_buttons ?h = {}"
    using button_changes_held [of "desktop_holds d" "is_mouse_buttons s" _ 0] by (auto simp: key_inputs_held covers_def)
  have "covers ?s ?h"
    using C(1) keys buttons by (simp add: key_inputs_held button_changes_keep covers_def pen_down_def)
  moreover have "state_ok ?s"
    using C(2) by (simp add: state_ok_def)
  ultimately show ?thesis
    using d' keys buttons by (simp add: release_remote_state_def Let_def good_def)
qed

lemma release_pen_good:
  assumes "good s d"
  shows "\<exists>d'. release_pen s d = (Ok (), s\<lparr>is_pen := None\<rparr>, d') \<and> good (s\<lparr>is_pen := None\<rparr>) d' \<and> \<not> hd_pen (desktop_holds d')"
proof (cases "pen_down s")
  case False
  then have "covers (s\<lparr>is_pen := None\<rparr>) (desktop_holds d)" "\<not> hd_pen (desktop_holds d)" "state_ok (s\<lparr>is_pen := None\<rparr>)"
    using assms by (auto simp: good_def covers_def state_ok_def)
  then show ?thesis
    using False assms by (cases "is_pen s") (simp_all add: release_pen_def good_def pen_down_def Let_def)
next
  case True
  then obtain a where a: "is_pen s = Some a" "ap_down a" by (auto simp: pen_down_def split: option.splits)
  obtain r d' where o: "inject_once NativePen [release_info a] d = (r, d')" by fastforce
  have coop: "cooperative d" using assms by (simp add: good_def)
  note I = inject_once_cooperative [OF coop o]
  have r: r using I(2) by (simp add: capacity_def)
  have "desktop_holds d' = (desktop_holds d)\<lparr>hd_pen := False\<rparr>"
    using I(3) r by (simp add: apply_info_def release_info_def)
  then show ?thesis
    using assms I(1) r o a by (simp add: release_pen_def Let_def good_def covers_def state_ok_def)
qed

lemma inject_pen_good:
  assumes "good s d"
  shows "\<exists>s' d'. inject_pen s sample point window d = (Ok (), s', d') \<and> good s' d' \<and> is_touches s' = is_touches s"
proof -
  define swap where "swap \<longleftrightarrow> (case is_pen s of Some a \<Rightarrow> ap_pointer_id a \<noteq> pointer_id sample | None \<Rightarrow> False)"
  obtain s1 d1 where s1: "(if swap then release_pen s d else (Ok (), s, d)) = (Ok (), s1, d1)" "good s1 d1" "is_touches s1 = is_touches s"
    using release_pen_good [OF assms] assms by (cases swap) auto
  define info where "info = \<lparr>pi_device = NativePen, pi_id = max (pointer_id sample) 1,
    pi_flags = pen_pointer_flags (action sample) (pen_down s1),
    pi_window = window, pi_point = point, pi_change = pen_button_change (action sample),
    pi_barrel = pen_barrel_from_browser_buttons (flags sample), pi_pressure = pressure_u32 sample,
    pi_rotation = f32_as_u32 (round32 (twist_deg sample)), pi_tilt_x = fst (tilt_i32 sample), pi_tilt_y = snd (tilt_i32 sample),
    pi_contact = no_rect\<rparr>"
  define s' where "s' = s1\<lparr>is_pen := (if is_terminal (action sample) then None
     else Some \<lparr>ap_pointer_id = pointer_id sample, ap_point = point, ap_pressure = pressure_u32 sample,
       ap_tilt_x = fst (tilt_i32 sample), ap_tilt_y = snd (tilt_i32 sample),
       ap_down = action sample \<in> {Down, Move} \<and> (action sample = Down \<or> pen_down s1)\<rparr>)\<rparr>"
  obtain r d' where o: "inject_with_retry NativePen [info] (lit ''InjectSyntheticPointerInput(PT_PEN)'') 0 d1 = (r, d')" by fastforce
  have coop: "cooperative d1" using s1 by (simp add: good_def)
  note I = inject_retry_cooperative [OF coop o]
  have ok: "r = Ok ()" using I by (cases r) (simp_all add: capacity_def)
  have eq: "inject_pen s sample point window d = (Ok (), s', d')"
    using o ok unfolding inject_pen_def swap_def [symmetric] s1 Let_def s'_def info_def by (simp add: split_beta)
  have "FlagInContact \<in> pi_flags info \<longrightarrow> pen_down s'"
    by (cases "action sample") (auto simp: info_def s'_def pen_pointer_flags_def pen_down_def is_terminal_def split: if_splits)
  moreover have "desktop_holds d' = (desktop_holds d1)\<lparr>hd_pen := FlagInContact \<in> pi_flags info\<rparr>"
    using I ok by (simp add: apply_info_def info_def)
  ultimately have "good s' d'"
    using s1 I by (simp add: good_def covers_def state_ok_def s'_def)
  then show ?thesis using eq s1 by (simp add: s'_def)
qed

text \<open>A touch frame lists every contact the state knows; only the changed one can leave the desktop.\<close>

lemma touch_frame_keeps:
  "hd_keys (fold apply_info (touch_contacts ts uid a w) h) = hd_keys h \<and>
   hd_buttons (fold apply_info (touch_contacts ts uid a w) h) = hd_buttons h \<and>
   hd_pen (fold apply_info (touch_contacts ts uid a w) h) = hd_pen h"
proof (induction ts arbitrary: h)
  case (Cons t ts)
  have split_frame: "touch_contacts (t # ts) uid a w = touch_contacts [t] uid a w @ touch_contacts ts uid a w"
    by (simp add: touch_contacts_def)
  have "hd_keys (fold apply_info (touch_contacts [t] uid a w) h) = hd_keys h \<and>
    hd_buttons (fold apply_info (touch_contacts [t] uid a w) h) = hd_buttons h \<and>
    hd_pen (fold apply_info (touch_contacts [t] uid a w) h) = hd_pen h"
    by (cases t; cases a; simp add: touch_contacts_def apply_info_def touch_info_def touch_flags_def)
  with Cons show ?case
    unfolding split_frame by simp
qed (simp add: touch_contacts_def)

lemma touch_frame_within:
  assumes "\<forall>(i, b)\<in>set ts. ap_pointer_id b = i" "x \<in> hd_touches (fold apply_info (touch_contacts ts uid a w) h)"
  shows "(x \<in> hd_touches h \<or> x \<in> fst ` set ts) \<and> (x = uid \<and> is_terminal a \<longrightarrow> x \<in> hd_touches h \<and> x \<notin> fst ` set ts)"
  using assms
proof (induction ts arbitrary: h)
  case (Cons t ts)
  obtain i b where t: "t = (i, b)" by fastforce
  define h1 where "h1 = fold apply_info (touch_contacts [t] uid a w) h"
  have "fold apply_info (touch_contacts (t # ts) uid a w) h = fold apply_info (touch_contacts ts uid a w) h1"
    by (simp add: touch_contacts_def h1_def)
  then have IH: "(x \<in> hd_touches h1 \<or> x \<in> fst ` set ts) \<and> (x = uid \<and> is_terminal a \<longrightarrow> x \<in> hd_touches h1 \<and> x \<notin> fst ` set ts)"
    using Cons.IH [of h1] Cons.prems by (simp del: imp_conjL split: prod.splits)
  have "hd_touches h1 \<subseteq> insert i (hd_touches h)" "is_terminal a \<and> i = uid \<longrightarrow> uid \<notin> hd_touches h1"
    "is_terminal a \<and> i \<noteq> uid \<longrightarrow> (uid \<in> hd_touches h1 \<longleftrightarrow> uid \<in> hd_touches h)"
    using Cons.prems(1) by (auto simp: h1_def t touch_contacts_def apply_info_def touch_info_def touch_flags_def is_terminal_def
      split: action.splits if_splits)
  with IH t show ?case by auto
qed (auto simp: touch_contacts_def)

lemma inject_touch_good:
  assumes "good s d"
  shows "\<exists>r s' d'. inject_touch s sample point window d = (r, s', d') \<and> good s' d'"
proof -
  define uid where "uid = max (pointer_id sample) 1"
  define contact where "contact = \<lparr>ap_pointer_id = uid, ap_point = point, ap_pressure = max (pressure_u32 sample) 1, ap_tilt_x = 0,
    ap_tilt_y = 0, ap_down = True\<rparr>"
  define s1 where "s1 = (if action sample \<in> {Down, Move} then s\<lparr>is_touches := btree_insert uid contact (is_touches s)\<rparr> else s)"
  define extra where "extra = (if is_terminal (action sample) \<and> uid \<notin> fst ` set (is_touches s1)
     then [touch_info \<lparr>ap_pointer_id = uid, ap_point = point, ap_pressure = 1, ap_tilt_x = 0, ap_tilt_y = 0, ap_down = False\<rparr>
            (if action sample = Cancel then {FlagUp, FlagCanceled} else {FlagUp}) window]
     else [])"
  define frame where "frame = touch_contacts (is_touches s1) uid (action sample) window @ extra"
  define s2 where "s2 = (if is_terminal (action sample) then s1\<lparr>is_touches := btree_remove uid (is_touches s1)\<rparr> else s1)"
  have coop: "cooperative d" and C: "covers s (desktop_holds d)" and S: "state_ok s"
    using assms by (simp_all add: good_def)
  have inserted: "x \<in> set (btree_insert uid contact al) \<Longrightarrow> x = (uid, contact) \<or> x \<in> set al" for x al
    by (induction uid contact al rule: btree_insert.induct) (auto split: if_splits)
  have S1: "state_ok s1"
    using S inserted by (fastforce simp: state_ok_def s1_def btree_insert_ok contact_def)
  then have S2: "state_ok s2"
    by (auto simp: state_ok_def s2_def btree_remove_ok) (auto simp: btree_remove_def)
  have C1: "covers s1 (desktop_holds d)"
    using C by (auto simp: covers_def s1_def btree_insert_keys pen_down_def)
  have C2: "covers s2 (fold apply_info frame (desktop_holds d))"
  proof -
    let ?f = "fold apply_info (touch_contacts (is_touches s1) uid (action sample) window) (desktop_holds d)"
    have ids: "\<forall>(i, b)\<in>set (is_touches s1). ap_pointer_id b = i"
      using S1 by (simp add: state_ok_def)
    have "hd_touches (fold apply_info extra ?f) \<subseteq> fst ` set (is_touches s2)"
    proof
      fix x assume x: "x \<in> hd_touches (fold apply_info extra ?f)"
      then have "x \<in> hd_touches ?f" and gone: "extra \<noteq> [] \<longrightarrow> x \<noteq> uid"
        by (auto simp: extra_def apply_info_def touch_info_def split: if_splits)
      from touch_frame_within [OF ids this(1)] have
        "x \<in> fst ` set (is_touches s1)" and "x = uid \<and> is_terminal (action sample) \<longrightarrow> x \<notin> fst ` set (is_touches s1)"
        using C1 by (auto simp: covers_def)
      then show "x \<in> fst ` set (is_touches s2)"
        by (auto simp: s2_def btree_remove_keys)
    qed
    moreover have "hd_keys (fold apply_info extra ?f) = hd_keys (desktop_holds d)"
      "hd_buttons (fold apply_info extra ?f) = hd_buttons (desktop_holds d)" "hd_pen (fold apply_info extra ?f) = hd_pen (desktop_holds d)"
      by (simp_all add: extra_def apply_info_def touch_info_def touch_frame_keeps)
    moreover have "is_pressed_keys s2 = is_pressed_keys s1" "is_mouse_buttons s2 = is_mouse_buttons s1" "pen_down s2 = pen_down s1"
      by (simp_all add: s2_def pen_down_def)
    ultimately show ?thesis
      using C1 by (simp add: covers_def frame_def)
  qed
  obtain r d1 where o: "(if frame = [] then (Ok (), d)
      else inject_with_retry NativeTouch frame (lit ''InjectSyntheticPointerInput(PT_TOUCH)'') 0 d) = (r, d1)"
    by fastforce
  have sent: "cooperative d1 \<and> desktop_holds d1 = (if is_ok r then fold apply_info frame (desktop_holds d) else desktop_holds d)"
    using o coop inject_retry_cooperative [OF coop] by (cases "frame = []") (auto split: if_splits)
  have "inject_touch s sample point window d = (case r of Err e \<Rightarrow> (Err e, s1, d1) | Ok _ \<Rightarrow> (Ok (), s2, d1))"
    using o unfolding inject_touch_def Let_def uid_def [symmetric] contact_def [symmetric] s1_def [symmetric] extra_def [symmetric]
      frame_def [symmetric] s2_def
    by simp
  then show ?thesis
    using sent S1 S2 C1 C2 by (cases r) (simp_all add: good_def)
qed

lemma inject_mouse_good:
  assumes "good s d" "is_terminal (action sample) \<longrightarrow> flags sample = 0"
  shows "\<exists>s' d'. inject_mouse s sample point d = (Ok (), s', d') \<and> good s' d' \<and> is_touches s' = is_touches s"
proof -
  let ?inputs = "(if action sample \<noteq> Cancel then [mouse_move_input point d] else []) @
    mouse_button_changes (is_mouse_buttons s) (flags sample)"
  let ?s = "s\<lparr>is_mouse_buttons := (if is_terminal (action sample) then 0 else flags sample)\<rparr>"
  have move: "apply_input (mouse_move_input point d) h = h" for h
    by (simp add: mouse_move_input_def split_beta pressed_by_def released_by_def)
  have now: "(if is_terminal (action sample) then 0 else flags sample) = flags sample"
    using assms(2) by simp
  have "covers ?s (fold apply_input ?inputs (desktop_holds d))"
    using assms(1) button_changes_held [of "desktop_holds d" "is_mouse_buttons s" _ "flags sample"]
    unfolding now by (auto simp: move good_def covers_def button_changes_keep pen_down_def)
  moreover have "state_ok ?s" using assms(1) by (simp add: good_def state_ok_def)
  ultimately obtain d' where "send_native_inputs ?inputs ''SendInput(mouse)'' d = (Ok (), d')" "good ?s d'"
    using send_good [OF assms(1)] by blast
  then show ?thesis by (simp add: inject_mouse_def Let_def)
qed

lemma inject_wheel_good:
  assumes "good s d"
  shows "\<exists>s' d'. inject_wheel_native s input point d = (Ok (), s', d') \<and> good s' d' \<and> is_touches s' = is_touches s"
proof -
  obtain hx rx where x: "take_integral_delta (is_wheel_remainder_x s + scaled_wheel_delta (wh_delta_x input) True) = (hx, rx)" by fastforce
  obtain vy ry where y: "take_integral_delta (is_wheel_remainder_y s + scaled_wheel_delta (wh_delta_y input) False) = (vy, ry)" by fastforce
  let ?s = "s\<lparr>is_wheel_remainder_x := rx, is_wheel_remainder_y := ry\<rparr>"
  let ?inputs = "[mouse_move_input point d] @ (if vy \<noteq> 0 then [MouseInput 0 0 vy {MouseWheel}] else []) @
    (if hx \<noteq> 0 then [MouseInput 0 0 hx {MouseHWheel}] else [])"
  have "fold apply_input ?inputs h = h" for h
    by (simp add: mouse_move_input_def split_beta pressed_by_def released_by_def)
  then have "covers ?s (fold apply_input ?inputs (desktop_holds d))"
    using assms by (simp add: good_def covers_def pen_down_def)
  moreover have "state_ok ?s" using assms by (simp add: good_def state_ok_def)
  ultimately obtain d' where "send_native_inputs ?inputs ''SendInput(wheel)'' d = (Ok (), d')" "good ?s d'"
    using send_good [OF assms] by blast
  then show ?thesis by (simp add: inject_wheel_native_def Let_def x y)
qed

lemma inject_keyboard_good:
  assumes "good s d"
  shows "\<exists>r s' d'. inject_keyboard_native s input d = (r, s', d') \<and> good s' d' \<and> is_touches s' = is_touches s \<and>
    (is_ok r \<longleftrightarrow> virtual_key_for_code (kb_code input) \<noteq> None)"
proof (cases "virtual_key_for_code (kb_code input)")
  case None
  with assms show ?thesis by (simp add: inject_keyboard_native_def)
next
  case (Some ve)
  obtain vk e where ve: "ve = (vk, e)" by fastforce
  let ?code = "kb_code input"
  have S: "state_ok s" and C: "covers s (desktop_holds d)" using assms by (simp_all add: good_def)
  show ?thesis
  proof (cases "kb_action input")
    case KeyDown
    let ?s = "s\<lparr>is_pressed_keys := btree_insert ?code vk (is_pressed_keys s)\<rparr>"
    have inserted: "x \<in> set (btree_insert k v al) \<Longrightarrow> x = (k, v) \<or> x \<in> set al" for x k and v :: u16 and al :: "(ustring \<times> u16) list"
      by (induction k v al rule: btree_insert.induct) (auto split: if_splits)
    have "state_ok ?s"
      using S inserted by (fastforce simp: state_ok_def btree_insert_ok Some ve)
    moreover have "covers ?s (fold apply_input [KeyInput vk False e] (desktop_holds d))"
    proof -
      have ok: "btree_ok (is_pressed_keys s)" "btree_ok (is_pressed_keys ?s)" using S by (simp_all add: state_ok_def btree_insert_ok)
      have kept: "v \<in> snd ` set (is_pressed_keys ?s)" if "v \<in> insert vk (snd ` set (is_pressed_keys s))" for v
      proof -
        have "\<exists>c. map_of (is_pressed_keys ?s) c = Some v"
        proof (cases "v = vk")
          case True
          then show ?thesis using ok(1) by (auto simp: btree_insert_map)
        next
          case False
          with that obtain c where c: "(c, v) \<in> set (is_pressed_keys s)" by auto
          then have "c \<noteq> ?code" using S False by (auto simp: state_ok_def Some ve)
          moreover have "map_of (is_pressed_keys s) c = Some v"
            using c btree_ok_distinct [OF ok(1)] by simp
          ultimately show ?thesis using ok(1) by (auto simp: btree_insert_map)
        qed
        then show ?thesis by (force dest: map_of_SomeD)
      qed
      then have "insert vk (snd ` set (is_pressed_keys s)) \<subseteq> snd ` set (is_pressed_keys ?s)" by (rule subsetI)
      then have "insert vk (hd_keys (desktop_holds d)) \<subseteq> snd ` set (is_pressed_keys ?s)" using C by (simp add: covers_def) blast
      then show ?thesis using C by (simp add: covers_def pen_down_def)
    qed
    ultimately obtain d' where "send_native_inputs [KeyInput vk False e] ''SendInput(key down)'' d = (Ok (), d')" "good ?s d'"
      using send_good [OF assms] by blast
    then show ?thesis using Some ve KeyDown by (simp add: inject_keyboard_native_def)
  next
    case KeyUp
    let ?vk = "case map_of (is_pressed_keys s) ?code of Some v \<Rightarrow> v | None \<Rightarrow> vk"
    let ?s = "s\<lparr>is_pressed_keys := btree_remove ?code (is_pressed_keys s)\<rparr>"
    have vk: "?vk = vk"
      using S by (auto simp: state_ok_def Some ve split: option.splits dest!: map_of_SomeD)
    have "state_ok ?s"
      using S by (auto simp: state_ok_def btree_remove_ok) (auto simp: btree_remove_def)
    moreover have "covers ?s (fold apply_input [KeyInput ?vk True e] (desktop_holds d))"
    proof -
      have "v \<in> snd ` set (is_pressed_keys ?s)" if v: "v \<in> snd ` set (is_pressed_keys s)" "v \<noteq> vk" for v
      proof -
        obtain q where q: "q \<in> set (is_pressed_keys s)" "v = snd q" using v(1) by blast
        define c where "c = fst q"
        have c: "(c, v) \<in> set (is_pressed_keys s)" using q by (simp add: c_def)
        then have "c \<noteq> ?code" using S v(2) by (auto simp: state_ok_def Some ve)
        with c have "(c, v) \<in> set (is_pressed_keys ?s)" by (simp add: btree_remove_def)
        then show ?thesis by force
      qed
      then have "snd ` set (is_pressed_keys s) - {vk} \<subseteq> snd ` set (is_pressed_keys ?s)" by blast
      then have "hd_keys (desktop_holds d) - {vk} \<subseteq> snd ` set (is_pressed_keys ?s)" using C by (simp add: covers_def) blast
      then show ?thesis using C unfolding vk by (simp add: covers_def pen_down_def)
    qed
    ultimately obtain d' where "send_native_inputs [KeyInput ?vk True e] ''SendInput(key up)'' d = (Ok (), d')" "good ?s d'"
      using send_good [OF assms] by blast
    then show ?thesis using Some ve KeyUp by (simp add: inject_keyboard_native_def Let_def)
  qed
qed

lemma shrink_good:
  assumes "good s d" "hd_keys (fold apply_input inputs (desktop_holds d)) \<subseteq> hd_keys (desktop_holds d)"
    "hd_buttons (fold apply_input inputs (desktop_holds d)) = hd_buttons (desktop_holds d)"
    "hd_pen (fold apply_input inputs (desktop_holds d)) = hd_pen (desktop_holds d)"
    "hd_touches (fold apply_input inputs (desktop_holds d)) = hd_touches (desktop_holds d)"
  shows "\<exists>d'. send_native_inputs inputs c d = (Ok (), d') \<and> good s d'"
proof -
  have "covers s (fold apply_input inputs (desktop_holds d))" "state_ok s"
    using assms by (auto simp: good_def covers_def)
  then show ?thesis using send_good [OF assms(1)] by blast
qed

lemma inject_text_good: "good s d \<Longrightarrow> \<exists>d'. inject_text_native input d = (Ok (), d') \<and> good s d'"
  unfolding inject_text_native_def using text_held by (intro shrink_good) auto

lemma send_chord_good: "good s d \<Longrightarrow> \<exists>d'. send_chord ks d = (Ok (), d') \<and> good s d'"
  unfolding send_chord_def by (intro shrink_good) (auto simp: chord_held)

section \<open>Resetting\<close>

text \<open>
  A reset on a desktop that takes what it can fails only when the state lists more contacts than the
  touch device has.
\<close>

lemma reset_all_good:
  assumes "good (in_state j) d"
  shows "\<exists>r j' d'. reset_all j d = (r, j', d') \<and> good (in_state j') d' \<and> in_options j' = in_options j \<and>
    (is_ok r \<longleftrightarrow> length (is_touches (in_state j)) \<le> MAX_TOUCH_CONTACTS) \<and>
    (is_ok r \<longrightarrow> desktop_holds d' = nothing_held \<and> is_touches (in_state j') = []) \<and>
    (\<not> is_ok r \<longrightarrow> is_touches (in_state j') = is_touches (in_state j) \<and>
      hd_keys (desktop_holds d') = hd_keys (desktop_holds d) \<and> hd_buttons (desktop_holds d') = hd_buttons (desktop_holds d))"
proof -
  define s1 where "s1 = (in_state j)\<lparr>is_pen := None\<rparr>"
  obtain d1 where pen: "release_pen (in_state j) d = (Ok (), s1, d1)" "good s1 d1" "\<not> hd_pen (desktop_holds d1)"
    using release_pen_good [OF assms] by (auto simp: s1_def)
  have coop: "cooperative d" using assms by (simp add: good_def)
  have held1: "hd_keys (desktop_holds d1) = hd_keys (desktop_holds d)" "hd_buttons (desktop_holds d1) = hd_buttons (desktop_holds d)"
    using pen(1) inject_once_cooperative [OF coop]
    by (auto simp: release_pen_def Let_def apply_info_def release_info_def split: option.splits if_splits prod.splits)
  define frame where "frame = map (\<lambda>(i, active). touch_info active {FlagCanceled, FlagUp} (in_target_window j)) (is_touches s1)"
  have len: "length frame = length (is_touches (in_state j))" by (simp add: frame_def s1_def)
  have frame_held: "fold apply_info frame h = h\<lparr>hd_touches := hd_touches h - fst ` set (is_touches s1)\<rparr>" for h
  proof -
    have "\<forall>(i, a)\<in>set ts. ap_pointer_id a = i \<Longrightarrow>
      fold apply_info (map (\<lambda>(i, active). touch_info active {FlagCanceled, FlagUp} w) ts) h = h\<lparr>hd_touches := hd_touches h - fst ` set ts\<rparr>" for ts w
      by (induction ts arbitrary: h) (auto simp: apply_info_def touch_info_def Diff_insert2 [symmetric])
    then show ?thesis using pen(2) by (simp add: frame_def good_def state_ok_def)
  qed
  obtain injected d2 where o: "(if is_touches s1 = [] then (True, d1) else inject_once NativeTouch frame d1) = (injected, d2)" by fastforce
  have coop1: "cooperative d1" using pen(2) by (simp add: good_def)
  have sent: "cooperative d2 \<and> (injected \<longleftrightarrow> length frame \<le> MAX_TOUCH_CONTACTS) \<and>
      desktop_holds d2 = (if injected then fold apply_info frame (desktop_holds d1) else desktop_holds d1)"
    using o inject_once_cooperative [OF coop1, of NativeTouch frame] coop1
    by (cases "is_touches s1 = []") (auto simp: frame_def capacity_def)
  have step: "reset_all j d = (if \<not> injected then (Err (last_error (lit ''reset PT_TOUCH'') (next_answer d1)), j\<lparr>in_state := s1\<rparr>, d2)
    else (let (r, s, d) = release_remote_state (s1\<lparr>is_touches := []\<rparr>) d2 in (r, j\<lparr>in_state := s\<rparr>, d)))"
    using o by (cases "is_touches s1 = []") (auto simp: reset_all_def pen(1) Let_def frame_def [symmetric])
  show ?thesis
  proof (cases injected)
    case False
    then have "reset_all j d = (Err (last_error (lit ''reset PT_TOUCH'') (next_answer d1)), j\<lparr>in_state := s1\<rparr>, d2)"
      by (simp add: step)
    then show ?thesis using False sent len pen(2) held1 by (simp add: good_def s1_def)
  next
    case True
    let ?s = "s1\<lparr>is_touches := []\<rparr>"
    have G: "good ?s d2" and T: "hd_touches (desktop_holds d2) = {}" and P: "\<not> hd_pen (desktop_holds d2)"
      using True sent pen(2,3) by (auto simp: good_def covers_def state_ok_def frame_held pen_down_def)
    obtain s' d' where R: "release_remote_state ?s d2 = (Ok (), s', d')" "good s' d'" "is_touches s' = []" "is_pen s' = None"
        "hd_keys (desktop_holds d') = {}" "hd_buttons (desktop_holds d') = {}"
      using release_remote_good [OF G] by (auto simp: s1_def)
    have "desktop_holds d' = nothing_held"
      using R by (intro held.equality) (simp_all add: nothing_held_def good_def covers_def pen_down_def)
    moreover have "reset_all j d = (Ok (), j\<lparr>in_state := s'\<rparr>, d')"
      using True R(1) by (simp add: step)
    ultimately show ?thesis using True sent len R by simp
  qed
qed

end
