(* ===== verification/Injector_Sink.thy ===== *)
theory Injector_Sink
  imports Injection
begin

text \<open>
  \<open>impl InputSink for PointerInjector\<close> as an implementation of the trait, the interpretation of the
  contract \<open>releasing_sink\<close> on it, and what follows for whole histories of calls: a reset that
  succeeds leaves nothing pressed, disabled devices stay silent, and the cases in which releasing
  goes wrong.
\<close>

section \<open>The implementation\<close>

definition on_pair :: "(pointer_injector \<Rightarrow> desktop \<Rightarrow> (unit, ustring) result \<times> pointer_injector \<times> desktop) \<Rightarrow>
    pointer_injector \<times> desktop \<Rightarrow> (unit, ustring) result \<times> pointer_injector \<times> desktop" where
  "on_pair f s = f (fst s) (snd s)"

definition injector_sink :: "(pointer_injector \<times> desktop) input_sink" where
  "injector_sink = \<lparr>
     sk_inject_batch = \<lambda>b. on_pair (inject_batch b),
     sk_inject_wheel = \<lambda>w. on_pair (inject_wheel w),
     sk_inject_keyboard = \<lambda>k. on_pair (inject_keyboard k),
     sk_inject_text = \<lambda>t. on_pair (inject_text t),
     sk_inject_command = \<lambda>c. on_pair (inject_command c),
     sk_reset_all = on_pair reset_all,
     sk_set_remote_input_options = \<lambda>t g. on_pair (set_remote_input_options t g)\<rparr>"

lemma injector_sink_simps [simp]:
  "sk_inject_batch injector_sink b (j, d) = inject_batch b j d"
  "sk_inject_wheel injector_sink w (j, d) = inject_wheel w j d"
  "sk_inject_keyboard injector_sink k (j, d) = inject_keyboard k j d"
  "sk_inject_text injector_sink t (j, d) = inject_text t j d"
  "sk_inject_command injector_sink c (j, d) = inject_command c j d"
  "sk_reset_all injector_sink (j, d) = reset_all j d"
  "sk_set_remote_input_options injector_sink tch g (j, d) = set_remote_input_options tch g j d"
  by (simp_all add: injector_sink_def on_pair_def)

section \<open>The contract holds\<close>

definition sound_injector :: "pointer_injector \<times> desktop \<Rightarrow> bool" where
  "sound_injector s \<longleftrightarrow> good (in_state (fst s)) (snd s)"

definition polite_call :: "sink_call \<Rightarrow> bool" where
  "polite_call c = (case c of CallMessage (Pointer b) \<Rightarrow> (\<forall>p\<in>set (samples b). polite_sample p) | _ \<Rightarrow> True)"

definition desktop_free :: "pointer_injector \<times> desktop \<Rightarrow> bool" where
  "desktop_free s \<longleftrightarrow> desktop_holds (snd s) = nothing_held"

lemma inject_sample_good:
  assumes "good s d" "polite_sample p"
  shows "\<exists>r s' d'. inject_sample j p s d = (r, s', d') \<and> good s' d'"
proof (cases "device_type p")
  case Pen
  then show ?thesis using inject_pen_good [OF assms(1), of p "target_point j (x_norm p) (y_norm p)" "in_target_window j"] assms(1) by (auto simp: inject_sample_def Let_def)
next
  case Touch
  then show ?thesis using inject_touch_good [OF assms(1), of p "target_point j (x_norm p) (y_norm p)" "in_target_window j"] assms(1) by (auto simp: inject_sample_def Let_def)
next
  case Mouse
  then show ?thesis
    using inject_mouse_good [OF assms(1), of p "target_point j (x_norm p) (y_norm p)"] assms by (auto simp: inject_sample_def Let_def polite_sample_def)
qed

lemma inject_samples_good:
  assumes "good s d" "\<forall>p\<in>set ps. polite_sample p"
  shows "\<exists>r s' d'. inject_samples j ps s d = (r, s', d') \<and> good s' d'"
  using assms
proof (induction ps arbitrary: s d)
  case (Cons p ps)
  obtain r s' d' where "inject_sample j p s d = (r, s', d')" "good s' d'"
    using inject_sample_good [OF Cons.prems(1), of p j] Cons.prems(2) by auto
  with Cons show ?case by (cases r) auto
qed simp

lemma with_state_good:
  "\<exists>r s d. x = (r, s, d) \<and> good s d \<Longrightarrow> sound_injector (snd (with_state j x))"
  by (auto simp: with_state_def sound_injector_def)

lemma keep_good:
  "good (in_state j) (snd x) \<Longrightarrow> sound_injector (snd (keep_injector j x))"
  by (simp add: keep_injector_def sound_injector_def)

lemma injector_call_sound:
  assumes "sound_injector s" "polite_call c"
  shows "sound_injector (snd (sink_call_run injector_sink c s))"
proof -
  obtain j d where s: "s = (j, d)" by fastforce
  have G: "good (in_state j) d" using assms(1) by (simp add: s sound_injector_def)
  have reset: "sound_injector (snd (reset_all j d))"
    using reset_all_good [OF G] by (auto simp: sound_injector_def)
  have chord: "sound_injector (snd (keep_injector j (send_chord ks d)))" for ks
    using send_chord_good [OF G, of ks] by (auto intro: keep_good)
  have message: "sound_injector (snd (deliver injector_sink msg (j, d)))" if "polite_call (CallMessage msg)" for msg
  proof (cases msg)
    case (Pointer b)
    then have "\<forall>p\<in>set (samples b). polite_sample p" using that by (simp add: polite_call_def)
    from inject_samples_good [OF G this, of j] show ?thesis
      unfolding Pointer deliver.simps injector_sink_simps inject_batch_def by (intro with_state_good) blast
  next
    case (Wheel w)
    have "sound_injector (snd (with_state j (inject_wheel_native (in_state j) w p d)))" for p
      using inject_wheel_good [OF G, of w p] by (intro with_state_good) blast
    then show ?thesis using assms(1) by (simp add: Wheel inject_wheel_def s)
  next
    case (Keyboard k)
    have "sound_injector (snd (with_state j (inject_keyboard_native (in_state j) k d)))"
      using inject_keyboard_good [OF G, of k] by (intro with_state_good) blast
    then show ?thesis using assms(1) by (simp add: Keyboard inject_keyboard_def s)
  next
    case (Text t)
    have "sound_injector (snd (keep_injector j (inject_text_native t d)))"
      using inject_text_good [OF G, of t] by (auto intro: keep_good)
    then show ?thesis using assms(1) by (simp add: Text inject_text_def s)
  next
    case (Command c)
    have "sound_injector (snd (inject_command_native j (cm_command c) d))"
      using reset chord G by (auto simp: inject_command_native_def keep_injector_def sound_injector_def split: remote_command.split)
    then show ?thesis using assms(1) by (simp add: Command inject_command_def s)
  qed
  have "sound_injector (snd (set_remote_input_options t g j d))" for t g
    using reset by (cases "reset_all j d") (auto simp: set_remote_input_options_def sound_injector_def split: result.split)
  then show ?thesis
    using assms(2) reset message by (cases c) (auto simp: s)
qed

interpretation native_sink: releasing_sink injector_sink sound_injector polite_call desktop_free
proof
  fix s t assume "sound_injector s" "sk_reset_all injector_sink s = (Ok (), t)"
  moreover obtain j d where "s = (j, d)" by fastforce
  ultimately show "desktop_free t"
    using reset_all_good [of j d] by (auto simp: sound_injector_def desktop_free_def)
qed (auto intro: injector_call_sound simp: polite_call_def)

definition fresh_injector :: "pointer_injector \<Rightarrow> desktop \<Rightarrow> bool" where
  "fresh_injector j d \<longleftrightarrow> in_state j = initial_injector_state \<and> dk_log d = []"

lemma fresh_sound: "fresh_injector j d \<Longrightarrow> cooperative d \<Longrightarrow> sound_injector (j, d)"
  by (simp add: sound_injector_def good_def fresh_injector_def state_ok_def initial_injector_state_def desktop_holds_def held_after_def
      covers_nothing)

lemma injector_new_fresh: "injector_new True True t g opts = Ok j \<Longrightarrow> dk_log d = [] \<Longrightarrow> fresh_injector j d"
  by (auto simp: injector_new_def fresh_injector_def)

lemma reset_effect:
  assumes "fresh_injector j d" "cooperative d" "\<forall>c\<in>set cs. polite_call c"
    and "sink_history injector_sink cs (j, d) = (j1, d1)" "reset_all j1 d1 = (r, j2, d2)"
  shows "(r = Ok () \<longleftrightarrow> length (is_touches (in_state j1)) \<le> 10) \<and> (r = Ok () \<longrightarrow> desktop_holds d2 = nothing_held) \<and>
    hd_keys (desktop_holds d1) \<subseteq> snd ` set (is_pressed_keys (in_state j1))"
proof -
  have "sound_injector (j1, d1)"
    using native_sink.history_sound [OF fresh_sound [OF assms(1,2)] assms(3)] assms(4) by simp
  then have G: "good (in_state j1) d1" by (simp add: sound_injector_def)
  have "is_ok r \<longleftrightarrow> r = Ok ()" by (cases r) auto
  with reset_all_good [OF G] assms(5) G show ?thesis by (auto simp: MAX_TOUCH_CONTACTS_def good_def covers_def)
qed

section \<open>What reaches the desktop\<close>

text \<open>The events an injector with the given options may emit on behalf of a message.\<close>

definition allowed :: "injector_options \<Rightarrow> native_event \<Rightarrow> bool" where
  "allowed opts e =
     (case e of
        InputEvent (MouseInput dx dy data fl) \<Rightarrow> io_mouse_enabled opts
      | InputEvent (KeyInput vk up ext) \<Rightarrow> io_keyboard_enabled opts \<or> io_gestures_enabled opts
      | InputEvent (UnicodeInput u up) \<Rightarrow> io_keyboard_enabled opts
      | FrameEvent infos \<Rightarrow> \<forall>i\<in>set infos. (case pi_device i of NativePen \<Rightarrow> io_pen_enabled opts | NativeTouch \<Rightarrow> io_touch_enabled opts))"

definition emits :: "(native_event \<Rightarrow> bool) \<Rightarrow> desktop \<Rightarrow> desktop \<Rightarrow> bool" where
  "emits P d d' \<longleftrightarrow> (\<exists>es. dk_log d' = dk_log d @ es \<and> (\<forall>e\<in>set es. P e))"

lemma emits_refl [simp]: "emits P d d"
  by (simp add: emits_def)

lemma emits_trans: "emits P d d1 \<Longrightarrow> emits P d1 d2 \<Longrightarrow> emits P d d2"
  by (force simp: emits_def)

lemma emits_send: "\<forall>i\<in>set inputs. P (InputEvent i) \<Longrightarrow> emits P d (snd (send_native_inputs inputs c d))"
  by (auto simp: send_native_inputs_def Let_def emits_def dest: in_set_takeD)

lemma emits_once: "P (FrameEvent infos) \<Longrightarrow> emits P d (snd (inject_once dev infos d))"
  by (auto simp: inject_once_def Let_def emits_def)

lemma emits_retry: "P (FrameEvent infos) \<Longrightarrow> emits P d (snd (inject_with_retry dev infos c i d))"
proof (induction dev infos c i d rule: inject_with_retry.induct)
  case (1 dev infos c i d)
  obtain injected d1 where o: "inject_once dev infos d = (injected, d1)" by fastforce
  have E: "emits P d d1" using emits_once [of P infos d dev] 1(2) o by simp
  show ?case
  proof (cases "injected \<or> an_code (next_answer d) \<noteq> ERROR_NOT_READY \<or>
      INJECTION_RETRY_LIMIT \<le> INJECTION_RETRY_BACKOFF * i + an_extra (next_answer d)")
    case True
    with E o show ?thesis by (subst inject_with_retry.simps) (auto simp: Let_def)
  next
    case False
    then have "emits P d1 (snd (inject_with_retry dev infos c (i + 1) d1))"
      using 1(1) [OF refl o [symmetric] refl] 1(2) by blast
    with E False o show ?thesis by (subst inject_with_retry.simps) (auto simp: Let_def intro: emits_trans)
  qed
qed

lemma emits_once_eq: "inject_once dev infos d = (r, d') \<Longrightarrow> P (FrameEvent infos) \<Longrightarrow> emits P d d'"
  using emits_once [of P infos d dev] by simp

lemma emits_retry_eq: "inject_with_retry dev infos c i d = (r, d') \<Longrightarrow> P (FrameEvent infos) \<Longrightarrow> emits P d d'"
  using emits_retry [of P infos d dev c i] by simp

lemma emits_send_eq: "send_native_inputs inputs c d = (r, d') \<Longrightarrow> \<forall>i\<in>set inputs. P (InputEvent i) \<Longrightarrow> emits P d d'"
  using emits_send [of inputs P d c] by simp

lemma emits_release_pen:
  assumes "io_pen_enabled opts" "release_pen s d = (r, s', d')"
  shows "emits (allowed opts) d d'"
proof -
  have "allowed opts (FrameEvent [release_info a])" for a
    using assms(1) by (simp add: allowed_def release_info_def)
  then show ?thesis
    using assms(2) by (auto simp: release_pen_def Let_def intro: emits_once_eq split: option.splits prod.splits if_splits)
qed

lemma emits_pen:
  assumes on: "io_pen_enabled opts" and run: "inject_pen s p point w d = (r, s', d')"
  shows "emits (allowed opts) d d'"
proof -
  obtain r1 s1 d1 where R: "(if case is_pen s of Some a \<Rightarrow> ap_pointer_id a \<noteq> pointer_id p | None \<Rightarrow> False
      then release_pen s d else (Ok (), s, d)) = (r1, s1, d1)"
    using prod_cases3 by blast
  have E: "emits (allowed opts) d d1"
    using R emits_release_pen [OF on, of s d r1 s1 d1] by (auto split: if_splits)
  have retry: "emits (allowed opts) d1 d2" if "inject_with_retry NativePen [i] c n d1 = (x, d2)" "pi_device i = NativePen" for i c n x d2
    by (rule emits_retry_eq [OF that(1)]) (use that(2) on in \<open>simp add: allowed_def\<close>)
  have "emits (allowed opts) d1 d'"
  proof (cases r1)
    case (Ok u)
    show ?thesis
      using run unfolding inject_pen_def R Let_def
      by (auto simp: Ok intro: retry split: prod.splits result.splits)
  qed (use run in \<open>simp add: inject_pen_def R\<close>)
  with E show ?thesis by (rule emits_trans)
qed

lemma emits_touch:
  assumes on: "io_touch_enabled opts" and run: "inject_touch s p point w d = (r, s', d')"
  shows "emits (allowed opts) d d'"
proof -
  have frame: "allowed opts (FrameEvent (touch_contacts ts uid a w))" for ts uid a
    using on by (auto simp: allowed_def touch_contacts_def touch_info_def split: option.splits if_splits)
  have extra: "allowed opts (FrameEvent (f1 @ f2))" if "allowed opts (FrameEvent f1)" "allowed opts (FrameEvent f2)" for f1 f2
    using that by (auto simp: allowed_def)
  have one: "allowed opts (FrameEvent [touch_info a fl w])" "allowed opts (FrameEvent [])" for a fl
    using on by (auto simp: allowed_def touch_info_def)
  show ?thesis
    using run unfolding inject_touch_def Let_def
    by (auto intro!: extra frame one intro: emits_retry_eq split: prod.splits result.splits if_split_asm)
qed

lemma button_changes_mouse: "i \<in> set (mouse_button_changes p c) \<Longrightarrow> \<exists>dx dy v fl. i = MouseInput dx dy v fl"
proof -
  have "\<exists>dx dy v fl. x = MouseInput dx dy v fl" if "x \<in> set (append_button p c m dn up v)" for x m dn up v
    using that by (auto simp: append_button_def split: if_splits)
  then show "i \<in> set (mouse_button_changes p c) \<Longrightarrow> ?thesis"
    unfolding mouse_button_changes_def set_append Un_iff by blast
qed

lemma move_mouse: "\<exists>dx dy v fl. mouse_move_input p d = MouseInput dx dy v fl"
  by (auto simp: mouse_move_input_def split_beta)

lemma allowed_mouse: "io_mouse_enabled opts \<Longrightarrow> \<exists>dx dy v fl. i = MouseInput dx dy v fl \<Longrightarrow> allowed opts (InputEvent i)"
  by (auto simp: allowed_def)

lemma emits_mouse:
  assumes on: "io_mouse_enabled opts" and run: "inject_mouse s p point d = (r, s', d')"
  shows "emits (allowed opts) d d'"
proof -
  have "\<forall>i\<in>set ((if action p \<noteq> Cancel then [mouse_move_input point d] else []) @ mouse_button_changes (is_mouse_buttons s) (flags p)).
      allowed opts (InputEvent i)"
    using allowed_mouse [OF on] move_mouse button_changes_mouse by auto
  with run show ?thesis
    by (auto simp: inject_mouse_def Let_def intro: emits_send_eq split: prod.splits result.splits)
qed

lemma emits_wheel:
  assumes on: "io_mouse_enabled opts" and run: "inject_wheel_native s w point d = (r, s', d')"
  shows "emits (allowed opts) d d'"
proof -
  have "allowed opts (InputEvent (mouse_move_input point d))" "allowed opts (InputEvent (MouseInput 0 0 v fl))" for v fl
    using allowed_mouse [OF on] move_mouse by auto
  with run show ?thesis
    by (auto simp: inject_wheel_native_def Let_def intro!: emits_send_eq split: prod.splits if_split_asm)
qed

lemma emits_keyboard:
  assumes on: "io_keyboard_enabled opts" and run: "inject_keyboard_native s k d = (r, s', d')"
  shows "emits (allowed opts) d d'"
proof -
  have "allowed opts (InputEvent (KeyInput vk up e))" for vk up e
    using on by (simp add: allowed_def)
  with run show ?thesis
    by (auto simp: inject_keyboard_native_def Let_def intro!: emits_send_eq split: prod.splits option.splits key_action.splits result.splits)
qed

lemma emits_text:
  assumes on: "io_keyboard_enabled opts" and run: "inject_text_native t d = (r, d')"
  shows "emits (allowed opts) d d'"
proof -
  have "i \<in> set (text_inputs cr cs) \<Longrightarrow> allowed opts (InputEvent i)" for i cr cs
    by (induction cr cs rule: text_inputs.induct) (auto simp: allowed_def on split: if_splits)
  with run show ?thesis
    by (auto simp: inject_text_native_def intro: emits_send_eq)
qed

lemma emits_chord:
  assumes on: "io_gestures_enabled opts" and run: "send_chord ks d = (r, d')"
  shows "emits (allowed opts) d d'"
proof -
  have "\<forall>i\<in>set (chord_inputs ks). allowed opts (InputEvent i)"
    using on by (auto simp: chord_inputs_def allowed_def)
  with run show ?thesis
    by (auto simp: send_chord_def intro: emits_send_eq)
qed

lemma emits_sample:
  assumes "inject_sample j p s d = (r, s', d')"
  shows "emits (allowed (in_options j)) d d'"
  using assms by (auto simp: inject_sample_def Let_def intro: emits_pen emits_touch emits_mouse split: device_type.splits if_splits)

lemma emits_samples: "inject_samples j ps s d = (r, s', d') \<Longrightarrow> emits (allowed (in_options j)) d d'"
proof (induction ps arbitrary: s d)
  case (Cons p ps)
  obtain r1 s1 d1 where one: "inject_sample j p s d = (r1, s1, d1)" using prod_cases3 by blast
  show ?case
    using Cons.IH [of s1 d1] Cons.prems emits_sample [OF one] by (cases r1) (auto simp: one intro: emits_trans)
qed simp

lemma message_events:
  assumes "\<forall>c. msg = Command c \<longrightarrow> cm_command c \<noteq> ResetInput" "deliver injector_sink msg (j, d) = (r, j', d')"
  shows "emits (allowed (in_options j)) d d' \<and> in_options j' = in_options j"
proof (cases msg)
  case (Pointer b)
  with assms(2) show ?thesis by (auto simp: inject_batch_def with_state_def intro: emits_samples split: prod.splits)
next
  case (Wheel w)
  with assms(2) show ?thesis by (auto simp: inject_wheel_def with_state_def intro: emits_wheel split: prod.splits if_splits)
next
  case (Keyboard k)
  with assms(2) show ?thesis by (auto simp: inject_keyboard_def with_state_def intro: emits_keyboard split: prod.splits if_splits)
next
  case (Text t)
  with assms(2) show ?thesis by (cases "inject_text_native t d") (auto simp: inject_text_def keep_injector_def intro: emits_text split: if_splits)
next
  case (Command c)
  then have c: "cm_command c \<noteq> ResetInput" using assms(1) by simp
  have chord: "emits (allowed (in_options j)) d (snd (send_chord ks d))" if "io_gestures_enabled (in_options j)" for ks
    using emits_chord [OF that, of ks d] by (cases "send_chord ks d") auto
  show ?thesis
    using assms(2) c Command chord
    by (auto simp: inject_command_def inject_command_native_def keep_injector_def split: if_splits remote_command.splits)
qed

section \<open>The eleventh contact\<close>

lemma once_within: "inject_once dev infos d = (True, d') \<Longrightarrow> length infos \<le> capacity dev"
  by (auto simp: inject_once_def Let_def split: if_splits)

lemma retry_within: "inject_with_retry dev infos c i d = (Ok u, d') \<Longrightarrow> length infos \<le> capacity dev"
proof (induction dev infos c i d rule: inject_with_retry.induct)
  case (1 dev infos c i d)
  obtain injected d1 where o: "inject_once dev infos d = (injected, d1)" by fastforce
  show ?case
  proof (cases "injected \<or> an_code (next_answer d) \<noteq> ERROR_NOT_READY \<or>
      INJECTION_RETRY_LIMIT \<le> INJECTION_RETRY_BACKOFF * i + an_extra (next_answer d)")
    case True
    with 1(2) o show ?thesis by (subst (asm) inject_with_retry.simps) (auto simp: Let_def intro: once_within split: if_splits)
  next
    case False
    then have "inject_with_retry dev infos c (i + 1) d1 = (Ok u, d')"
      using 1(2) o by (subst (asm) inject_with_retry.simps) (auto simp: Let_def)
    with False show ?thesis using 1(1) [OF refl o [symmetric] refl] by blast
  qed
qed

definition wedged :: "pointer_injector \<Rightarrow> bool" where
  "wedged j \<longleftrightarrow> 10 < length (is_touches (in_state j))"

lemma touch_contacts_all:
  "a \<noteq> Hover \<Longrightarrow> length (touch_contacts ts uid a w) = length ts"
  by (induction ts) (auto simp: touch_contacts_def touch_flags_def split: action.splits)

lemma inject_touch_form:
  obtains contact more r1 d1 s1 where
    "s1 = (if action p \<in> {Down, Move} then s\<lparr>is_touches := btree_insert (max (pointer_id p) 1) contact (is_touches s)\<rparr> else s)"
    "touch_contacts (is_touches s1) (max (pointer_id p) 1) (action p) w @ more \<noteq> [] \<longrightarrow>
       inject_with_retry NativeTouch (touch_contacts (is_touches s1) (max (pointer_id p) 1) (action p) w @ more)
         (lit ''InjectSyntheticPointerInput(PT_TOUCH)'') 0 d = (r1, d1)"
    "inject_touch s p point w d = (case r1 of Err e \<Rightarrow> (Err e, s1, d1)
       | Ok _ \<Rightarrow> (Ok (), if is_terminal (action p) then s1\<lparr>is_touches := btree_remove (max (pointer_id p) 1) (is_touches s1)\<rparr> else s1, d1))"
proof -
  let ?uid = "max (pointer_id p) 1"
  let ?contact = "\<lparr>ap_pointer_id = ?uid, ap_point = point, ap_pressure = max (pressure_u32 p) 1, ap_tilt_x = 0, ap_tilt_y = 0,
            ap_down = True\<rparr>"
  let ?s1 = "if action p \<in> {Down, Move} then s\<lparr>is_touches := btree_insert ?uid ?contact (is_touches s)\<rparr> else s"
  let ?more = "if is_terminal (action p) \<and> ?uid \<notin> fst ` set (is_touches ?s1)
             then [touch_info \<lparr>ap_pointer_id = ?uid, ap_point = point, ap_pressure = 1, ap_tilt_x = 0, ap_tilt_y = 0, ap_down = False\<rparr>
                    (if action p = Cancel then {FlagUp, FlagCanceled} else {FlagUp}) w] else []"
  let ?frame = "touch_contacts (is_touches ?s1) ?uid (action p) w @ ?more"
  obtain r1 d1 where o: "(if ?frame = [] then (Ok (), d)
      else inject_with_retry NativeTouch ?frame (lit ''InjectSyntheticPointerInput(PT_TOUCH)'') 0 d) = (r1, d1)"
    by fastforce
  show thesis
  proof (rule that [of ?s1 ?contact ?more r1 d1])
    show "inject_touch s p point w d = (case r1 of Err e \<Rightarrow> (Err e, ?s1, d1)
       | Ok _ \<Rightarrow> (Ok (), if is_terminal (action p) then ?s1\<lparr>is_touches := btree_remove ?uid (is_touches ?s1)\<rparr> else ?s1, d1))"
      unfolding inject_touch_def Let_def o by simp
    show "?frame \<noteq> [] \<longrightarrow> inject_with_retry NativeTouch ?frame (lit ''InjectSyntheticPointerInput(PT_TOUCH)'') 0 d = (r1, d1)"
    proof
      assume "?frame \<noteq> []"
      from o [unfolded if_not_P [OF this]]
      show "inject_with_retry NativeTouch ?frame (lit ''InjectSyntheticPointerInput(PT_TOUCH)'') 0 d = (r1, d1)" .
    qed
  qed (rule refl)
qed

lemma inject_touch_wedged:
  assumes "10 < length (is_touches s)" "inject_touch s p point w d = (r, s', d')"
  shows "10 < length (is_touches s') \<and> (action p \<noteq> Hover \<longrightarrow> \<not> is_ok r)"
proof -
  obtain contact more r1 d1 s1 where F:
    "s1 = (if action p \<in> {Down, Move} then s\<lparr>is_touches := btree_insert (max (pointer_id p) 1) contact (is_touches s)\<rparr> else s)"
    "touch_contacts (is_touches s1) (max (pointer_id p) 1) (action p) w @ more \<noteq> [] \<longrightarrow>
       inject_with_retry NativeTouch (touch_contacts (is_touches s1) (max (pointer_id p) 1) (action p) w @ more)
         (lit ''InjectSyntheticPointerInput(PT_TOUCH)'') 0 d = (r1, d1)"
    "inject_touch s p point w d = (case r1 of Err e \<Rightarrow> (Err e, s1, d1)
       | Ok _ \<Rightarrow> (Ok (), if is_terminal (action p) then s1\<lparr>is_touches := btree_remove (max (pointer_id p) 1) (is_touches s1)\<rparr> else s1, d1))"
    by (rule inject_touch_form [of p s w d point])
  have many: "10 < length (is_touches s1)"
    using assms(1) btree_insert_length(1) [of "is_touches s" "max (pointer_id p) 1" contact] by (simp add: F(1))
  have stuck: "\<not> is_ok r1" if "action p \<noteq> Hover"
  proof -
    have "10 < length (touch_contacts (is_touches s1) (max (pointer_id p) 1) (action p) w @ more)"
      using many touch_contacts_all [OF that, of "is_touches s1"] by simp
    with F(2) retry_within [of NativeTouch _ _ 0 d _ d1] show ?thesis
      by (cases r1) (force simp: capacity_def MAX_TOUCH_CONTACTS_def)+
  qed
  show ?thesis
  proof (cases "action p = Hover")
    case True
    then show ?thesis using F(3) assms(2) many by (cases r1) (simp_all add: is_terminal_def)
  next
    case False
    then show ?thesis using F(3) assms(2) many stuck by (cases r1) simp_all
  qed
qed

lemma release_pen_touches: "release_pen s d = (r, s', d') \<Longrightarrow> s' = s\<lparr>is_pen := None\<rparr>"
  by (auto simp: release_pen_def Let_def split: option.splits if_splits prod.splits)

lemma inject_pen_touches: "inject_pen s p point w d = (r, s', d') \<Longrightarrow> is_touches s' = is_touches s"
proof -
  assume run: "inject_pen s p point w d = (r, s', d')"
  obtain r1 s1 d1 where R: "(if case is_pen s of Some a \<Rightarrow> ap_pointer_id a \<noteq> pointer_id p | None \<Rightarrow> False
      then release_pen s d else (Ok (), s, d)) = (r1, s1, d1)"
    using prod_cases3 by blast
  have "is_touches s1 = is_touches s"
    using R release_pen_touches [of s d r1 s1 d1] by (simp split: if_splits)
  then show ?thesis
    using run unfolding inject_pen_def R Let_def by (auto split: prod.splits result.splits)
qed

lemma other_touches:
  "inject_mouse s p point d = (r, s', d') \<Longrightarrow> is_touches s' = is_touches s"
  "inject_wheel_native s i point d = (r, s', d') \<Longrightarrow> is_touches s' = is_touches s"
  "inject_keyboard_native s k d = (r, s', d') \<Longrightarrow> is_touches s' = is_touches s"
  by (auto simp: inject_mouse_def inject_wheel_native_def inject_keyboard_native_def Let_def
      split: prod.splits result.splits option.splits key_action.splits)

lemma inject_sample_wedged:
  assumes "10 < length (is_touches s)" "inject_sample j p s d = (r, s', d')"
  shows "10 < length (is_touches s')"
  using assms inject_touch_wedged [OF assms(1)] inject_pen_touches other_touches(1)
  by (auto simp: inject_sample_def Let_def split: device_type.splits if_splits) (metis+)?

lemma inject_samples_wedged: "10 < length (is_touches s) \<Longrightarrow> inject_samples j ps s d = (r, s', d') \<Longrightarrow> 10 < length (is_touches s')"
proof (induction ps arbitrary: s d)
  case (Cons p ps)
  obtain r1 s1 d1 where one: "inject_sample j p s d = (r1, s1, d1)" using prod_cases3 by blast
  show ?case
    using Cons.IH [of s1 d1] Cons.prems inject_sample_wedged [OF Cons.prems(1) one] by (cases r1) (auto simp: one)
qed simp

lemma reset_wedged:
  assumes "wedged j" "reset_all j d = (r, j', d')"
  shows "\<not> is_ok r \<and> j' = j\<lparr>in_state := (in_state j)\<lparr>is_pen := None\<rparr>\<rparr>"
proof -
  obtain r1 s1 d1 where R: "release_pen (in_state j) d = (r1, s1, d1)" using prod_cases3 by blast
  have s1: "s1 = (in_state j)\<lparr>is_pen := None\<rparr>" using release_pen_touches [OF R] .
  define frame where "frame = map (\<lambda>(i, active). touch_info active {FlagCanceled, FlagUp} (in_target_window j)) (is_touches s1)"
  obtain injected d2 where o: "inject_once NativeTouch frame d1 = (injected, d2)" by fastforce
  have many: "10 < length frame" "is_touches s1 \<noteq> []" using assms(1) by (auto simp: frame_def s1 wedged_def)
  then have "\<not> injected" using o once_within [of NativeTouch frame d1 d2] by (auto simp: capacity_def MAX_TOUCH_CONTACTS_def)
  then have "reset_all j d = (case r1 of Err e \<Rightarrow> (Err e, j\<lparr>in_state := s1\<rparr>, d1)
    | Ok _ \<Rightarrow> (Err (last_error (lit ''reset PT_TOUCH'') (next_answer d1)), j\<lparr>in_state := s1\<rparr>, d2))"
    unfolding reset_all_def R by (cases r1) (simp_all add: Let_def frame_def [symmetric] o many(2))
  then show ?thesis
    using assms(2) by (cases r1) (auto simp: s1)
qed

lemma wedged_call:
  assumes "wedged j" "sink_call_run injector_sink c (j, d) = (r, j', d')"
  shows "wedged j' \<and> in_options j' = in_options j"
proof -
  have reset: "wedged j1 \<and> in_options j1 = in_options j" if "reset_all j d = (r1, j1, d1)" for r1 j1 d1
    using reset_wedged [OF assms(1) that] assms(1) by (simp add: wedged_def)
  have state: "wedged j' \<and> in_options j' = in_options j" if "with_state j x = (r, j', d')" "10 < length (is_touches (fst (snd x)))" for x
    using that by (auto simp: with_state_def wedged_def split: prod.splits)
  have kept: "wedged j' \<and> in_options j' = in_options j" if "keep_injector j x = (r, j', d')" for x
    using that assms(1) by (auto simp: keep_injector_def)
  have s: "10 < length (is_touches (in_state j))" using assms(1) by (simp add: wedged_def)
  show ?thesis
  proof (cases c)
    case (CallMessage msg)
    show ?thesis
    proof (cases msg)
      case (Pointer b)
      have "10 < length (is_touches (fst (snd (inject_samples j (samples b) (in_state j) d))))"
        using inject_samples_wedged [OF s] by (cases "inject_samples j (samples b) (in_state j) d") auto
      then show ?thesis using assms(2) state by (simp add: CallMessage Pointer inject_batch_def)
    next
      case (Wheel w)
      have "10 < length (is_touches (fst (snd (inject_wheel_native (in_state j) w p d))))" for p
        using other_touches(2) s by (cases "inject_wheel_native (in_state j) w p d") auto
      then show ?thesis using assms state by (auto simp: CallMessage Wheel inject_wheel_def split: if_splits)
    next
      case (Keyboard k)
      have "10 < length (is_touches (fst (snd (inject_keyboard_native (in_state j) k d))))"
        using other_touches(3) s by (cases "inject_keyboard_native (in_state j) k d") auto
      then show ?thesis using assms state by (auto simp: CallMessage Keyboard inject_keyboard_def split: if_splits)
    next
      case (Text t)
      then show ?thesis using assms kept by (auto simp: CallMessage Text inject_text_def split: if_splits)
    next
      case (Command m)
      then show ?thesis using assms kept reset
        by (auto simp: CallMessage inject_command_def inject_command_native_def split: if_splits remote_command.splits)
    qed
  next
    case CallReset
    then show ?thesis using assms(2) reset by simp
  next
    case (CallOptions t g)
    obtain r1 j1 d1 where R: "reset_all j d = (r1, j1, d1)" using prod_cases3 by blast
    then show ?thesis
      using assms(2) reset [OF R] reset_wedged [OF assms(1) R] by (cases r1) (auto simp: CallOptions set_remote_input_options_def)
  qed
qed

lemma wedged_history:
  "wedged j \<Longrightarrow> sink_history injector_sink cs (j, d) = (j', d') \<Longrightarrow> wedged j' \<and> in_options j' = in_options j"
proof (induction cs arbitrary: j d)
  case (Cons c cs)
  obtain r j1 d1 where one: "sink_call_run injector_sink c (j, d) = (r, j1, d1)" using prod_cases3 by blast
  show ?case using Cons.IH [of j1 d1] Cons.prems wedged_call [OF Cons.prems(1) one] one by simp
qed simp

text \<open>A finger that goes down is remembered whether or not the desktop accepted it.\<close>

definition touch_down :: "u32 \<Rightarrow> pointer_sample \<Rightarrow> sink_call" where
  "touch_down n p = CallMessage (Pointer \<lparr>batch_sequence = n, client_send_time_ms = 0, samples = [p]\<rparr>)"

lemma touch_down_remembered:
  assumes "io_touch_enabled (in_options j)" "\<not> pen_down (in_state j)" "device_type p = Touch" "action p = Down"
    and "sink_call_run injector_sink (touch_down n p) (j, d) = (r, j', d')"
  shows "fst ` set (is_touches (in_state j')) = insert (max (pointer_id p) 1) (fst ` set (is_touches (in_state j))) \<and>
    \<not> pen_down (in_state j') \<and> in_options j' = in_options j"
proof -
  define point where "point = target_point j (x_norm p) (y_norm p)"
  obtain contact more r1 d1 s1 where F:
    "s1 = (if action p \<in> {Down, Move} then (in_state j)\<lparr>is_touches := btree_insert (max (pointer_id p) 1) contact (is_touches (in_state j))\<rparr> else in_state j)"
    "touch_contacts (is_touches s1) (max (pointer_id p) 1) (action p) (in_target_window j) @ more \<noteq> [] \<longrightarrow>
       inject_with_retry NativeTouch (touch_contacts (is_touches s1) (max (pointer_id p) 1) (action p) (in_target_window j) @ more)
         (lit ''InjectSyntheticPointerInput(PT_TOUCH)'') 0 d = (r1, d1)"
    "inject_touch (in_state j) p point (in_target_window j) d = (case r1 of Err e \<Rightarrow> (Err e, s1, d1)
       | Ok _ \<Rightarrow> (Ok (), if is_terminal (action p) then s1\<lparr>is_touches := btree_remove (max (pointer_id p) 1) (is_touches s1)\<rparr> else s1, d1))"
    by (rule inject_touch_form [of p "in_state j" "in_target_window j" d point])
  have "inject_sample j p (in_state j) d = inject_touch (in_state j) p point (in_target_window j) d"
    using assms by (simp add: inject_sample_def Let_def point_def)
  moreover have "\<not> is_terminal (action p)" using assms(4) by (simp add: is_terminal_def)
  ultimately have "in_state j' = s1 \<and> in_options j' = in_options j"
    using assms(5) F(3) by (cases r1) (auto simp: touch_down_def inject_batch_def with_state_def)
  then show ?thesis
    using F(1) assms(2,4) by (simp add: btree_insert_keys pen_down_def)
qed

lemma touch_downs_remembered:
  assumes "io_touch_enabled (in_options j)" "\<not> pen_down (in_state j)" "\<forall>p\<in>set ps. device_type p = Touch \<and> action p = Down"
    and "sink_history injector_sink (map (touch_down n) ps) (j, d) = (j', d')"
  shows "fst ` set (is_touches (in_state j')) = (\<lambda>p. max (pointer_id p) 1) ` set ps \<union> fst ` set (is_touches (in_state j)) \<and>
    in_options j' = in_options j"
  using assms
proof (induction ps arbitrary: j d)
  case (Cons p ps)
  obtain r j1 d1 where one: "sink_call_run injector_sink (touch_down n p) (j, d) = (r, j1, d1)" using prod_cases3 by blast
  have R: "fst ` set (is_touches (in_state j1)) = insert (max (pointer_id p) 1) (fst ` set (is_touches (in_state j)))"
    "\<not> pen_down (in_state j1)" "in_options j1 = in_options j"
    using touch_down_remembered [OF _ _ _ _ one] Cons.prems by auto
  have next_one: "sink_history injector_sink (map (touch_down n) ps) (j1, d1) = (j', d')"
    using Cons.prems(4) one by simp
  have on: "io_touch_enabled (in_options j1)" "\<forall>p\<in>set ps. device_type p = Touch \<and> action p = Down"
    using Cons.prems(1,3) R(3) by simp_all
  show ?case using Cons.IH [OF on(1) R(2) on(2) next_one] R(1,3) by auto
qed simp

lemma eleven_fingers_effect:
  assumes "io_touch_enabled (in_options j)" "\<not> pen_down (in_state j)" "\<forall>p\<in>set ps. device_type p = Touch \<and> action p = Down"
    and "distinct (map (\<lambda>p. max (pointer_id p) 1) ps)" "10 < length ps"
    and "sink_history injector_sink (map (touch_down n) ps @ cs) (j, d) = (j2, d2)"
  shows "wedged j2 \<and> in_options j2 = in_options j \<and> \<not> is_ok (fst (reset_all j2 d2)) \<and>
    \<not> is_ok (fst (set_remote_input_options False g j2 d2)) \<and>
    is_pressed_keys (in_state (fst (snd (reset_all j2 d2)))) = is_pressed_keys (in_state j2) \<and>
    is_mouse_buttons (in_state (fst (snd (reset_all j2 d2)))) = is_mouse_buttons (in_state j2) \<and>
    (\<forall>p point w. action p \<noteq> Hover \<longrightarrow> \<not> is_ok (fst (inject_touch (in_state j2) p point w d2)))"
proof -
  obtain j1 d1 where one: "sink_history injector_sink (map (touch_down n) ps) (j, d) = (j1, d1)" by fastforce
  note R = touch_downs_remembered [OF assms(1,2,3) one]
  have "card ((\<lambda>p. max (pointer_id p) 1) ` set ps) = length ps"
    using distinct_card [OF assms(4)] by simp
  moreover have "card ((\<lambda>p. max (pointer_id p) 1) ` set ps) \<le> card (fst ` set (is_touches (in_state j1)))"
    using R by (intro card_mono) auto
  moreover have "card (fst ` set (is_touches (in_state j1))) \<le> length (is_touches (in_state j1))"
    using card_length [of "map fst (is_touches (in_state j1))"] by simp
  ultimately have "wedged j1" using assms(5) by (simp add: wedged_def)
  moreover have "sink_history injector_sink cs (j1, d1) = (j2, d2)" using assms(6) one by simp
  ultimately have W: "wedged j2" "in_options j2 = in_options j"
    using wedged_history [of j1 cs d1 j2 d2] R by auto
  obtain r j3 d3 where reset: "reset_all j2 d2 = (r, j3, d3)" using prod_cases3 by blast
  have touch: "\<not> is_ok (fst (inject_touch (in_state j2) p point w d2))" if "action p \<noteq> Hover" for p point w
    using inject_touch_wedged [of "in_state j2" p point w d2] W(1) that
    by (cases "inject_touch (in_state j2) p point w d2") (auto simp: wedged_def)
  show ?thesis
    using W reset_wedged [OF W(1) reset] touch by (cases r) (simp_all add: reset set_remote_input_options_def)
qed

end
