(* ===== verification/Input_Props.thy ===== *)
theory Input_Props
  imports Injector_Sink
begin

text \<open>
  The properties of remote input on the Windows host, with the concrete runs that show their
  hypotheses can hold.
\<close>

section \<open>A small host\<close>

definition example_desktop :: desktop where
  "example_desktop = \<lparr>dk_log = [], dk_calls = 0,
     dk_answers = \<lambda>_. \<lparr>an_sent = None, an_injected = True, an_code = 0, an_extra = 0, an_text = []\<rparr>,
     dk_screen = (0, 0, 1920, 1080), dk_foreground = True\<rparr>"

definition example_options :: injector_options where
  "example_options = default_injector_options\<lparr>io_touch_enabled := True\<rparr>"

definition example_injector :: pointer_injector where
  "example_injector = \<lparr>in_state = initial_injector_state, in_target = \<lparr>tg_left = 0, tg_top = 0, tg_width = 1920, tg_height = 1080\<rparr>,
     in_options = example_options, in_target_window = 0\<rparr>"

definition example_sample :: "device_type \<Rightarrow> action \<Rightarrow> u16 \<Rightarrow> nat \<Rightarrow> pointer_sample" where
  "example_sample dev a fl n = \<lparr>device_type = dev, action = a, flags = fl, pointer_id = word_of_nat n, sample_sequence = 0, x_norm = 0,
     y_norm = 0, pressure = 0, tilt_x_deg = 0, tilt_y_deg = 0, twist_deg = 0, client_time_ms = 0\<rparr>"

lemma example_cooperative: "cooperative example_desktop"
  by (simp add: cooperative_def example_desktop_def)

lemma example_fresh: "fresh_injector example_injector example_desktop"
  by (simp add: fresh_injector_def example_injector_def example_desktop_def)

section \<open>Releasing\<close>

text \<open>C11: Whatever messages, resets and option changes a well-behaved browser sends (its last sample of a
  mouse gesture reports no pressed button) to a fresh injector on a desktop that accepts the events it has room
  for, every key the desktop holds is known to the injector, and a reset then succeeds exactly when at most ten
  touch contacts are open, and leaves no key, button, pen or contact pressed.\<close>
theorem reset_releases_everything:
  assumes "fresh_injector j d" "cooperative d" "\<forall>c\<in>set cs. polite_call c"
    and "sink_history injector_sink cs (j, d) = (j1, d1)" "reset_all j1 d1 = (r, j2, d2)"
  shows "(r = Ok () \<longleftrightarrow> length (is_touches (in_state j1)) \<le> 10) \<and> (r = Ok () \<longrightarrow> desktop_holds d2 = nothing_held) \<and>
    hd_keys (desktop_holds d1) \<subseteq> snd ` set (is_pressed_keys (in_state j1))"
  using assms by (rule reset_effect)

theorem reset_releases_everything_witness:
  "\<exists>j1 d1 r j2 d2. sink_history injector_sink
       [CallMessage (Pointer \<lparr>batch_sequence = 1, client_send_time_ms = 0, samples = [example_sample Mouse Down 1 1, example_sample Pen Down 1 2]\<rparr>),
        CallMessage (Keyboard \<lparr>kb_action = KeyDown, kb_location = 0, kb_repeat = False, kb_modifiers = 0, kb_sequence = 2,
          kb_client_time_ms = 0, kb_code = lit ''AltLeft'', kb_key = []\<rparr>)] (example_injector, example_desktop) = (j1, d1) \<and>
     reset_all j1 d1 = (r, j2, d2) \<and>
     (r = Ok () \<longleftrightarrow> length (is_touches (in_state j1)) \<le> 10) \<and> (r = Ok () \<longrightarrow> desktop_holds d2 = nothing_held) \<and>
     hd_keys (desktop_holds d1) \<subseteq> snd ` set (is_pressed_keys (in_state j1))"
proof -
  let ?cs = "[CallMessage (Pointer \<lparr>batch_sequence = 1, client_send_time_ms = 0, samples = [example_sample Mouse Down 1 1, example_sample Pen Down 1 2]\<rparr>),
     CallMessage (Keyboard \<lparr>kb_action = KeyDown, kb_location = 0, kb_repeat = False, kb_modifiers = 0, kb_sequence = 2,
       kb_client_time_ms = 0, kb_code = lit ''AltLeft'', kb_key = []\<rparr>)]"
  obtain j1 d1 where run: "sink_history injector_sink ?cs (example_injector, example_desktop) = (j1, d1)" by fastforce
  obtain r j2 d2 where reset: "reset_all j1 d1 = (r, j2, d2)" using prod_cases3 by blast
  have "\<forall>c\<in>set ?cs. polite_call c"
    by (simp add: polite_call_def polite_sample_def example_sample_def is_terminal_def)
  from reset_releases_everything [OF example_fresh example_cooperative this run reset] run reset
  show ?thesis by blast
qed

section \<open>Disabled devices\<close>

text \<open>A packet other than the reset command changes no option, and every event it makes the desktop accept
  belongs to an enabled device: no mouse event with the mouse off, no pen or touch frame with that device off, no
  text with the keyboard off, no key with both keyboard and gestures off, also when the injection fails half way.\<close>
theorem disabled_devices_stay_silent:
  assumes "\<forall>c. input_decode bytes = Ok (Command c) \<longrightarrow> cm_command c \<noteq> ResetInput"
    and "process_input_packet injector_sink now elapsed bytes (m, (j, d)) = (m', (j', d'))"
  shows "emits (allowed (in_options j)) d d' \<and> in_options j' = in_options j"
proof (cases "input_decode bytes")
  case (Ok msg)
  obtain r j1 d1 where run: "deliver injector_sink msg (j, d) = (r, j1, d1)" using prod_cases3 by blast
  have "\<forall>c. msg = Command c \<longrightarrow> cm_command c \<noteq> ResetInput" using assms(1) Ok by blast
  from message_events [OF this run] show ?thesis
    using assms(2) by (cases r) (auto simp: process_input_packet_def Ok run)
qed (use assms in \<open>simp add: process_input_packet_def\<close>)

theorem disabled_devices_stay_silent_witness:
  "\<exists>m' j' d'. process_input_packet injector_sink 0 0 (command_encode \<lparr>cm_command = TaskView, cm_sequence = 1, cm_client_time_ms = 0\<rparr>)
     (default_metrics 0, (example_injector, example_desktop)) = (m', (j', d')) \<and>
     emits (allowed (in_options example_injector)) example_desktop d' \<and> in_options j' = in_options example_injector"
proof -
  let ?c = "\<lparr>cm_command = TaskView, cm_sequence = 1, cm_client_time_ms = 0\<rparr>"
  obtain m' j' d' where run: "process_input_packet injector_sink 0 0 (command_encode ?c)
     (default_metrics 0, (example_injector, example_desktop)) = (m', (j', d'))" using prod_cases3 by blast
  have "input_decode (command_encode ?c) = Ok (Command ?c)"
    using command_codec.dispatch_roundtrip [of ?c] by simp
  from disabled_devices_stay_silent [OF _ run] this run show ?thesis by auto
qed

section \<open>Absolute coordinates\<close>

text \<open>The absolute coordinate sent for the mouse always lies in 0 to 65535, it is 0 at and before the first
  pixel of the virtual desktop and 65535 at and after the last one, also for a desktop of no width.\<close>
theorem virtual_axis_range:
  "0 \<le> sint (virtual_axis c org ext) \<and> sint (virtual_axis c org ext) \<le> 65535 \<and>
   (sint (c - org) \<le> 0 \<longrightarrow> virtual_axis c org ext = 0) \<and>
   (1 < sint ext \<and> sint ext - 1 \<le> sint (c - org) \<longrightarrow> virtual_axis c org ext = 65535)"
proof -
  define e where "e = sint (max_i32 ext 1) - 1"
  define v where "v = min (max (sint (c - org)) 0) e"
  have e: "0 \<le> e" "1 < sint ext \<longrightarrow> e = sint ext - 1"
    by (auto simp: e_def max_i32_def word_sless_alt)
  have v: "0 \<le> v" "v \<le> e" using e by (auto simp: v_def)
  let ?q = "v * 65535 div max e 1"
  have "?q \<le> 65535"
  proof -
    have "v * 65535 \<le> max e 1 * 65535" using v by simp
    then have "?q \<le> max e 1 * 65535 div max e 1" by (intro zdiv_mono1) auto
    then show ?thesis by simp
  qed
  moreover have "0 \<le> ?q" using v by (simp add: pos_imp_zdiv_nonneg_iff)
  ultimately have "sint (word_of_int ?q :: i32) = ?q"
    by (simp add: sint_sbintrunc' signed_take_bit_int_eq_self)
  moreover have axis: "virtual_axis c org ext = word_of_int ?q"
    by (simp add: virtual_axis_def Let_def e_def v_def)
  moreover have "?q = 65535" if "1 < sint ext" "sint ext - 1 \<le> sint (c - org)"
  proof -
    have "v = e" "max e 1 = e" "e \<noteq> 0" using that e by (auto simp: v_def)
    then show ?thesis using nonzero_mult_div_cancel_left [of e 65535] by simp
  qed
  moreover have "?q = 0" if "sint (c - org) \<le> 0"
    using that e by (simp add: v_def)
  ultimately show ?thesis
    using \<open>?q \<le> 65535\<close> \<open>0 \<le> ?q\<close> by auto
qed

theorem virtual_axis_range_witness:
  "virtual_axis (- 5) 0 1920 = 0 \<and> virtual_axis 1919 0 1920 = 65535"
  using virtual_axis_range [of "- 5" 0 1920] virtual_axis_range [of 1919 0 1920] by simp

section \<open>Where releasing goes wrong\<close>

text \<open>C35: Once eleven fingers have gone down on a host with touch on and the pen up, whatever is sent afterwards, a
  reset fails and leaves the remembered keys and buttons as they are, touch cannot be switched off again, and every
  further press, move, lift or cancel of a finger is refused: the touch device takes ten contacts, and a refused
  contact stays in the table that the next frame is built from.\<close>
theorem eleven_fingers_wedge_the_injector:
  assumes "io_touch_enabled (in_options j)" "\<not> pen_down (in_state j)" "\<forall>p\<in>set ps. device_type p = Touch \<and> action p = Down"
    and "distinct (map (\<lambda>p. max (pointer_id p) 1) ps)" "10 < length ps"
    and "sink_history injector_sink (map (touch_down n) ps @ cs) (j, d) = (j2, d2)"
  shows "wedged j2 \<and> in_options j2 = in_options j \<and> \<not> is_ok (fst (reset_all j2 d2)) \<and>
    \<not> is_ok (fst (set_remote_input_options False g j2 d2)) \<and>
    is_pressed_keys (in_state (fst (snd (reset_all j2 d2)))) = is_pressed_keys (in_state j2) \<and>
    is_mouse_buttons (in_state (fst (snd (reset_all j2 d2)))) = is_mouse_buttons (in_state j2) \<and>
    (\<forall>p point w. action p \<noteq> Hover \<longrightarrow> \<not> is_ok (fst (inject_touch (in_state j2) p point w d2)))"
  using assms by (rule eleven_fingers_effect)

theorem eleven_fingers_wedge_the_injector_witness:
  "\<exists>j2 d2. sink_history injector_sink (map (touch_down 0) (map (example_sample Touch Down 0) [1..<12]) @ [CallReset, CallOptions False False])
       (example_injector, example_desktop) = (j2, d2) \<and> wedged j2 \<and> \<not> is_ok (fst (reset_all j2 d2))"
proof -
  let ?ps = "map (example_sample Touch Down 0) [1..<12]"
  obtain j2 d2 where run: "sink_history injector_sink (map (touch_down 0) ?ps @ [CallReset, CallOptions False False])
       (example_injector, example_desktop) = (j2, d2)" by fastforce
  have "io_touch_enabled (in_options example_injector)" "\<not> pen_down (in_state example_injector)"
    by (simp_all add: example_injector_def example_options_def pen_down_def initial_injector_state_def)
  moreover have "\<forall>p\<in>set ?ps. device_type p = Touch \<and> action p = Down" "10 < length ?ps"
    by (auto simp: example_sample_def)
  moreover have "distinct (map (\<lambda>p. max (pointer_id p) 1) ?ps)"
    by (simp add: example_sample_def upt_rec [of _ 12] max_def word_le_nat_alt)
  ultimately show ?thesis
    using eleven_fingers_wedge_the_injector [of example_injector ?ps 0 _ example_desktop, OF _ _ _ _ _ run] run by blast
qed

text \<open>A mouse gesture whose last sample still reports the primary button leaves the left button pressed on
  the desktop while the injector forgets it, so that a reset which reports success does not release it.\<close>
theorem button_of_last_sample_stays_pressed:
  assumes "fresh_injector j d" "cooperative d" "io_mouse_enabled (in_options j)" "device_type p = Mouse" "action p = Up" "flags p = 1"
    and "sink_call_run injector_sink (CallMessage (Pointer \<lparr>batch_sequence = n, client_send_time_ms = 0, samples = [p]\<rparr>)) (j, d) = (r1, j1, d1)"
    and "reset_all j1 d1 = (r, j2, d2)"
  shows "r = Ok () \<and> LeftButton \<in> hd_buttons (desktop_holds d2)"
proof -
  let ?s = initial_injector_state
  have s: "in_state j = ?s" "desktop_holds d = nothing_held"
    using assms(1) by (simp_all add: fresh_injector_def desktop_holds_def held_after_def)
  let ?point = "target_point j (x_norm p) (y_norm p)"
  let ?inputs = "mouse_move_input ?point d # mouse_button_changes 0 1"
  obtain d3 where sent: "send_native_inputs ?inputs ''SendInput(mouse)'' d = (Ok (), d3)" "cooperative d3"
    "desktop_holds d3 = fold apply_input ?inputs nothing_held"
    using send_cooperative [OF assms(2), of ?inputs "''SendInput(mouse)''"] unfolding s(2) by blast
  have "mouse_button_changes 0 1 = [MouseInput 0 0 0 {LeftDown}]"
    by (simp add: mouse_button_changes_def append_button_def BROWSER_BUTTON_PRIMARY_def BROWSER_BUTTON_SECONDARY_def
        BROWSER_BUTTON_AUXILIARY_def BROWSER_BUTTON_BACK_def BROWSER_BUTTON_FORWARD_def)
  then have held: "LeftButton \<in> hd_buttons (desktop_holds d3)"
    using sent(3) by (simp add: pressed_by_def released_by_def mouse_move_input_def split_beta)
  have "inject_mouse ?s p ?point d = (Ok (), ?s, d3)"
    using sent(1) assms(5,6) by (simp add: inject_mouse_def initial_injector_state_def is_terminal_def)
  then have after: "r1 = Ok ()" "in_state j1 = ?s" "d1 = d3"
    using assms(3,4,7) s(1) by (auto simp: inject_batch_def inject_sample_def Let_def with_state_def)
  have "mouse_button_changes 0 0 = []"
    by (simp add: mouse_button_changes_def append_button_def)
  then have "reset_all j1 d1 = (Ok (), j1\<lparr>in_state := ?s\<rparr>, d3)"
    by (simp add: reset_all_def release_pen_def after initial_injector_state_def Let_def release_remote_state_def send_native_inputs_def)
  then show ?thesis using assms(8) held by simp
qed

theorem button_of_last_sample_stays_pressed_witness:
  "\<exists>r1 j1 d1 j2 d2. sink_call_run injector_sink (CallMessage (Pointer \<lparr>batch_sequence = 1, client_send_time_ms = 0, samples = [example_sample Mouse Up 1 1]\<rparr>))
       (example_injector, example_desktop) = (r1, j1, d1) \<and> reset_all j1 d1 = (Ok (), j2, d2) \<and> LeftButton \<in> hd_buttons (desktop_holds d2)"
proof -
  let ?c = "CallMessage (Pointer \<lparr>batch_sequence = 1, client_send_time_ms = 0, samples = [example_sample Mouse Up 1 1]\<rparr>)"
  obtain r1 j1 d1 where run: "sink_call_run injector_sink ?c (example_injector, example_desktop) = (r1, j1, d1)" using prod_cases3 by blast
  obtain r j2 d2 where reset: "reset_all j1 d1 = (r, j2, d2)" using prod_cases3 by blast
  have on: "io_mouse_enabled (in_options example_injector)"
    by (simp add: example_injector_def example_options_def default_injector_options_def)
  show ?thesis
    using button_of_last_sample_stays_pressed [OF example_fresh example_cooperative on _ _ _ run reset] run reset
    by (auto simp: example_sample_def)
qed

end
