(* ===== verification/Peer.thy ===== *)
theory Peer
  imports Sink Config "HOL-Library.Sublist"
begin

text \<open>
  \<open>crates/transport/src/webrtc_session.rs\<close>: the WebRTC peer of the paired tablet.  The WebRTC crate
  is not code of the repository: a peer connection is a number, the outcome of each of its calls is
  an argument, and what the tasks of the session observe (messages, state changes, frames of the
  broadcast channel) are explicit lists of events.
\<close>

section \<open>Data\<close>

record web_rtc_offer =
  wo_token :: ustring
  wo_sdp :: ustring
  wo_kind :: ustring

record web_rtc_answer =
  wa_sdp :: ustring
  wa_kind :: ustring

record encoded_video_frame =
  ef_data :: "u8 list"
  ef_codec :: video_codec
  ef_duration :: nat
  ef_width :: u32
  ef_height :: u32
  ef_keyframe :: bool

record rtp_capability =
  rp_mime_type :: ustring
  rp_clock_rate :: u32
  rp_sdp_fmtp_line :: ustring

text \<open>The three MIME constants belong to the WebRTC crate; the test of the source pins them to the codecs.\<close>

definition codec_capability :: "(video_codec \<Rightarrow> ustring) \<Rightarrow> video_codec \<Rightarrow> rtp_capability" where
  "codec_capability mime c =
     (case c of
        H264 \<Rightarrow> \<lparr>rp_mime_type = mime H264, rp_clock_rate = 90000,
          rp_sdp_fmtp_line = lit ''level-asymmetry-allowed=1;packetization-mode=1;profile-level-id=42e01f''\<rparr>
      | Hevc \<Rightarrow> \<lparr>rp_mime_type = mime Hevc, rp_clock_rate = 90000, rp_sdp_fmtp_line = []\<rparr>
      | Av1 \<Rightarrow> \<lparr>rp_mime_type = mime Av1, rp_clock_rate = 90000, rp_sdp_fmtp_line = lit ''profile-id=0''\<rparr>)"

section \<open>The active peer\<close>

text \<open>At most one peer is active; replacing or closing it closes the previous one.\<close>

record active_peer =
  pe_active :: "nat option"
  pe_closed :: "nat list"

definition default_peer :: active_peer where
  "default_peer = \<lparr>pe_active = None, pe_closed = []\<rparr>"

definition close_previous :: "nat option \<Rightarrow> nat list \<Rightarrow> nat list" where
  "close_previous previous closed = (case previous of None \<Rightarrow> closed | Some q \<Rightarrow> closed @ [q])"

definition peer_replace :: "nat \<Rightarrow> active_peer \<Rightarrow> active_peer" where
  "peer_replace p a = \<lparr>pe_active = Some p, pe_closed = close_previous (pe_active a) (pe_closed a)\<rparr>"

definition peer_close :: "active_peer \<Rightarrow> active_peer" where
  "peer_close a = \<lparr>pe_active = None, pe_closed = close_previous (pe_active a) (pe_closed a)\<rparr>"

section \<open>The startup gate\<close>

record startup_gate =
  awaiting_keyframe :: bool

definition gate_new :: startup_gate where
  "gate_new = \<lparr>awaiting_keyframe = True\<rparr>"

definition gate_admit :: "bool \<Rightarrow> startup_gate \<Rightarrow> bool \<times> startup_gate" where
  "gate_admit keyframe g =
     (if awaiting_keyframe g then (if \<not> keyframe then (False, g) else (True, g\<lparr>awaiting_keyframe := False\<rparr>)) else (True, g))"

section \<open>Callbacks\<close>

text \<open>The part of the host that the callbacks of a peer share.\<close>

record 's peer_shared =
  sh_metrics :: metrics
  sh_sink :: 's
  sh_keyframe :: bool

definition reset_shared :: "'s input_sink \<Rightarrow> 's peer_shared \<Rightarrow> 's peer_shared" where
  "reset_shared k h = h\<lparr>sh_sink := snd (sk_reset_all k (sh_sink h)), sh_metrics := reset_input_continuity (sh_metrics h)\<rparr>"

definition request_recovery :: "'s peer_shared \<Rightarrow> 's peer_shared" where
  "request_recovery h = h\<lparr>sh_metrics := video_recovery_requested (sh_metrics h), sh_keyframe := keyframe_request (sh_keyframe h)\<rparr>"

text \<open>Channels with another label have no handlers.\<close>

definition handled_channel :: "ustring \<Rightarrow> bool" where
  "handled_channel label \<longleftrightarrow> label = lit ''input'' \<or> label = lit ''control''"

definition channel_message ::
  "'s input_sink \<Rightarrow> nat \<Rightarrow> nat \<Rightarrow> ustring \<Rightarrow> bool \<Rightarrow> u8 list \<Rightarrow> 's peer_shared \<Rightarrow> 's peer_shared" where
  "channel_message k now elapsed label is_string data h =
     (if \<not> handled_channel label then h
      else if is_string then (if data = utf8_encode (lit ''request-keyframe'') then request_recovery h else h)
      else (let (m, s) = process_input_packet k now elapsed data (sh_metrics h, sh_sink h)
            in h\<lparr>sh_metrics := m, sh_sink := s\<rparr>))"

definition channel_closed :: "'s input_sink \<Rightarrow> ustring \<Rightarrow> 's peer_shared \<Rightarrow> 's peer_shared" where
  "channel_closed k label h = (if handled_channel label then reset_shared k h else h)"

datatype connection_state = PcNew | PcConnecting | PcConnected | PcDisconnected | PcFailed | PcClosed

datatype peer_video_state = VideoWaiting | VideoConnected | VideoTerminal

definition terminal_connection :: "connection_state \<Rightarrow> bool" where
  "terminal_connection s \<longleftrightarrow> s \<in> {PcDisconnected, PcFailed, PcClosed}"

text \<open>The result is the message sent to the video task, if any, and the shared state.\<close>

definition connection_changed :: "'s input_sink \<Rightarrow> connection_state \<Rightarrow> 's peer_shared \<Rightarrow> peer_video_state option \<times> 's peer_shared" where
  "connection_changed k s h =
     (let h = h\<lparr>sh_metrics := set_connected (s = PcConnected) (sh_metrics h)\<rparr>
      in if s = PcConnected then (Some VideoConnected, h\<lparr>sh_keyframe := keyframe_request (sh_keyframe h)\<rparr>)
         else if terminal_connection s then (Some VideoTerminal, reset_shared k h)
         else (None, h))"

section \<open>The video task\<close>

text \<open>
  First the task waits on the state channel: each list entry is a value it observes after a change;
  the end of the list is the sender being dropped.  The value is true when frames will be forwarded.
\<close>

fun await_connected :: "peer_video_state \<Rightarrow> peer_video_state list \<Rightarrow> bool" where
  "await_connected VideoWaiting [] = False"
| "await_connected VideoWaiting (s # ss) = await_connected s ss"
| "await_connected s ss = (s = VideoConnected)"

text \<open>
  Then it forwards: a frame comes with the time since the start and whether the track takes it; a
  lagging receiver is told how many frames it lost.
\<close>

datatype video_event = FrameArrived encoded_video_frame nat bool | Lagged u64 | ChannelClosed

fun forward_video ::
  "video_codec \<Rightarrow> video_event list \<Rightarrow> startup_gate \<Rightarrow> metrics \<Rightarrow> encoded_video_frame list \<times> metrics" where
  "forward_video codec [] g m = ([], m)"
| "forward_video codec (FrameArrived f elapsed taken # es) g m =
     (if ef_codec f \<noteq> codec then forward_video codec es g (video_transport_dropped 1 m)
      else
        (let first = awaiting_keyframe g; (admitted, g) = gate_admit (ef_keyframe f) g
         in if \<not> admitted then forward_video codec es g (video_startup_delta_frame_skipped m)
            else
              (let m = (if first then video_started elapsed m else m)
               in if taken then (let (fs, m) = forward_video codec es g m in (f # fs, m)) else ([], m))))"
| "forward_video codec (Lagged n # es) g m = forward_video codec es g (video_transport_dropped n m)"
| "forward_video codec (ChannelClosed # es) g m = ([], m)"

definition video_task ::
  "video_codec \<Rightarrow> peer_video_state list \<Rightarrow> video_event list \<Rightarrow> metrics \<times> bool \<Rightarrow> encoded_video_frame list \<times> metrics \<times> bool" where
  "video_task codec states events mk =
     (if await_connected VideoWaiting states
      then (let (fs, m) = forward_video codec events gate_new (fst mk) in (fs, m, keyframe_request (snd mk)))
      else ([], fst mk, snd mk))"

section \<open>Accepting an offer\<close>

text \<open>The outcomes of the WebRTC calls of one negotiation, in the order they are made.\<close>

record negotiation =
  ng_register_codecs :: "ustring option"
  ng_interceptors :: "ustring option"
  ng_new_peer :: "(nat, ustring) result"
  ng_add_track :: "ustring option"
  ng_parse_offer :: "ustring option"
  ng_set_remote :: "ustring option"
  ng_create_answer :: "ustring option"
  ng_set_local :: "ustring option"
  ng_local_description :: "ustring option"

definition must :: "ustring option \<Rightarrow> (unit, ustring) result" where
  "must e = (case e of None \<Rightarrow> Ok () | Some msg \<Rightarrow> Err msg)"

definition accept_offer :: "negotiation \<Rightarrow> web_rtc_offer \<Rightarrow> active_peer \<Rightarrow> (web_rtc_answer, ustring) result \<times> active_peer" where
  "accept_offer ng offer a =
     (let outcome =
        (if wo_kind offer \<noteq> lit ''offer'' then Err (lit ''expected SDP offer, received '' @ wo_kind offer)
         else
           and_then (must (ng_register_codecs ng)) (\<lambda>_.
           and_then (must (ng_interceptors ng)) (\<lambda>_.
           and_then (ng_new_peer ng) (\<lambda>p.
           and_then (must (ng_add_track ng)) (\<lambda>_.
           and_then (map_error (\<lambda>_. lit ''invalid SDP offer'') (must (ng_parse_offer ng))) (\<lambda>_.
           and_then (must (ng_set_remote ng)) (\<lambda>_.
           and_then (must (ng_create_answer ng)) (\<lambda>_.
           and_then (must (ng_set_local ng)) (\<lambda>_.
           and_then (ok_or (lit ''WebRTC local description unavailable'') (ng_local_description ng)) (\<lambda>sdp. Ok (p, sdp)))))))))))
      in case outcome of
           Err e \<Rightarrow> (Err e, a)
         | Ok (p, sdp) \<Rightarrow> (Ok \<lparr>wa_sdp = sdp, wa_kind = lit ''answer''\<rparr>, peer_replace p a))"

section \<open>What the receiver sees\<close>

text \<open>The frames of one codec among the events before the broadcast channel closes, and the frames it lost.\<close>

definition open_events :: "video_event list \<Rightarrow> video_event list" where
  "open_events es = takeWhile (\<lambda>e. e \<noteq> ChannelClosed) es"

definition frames_of :: "video_event list \<Rightarrow> encoded_video_frame list" where
  "frames_of es = List.map_filter (\<lambda>e. case e of FrameArrived f t taken \<Rightarrow> Some f | _ \<Rightarrow> None) (open_events es)"

definition lost_frames :: "video_event list \<Rightarrow> u64" where
  "lost_frames es = sum_list (map (\<lambda>e. case e of Lagged n \<Rightarrow> n | _ \<Rightarrow> 0) (open_events es))"

definition of_codec :: "video_codec \<Rightarrow> encoded_video_frame list \<Rightarrow> encoded_video_frame list" where
  "of_codec c = filter (\<lambda>f. ef_codec f = c)"

definition all_taken :: "video_event list \<Rightarrow> bool" where
  "all_taken es \<longleftrightarrow> (\<forall>e\<in>set es. case e of FrameArrived f t taken \<Rightarrow> taken | _ \<Rightarrow> True)"

definition from_keyframe :: "encoded_video_frame list \<Rightarrow> encoded_video_frame list" where
  "from_keyframe = dropWhile (\<lambda>f. \<not> ef_keyframe f)"

definition before_keyframe :: "encoded_video_frame list \<Rightarrow> encoded_video_frame list" where
  "before_keyframe = takeWhile (\<lambda>f. \<not> ef_keyframe f)"

lemma video_event_lists [simp]:
  "frames_of [] = []" "frames_of (FrameArrived f t k # es) = f # frames_of es" "frames_of (Lagged n # es) = frames_of es"
  "frames_of (ChannelClosed # es) = []" "lost_frames [] = 0" "lost_frames (FrameArrived f t k # es) = lost_frames es"
  "lost_frames (Lagged n # es) = n + lost_frames es" "lost_frames (ChannelClosed # es) = 0"
  "all_taken (FrameArrived f t k # es) \<longleftrightarrow> k \<and> all_taken es" "all_taken (Lagged n # es) = all_taken es"
  "all_taken (ChannelClosed # es) = all_taken es"
  by (simp_all add: frames_of_def lost_frames_def open_events_def all_taken_def List.map_filter_simps)

lemma video_counters [simp]:
  "m_video_transport_drops (video_started t m) = m_video_transport_drops m"
  "m_video_startup_delta_frames (video_started t m) = m_video_startup_delta_frames m"
  "m_video_transport_drops (video_startup_delta_frame_skipped m) = m_video_transport_drops m"
  "m_video_startup_delta_frames (video_startup_delta_frame_skipped m) = m_video_startup_delta_frames m + 1"
  "m_video_transport_drops (video_transport_dropped n m) = m_video_transport_drops m + n"
  "m_video_startup_delta_frames (video_transport_dropped n m) = m_video_startup_delta_frames m"
  by (simp_all add: video_started_def video_startup_delta_frame_skipped_def video_transport_dropped_def)

definition expected_frames :: "bool \<Rightarrow> video_codec \<Rightarrow> video_event list \<Rightarrow> encoded_video_frame list" where
  "expected_frames waiting c es = (if waiting then from_keyframe else id) (of_codec c (frames_of es))"

lemma forward_video_spec:
  "forward_video c es g m = (ws, m') \<Longrightarrow> prefix ws (expected_frames (awaiting_keyframe g) c es) \<and>
     (all_taken es \<longrightarrow> ws = expected_frames (awaiting_keyframe g) c es \<and>
        m_video_transport_drops m' = m_video_transport_drops m + lost_frames es +
          word_of_nat (length (filter (\<lambda>f. ef_codec f \<noteq> c) (frames_of es))) \<and>
        m_video_startup_delta_frames m' = m_video_startup_delta_frames m +
          (if awaiting_keyframe g then word_of_nat (length (before_keyframe (of_codec c (frames_of es)))) else 0))"
proof (induction es arbitrary: g m ws)
  case (Cons e es)
  show ?case
  proof (cases e)
    case (FrameArrived f t k)
    show ?thesis
    proof (cases "ef_codec f = c")
      case other: False
      then have "forward_video c es g (video_transport_dropped 1 m) = (ws, m')"
        using Cons.prems by (simp add: FrameArrived)
      from Cons.IH [OF this] other show ?thesis
        by (auto simp: FrameArrived expected_frames_def of_codec_def algebra_simps)
    next
      case same: True
      show ?thesis
      proof (cases "awaiting_keyframe g \<and> \<not> ef_keyframe f")
        case True
        then have "forward_video c es g (video_startup_delta_frame_skipped m) = (ws, m')"
          using Cons.prems same by (simp add: FrameArrived gate_admit_def)
        from Cons.IH [OF this] same True show ?thesis
          by (auto simp: FrameArrived expected_frames_def of_codec_def from_keyframe_def before_keyframe_def algebra_simps)
      next
        case admitted: False
        define m1 where "m1 = (if awaiting_keyframe g then video_started t m else m)"
        have gate: "gate_admit (ef_keyframe f) g = (True, \<lparr>awaiting_keyframe = False\<rparr>)"
          using admitted by (cases g) (auto simp: gate_admit_def)
        have m1: "m_video_transport_drops m1 = m_video_transport_drops m" "m_video_startup_delta_frames m1 = m_video_startup_delta_frames m"
          by (simp_all add: m1_def)
        have whole: "expected_frames (awaiting_keyframe g) c (e # es) = f # expected_frames False c es"
          "before_keyframe (of_codec c (frames_of (e # es))) = (if ef_keyframe f then [] else f # before_keyframe (of_codec c (frames_of es)))"
          using admitted same by (auto simp: FrameArrived expected_frames_def of_codec_def from_keyframe_def before_keyframe_def)
        show ?thesis
        proof (cases k)
          case True
          obtain fs where r: "forward_video c es \<lparr>awaiting_keyframe = False\<rparr> m1 = (fs, m')" "ws = f # fs"
            using Cons.prems same gate True by (auto simp: FrameArrived Let_def m1_def split: prod.splits)
          from Cons.IH [OF r(1)] show ?thesis
            using admitted same unfolding whole r(2) by (auto simp: FrameArrived m1 True)
        next
          case False
          then have "ws = []" using Cons.prems same gate by (simp add: FrameArrived Let_def)
          with False show ?thesis by (simp add: FrameArrived)
        qed
      qed
    qed
  next
    case (Lagged n)
    then have "forward_video c es g (video_transport_dropped n m) = (ws, m')" using Cons.prems by simp
    from Cons.IH [OF this] show ?thesis by (auto simp: Lagged expected_frames_def algebra_simps)
  next
    case ChannelClosed
    then show ?thesis using Cons.prems by (simp add: expected_frames_def of_codec_def from_keyframe_def before_keyframe_def)
  qed
qed (simp add: expected_frames_def of_codec_def from_keyframe_def before_keyframe_def)

lemma expected_starts_decodable:
  "prefix ws (expected_frames True c es) \<Longrightarrow> ws \<noteq> [] \<Longrightarrow> ef_keyframe (hd ws) \<and> (\<forall>f\<in>set ws. ef_codec f = c)"
proof -
  assume p: "prefix ws (expected_frames True c es)" "ws \<noteq> []"
  then obtain f fs where ws: "ws = f # fs" by (cases ws) auto
  let ?r = "from_keyframe (of_codec c (frames_of es))"
  have r: "prefix (f # fs) ?r" using p by (simp add: ws expected_frames_def)
  then obtain gs where gs: "?r = f # gs" by (cases ?r) auto
  have "ef_keyframe f" using hd_dropWhile [of "\<lambda>f. \<not> ef_keyframe f" "of_codec c (frames_of es)"] gs
    unfolding from_keyframe_def by (metis list.distinct(1) list.sel(1))
  moreover have "set ?r \<subseteq> set (of_codec c (frames_of es))" unfolding from_keyframe_def by (rule set_dropWhileD [THEN subsetI])
  moreover have "set (f # fs) \<subseteq> set ?r" using r by (rule set_mono_prefix)
  ultimately show ?thesis by (auto simp: ws of_codec_def)
qed

section \<open>Losing the connection\<close>

datatype peer_event = PeerMessage nat nat ustring bool "u8 list" | PeerChannelClosed ustring | PeerConnection connection_state

primrec peer_event_step :: "'s input_sink \<Rightarrow> peer_event \<Rightarrow> 's peer_shared \<Rightarrow> 's peer_shared" where
  "peer_event_step k (PeerMessage now elapsed label is_string data) h = channel_message k now elapsed label is_string data h"
| "peer_event_step k (PeerChannelClosed label) h = channel_closed k label h"
| "peer_event_step k (PeerConnection s) h = snd (connection_changed k s h)"

definition peer_event_polite :: "(sink_call \<Rightarrow> bool) \<Rightarrow> peer_event \<Rightarrow> bool" where
  "peer_event_polite polite e = (case e of PeerMessage now elapsed label is_string data \<Rightarrow> is_string \<or> packet_polite polite data | _ \<Rightarrow> True)"

lemma peer_sink_simps [simp]:
  "sh_sink (reset_shared k h) = snd (sk_reset_all k (sh_sink h))"
  "sh_sink (request_recovery h) = sh_sink h"
  "sh_sink (channel_closed k label h) = (if handled_channel label then snd (sk_reset_all k (sh_sink h)) else sh_sink h)"
  "sh_sink (snd (connection_changed k s h)) = (if terminal_connection s then snd (sk_reset_all k (sh_sink h)) else sh_sink h)"
  by (auto simp: reset_shared_def request_recovery_def channel_closed_def connection_changed_def terminal_connection_def Let_def)

context releasing_sink
begin

lemma peer_event_sound:
  assumes "sound (sh_sink h)" "peer_event_polite polite e"
  shows "sound (sh_sink (peer_event_step sink e h))"
proof (cases e)
  case (PeerMessage now elapsed label is_string data)
  have "sound (sh_sink (channel_message sink now elapsed label is_string data h))"
  proof (cases "handled_channel label \<and> \<not> is_string")
    case True
    have "sound (snd (process_input_packet sink now elapsed data (sh_metrics h, sh_sink h)))"
      using assms True by (intro packet_sound) (simp_all add: PeerMessage peer_event_polite_def)
    with True show ?thesis
      by (cases "process_input_packet sink now elapsed data (sh_metrics h, sh_sink h)") (simp add: channel_message_def)
  qed (use assms in \<open>auto simp: channel_message_def\<close>)
  then show ?thesis by (simp add: PeerMessage)
qed (use assms reset_sound in auto)

lemma peer_history_sound:
  "sound (sh_sink h) \<Longrightarrow> \<forall>e\<in>set es. peer_event_polite polite e \<Longrightarrow> sound (sh_sink (fold (peer_event_step sink) es h))"
  by (induction es arbitrary: h) (auto intro: peer_event_sound)

lemma lost_connection_releases:
  assumes "sound (sh_sink h)" "\<forall>e\<in>set es. peer_event_polite polite e" "terminal_connection s"
    and "h1 = fold (peer_event_step sink) es h" "fst (sk_reset_all sink (sh_sink h1)) = Ok ()"
  shows "released (sh_sink (peer_event_step sink (PeerConnection s) h1))"
proof -
  have "sound (sh_sink h1)" using peer_history_sound [OF assms(1,2)] assms(4) by simp
  then show ?thesis
    using reset_releases [of "sh_sink h1" "snd (sk_reset_all sink (sh_sink h1))"] assms(3,5) by (metis peer_event_step.simps(3) peer_sink_simps(4) prod.collapse)
qed

end

section \<open>Properties\<close>

lemma video_task_effect:
  assumes "video_task c states events (m, key) = (ws, m', key')"
  shows "(ws \<noteq> [] \<longrightarrow> await_connected VideoWaiting states \<and> ef_keyframe (hd ws) \<and> (\<forall>f\<in>set ws. ef_codec f = c)) \<and>
    prefix ws (from_keyframe (of_codec c (frames_of events))) \<and>
    (await_connected VideoWaiting states \<and> all_taken events \<longrightarrow> key' \<and> ws = from_keyframe (of_codec c (frames_of events)) \<and>
       m_video_transport_drops m' = m_video_transport_drops m + lost_frames events +
         word_of_nat (length (filter (\<lambda>f. ef_codec f \<noteq> c) (frames_of events))) \<and>
       m_video_startup_delta_frames m' = m_video_startup_delta_frames m +
         word_of_nat (length (before_keyframe (of_codec c (frames_of events)))))"
proof (cases "await_connected VideoWaiting states")
  case True
  then have r: "forward_video c events gate_new m = (ws, m')" "key'"
    using assms by (auto simp: video_task_def keyframe_request_def split: prod.splits)
  have "awaiting_keyframe gate_new" by (simp add: gate_new_def)
  with forward_video_spec [OF r(1)] expected_starts_decodable [of ws c events] True r(2) show ?thesis
    by (auto simp: expected_frames_def)
qed (use assms in \<open>auto simp: video_task_def\<close>)

text \<open>C17: Nothing reaches the receiver before its connection is up, and the first frame it ever gets is a keyframe of
  the negotiated codec; the frames it gets are an initial part of that codec's frames from its first keyframe on, all of
  them when the track takes every frame, and then every frame of another codec or lost to lag is counted as a transport
  drop and every delta frame before the keyframe as a startup skip, and a fresh keyframe has been requested.\<close>
theorem video_stream_starts_decodable:
  assumes "video_task c states events (m, key) = (ws, m', key')"
  shows "(ws \<noteq> [] \<longrightarrow> await_connected VideoWaiting states \<and> ef_keyframe (hd ws) \<and> (\<forall>f\<in>set ws. ef_codec f = c)) \<and>
    prefix ws (from_keyframe (of_codec c (frames_of events))) \<and>
    (await_connected VideoWaiting states \<and> all_taken events \<longrightarrow> key' \<and> ws = from_keyframe (of_codec c (frames_of events)) \<and>
       m_video_transport_drops m' = m_video_transport_drops m + lost_frames events +
         word_of_nat (length (filter (\<lambda>f. ef_codec f \<noteq> c) (frames_of events))) \<and>
       m_video_startup_delta_frames m' = m_video_startup_delta_frames m +
         word_of_nat (length (before_keyframe (of_codec c (frames_of events)))))"
  using assms by (rule video_task_effect)

definition example_frame :: "video_codec \<Rightarrow> bool \<Rightarrow> encoded_video_frame" where
  "example_frame c key = \<lparr>ef_data = [1], ef_codec = c, ef_duration = 16, ef_width = 4, ef_height = 4, ef_keyframe = key\<rparr>"

theorem video_stream_starts_decodable_witness:
  "\<exists>m' key'. video_task H264 [VideoWaiting, VideoConnected]
     [FrameArrived (example_frame H264 False) 1 True, Lagged 3, FrameArrived (example_frame H264 True) 2 True,
      FrameArrived (example_frame Av1 True) 3 True, FrameArrived (example_frame H264 False) 4 True, ChannelClosed] (default_metrics 0, False) =
     ([example_frame H264 True, example_frame H264 False], m', key') \<and>
     m_video_transport_drops m' = 4 \<and> m_video_startup_delta_frames m' = 1 \<and> key'"
proof -
  let ?es = "[FrameArrived (example_frame H264 False) 1 True, Lagged 3, FrameArrived (example_frame H264 True) 2 True,
      FrameArrived (example_frame Av1 True) 3 True, FrameArrived (example_frame H264 False) 4 True, ChannelClosed]"
  obtain ws m' key' where run: "video_task H264 [VideoWaiting, VideoConnected] ?es (default_metrics 0, False) = (ws, m', key')"
    using prod_cases3 by blast
  have "frames_of ?es = [example_frame H264 False, example_frame H264 True, example_frame Av1 True, example_frame H264 False]"
    "lost_frames ?es = 3" "all_taken ?es" "m_video_transport_drops (default_metrics 0) = 0" "m_video_startup_delta_frames (default_metrics 0) = 0"
    by (simp_all add: default_metrics_def all_taken_def)
  with video_stream_starts_decodable [OF run] run show ?thesis
    by (auto simp: of_codec_def example_frame_def from_keyframe_def before_keyframe_def)
qed

end
