(* ===== verification/Diagnostics.thy ===== *)
theory Diagnostics
  imports Metrics
begin

text \<open>
  \<open>crates/transport/src/diagnostics.rs\<close>: the recorder of diagnostic samples and its summary.  The
  JSON values a client reports about its device and connection are never inspected; their type is
  the parameter \<open>'v\<close>.  An index out of range is the value None.
\<close>

section \<open>Samples\<close>

definition MAX_DIAGNOSTIC_SAMPLES :: nat where "MAX_DIAGNOSTIC_SAMPLES = 6 * 60 * 60"

record client_video_diagnostic =
  cv_width :: u32
  cv_height :: u32
  cv_ready_state :: u32
  cv_current_time_seconds :: f64
  cv_total_frames :: u64
  cv_dropped_frames :: u64
  cv_frames_received :: u64
  cv_frames_decoded :: u64
  cv_decoder_dropped_frames :: u64
  cv_decode_fps :: f64
  cv_playback_fps :: f64
  cv_presentation_drop_percent :: f64
  cv_decode_ms_per_frame :: f64
  cv_jitter_buffer_ms_per_frame :: f64
  cv_freeze_count :: u64
  cv_total_freeze_seconds :: f64
  cv_startup_ms :: "f64 option"

record client_network_diagnostic =
  cn_rtt_ms :: f64
  cn_clock_offset_ms :: f64
  cn_one_way_estimate_ms :: f64
  cn_receive_mbps :: f64
  cn_available_incoming_mbps :: f64
  cn_bytes_received :: u64
  cn_packets_received :: u64
  cn_packets_lost :: "64 word"
  cn_packet_loss_delta :: "64 word"
  cn_jitter_ms :: f64
  cn_candidate_type :: ustring
  cn_protocol :: ustring

record client_frame_timing_diagnostic =
  cf_callback_count :: u64
  cf_frame_gap_p50_ms :: f64
  cf_frame_gap_p95_ms :: f64
  cf_frame_gap_p99_ms :: f64
  cf_frame_gap_max_ms :: f64
  cf_capture_to_present_p50_ms :: "f64 option"
  cf_capture_to_present_p95_ms :: "f64 option"
  cf_capture_to_present_p99_ms :: "f64 option"
  cf_receive_to_present_p95_ms :: "f64 option"
  cf_processing_p95_ms :: "f64 option"
  cf_estimated_pipeline_ms :: f64

record 'v client_diagnostic_sample =
  cd_sequence :: u64
  cd_client_epoch_ms :: f64
  cd_sample_interval_ms :: f64
  cd_device :: 'v
  cd_connection :: 'v
  cd_video :: client_video_diagnostic
  cd_network :: client_network_diagnostic
  cd_frame_timing :: client_frame_timing_diagnostic
  cd_buffers :: 'v
  cd_raw_rtc :: 'v

record 'v recorded_sample =
  rd_host_received_epoch_ms :: f64
  rd_client :: "'v client_diagnostic_sample"
  rd_host :: metrics_snapshot

section \<open>Distributions\<close>

record distribution =
  dn_count :: nat
  dn_min :: f64
  dn_mean :: f64
  dn_p50 :: f64
  dn_p95 :: f64
  dn_p99 :: f64
  dn_max :: f64

definition empty_distribution :: distribution where
  "empty_distribution = \<lparr>dn_count = 0, dn_min = 0, dn_mean = 0, dn_p50 = 0, dn_p95 = 0, dn_p99 = 0, dn_max = 0\<rparr>"

text \<open>\<open>f64::total_cmp\<close> orders the bit patterns: negative values by falling magnitude, then the others by rising.\<close>

definition total_key :: "f64 \<Rightarrow> int" where
  "total_key x = (if bit (bits64 x) 63 then - 1 - uint (take_bit 63 (bits64 x)) else uint (take_bit 63 (bits64 x)))"

definition rounded_index :: "nat \<Rightarrow> f64 \<Rightarrow> nat" where
  "rounded_index n q = unat (f64_as_u64 (round64 (f64_of_int (int (n - 1)) * q)))"

definition percentile :: "f64 list \<Rightarrow> f64 \<Rightarrow> f64 option" where
  "percentile vs q = (let i = rounded_index (length vs) q in if i < length vs then Some (vs ! i) else None)"

text \<open>The sum of floats starts from minus zero.\<close>

definition sum64 :: "f64 list \<Rightarrow> f64" where
  "sum64 vs = foldl (+) (- 0) vs"

definition distribution_of :: "f64 list \<Rightarrow> distribution option" where
  "distribution_of values =
     (if values = [] then Some empty_distribution
      else
        (let vs = sort_key total_key values; n = length vs
         in case (percentile vs (lit64 50 100), percentile vs (lit64 95 100), percentile vs (lit64 99 100)) of
              (Some p50, Some p95, Some p99) \<Rightarrow>
                Some \<lparr>dn_count = n, dn_min = vs ! 0, dn_mean = sum64 vs / f64_of_int (int n), dn_p50 = p50, dn_p95 = p95,
                  dn_p99 = p99, dn_max = vs ! (n - 1)\<rparr>
            | _ \<Rightarrow> None))"

definition finite_positive :: "f64 \<Rightarrow> f64 option" where
  "finite_positive v = (if is_finite64 v \<and> 0 \<le> v then Some v else None)"

definition finite_nonzero :: "f64 \<Rightarrow> f64 option" where
  "finite_nonzero v = (if is_finite64 v \<and> 0 < v then Some v else None)"

definition measured_rate :: "'v recorded_sample \<Rightarrow> f64 \<Rightarrow> f64 option" where
  "measured_rate s v = (if 0 < cd_sequence (rd_client s) then finite_positive v else None)"

section \<open>Summaries\<close>

record diagnostic_summary =
  sm_sample_count :: nat
  sm_retained_seconds :: f64
  sm_discarded_samples :: u64
  sm_rtt_ms :: distribution
  sm_receive_mbps :: distribution
  sm_decode_fps :: distribution
  sm_playback_fps :: distribution
  sm_jitter_buffer_ms_per_frame :: distribution
  sm_decode_ms_per_frame :: distribution
  sm_frame_gap_p95_ms :: distribution
  sm_capture_to_present_p95_ms :: distribution
  sm_estimated_pipeline_ms :: distribution
  sm_host_encode_ms :: distribution
  sm_input_arrival_ms :: distribution
  sm_input_inject_ms :: distribution
  sm_packet_loss_total :: "64 word"
  sm_latest_input_sample_gaps :: u64
  sm_latest_input_errors :: u64
  sm_latest_video_transport_drops :: u64

definition values_of :: "('v recorded_sample \<Rightarrow> f64 option) \<Rightarrow> 'v recorded_sample list \<Rightarrow> f64 list" where
  "values_of read ss = filter is_finite64 (List.map_filter read ss)"

text \<open>What each of the twelve distributions reads from a sample, in the order of the summary.\<close>

definition summary_readers :: "('v recorded_sample \<Rightarrow> f64 option) list" where
  "summary_readers =
    [\<lambda>s. finite_nonzero (cn_rtt_ms (cd_network (rd_client s))),
     \<lambda>s. measured_rate s (cn_receive_mbps (cd_network (rd_client s))),
     \<lambda>s. measured_rate s (cv_decode_fps (cd_video (rd_client s))),
     \<lambda>s. measured_rate s (cv_playback_fps (cd_video (rd_client s))),
     \<lambda>s. measured_rate s (cv_jitter_buffer_ms_per_frame (cd_video (rd_client s))),
     \<lambda>s. measured_rate s (cv_decode_ms_per_frame (cd_video (rd_client s))),
     \<lambda>s. measured_rate s (cf_frame_gap_p95_ms (cd_frame_timing (rd_client s))),
     \<lambda>s. cf_capture_to_present_p95_ms (cd_frame_timing (rd_client s)),
     \<lambda>s. measured_rate s (cf_estimated_pipeline_ms (cd_frame_timing (rd_client s))),
     \<lambda>s. Some (ms_encode_ms (rd_host s)),
     \<lambda>s. if 0 < ms_input_samples (rd_host s) then finite_positive (ms_input_arrival_ms (rd_host s)) else None,
     \<lambda>s. if 0 < ms_input_samples (rd_host s) then finite_positive (ms_input_inject_ms (rd_host s)) else None]"

definition retained_seconds :: "'v recorded_sample list \<Rightarrow> f64" where
  "retained_seconds ss =
     (if ss = [] then 0
      else max64 (rd_host_received_epoch_ms (last ss) - rd_host_received_epoch_ms (hd ss)) 0 / lit64 1000 1)"

definition summarize :: "'v recorded_sample list \<Rightarrow> u64 \<Rightarrow> diagnostic_summary option" where
  "summarize ss discarded =
     (case those (map (\<lambda>read. distribution_of (values_of read ss)) summary_readers) of
        None \<Rightarrow> None
      | Some ds \<Rightarrow>
          (let latest = (\<lambda>f. if ss = [] then 0 else f (last ss))
           in Some \<lparr>sm_sample_count = length ss, sm_retained_seconds = retained_seconds ss, sm_discarded_samples = discarded,
                sm_rtt_ms = ds ! 0, sm_receive_mbps = ds ! 1, sm_decode_fps = ds ! 2, sm_playback_fps = ds ! 3,
                sm_jitter_buffer_ms_per_frame = ds ! 4, sm_decode_ms_per_frame = ds ! 5, sm_frame_gap_p95_ms = ds ! 6,
                sm_capture_to_present_p95_ms = ds ! 7, sm_estimated_pipeline_ms = ds ! 8, sm_host_encode_ms = ds ! 9,
                sm_input_arrival_ms = ds ! 10, sm_input_inject_ms = ds ! 11,
                sm_packet_loss_total = latest (\<lambda>s. cn_packets_lost (cd_network (rd_client s))),
                sm_latest_input_sample_gaps = latest (\<lambda>s. ms_sample_sequence_gaps (rd_host s)),
                sm_latest_input_errors = latest (\<lambda>s. ms_input_errors (rd_host s)),
                sm_latest_video_transport_drops = latest (\<lambda>s. ms_video_transport_drops (rd_host s))\<rparr>))"

section \<open>The recorder\<close>

record 'v recorder_state =
  rc_samples :: "'v recorded_sample list"
  rc_discarded_samples :: u64

definition default_recorder :: "'v recorder_state" where
  "default_recorder = \<lparr>rc_samples = [], rc_discarded_samples = 0\<rparr>"

definition diagnostic_record :: "f64 \<Rightarrow> 'v client_diagnostic_sample \<Rightarrow> metrics_snapshot \<Rightarrow> 'v recorder_state \<Rightarrow> 'v recorder_state" where
  "diagnostic_record now client host s =
     (let s = (if length (rc_samples s) = MAX_DIAGNOSTIC_SAMPLES
          then s\<lparr>rc_samples := tl (rc_samples s), rc_discarded_samples := rc_discarded_samples s + 1\<rparr> else s)
      in s\<lparr>rc_samples := rc_samples s @ [\<lparr>rd_host_received_epoch_ms = now, rd_client = client, rd_host = host\<rparr>]\<rparr>)"

definition diagnostic_latest :: "'v recorder_state \<Rightarrow> 'v recorded_sample option" where
  "diagnostic_latest s = (if rc_samples s = [] then None else Some (last (rc_samples s)))"

definition diagnostic_clear :: "'v recorder_state \<Rightarrow> 'v recorder_state" where
  "diagnostic_clear s = default_recorder"

definition diagnostic_summarize :: "'v recorder_state \<Rightarrow> diagnostic_summary option" where
  "diagnostic_summarize s = summarize (rc_samples s) (rc_discarded_samples s)"

record 'v diagnostic_report =
  dr_schema_version :: u32
  dr_generated_epoch_ms :: f64
  dr_limitations :: "ustring list"
  dr_summary :: diagnostic_summary
  dr_samples :: "'v recorded_sample list"

definition diagnostic_report_of :: "f64 \<Rightarrow> 'v recorder_state \<Rightarrow> 'v diagnostic_report option" where
  "diagnostic_report_of now s =
     map_option (\<lambda>summary. \<lparr>dr_schema_version = 1, dr_generated_epoch_ms = now,
       dr_limitations = [lit ''capture-to-present timing depends on Safari exposing WebRTC frame metadata'',
         lit ''one-way input age is an NTP-style estimate derived from LAN RTT and clock offset'',
         lit ''exact Pencil-to-photon glass latency requires synchronized high-speed camera measurement''],
       dr_summary = summary, dr_samples = rc_samples s\<rparr>) (diagnostic_summarize s)"

section \<open>Indices of percentiles\<close>

lemma upto_ratio_mag:
  assumes "fp_upto f k (fp_ratio f False n d)"
  shows "fp_ratio f False n d = FFin False (round_mag f n d) \<and> mag_units f (round_mag f n d) \<le> k * one_units f"
  using assms by (auto simp: fp_ratio_def fp_pack_def fp_upto_def split: if_splits)

lemma fp_round_upto:
  assumes "format_ok f" "0 \<le> k" "k < 2 ^ Suc (frac_bits f)" "0 \<le> m" "mag_units f m \<le> k * one_units f"
  shows "fp_upto f k (fp_round f (FFin False m))"
proof -
  have o: "0 < one_units f" by simp
  have "(2 * mag_units f m + one_units f) div (2 * one_units f) \<le> (2 * one_units f * k + one_units f) div (2 * one_units f)"
    using assms(5) o by (intro zdiv_mono1) (simp_all add: mult.commute mult.left_commute)
  also have "\<dots> = k" using o by (subst div_mult_self4) (simp_all add: div_pos_pos_trivial)
  finally have "(2 * mag_units f m + one_units f) div (2 * one_units f) * one_units f \<le> k * one_units f"
    using o by (intro mult_right_mono) simp_all
  moreover have "0 \<le> (2 * mag_units f m + one_units f) div (2 * one_units f)"
    using mag_units_nonneg [OF assms(4), of f] o by (simp add: pos_imp_zdiv_nonneg_iff)
  ultimately show ?thesis
    using assms fp_upto_ratio [of f k 1 "(2 * mag_units f m + one_units f) div (2 * one_units f) * one_units f"] by simp
qed

text \<open>The magnitude of each intermediate value of the index computation.\<close>

definition quantile_mag :: "int \<Rightarrow> int \<Rightarrow> int" where
  "quantile_mag a b = round_mag b64 (a * one_units b64) b"

definition scaled_mag :: "int \<Rightarrow> int \<Rightarrow> int" where
  "scaled_mag k m = round_mag b64 (mag_units b64 (round_mag b64 (k * one_units b64) 1) * mag_units b64 m) (one_units b64)"

definition rounded_mag :: "int \<Rightarrow> int" where
  "rounded_mag m = round_mag b64 ((2 * mag_units b64 m + one_units b64) div (2 * one_units b64) * one_units b64) 1"

lemma mag_mono:
  assumes "0 \<le> m" "m \<le> m'" "0 \<le> k"
  shows "scaled_mag k m \<le> scaled_mag k m'" "rounded_mag m \<le> rounded_mag m'" "0 \<le> scaled_mag k m" "0 \<le> rounded_mag m"
proof -
  have o: "0 < one_units b64" by simp
  have mu: "0 \<le> mag_units b64 m" "mag_units b64 m \<le> mag_units b64 m'"
    using assms mag_units_nonneg [of m b64] mag_units_le_iff [of m m' b64] by simp_all
  have K: "0 \<le> round_mag b64 (k * one_units b64) 1" using assms(3) o by (intro round_mag_nonneg) simp_all
  then have KU: "0 \<le> mag_units b64 (round_mag b64 (k * one_units b64) 1)" by (rule mag_units_nonneg)
  show "scaled_mag k m \<le> scaled_mag k m'" unfolding scaled_mag_def
    using KU mu o by (intro round_mag_mono) (simp_all add: mult_left_mono mult_right_mono)
  have "(2 * mag_units b64 m + one_units b64) div (2 * one_units b64) \<le> (2 * mag_units b64 m' + one_units b64) div (2 * one_units b64)"
    using mu o by (intro zdiv_mono1) simp_all
  moreover have z: "0 \<le> (2 * mag_units b64 m + one_units b64) div (2 * one_units b64)"
    using mu o by (simp add: pos_imp_zdiv_nonneg_iff)
  ultimately show "rounded_mag m \<le> rounded_mag m'" unfolding rounded_mag_def
    using o by (intro round_mag_mono) (simp_all add: mult_right_mono)
  show "0 \<le> scaled_mag k m" unfolding scaled_mag_def using KU mu o by (intro round_mag_nonneg) simp_all
  show "0 \<le> rounded_mag m" unfolding rounded_mag_def using z o by (intro round_mag_nonneg) simp_all
qed

lemma quantile_mag_mono: "0 \<le> a \<Longrightarrow> a \<le> a' \<Longrightarrow> 0 < b \<Longrightarrow> quantile_mag a b \<le> quantile_mag a' b \<and> 0 \<le> quantile_mag a b"
proof -
  assume "0 \<le> a" "a \<le> a'" "0 < b"
  moreover have "0 < one_units b64" by simp
  ultimately show ?thesis unfolding quantile_mag_def
    by (intro conjI round_mag_mono round_mag_nonneg) (simp_all add: mult_right_mono)
qed

lemma rounded_index_mag:
  assumes "0 < n" "n \<le> 2 ^ 53" "0 \<le> a" "a \<le> b" "0 < b"
  shows "int (rounded_index n (lit64 a b)) = mag_units b64 (rounded_mag (scaled_mag (int (n - 1)) (quantile_mag a b))) div one_units b64 \<and>
    rounded_index n (lit64 a b) < n"
proof -
  define k where "k = int (n - 1)"
  have k: "0 \<le> k" "k < 2 ^ 53" using assms by (auto simp: k_def)
  have o: "0 < one_units b64" by simp
  have q: "fp64 (lit64 a b) = FFin False (quantile_mag a b)" "fp_upto b64 1 (fp64 (lit64 a b))"
  proof -
    have "fp_upto b64 1 (fp_ratio b64 False (a * one_units b64) b)"
      using assms fp_upto_ratio [of b64 1 b "a * one_units b64"] by (simp add: mult.commute mult_right_mono)
    moreover from this have "fp64 (lit64 a b) = fp_ratio b64 False (a * one_units b64) b"
      using assms(3) by (simp add: lit64_def fp_lit_def fp64_upto)
    ultimately show "fp64 (lit64 a b) = FFin False (quantile_mag a b)" "fp_upto b64 1 (fp64 (lit64 a b))"
      using upto_ratio_mag by (simp_all add: quantile_mag_def)
  qed
  have K: "fp64 (f64_of_int k) = FFin False (round_mag b64 (k * one_units b64) 1)" "fp_upto b64 k (fp64 (f64_of_int k))"
  proof -
    have "fp_upto b64 k (fp_ratio b64 False (k * one_units b64) 1)"
      using k fp_upto_ratio [of b64 k 1 "k * one_units b64"] by simp
    moreover from this have "fp64 (f64_of_int k) = fp_ratio b64 False (k * one_units b64) 1"
      using k by (simp add: f64_of_int_def fp_of_int_def fp64_upto)
    ultimately show "fp64 (f64_of_int k) = FFin False (round_mag b64 (k * one_units b64) 1)" "fp_upto b64 k (fp64 (f64_of_int k))"
      using upto_ratio_mag by simp_all
  qed
  define m where "m = scaled_mag k (quantile_mag a b)"
  have prod: "fp64 (f64_of_int k * lit64 a b) = FFin False m" "mag_units b64 m \<le> k * one_units b64"
  proof -
    have u: "fp_upto b64 k (fp_mul b64 (fp64 (f64_of_int k)) (fp64 (lit64 a b)))"
      using fp_upto_mul [of b64 k "fp64 (lit64 a b)" "fp64 (f64_of_int k)"] q(2) K(2) k by (simp add: fp_mul_commute [of b64 "fp64 (lit64 a b)"])
    then have "fp64 (f64_of_int k * lit64 a b) = fp_mul b64 (fp64 (f64_of_int k)) (fp64 (lit64 a b))"
      by (simp add: times_f64_def fp64_upto)
    with u show "fp64 (f64_of_int k * lit64 a b) = FFin False m" "mag_units b64 m \<le> k * one_units b64"
      using upto_ratio_mag [of b64 k] by (simp_all add: q(1) K(1) m_def scaled_mag_def)
  qed
  have m0: "0 \<le> m" unfolding m_def using quantile_mag_mono [of a a b] assms k mag_mono(3) [OF _ order_refl] by simp
  have rnd: "fp64 (round64 (f64_of_int k * lit64 a b)) = FFin False (rounded_mag m)" "mag_units b64 (rounded_mag m) \<le> k * one_units b64"
  proof -
    have u: "fp_upto b64 k (fp_round b64 (FFin False m))"
      using fp_round_upto [of b64 k m] k m0 prod(2) by simp
    then have "fp64 (round64 (f64_of_int k * lit64 a b)) = fp_round b64 (FFin False m)"
      unfolding round64_def prod(1) by (rule fp64_upto)
    with u show "fp64 (round64 (f64_of_int k * lit64 a b)) = FFin False (rounded_mag m)" "mag_units b64 (rounded_mag m) \<le> k * one_units b64"
      using upto_ratio_mag [of b64 k] by (simp_all add: rounded_mag_def)
  qed
  define d where "d = mag_units b64 (rounded_mag m) div one_units b64"
  have r0: "0 \<le> rounded_mag m" using mag_mono(4) [of m m 0] m0 by simp
  have d: "0 \<le> d" "d \<le> k"
    using zdiv_mono1 [OF rnd(2) o] mag_units_nonneg [OF r0, of b64] o by (simp_all add: d_def pos_imp_zdiv_nonneg_iff)
  have "f64_as_u64 (round64 (f64_of_int k * lit64 a b)) = word_of_int d"
    using d k unfolding f64_as_u64_def rnd(1) by (simp add: with_sign_def d_def [symmetric])
  moreover have "uint (word_of_int d :: u64) = d"
  proof -
    have "d < 2 ^ 64" using d(2) k(2) by simp
    with d(1) show ?thesis by (simp add: uint_word_of_int_eq take_bit_int_eq_self)
  qed
  ultimately have idx: "int (rounded_index n (lit64 a b)) = d"
    using d(1) unfolding rounded_index_def unat_eq_nat_uint k_def by simp
  moreover have "int (rounded_index n (lit64 a b)) \<le> int (n - 1)" using idx d(2) by (simp add: k_def)
  ultimately show ?thesis
    using assms(1) by (simp add: d_def m_def k_def)
qed

lemma rounded_index_mono:
  assumes "0 < n" "n \<le> 2 ^ 53" "0 \<le> a" "a \<le> a'" "a' \<le> b" "0 < b"
  shows "rounded_index n (lit64 a b) \<le> rounded_index n (lit64 a' b)"
proof -
  let ?k = "int (n - 1)"
  have q: "0 \<le> quantile_mag a b" "quantile_mag a b \<le> quantile_mag a' b" using quantile_mag_mono assms by simp_all
  have s: "0 \<le> scaled_mag ?k (quantile_mag a b)" "scaled_mag ?k (quantile_mag a b) \<le> scaled_mag ?k (quantile_mag a' b)"
    using mag_mono(1,3) [OF q, of ?k] by simp_all
  have r: "0 \<le> rounded_mag (scaled_mag ?k (quantile_mag a b))"
    "rounded_mag (scaled_mag ?k (quantile_mag a b)) \<le> rounded_mag (scaled_mag ?k (quantile_mag a' b))"
    using mag_mono(2,4) [OF s, of 0] by simp_all
  then have "mag_units b64 (rounded_mag (scaled_mag ?k (quantile_mag a b))) \<le> mag_units b64 (rounded_mag (scaled_mag ?k (quantile_mag a' b)))"
    using mag_units_le_iff by simp
  then have "int (rounded_index n (lit64 a b)) \<le> int (rounded_index n (lit64 a' b))"
    using rounded_index_mag [of n a b] rounded_index_mag [of n a' b] assms by (simp add: zdiv_mono1)
  then show ?thesis by simp
qed

section \<open>Distributions are ordered\<close>

definition ordered_distribution :: "f64 list \<Rightarrow> distribution \<Rightarrow> bool" where
  "ordered_distribution vs dn \<longleftrightarrow> dn_count dn = length vs \<and>
     (vs \<noteq> [] \<longrightarrow> {dn_min dn, dn_p50 dn, dn_p95 dn, dn_p99 dn, dn_max dn} \<subseteq> set vs \<and>
        total_key (dn_min dn) \<le> total_key (dn_p50 dn) \<and> total_key (dn_p50 dn) \<le> total_key (dn_p95 dn) \<and>
        total_key (dn_p95 dn) \<le> total_key (dn_p99 dn) \<and> total_key (dn_p99 dn) \<le> total_key (dn_max dn) \<and>
        (\<forall>v\<in>set vs. total_key (dn_min dn) \<le> total_key v \<and> total_key v \<le> total_key (dn_max dn)))"

lemma distribution_ordered:
  assumes "length vs \<le> 2 ^ 53"
  shows "\<exists>dn. distribution_of vs = Some dn \<and> ordered_distribution vs dn"
proof (cases "vs = []")
  case False
  define ws where "ws = sort_key total_key vs"
  define n where "n = length ws"
  have n: "0 < n" "n \<le> 2 ^ 53" using False assms by (simp_all add: n_def ws_def)
  have ws: "set ws = set vs" "length ws = length vs" by (simp_all add: ws_def)
  define i where "i = (\<lambda>k. rounded_index n (lit64 k 100))"
  have i: "i k < n" if "0 \<le> k" "k \<le> 100" for k
    using rounded_index_mag [of n k 100] n that by (simp add: i_def)
  have pc: "percentile ws (lit64 k 100) = Some (ws ! i k)" if "0 \<le> k" "k \<le> 100" for k
    using i [OF that] by (simp add: percentile_def Let_def i_def n_def)
  have im: "i j \<le> i k" if "0 \<le> j" "j \<le> k" "k \<le> 100" for j k
    using rounded_index_mono [of n j k 100] n that by (simp add: i_def)
  have le: "total_key (ws ! j) \<le> total_key (ws ! k)" if "j \<le> k" "k < n" for j k
    using that sorted_nth_mono [of "map total_key ws" j k] by (simp add: ws_def n_def)
  have mem: "ws ! j \<in> set vs" if "j < n" for j
    using that nth_mem [of j ws] by (simp add: n_def ws(1))
  define dn where "dn = \<lparr>dn_count = n, dn_min = ws ! 0, dn_mean = sum64 ws / f64_of_int (int n), dn_p50 = ws ! i 50,
    dn_p95 = ws ! i 95, dn_p99 = ws ! i 99, dn_max = ws ! (n - 1)\<rparr>"
  have "distribution_of vs = Some dn"
    using False pc by (simp add: distribution_of_def Let_def ws_def [symmetric] dn_def n_def)
  moreover have "\<forall>v\<in>set vs. total_key (ws ! 0) \<le> total_key v \<and> total_key v \<le> total_key (ws ! (n - 1))"
  proof
    fix v assume "v \<in> set vs"
    then obtain j where "j < n" "ws ! j = v" by (auto simp: ws(1) [symmetric] in_set_conv_nth n_def)
    then show "total_key (ws ! 0) \<le> total_key v \<and> total_key v \<le> total_key (ws ! (n - 1))"
      using le [of 0 j] le [of j "n - 1"] n by auto
  qed
  moreover have "total_key (ws ! i 99) \<le> total_key (ws ! (n - 1))" using le [of "i 99" "n - 1"] i [of 99] n by simp
  ultimately show ?thesis
    using False mem i le [OF _ i] im [of 50 95] im [of 95 99] n ws(2)
    by (auto simp: ordered_distribution_def dn_def n_def)
qed (simp add: distribution_of_def ordered_distribution_def empty_distribution_def)

section \<open>The recorder keeps the most recent samples\<close>

definition recorded :: "f64 \<times> 'v client_diagnostic_sample \<times> metrics_snapshot \<Rightarrow> 'v recorded_sample" where
  "recorded x = \<lparr>rd_host_received_epoch_ms = fst x, rd_client = fst (snd x), rd_host = snd (snd x)\<rparr>"

definition recording :: "(f64 \<times> 'v client_diagnostic_sample \<times> metrics_snapshot) list \<Rightarrow> 'v recorder_state" where
  "recording xs = fold (\<lambda>(now, client, host). diagnostic_record now client host) xs default_recorder"

lemma recording_window:
  "rc_samples (recording xs) = map recorded (drop (length xs - MAX_DIAGNOSTIC_SAMPLES) xs) \<and>
   rc_discarded_samples (recording xs) = word_of_nat (length xs - MAX_DIAGNOSTIC_SAMPLES)"
proof (induction xs rule: rev_induct)
  case (snoc x xs)
  obtain now client host where x: "x = (now, client, host)" using prod_cases3 by blast
  have step: "recording (xs @ [(now, client, host)]) = diagnostic_record now client host (recording xs)" by (simp add: recording_def)
  show ?case
  proof (cases "length xs < MAX_DIAGNOSTIC_SAMPLES")
    case True
    with snoc show ?thesis by (simp add: step diagnostic_record_def Let_def recorded_def x)
  next
    case False
    then have "length xs + 1 - MAX_DIAGNOSTIC_SAMPLES = Suc (length xs - MAX_DIAGNOSTIC_SAMPLES)" by simp
    moreover have "drop (Suc (length xs - MAX_DIAGNOSTIC_SAMPLES)) xs = tl (drop (length xs - MAX_DIAGNOSTIC_SAMPLES) xs)"
      by (simp add: drop_Suc drop_tl)
    moreover have "Suc (length xs - MAX_DIAGNOSTIC_SAMPLES) \<le> length xs"
      using False by (simp add: MAX_DIAGNOSTIC_SAMPLES_def)
    moreover have "length (rc_samples (recording xs)) = MAX_DIAGNOSTIC_SAMPLES" using snoc False by simp
    ultimately show ?thesis
      using False snoc by (simp add: step diagnostic_record_def Let_def x map_tl) (simp add: recorded_def)
  qed
qed (simp add: recording_def default_recorder_def)

lemma those_map_all:
  "\<forall>x\<in>set xs. f x \<noteq> None \<Longrightarrow> those (map f xs) = Some (map (the \<circ> f) xs)"
  by (induction xs) auto

definition summary_distributions :: "diagnostic_summary \<Rightarrow> distribution list" where
  "summary_distributions sm = [sm_rtt_ms sm, sm_receive_mbps sm, sm_decode_fps sm, sm_playback_fps sm,
     sm_jitter_buffer_ms_per_frame sm, sm_decode_ms_per_frame sm, sm_frame_gap_p95_ms sm, sm_capture_to_present_p95_ms sm,
     sm_estimated_pipeline_ms sm, sm_host_encode_ms sm, sm_input_arrival_ms sm, sm_input_inject_ms sm]"

lemma list_of_twelve: "length ds = 12 \<Longrightarrow>
    [ds ! 0, ds ! 1, ds ! 2, ds ! 3, ds ! 4, ds ! 5, ds ! 6, ds ! 7, ds ! 8, ds ! 9, ds ! 10, ds ! 11] = ds"
  by (rule nth_equalityI) (auto simp: less_Suc_eq numeral_eq_Suc)

lemma summary_effect:
  assumes "s = recording xs"
  shows "length (rc_samples s) = min (length xs) 21600 \<and>
    (\<exists>sm. diagnostic_summarize s = Some sm \<and> sm_sample_count sm = min (length xs) 21600 \<and>
      sm_discarded_samples sm = word_of_nat (length xs - 21600) \<and>
      list_all2 (\<lambda>read dn. ordered_distribution (values_of read (rc_samples s)) dn) summary_readers (summary_distributions sm))"
proof -
  note W = recording_window [of xs, folded assms]
  have len: "length (rc_samples s) = min (length xs) 21600"
    using W by (simp add: MAX_DIAGNOSTIC_SAMPLES_def)
  let ?f = "\<lambda>read. distribution_of (values_of read (rc_samples s))"
  have short: "length (values_of read (rc_samples s)) \<le> 2 ^ 53" for read
  proof -
    have "length (List.map_filter read ys) \<le> length ys" for ys
      by (induction ys) (auto simp: List.map_filter_simps split: option.splits)
    then have "length (values_of read (rc_samples s)) \<le> length (rc_samples s)"
      unfolding values_of_def by (meson length_filter_le order_trans)
    then show ?thesis using len by simp
  qed
  have D: "\<exists>dn. ?f read = Some dn \<and> ordered_distribution (values_of read (rc_samples s)) dn" for read
    by (rule distribution_ordered [OF short])
  then have all: "those (map ?f summary_readers) = Some (map (the \<circ> ?f) summary_readers)"
    by (intro those_map_all) fastforce
  have O: "ordered_distribution (values_of read (rc_samples s)) (the (?f read))" for read
    using D [of read] by auto
  let ?ds = "map (the \<circ> ?f) summary_readers"
  obtain sm where sm: "diagnostic_summarize s = Some sm" "sm_sample_count sm = length (rc_samples s)"
    "sm_discarded_samples sm = rc_discarded_samples s"
    "summary_distributions sm = [?ds ! 0, ?ds ! 1, ?ds ! 2, ?ds ! 3, ?ds ! 4, ?ds ! 5, ?ds ! 6, ?ds ! 7, ?ds ! 8, ?ds ! 9, ?ds ! 10, ?ds ! 11]"
    by (simp add: diagnostic_summarize_def summarize_def all Let_def summary_distributions_def)
  have "summary_distributions sm = ?ds"
    unfolding sm(4) by (rule list_of_twelve) (simp add: summary_readers_def)
  then have "list_all2 (\<lambda>read dn. ordered_distribution (values_of read (rc_samples s)) dn) summary_readers (summary_distributions sm)"
    using O by (simp add: list_all2_conv_all_nth)
  then show ?thesis
    using sm len W by (simp add: MAX_DIAGNOSTIC_SAMPLES_def)
qed

text \<open>However many diagnostic samples a client sends, the recorder keeps exactly the most recent 21600 and
  counts the others; a summary of them never fails, reports that number, and each of its twelve distributions counts the finite
  values it reads and is ordered: least, median, 95th and 99th percentile and greatest are values of the window, in
  ascending order, with every value between the first and the last.\<close>
theorem diagnostic_summary_ordered:
  assumes "s = recording xs"
  shows "length (rc_samples s) = min (length xs) 21600 \<and>
    (\<exists>sm. diagnostic_summarize s = Some sm \<and> sm_sample_count sm = min (length xs) 21600 \<and>
      sm_discarded_samples sm = word_of_nat (length xs - 21600) \<and>
      list_all2 (\<lambda>read dn. ordered_distribution (values_of read (rc_samples s)) dn) summary_readers (summary_distributions sm))"
  using assms by (rule summary_effect)

theorem diagnostic_summary_ordered_witness:
  "\<forall>c h. \<exists>sm. diagnostic_summarize (recording [(0, c, h), (1, c, h)]) = Some sm \<and> sm_sample_count sm = 2"
proof (intro allI)
  fix c h
  show "\<exists>sm. diagnostic_summarize (recording [(0, c, h), (1, c, h)]) = Some sm \<and> sm_sample_count sm = 2"
    using diagnostic_summary_ordered [of _ "[(0, c, h), (1, c, h)]", OF refl] by (auto simp: numeral_2_eq_2)
qed

end
