(* ===== verification/Http.thy ===== *)
theory Http
  imports Downloads Video Peer Diagnostics
begin

text \<open>
  The HTTP vocabulary of \<open>crates/transport/src/server.rs\<close>: headers, cookies, the origin check, the
  authorisation of a request, responses and the choice of address and port.  The web framework parses
  requests and serialises responses; a header map lists names (in lower case) with their bytes, a body
  is the value that is serialised.
\<close>

section \<open>Headers\<close>

type_synonym header_map = "(string \<times> u8 list) list"

text \<open>\<open>HeaderValue::to_str\<close> and \<open>from_str\<close> accept tabs and visible ASCII.\<close>

definition header_char :: "nat \<Rightarrow> bool" where
  "header_char c \<longleftrightarrow> 32 \<le> c \<and> c < 127 \<or> c = 9"

definition header_to_str :: "u8 list \<Rightarrow> ustring option" where
  "header_to_str bs = (if list_all (header_char \<circ> unat) bs then Some (map unat bs) else None)"

definition header_text :: "header_map \<Rightarrow> string \<Rightarrow> ustring option" where
  "header_text hs name = Option.bind (map_of hs name) header_to_str"

definition header_u64 :: "header_map \<Rightarrow> string \<Rightarrow> (u64, string) result" where
  "header_u64 hs name = ok_or ''x-nfidb-offset must be an unsigned integer'' (Option.bind (header_text hs name) parse_u64)"

text \<open>\<open>split(';')\<close> with \<open>find_map\<close>: the first cookie that has an equals sign and exactly this name.\<close>

definition cookie_pair :: "ustring \<Rightarrow> ustring \<Rightarrow> ustring option" where
  "cookie_pair name cookie =
     (case split_once 61 (trim cookie) of None \<Rightarrow> None | Some (key, val) \<Rightarrow> if key = name then Some val else None)"

fun first_some :: "('a \<Rightarrow> 'b option) \<Rightarrow> 'a list \<Rightarrow> 'b option" where
  "first_some f [] = None"
| "first_some f (x # xs) = (case f x of Some y \<Rightarrow> Some y | None \<Rightarrow> first_some f xs)"

definition cookie_value :: "ustring \<Rightarrow> ustring \<Rightarrow> ustring option" where
  "cookie_value cookies name = first_some (cookie_pair name) (split_on 59 cookies)"

definition same_origin :: "header_map \<Rightarrow> bool" where
  "same_origin hs =
     (case header_text hs ''origin'' of
        None \<Rightarrow> True
      | Some origin \<Rightarrow>
          (case header_text hs ''host'' of
             None \<Rightarrow> False
           | Some host \<Rightarrow> eq_ignore_ascii_case origin (lit ''http://'' @ host) \<or> eq_ignore_ascii_case origin (lit ''https://'' @ host)))"

section \<open>Authorisation\<close>

definition token_cookie :: "header_map \<Rightarrow> ustring option" where
  "token_cookie hs = Option.bind (header_text hs ''cookie'') (\<lambda>cookies. cookie_value cookies (lit ''nfidb_token''))"

definition authorized_session :: "session_crypto \<Rightarrow> header_map \<Rightarrow> session_state \<Rightarrow> uuid option" where
  "authorized_session cr hs ses =
     (case token_cookie hs of None \<Rightarrow> None | Some token \<Rightarrow> if authorize cr token ses then Some (session_id ses) else None)"

definition authorized_cookie :: "session_crypto \<Rightarrow> header_map \<Rightarrow> session_state \<Rightarrow> bool" where
  "authorized_cookie cr hs ses \<longleftrightarrow> authorized_session cr hs ses \<noteq> None"

definition authorize_mutation :: "session_crypto \<Rightarrow> header_map \<Rightarrow> session_state \<Rightarrow> uuid option" where
  "authorize_mutation cr hs ses = (if same_origin hs then authorized_session cr hs ses else None)"

section \<open>Control state\<close>

record remote_input_settings =
  ri_touch_enabled :: bool
  ri_gestures_enabled :: bool

record input_control_state =
  ic_revision :: u64
  ic_settings :: remote_input_settings

record video_control_state =
  vc_settings :: video_settings_snapshot
  vc_host_capabilities :: "encoder_capability list"
  vc_browser_capabilities :: browser_video_capabilities
  vc_compatibility :: "compatibility_entry list"
  vc_runtime :: video_runtime_status
  vc_learned_results :: "auto_benchmark_observation list"

record status_response =
  sr_session :: public_session
  sr_protocol_version :: u8
  sr_webrtc :: bool
  sr_touch_default :: bool
  sr_mouse_enabled :: bool
  sr_keyboard_enabled :: bool
  sr_gestures_default :: bool
  sr_file_transfer_enabled :: bool

section \<open>Responses\<close>

datatype response_body =
    BodyEmpty
  | BodyError ustring
  | BodyFileError ustring "u64 option"
  | BodyStatus status_response
  | BodyInput input_control_state
  | BodyInputConflict ustring input_control_state
  | BodyPair pair_result
  | BodyMetrics metrics_snapshot
  | BodyDiagnostics diagnostic_summary
  | BodyVideo video_control_state
  | BodyVideoConflict ustring video_control_state
  | BodyFiles browser_file_listing
  | BodyTicket upload_ticket
  | BodyProgress upload_progress_info
  | BodyComplete upload_complete
  | BodyDownload download_body
  | BodyAnswer web_rtc_answer
  | BodyAsset "u8 list"
  | BodyUpgrade
  | BodyPanic

record http_response =
  rs_status :: nat
  rs_headers :: "(string \<times> ustring) list"
  rs_body :: response_body

definition reply :: "nat \<Rightarrow> response_body \<Rightarrow> http_response" where
  "reply status body = \<lparr>rs_status = status, rs_headers = [], rs_body = body\<rparr>"

definition ok_json :: "response_body \<Rightarrow> http_response" where
  "ok_json body = reply 200 body"

definition api_error :: "nat \<Rightarrow> ustring \<Rightarrow> http_response" where
  "api_error status message = reply status (BodyError message)"

definition file_error_status :: "transfer_error_kind \<Rightarrow> nat" where
  "file_error_status k =
     (case k of
        Disabled \<Rightarrow> 503
      | Unauthorized \<Rightarrow> 401
      | NotFound \<Rightarrow> 404
      | Invalid \<Rightarrow> 400
      | TooLarge \<Rightarrow> 413
      | Conflict \<Rightarrow> 409
      | Range \<Rightarrow> 416
      | Io \<Rightarrow> 500)"

definition file_error_response :: "transfer_error \<Rightarrow> http_response" where
  "file_error_response e = reply (file_error_status (te_kind e)) (BodyFileError (te_message e) (te_expected_offset e))"

text \<open>A header replaces one of the same name; a value that no header may carry is left out.\<close>

definition set_header :: "string \<Rightarrow> ustring \<Rightarrow> http_response \<Rightarrow> http_response" where
  "set_header name val r = r\<lparr>rs_headers := AList.update name val (rs_headers r)\<rparr>"

definition insert_header :: "string \<Rightarrow> ustring \<Rightarrow> http_response \<Rightarrow> http_response" where
  "insert_header name val r = (if list_all header_char val then set_header name val r else r)"

section \<open>The pages\<close>

text \<open>The embedded files and the guess of their type are parameters.\<close>

definition static_asset :: "(ustring \<Rightarrow> u8 list option) \<Rightarrow> (ustring \<Rightarrow> ustring) \<Rightarrow> ustring \<Rightarrow> http_response" where
  "static_asset assets mime path =
     (let path = trim_start (\<lambda>c. c = 47) path;
          path = (if path = [] \<or> 46 \<notin> set path then lit ''index.html'' else path)
      in case assets path of
           None \<Rightarrow> reply 404 BodyEmpty
         | Some data \<Rightarrow>
             (let r = ok_json (BodyAsset data);
                  r = set_header ''content-type'' (if list_all header_char (mime path) then mime path else lit ''application/octet-stream'') r;
                  r = set_header ''cache-control''
                    (if path = lit ''index.html'' then lit ''no-store'' else lit ''public, max-age=31536000, immutable'') r;
                  r = set_header ''x-content-type-options'' (lit ''nosniff'') r
              in set_header ''referrer-policy'' (lit ''no-referrer'') r))"

section \<open>Address and port\<close>

datatype bind_outcome = Bound | AddressInUse | BindFailed ustring

text \<open>\<open>fuel\<close> counts the offsets left of the hundred; a port above 65535 ends the search.\<close>

fun bind_from :: "(nat \<Rightarrow> bind_outcome) \<Rightarrow> nat \<Rightarrow> nat \<Rightarrow> nat \<Rightarrow> (nat, ustring) result" where
  "bind_from listen preferred port 0 = Err (lit ''ports '' @ show_nat preferred @ lit '' through '' @
     show_nat (min (preferred + 99) 65535) @ lit '' are already in use'')"
| "bind_from listen preferred port (Suc fuel) =
     (if 65535 < port then Err (lit ''ports '' @ show_nat preferred @ lit '' through '' @
        show_nat (min (preferred + 99) 65535) @ lit '' are already in use'')
      else case listen port of
             Bound \<Rightarrow> Ok port
           | AddressInUse \<Rightarrow> bind_from listen preferred (port + 1) fuel
           | BindFailed e \<Rightarrow> Err (lit ''failed to bind LAN server on port '' @ show_nat port @ lit '': '' @ e))"

definition bind_available :: "(nat \<Rightarrow> bind_outcome) \<Rightarrow> u16 \<Rightarrow> (nat, ustring) result" where
  "bind_available listen preferred = bind_from listen (unat preferred) (unat preferred) 100"

type_synonym ipv4 = "u8 \<times> u8 \<times> u8 \<times> u8"

definition is_loopback :: "ipv4 \<Rightarrow> bool" where "is_loopback ip \<longleftrightarrow> fst ip = 127"

definition is_private :: "ipv4 \<Rightarrow> bool" where
  "is_private ip = (case ip of (a, b, c, d) \<Rightarrow> a = 10 \<or> a = 172 \<and> 16 \<le> b \<and> b \<le> 31 \<or> a = 192 \<and> b = 168)"

definition is_link_local :: "ipv4 \<Rightarrow> bool" where
  "is_link_local ip = (case ip of (a, b, c, d) \<Rightarrow> a = 169 \<and> b = 254)"

definition contains :: "ustring \<Rightarrow> ustring \<Rightarrow> bool" where
  "contains s t \<longleftrightarrow> sublist t s"

definition physical_lan :: "ustring \<Rightarrow> bool" where
  "physical_lan name =
     (let adapter = to_ascii_lowercase name
      in contains adapter (lit ''wi-fi'') \<or> contains adapter (lit ''ethernet'') \<and> \<not> contains adapter (lit ''vethernet''))"

text \<open>The interfaces of the machine (None: an IPv6 address); the sort is stable and false sorts before true.\<close>

definition address_rank :: "ustring \<times> ipv4 \<Rightarrow> nat" where
  "address_rank x = (if is_link_local (snd x) then 2 else 0) + (if physical_lan (fst x) then 0 else 1)"

definition best_local_ipv4 :: "(ustring \<times> ipv4 option) list \<Rightarrow> ipv4" where
  "best_local_ipv4 interfaces =
     (let candidates = List.map_filter (\<lambda>(name, ip). case ip of
            None \<Rightarrow> None
          | Some ip \<Rightarrow> if \<not> is_loopback ip \<and> (is_private ip \<or> is_link_local ip) then Some (name, ip) else None) interfaces
      in case sort_key address_rank candidates of [] \<Rightarrow> (127, 0, 0, 1) | (_, ip) # _ \<Rightarrow> ip)"

definition ipv4_text :: "ipv4 \<Rightarrow> ustring" where
  "ipv4_text ip = (case ip of (a, b, c, d) \<Rightarrow> show_nat (unat a) @ [46] @ show_nat (unat b) @ [46] @ show_nat (unat c) @ [46] @ show_nat (unat d))"

record server_info =
  si_port :: nat
  si_host_name :: ustring
  si_local_ip :: ipv4
  si_friendly_url :: ustring
  si_fallback_url :: ustring
  si_qr_url :: ustring
  si_pin :: ustring

definition server_info_of :: "nat \<Rightarrow> ipv4 \<Rightarrow> ustring \<Rightarrow> session_state \<Rightarrow> server_info" where
  "server_info_of port ip host ses =
     (let fallback = lit ''http://'' @ ipv4_text ip @ lit '':'' @ show_nat port @ lit ''/''
      in \<lparr>si_port = port, si_host_name = host, si_local_ip = ip,
          si_friendly_url = lit ''http://'' @ host @ lit ''.local:'' @ show_nat port @ lit ''/'', si_fallback_url = fallback,
          si_qr_url = fallback @ lit ''?qr='' @ qr_secret ses, si_pin = pin ses\<rparr>)"

end
