(* ===== verification/Server.thy ===== *)
theory Server
  imports Http
begin

text \<open>
  \<open>crates/transport/src/server.rs\<close>: the state of the LAN server, its request handlers, the control
  socket and the handle that the Windows application holds.  A handler is a function from what the
  framework extracted from the request to the response and the new state; the runtime that switches
  encoders is the trait \<open>VideoSettingsRuntime\<close>, a record of methods over its own state.  Each
  handler is one step; what other tasks do between its suspension points is other steps.
\<close>

section \<open>State\<close>

record 'r video_runtime =
  rtm_apply :: "video_config \<Rightarrow> browser_video_capabilities \<Rightarrow> 'r \<Rightarrow> (video_runtime_status, ustring) result \<times> 'r"
  rtm_status :: "'r \<Rightarrow> video_runtime_status"
  rtm_capabilities :: "'r \<Rightarrow> encoder_capability list"
  rtm_request_keyframe :: "'r \<Rightarrow> 'r"
  rtm_record :: "auto_benchmark_observation \<Rightarrow> 'r \<Rightarrow> (unit, ustring) result \<times> 'r"
  rtm_clear :: "'r \<Rightarrow> (unit, ustring) result \<times> 'r"
  rtm_results :: "'r \<Rightarrow> auto_benchmark_observation list"

record server_options =
  so_preferred_port :: u16
  so_host_name :: ustring
  so_mode :: ustring
  so_mdns :: bool
  so_touch_default :: bool
  so_mouse_enabled :: bool
  so_keyboard_enabled :: bool
  so_gestures_default :: bool
  so_file_transfer :: file_transfer_options
  so_video :: video_config

record ('s, 'r, 'v) app_state =
  app_options :: server_options
  app_session :: session_state
  app_metrics :: metrics
  app_sink :: 's
  app_keyframe :: bool
  app_peer :: active_peer
  app_diagnostics :: "'v recorder_state"
  app_files :: file_manager
  app_video_settings :: video_settings_snapshot
  app_input_settings :: input_control_state
  app_browser_video :: browser_video_capabilities
  app_runtime :: 'r
  app_disk :: config_disk

text \<open>The parts of the host that do not change, and the facts of one moment.\<close>

record ('s, 'r) server_env =
  ev_crypto :: session_crypto
  ev_sink :: "'s input_sink"
  ev_runtime :: "'r video_runtime"
  ev_platform :: platform
  ev_toml :: toml
  ev_io_text :: "io_error \<Rightarrow> ustring"

definition server_state ::
  "(ustring \<Rightarrow> bool) \<Rightarrow> server_options \<Rightarrow> session_state \<Rightarrow> metrics \<Rightarrow> 's \<Rightarrow> 'r \<Rightarrow> config_disk \<Rightarrow> directory \<Rightarrow> directory \<Rightarrow> ('s, 'r, 'v) app_state" where
  "server_state removed options ses m sink runtime disk staging inbox =
     \<lparr>app_options = options, app_session = ses, app_metrics = m, app_sink = sink, app_keyframe = False, app_peer = default_peer,
      app_diagnostics = default_recorder, app_files = manager_new removed (so_file_transfer options) staging inbox,
      app_video_settings = \<lparr>vs_revision = 1, vs_settings = so_video options\<rparr>,
      app_input_settings = \<lparr>ic_revision = 1, ic_settings = \<lparr>ri_touch_enabled = so_touch_default options,
        ri_gestures_enabled = so_gestures_default options\<rparr>\<rparr>,
      app_browser_video = default_browser, app_runtime = runtime, app_disk = disk\<rparr>"

section \<open>Shared steps\<close>

definition reset_input :: "('s, 'r) server_env \<Rightarrow> ('s, 'r, 'v) app_state \<Rightarrow> ('s, 'r, 'v) app_state" where
  "reset_input env st = st\<lparr>app_sink := snd (sk_reset_all (ev_sink env) (app_sink st))\<rparr>"

definition forget_continuity :: "('s, 'r, 'v) app_state \<Rightarrow> ('s, 'r, 'v) app_state" where
  "forget_continuity st = st\<lparr>app_metrics := reset_input_continuity (app_metrics st)\<rparr>"

definition close_peer :: "('s, 'r, 'v) app_state \<Rightarrow> ('s, 'r, 'v) app_state" where
  "close_peer st = st\<lparr>app_peer := peer_close (app_peer st)\<rparr>"

definition codec_switched :: "('s, 'r) server_env \<Rightarrow> video_codec \<Rightarrow> video_runtime_status \<Rightarrow> ('s, 'r, 'v) app_state \<Rightarrow> ('s, 'r, 'v) app_state" where
  "codec_switched env previous status st =
     (if vr_codec status \<noteq> previous then forget_continuity (reset_input env (close_peer st)) else st)"

definition current_codec :: "('s, 'r) server_env \<Rightarrow> ('s, 'r, 'v) app_state \<Rightarrow> video_codec" where
  "current_codec env st = vr_codec (rtm_status (ev_runtime env) (app_runtime st))"

definition unauthorized :: http_response where
  "unauthorized = api_error 401 (lit ''invalid session token'')"

definition forbidden :: http_response where
  "forbidden = api_error 401 (lit ''invalid session token or request origin'')"

section \<open>Input settings\<close>

definition input_revision_matches :: "u64 \<Rightarrow> u64 \<Rightarrow> bool" where
  "input_revision_matches base current \<longleftrightarrow> base = current"

definition apply_input_settings_state ::
  "('s, 'r) server_env \<Rightarrow> remote_input_settings \<Rightarrow> u64 option \<Rightarrow> ('s, 'r, 'v) app_state \<Rightarrow>
   (input_control_state, ustring) result \<times> ('s, 'r, 'v) app_state" where
  "apply_input_settings_state env settings expected st =
     (let current = app_input_settings st
      in if (case expected of Some r \<Rightarrow> r \<noteq> ic_revision current | None \<Rightarrow> False)
         then (Err (lit ''input settings changed on another device''), st)
         else if ic_settings current = settings then (Ok current, st)
         else
           (case sk_set_remote_input_options (ev_sink env) (ri_touch_enabled settings) (ri_gestures_enabled settings) (app_sink st) of
              (Err e, s) \<Rightarrow> (Err e, st\<lparr>app_sink := s\<rparr>)
            | (Ok _, s) \<Rightarrow>
                (let next = \<lparr>ic_revision = sat_add (ic_revision current) 1, ic_settings = settings\<rparr>
                 in (Ok next, forget_continuity (st\<lparr>app_sink := s, app_input_settings := next\<rparr>)))))"

record set_input_settings_request =
  sir_base_revision :: u64
  sir_settings :: remote_input_settings

definition input_handler :: "('s, 'r) server_env \<Rightarrow> header_map \<Rightarrow> ('s, 'r, 'v) app_state \<Rightarrow> http_response \<times> ('s, 'r, 'v) app_state" where
  "input_handler env hs st =
     (if \<not> authorized_cookie (ev_crypto env) hs (app_session st) then (unauthorized, st)
      else (ok_json (BodyInput (app_input_settings st)), st))"

definition set_input_settings ::
  "('s, 'r) server_env \<Rightarrow> header_map \<Rightarrow> set_input_settings_request \<Rightarrow> ('s, 'r, 'v) app_state \<Rightarrow> http_response \<times> ('s, 'r, 'v) app_state" where
  "set_input_settings env hs q st =
     (if authorize_mutation (ev_crypto env) hs (app_session st) = None then (forbidden, st)
      else if \<not> input_revision_matches (sir_base_revision q) (ic_revision (app_input_settings st))
      then (reply 409 (BodyInputConflict (lit ''input settings changed on another device'') (app_input_settings st)), st)
      else
        (case apply_input_settings_state env (sir_settings q) (Some (sir_base_revision q)) st of
           (Ok control, st) \<Rightarrow> (ok_json (BodyInput control), st)
         | (Err e, st) \<Rightarrow> (api_error 400 e, st)))"

section \<open>Status, pairing, metrics\<close>

definition status_handler :: "nat \<Rightarrow> ('s, 'r, 'v) app_state \<Rightarrow> http_response \<times> ('s, 'r, 'v) app_state" where
  "status_handler now st =
     (let input = ic_settings (app_input_settings st);
          (snap, files) = manager_snapshot now (app_files st)
      in (ok_json (BodyStatus \<lparr>sr_session = session_public now (so_host_name (app_options st)) (so_mode (app_options st)) (app_session st),
            sr_protocol_version = PROTOCOL_VERSION, sr_webrtc = True, sr_touch_default = ri_touch_enabled input,
            sr_mouse_enabled = so_mouse_enabled (app_options st), sr_keyboard_enabled = so_keyboard_enabled (app_options st),
            sr_gestures_default = ri_gestures_enabled input, sr_file_transfer_enabled = fs_enabled snap\<rparr>),
          st\<lparr>app_files := files\<rparr>))"

definition session_error_text :: "session_error \<Rightarrow> ustring" where
  "session_error_text e = (case e of
     Expired \<Rightarrow> lit ''the pairing code expired; reset the PIN and QR code on Windows''
   | InvalidCredentials \<Rightarrow> lit ''invalid pairing credentials'')"

definition pairing_cookie :: "ustring \<Rightarrow> ustring" where
  "pairing_cookie token = lit ''nfidb_token='' @ token @ lit ''; Path=/; HttpOnly; SameSite=Strict; Max-Age=28800''"

definition pair_handler ::
  "('s, 'r) server_env \<Rightarrow> nat \<Rightarrow> u8 list \<Rightarrow> ustring option \<Rightarrow> ustring option \<Rightarrow> ('s, 'r, 'v) app_state \<Rightarrow>
   http_response \<times> ('s, 'r, 'v) app_state" where
  "pair_handler env now bytes given_pin given_secret st =
     (let outcome = (case (given_pin, given_secret) of
            (Some p, _) \<Rightarrow> Some (pair_with_pin (ev_crypto env) now bytes p (app_session st))
          | (None, Some q) \<Rightarrow> Some (pair_with_qr_secret (ev_crypto env) now bytes q (app_session st))
          | (None, None) \<Rightarrow> None)
      in case outcome of
           None \<Rightarrow> (api_error 400 (lit ''PIN or QR secret required''), st)
         | Some (Ok result, ses) \<Rightarrow>
             (insert_header ''set-cookie'' (pairing_cookie (access_token result)) (ok_json (BodyPair result)),
              forget_continuity (st\<lparr>app_session := ses\<rparr>))
         | Some (Err e, ses) \<Rightarrow> (api_error 401 (session_error_text e), st\<lparr>app_session := ses\<rparr>))"

definition metrics_handler :: "('s, 'r) server_env \<Rightarrow> header_map \<Rightarrow> nat \<Rightarrow> ('s, 'r, 'v) app_state \<Rightarrow> http_response \<times> ('s, 'r, 'v) app_state" where
  "metrics_handler env hs now st =
     (if \<not> authorized_cookie (ev_crypto env) hs (app_session st) then (unauthorized, st)
      else (case metrics_take_snapshot now (app_metrics st) of
              None \<Rightarrow> (reply 500 BodyPanic, st)
            | Some (snap, m) \<Rightarrow> (ok_json (BodyMetrics snap), st\<lparr>app_metrics := m\<rparr>)))"

definition diagnostics_handler :: "('s, 'r) server_env \<Rightarrow> header_map \<Rightarrow> ('s, 'r, 'v) app_state \<Rightarrow> http_response \<times> ('s, 'r, 'v) app_state" where
  "diagnostics_handler env hs st =
     (if \<not> authorized_cookie (ev_crypto env) hs (app_session st) then (unauthorized, st)
      else (case diagnostic_summarize (app_diagnostics st) of
              None \<Rightarrow> (reply 500 BodyPanic, st)
            | Some summary \<Rightarrow> (ok_json (BodyDiagnostics summary), st)))"

section \<open>Video settings\<close>

definition video_response :: "('s, 'r) server_env \<Rightarrow> ('s, 'r, 'v) app_state \<Rightarrow> video_control_state" where
  "video_response env st =
     (let host = rtm_capabilities (ev_runtime env) (app_runtime st)
      in \<lparr>vc_settings = app_video_settings st, vc_host_capabilities = host, vc_browser_capabilities = app_browser_video st,
          vc_compatibility = compatibility_matrix host (app_browser_video st),
          vc_runtime = rtm_status (ev_runtime env) (app_runtime st), vc_learned_results = rtm_results (ev_runtime env) (app_runtime st)\<rparr>)"

definition video_ok :: "('s, 'r) server_env \<Rightarrow> ('s, 'r, 'v) app_state \<Rightarrow> http_response \<times> ('s, 'r, 'v) app_state" where
  "video_ok env st = (ok_json (BodyVideo (video_response env st)), st)"

definition video_handler :: "('s, 'r) server_env \<Rightarrow> header_map \<Rightarrow> ('s, 'r, 'v) app_state \<Rightarrow> http_response \<times> ('s, 'r, 'v) app_state" where
  "video_handler env hs st =
     (if \<not> authorized_cookie (ev_crypto env) hs (app_session st) then (unauthorized, st) else video_ok env st)"

definition run_apply ::
  "('s, 'r) server_env \<Rightarrow> video_config \<Rightarrow> browser_video_capabilities \<Rightarrow> ('s, 'r, 'v) app_state \<Rightarrow>
   (video_runtime_status, ustring) result \<times> ('s, 'r, 'v) app_state" where
  "run_apply env settings browser st =
     (let (r, runtime) = rtm_apply (ev_runtime env) settings browser (app_runtime st) in (r, st\<lparr>app_runtime := runtime\<rparr>))"

definition report_too_large :: "browser_video_capabilities \<Rightarrow> bool" where
  "report_too_large b \<longleftrightarrow> 1024 < str_len (bv_user_agent b) \<or>
     list_ex (\<lambda>v. 256 < str_len v) (bc_mime_types (bv_h264 b) @ bc_mime_types (bv_hevc b) @ bc_mime_types (bv_av1 b))"

definition set_browser_video_capabilities ::
  "('s, 'r) server_env \<Rightarrow> header_map \<Rightarrow> browser_video_capabilities \<Rightarrow> ('s, 'r, 'v) app_state \<Rightarrow> http_response \<times> ('s, 'r, 'v) app_state" where
  "set_browser_video_capabilities env hs capabilities st =
     (if authorize_mutation (ev_crypto env) hs (app_session st) = None then (forbidden, st)
      else if report_too_large capabilities then (api_error 400 (lit ''browser capability report is too large''), st)
      else
        (let previous = current_codec env st
         in case run_apply env (vs_settings (app_video_settings st)) capabilities st of
              (Ok status, st) \<Rightarrow> video_ok env (codec_switched env previous status (st\<lparr>app_browser_video := capabilities\<rparr>))
            | (Err e, st) \<Rightarrow> (api_error 400 e, st)))"

definition video_revision_matches :: "u64 \<Rightarrow> u64 \<Rightarrow> bool" where
  "video_revision_matches base current \<longleftrightarrow> base = current"

definition apply_video_settings_state ::
  "('s, 'r) server_env \<Rightarrow> video_config \<Rightarrow> u64 option \<Rightarrow> ('s, 'r, 'v) app_state \<Rightarrow>
   (video_runtime_status, ustring) result \<times> ('s, 'r, 'v) app_state" where
  "apply_video_settings_state env settings expected st =
     (case video_validate settings of
        Err e \<Rightarrow> (Err e, st)
      | Ok _ \<Rightarrow>
          (let previous = app_video_settings st; browser = app_browser_video st
           in if (case expected of Some r \<Rightarrow> \<not> video_revision_matches r (vs_revision previous) | None \<Rightarrow> False)
              then (Err (lit ''video settings changed on another device; refresh and try again''), st)
              else
                (case run_apply env settings browser st of
                   (Err e, st) \<Rightarrow> (Err e, st)
                 | (Ok status, st) \<Rightarrow>
                     (case save_video_settings (ev_toml env) settings (app_disk st) of
                        (Err e, disk) \<Rightarrow>
                          (let (r, st) = run_apply env (vs_settings previous) browser (st\<lparr>app_disk := disk\<rparr>);
                               rollback = (case r of Err v \<Rightarrow> lit ''; rollback also failed: '' @ v | Ok _ \<Rightarrow> [])
                           in (Err (lit ''failed to save video settings: '' @ ev_io_text env e @ rollback), st))
                      | (Ok _, disk) \<Rightarrow>
                          (Ok status, st\<lparr>app_disk := disk, app_video_settings :=
                             \<lparr>vs_revision = sat_add (vs_revision previous) 1, vs_settings = settings\<rparr>\<rparr>)))))"

definition set_video_settings ::
  "('s, 'r) server_env \<Rightarrow> header_map \<Rightarrow> set_video_settings_request \<Rightarrow> ('s, 'r, 'v) app_state \<Rightarrow> http_response \<times> ('s, 'r, 'v) app_state" where
  "set_video_settings env hs q st =
     (if authorize_mutation (ev_crypto env) hs (app_session st) = None then (forbidden, st)
      else if \<not> video_revision_matches (sv_base_revision q) (vs_revision (app_video_settings st))
      then (reply 409 (BodyVideoConflict (lit ''video settings changed on another device'') (video_response env st)), st)
      else
        (let previous = current_codec env st
         in case apply_video_settings_state env (sv_settings q) (Some (sv_base_revision q)) st of
              (Err e, st) \<Rightarrow> (api_error 400 e, st)
            | (Ok status, st) \<Rightarrow> video_ok env (codec_switched env previous status st)))"

record video_presented_request =
  pr_codec :: video_codec
  pr_first_keyframe_received :: bool
  pr_presented :: bool
  pr_failure_reason :: "ustring option"

definition note_presented :: "video_presented_request \<Rightarrow> browser_codec_capability \<Rightarrow> browser_codec_capability" where
  "note_presented q c = c\<lparr>bc_first_keyframe_received := (bc_first_keyframe_received c \<or> pr_first_keyframe_received q),
     bc_presented := (bc_presented c \<or> pr_presented q), bc_negotiated := True, bc_failure_reason := pr_failure_reason q\<rparr>"

definition video_presented ::
  "('s, 'r) server_env \<Rightarrow> header_map \<Rightarrow> video_presented_request \<Rightarrow> ('s, 'r, 'v) app_state \<Rightarrow> http_response \<times> ('s, 'r, 'v) app_state" where
  "video_presented env hs q st =
     (if authorize_mutation (ev_crypto env) hs (app_session st) = None then (forbidden, st)
      else if (case pr_failure_reason q of Some v \<Rightarrow> 512 < str_len v | None \<Rightarrow> False)
      then (api_error 400 (lit ''failure reason is too large''), st)
      else
        (let st = st\<lparr>app_browser_video := browser_modify (pr_codec q) (note_presented q) (app_browser_video st)\<rparr>
         in case run_apply env (vs_settings (app_video_settings st)) (app_browser_video st) st of
              (Err e, st) \<Rightarrow> (api_error 400 e, st)
            | (Ok _, st) \<Rightarrow> video_ok env st))"

definition record_video_benchmark ::
  "('s, 'r) server_env \<Rightarrow> header_map \<Rightarrow> auto_benchmark_observation \<Rightarrow> ('s, 'r, 'v) app_state \<Rightarrow> http_response \<times> ('s, 'r, 'v) app_state" where
  "record_video_benchmark env hs observation st =
     (if authorize_mutation (ev_crypto env) hs (app_session st) = None then (forbidden, st)
      else
        (let (r, runtime) = rtm_record (ev_runtime env) observation (app_runtime st); st = st\<lparr>app_runtime := runtime\<rparr>
         in case r of
              Err e \<Rightarrow> (api_error 400 e, st)
            | Ok _ \<Rightarrow>
                (let settings = vs_settings (app_video_settings st)
                 in if encoder settings \<noteq> Auto then video_ok env st
                    else
                      (let previous = current_codec env st
                       in case run_apply env settings (app_browser_video st) st of
                            (Ok status, st) \<Rightarrow> video_ok env (codec_switched env previous status st)
                          | (Err e, st) \<Rightarrow> (api_error 400 e, st)))))"

definition clear_video_benchmarks ::
  "('s, 'r) server_env \<Rightarrow> header_map \<Rightarrow> ('s, 'r, 'v) app_state \<Rightarrow> http_response \<times> ('s, 'r, 'v) app_state" where
  "clear_video_benchmarks env hs st =
     (if authorize_mutation (ev_crypto env) hs (app_session st) = None then (forbidden, st)
      else
        (let (r, runtime) = rtm_clear (ev_runtime env) (app_runtime st); st = st\<lparr>app_runtime := runtime\<rparr>
         in case r of Ok _ \<Rightarrow> video_ok env st | Err e \<Rightarrow> (api_error 500 e, st)))"

section \<open>Files\<close>

definition with_files :: "('s, 'r, 'v) app_state \<Rightarrow> file_manager \<Rightarrow> ('s, 'r, 'v) app_state" where
  "with_files st m = st\<lparr>app_files := m\<rparr>"

definition file_reply :: "nat \<Rightarrow> ('a \<Rightarrow> response_body) \<Rightarrow> ('a, transfer_error) result \<Rightarrow> http_response" where
  "file_reply status body r = (case r of Ok x \<Rightarrow> reply status (body x) | Err e \<Rightarrow> file_error_response e)"

definition files_handler :: "('s, 'r) server_env \<Rightarrow> header_map \<Rightarrow> nat \<Rightarrow> ('s, 'r, 'v) app_state \<Rightarrow> http_response \<times> ('s, 'r, 'v) app_state" where
  "files_handler env hs now st =
     (case authorized_session (ev_crypto env) hs (app_session st) of
        None \<Rightarrow> (unauthorized, st)
      | Some sid \<Rightarrow> (let (listing, m) = browser_listing sid now (app_files st) in (ok_json (BodyFiles listing), with_files st m)))"

record create_upload_request =
  cq_upload_id :: "uuid option"
  cq_name :: ustring
  cq_mime :: ustring
  cq_size :: u64

definition create_upload_handler ::
  "('s, 'r) server_env \<Rightarrow> header_map \<Rightarrow> io_outcome \<Rightarrow> nat \<Rightarrow> int \<Rightarrow> uuid \<Rightarrow> create_upload_request \<Rightarrow> ('s, 'r, 'v) app_state \<Rightarrow>
   http_response \<times> ('s, 'r, 'v) app_state" where
  "create_upload_handler env hs opened now wall fresh q st =
     (case authorize_mutation (ev_crypto env) hs (app_session st) of
        None \<Rightarrow> (forbidden, st)
      | Some sid \<Rightarrow>
          (let (r, m) = create_upload (ev_platform env) opened (app_session st) now wall fresh sid (cq_upload_id q) (cq_name q)
                 (cq_mime q) (cq_size q) (app_files st)
           in (file_reply 201 BodyTicket r, with_files st m)))"

definition upload_status ::
  "('s, 'r) server_env \<Rightarrow> header_map \<Rightarrow> uuid \<Rightarrow> ('s, 'r, 'v) app_state \<Rightarrow> http_response \<times> ('s, 'r, 'v) app_state" where
  "upload_status env hs uid st =
     (case authorized_session (ev_crypto env) hs (app_session st) of
        None \<Rightarrow> (unauthorized, st)
      | Some sid \<Rightarrow> (file_reply 200 BodyProgress (upload_progress uid sid (app_files st)), st))"

text \<open>The body is absent when it exceeds the limit of one byte more than a chunk; no response while pacing waits.\<close>

definition write_upload_chunk_handler ::
  "('s, 'r) server_env \<Rightarrow> header_map \<Rightarrow> write_outcome \<Rightarrow> pace_view list \<Rightarrow> (f64 option \<Rightarrow> session_state) \<Rightarrow> nat \<Rightarrow> uuid \<Rightarrow>
   u8 list \<Rightarrow> ('s, 'r, 'v) app_state \<Rightarrow> http_response option \<times> ('s, 'r, 'v) app_state" where
  "write_upload_chunk_handler env hs written views after now uid body st =
     (case authorize_mutation (ev_crypto env) hs (app_session st) of
        None \<Rightarrow> (Some forbidden, st)
      | Some sid \<Rightarrow>
          (case header_u64 hs ''x-nfidb-offset'' of
             Err message \<Rightarrow> (Some (api_error 400 (lit message)), st)
           | Ok offset \<Rightarrow>
               (case header_text hs ''x-nfidb-chunk-sha256'' of
                  None \<Rightarrow> (Some (api_error 400 (lit ''x-nfidb-chunk-sha256 is required'')), st)
                | Some checksum \<Rightarrow>
                    if unat UPLOAD_CHUNK_SIZE + 1 < length body
                    then (Some (api_error 413 (lit ''upload chunk exceeds the 1 MiB limit'')), st)
                    else
                      (let (r, m) = write_upload_chunk (ev_platform env) written views after (app_session st) now uid sid offset body
                             checksum (app_files st)
                       in (map_option (file_reply 200 BodyProgress) r, with_files st m)))))"

definition complete_upload_handler ::
  "('s, 'r) server_env \<Rightarrow> header_map \<Rightarrow> io_outcome \<Rightarrow> move_outcomes \<Rightarrow> nat \<Rightarrow> int \<Rightarrow> uuid \<Rightarrow> uuid \<Rightarrow> ('s, 'r, 'v) app_state \<Rightarrow>
   http_response \<times> ('s, 'r, 'v) app_state" where
  "complete_upload_handler env hs hashed mv now wall fresh uid st =
     (case authorize_mutation (ev_crypto env) hs (app_session st) of
        None \<Rightarrow> (forbidden, st)
      | Some sid \<Rightarrow>
          (let (r, m) = complete_upload (ev_platform env) hashed mv (app_session st) now wall fresh uid sid (app_files st)
           in (file_reply 200 BodyComplete r, with_files st m)))"

definition cancel_upload_handler ::
  "('s, 'r) server_env \<Rightarrow> header_map \<Rightarrow> bool \<Rightarrow> nat \<Rightarrow> int \<Rightarrow> uuid \<Rightarrow> ('s, 'r, 'v) app_state \<Rightarrow> http_response \<times> ('s, 'r, 'v) app_state" where
  "cancel_upload_handler env hs removed now wall uid st =
     (case authorize_mutation (ev_crypto env) hs (app_session st) of
        None \<Rightarrow> (forbidden, st)
      | Some sid \<Rightarrow>
          (let (r, m) = cancel_upload removed now wall uid sid (app_files st)
           in (file_reply 204 (\<lambda>_. BodyEmpty) r, with_files st m)))"

definition remove_outbox_file ::
  "('s, 'r) server_env \<Rightarrow> header_map \<Rightarrow> uuid \<Rightarrow> ('s, 'r, 'v) app_state \<Rightarrow> http_response \<times> ('s, 'r, 'v) app_state" where
  "remove_outbox_file env hs uid st =
     (if authorize_mutation (ev_crypto env) hs (app_session st) = None then (forbidden, st)
      else (let (found, m) = remove_outgoing uid (app_files st)
            in (if found then reply 204 BodyEmpty else api_error 404 (lit ''file is no longer queued''), with_files st m)))"

definition download_size :: "download_source \<Rightarrow> u64" where
  "download_size s =
     (if of_size (dl_file s) = 0 then 0 else if dl_partial s then range_len (dl_range s) else of_size (dl_file s))"

definition show_u64 :: "u64 \<Rightarrow> ustring" where "show_u64 w = show_nat (unat w)"

definition download_response :: "download_source \<Rightarrow> http_response" where
  "download_response s =
     (let file = dl_file s;
          r = reply (if dl_partial s then 206 else 200) (BodyDownload (dl_body s));
          r = insert_header ''content-type'' (of_mime file) r;
          r = insert_header ''content-disposition'' (content_disposition (of_name file)) r;
          r = insert_header ''content-length'' (show_u64 (download_size s)) r;
          r = set_header ''accept-ranges'' (lit ''bytes'') r;
          r = set_header ''cache-control'' (lit ''no-store'') r;
          r = set_header ''x-content-type-options'' (lit ''nosniff'') r;
          r = (if dl_partial s then insert_header ''content-range''
                 (lit ''bytes '' @ show_u64 (br_start (dl_range s)) @ lit ''-'' @ show_u64 (br_end (dl_range s)) @ lit ''/'' @
                  show_u64 (of_size file)) r else r)
      in case of_sha256 file of Some h \<Rightarrow> insert_header ''x-nfidb-sha256'' h r | None \<Rightarrow> r)"

definition download_outbox_file ::
  "('s, 'r) server_env \<Rightarrow> header_map \<Rightarrow> disk_facts \<Rightarrow> nat \<Rightarrow> int \<Rightarrow> uuid \<Rightarrow> u8 option \<Rightarrow> ('s, 'r, 'v) app_state \<Rightarrow>
   http_response \<times> ('s, 'r, 'v) app_state" where
  "download_outbox_file env hs disk now wall uid remove st =
     (case authorized_session (ev_crypto env) hs (app_session st) of
        None \<Rightarrow> (unauthorized, st)
      | Some sid \<Rightarrow>
          (let (r, m) = open_download disk (app_session st) now wall uid sid (header_text hs ''range'') (remove = Some 1) (app_files st)
           in (case r of Ok s \<Rightarrow> download_response s | Err e \<Rightarrow> file_error_response e, with_files st m)))"

section \<open>Leaving and connecting\<close>

definition disconnect_handler ::
  "('s, 'r) server_env \<Rightarrow> (uuid \<Rightarrow> bool) \<Rightarrow> ustring \<Rightarrow> ('s, 'r, 'v) app_state \<Rightarrow> http_response \<times> ('s, 'r, 'v) app_state" where
  "disconnect_handler env removed token st =
     (if \<not> authorize (ev_crypto env) token (app_session st) then (unauthorized, st)
      else
        (let st = close_peer st;
             st = st\<lparr>app_files := cancel_session_uploads removed (session_id (app_session st)) (app_files st)\<rparr>;
             st = reset_input env st;
             st = forget_continuity (st\<lparr>app_metrics := set_connected False (app_metrics st)\<rparr>)
         in (reply 204 BodyEmpty, st\<lparr>app_session := session_disconnect (app_session st)\<rparr>)))"

definition webrtc_offer_handler ::
  "('s, 'r) server_env \<Rightarrow> negotiation \<Rightarrow> web_rtc_offer \<Rightarrow> ('s, 'r, 'v) app_state \<Rightarrow> http_response \<times> ('s, 'r, 'v) app_state" where
  "webrtc_offer_handler env ng offer st =
     (if \<not> authorize (ev_crypto env) (wo_token offer) (app_session st) then (unauthorized, st)
      else (case accept_offer ng offer (app_peer st) of
              (Ok answer, a) \<Rightarrow> (ok_json (BodyAnswer answer), st\<lparr>app_peer := a\<rparr>)
            | (Err e, a) \<Rightarrow> (api_error 502 (lit ''WebRTC negotiation failed: '' @ e), st\<lparr>app_peer := a\<rparr>)))"

definition websocket_handler :: "('s, 'r) server_env \<Rightarrow> header_map \<Rightarrow> ('s, 'r, 'v) app_state \<Rightarrow> http_response \<times> ('s, 'r, 'v) app_state" where
  "websocket_handler env hs st =
     (if \<not> authorized_cookie (ev_crypto env) hs (app_session st) then (unauthorized, st) else (reply 101 BodyUpgrade, st))"

section \<open>The control socket\<close>

record 'v client_control_message =
  cc_kind :: ustring
  cc_t0 :: "f64 option"
  cc_sample :: "'v client_diagnostic_sample option"

text \<open>A text frame comes with the result of parsing it (None: not a control message).\<close>

datatype 'v socket_event =
    SocketBinary "u8 list" nat nat
  | SocketText ustring "'v client_control_message option" f64 f64 nat bool
  | SocketOther
  | SocketClosed
  | SocketTick nat bool

datatype socket_output = Pong f64 f64 f64 | Stats metrics_snapshot

text \<open>How a turn of the loop ends: with the next turn, by leaving the loop, or by a panic of the task.\<close>

datatype socket_turn = NextTurn | LeaveLoop | TaskPanics

definition control_message ::
  "('s, 'r) server_env \<Rightarrow> 'v client_control_message \<Rightarrow> f64 \<Rightarrow> f64 \<Rightarrow> nat \<Rightarrow> bool \<Rightarrow> ('s, 'r, 'v) app_state \<Rightarrow>
   socket_output list \<times> socket_turn \<times> ('s, 'r, 'v) app_state" where
  "control_message env msg t1 t2 now sent st =
     (if cc_kind msg = lit ''ping'' then
        (case cc_t0 msg of None \<Rightarrow> ([], NextTurn, st) | Some t0 \<Rightarrow> if sent then ([Pong t0 t1 t2], NextTurn, st) else ([], LeaveLoop, st))
      else if cc_kind msg = lit ''client-diagnostics'' then
        (case cc_sample msg of
           None \<Rightarrow> ([], NextTurn, st)
         | Some sample \<Rightarrow>
             (let m = set_client_clock_offset_ms (cn_clock_offset_ms (cd_network sample)) (set_rtt_ms (cn_rtt_ms (cd_network sample)) (app_metrics st))
              in case metrics_take_snapshot now m of
                   None \<Rightarrow> ([], TaskPanics, st\<lparr>app_metrics := m\<rparr>)
                 | Some (snap, m) \<Rightarrow> ([], NextTurn, st\<lparr>app_metrics := m, app_diagnostics := diagnostic_record t1 sample snap (app_diagnostics st)\<rparr>)))
      else if cc_kind msg = lit ''request-keyframe'' then
        ([], NextTurn, st\<lparr>app_metrics := video_recovery_requested (app_metrics st), app_keyframe := keyframe_request (app_keyframe st)\<rparr>)
      else ([], NextTurn, st))"

text \<open>One turn of the loop: what is sent, how it ends, the new state.\<close>

definition socket_step ::
  "('s, 'r) server_env \<Rightarrow> uuid \<Rightarrow> 'v socket_event \<Rightarrow> ('s, 'r, 'v) app_state \<Rightarrow> socket_output list \<times> socket_turn \<times> ('s, 'r, 'v) app_state" where
  "socket_step env sid e st =
     (case e of
        SocketBinary bytes now elapsed \<Rightarrow>
          (let (m, s) = process_input_packet (ev_sink env) now elapsed bytes (app_metrics st, app_sink st)
           in ([], NextTurn, st\<lparr>app_metrics := m, app_sink := s\<rparr>))
      | SocketText text parsed t1 t2 now sent \<Rightarrow>
          (if str_len text \<le> 64 * 1024 then
             (case parsed of None \<Rightarrow> ([], NextTurn, st) | Some msg \<Rightarrow> control_message env msg t1 t2 now sent st)
           else ([], NextTurn, st))
      | SocketOther \<Rightarrow> ([], NextTurn, st)
      | SocketClosed \<Rightarrow> ([], LeaveLoop, st)
      | SocketTick now sent \<Rightarrow>
          (if session_id (app_session st) \<noteq> sid then ([], LeaveLoop, st)
           else (case metrics_take_snapshot now (app_metrics st) of
                   None \<Rightarrow> ([], TaskPanics, st)
                 | Some (snap, m) \<Rightarrow> (if sent then [Stats snap] else [], if sent then NextTurn else LeaveLoop, st\<lparr>app_metrics := m\<rparr>))))"

definition socket_end :: "('s, 'r) server_env \<Rightarrow> ('s, 'r, 'v) app_state \<Rightarrow> ('s, 'r, 'v) app_state" where
  "socket_end env st = forget_continuity (reset_input env st)"

text \<open>A whole connection that no other task interrupts; the session identifier is read when the loop starts.\<close>

fun socket_events ::
  "('s, 'r) server_env \<Rightarrow> uuid \<Rightarrow> 'v socket_event list \<Rightarrow> ('s, 'r, 'v) app_state \<Rightarrow> socket_output list \<times> ('s, 'r, 'v) app_state" where
  "socket_events env sid [] st = ([], st)"
| "socket_events env sid (e # es) st =
     (case socket_step env sid e st of
        (out, NextTurn, st) \<Rightarrow> (let (later, st) = socket_events env sid es st in (out @ later, st))
      | (out, LeaveLoop, st) \<Rightarrow> (out, socket_end env st)
      | (out, TaskPanics, st) \<Rightarrow> (out, st))"

definition websocket_loop :: "('s, 'r) server_env \<Rightarrow> 'v socket_event list \<Rightarrow> ('s, 'r, 'v) app_state \<Rightarrow> socket_output list \<times> ('s, 'r, 'v) app_state" where
  "websocket_loop env es st = socket_events env (session_id (app_session st)) es st"

section \<open>The handle of the application\<close>

definition close_active_peer :: "('s, 'r) server_env \<Rightarrow> ('s, 'r, 'v) app_state \<Rightarrow> ('s, 'r, 'v) app_state" where
  "close_active_peer env st =
     close_peer (reset_input env (forget_continuity (st\<lparr>app_metrics := set_connected False (app_metrics st)\<rparr>)))"

definition rotate_pairing :: "('s, 'r) server_env \<Rightarrow> (uuid \<Rightarrow> bool) \<Rightarrow> session_draws \<Rightarrow> ('s, 'r, 'v) app_state \<Rightarrow> ('s, 'r, 'v) app_state" where
  "rotate_pairing env removed d st =
     (let sid = session_id (app_session st);
          st = st\<lparr>app_files := cancel_session_uploads removed sid (app_files st)\<rparr>
      in close_active_peer env (st\<lparr>app_session := session_rotate (ev_crypto env) d (app_session st)\<rparr>))"

definition rotate_pairing_if_expired ::
  "('s, 'r) server_env \<Rightarrow> (uuid \<Rightarrow> bool) \<Rightarrow> session_draws \<Rightarrow> ('s, 'r, 'v) app_state \<Rightarrow> bool \<times> ('s, 'r, 'v) app_state" where
  "rotate_pairing_if_expired env removed d st =
     (let sid = session_id (app_session st); (rotated, ses) = rotate_if_expired (ev_crypto env) d (app_session st)
      in if rotated
         then (True, close_active_peer env (st\<lparr>app_session := ses, app_files := cancel_session_uploads removed sid (app_files st)\<rparr>))
         else (False, st\<lparr>app_session := ses\<rparr>))"

definition pairing_qr_url :: "server_info \<Rightarrow> ('s, 'r, 'v) app_state \<Rightarrow> ustring" where
  "pairing_qr_url info st = si_fallback_url info @ lit ''?qr='' @ qr_secret (app_session st)"

definition apply_input_settings_from_host ::
  "('s, 'r) server_env \<Rightarrow> remote_input_settings \<Rightarrow> ('s, 'r, 'v) app_state \<Rightarrow> (input_control_state, ustring) result \<times> ('s, 'r, 'v) app_state" where
  "apply_input_settings_from_host env settings st = apply_input_settings_state env settings None st"

definition apply_video_settings_from_host ::
  "('s, 'r) server_env \<Rightarrow> video_config \<Rightarrow> ('s, 'r, 'v) app_state \<Rightarrow> (video_control_state, ustring) result \<times> ('s, 'r, 'v) app_state" where
  "apply_video_settings_from_host env settings st =
     (let previous = current_codec env st
      in case apply_video_settings_state env settings None st of
           (Err e, st) \<Rightarrow> (Err e, st)
         | (Ok status, st) \<Rightarrow>
             (let st = (if vr_codec status \<noteq> previous then close_active_peer env st else st)
              in (Ok (video_response env st), st)))"

end
