(* ===== verification/Server_Routes.thy ===== *)
theory Server_Routes
  imports Server
begin

text \<open>
  The route table of \<open>run_server\<close>: one request type for the whole HTTP interface, what a request
  without authority can do, and which requests change the shared settings.
\<close>

section \<open>Requests\<close>

datatype api_request =
    ReqStatus nat
  | ReqMetrics nat
  | ReqDiagnostics
  | ReqInput
  | ReqSetInput set_input_settings_request
  | ReqVideo
  | ReqSetVideo set_video_settings_request
  | ReqBrowser browser_video_capabilities
  | ReqPresented video_presented_request
  | ReqBenchmark auto_benchmark_observation
  | ReqClearBenchmarks
  | ReqFiles nat
  | ReqCreateUpload io_outcome nat int uuid create_upload_request
  | ReqUploadStatus uuid
  | ReqChunk write_outcome "pace_view list" "f64 option \<Rightarrow> session_state" nat uuid "u8 list"
  | ReqComplete io_outcome move_outcomes nat int uuid uuid
  | ReqCancel bool nat int uuid
  | ReqRemoveOutbox uuid
  | ReqDownload disk_facts nat int uuid "u8 option"
  | ReqPair nat "u8 list" "ustring option" "ustring option"
  | ReqDisconnect "uuid \<Rightarrow> bool" ustring
  | ReqOffer negotiation web_rtc_offer
  | ReqWebsocket

text \<open>The response is absent only for a chunk whose pacing still waits.\<close>

definition answered :: "http_response \<times> 'a \<Rightarrow> http_response option \<times> 'a" where
  "answered x = (Some (fst x), snd x)"

definition handle :: "('s, 'r) server_env \<Rightarrow> header_map \<Rightarrow> api_request \<Rightarrow> ('s, 'r, 'v) app_state \<Rightarrow> http_response option \<times> ('s, 'r, 'v) app_state" where
  "handle env hs q st =
     (case q of
        ReqStatus now \<Rightarrow> answered (status_handler now st)
      | ReqMetrics now \<Rightarrow> answered (metrics_handler env hs now st)
      | ReqDiagnostics \<Rightarrow> answered (diagnostics_handler env hs st)
      | ReqInput \<Rightarrow> answered (input_handler env hs st)
      | ReqSetInput x \<Rightarrow> answered (set_input_settings env hs x st)
      | ReqVideo \<Rightarrow> answered (video_handler env hs st)
      | ReqSetVideo x \<Rightarrow> answered (set_video_settings env hs x st)
      | ReqBrowser x \<Rightarrow> answered (set_browser_video_capabilities env hs x st)
      | ReqPresented x \<Rightarrow> answered (video_presented env hs x st)
      | ReqBenchmark x \<Rightarrow> answered (record_video_benchmark env hs x st)
      | ReqClearBenchmarks \<Rightarrow> answered (clear_video_benchmarks env hs st)
      | ReqFiles now \<Rightarrow> answered (files_handler env hs now st)
      | ReqCreateUpload opened now wall fresh x \<Rightarrow> answered (create_upload_handler env hs opened now wall fresh x st)
      | ReqUploadStatus uid \<Rightarrow> answered (upload_status env hs uid st)
      | ReqChunk written views after now uid body \<Rightarrow> write_upload_chunk_handler env hs written views after now uid body st
      | ReqComplete hashed mv now wall fresh uid \<Rightarrow> answered (complete_upload_handler env hs hashed mv now wall fresh uid st)
      | ReqCancel removed now wall uid \<Rightarrow> answered (cancel_upload_handler env hs removed now wall uid st)
      | ReqRemoveOutbox uid \<Rightarrow> answered (remove_outbox_file env hs uid st)
      | ReqDownload disk now wall uid remove \<Rightarrow> answered (download_outbox_file env hs disk now wall uid remove st)
      | ReqPair now bytes p s \<Rightarrow> answered (pair_handler env now bytes p s st)
      | ReqDisconnect removed token \<Rightarrow> answered (disconnect_handler env removed token st)
      | ReqOffer ng offer \<Rightarrow> answered (webrtc_offer_handler env ng offer st)
      | ReqWebsocket \<Rightarrow> answered (websocket_handler env hs st))"

text \<open>
  What authority a request carries: everyone may ask for the status and try to pair; disconnecting and
  offering name the token in the body; reading takes the cookie, changing anything also the origin.
\<close>

definition open_request :: "api_request \<Rightarrow> bool" where
  "open_request q = (case q of ReqStatus now \<Rightarrow> True | ReqPair now bytes p s \<Rightarrow> True | _ \<Rightarrow> False)"

definition body_token :: "api_request \<Rightarrow> ustring option" where
  "body_token q = (case q of ReqDisconnect removed token \<Rightarrow> Some token | ReqOffer ng offer \<Rightarrow> Some (wo_token offer) | _ \<Rightarrow> None)"

definition reading_request :: "api_request \<Rightarrow> bool" where
  "reading_request q = (case q of ReqMetrics now \<Rightarrow> True | ReqDiagnostics \<Rightarrow> True | ReqInput \<Rightarrow> True | ReqVideo \<Rightarrow> True
     | ReqFiles now \<Rightarrow> True | ReqUploadStatus uid \<Rightarrow> True | ReqDownload disk now wall uid remove \<Rightarrow> True | ReqWebsocket \<Rightarrow> True | _ \<Rightarrow> False)"

definition may_act :: "session_crypto \<Rightarrow> header_map \<Rightarrow> session_state \<Rightarrow> api_request \<Rightarrow> bool" where
  "may_act cr hs ses q \<longleftrightarrow> open_request q \<or>
     (case body_token q of Some token \<Rightarrow> authorize cr token ses
      | None \<Rightarrow> if reading_request q then authorized_session cr hs ses \<noteq> None else authorize_mutation cr hs ses \<noteq> None)"

lemma refused_unchanged:
  assumes "\<not> may_act (ev_crypto env) hs (app_session st) q"
  shows "\<exists>r. handle env hs q st = (Some r, st) \<and> rs_status r = 401"
  using assms
  by (cases q)
    (simp_all add: may_act_def open_request_def body_token_def reading_request_def handle_def answered_def authorized_cookie_def
      unauthorized_def forbidden_def api_error_def reply_def metrics_handler_def diagnostics_handler_def input_handler_def
      set_input_settings_def video_handler_def set_video_settings_def set_browser_video_capabilities_def video_presented_def
      record_video_benchmark_def clear_video_benchmarks_def files_handler_def create_upload_handler_def upload_status_def
      write_upload_chunk_handler_def complete_upload_handler_def cancel_upload_handler_def remove_outbox_file_def
      download_outbox_file_def disconnect_handler_def webrtc_offer_handler_def websocket_handler_def)

section \<open>Which requests change the settings\<close>

lemma shared_steps_settings [simp]:
  "app_video_settings (reset_input env st) = app_video_settings st" "app_input_settings (reset_input env st) = app_input_settings st"
  "app_video_settings (forget_continuity st) = app_video_settings st" "app_input_settings (forget_continuity st) = app_input_settings st"
  "app_video_settings (close_peer st) = app_video_settings st" "app_input_settings (close_peer st) = app_input_settings st"
  "app_video_settings (codec_switched env c x st) = app_video_settings st" "app_input_settings (codec_switched env c x st) = app_input_settings st"
  "app_video_settings (with_files st m) = app_video_settings st" "app_input_settings (with_files st m) = app_input_settings st"
  "app_video_settings (snd (run_apply env v b st)) = app_video_settings st" "app_input_settings (snd (run_apply env v b st)) = app_input_settings st"
  "app_disk (reset_input env st) = app_disk st" "app_disk (forget_continuity st) = app_disk st" "app_disk (close_peer st) = app_disk st"
  "app_disk (codec_switched env c x st) = app_disk st" "app_disk (with_files st m) = app_disk st" "app_disk (snd (run_apply env v b st)) = app_disk st"
  "app_session (reset_input env st) = app_session st" "app_session (forget_continuity st) = app_session st"
  "app_session (close_peer st) = app_session st" "app_session (codec_switched env c x st) = app_session st"
  "app_session (with_files st m) = app_session st" "app_session (snd (run_apply env v b st)) = app_session st"
  "app_sink (forget_continuity st) = app_sink st" "app_sink (close_peer st) = app_sink st" "app_sink (with_files st m) = app_sink st"
  "app_sink (snd (run_apply env v b st)) = app_sink st"
  by (simp_all add: reset_input_def forget_continuity_def close_peer_def codec_switched_def with_files_def run_apply_def split: prod.splits)

lemma run_apply_settings:
  "run_apply env v b st = (r, st') \<Longrightarrow> app_video_settings st' = app_video_settings st \<and> app_input_settings st' = app_input_settings st \<and>
     app_disk st' = app_disk st \<and> app_session st' = app_session st \<and> app_sink st' = app_sink st \<and> app_browser_video st' = app_browser_video st"
  by (auto simp: run_apply_def split: prod.splits)

lemma apply_video_effect:
  assumes "apply_video_settings_state env settings expected st = (r, st')"
  shows "(case r of
      Ok status \<Rightarrow> app_video_settings st' = \<lparr>vs_revision = sat_add (vs_revision (app_video_settings st)) 1, vs_settings = settings\<rparr> \<and>
        (expected = None \<or> expected = Some (vs_revision (app_video_settings st))) \<and>
        save_video_settings (ev_toml env) settings (app_disk st) = (Ok (), app_disk st') \<and>
        rtm_apply (ev_runtime env) settings (app_browser_video st) (app_runtime st) = (Ok status, app_runtime st')
    | Err e \<Rightarrow> app_video_settings st' = app_video_settings st \<and>
        (app_disk st' = app_disk st \<or> fst (save_video_settings (ev_toml env) settings (app_disk st)) \<noteq> Ok ())) \<and>
    app_input_settings st' = app_input_settings st \<and> app_session st' = app_session st \<and> app_sink st' = app_sink st"
proof (cases "video_validate settings")
  case (Err e)
  with assms show ?thesis by (auto simp: apply_video_settings_state_def)
next
  case valid: (Ok u)
  show ?thesis
  proof (cases "case expected of Some x \<Rightarrow> x \<noteq> vs_revision (app_video_settings st) | None \<Rightarrow> False")
    case True
    with assms valid show ?thesis by (auto simp: apply_video_settings_state_def video_revision_matches_def Let_def split: option.splits)
  next
    case False
    then have ex: "expected = None \<or> expected = Some (vs_revision (app_video_settings st))" by (auto split: option.splits)
    obtain r1 st1 where one: "run_apply env settings (app_browser_video st) st = (r1, st1)" by fastforce
    note F = run_apply_settings [OF one]
    show ?thesis
    proof (cases r1)
      case (Err e)
      with assms valid one False F show ?thesis
        by (auto simp: apply_video_settings_state_def video_revision_matches_def Let_def split: option.splits)
    next
      case (Ok status)
      obtain saved disk where sv: "save_video_settings (ev_toml env) settings (app_disk st1) = (saved, disk)" by fastforce
      show ?thesis
      proof (cases saved)
        case failed: (Err e)
        obtain r2 st2 where two: "run_apply env (vs_settings (app_video_settings st)) (app_browser_video st) (st1\<lparr>app_disk := disk\<rparr>) = (r2, st2)"
          by fastforce
        have "r = Err (lit ''failed to save video settings: '' @ ev_io_text env e @ (case r2 of Err v \<Rightarrow> lit ''; rollback also failed: '' @ v | Ok _ \<Rightarrow> []))"
          "st' = st2"
          using assms valid one Ok sv failed two False
          by (auto simp: apply_video_settings_state_def video_revision_matches_def Let_def split: option.splits)
        then show ?thesis using run_apply_settings [OF two] F sv failed by simp
      next
        case saved_ok: (Ok w)
        have "r = Ok status" "st' = st1\<lparr>app_disk := disk, app_video_settings :=
            \<lparr>vs_revision = sat_add (vs_revision (app_video_settings st)) 1, vs_settings = settings\<rparr>\<rparr>"
          using assms valid one Ok sv saved_ok False
          by (auto simp: apply_video_settings_state_def video_revision_matches_def Let_def split: option.splits)
        then show ?thesis
          using F sv saved_ok ex one Ok by (auto simp: run_apply_def split: prod.splits)
      qed
    qed
  qed
qed

lemma apply_input_effect:
  assumes "apply_input_settings_state env settings expected st = (r, st')"
  shows "app_video_settings st' = app_video_settings st \<and> app_session st' = app_session st \<and> app_disk st' = app_disk st \<and>
    (case r of
       Ok control \<Rightarrow> app_input_settings st' = control \<and> ic_settings control = settings \<and>
         (expected = None \<or> expected = Some (ic_revision (app_input_settings st))) \<and>
         (ic_settings (app_input_settings st) = settings \<and> st' = st \<or>
          ic_settings (app_input_settings st) \<noteq> settings \<and> ic_revision control = sat_add (ic_revision (app_input_settings st)) 1)
     | Err e \<Rightarrow> app_input_settings st' = app_input_settings st) \<and>
    (app_sink st' = app_sink st \<or>
     app_sink st' = snd (sk_set_remote_input_options (ev_sink env) (ri_touch_enabled settings) (ri_gestures_enabled settings) (app_sink st)))"
  using assms
  by (auto simp: apply_input_settings_state_def Let_def split: if_splits option.splits prod.splits result.splits)

text \<open>The settings move only by an edit that names their current revision, one revision at a time.\<close>

definition video_edit :: "api_request \<Rightarrow> set_video_settings_request option" where
  "video_edit q = (case q of ReqSetVideo x \<Rightarrow> Some x | _ \<Rightarrow> None)"

definition input_edit :: "api_request \<Rightarrow> set_input_settings_request option" where
  "input_edit q = (case q of ReqSetInput x \<Rightarrow> Some x | _ \<Rightarrow> None)"

lemma handle_other_settings:
  assumes "video_edit q = None" "input_edit q = None" "handle env hs q st = (r, st')"
  shows "app_video_settings st' = app_video_settings st \<and> app_input_settings st' = app_input_settings st"
  using assms
  by (cases q)
    (auto simp: video_edit_def input_edit_def handle_def answered_def status_handler_def metrics_handler_def diagnostics_handler_def
      input_handler_def video_handler_def video_ok_def set_browser_video_capabilities_def video_presented_def
      record_video_benchmark_def clear_video_benchmarks_def files_handler_def create_upload_handler_def upload_status_def
      write_upload_chunk_handler_def complete_upload_handler_def cancel_upload_handler_def remove_outbox_file_def
      download_outbox_file_def pair_handler_def disconnect_handler_def webrtc_offer_handler_def websocket_handler_def Let_def
      dest!: run_apply_settings
      split: if_splits option.splits prod.splits result.splits)

lemma set_video_edit:
  assumes "set_video_settings env hs x st = (r, st')"
  shows "app_input_settings st' = app_input_settings st \<and>
    (rs_status r = 200 \<and> sv_base_revision x = vs_revision (app_video_settings st) \<and>
       app_video_settings st' = \<lparr>vs_revision = sat_add (vs_revision (app_video_settings st)) 1, vs_settings = sv_settings x\<rparr> \<and>
       save_video_settings (ev_toml env) (sv_settings x) (app_disk st) = (Ok (), app_disk st') \<or>
     rs_status r \<noteq> 200 \<and> app_video_settings st' = app_video_settings st)"
proof (cases "authorize_mutation (ev_crypto env) hs (app_session st) = None \<or>
    sv_base_revision x \<noteq> vs_revision (app_video_settings st)")
  case True
  with assms show ?thesis
    by (auto simp: set_video_settings_def forbidden_def api_error_def reply_def video_revision_matches_def split: if_splits)
next
  case False
  obtain r1 st1 where run: "apply_video_settings_state env (sv_settings x) (Some (sv_base_revision x)) st = (r1, st1)" by fastforce
  note E = apply_video_effect [OF run]
  show ?thesis
  proof (cases r1)
    case (Ok status)
    then have "(r, st') = video_ok env (codec_switched env (current_codec env st) status st1)"
      using assms False run by (auto simp: set_video_settings_def video_revision_matches_def Let_def)
    with E Ok False show ?thesis by (simp add: video_ok_def ok_json_def reply_def)
  next
    case (Err e)
    then have "r = api_error 400 e" "st' = st1"
      using assms False run by (auto simp: set_video_settings_def video_revision_matches_def Let_def)
    with E Err show ?thesis by (simp add: api_error_def reply_def)
  qed
qed

lemma set_input_edit:
  assumes "set_input_settings env hs x st = (r, st')"
  shows "app_video_settings st' = app_video_settings st \<and>
    (rs_status r = 200 \<and> sir_base_revision x = ic_revision (app_input_settings st) \<and>
       ic_settings (app_input_settings st') = sir_settings x \<and>
       ic_revision (app_input_settings st') = (if ic_settings (app_input_settings st) = sir_settings x
         then ic_revision (app_input_settings st) else sat_add (ic_revision (app_input_settings st)) 1) \<or>
     rs_status r \<noteq> 200 \<and> app_input_settings st' = app_input_settings st)"
proof (cases "authorize_mutation (ev_crypto env) hs (app_session st) = None \<or>
    sir_base_revision x \<noteq> ic_revision (app_input_settings st)")
  case True
  with assms show ?thesis
    by (auto simp: set_input_settings_def forbidden_def api_error_def reply_def input_revision_matches_def split: if_splits)
next
  case False
  obtain r1 st1 where run: "apply_input_settings_state env (sir_settings x) (Some (sir_base_revision x)) st = (r1, st1)" by fastforce
  note E = apply_input_effect [OF run]
  show ?thesis
    using assms False run E
    by (cases r1) (auto simp: set_input_settings_def input_revision_matches_def ok_json_def reply_def api_error_def)
qed

end
