(* ===== verification/Host_Runs.thy ===== *)
theory Host_Runs
  imports Server_Routes Transfer_Runs Injector_Sink
begin

text \<open>
  Histories of the whole host: HTTP requests, turns of the control sockets, callbacks of the WebRTC peer
  and calls of the Windows application, interleaved in any order on the one shared state.  The
  invariant of these histories composes those of the session, the configuration, the transfers and the
  input sink.
\<close>

section \<open>Events\<close>

datatype 'v host_event =
    HostRequest header_map api_request
  | HostSocketTurn uuid "'v socket_event"
  | HostSocketEnds
  | HostPeer peer_event
  | HostRotates "uuid \<Rightarrow> bool" session_draws
  | HostRotatesExpired "uuid \<Rightarrow> bool" session_draws
  | HostSetsInput remote_input_settings
  | HostSetsVideo video_config

definition shared_part :: "('s, 'r, 'v) app_state \<Rightarrow> 's peer_shared" where
  "shared_part st = \<lparr>sh_metrics = app_metrics st, sh_sink = app_sink st, sh_keyframe = app_keyframe st\<rparr>"

definition with_shared :: "'s peer_shared \<Rightarrow> ('s, 'r, 'v) app_state \<Rightarrow> ('s, 'r, 'v) app_state" where
  "with_shared h st = st\<lparr>app_metrics := sh_metrics h, app_sink := sh_sink h, app_keyframe := sh_keyframe h\<rparr>"

definition host_step :: "('s, 'r) server_env \<Rightarrow> 'v host_event \<Rightarrow> ('s, 'r, 'v) app_state \<Rightarrow> ('s, 'r, 'v) app_state" where
  "host_step env e st =
     (case e of
        HostRequest hs q \<Rightarrow> snd (handle env hs q st)
      | HostSocketTurn sid ev \<Rightarrow> snd (snd (socket_step env sid ev st))
      | HostSocketEnds \<Rightarrow> socket_end env st
      | HostPeer ev \<Rightarrow> with_shared (peer_event_step (ev_sink env) ev (shared_part st)) st
      | HostRotates removed d \<Rightarrow> rotate_pairing env removed d st
      | HostRotatesExpired removed d \<Rightarrow> snd (rotate_pairing_if_expired env removed d st)
      | HostSetsInput x \<Rightarrow> snd (apply_input_settings_from_host env x st)
      | HostSetsVideo x \<Rightarrow> snd (apply_video_settings_from_host env x st))"

definition host_history :: "('s, 'r) server_env \<Rightarrow> 'v host_event list \<Rightarrow> ('s, 'r, 'v) app_state \<Rightarrow> ('s, 'r, 'v) app_state" where
  "host_history env es st = fold (host_step env) es st"

lemma host_history_simps [simp]:
  "host_history env [] st = st" "host_history env (e # es) st = host_history env es (host_step env e st)"
  by (simp_all add: host_history_def)

lemma host_history_induct:
  assumes "P st" "\<And>e st. P st \<Longrightarrow> e \<in> set es \<Longrightarrow> P (host_step env e st)"
  shows "P (host_history env es st)"
  using assms by (induction es arbitrary: st) auto

section \<open>One step\<close>

text \<open>What a step does to each part that an invariant is about.\<close>

named_theorems handler_defs

lemmas [handler_defs] = handle_def answered_def status_handler_def metrics_handler_def diagnostics_handler_def
  input_handler_def video_handler_def video_ok_def set_browser_video_capabilities_def video_presented_def
  record_video_benchmark_def clear_video_benchmarks_def files_handler_def create_upload_handler_def upload_status_def
  write_upload_chunk_handler_def complete_upload_handler_def cancel_upload_handler_def remove_outbox_file_def
  download_outbox_file_def webrtc_offer_handler_def websocket_handler_def Let_def

definition session_moves :: "session_crypto \<Rightarrow> session_state \<Rightarrow> session_state \<Rightarrow> bool" where
  "session_moves cr s s' \<longleftrightarrow> s' = s \<or> (\<exists>bytes m. s' = snd (issue_access_token cr bytes m s)) \<or> s' = session_disconnect s \<or>
     (\<exists>d. s' = new_session_state cr d)"

definition sink_moves :: "'s input_sink \<Rightarrow> 's \<Rightarrow> 's \<Rightarrow> bool" where
  "sink_moves k s s' \<longleftrightarrow> s' = s \<or> s' = snd (sk_reset_all k s) \<or> (\<exists>t g. s' = snd (sk_set_remote_input_options k t g s))"

lemma sink_same [simp]: "sink_moves k s s"
  by (simp add: sink_moves_def)

lemma sink_reset [simp]: "sink_moves k s (snd (sk_reset_all k s))"
  by (simp add: sink_moves_def)

lemma reset_input_sink [simp]: "app_sink (reset_input env st) = snd (sk_reset_all (ev_sink env) (app_sink st))"
  by (simp add: reset_input_def)

lemma codec_switched_sink [simp]: "app_sink st = s \<Longrightarrow> sink_moves (ev_sink env) s (app_sink (codec_switched env c x st))"
  by (auto simp: codec_switched_def)

lemma close_active_peer_parts [simp]:
  "app_sink (close_active_peer env st) = snd (sk_reset_all (ev_sink env) (app_sink st))"
  "app_session (close_active_peer env st) = app_session st" "app_files (close_active_peer env st) = app_files st"
  "app_video_settings (close_active_peer env st) = app_video_settings st"
  "app_input_settings (close_active_peer env st) = app_input_settings st"
  by (simp_all add: close_active_peer_def close_peer_def reset_input_def forget_continuity_def)

lemma shared_steps_files [simp]:
  "app_files (reset_input env st) = app_files st" "app_files (forget_continuity st) = app_files st"
  "app_files (close_peer st) = app_files st" "app_files (codec_switched env c x st) = app_files st"
  "app_files (with_files st m) = m" "app_files (snd (run_apply env v b st)) = app_files st"
  by (simp_all add: reset_input_def forget_continuity_def close_peer_def codec_switched_def with_files_def run_apply_def split: prod.splits)

lemma run_apply_frame:
  "run_apply env v b st = (r, st') \<Longrightarrow> app_session st' = app_session st \<and> app_sink st' = app_sink st \<and> app_files st' = app_files st"
  by (auto simp: run_apply_def split: prod.splits)

lemma pair_handler_parts:
  assumes "pair_handler env now bytes p q st = (r, st')"
  shows "session_moves (ev_crypto env) (app_session st) (app_session st') \<and> app_sink st' = app_sink st \<and> app_files st' = app_files st"
proof -
  have credential: "session_moves (ev_crypto env) (app_session st) s'"
    if "pair_with_pin (ev_crypto env) now bytes x (app_session st) = (res, s') \<or>
      pair_with_qr_secret (ev_crypto env) now bytes x (app_session st) = (res, s')" for x s' res
  proof -
    have "s' = app_session st \<or> (\<exists>m. (res, s') = issue_access_token (ev_crypto env) bytes m (app_session st))"
      using that pair_with_pin_cases [of "ev_crypto env" now bytes x "app_session st" res s']
        pair_with_qr_cases [of "ev_crypto env" now bytes x "app_session st" res s'] by blast
    then show ?thesis by (metis session_moves_def snd_conv)
  qed
  show ?thesis
  proof (cases p)
    case (Some x)
    obtain res s' where one: "pair_with_pin (ev_crypto env) now bytes x (app_session st) = (res, s')" by fastforce
    with assms credential [of x res s'] Some show ?thesis by (cases res) (auto simp: pair_handler_def)
  next
    case None
    show ?thesis
    proof (cases q)
      case (Some x)
      obtain res s' where one: "pair_with_qr_secret (ev_crypto env) now bytes x (app_session st) = (res, s')" by fastforce
      with assms credential [of x res s'] Some None show ?thesis by (cases res) (auto simp: pair_handler_def)
    qed (use assms None in \<open>simp add: pair_handler_def session_moves_def\<close>)
  qed
qed

lemma disconnect_parts:
  assumes "disconnect_handler env removed token st = (r, st')"
  shows "\<not> authorize (ev_crypto env) token (app_session st) \<and> st' = st \<or>
    authorize (ev_crypto env) token (app_session st) \<and> r = reply 204 BodyEmpty \<and> app_session st' = session_disconnect (app_session st) \<and>
    app_sink st' = snd (sk_reset_all (ev_sink env) (app_sink st)) \<and>
    app_files st' = cancel_session_uploads removed (session_id (app_session st)) (app_files st) \<and>
    pe_active (app_peer st') = None \<and> app_video_settings st' = app_video_settings st \<and> app_input_settings st' = app_input_settings st"
  using assms by (auto simp: disconnect_handler_def Let_def reset_input_def forget_continuity_def close_peer_def peer_close_def split: if_splits)

lemma video_state_frame:
  assumes "apply_video_settings_state env settings expected st = (r, st')"
  shows "app_session st' = app_session st \<and> app_sink st' = app_sink st \<and> app_files st' = app_files st"
  using assms
  by (auto simp: apply_video_settings_state_def Let_def dest!: run_apply_frame split: result.splits if_splits option.splits prod.splits)

lemma input_state_frame:
  assumes "apply_input_settings_state env settings expected st = (r, st')"
  shows "app_session st' = app_session st \<and> sink_moves (ev_sink env) (app_sink st) (app_sink st') \<and> app_files st' = app_files st"
proof (intro conjI)
  show "app_session st' = app_session st" "sink_moves (ev_sink env) (app_sink st) (app_sink st')"
    using apply_input_effect [OF assms] by (auto simp: sink_moves_def)
  show "app_files st' = app_files st"
    using assms by (auto simp: apply_input_settings_state_def Let_def split: result.splits if_splits option.splits prod.splits)
qed

definition pairs :: "api_request \<Rightarrow> bool" where
  "pairs q = (case q of ReqPair now bytes p s \<Rightarrow> True | _ \<Rightarrow> False)"

definition leaves :: "api_request \<Rightarrow> bool" where
  "leaves q = (case q of ReqDisconnect removed token \<Rightarrow> True | _ \<Rightarrow> False)"

lemma set_video_frame:
  assumes "set_video_settings env hs x st = (r, st')"
  shows "app_session st' = app_session st \<and> sink_moves (ev_sink env) (app_sink st) (app_sink st') \<and> app_files st' = app_files st"
proof (cases "authorize_mutation (ev_crypto env) hs (app_session st) = None \<or>
    sv_base_revision x \<noteq> vs_revision (app_video_settings st)")
  case False
  obtain r1 st1 where run: "apply_video_settings_state env (sv_settings x) (Some (sv_base_revision x)) st = (r1, st1)" by fastforce
  with assms False video_state_frame [OF run] show ?thesis
    by (cases r1) (auto simp: set_video_settings_def video_revision_matches_def video_ok_def Let_def)
qed (use assms in \<open>auto simp: set_video_settings_def video_revision_matches_def split: if_splits\<close>)

lemma set_input_frame:
  assumes "set_input_settings env hs x st = (r, st')"
  shows "app_session st' = app_session st \<and> sink_moves (ev_sink env) (app_sink st) (app_sink st') \<and> app_files st' = app_files st"
proof (cases "authorize_mutation (ev_crypto env) hs (app_session st) = None \<or>
    sir_base_revision x \<noteq> ic_revision (app_input_settings st)")
  case False
  obtain r1 st1 where run: "apply_input_settings_state env (sir_settings x) (Some (sir_base_revision x)) st = (r1, st1)" by fastforce
  with assms False input_state_frame [OF run] show ?thesis
    by (cases r1) (auto simp: set_input_settings_def input_revision_matches_def)
qed (use assms in \<open>auto simp: set_input_settings_def input_revision_matches_def split: if_splits\<close>)

lemma handle_session_sink:
  assumes "handle env hs q st = (r, st')" "\<not> pairs q" "\<not> leaves q"
  shows "app_session st' = app_session st \<and> sink_moves (ev_sink env) (app_sink st) (app_sink st')"
proof (cases q)
  case (ReqSetVideo x)
  with assms(1) set_video_frame [of env hs x st] show ?thesis
    by (cases "set_video_settings env hs x st") (auto simp: handle_def answered_def)
next
  case (ReqSetInput x)
  with assms(1) set_input_frame [of env hs x st] show ?thesis
    by (cases "set_input_settings env hs x st") (auto simp: handle_def answered_def)
qed (use assms in \<open>auto simp: pairs_def leaves_def handler_defs dest!: run_apply_frame
    split: if_splits option.splits prod.splits result.splits\<close>)


definition session_or_host :: "uuid option \<Rightarrow> session_state \<Rightarrow> bool" where
  "session_or_host who ses \<longleftrightarrow> who = None \<or> who = Some (session_id ses)"

definition files_move :: "('s, 'r) server_env \<Rightarrow> session_state \<Rightarrow> file_manager \<Rightarrow> file_manager \<Rightarrow> bool" where
  "files_move env ses m m' \<longleftrightarrow> m' = m \<or> (\<exists>who. session_or_host who ses \<and> transfer_step (ev_platform env) who m m')"

lemma files_same [simp]: "files_move env ses m m"
  by (simp add: files_move_def)

lemma files_moveI [intro]:
  "transfer_step (ev_platform env) None m m' \<Longrightarrow> files_move env ses m m'"
  "transfer_step (ev_platform env) (Some sid) m m' \<Longrightarrow> sid = session_id ses \<Longrightarrow> files_move env ses m m'"
  by (auto simp: files_move_def session_or_host_def)

lemmas files_steps =
  files_moveI(1) [OF transfer_step.look] files_moveI(1) [OF transfer_step.remove] files_moveI(2) [OF transfer_step.listing]
  files_moveI(2) [OF transfer_step.create] files_moveI(2) [OF transfer_step.chunk] files_moveI(2) [OF transfer_step.complete]
  files_moveI(2) [OF transfer_step.cancel] files_moveI(2) [OF transfer_step.cancel_session] files_moveI(2) [OF transfer_step.open_file]

lemma authorized_is_current:
  "authorized_session cr hs ses = Some sid \<Longrightarrow> sid = session_id ses"
  "authorize_mutation cr hs ses = Some sid \<Longrightarrow> sid = session_id ses"
  by (auto simp: authorized_session_def authorize_mutation_def split: option.splits if_splits)

lemma handle_files:
  assumes "handle env hs q st = (r, st')"
  shows "files_move env (app_session st) (app_files st) (app_files st')"
proof (cases q)
  case (ReqSetVideo x)
  with assms(1) set_video_frame [of env hs x st] show ?thesis
    by (cases "set_video_settings env hs x st") (auto simp: handle_def answered_def)
next
  case (ReqSetInput x)
  with assms(1) set_input_frame [of env hs x st] show ?thesis
    by (cases "set_input_settings env hs x st") (auto simp: handle_def answered_def)
next
  case (ReqPair now bytes p s)
  with assms(1) pair_handler_parts [of env now bytes p s st] show ?thesis
    by (cases "pair_handler env now bytes p s st") (auto simp: handle_def answered_def)
next
  case (ReqDisconnect removed token)
  with assms(1) disconnect_parts [of env removed token st] show ?thesis
    by (cases "disconnect_handler env removed token st") (auto simp: handle_def answered_def intro: files_steps)
next
  case (ReqBrowser x)
  with assms show ?thesis by (auto simp: handler_defs dest!: run_apply_frame split: if_splits prod.splits result.splits)
next
  case (ReqPresented x)
  with assms show ?thesis by (auto simp: handler_defs dest!: run_apply_frame split: if_splits prod.splits result.splits)
next
  case (ReqBenchmark x)
  with assms show ?thesis by (auto simp: handler_defs dest!: run_apply_frame split: if_splits prod.splits result.splits)
qed (use assms in \<open>auto simp: handler_defs split_beta dest: authorized_is_current intro!: files_steps
    split: if_splits option.splits result.splits\<close>)


section \<open>The invariant\<close>

definition host_ok :: "('s \<Rightarrow> bool) \<Rightarrow> session_crypto \<Rightarrow> ('s, 'r, 'v) app_state \<Rightarrow> bool" where
  "host_ok sound cr st \<longleftrightarrow> session_ok cr (app_session st) \<and> video_validate (vs_settings (app_video_settings st)) = Ok () \<and>
     uploads_ok (app_files st) \<and> sound (app_sink st)"

definition host_polite :: "(sink_call \<Rightarrow> bool) \<Rightarrow> 'v host_event \<Rightarrow> bool" where
  "host_polite polite e = (case e of
     HostSocketTurn sid (SocketBinary bytes now elapsed) \<Rightarrow> packet_polite polite bytes
   | HostPeer ev \<Rightarrow> peer_event_polite polite ev
   | _ \<Rightarrow> True)"

lemma session_moves_ok: "session_moves cr s s' \<Longrightarrow> session_ok cr s \<Longrightarrow> session_ok cr s'"
  by (auto simp: session_moves_def intro: issue_ok new_session_ok) (simp add: session_disconnect_def session_ok_def)

lemma files_move_ok: "files_move env ses m m' \<Longrightarrow> uploads_ok m \<Longrightarrow> uploads_ok m'"
  by (auto simp: files_move_def dest: step_isolates simp: isolates_def)

lemma handle_session:
  assumes "handle env hs q st = (r, st')"
  shows "session_moves (ev_crypto env) (app_session st) (app_session st') \<and> sink_moves (ev_sink env) (app_sink st) (app_sink st')"
proof (cases "pairs q \<or> leaves q")
  case True
  then consider now bytes p s where "q = ReqPair now bytes p s" | removed token where "q = ReqDisconnect removed token"
    by (cases q) (auto simp: pairs_def leaves_def)
  then show ?thesis
  proof cases
    case 1
    with assms(1) pair_handler_parts [of env _ _ p s st] show ?thesis
      by (cases "pair_handler env now bytes p s st") (auto simp: handle_def answered_def)
  next
    case 2
    with assms(1) disconnect_parts [of env removed token st] show ?thesis
      by (cases "disconnect_handler env removed token st") (auto simp: handle_def answered_def session_moves_def)
  qed
next
  case False
  with handle_session_sink [OF assms] show ?thesis by (simp add: session_moves_def)
qed

lemma saved_video_valid: "save_video_settings tm v d = (Ok (), d') \<Longrightarrow> video_validate v = Ok ()"
  by (auto simp: save_video_settings_def split: result.splits)

lemma video_state_valid:
  assumes "apply_video_settings_state env settings expected st = (r, st')" "video_validate (vs_settings (app_video_settings st)) = Ok ()"
  shows "video_validate (vs_settings (app_video_settings st')) = Ok ()"
  using apply_video_effect [OF assms(1)] assms(2) by (cases r) (auto dest: saved_video_valid)

lemma handle_video_valid:
  assumes "handle env hs q st = (r, st')" "video_validate (vs_settings (app_video_settings st)) = Ok ()"
  shows "video_validate (vs_settings (app_video_settings st')) = Ok ()"
proof (cases "video_edit q")
  case None
  show ?thesis
  proof (cases "input_edit q")
    case none: None
    with handle_other_settings [OF None none assms(1)] assms(2) show ?thesis by simp
  next
    case (Some x)
    then have "q = ReqSetInput x" by (cases q) (simp_all add: input_edit_def)
    with assms set_input_edit [of env hs x st] show ?thesis
      by (cases "set_input_settings env hs x st") (auto simp: handle_def answered_def)
  qed
next
  case (Some x)
  then have "q = ReqSetVideo x" by (cases q) (simp_all add: video_edit_def)
  with assms set_video_edit [of env hs x st] show ?thesis
    by (cases "set_video_settings env hs x st") (auto simp: handle_def answered_def dest: saved_video_valid)
qed

lemma socket_step_parts:
  assumes "socket_step env sid e st = (out, turn, st')"
  shows "app_session st' = app_session st" "app_files st' = app_files st" "app_video_settings st' = app_video_settings st"
    "app_sink st' = app_sink st \<or> (\<exists>bytes now elapsed. e = SocketBinary bytes now elapsed \<and>
      app_sink st' = snd (process_input_packet (ev_sink env) now elapsed bytes (app_metrics st, app_sink st)))"
  using assms by (auto simp: socket_step_def control_message_def Let_def split: socket_event.splits if_splits option.splits prod.splits)

lemma socket_end_parts [simp]:
  "app_session (socket_end env st) = app_session st" "app_files (socket_end env st) = app_files st"
  "app_video_settings (socket_end env st) = app_video_settings st"
  "app_sink (socket_end env st) = snd (sk_reset_all (ev_sink env) (app_sink st))"
  by (simp_all add: socket_end_def)

lemma with_shared_parts [simp]:
  "app_session (with_shared h st) = app_session st" "app_files (with_shared h st) = app_files st"
  "app_video_settings (with_shared h st) = app_video_settings st" "app_sink (with_shared h st) = sh_sink h"
  "sh_sink (shared_part st) = app_sink st"
  by (simp_all add: with_shared_def shared_part_def)

lemma rotate_parts [simp]:
  "app_session (rotate_pairing env removed d st) = new_session_state (ev_crypto env) d"
  "app_files (rotate_pairing env removed d st) = cancel_session_uploads removed (session_id (app_session st)) (app_files st)"
  "app_video_settings (rotate_pairing env removed d st) = app_video_settings st"
  "app_sink (rotate_pairing env removed d st) = snd (sk_reset_all (ev_sink env) (app_sink st))"
  by (simp_all add: rotate_pairing_def session_rotate_def Let_def)

lemma rotate_expired_parts:
  assumes "rotate_pairing_if_expired env removed d st = (b, st')"
  shows "st' = rotate_pairing env removed d st \<and> b \<or> st' = st \<and> \<not> b"
  using assms by (cases st) (auto simp: rotate_pairing_if_expired_def rotate_if_expired_def rotate_pairing_def session_rotate_def Let_def split: if_splits)


text \<open>The events after which nothing may stay pressed: whenever control is withdrawn from the tablet or lost.\<close>

definition ends_input :: "('s, 'r) server_env \<Rightarrow> 'v host_event \<Rightarrow> ('s, 'r, 'v) app_state \<Rightarrow> bool" where
  "ends_input env e st = (case e of
     HostRequest hs (ReqDisconnect removed token) \<Rightarrow> authorize (ev_crypto env) token (app_session st)
   | HostSocketEnds \<Rightarrow> True
   | HostPeer (PeerChannelClosed label) \<Rightarrow> handled_channel label
   | HostPeer (PeerConnection s) \<Rightarrow> terminal_connection s
   | HostRotates removed d \<Rightarrow> True
   | HostRotatesExpired removed d \<Rightarrow> fst (rotate_pairing_if_expired env removed d st)
   | HostSetsVideo x \<Rightarrow> (case fst (apply_video_settings_state env x None st) of
       Ok status \<Rightarrow> vr_codec status \<noteq> current_codec env st | Err _ \<Rightarrow> False)
   | _ \<Rightarrow> False)"

lemma input_end_resets:
  assumes "ends_input env e st"
  shows "app_sink (host_step env e st) = snd (sk_reset_all (ev_sink env) (app_sink st))"
proof (cases e)
  case (HostRequest hs q)
  then obtain removed token where q: "q = ReqDisconnect removed token" "authorize (ev_crypto env) token (app_session st)"
    using assms by (cases q) (simp_all add: ends_input_def)
  then show ?thesis
    using HostRequest disconnect_parts [of env removed token st] by (cases "disconnect_handler env removed token st")
      (auto simp: host_step_def handle_def answered_def)
next
  case (HostPeer ev)
  then show ?thesis using assms by (cases ev) (simp_all add: ends_input_def host_step_def)
next
  case (HostRotatesExpired removed d)
  then show ?thesis
    using assms rotate_expired_parts [of env removed d st] by (cases "rotate_pairing_if_expired env removed d st")
      (auto simp: ends_input_def host_step_def)
next
  case (HostSetsVideo x)
  obtain r st1 where run: "apply_video_settings_state env x None st = (r, st1)" by fastforce
  with assms video_state_frame [OF run] show ?thesis
    by (cases r) (auto simp: HostSetsVideo ends_input_def host_step_def apply_video_settings_from_host_def Let_def)
qed (use assms in \<open>simp_all add: ends_input_def host_step_def\<close>)

context releasing_sink
begin

lemma sink_moves_sound: "sink_moves sink s s' \<Longrightarrow> sound s \<Longrightarrow> sound s'"
  by (auto simp: sink_moves_def intro: reset_sound options_sound)

lemma host_step_ok:
  assumes ok: "host_ok sound (ev_crypto env) st" and sink: "ev_sink env = sink" and polite: "host_polite polite e"
  shows "host_ok sound (ev_crypto env) (host_step env e st)"
proof (cases e)
  case (HostRequest hs q)
  obtain r st' where run: "handle env hs q st = (r, st')" by fastforce
  with ok handle_session [OF run] handle_files [OF run] handle_video_valid [OF run] sink show ?thesis
    by (auto simp: HostRequest host_step_def host_ok_def intro: session_moves_ok files_move_ok sink_moves_sound)
next
  case (HostSocketTurn sid ev)
  obtain out turn st' where run: "socket_step env sid ev st = (out, turn, st')" using prod_cases3 by blast
  have "sound (app_sink st')"
    using socket_step_parts(4) [OF run] ok polite sink packet_sound [of "(app_metrics st, app_sink st)"]
    by (auto simp: HostSocketTurn host_polite_def host_ok_def)
  with ok socket_step_parts(1-3) [OF run] run show ?thesis by (simp add: HostSocketTurn host_step_def host_ok_def)
next
  case (HostPeer ev)
  then show ?thesis
    using ok polite sink peer_event_sound [of "shared_part st" ev] by (simp add: host_step_def host_ok_def host_polite_def)
next
  case (HostRotatesExpired removed d)
  obtain b st' where run: "rotate_pairing_if_expired env removed d st = (b, st')" by fastforce
  with ok rotate_expired_parts [OF run] show ?thesis
    by (auto simp: sink HostRotatesExpired host_step_def host_ok_def intro: new_session_ok cancel_session_refines reset_sound)
next
  case (HostSetsInput x)
  obtain r st' where run: "apply_input_settings_state env x None st = (r, st')" by fastforce
  with ok sink input_state_frame [OF run] apply_input_effect [OF run] show ?thesis
    by (auto simp: HostSetsInput host_step_def host_ok_def apply_input_settings_from_host_def intro: sink_moves_sound)
next
  case (HostSetsVideo x)
  obtain r st1 where run: "apply_video_settings_state env x None st = (r, st1)" by fastforce
  with ok video_state_frame [OF run] video_state_valid [OF run] show ?thesis
    by (cases r) (auto simp: sink HostSetsVideo host_step_def host_ok_def apply_video_settings_from_host_def Let_def intro: reset_sound)
qed (use ok in \<open>auto simp: sink host_step_def host_ok_def intro: new_session_ok cancel_session_refines reset_sound\<close>)

lemma host_history_ok:
  assumes "host_ok sound (ev_crypto env) st" "ev_sink env = sink" "\<forall>e\<in>set es. host_polite polite e"
  shows "host_ok sound (ev_crypto env) (host_history env es st)"
  by (rule host_history_induct [of "host_ok sound (ev_crypto env)"]) (use assms host_step_ok in auto)

lemma input_end_releases:
  assumes "host_ok sound (ev_crypto env) st" "ev_sink env = sink" "\<forall>e\<in>set es. host_polite polite e"
    and "st1 = host_history env es st" "ends_input env e st1" "fst (sk_reset_all sink (app_sink st1)) = Ok ()"
  shows "released (app_sink (host_step env e st1))"
proof -
  have "sound (app_sink st1)" using host_history_ok [OF assms(1-3)] assms(4) by (simp add: host_ok_def)
  with reset_releases [of "app_sink st1"] assms(2,6) input_end_resets [OF assms(5)] show ?thesis
    by (metis prod.collapse)
qed

end

section \<open>Revocation\<close>

definition pairing_event :: "'v host_event \<Rightarrow> bool" where
  "pairing_event e = (case e of HostRequest hs q \<Rightarrow> pairs q | _ \<Rightarrow> False)"

text \<open>Without pairing nothing creates a token.\<close>

lemma no_token_step:
  assumes "access_token_hash (app_session st) = None" "\<not> pairing_event e"
  shows "access_token_hash (app_session (host_step env e st)) = None"
proof (cases e)
  case (HostRequest hs q)
  obtain r st' where run: "handle env hs q st = (r, st')" by fastforce
  have "\<not> leaves q \<longrightarrow> app_session st' = app_session st"
    using handle_session_sink [OF run] assms(2) by (simp add: HostRequest pairing_event_def)
  moreover have "leaves q \<longrightarrow> access_token_hash (app_session st') = None"
    using run assms(1) disconnect_parts [of env _ _ st]
    by (cases q) (auto simp: leaves_def handle_def answered_def disconnect_handler_def Let_def session_disconnect_def)
  ultimately show ?thesis using assms(1) run by (auto simp: HostRequest host_step_def)
next
  case (HostSocketTurn sid ev)
  obtain out turn st' where run: "socket_step env sid ev st = (out, turn, st')" using prod_cases3 by blast
  with assms(1) socket_step_parts(1) [OF run] show ?thesis by (simp add: HostSocketTurn host_step_def)
next
  case (HostRotatesExpired removed d)
  obtain b st' where run: "rotate_pairing_if_expired env removed d st = (b, st')" by fastforce
  with assms(1) rotate_expired_parts [OF run] show ?thesis by (auto simp: HostRotatesExpired host_step_def)
next
  case (HostSetsInput x)
  obtain r st' where run: "apply_input_settings_state env x None st = (r, st')" by fastforce
  with assms(1) input_state_frame [OF run] show ?thesis by (simp add: HostSetsInput host_step_def apply_input_settings_from_host_def)
next
  case (HostSetsVideo x)
  obtain r st1 where run: "apply_video_settings_state env x None st = (r, st1)" by fastforce
  with assms(1) video_state_frame [OF run] show ?thesis
    by (cases r) (auto simp: HostSetsVideo host_step_def apply_video_settings_from_host_def Let_def)
qed (use assms(1) in \<open>simp_all add: host_step_def\<close>)

lemma no_token_history:
  "access_token_hash (app_session st) = None \<Longrightarrow> \<forall>e\<in>set es. \<not> pairing_event e \<Longrightarrow>
   access_token_hash (app_session (host_history env es st)) = None"
  by (rule host_history_induct [of "\<lambda>st. access_token_hash (app_session st) = None"]) (auto intro: no_token_step)

lemma no_token_no_authority:
  assumes "access_token_hash ses = None" "\<not> open_request q"
  shows "\<not> may_act cr hs ses q"
  using assms by (auto simp: may_act_def authorize_def authorized_session_def authorize_mutation_def split: option.splits)

text \<open>The two events that revoke: leaving with the token, and a new pairing code on the host.\<close>

definition revokes :: "('s, 'r) server_env \<Rightarrow> 'v host_event \<Rightarrow> ('s, 'r, 'v) app_state \<Rightarrow> bool" where
  "revokes env e st = (case e of
     HostRequest hs (ReqDisconnect removed token) \<Rightarrow> authorize (ev_crypto env) token (app_session st)
   | HostRotates removed d \<Rightarrow> True
   | _ \<Rightarrow> False)"

lemma revoked_parts:
  assumes "revokes env e st" "uploads_ok (app_files st)"
  shows "access_token_hash (app_session (host_step env e st)) = None" "pe_active (app_peer (host_step env e st)) = None"
    "upload_view (app_files (host_step env e st)) uid = Some a \<Longrightarrow> ab_session a \<noteq> session_id (app_session st)"
proof -
  let ?st = "host_step env e st"
  have *: "access_token_hash (app_session ?st) = None \<and> pe_active (app_peer ?st) = None \<and>
      (\<exists>removed. app_files ?st = cancel_session_uploads removed (session_id (app_session st)) (app_files st))"
  proof (cases e)
    case (HostRequest hs q)
    then obtain removed token where q: "q = ReqDisconnect removed token" "authorize (ev_crypto env) token (app_session st)"
      using assms(1) by (cases q) (simp_all add: revokes_def)
    then show ?thesis
      using HostRequest disconnect_parts [of env removed token st] by (cases "disconnect_handler env removed token st")
        (auto simp: host_step_def handle_def answered_def session_disconnect_def)
  next
    case (HostRotates removed d)
    have "pe_active (app_peer (rotate_pairing env removed d st)) = None"
      by (simp add: rotate_pairing_def close_active_peer_def close_peer_def peer_close_def Let_def)
    then show ?thesis by (auto simp: HostRotates host_step_def)
  qed (use assms(1) in \<open>simp_all add: revokes_def\<close>)
  then show "access_token_hash (app_session ?st) = None" "pe_active (app_peer ?st) = None" by simp_all
  show "ab_session a \<noteq> session_id (app_session st)" if "upload_view (app_files ?st) uid = Some a"
    using * that cancel_session_refines(2) [OF assms(2)] by (auto split: option.splits if_splits)
qed

section \<open>The cookie of a paired tablet\<close>

definition url_safe :: "nat \<Rightarrow> bool" where
  "url_safe c \<longleftrightarrow> is_digit c \<or> 65 \<le> c \<and> c \<le> 90 \<or> 97 \<le> c \<and> c \<le> 122 \<or> c = 45 \<or> c = 95"

lemma url_safe_facts: "url_safe c \<Longrightarrow> c < 127 \<and> 32 < c \<and> c \<noteq> 59 \<and> c \<noteq> 61 \<and> \<not> is_whitespace c \<and> header_char c"
  by (auto simp: url_safe_def is_digit_def is_whitespace_def header_char_def)

lemma split_on_absent: "c \<notin> set s \<Longrightarrow> split_on c s = [s]"
  by (induction s) auto

definition token_header :: "ustring \<Rightarrow> u8 list" where
  "token_header token = map word_of_nat (lit ''nfidb_token='' @ token)"

lemma token_cookie_read:
  assumes "list_all url_safe token" "map_of hs ''cookie'' = Some (token_header token)"
  shows "token_cookie hs = Some token"
proof -
  let ?v = "lit ''nfidb_token='' @ token"
  have safe: "c < 127 \<and> 32 < c \<and> c \<noteq> 59 \<and> \<not> is_whitespace c" if "c \<in> set ?v" for c
    using that assms(1) url_safe_facts [of c] by (auto simp: lit_def list_all_iff is_whitespace_def)
  have "map (unat \<circ> (word_of_nat :: nat \<Rightarrow> u8)) ?v = map id ?v"
    by (rule map_cong [OF refl]) (use safe in \<open>force simp: unat_of_nat\<close>)
  then have chars: "map unat (token_header token) = ?v" by (simp add: token_header_def)
  have "list_all (header_char \<circ> unat) (token_header token)"
    unfolding list_all_iff comp_def
  proof
    fix b assume "b \<in> set (token_header token)"
    then have "unat b \<in> set (map unat (token_header token))" by simp
    with safe [of "unat b"] show "header_char (unat b)" unfolding chars by (auto simp: header_char_def)
  qed
  then have "header_text hs ''cookie'' = Some ?v"
    using assms(2) chars by (simp add: header_text_def header_to_str_def)
  moreover have "split_on 59 ?v = [?v]"
  proof -
    have "59 \<notin> set ?v" using safe by blast
    then show ?thesis by (rule split_on_absent)
  qed
  moreover have "trim ?v = ?v" using safe by (intro trim_id) blast
  moreover have "split_once 61 ?v = Some (lit ''nfidb_token'', token)"
    by (auto simp: split_once_Some lit_def)
  ultimately show ?thesis by (simp add: token_cookie_def cookie_value_def cookie_pair_def)
qed

lemma pair_success:
  assumes "list_all url_safe (random_token (ev_crypto env) bytes)" "pair_handler env now bytes p q st = (r, st')" "rs_status r = 200"
  shows "map_of (rs_headers r) ''set-cookie'' = Some (pairing_cookie (random_token (ev_crypto env) bytes)) \<and>
    access_token_hash (app_session st') = Some (hash (ev_crypto env) (random_token (ev_crypto env) bytes)) \<and>
    session_id (app_session st') = session_id (app_session st)"
proof -
  let ?token = "random_token (ev_crypto env) bytes"
  have header: "list_all header_char (pairing_cookie ?token)"
    using assms(1) url_safe_facts by (auto simp: pairing_cookie_def lit_def list_all_iff header_char_def)
  have "\<exists>x ses res. (pair_with_pin (ev_crypto env) now bytes x (app_session st) = (Ok res, ses) \<or>
      pair_with_qr_secret (ev_crypto env) now bytes x (app_session st) = (Ok res, ses)) \<and>
      r = insert_header ''set-cookie'' (pairing_cookie (access_token res)) (ok_json (BodyPair res)) \<and>
      st' = forget_continuity (st\<lparr>app_session := ses\<rparr>)"
  proof (cases p)
    case (Some x)
    obtain res ses where "pair_with_pin (ev_crypto env) now bytes x (app_session st) = (res, ses)" by fastforce
    with assms(2,3) Some show ?thesis
      by (cases res) (auto simp: pair_handler_def api_error_def reply_def)
  next
    case None
    show ?thesis
    proof (cases q)
      case (Some x)
      obtain res ses where "pair_with_qr_secret (ev_crypto env) now bytes x (app_session st) = (res, ses)" by fastforce
      with assms(2,3) Some None show ?thesis
        by (cases res) (auto simp: pair_handler_def api_error_def reply_def)
    qed (use assms(2,3) None in \<open>auto simp: pair_handler_def api_error_def reply_def\<close>)
  qed
  then obtain x ses res where one: "pair_with_pin (ev_crypto env) now bytes x (app_session st) = (Ok res, ses) \<or>
      pair_with_qr_secret (ev_crypto env) now bytes x (app_session st) = (Ok res, ses)"
    and r: "r = insert_header ''set-cookie'' (pairing_cookie (access_token res)) (ok_json (BodyPair res))"
    and st: "st' = forget_continuity (st\<lparr>app_session := ses\<rparr>)" by blast
  obtain m where "(Ok res, ses) = issue_access_token (ev_crypto env) bytes m (app_session st)"
    using one pair_with_pin_cases [of "ev_crypto env" now bytes x "app_session st" "Ok res" ses]
      pair_with_qr_cases [of "ev_crypto env" now bytes x "app_session st" "Ok res" ses] by blast
  with header r st show ?thesis
    by (simp add: issue_access_token_eq insert_header_def set_header_def ok_json_def reply_def)
qed

end
