(* ===== verification/Host_Props.thy ===== *)
theory Host_Props
  imports Host_Runs Input_Props
begin

text \<open>
  The properties of the LAN server and of the whole host, over every interleaving of requests, sockets, peer
  callbacks and calls of the application, with a small concrete host for their witnesses.
\<close>

section \<open>A small host\<close>

definition example_status :: video_runtime_status where
  "example_status = \<lparr>vr_requested_mode = Auto, vr_active_mode = Auto, vr_codec = H264, vr_backend = MediaFoundationHardware, vr_encoder_name = [],
     vr_hardware = False, vr_pipeline_memory_mode = CpuCopy, vr_output_width = 0, vr_output_height = 0, vr_target_fps = 0,
     vr_target_bitrate_bps = 0, vr_restart_count = 0, vr_switching = False, vr_auto_selection_reason = [], vr_last_error = None\<rparr>"

definition example_runtime :: "unit video_runtime" where
  "example_runtime = \<lparr>rtm_apply = \<lambda>v b u. (Ok example_status, u), rtm_status = \<lambda>u. example_status, rtm_capabilities = \<lambda>u. [],
     rtm_request_keyframe = \<lambda>u. u, rtm_record = \<lambda>a u. (Ok (), u), rtm_clear = \<lambda>u. (Ok (), u), rtm_results = \<lambda>u. []\<rparr>"

definition example_env :: "(pointer_injector \<times> desktop, unit) server_env" where
  "example_env = \<lparr>ev_crypto = toy_crypto, ev_sink = injector_sink, ev_runtime = example_runtime, ev_platform = example_platform,
     ev_toml = toy_toml default_app, ev_io_text = \<lambda>e. []\<rparr>"

definition example_server :: server_options where
  "example_server = \<lparr>so_preferred_port = 8080, so_host_name = [], so_mode = [], so_mdns = False, so_touch_default = True,
     so_mouse_enabled = True, so_keyboard_enabled = True, so_gestures_default = True, so_file_transfer = Uploads.example_options,
     so_video = default_video\<rparr>"

text \<open>A host whose session is paired: its token is the letter C.\<close>

definition paired_session :: session_state where
  "paired_session = snd (issue_access_token toy_crypto [67] PairPin (new_session_state toy_crypto toy_draws))"

definition example_host :: "(pointer_injector \<times> desktop, unit, unit) app_state" where
  "example_host = server_state (\<lambda>_. True) example_server paired_session (default_metrics 0) (example_injector, example_desktop) ()
     empty_disk Map.empty Map.empty"

lemma example_env_simps [simp]:
  "ev_crypto example_env = toy_crypto" "ev_sink example_env = injector_sink"
  by (simp_all add: example_env_def)

lemma example_token: "authorize toy_crypto [67] paired_session"
  by (simp add: paired_session_def issue_access_token_eq authorize_def random_token_def toy_crypto_def)

lemma example_host_parts [simp]:
  "app_session example_host = paired_session" "app_sink example_host = (example_injector, example_desktop)"
  by (simp_all add: example_host_def server_state_def)

section \<open>Shared settings\<close>



text \<open>A request without the authority its route needs (the token in the body to disconnect or to offer a
  connection, the session cookie to read, the cookie and an own origin to change anything; only the status and
  pairing are open) is answered with 401 and changes no part of the host.\<close>
theorem refused_requests_change_nothing:
  assumes "\<not> may_act (ev_crypto env) hs (app_session st) q"
  shows "\<exists>r. handle env hs q st = (Some r, st) \<and> rs_status r = 401"
  using assms by (rule refused_unchanged)

theorem refused_requests_change_nothing_witness:
  "\<exists>r. handle example_env [] (ReqDisconnect (\<lambda>_. True) [68]) example_host = (Some r, example_host) \<and> rs_status r = 401"
proof (rule refused_requests_change_nothing)
  have "\<not> authorize toy_crypto [68] paired_session"
    by (simp add: paired_session_def issue_access_token_eq authorize_def random_token_def hash_def toy_crypto_def utf8_encode_def utf8_char_def)
  then show "\<not> may_act (ev_crypto example_env) [] (app_session example_host) (ReqDisconnect (\<lambda>_. True) [68])"
    by (simp add: may_act_def open_request_def body_token_def)
qed

section \<open>The invariant of the host\<close>

lemma start_ok:
  assumes "video_validate (so_video options) = Ok ()" "fo_max_file_size_bytes (so_file_transfer options) \<noteq> - 1"
    "fresh_injector j d" "cooperative d"
  shows "host_ok sound_injector cr (server_state removed options (new_session_state cr dr) m (j, d) runtime disk staging inbox)"
  using assms by (simp add: host_ok_def server_state_def new_session_ok new_ok fresh_sound)

text \<open>C12: Whatever requests, socket messages, peer callbacks, new pairing codes and settings of the application
  arrive in whatever order at a freshly started host (the browser's mouse gestures end with no pressed button, the
  desktop accepts the events it has room for), the session counts as paired exactly while it holds a token, the
  shared video settings are valid, every unfinished upload is well formed, and every key the desktop holds is known
  to the injector.\<close>
theorem host_stays_sound:
  assumes "video_validate (so_video options) = Ok ()" "fo_max_file_size_bytes (so_file_transfer options) \<noteq> - 1"
    and "fresh_injector j d" "cooperative d" "ev_sink env = injector_sink" "\<forall>e\<in>set es. host_polite polite_call e"
    and "st = host_history env es (server_state removed options (new_session_state (ev_crypto env) dr) m (j, d) runtime disk staging inbox)"
  shows "(paired (app_session st) \<longleftrightarrow> access_token_hash (app_session st) \<noteq> None) \<and>
    video_validate (vs_settings (app_video_settings st)) = Ok () \<and> uploads_ok (app_files st) \<and>
    hd_keys (desktop_holds (snd (app_sink st))) \<subseteq> snd ` set (is_pressed_keys (in_state (fst (app_sink st))))"
  using native_sink.host_history_ok [OF start_ok [OF assms(1-4)] assms(5,6)] assms(7)
  by (simp add: host_ok_def session_ok_def sound_injector_def good_def covers_def)


text \<open>The history of the witnesses: the tablet opens the task view through its control socket.\<close>

definition task_view :: command_input where
  "task_view = \<lparr>cm_command = TaskView, cm_sequence = 1, cm_client_time_ms = 0\<rparr>"

definition example_events :: "unit host_event list" where
  "example_events = [HostRequest [] (ReqStatus 3), HostSocketTurn 7 (SocketBinary (command_encode task_view) 0 0)]"

lemma example_polite: "\<forall>e\<in>set example_events. host_polite polite_call e"
proof -
  have "input_decode (command_encode task_view) = Ok (Command task_view)"
    using command_codec.dispatch_roundtrip [of task_view] by (simp add: task_view_def)
  then show ?thesis by (simp add: example_events_def host_polite_def packet_polite_def polite_call_def)
qed

lemma example_config: "video_validate (so_video example_server) = Ok ()" "fo_max_file_size_bytes (so_file_transfer example_server) \<noteq> - 1"
  by (simp_all add: example_server_def default_video_valid Uploads.example_options_def)

definition fresh_host :: "(pointer_injector \<times> desktop, unit, unit) app_state" where
  "fresh_host = server_state (\<lambda>_. True) example_server (new_session_state (ev_crypto example_env) toy_draws) (default_metrics 0)
     (example_injector, example_desktop) () empty_disk Map.empty Map.empty"

theorem host_stays_sound_witness:
  "uploads_ok (app_files (host_history example_env example_events fresh_host))"
  using host_stays_sound [OF example_config example_fresh example_cooperative example_env_simps(2) example_polite]
  unfolding fresh_host_def by blast


section \<open>Revocation and pairing\<close>



text \<open>C15: A pairing request that succeeds hands out, in its cookie, a token that from then on is the only accepted one: a
  request that sends this cookie back acts for the session with the identifier the session had before, it may read,
  and it may change things whenever its origin is the host's own.  The base64 text of the random bytes has only
  URL-safe characters, as the encoder's documentation states.\<close>
theorem paired_cookie_is_accepted:
  assumes "list_all url_safe (base64url (ev_crypto env) bytes)" "handle env hs (ReqPair now bytes p s) st = (Some r, st')" "rs_status r = 200"
  shows "\<exists>token. map_of (rs_headers r) ''set-cookie'' = Some (pairing_cookie token) \<and>
    (\<forall>t. authorize (ev_crypto env) t (app_session st') \<longleftrightarrow> hash (ev_crypto env) t = hash (ev_crypto env) token) \<and>
    (\<forall>back. map_of back ''cookie'' = Some (token_header token) \<longrightarrow>
       authorized_session (ev_crypto env) back (app_session st') = Some (session_id (app_session st)) \<and>
       (same_origin back \<longrightarrow> authorize_mutation (ev_crypto env) back (app_session st') = Some (session_id (app_session st))))"
proof -
  let ?token = "random_token (ev_crypto env) bytes"
  have safe: "list_all url_safe ?token" using assms(1) by (simp add: random_token_def)
  have pair: "map_of (rs_headers r) ''set-cookie'' = Some (pairing_cookie ?token)" "access_token_hash (app_session st') = Some (hash (ev_crypto env) ?token)"
    "session_id (app_session st') = session_id (app_session st)"
    using pair_success [OF safe, of now p s st r st'] assms(2,3) by (auto simp: handle_def answered_def prod_eq_iff)
  then have all: "authorize (ev_crypto env) t (app_session st') \<longleftrightarrow> hash (ev_crypto env) t = hash (ev_crypto env) ?token" for t
    by (auto simp: authorize_def)
  with pair token_cookie_read [OF safe] show ?thesis
    by (intro exI [of _ ?token]) (simp add: authorized_session_def authorize_mutation_def)
qed

theorem paired_cookie_is_accepted_witness:
  "\<exists>r st' token. handle example_env [] (ReqPair 6 [67] (Some [32, 48, 48, 48, 48, 52, 50]) None) fresh_host = (Some r, st') \<and> rs_status r = 200 \<and>
     map_of (rs_headers r) ''set-cookie'' = Some (pairing_cookie token) \<and>
     authorized_session toy_crypto [(''cookie'', token_header token)] (app_session st') = Some (session_id (app_session fresh_host))"
proof -
  let ?q = "ReqPair 6 [67] (Some [32, 48, 48, 48, 48, 52, 50]) None"
  obtain r st' where run: "handle example_env [] ?q fresh_host = (r, st')" by fastforce
  obtain a where r: "r = Some a" "rs_status a = 200"
    using run toy_pairing
    by (auto simp: handle_def answered_def pair_handler_def fresh_host_def server_state_def issue_access_token_eq insert_header_def
        set_header_def ok_json_def reply_def)
  have "list_all url_safe (base64url (ev_crypto example_env) [67])"
    by (simp add: toy_crypto_def url_safe_def)
  from paired_cookie_is_accepted [OF this run [unfolded r(1)] r(2)]
  obtain token where token: "map_of (rs_headers a) ''set-cookie'' = Some (pairing_cookie token)"
    "\<forall>back. map_of back ''cookie'' = Some (token_header token) \<longrightarrow>
       authorized_session toy_crypto back (app_session st') = Some (session_id (app_session fresh_host))" by auto
  then show ?thesis using run r by auto
qed

section \<open>A socket that stays open\<close>

text \<open>C36: Disconnecting takes the token away but keeps the session's identifier, the only thing a control socket of
  the session checks, and only when its clock ticks: after a successful disconnect an open socket still hands every
  packet to the input sink and stays in its loop at every tick, while after a new pairing code with another identifier
  it leaves at the next tick.\<close>
theorem open_socket_outlives_disconnect:
  assumes "authorize (ev_crypto env) token (app_session st)" "handle env hs (ReqDisconnect removed token) st = (r, st1)"
  shows "\<not> authorize (ev_crypto env) t (app_session st1) \<and>
    app_sink (snd (snd (socket_step env (session_id (app_session st)) (SocketBinary bytes now elapsed) st1))) =
      snd (process_input_packet (ev_sink env) now elapsed bytes (app_metrics st1, app_sink st1)) \<and>
    fst (snd (socket_step env (session_id (app_session st)) (SocketTick now True) st1)) \<noteq> LeaveLoop \<and>
    (dr_uuid d \<noteq> session_id (app_session st) \<longrightarrow>
     fst (snd (socket_step env (session_id (app_session st)) (SocketTick now True) (rotate_pairing env removed d st))) = LeaveLoop)"
proof -
  have st1: "app_session st1 = session_disconnect (app_session st)"
    using assms disconnect_parts [of env removed token st] by (cases "disconnect_handler env removed token st")
      (auto simp: handle_def answered_def dest: disconnect_parts)
  have "session_id (new_session_state (ev_crypto env) d) = dr_uuid d" by (simp add: new_session_state_def Let_def)
  then show ?thesis
    using st1 by (auto simp: socket_step_def session_disconnect_def authorize_def split: prod.splits option.splits)
qed

theorem open_socket_outlives_disconnect_witness:
  "\<exists>r st1. handle example_env [] (ReqDisconnect (\<lambda>_. True) [67]) example_host = (r, st1) \<and>
     \<not> authorize toy_crypto [67] (app_session st1) \<and>
     app_sink (snd (snd (socket_step example_env (session_id (app_session example_host)) (SocketBinary (command_encode task_view) 0 0) st1))) =
       snd (process_input_packet injector_sink 0 0 (command_encode task_view) (app_metrics st1, app_sink st1))"
proof -
  obtain r st1 where run: "handle example_env [] (ReqDisconnect (\<lambda>_. True) [67]) example_host = (r, st1)" by fastforce
  have "authorize (ev_crypto example_env) [67] (app_session example_host)" using example_token by simp
  from open_socket_outlives_disconnect [OF this run, of "[67]" "command_encode task_view" 0 0] run show ?thesis by auto
qed

end
