(* ===== verification/Driver.thy ===== *)
theory Driver
  imports Strings Config
begin

text \<open>
  The graphics and media interfaces of the operating system, as the host crate sees them:
  Direct3D 11, DXGI, Media Foundation and OpenH264 are not code of the repository.  A driver is
  the list of the calls it accepted, a counter, and its answers to the calls still to come;
  every call of the source takes the next answer, so each failure, null pointer and number a call
  can report is a branch.  The driver also carries what belongs to the program itself: the strong
  counts of the shared surfaces (\<open>Arc\<close>) and the outcomes of the two one-time initialisations, COM for
  the current thread and Media Foundation for the process.
\<close>

record driver_answer =
  fa_error :: "ustring option"
  fa_code :: u32
  fa_clock :: nat
  fa_null :: bool
  fa_handle :: nat
  fa_second :: "nat option"
  fa_number :: u64
  fa_size :: u32
  fa_units :: "u16 list"
  fa_pitch :: u32
  fa_memory :: "nat \<Rightarrow> u8"

datatype codec_profile = ConstrainedBaseProfile | Main420Profile | NoProfile

record media_type =
  mt_subtype :: "video_codec option"
  mt_frame_size :: u64
  mt_frame_rate :: u64
  mt_aspect :: u64
  mt_bitrate :: "u32 option"
  mt_profile :: "codec_profile option"

datatype sample_source = SampleBytes "u8 list" | SampleTexture nat

datatype transform_message = SetD3dManager nat | BeginStreaming | StartOfStream

datatype native_call =
    ProtectContext nat
  | CopyRegion nat nat u32 u32
  | CopyTexture nat nat
  | UploadTexture nat "u8 list" u32
  | StreamRects u32 u32 u32 u32
  | ColorSpaces
  | VideoBlt nat nat u32
  | FlushContext nat
  | UnmapTexture nat
  | OutputType media_type
  | InputType media_type
  | TransformMessage transform_message
  | TransformInput sample_source "u64"
  | CreateOpenH264 u32 u32
  | OpenH264Frame "u8 list"
  | ForceIntraFrame
  | ShutdownActivation
  | UninitializeCom

record driver =
  dv_calls :: nat
  dv_answers :: "nat \<Rightarrow> driver_answer"
  dv_log :: "native_call list"
  dv_arcs :: "nat \<Rightarrow> nat"
  dv_next_arc :: nat
  dv_com :: "(bool, ustring) result option"
  dv_startup :: "(unit, ustring) result option"

definition quiet_answer :: driver_answer where
  "quiet_answer = \<lparr>fa_error = None, fa_code = 0, fa_clock = 0, fa_null = False, fa_handle = 1, fa_second = Some 2, fa_number = 0,
     fa_size = 0, fa_units = [], fa_pitch = 0, fa_memory = (\<lambda>_. 0)\<rparr>"

definition fresh_driver :: "(nat \<Rightarrow> driver_answer) \<Rightarrow> driver" where
  "fresh_driver answers = \<lparr>dv_calls = 0, dv_answers = answers, dv_log = [], dv_arcs = (\<lambda>_. 0), dv_next_arc = 0,
     dv_com = None, dv_startup = None\<rparr>"

definition ask :: "driver \<Rightarrow> driver_answer \<times> driver" where
  "ask d = (dv_answers d (dv_calls d), d\<lparr>dv_calls := dv_calls d + 1\<rparr>)"

definition issue :: "native_call \<Rightarrow> driver \<Rightarrow> driver" where
  "issue c d = d\<lparr>dv_log := dv_log d @ [c]\<rparr>"

definition out_param :: "driver_answer \<Rightarrow> nat option" where
  "out_param a = (if fa_null a then None else Some (fa_handle a))"

section \<open>Fallible operations\<close>

text \<open>An operation that may fail returns its result and the driver after it; \<open>io_then\<close> is \<open>?\<close>.\<close>

type_synonym 'a io = "driver \<Rightarrow> ('a, ustring) result \<times> driver"

definition io_ok :: "'a \<Rightarrow> 'a io" where
  "io_ok x d = (Ok x, d)"

definition io_fail :: "ustring \<Rightarrow> 'a io" where
  "io_fail e d = (Err e, d)"

definition io_then :: "'a io \<Rightarrow> ('a \<Rightarrow> 'b io) \<Rightarrow> 'b io" where
  "io_then m k d = (case m d of (Ok x, d') \<Rightarrow> k x d' | (Err e, d') \<Rightarrow> (Err e, d'))"

definition io_lift :: "('a, ustring) result \<Rightarrow> 'a io" where
  "io_lift r d = (r, d)"

definition attempt :: "(ustring \<Rightarrow> ustring) \<Rightarrow> driver_answer io" where
  "attempt wrap d = (let (a, d) = ask d in
     (case fa_error a of Some e \<Rightarrow> Err (wrap e) | None \<Rightarrow> Ok a, d))"

definition prefixed :: "string \<Rightarrow> ustring \<Rightarrow> ustring" where
  "prefixed context e = lit context @ e"

definition perform :: "native_call \<Rightarrow> unit io" where
  "perform c d = (Ok (), issue c d)"

definition show_signed :: "'a::len word \<Rightarrow> ustring" where
  "show_signed w = (if sint w < 0 then 45 # show_nat (nat (- sint w)) else show_nat (nat (sint w)))"

section \<open>Shared surfaces\<close>

definition new_arc :: "driver \<Rightarrow> nat \<times> driver" where
  "new_arc d = (dv_next_arc d, d\<lparr>dv_next_arc := dv_next_arc d + 1, dv_arcs := (dv_arcs d)(dv_next_arc d := 1)\<rparr>)"

definition clone_arc :: "nat \<Rightarrow> driver \<Rightarrow> driver" where
  "clone_arc a d = d\<lparr>dv_arcs := (dv_arcs d)(a := dv_arcs d a + 1)\<rparr>"

definition drop_arc :: "nat \<Rightarrow> driver \<Rightarrow> driver" where
  "drop_arc a d = d\<lparr>dv_arcs := (dv_arcs d)(a := dv_arcs d a - 1)\<rparr>"

section \<open>What the operations leave alone\<close>

named_theorems driver_simps \<open>effects of the primitive driver operations\<close>

lemma ask_frame [driver_simps]:
  "fst (ask d) = dv_answers d (dv_calls d)"
  "dv_calls (snd (ask d)) = dv_calls d + 1" "dv_log (snd (ask d)) = dv_log d"
  "dv_arcs (snd (ask d)) = dv_arcs d" "dv_next_arc (snd (ask d)) = dv_next_arc d"
  "dv_answers (snd (ask d)) = dv_answers d"
  by (simp_all add: ask_def)

lemma issue_frame [driver_simps]:
  "dv_calls (issue c d) = dv_calls d" "dv_log (issue c d) = dv_log d @ [c]"
  "dv_arcs (issue c d) = dv_arcs d" "dv_next_arc (issue c d) = dv_next_arc d"
  "dv_answers (issue c d) = dv_answers d"
  by (simp_all add: issue_def)

lemma io_then_ok [simp]: "io_then (io_ok x) k = k x"
  by (simp add: io_then_def io_ok_def fun_eq_iff)

lemma io_then_Ok_iff: "io_then m k d = (Ok y, d') \<longleftrightarrow> (\<exists>x d1. m d = (Ok x, d1) \<and> k x d1 = (Ok y, d'))"
  by (auto simp: io_then_def split: prod.splits result.splits)

lemma fst_io_then_Ok: "fst (io_then m k d) = Ok y \<longleftrightarrow> (\<exists>x d1. m d = (Ok x, d1) \<and> fst (k x d1) = Ok y)"
  by (auto simp: io_then_def split: prod.splits result.splits)

text \<open>
  Most operations leave most of the driver alone: \<open>preserves f m\<close> says that \<open>m\<close> keeps the part \<open>f\<close>, and
  \<open>io_then\<close> keeps what both sides keep.
\<close>

definition same_arcs :: "driver \<Rightarrow> driver \<Rightarrow> bool" where
  "same_arcs d d' \<longleftrightarrow> dv_arcs d' = dv_arcs d \<and> dv_next_arc d' = dv_next_arc d"

definition preserves :: "(driver \<Rightarrow> 'b) \<Rightarrow> 'a io \<Rightarrow> bool" where
  "preserves f m \<longleftrightarrow> (\<forall>d. f (snd (m d)) = f d)"

definition advances :: "'a io \<Rightarrow> bool" where
  "advances m \<longleftrightarrow> (\<forall>d. dv_calls d \<le> dv_calls (snd (m d)))"

named_theorems preserves_intro \<open>operations that keep a part of the driver\<close>

lemma preservesD: "preserves f m \<Longrightarrow> m d = (r, d') \<Longrightarrow> f d' = f d"
  by (metis preserves_def snd_conv)

lemma advancesD: "advances m \<Longrightarrow> m d = (r, d') \<Longrightarrow> dv_calls d \<le> dv_calls d'"
  by (metis advances_def snd_conv)

lemma preserves_then [preserves_intro]:
  assumes "preserves f m" "\<And>x. preserves f (k x)"
  shows "preserves f (io_then m k)"
  unfolding preserves_def
proof
  fix d
  obtain r d1 where eq: "m d = (r, d1)" by fastforce
  with assms(1) have "f d1 = f d" by (rule preservesD)
  with assms(2) eq show "f (snd (io_then m k d)) = f d"
    by (cases r) (auto simp: preserves_def io_then_def)
qed

lemma advances_then [preserves_intro]:
  assumes "advances m" "\<And>x. advances (k x)"
  shows "advances (io_then m k)"
  unfolding advances_def
proof
  fix d
  obtain r d1 where eq: "m d = (r, d1)" by fastforce
  with assms(1) have "dv_calls d \<le> dv_calls d1" by (rule advancesD)
  with assms(2) eq show "dv_calls d \<le> dv_calls (snd (io_then m k d))"
    by (cases r) (auto simp: advances_def io_then_def intro: le_trans)
qed

lemma preserves_pure [preserves_intro]:
  "preserves f (io_ok x)" "preserves f (io_fail e)" "preserves f (io_lift r)"
  "advances (io_ok x)" "advances (io_fail e)" "advances (io_lift r)" "advances (attempt w)" "advances (perform c)"
  by (simp_all add: preserves_def advances_def io_ok_def io_fail_def io_lift_def attempt_def ask_def perform_def issue_def
      split: option.splits)

lemma preserves_calls [preserves_intro]:
  "preserves dv_log (attempt w)" "preserves dv_answers (attempt w)" "preserves dv_arcs (attempt w)" "preserves dv_next_arc (attempt w)"
  "preserves dv_answers (perform c)" "preserves dv_arcs (perform c)" "preserves dv_next_arc (perform c)"
  by (simp_all add: preserves_def attempt_def ask_def perform_def issue_def split: option.splits)

lemma preserves_if [preserves_intro]:
  "preserves f m \<Longrightarrow> preserves f n \<Longrightarrow> preserves f (if b then m else n)"
  "advances m \<Longrightarrow> advances n \<Longrightarrow> advances (if b then m else n)"
  by simp_all

lemma preserves_option [preserves_intro]:
  "preserves f m \<Longrightarrow> (\<And>x. preserves f (n x)) \<Longrightarrow> preserves f (case v of None \<Rightarrow> m | Some x \<Rightarrow> n x)"
  "advances m \<Longrightarrow> (\<And>x. advances (n x)) \<Longrightarrow> advances (case v of None \<Rightarrow> m | Some x \<Rightarrow> n x)"
  by (simp_all split: option.splits)

end
