(* ===== verification/Surfaces.thy ===== *)
theory Surfaces
  imports Driver "HOL-Library.Multiset"
begin

text \<open>
  \<open>crates/host-windows/src/gpu_preprocess.rs\<close>: the bounded pool of GPU surfaces, the
  video processor that resizes and converts to NV12 on the GPU, and the read-back of a texture
  into tightly packed rows.
\<close>

section \<open>Surfaces and their pool\<close>

definition MAX_IN_FLIGHT_SURFACES :: nat where "MAX_IN_FLIGHT_SURFACES = 4"
definition DXGI_FORMAT_B8G8R8A8_UNORM :: i32 where "DXGI_FORMAT_B8G8R8A8_UNORM = 87"
definition DXGI_FORMAT_NV12 :: i32 where "DXGI_FORMAT_NV12 = 103"
definition D3D11_BIND_SHADER_RESOURCE :: u32 where "D3D11_BIND_SHADER_RESOURCE = 0x8"
definition D3D11_BIND_RENDER_TARGET :: u32 where "D3D11_BIND_RENDER_TARGET = 0x20"
definition D3D11_BIND_VIDEO_ENCODER :: u32 where "D3D11_BIND_VIDEO_ENCODER = 0x400"

record gpu_surface =
  gs_arc :: nat
  gs_device :: nat
  gs_context :: nat
  gs_texture :: nat
  gs_width :: u32
  gs_height :: u32
  gs_format :: i32

definition device_identity :: "gpu_surface \<Rightarrow> nat" where
  "device_identity s = gs_device s"

record surface_key =
  sk_device :: nat
  sk_width :: u32
  sk_height :: u32
  sk_format :: i32
  sk_bind_flags :: u32

record gpu_surface_pool =
  sp_key :: "surface_key option"
  sp_surfaces :: "gpu_surface list"

definition empty_pool :: gpu_surface_pool where
  "empty_pool = \<lparr>sp_key = None, sp_surfaces = []\<rparr>"

definition clone_surface :: "gpu_surface \<Rightarrow> driver \<Rightarrow> driver" where
  "clone_surface s = clone_arc (gs_arc s)"

definition drop_surface :: "gpu_surface \<Rightarrow> driver \<Rightarrow> driver" where
  "drop_surface s = drop_arc (gs_arc s)"

text \<open>A handle that leaves its scope because the operation after it failed is dropped.\<close>

definition keeping :: "gpu_surface \<Rightarrow> 'a io \<Rightarrow> 'a io" where
  "keeping s m d = (case m d of (Ok x, d') \<Rightarrow> (Ok x, d') | (Err e, d') \<Rightarrow> (Err e, drop_surface s d'))"

text \<open>When the requested key differs from the pool's, the pool drops its surfaces first.\<close>

definition rekey :: "surface_key \<Rightarrow> nat \<Rightarrow> gpu_surface_pool \<Rightarrow> driver \<Rightarrow> gpu_surface_pool \<times> driver" where
  "rekey key c p d =
     (if sp_key p \<noteq> Some key then
        (let d = fold drop_surface (sp_surfaces p) d;
             (a, d) = ask d
         in (\<lparr>sp_key = Some key, sp_surfaces = []\<rparr>, if fa_error a = None then issue (ProtectContext c) d else d))
      else (p, d))"

definition create_surface :: "nat \<Rightarrow> nat \<Rightarrow> u32 \<Rightarrow> u32 \<Rightarrow> i32 \<Rightarrow> gpu_surface io" where
  "create_surface dev c w h fmt =
     io_then (attempt (\<lambda>e. lit ''create '' @ show_nat (unat w) @ lit ''x'' @ show_nat (unat h) @ lit '' GPU video surface: '' @ e)) (\<lambda>a.
     io_then (io_lift (ok_or (lit ''D3D11 returned a null video surface'') (out_param a))) (\<lambda>texture d.
       let (arc, d) = new_arc d
       in (Ok \<lparr>gs_arc = arc, gs_device = dev, gs_context = c, gs_texture = texture, gs_width = w, gs_height = h, gs_format = fmt\<rparr>, d)))"

definition acquire :: "nat \<Rightarrow> nat \<Rightarrow> u32 \<Rightarrow> u32 \<Rightarrow> i32 \<Rightarrow> u32 \<Rightarrow> gpu_surface_pool \<Rightarrow> driver
    \<Rightarrow> (gpu_surface option, ustring) result \<times> gpu_surface_pool \<times> driver" where
  "acquire dev c w h fmt bind p d =
     (let key = \<lparr>sk_device = dev, sk_width = w, sk_height = h, sk_format = fmt, sk_bind_flags = bind\<rparr>;
          (p, d) = rekey key c p d
      in case find (\<lambda>s. dv_arcs d (gs_arc s) = 1) (sp_surfaces p) of
           Some s \<Rightarrow> (Ok (Some s), p, clone_surface s d)
         | None \<Rightarrow>
             if MAX_IN_FLIGHT_SURFACES \<le> length (sp_surfaces p) then (Ok None, p, d)
             else (case create_surface dev c w h fmt d of
                 (Err e, d) \<Rightarrow> (Err e, p, d)
               | (Ok s, d) \<Rightarrow> (Ok (Some s), p\<lparr>sp_surfaces := sp_surfaces p @ [s]\<rparr>, clone_surface s d)))"

definition copy_capture_surface :: "nat \<Rightarrow> nat \<Rightarrow> nat \<Rightarrow> u32 \<Rightarrow> u32 \<Rightarrow> i32 \<Rightarrow> gpu_surface_pool \<Rightarrow> driver
    \<Rightarrow> (gpu_surface option, ustring) result \<times> gpu_surface_pool \<times> driver" where
  "copy_capture_surface dev c source w h fmt p d =
     (case acquire dev c w h fmt 0 p d of
        (Ok (Some s), p, d) \<Rightarrow> (Ok (Some s), p, issue (CopyRegion (gs_texture s) source w h) d)
      | r \<Rightarrow> r)"

section \<open>The video processor\<close>

record gpu_video_processor =
  vp_device_identity :: nat
  vp_input_width :: u32
  vp_input_height :: u32
  vp_input_format :: i32
  vp_output_width :: u32
  vp_output_height :: u32
  vp_fps :: u32
  vp_video_device :: nat
  vp_video_context :: nat
  vp_enumerator :: nat
  vp_processor :: nat
  vp_output_pool :: gpu_surface_pool
  vp_output_bind_flags :: u32
  vp_frame_index :: u32

definition video_processor_new :: "gpu_surface \<Rightarrow> u32 \<Rightarrow> u32 \<Rightarrow> u32 \<Rightarrow> gpu_video_processor io" where
  "video_processor_new input ow oh rate =
     io_then (attempt (prefixed ''D3D11 video processing is unavailable on the capture adapter: '')) (\<lambda>video_device.
     io_then (attempt (prefixed ''D3D11 video context is unavailable on the capture adapter: '')) (\<lambda>video_context.
     io_then (attempt (prefixed ''create D3D11 video processor: '')) (\<lambda>enumerator.
     io_then (attempt (prefixed ''query capture texture support: '')) (\<lambda>input_support.
     if fa_number input_support AND 1 = 0 then
       io_fail (lit ''capture texture format '' @ show_signed (gs_format input) @ lit '' is not a video-processor input on this adapter'')
     else
     io_then (attempt (prefixed ''query NV12 output support: '')) (\<lambda>output_support.
     if fa_number output_support AND 2 = 0 then
       io_fail (lit ''the capture adapter cannot produce NV12 video-processor output'')
     else
     io_then (attempt (prefixed ''create low-latency D3D11 video processor: '')) (\<lambda>processor.
     io_ok \<lparr>vp_device_identity = device_identity input, vp_input_width = gs_width input, vp_input_height = gs_height input,
        vp_input_format = gs_format input, vp_output_width = ow, vp_output_height = oh, vp_fps = rate,
        vp_video_device = fa_handle video_device, vp_video_context = fa_handle video_context,
        vp_enumerator = fa_handle enumerator, vp_processor = fa_handle processor, vp_output_pool = empty_pool,
        vp_output_bind_flags = D3D11_BIND_RENDER_TARGET OR D3D11_BIND_VIDEO_ENCODER OR D3D11_BIND_SHADER_RESOURCE,
        vp_frame_index = 0\<rparr>))))))"

definition processor_matches :: "gpu_video_processor \<Rightarrow> gpu_surface \<Rightarrow> u32 \<Rightarrow> u32 \<Rightarrow> u32 \<Rightarrow> bool" where
  "processor_matches p input ow oh rate \<longleftrightarrow>
     vp_device_identity p = device_identity input \<and> vp_input_width p = gs_width input \<and> vp_input_height p = gs_height input
     \<and> vp_input_format p = gs_format input \<and> vp_output_width p = ow \<and> vp_output_height p = oh \<and> vp_fps p = rate"

definition acquire_output :: "gpu_surface \<Rightarrow> gpu_video_processor \<Rightarrow> driver
    \<Rightarrow> (gpu_surface option, ustring) result \<times> gpu_video_processor \<times> driver" where
  "acquire_output input p d =
     (case acquire (gs_device input) (gs_context input) (vp_output_width p) (vp_output_height p) DXGI_FORMAT_NV12
             (vp_output_bind_flags p) (vp_output_pool p) d of
        (Ok r, pool, d) \<Rightarrow> (Ok r, p\<lparr>vp_output_pool := pool\<rparr>, d)
      | (Err first_error, pool, d) \<Rightarrow>
          if vp_output_bind_flags p \<noteq> D3D11_BIND_RENDER_TARGET then
            (let p = p\<lparr>vp_output_bind_flags := D3D11_BIND_RENDER_TARGET\<rparr>
             in case acquire (gs_device input) (gs_context input) (vp_output_width p) (vp_output_height p) DXGI_FORMAT_NV12
                       (vp_output_bind_flags p) pool d of
                  (r, pool, d) \<Rightarrow>
                    (map_error (\<lambda>fallback_error. lit ''create encoder-ready NV12 surface: '' @ first_error
                        @ lit ''; render-target fallback: '' @ fallback_error) r,
                     p\<lparr>vp_output_pool := pool\<rparr>, d))
          else (Err first_error, p\<lparr>vp_output_pool := pool\<rparr>, d))"

definition convert_surface :: "gpu_surface \<Rightarrow> gpu_surface \<Rightarrow> gpu_video_processor \<Rightarrow> unit io" where
  "convert_surface input output p =
     io_then (attempt (prefixed ''create BGRA video-processor input view: '')) (\<lambda>input_view.
     io_then (attempt (prefixed ''create NV12 video-processor output view: '')) (\<lambda>output_view.
     io_then (io_lift (ok_or (lit ''D3D11 returned a null input view'') (out_param input_view))) (\<lambda>_.
     io_then (io_lift (ok_or (lit ''D3D11 returned a null output view'') (out_param output_view))) (\<lambda>_.
     io_then (perform (StreamRects (gs_width input) (gs_height input) (vp_output_width p) (vp_output_height p))) (\<lambda>_.
     io_then (\<lambda>d. let (a, d) = ask d in (Ok (), if fa_error a = None then issue ColorSpaces d else d)) (\<lambda>_.
     io_then (attempt (prefixed ''GPU resize/BGRA-to-NV12 conversion failed: '')) (\<lambda>_.
     io_then (perform (VideoBlt (gs_texture input) (gs_texture output) (vp_frame_index p))) (\<lambda>_.
     perform (FlushContext (gs_context input))))))))))"

definition processor_process :: "gpu_surface \<Rightarrow> gpu_video_processor \<Rightarrow> driver
    \<Rightarrow> (gpu_surface option, ustring) result \<times> gpu_video_processor \<times> driver" where
  "processor_process input p d =
     (case acquire_output input p d of
        (Ok (Some output), p, d) \<Rightarrow>
          (case keeping output (convert_surface input output p) d of
             (Ok _, d) \<Rightarrow> (Ok (Some output), p\<lparr>vp_frame_index := vp_frame_index p + 1\<rparr>, d)
           | (Err e, d) \<Rightarrow> (Err e, p, d))
      | r \<Rightarrow> r)"

section \<open>The benchmark pipeline\<close>

record gpu_benchmark_pipeline =
  gb_input :: gpu_surface
  gb_processor :: gpu_video_processor

text \<open>The pool of \<open>new\<close> is local, so its own handle on the input surface is dropped at the end.\<close>

definition benchmark_pipeline_new :: "u32 \<Rightarrow> u32 \<Rightarrow> u32 \<Rightarrow> u32 \<Rightarrow> u32 \<Rightarrow> gpu_benchmark_pipeline io" where
  "benchmark_pipeline_new iw ih ow oh rate =
     io_then (attempt (prefixed ''create hardware D3D11 benchmark device: '')) (\<lambda>a.
     if scast (fa_number a) <s (0xB000 :: i32) then io_fail (lit ''the benchmark adapter does not support D3D feature level 11.0'')
     else
     io_then (io_lift (ok_or (lit ''D3D11 returned a null benchmark device'') (out_param a))) (\<lambda>device.
     io_then (io_lift (ok_or (lit ''D3D11 returned a null benchmark context'') (fa_second a))) (\<lambda>ctx d.
       case acquire device ctx iw ih DXGI_FORMAT_B8G8R8A8_UNORM 0 empty_pool d of
         (Err e, p, d) \<Rightarrow> (Err e, fold drop_surface (sp_surfaces p) d)
       | (Ok None, p, d) \<Rightarrow> (Err (lit ''the GPU benchmark input surface pool is busy''), fold drop_surface (sp_surfaces p) d)
       | (Ok (Some input), p, d) \<Rightarrow>
           (case keeping input (video_processor_new input ow oh rate) d of
              (r, d) \<Rightarrow> (map_ok (\<lambda>q. \<lparr>gb_input = input, gb_processor = q\<rparr>) r, fold drop_surface (sp_surfaces p) d)))))"

definition process_bgra :: "u8 list \<Rightarrow> gpu_benchmark_pipeline \<Rightarrow> driver
    \<Rightarrow> (gpu_surface, ustring) result \<times> gpu_benchmark_pipeline \<times> driver" where
  "process_bgra bgra b d =
     (let input = gb_input b; expected = unat (gs_width input) * unat (gs_height input) * 4
      in if length bgra \<noteq> expected then
           (Err (lit ''GPU benchmark frame has '' @ show_nat (length bgra) @ lit '' bytes; expected '' @ show_nat expected), b, d)
         else
           (case processor_process input (gb_processor b) (issue (UploadTexture (gs_texture input) bgra (gs_width input * 4)) d) of
              (r, q, d) \<Rightarrow>
                (and_then r (ok_or (lit ''the bounded GPU benchmark output pool is busy'')), b\<lparr>gb_processor := q\<rparr>, d)))"

section \<open>Reading a surface back\<close>

definition create_staging_texture :: "gpu_surface \<Rightarrow> i32 \<Rightarrow> nat io" where
  "create_staging_texture s fmt =
     io_then (attempt (prefixed ''create GPU readback surface: '')) (\<lambda>a.
     io_lift (ok_or (lit ''D3D11 returned a null readback surface'') (out_param a)))"

definition copy_and_map :: "gpu_surface \<Rightarrow> nat \<Rightarrow> driver_answer io" where
  "copy_and_map s staging =
     io_then (perform (CopyTexture staging (gs_texture s))) (\<lambda>_.
     attempt (prefixed ''map GPU readback surface: ''))"

text \<open>Rows of a mapped texture lie \<open>RowPitch\<close> bytes apart; only the first \<open>n\<close> bytes of each are copied.\<close>

definition pitched_rows :: "(nat \<Rightarrow> u8) \<Rightarrow> nat \<Rightarrow> nat \<Rightarrow> nat \<Rightarrow> nat \<Rightarrow> u8 list" where
  "pitched_rows mem start pitch n rows =
     concat (map (\<lambda>row. map (\<lambda>i. mem (start + row * pitch + i)) [0..<n]) [0..<rows])"

definition read_bgra :: "gpu_surface \<Rightarrow> u8 list io" where
  "read_bgra s =
     (if gs_format s \<noteq> DXGI_FORMAT_B8G8R8A8_UNORM then
        io_fail (lit ''cannot read unsupported capture format '' @ show_signed (gs_format s) @ lit '' as BGRA'')
      else
        io_then (create_staging_texture s (gs_format s)) (\<lambda>staging.
        io_then (copy_and_map s staging) (\<lambda>m.
        io_then (perform (UnmapTexture staging)) (\<lambda>_.
        io_ok (pitched_rows (fa_memory m) 0 (unat (fa_pitch m)) (unat (gs_width s) * 4) (unat (gs_height s)))))))"

record nv12_readback =
  nv_key :: "(nat \<times> u32 \<times> u32) option"
  nv_staging :: "nat option"

definition empty_readback :: nv12_readback where
  "empty_readback = \<lparr>nv_key = None, nv_staging = None\<rparr>"

definition readback_staging :: "gpu_surface \<Rightarrow> nv12_readback \<Rightarrow> nv12_readback io" where
  "readback_staging s r =
     (let key = (device_identity s, gs_width s, gs_height s)
      in if nv_key r \<noteq> Some key then
           io_then (create_staging_texture s DXGI_FORMAT_NV12) (\<lambda>t. io_ok \<lparr>nv_key = Some key, nv_staging = Some t\<rparr>)
         else io_ok r)"

definition readback_planes :: "gpu_surface \<Rightarrow> nv12_readback \<Rightarrow> u8 list io" where
  "readback_planes s r =
     io_then (io_lift (ok_or (lit ''NV12 staging surface was not created'') (nv_staging r))) (\<lambda>staging.
     io_then (copy_and_map s staging) (\<lambda>m.
     io_then (perform (UnmapTexture staging)) (\<lambda>_.
     let pitch = unat (fa_pitch m); w = unat (gs_width s); h = unat (gs_height s)
     in io_ok (pitched_rows (fa_memory m) 0 pitch w h @ pitched_rows (fa_memory m) (pitch * h) pitch w (h div 2)))))"

definition nv12_read :: "gpu_surface \<Rightarrow> nv12_readback \<Rightarrow> driver \<Rightarrow> (u8 list, ustring) result \<times> nv12_readback \<times> driver" where
  "nv12_read s r d =
     (if gs_format s \<noteq> DXGI_FORMAT_NV12 then
        (Err (lit ''cannot read format '' @ show_signed (gs_format s) @ lit '' as NV12''), r, d)
      else
        (case readback_staging s r d of
           (Err e, d) \<Rightarrow> (Err e, r, d)
         | (Ok r, d) \<Rightarrow> (case readback_planes s r d of (bytes, d) \<Rightarrow> (bytes, r, d))))"

section \<open>The pool and its clients\<close>

text \<open>
  Histories of a pool: the program acquires, clones and drops handles in any order, with any other
  operation that leaves the strong counts alone in between.  The list holds the handles that the
  program has outside the pool.
\<close>

inductive pool_run :: "gpu_surface_pool \<Rightarrow> driver \<Rightarrow> gpu_surface list \<Rightarrow> bool" where
  pool_start: "pool_run empty_pool (fresh_driver answers) []"
| pool_acquired: "pool_run p d held \<Longrightarrow> acquire dev c w h fmt bind p d = (Ok (Some s), p', d') \<Longrightarrow> pool_run p' d' (s # held)"
| pool_refused: "pool_run p d held \<Longrightarrow> acquire dev c w h fmt bind p d = (r, p', d') \<Longrightarrow> \<nexists>s. r = Ok (Some s) \<Longrightarrow> pool_run p' d' held"
| pool_cloned: "pool_run p d held \<Longrightarrow> s \<in> set held \<Longrightarrow> pool_run p (clone_surface s d) (s # held)"
| pool_dropped: "pool_run p d held \<Longrightarrow> s \<in> set held \<Longrightarrow> pool_run p (drop_surface s d) (remove1 s held)"
| pool_other: "pool_run p d held \<Longrightarrow> same_arcs d d' \<Longrightarrow> pool_run p d' held"

definition counts_agree :: "gpu_surface list \<Rightarrow> driver \<Rightarrow> bool" where
  "counts_agree handles d \<longleftrightarrow>
     (\<forall>a. dv_arcs d a = count_list (map gs_arc handles) a) \<and> (\<forall>s \<in> set handles. gs_arc s < dv_next_arc d)
     \<and> inj_on gs_arc (set handles)"

definition key_covers :: "surface_key option \<Rightarrow> gpu_surface \<Rightarrow> bool" where
  "key_covers key s \<longleftrightarrow> (\<exists>k. key = Some k \<and> gs_device s = sk_device k \<and> gs_width s = sk_width k
     \<and> gs_height s = sk_height k \<and> gs_format s = sk_format k)"

definition pool_ok :: "gpu_surface_pool \<Rightarrow> bool" where
  "pool_ok p \<longleftrightarrow> length (sp_surfaces p) \<le> MAX_IN_FLIGHT_SURFACES \<and> distinct (map gs_arc (sp_surfaces p))
     \<and> (\<forall>s \<in> set (sp_surfaces p). key_covers (sp_key p) s)"

lemma count_list_gt_zero: "0 < count_list xs x \<longleftrightarrow> x \<in> set xs"
  by (metis count_list_0_iff gr0I less_numeral_extra(3))

lemma counts_drop:
  "counts_agree (s # hs) d \<Longrightarrow> counts_agree hs (drop_surface s d)"
  by (auto simp: counts_agree_def drop_surface_def drop_arc_def inj_on_def)

lemma counts_clone:
  "counts_agree hs d \<Longrightarrow> s \<in> set hs \<Longrightarrow> counts_agree (s # hs) (clone_surface s d)"
  by (auto simp: counts_agree_def clone_surface_def clone_arc_def inj_on_def)

lemma counts_perm: "counts_agree hs d \<Longrightarrow> mset hs' = mset hs \<Longrightarrow> counts_agree hs' d"
proof -
  assume a: "counts_agree hs d" and m: "mset hs' = mset hs"
  from m have "set hs' = set hs" by (metis set_mset_mset)
  moreover have "count_list (map gs_arc hs') b = count_list (map gs_arc hs) b" for b
    using m by (metis count_mset mset_map)
  ultimately show ?thesis using a by (simp add: counts_agree_def)
qed

lemma counts_same: "counts_agree hs d \<Longrightarrow> same_arcs d d' \<Longrightarrow> counts_agree hs d'"
  by (auto simp: counts_agree_def same_arcs_def)

lemma counts_drop_all:
  "counts_agree (xs @ hs) d \<Longrightarrow> counts_agree hs (fold drop_surface xs d)"
  by (induction xs arbitrary: d) (auto dest: counts_drop)

lemma rekey_counts:
  assumes "counts_agree (sp_surfaces p @ held) d" "rekey key c p d = (p', d')"
  shows "counts_agree (sp_surfaces p' @ held) d'"
proof (cases "sp_key p \<noteq> Some key")
  case True
  let ?d = "fold drop_surface (sp_surfaces p) d"
  have "counts_agree held ?d" using assms(1) by (rule counts_drop_all)
  moreover have "same_arcs ?d d'"
    using assms(2) True by (auto simp: rekey_def same_arcs_def ask_def issue_def Let_def)
  moreover have "sp_surfaces p' = []" using assms(2) True by (auto simp: rekey_def split_beta Let_def)
  ultimately show ?thesis by (auto intro: counts_same)
qed (use assms in \<open>auto simp: rekey_def\<close>)

lemma rekey_pool: "rekey key c p d = (p', d') \<Longrightarrow> pool_ok p \<Longrightarrow> pool_ok p' \<and> sp_key p' = Some key"
  by (auto simp: rekey_def pool_ok_def split_beta Let_def split: if_splits)

lemma create_surface_cases:
  assumes "create_surface dev c w h fmt d = (r, d')"
  shows "(\<exists>e. r = Err e \<and> same_arcs d d')
    \<or> (\<exists>s. r = Ok s \<and> gs_arc s = dv_next_arc d \<and> gs_device s = dev \<and> gs_width s = w \<and> gs_height s = h \<and> gs_format s = fmt
         \<and> dv_arcs d' = (dv_arcs d)(gs_arc s := 1) \<and> dv_next_arc d' = dv_next_arc d + 1)"
  using assms
  by (auto simp: create_surface_def io_then_def io_lift_def attempt_def ask_def new_arc_def same_arcs_def Let_def
      split: option.splits result.splits prod.splits)

lemma counts_create:
  assumes "counts_agree hs d" "gs_arc s = dv_next_arc d"
    and "dv_arcs d' = (dv_arcs d)(gs_arc s := 1)" "dv_next_arc d' = dv_next_arc d + 1"
  shows "counts_agree (s # hs) d'"
proof -
  have fresh: "gs_arc s \<notin> gs_arc ` set hs" using assms(1,2) by (auto simp: counts_agree_def)
  then have "count_list (map gs_arc hs) (gs_arc s) = 0" by (simp add: count_list_0_iff)
  with assms fresh show ?thesis
    by (fastforce simp: counts_agree_def inj_on_insert)
qed

text \<open>The three outcomes of an acquisition, over the pool the key leaves.\<close>

lemma acquire_cases:
  assumes "acquire dev c w h fmt bind p d = (r, p', d')"
    and "rekey \<lparr>sk_device = dev, sk_width = w, sk_height = h, sk_format = fmt, sk_bind_flags = bind\<rparr> c p d = (q, d1)"
  obtains (idle) s where "find (\<lambda>s. dv_arcs d1 (gs_arc s) = 1) (sp_surfaces q) = Some s"
      "r = Ok (Some s)" "p' = q" "d' = clone_surface s d1"
  | (full) "find (\<lambda>s. dv_arcs d1 (gs_arc s) = 1) (sp_surfaces q) = None" "MAX_IN_FLIGHT_SURFACES \<le> length (sp_surfaces q)"
      "r = Ok None" "p' = q" "d' = d1"
  | (created) s d2 where "length (sp_surfaces q) < MAX_IN_FLIGHT_SURFACES" "create_surface dev c w h fmt d1 = (Ok s, d2)"
      "r = Ok (Some s)" "p' = q\<lparr>sp_surfaces := sp_surfaces q @ [s]\<rparr>" "d' = clone_surface s d2"
  | (failed) e where "length (sp_surfaces q) < MAX_IN_FLIGHT_SURFACES" "create_surface dev c w h fmt d1 = (Err e, d')"
      "r = Err e" "p' = q"
proof (cases "find (\<lambda>s. dv_arcs d1 (gs_arc s) = 1) (sp_surfaces q)")
  case (Some s)
  with assms show ?thesis by (intro idle) (auto simp: acquire_def)
next
  case None
  have eq: "(if MAX_IN_FLIGHT_SURFACES \<le> length (sp_surfaces q) then (Ok None, q, d1)
      else (case create_surface dev c w h fmt d1 of
          (Err e, d) \<Rightarrow> (Err e, q, d)
        | (Ok s, d) \<Rightarrow> (Ok (Some s), q\<lparr>sp_surfaces := sp_surfaces q @ [s]\<rparr>, clone_surface s d))) = (r, p', d')"
    using assms by (simp only: acquire_def Let_def prod.case option.case None)
  show ?thesis
  proof (cases "MAX_IN_FLIGHT_SURFACES \<le> length (sp_surfaces q)")
    case True
    with eq show ?thesis by (intro full [OF None]) auto
  next
    case False
    obtain m d2 where m: "create_surface dev c w h fmt d1 = (m, d2)" by fastforce
    show ?thesis
    proof (cases m)
      case (Ok s)
      with False m eq show ?thesis by (intro created) auto
    next
      case (Err e)
      with False m eq show ?thesis by (intro failed) auto
    qed
  qed
qed

definition pool_state_ok :: "gpu_surface_pool \<Rightarrow> driver \<Rightarrow> gpu_surface list \<Rightarrow> bool" where
  "pool_state_ok p d held \<longleftrightarrow> pool_ok p \<and> counts_agree (sp_surfaces p @ held) d"

lemma acquire_state:
  assumes ok: "pool_state_ok p d held" and run: "acquire dev c w h fmt bind p d = (r, p', d')"
  shows "(case r of Ok (Some s) \<Rightarrow> pool_state_ok p' d' (s # held) \<and> gs_arc s \<notin> gs_arc ` set held \<and> s \<in> set (sp_surfaces p')
             \<and> gs_device s = dev \<and> gs_width s = w \<and> gs_height s = h \<and> gs_format s = fmt
         | Ok None \<Rightarrow> pool_state_ok p' d' held \<and> length (sp_surfaces p') = MAX_IN_FLIGHT_SURFACES \<and> set (sp_surfaces p') \<subseteq> set held
         | Err e \<Rightarrow> pool_state_ok p' d' held \<and> length (sp_surfaces p') < MAX_IN_FLIGHT_SURFACES)"
proof -
  let ?key = "\<lparr>sk_device = dev, sk_width = w, sk_height = h, sk_format = fmt, sk_bind_flags = bind\<rparr>"
  obtain q d1 where q: "rekey ?key c p d = (q, d1)" by fastforce
  have pool: "pool_ok q" "sp_key q = Some ?key" and counts: "counts_agree (sp_surfaces q @ held) d1"
    using ok rekey_pool [OF q] rekey_counts [OF _ q] by (auto simp: pool_state_ok_def)
  have once: "count_list (map gs_arc (sp_surfaces q)) (gs_arc s) = 1" if "s \<in> set (sp_surfaces q)" for s
    using that pool(1) by (metis (mono_tags) count_mset distinct_count_atmost_1 image_eqI list.set_map pool_ok_def)
  from run q show ?thesis
  proof (cases rule: acquire_cases)
    case (idle s)
    then have s: "s \<in> set (sp_surfaces q)" "dv_arcs d1 (gs_arc s) = 1"
      by (auto simp: find_Some_iff in_set_conv_nth)
    with counts once have "count_list (map gs_arc held) (gs_arc s) = 0"
      by (auto simp: counts_agree_def)
    then have "gs_arc s \<notin> gs_arc ` set held" by (simp add: count_list_0_iff)
    moreover have "counts_agree (sp_surfaces q @ s # held) (clone_surface s d1)"
      using counts_perm [OF counts_clone [OF counts, of s], of "sp_surfaces q @ s # held"] s(1) by simp
    ultimately show ?thesis using idle pool s by (auto simp: pool_state_ok_def pool_ok_def key_covers_def)
  next
    case full
    have "s \<in> set held" if s: "s \<in> set (sp_surfaces q)" for s
    proof -
      from full s have "dv_arcs d1 (gs_arc s) \<noteq> 1" by (auto simp: find_None_iff)
      with counts once [OF s] have "count_list (map gs_arc held) (gs_arc s) \<noteq> 0" by (auto simp: counts_agree_def)
      then obtain t where "t \<in> set held" "gs_arc t = gs_arc s" by (auto simp: count_list_0_iff)
      with counts s show ?thesis by (auto simp: counts_agree_def inj_on_def)
    qed
    with full pool counts show ?thesis by (auto simp: pool_state_ok_def pool_ok_def)
  next
    case (created s d2)
    from create_surface_cases [OF created(2)] have s: "gs_arc s = dv_next_arc d1" "gs_device s = dev" "gs_width s = w"
      "gs_height s = h" "gs_format s = fmt" and d2: "dv_arcs d2 = (dv_arcs d1)(gs_arc s := 1)" "dv_next_arc d2 = dv_next_arc d1 + 1"
      by auto
    have fresh: "gs_arc s \<notin> gs_arc ` (set (sp_surfaces q) \<union> set held)" using counts s(1) by (auto simp: counts_agree_def)
    have "counts_agree (s # sp_surfaces q @ held) d2" using counts_create [OF counts s(1) d2] .
    then have "counts_agree (s # s # sp_surfaces q @ held) (clone_surface s d2)" by (rule counts_clone) simp
    then have "counts_agree ((sp_surfaces q @ [s]) @ s # held) (clone_surface s d2)" by (rule counts_perm) simp
    with created s pool fresh show ?thesis by (auto simp: pool_state_ok_def pool_ok_def key_covers_def)
  next
    case (failed e)
    then have "same_arcs d1 d'" using create_surface_cases [OF failed(2)] by auto
    with failed pool counts show ?thesis by (auto simp: pool_state_ok_def intro: counts_same)
  qed
qed

lemma pool_run_ok: "pool_run p d held \<Longrightarrow> pool_state_ok p d held"
proof (induction rule: pool_run.induct)
  case (pool_start answers)
  then show ?case
    by (simp add: pool_state_ok_def pool_ok_def counts_agree_def empty_pool_def fresh_driver_def)
next
  case (pool_acquired p d held dev c w h fmt bind s p' d')
  then show ?case using acquire_state by fastforce
next
  case (pool_refused p d held dev c w h fmt bind r p' d')
  then show ?case using acquire_state [of p d held dev c w h fmt bind r p' d']
    by (auto split: result.splits option.splits)
next
  case (pool_cloned p d held s)
  then have "counts_agree (s # sp_surfaces p @ held) (clone_surface s d)"
    by (auto simp: pool_state_ok_def intro: counts_clone)
  then have "counts_agree (sp_surfaces p @ s # held) (clone_surface s d)" by (rule counts_perm) simp
  with pool_cloned show ?case by (simp add: pool_state_ok_def)
next
  case (pool_dropped p d held s)
  have "mset (s # sp_surfaces p @ remove1 s held) = mset (sp_surfaces p @ held)"
    using pool_dropped.hyps(2) by simp
  moreover have "counts_agree (sp_surfaces p @ held) d" using pool_dropped.IH by (simp add: pool_state_ok_def)
  ultimately have "counts_agree (s # sp_surfaces p @ remove1 s held) d" by (metis counts_perm)
  with pool_dropped show ?case by (auto simp: pool_state_ok_def dest: counts_drop)
next
  case (pool_other p d held d')
  then show ?case by (auto simp: pool_state_ok_def intro: counts_same)
qed

text \<open>C19: In every history of a surface pool, an acquisition that succeeds returns a surface of the requested device,
  size and format that nobody outside the pool holds; it is refused only when the pool is full and all four of its surfaces are
  held; and the pool never keeps more than four.\<close>
theorem surface_pool_exclusive:
  assumes "pool_run p d held" "acquire dev c w h fmt bind p d = (r, p', d')"
  shows "length (sp_surfaces p') \<le> 4
    \<and> (case r of Ok (Some s) \<Rightarrow> gs_arc s \<notin> gs_arc ` set held \<and> s \<in> set (sp_surfaces p')
             \<and> gs_device s = dev \<and> gs_width s = w \<and> gs_height s = h \<and> gs_format s = fmt
         | Ok None \<Rightarrow> length (sp_surfaces p') = 4 \<and> set (sp_surfaces p') \<subseteq> set held
         | Err e \<Rightarrow> length (sp_surfaces p') < 4)"
  using acquire_state [OF pool_run_ok [OF assms(1)] assms(2)]
  by (auto simp: pool_state_ok_def pool_ok_def MAX_IN_FLIGHT_SURFACES_def split: result.splits option.splits)

lemmas acquire_evaluation = acquire_def rekey_def empty_pool_def fresh_driver_def ask_def create_surface_def quiet_answer_def
  io_then_def attempt_def io_lift_def out_param_def new_arc_def clone_surface_def clone_arc_def MAX_IN_FLIGHT_SURFACES_def
  issue_def Let_def

definition quiet_driver :: driver where
  "quiet_driver = fresh_driver (\<lambda>_. quiet_answer)"

theorem surface_pool_exclusive_witness:
  "\<exists>s t p d p' d'. acquire 7 8 1920 1080 87 0 empty_pool quiet_driver = (Ok (Some s), p, d)
     \<and> acquire 7 8 1920 1080 87 0 p d = (Ok (Some t), p', d') \<and> gs_arc t \<notin> gs_arc ` set [s]"
proof -
  obtain s p d where one: "acquire 7 8 1920 1080 87 0 empty_pool quiet_driver = (Ok (Some s), p, d)"
    by (simp add: acquire_evaluation quiet_driver_def)
  have run: "pool_run p d [s]"
    using pool_acquired [OF pool_start] one unfolding quiet_driver_def by blast
  obtain t p' d' where two: "acquire 7 8 1920 1080 87 0 p d = (Ok (Some t), p', d')"
    using one by (auto simp: acquire_evaluation quiet_driver_def)
  show ?thesis
    using one two surface_pool_exclusive [OF run two] by auto
qed

section \<open>Read-back\<close>

text \<open>The first bytes of each row, at their pitch, are the rows of the texture.\<close>

lemma pitched_rows_exact:
  assumes "length tex = rows" "\<forall>row < rows. length (tex ! row) = n"
    and "\<forall>row < rows. \<forall>i < n. mem (start + row * pitch + i) = tex ! row ! i"
  shows "pitched_rows mem start pitch n rows = concat tex"
proof -
  have "map (\<lambda>i. mem (start + row * pitch + i)) [0..<n] = tex ! row" if "row < rows" for row
    using that assms by (intro nth_equalityI) auto
  then have "map (\<lambda>row. map (\<lambda>i. mem (start + row * pitch + i)) [0..<n]) [0..<rows] = tex"
    using assms(1) by (intro nth_equalityI) auto
  then show ?thesis by (simp add: pitched_rows_def)
qed

lemma length_pitched_rows [simp]: "length (pitched_rows mem start pitch n rows) = n * rows"
  by (simp add: pitched_rows_def length_concat o_def sum_list_triv)

text \<open>
  What Direct3D documents for a mapped staging copy: row \<open>r\<close> of the texture starts \<open>r\<close> pitches into
  the memory, and the interleaved chroma rows of an NV12 texture follow its luma rows.
\<close>

definition mapped_copy :: "driver_answer \<Rightarrow> nat \<Rightarrow> u8 list list \<Rightarrow> bool" where
  "mapped_copy a n tex \<longleftrightarrow>
     (\<forall>row < length tex. length (tex ! row) = n \<and> (\<forall>i < n. fa_memory a (row * unat (fa_pitch a) + i) = tex ! row ! i))"

lemma pitched_rows_mapped:
  assumes "mapped_copy a n tex" "start = first * unat (fa_pitch a)" "first + rows \<le> length tex"
  shows "pitched_rows (fa_memory a) start (unat (fa_pitch a)) n rows = concat (take rows (drop first tex))"
proof (rule pitched_rows_exact)
  show "length (take rows (drop first tex)) = rows" using assms(3) by simp
  show "\<forall>row < rows. length (take rows (drop first tex) ! row) = n"
    using assms by (simp add: mapped_copy_def)
  show "\<forall>row < rows. \<forall>i < n. fa_memory a (start + row * unat (fa_pitch a) + i) = take rows (drop first tex) ! row ! i"
  proof (intro allI impI)
    fix row i assume "row < rows" "i < n"
    with assms have "fa_memory a ((first + row) * unat (fa_pitch a) + i) = tex ! (first + row) ! i"
      by (simp add: mapped_copy_def)
    with \<open>row < rows\<close> assms(2,3) show "fa_memory a (start + row * unat (fa_pitch a) + i) = take rows (drop first tex) ! row ! i"
      by (simp add: algebra_simps)
  qed
qed

lemma io_then_fst: "m d = (Ok x, d1) \<Longrightarrow> io_then m k d = k x d1"
  by (simp add: io_then_def)

lemma nv12_read_ok:
  assumes "nv12_read s r d = (Ok bytes, r', d')"
  shows "\<exists>a. bytes = pitched_rows (fa_memory a) 0 (unat (fa_pitch a)) (unat (gs_width s)) (unat (gs_height s))
      @ pitched_rows (fa_memory a) (unat (fa_pitch a) * unat (gs_height s)) (unat (fa_pitch a)) (unat (gs_width s)) (unat (gs_height s) div 2)
    \<and> a = dv_answers d (dv_calls d' - 1) \<and> gs_format s = DXGI_FORMAT_NV12
    \<and> nv_key r' = Some (device_identity s, gs_width s, gs_height s)"
  using assms
  by (auto simp: nv12_read_def readback_planes_def readback_staging_def create_staging_texture_def copy_and_map_def io_then_def io_lift_def io_ok_def
      attempt_def ask_def perform_def issue_def Let_def split: if_splits option.splits prod.splits result.splits)

text \<open>Reading an NV12 surface back gives its luma rows and then its chroma rows, tightly packed, whatever the row
  pitch of the mapping: one and a half bytes for each pixel and no padding.\<close>
theorem nv12_readback_exact:
  assumes "nv12_read s r d = (Ok bytes, r', d')"
    and "mapped_copy (dv_answers d (dv_calls d' - 1)) (unat (gs_width s)) (luma @ chroma)"
    and "length luma = unat (gs_height s)" "length chroma = unat (gs_height s) div 2"
  shows "bytes = concat luma @ concat chroma
    \<and> length bytes = unat (gs_width s) * (unat (gs_height s) + unat (gs_height s) div 2)"
proof -
  let ?a = "dv_answers d (dv_calls d' - 1)"
  from nv12_read_ok [OF assms(1)]
  have bytes: "bytes = pitched_rows (fa_memory ?a) 0 (unat (fa_pitch ?a)) (unat (gs_width s)) (unat (gs_height s))
      @ pitched_rows (fa_memory ?a) (unat (fa_pitch ?a) * unat (gs_height s)) (unat (fa_pitch ?a)) (unat (gs_width s)) (unat (gs_height s) div 2)"
    by blast
  have "pitched_rows (fa_memory ?a) 0 (unat (fa_pitch ?a)) (unat (gs_width s)) (unat (gs_height s)) = concat luma"
    using pitched_rows_mapped [OF assms(2), of 0 0 "unat (gs_height s)"] assms(3) by simp
  moreover have "pitched_rows (fa_memory ?a) (unat (fa_pitch ?a) * unat (gs_height s)) (unat (fa_pitch ?a)) (unat (gs_width s))
      (unat (gs_height s) div 2) = concat chroma"
    using pitched_rows_mapped [OF assms(2), of _ "unat (gs_height s)" "unat (gs_height s) div 2"] assms(3,4)
    by (simp add: mult.commute)
  ultimately show ?thesis
    using bytes length_pitched_rows [of "fa_memory ?a" 0 "unat (fa_pitch ?a)" "unat (gs_width s)" "unat (gs_height s)"]
      length_pitched_rows [of "fa_memory ?a" "unat (fa_pitch ?a) * unat (gs_height s)" "unat (fa_pitch ?a)" "unat (gs_width s)"
        "unat (gs_height s) div 2"]
    by (simp only: length_append distrib_left)
qed

definition padded_answer :: driver_answer where
  "padded_answer = quiet_answer\<lparr>fa_pitch := 4, fa_memory := (\<lambda>i. [10, 11, 255, 255, 12, 13, 255, 255, 14, 15, 255, 255] ! i)\<rparr>"

definition tiny_surface :: gpu_surface where
  "tiny_surface = \<lparr>gs_arc = 0, gs_device = 7, gs_context = 8, gs_texture = 1, gs_width = 2, gs_height = 2, gs_format = DXGI_FORMAT_NV12\<rparr>"

lemma tiny_read:
  "\<exists>r' d'. nv12_read tiny_surface empty_readback (fresh_driver (\<lambda>_. padded_answer)) = (Ok [10, 11, 12, 13, 14, 15], r', d')
     \<and> dv_answers (fresh_driver (\<lambda>_. padded_answer)) (dv_calls d' - 1) = padded_answer"
  by (simp add: nv12_read_def readback_planes_def readback_staging_def create_staging_texture_def copy_and_map_def io_then_def io_lift_def io_ok_def
      attempt_def ask_def perform_def issue_def fresh_driver_def tiny_surface_def empty_readback_def padded_answer_def
      quiet_answer_def out_param_def device_identity_def pitched_rows_def upt_rec Let_def)

theorem nv12_readback_exact_witness:
  "\<exists>r' d'. nv12_read tiny_surface empty_readback (fresh_driver (\<lambda>_. padded_answer))
     = (Ok (concat [[10, 11], [12, 13]] @ concat [[14, 15]]), r', d')"
proof -
  obtain r' d' where read: "nv12_read tiny_surface empty_readback (fresh_driver (\<lambda>_. padded_answer)) = (Ok [10, 11, 12, 13, 14, 15], r', d')"
    and last_call: "dv_answers (fresh_driver (\<lambda>_. padded_answer)) (dv_calls d' - 1) = padded_answer"
    using tiny_read by blast
  have "mapped_copy padded_answer 2 ([[10, 11], [12, 13]] @ [[14, 15]])"
    by (simp add: mapped_copy_def padded_answer_def quiet_answer_def less_Suc_eq less_2_cases_iff imp_disjL all_conj_distrib)
  then show ?thesis
    using nv12_readback_exact [OF read, of "[[10, 11], [12, 13]]" "[[14, 15]]"] read last_call
    by (simp add: tiny_surface_def)
qed

lemma read_bgra_exact:
  assumes "read_bgra s d = (Ok bytes, d')"
    and "mapped_copy (dv_answers d (dv_calls d + 1)) (unat (gs_width s) * 4) tex" "length tex = unat (gs_height s)"
  shows "bytes = concat tex \<and> gs_format s = DXGI_FORMAT_B8G8R8A8_UNORM"
proof -
  have "bytes = pitched_rows (fa_memory (dv_answers d (dv_calls d + 1))) 0 (unat (fa_pitch (dv_answers d (dv_calls d + 1))))
      (unat (gs_width s) * 4) (unat (gs_height s)) \<and> gs_format s = DXGI_FORMAT_B8G8R8A8_UNORM"
    using assms(1)
    by (auto simp: read_bgra_def create_staging_texture_def copy_and_map_def io_then_def io_lift_def io_ok_def io_fail_def
        attempt_def ask_def perform_def issue_def Let_def split: if_splits option.splits prod.splits result.splits)
  then show ?thesis
    using pitched_rows_mapped [OF assms(2), of 0 0 "unat (gs_height s)"] assms(3) by simp
qed

end
