(* ===== verification/Media_Foundation.thy ===== *)
theory Media_Foundation
  imports Driver Surfaces "HOL-Library.Sublist"
begin

text \<open>
  \<open>crates/host-windows/src/mf_encoder.rs\<close> and the parts of \<open>hardware.rs\<close> it rests on: the one-time
  initialisation of COM and Media Foundation, the description of the media types, the construction
  of a hardware encoder, and the event loop that feeds it one frame and waits for an encoded one.
  The loop reads the clock on every turn and has no other bound, so it is a partial function; that
  it returns is a theorem about clocks that move on.
\<close>

section \<open>Printing and text\<close>

definition hex_digit :: "nat \<Rightarrow> nat" where
  "hex_digit n = (if n < 10 then 48 + n else 87 + n)"

primrec hex_digits :: "nat \<Rightarrow> nat \<Rightarrow> ustring" where
  "hex_digits 0 n = []"
| "hex_digits (Suc k) n = hex_digits k (n div 16) @ [hex_digit (n mod 16)]"

fun utf16_lossy :: "u16 list \<Rightarrow> ustring" where
  "utf16_lossy [] = []"
| "utf16_lossy (a # us) =
     (if a < 0xD800 \<or> 0xDFFF < a then unat a # utf16_lossy us
      else if 0xDBFF < a then 0xFFFD # utf16_lossy us
      else (case us of
          b # vs \<Rightarrow> if 0xDC00 \<le> b \<and> b \<le> 0xDFFF
            then (0x10000 + (unat a - 0xD800) * 0x400 + (unat b - 0xDC00)) # utf16_lossy vs
            else 0xFFFD # utf16_lossy us
        | [] \<Rightarrow> [0xFFFD]))"

section \<open>Initialisation\<close>

definition initialize_com :: "bool io" where
  "initialize_com d =
     (case dv_com d of
        Some r \<Rightarrow> (r, d)
      | None \<Rightarrow>
          (let (a, d) = ask d;
               r = (if fa_error a = None then Ok True
                    else if fa_code a = 0x80010106 then Ok False
                    else Err (lit ''COM initialization failed: 0x'' @ hex_digits 8 (unat (fa_code a))))
           in (r, d\<lparr>dv_com := Some r\<rparr>)))"

definition start_media_foundation :: "unit io" where
  "start_media_foundation d =
     (case dv_startup d of
        Some r \<Rightarrow> (r, d)
      | None \<Rightarrow>
          (let (a, d) = ask d;
               r = (case fa_error a of None \<Rightarrow> Ok () | Some e \<Rightarrow> Err (lit ''Media Foundation startup failed: '' @ e))
           in (r, d\<lparr>dv_startup := Some r\<rparr>)))"

definition initialize_media_foundation :: "unit io" where
  "initialize_media_foundation = io_then initialize_com (\<lambda>_. start_media_foundation)"

text \<open>Calls whose results the source throws away, and an attribute read that may fail.\<close>

primrec ignore_calls :: "nat \<Rightarrow> unit io" where
  "ignore_calls 0 d = (Ok (), d)"
| "ignore_calls (Suc n) d = ignore_calls n (snd (ask d))"

definition attribute_string :: "ustring option io" where
  "attribute_string d =
     (let (a, d) = ask d
      in if fa_error a \<noteq> None then (Ok None, d)
         else
           (let (b, d) = ask d; n = unat (fa_size a)
            in if fa_error b \<noteq> None then (Ok None, d)
               else (Ok (Some (utf16_lossy (take n (fa_units b @ replicate (n + 1 - length (fa_units b)) 0)))), d)))"

definition read_u32_or_zero :: "u32 io" where
  "read_u32_or_zero d = (let (a, d) = ask d in (Ok (if fa_error a = None then ucast (fa_number a) else 0), d))"

definition set_attributes :: "nat \<Rightarrow> unit io" where
  "set_attributes n d = (let (a, d) = ask d in if fa_error a = None then ignore_calls n d else (Ok (), d))"

section \<open>Media types\<close>

definition set_video_type :: "video_codec option \<Rightarrow> u32 \<Rightarrow> u32 \<Rightarrow> u32 \<Rightarrow> u32 option \<Rightarrow> media_type io" where
  "set_video_type subtype w h rate bits =
     io_then (attempt id) (\<lambda>_.
     io_then (attempt id) (\<lambda>_.
     io_then (attempt id) (\<lambda>_.
     io_then (attempt id) (\<lambda>_.
     io_then (attempt id) (\<lambda>_.
     io_then (attempt id) (\<lambda>_.
     io_then (case bits of None \<Rightarrow> io_ok () | Some _ \<Rightarrow> io_then (attempt id) (\<lambda>_. io_ok ())) (\<lambda>_.
     io_ok \<lparr>mt_subtype = subtype, mt_frame_size = push_bit 32 (ucast w) OR ucast h, mt_frame_rate = push_bit 32 (ucast rate) OR 1,
        mt_aspect = push_bit 32 1 OR 1, mt_bitrate = bits, mt_profile = None\<rparr>)))))))"

definition codec_profile_of :: "video_codec \<Rightarrow> codec_profile" where
  "codec_profile_of codec = (case codec of H264 \<Rightarrow> ConstrainedBaseProfile | Hevc \<Rightarrow> Main420Profile | Av1 \<Rightarrow> NoProfile)"

definition io_map_error :: "(ustring \<Rightarrow> ustring) \<Rightarrow> 'a io \<Rightarrow> 'a io" where
  "io_map_error f m d = (case m d of (r, d) \<Rightarrow> (map_error f r, d))"

definition configure_probe :: "video_codec \<Rightarrow> u32 \<Rightarrow> u32 \<Rightarrow> u32 \<Rightarrow> u32 \<Rightarrow> unit io" where
  "configure_probe codec w h rate bits =
     io_then (set_attributes 1) (\<lambda>_.
     io_then (attempt (prefixed ''create output media type: '')) (\<lambda>_.
     io_then (io_map_error (prefixed ''describe output media type: '') (set_video_type (Some codec) w h rate (Some bits))) (\<lambda>output.
     io_then (attempt (prefixed ''set codec profile: '')) (\<lambda>_.
     let output = output\<lparr>mt_profile := Some (codec_profile_of codec)\<rparr> in
     io_then (attempt (prefixed ''create input media type: '')) (\<lambda>_.
     io_then (io_map_error (prefixed ''describe NV12 input media type: '') (set_video_type None w h rate None)) (\<lambda>input.
     io_then (attempt (prefixed ''set encoded output type: '')) (\<lambda>_.
     io_then (perform (OutputType output)) (\<lambda>_.
     io_then (attempt (prefixed ''test NV12 input type: '')) (\<lambda>_.
     io_then (attempt (prefixed ''set NV12 input type: '')) (\<lambda>_.
     perform (InputType input)))))))))))"

section \<open>The encoder\<close>

type_synonym i64 = "64 word"

definition i64_sat :: "int \<Rightarrow> i64" where
  "i64_sat z = word_of_int (max (- (2 ^ 63)) (min z (2 ^ 63 - 1)))"

definition u32_sat_mul :: "u32 \<Rightarrow> u32 \<Rightarrow> u32" where
  "u32_sat_mul a b = (if uint a * uint b < 2 ^ 32 then a * b else - 1)"

record media_foundation_encoder =
  me_transform :: nat
  me_events :: nat
  me_output_provides_samples :: bool
  me_output_buffer_size :: u32
  me_frame_duration :: i64
  me_next_timestamp :: i64
  me_d3d_manager :: "nat option"
  me_encoder_name :: ustring
  me_codec :: video_codec

record hardware_encoded_frame =
  hf_data :: "u8 list"
  hf_keyframe :: bool

text \<open>\<open>MFTEnumEx\<close> returns an array of activation objects, some of whose slots may be null.\<close>

definition activation_slot :: "driver_answer \<Rightarrow> nat \<Rightarrow> nat option" where
  "activation_slot a i = (if fa_memory a i = 0 then None else Some i)"

definition first_activation :: "video_codec \<Rightarrow> nat io" where
  "first_activation codec =
     io_then (attempt (\<lambda>e. lit ''enumerate '' @ codec_label codec @ lit '' hardware encoders: '' @ e)) (\<lambda>a.
     if fa_null a \<or> fa_size a = 0 then io_fail (lit ''no '' @ codec_label codec @ lit '' hardware encoder was returned by Windows'')
     else io_lift (ok_or (lit ''hardware encoder activation was null'') (activation_slot a 0)))"

definition attach_d3d_manager :: "ustring \<Rightarrow> nat option \<Rightarrow> nat option io" where
  "attach_d3d_manager name device =
     (case device of
        None \<Rightarrow> io_ok None
      | Some _ \<Rightarrow>
          io_then (attempt (\<lambda>e. lit ''query '' @ name @ lit '' D3D11 support: '' @ e)) (\<lambda>_.
          io_then read_u32_or_zero (\<lambda>aware.
          if aware = 0 then io_fail (name @ lit '' does not advertise D3D11 surface input'')
          else
          io_then (attempt (\<lambda>e. lit ''create DXGI device manager for '' @ name @ lit '': '' @ e)) (\<lambda>a.
          io_then (io_lift (ok_or (lit ''Media Foundation returned a null DXGI device manager'') (out_param a))) (\<lambda>manager.
          io_then (attempt (\<lambda>e. lit ''attach capture GPU to '' @ name @ lit '': '' @ e)) (\<lambda>_.
          io_then (attempt (\<lambda>e. lit ''enable D3D11 input on '' @ name @ lit '': '' @ e)) (\<lambda>_.
          io_then (perform (TransformMessage (SetD3dManager manager))) (\<lambda>_.
          io_ok (Some manager)))))))))"

definition mf_new_internal :: "video_codec \<Rightarrow> u32 \<Rightarrow> u32 \<Rightarrow> u32 \<Rightarrow> u32 \<Rightarrow> nat option \<Rightarrow> media_foundation_encoder io" where
  "mf_new_internal codec w h rate bits device =
     io_then initialize_media_foundation (\<lambda>_.
     io_then (first_activation codec) (\<lambda>_.
     io_then attribute_string (\<lambda>found.
     let name = unwrap_or found (codec_label codec @ lit '' hardware encoder'') in
     io_then (attempt (\<lambda>e. lit ''activate '' @ name @ lit '': '' @ e)) (\<lambda>transform.
     io_then (set_attributes 2) (\<lambda>_.
     io_then (attach_d3d_manager name device) (\<lambda>manager.
     io_then (configure_probe codec w h rate bits) (\<lambda>_.
     io_then (attempt (\<lambda>e. lit ''query '' @ name @ lit '' output allocation: '' @ e)) (\<lambda>info.
     io_then (attempt (\<lambda>e. name @ lit '' is not an asynchronous hardware MFT: '' @ e)) (\<lambda>events.
     io_then (attempt (\<lambda>e. lit ''begin '' @ name @ lit '' streaming: '' @ e)) (\<lambda>_.
     io_then (perform (TransformMessage BeginStreaming)) (\<lambda>_.
     io_then (attempt (\<lambda>e. lit ''start '' @ name @ lit '' stream: '' @ e)) (\<lambda>_.
     io_then (perform (TransformMessage StartOfStream)) (\<lambda>_.
     io_ok \<lparr>me_transform = fa_handle transform, me_events = fa_handle events,
        me_output_provides_samples = (ucast (fa_number info) AND (0x100 OR 0x200 :: u32) \<noteq> 0),
        me_output_buffer_size = max (fa_size info) (u32_sat_mul w h),
        me_frame_duration = word_of_int (10000000 div uint (max rate 1)), me_next_timestamp = 0,
        me_d3d_manager = manager, me_encoder_name = name, me_codec = codec\<rparr>)))))))))))))"

definition mf_new :: "video_codec \<Rightarrow> u32 \<Rightarrow> u32 \<Rightarrow> u32 \<Rightarrow> u32 \<Rightarrow> media_foundation_encoder io" where
  "mf_new codec w h rate bits = mf_new_internal codec w h rate bits None"

definition mf_new_with_d3d11 :: "video_codec \<Rightarrow> u32 \<Rightarrow> u32 \<Rightarrow> u32 \<Rightarrow> u32 \<Rightarrow> nat \<Rightarrow> media_foundation_encoder io" where
  "mf_new_with_d3d11 codec w h rate bits device = mf_new_internal codec w h rate bits (Some device)"

section \<open>Encoding a frame\<close>

definition supply_sample :: "media_foundation_encoder \<Rightarrow> nat option io" where
  "supply_sample e =
     (if me_output_provides_samples e then io_ok None
      else
        io_then (attempt (prefixed ''create output sample: '')) (\<lambda>sample.
        io_then (attempt (prefixed ''allocate encoded output buffer: '')) (\<lambda>_.
        io_then (attempt (prefixed ''attach encoded output buffer: '')) (\<lambda>_.
        io_ok (Some (fa_handle sample))))))"

text \<open>
  \<open>ProcessOutput\<close> leaves the sample the caller supplied in place or puts its own there; a call
  without a supplied sample may therefore come back with none.
\<close>

definition take_output :: "media_foundation_encoder \<Rightarrow> hardware_encoded_frame io" where
  "take_output e =
     (let named = (\<lambda>before after err. lit before @ me_encoder_name e @ lit after @ err) in
     io_then (supply_sample e) (\<lambda>supplied.
     io_then (attempt (named ''retrieve '' '' output: '')) (\<lambda>a.
     io_then (io_lift (ok_or (me_encoder_name e @ lit '' returned an output event without a sample'')
         (case supplied of Some s \<Rightarrow> Some s | None \<Rightarrow> out_param a))) (\<lambda>_.
     io_then read_u32_or_zero (\<lambda>clean_point.
     io_then (attempt (named ''coalesce '' '' output: '')) (\<lambda>_.
     io_then (attempt (named ''read '' '' output length: '')) (\<lambda>b.
     io_then (attempt (named ''lock '' '' output: '')) (\<lambda>source.
     let data = map (fa_memory source) [0..<unat (fa_size b)] in
     io_then (attempt (named ''unlock '' '' output: '')) (\<lambda>_.
     if data = [] then io_fail (me_encoder_name e @ lit '' produced an empty encoded sample'')
     else io_ok \<lparr>hf_data = data, hf_keyframe = clean_point \<noteq> 0\<rparr>)))))))))"

datatype poll_outcome = PollDone "(hardware_encoded_frame, ustring) result" | PollAgain "sample_source option"

definition MF_E_NO_EVENTS_AVAILABLE :: u32 where "MF_E_NO_EVENTS_AVAILABLE = 0xC00D3E80"
definition METransformNeedInput :: u32 where "METransformNeedInput = 601"
definition METransformHaveOutput :: u32 where "METransformHaveOutput = 602"
definition EVENT_DEADLINE :: nat where "EVENT_DEADLINE = 250000000"

definition submit_input :: "media_foundation_encoder \<Rightarrow> i64 \<Rightarrow> sample_source \<Rightarrow> unit io" where
  "submit_input e timestamp sample =
     io_then (attempt (\<lambda>err. lit ''submit NV12 frame to '' @ me_encoder_name e @ lit '': '' @ err)) (\<lambda>_.
     perform (TransformInput sample timestamp))"

definition handle_event :: "media_foundation_encoder \<Rightarrow> i64 \<Rightarrow> sample_source option \<Rightarrow> poll_outcome io" where
  "handle_event e timestamp input =
     io_then (attempt (prefixed ''read encoder event type: '')) (\<lambda>ty.
     io_then (attempt (prefixed ''read encoder event status: '')) (\<lambda>st.
     if fa_code st <s 0 then
       io_fail (me_encoder_name e @ lit '' reported event failure 0x'' @ hex_digits 8 (unat (fa_code st)))
     else if fa_size ty = METransformNeedInput then
       (case input of
          Some sample \<Rightarrow> io_then (submit_input e timestamp sample) (\<lambda>_. io_ok (PollAgain None))
        | None \<Rightarrow> io_ok (PollAgain None))
     else if fa_size ty = METransformHaveOutput then
       io_then (take_output e) (\<lambda>f. io_ok (PollDone (Ok f)))
     else io_ok (PollAgain input)))"

text \<open>One turn of the loop: the clock, one poll for an event, and what the event asks for.\<close>

definition encode_poll :: "media_foundation_encoder \<Rightarrow> i64 \<Rightarrow> nat \<Rightarrow> sample_source option \<Rightarrow> driver \<Rightarrow> poll_outcome \<times> driver" where
  "encode_poll e timestamp deadline input d =
     (let (now, d) = ask d
      in if deadline \<le> fa_clock now then
           (PollDone (Err (me_encoder_name e @ lit '' timed out waiting for an asynchronous MFT event'')), d)
         else
           (let (event, d) = ask d
            in case fa_error event of
                 None \<Rightarrow>
                   (case handle_event e timestamp input d of
                      (Ok p, d) \<Rightarrow> (p, d)
                    | (Err err, d) \<Rightarrow> (PollDone (Err err), d))
               | Some err \<Rightarrow>
                   if fa_code event = MF_E_NO_EVENTS_AVAILABLE then (PollAgain input, d)
                   else (PollDone (Err (lit ''poll '' @ me_encoder_name e @ lit '' events: '' @ err)), d)))"

partial_function (option) encode_loop ::
    "media_foundation_encoder \<Rightarrow> i64 \<Rightarrow> nat \<Rightarrow> sample_source option \<Rightarrow> driver
      \<Rightarrow> ((hardware_encoded_frame, ustring) result \<times> driver) option" where
  "encode_loop e timestamp deadline input d =
     (case encode_poll e timestamp deadline input d of
        (p, d') \<Rightarrow> (case p of PollDone r \<Rightarrow> Some (r, d') | PollAgain input' \<Rightarrow> encode_loop e timestamp deadline input' d'))"

type_synonym 'e encoded = "((hardware_encoded_frame, ustring) result \<times> 'e \<times> driver) option"

definition stamp_sample :: "unit io" where
  "stamp_sample =
     io_then (attempt (prefixed ''timestamp input sample: '')) (\<lambda>_.
     io_then (attempt (prefixed ''set input sample duration: '')) (\<lambda>_. io_ok ()))"

definition mf_encode_sample :: "sample_source \<Rightarrow> media_foundation_encoder \<Rightarrow> driver \<Rightarrow> media_foundation_encoder encoded" where
  "mf_encode_sample sample e d =
     (let timestamp = me_next_timestamp e;
          e = e\<lparr>me_next_timestamp := i64_sat (sint timestamp + sint (me_frame_duration e))\<rparr>
      in case stamp_sample d of
           (Err err, d) \<Rightarrow> Some (Err err, e, d)
         | (Ok _, d) \<Rightarrow>
             (let (now, d) = ask d
              in map_option (\<lambda>(r, d). (r, e, d)) (encode_loop e timestamp (fa_clock now + EVENT_DEADLINE) (Some sample) d)))"

definition nv12_sample :: "unit io" where
  "nv12_sample =
     io_then (attempt (prefixed ''create input sample: '')) (\<lambda>_.
     io_then (attempt (prefixed ''allocate NV12 input buffer: '')) (\<lambda>_.
     io_then (attempt (prefixed ''lock NV12 input buffer: '')) (\<lambda>_.
     io_then (attempt (prefixed ''unlock NV12 input buffer: '')) (\<lambda>_.
     io_then (attempt (prefixed ''set NV12 input length: '')) (\<lambda>_.
     io_then (attempt (prefixed ''attach NV12 input buffer: '')) (\<lambda>_. io_ok ()))))))"

definition mf_encode_nv12 :: "u8 list \<Rightarrow> media_foundation_encoder \<Rightarrow> driver \<Rightarrow> media_foundation_encoder encoded" where
  "mf_encode_nv12 nv12 e d =
     (case nv12_sample d of
        (Err err, d) \<Rightarrow> Some (Err err, e, d)
      | (Ok _, d) \<Rightarrow> mf_encode_sample (SampleBytes nv12) e d)"

definition surface_sample :: "unit io" where
  "surface_sample =
     io_then (attempt (prefixed ''create GPU input sample: '')) (\<lambda>_.
     io_then (attempt (prefixed ''wrap NV12 texture as a Media Foundation buffer: '')) (\<lambda>_.
     io_then (attempt (prefixed ''attach NV12 texture to encoder sample: '')) (\<lambda>_. io_ok ())))"

definition mf_encode_nv12_surface :: "gpu_surface \<Rightarrow> media_foundation_encoder \<Rightarrow> driver \<Rightarrow> media_foundation_encoder encoded" where
  "mf_encode_nv12_surface s e d =
     (if me_d3d_manager e = None then
        Some (Err (lit ''hardware encoder was not configured for D3D11 surface input''), e, d)
      else
        (case surface_sample d of
           (Err err, d) \<Rightarrow> Some (Err err, e, d)
         | (Ok _, d) \<Rightarrow> mf_encode_sample (SampleTexture (gs_texture s)) e d))"

definition probe_frame :: "nat \<Rightarrow> nat \<Rightarrow> u8 list" where
  "probe_frame w h = (let nv12 = replicate (w * h * 3 div 2) 128 in replicate (w * h) 16 @ drop (w * h) nv12)"

definition functional_probe :: "video_codec \<Rightarrow> driver \<Rightarrow> ((ustring \<times> nat \<times> bool, ustring) result \<times> driver) option" where
  "functional_probe codec d =
     (case mf_new codec 1280 720 60 5000000 d of
        (Err err, d) \<Rightarrow> Some (Err err, d)
      | (Ok e, d) \<Rightarrow>
          map_option (\<lambda>(r, _, d). (map_ok (\<lambda>f. (me_encoder_name e, length (hf_data f), hf_keyframe f)) r, d))
            (mf_encode_nv12 (probe_frame 1280 720) e d))"

section \<open>Frames\<close>

lemma io_map_error_keeps [preserves_intro]:
  "preserves f m \<Longrightarrow> preserves f (io_map_error g m)" "advances m \<Longrightarrow> advances (io_map_error g m)"
  by (simp_all add: preserves_def advances_def io_map_error_def split_beta)

lemma read_keeps [preserves_intro]:
  "preserves dv_log read_u32_or_zero" "preserves dv_answers read_u32_or_zero" "advances read_u32_or_zero"
  by (simp_all add: preserves_def advances_def read_u32_or_zero_def ask_def)

lemma take_output_keeps [preserves_intro]:
  "preserves dv_log (take_output e)" "preserves dv_answers (take_output e)" "advances (take_output e)"
  unfolding take_output_def supply_sample_def Let_def by (intro preserves_intro)+

lemma stamp_sample_keeps [preserves_intro]:
  "preserves dv_log stamp_sample" "preserves dv_answers stamp_sample" "advances stamp_sample"
  unfolding stamp_sample_def by (intro preserves_intro)+

lemma sample_keeps [preserves_intro]:
  "preserves dv_log nv12_sample" "preserves dv_answers nv12_sample" "advances nv12_sample"
  "preserves dv_log surface_sample" "preserves dv_answers surface_sample" "advances surface_sample"
  unfolding nv12_sample_def surface_sample_def by (intro preserves_intro)+

lemma handle_event_keeps [preserves_intro]:
  "preserves dv_answers (handle_event e ts input)" "advances (handle_event e ts input)"
  unfolding handle_event_def submit_input_def by (intro preserves_intro)+

lemma encode_poll_answers: "encode_poll e ts dl input d = (p, d') \<Longrightarrow> dv_answers d' = dv_answers d"
  by (auto simp: encode_poll_def ask_def Let_def split: if_splits option.splits prod.splits result.splits
      dest!: preservesD [OF handle_event_keeps(1)])

lemma encode_poll_advances: "encode_poll e ts dl input d = (p, d') \<Longrightarrow> dv_calls d < dv_calls d'"
  by (auto simp: encode_poll_def ask_def Let_def split: if_splits option.splits prod.splits result.splits
      dest!: advancesD [OF handle_event_keeps(2)])

text \<open>The samples given to the transform so far.\<close>

definition submissions :: "driver \<Rightarrow> (sample_source \<times> i64) list" where
  "submissions d = List.map_filter (\<lambda>c. case c of TransformInput s t \<Rightarrow> Some (s, t) | _ \<Rightarrow> None) (dv_log d)"

lemma submissions_same: "dv_log d' = dv_log d \<Longrightarrow> submissions d' = submissions d"
  by (simp add: submissions_def)

lemma submissions_input: "dv_log d' = dv_log d @ [TransformInput s t] \<Longrightarrow> submissions d' = submissions d @ [(s, t)]"
  by (simp add: submissions_def map_filter_def)

lemma submit_input_log:
  "submit_input e ts s d = (r, d') \<Longrightarrow> dv_log d' = dv_log d \<or> r = Ok () \<and> dv_log d' = dv_log d @ [TransformInput s ts]"
  by (auto simp: submit_input_def io_then_def attempt_def ask_def perform_def issue_def split: option.splits result.splits prod.splits)

text \<open>A poll submits the sample or keeps it; it never submits a sample it no longer has.\<close>

lemma handle_event_submissions:
  assumes "handle_event e ts input d = (r, d')"
  shows "dv_log d' = dv_log d
    \<or> (\<exists>s. input = Some s \<and> r = Ok (PollAgain None) \<and> dv_log d' = dv_log d @ [TransformInput s ts])"
proof -
  have rest: "dv_log d' = dv_log d" if "io_then (take_output e) (\<lambda>f. io_ok (PollDone (Ok f))) d1 = (r, d')" "dv_log d1 = dv_log d" for d1
    using that preservesD [OF preserves_then [OF take_output_keeps(1) preserves_pure(1)] that(1)] by simp
  show ?thesis
    using assms rest
    unfolding handle_event_def
    by (auto simp: io_then_def [of "attempt _"] io_then_def [of "submit_input _ _ _"] attempt_def ask_def io_fail_def io_ok_def
        dest!: submit_input_log split: option.splits result.splits prod.splits if_splits)
qed

lemma handle_event_again:
  "handle_event e ts input d = (Ok (PollAgain i), d') \<Longrightarrow> i = input \<or> i = None"
  by (auto simp: handle_event_def io_then_def io_fail_def io_ok_def split: option.splits result.splits prod.splits if_splits)

lemma encode_poll_cases:
  assumes "encode_poll e ts dl input d = (p, d')"
  obtains (stopped) err where "p = PollDone (Err err)" "dv_log d' = dv_log d"
  | (waiting) "p = PollAgain input" "dv_log d' = dv_log d"
  | (event) r d1 where "handle_event e ts input d1 = (r, d')" "dv_log d1 = dv_log d"
      "p = (case r of Ok q \<Rightarrow> q | Err err \<Rightarrow> PollDone (Err err))"
  using assms
  by (auto simp: encode_poll_def ask_def Let_def split: if_splits option.splits result.splits prod.splits)

lemma encode_poll_submissions:
  assumes "encode_poll e ts dl input d = (p, d')"
  shows "submissions d' = submissions d \<and> (\<forall>i. p = PollAgain i \<longrightarrow> i = input \<or> i = None)
    \<or> (\<exists>s. input = Some s \<and> p = PollAgain None \<and> submissions d' = submissions d @ [(s, ts)])"
  using assms
proof (cases rule: encode_poll_cases)
  case (event r d1)
  with handle_event_submissions [OF event(1)] handle_event_again [of e ts input d1 _ d']
  show ?thesis
    by (cases r) (auto simp: submissions_def map_filter_def)
qed (auto simp: submissions_def)

text \<open>What every poll keeps, the loop keeps.\<close>

lemma encode_loop_rule:
  assumes "encode_loop e ts dl input d = Some (r, d')" "keeps input d"
    and step: "\<And>input d p d1. keeps input d \<Longrightarrow> encode_poll e ts dl input d = (p, d1) \<Longrightarrow>
      (case p of PollDone r \<Rightarrow> post r d1 | PollAgain i \<Rightarrow> keeps i d1)"
  shows "post r d'"
proof -
  define P where "P = (\<lambda>e' ts' dl' i d (y :: (hardware_encoded_frame, ustring) result \<times> driver).
    e' = e \<and> ts' = ts \<and> dl' = dl \<and> keeps i d \<longrightarrow> post (fst y) (snd y))"
  have "P e ts dl input d (r, d')"
  proof (rule encode_loop.raw_induct [OF _ assms(1)])
    fix loop e' ts' dl' i d y
    assume IH: "\<And>e ts dl i d y. loop e ts dl i d = Some y \<Longrightarrow> P e ts dl i d y"
      and run: "(case encode_poll e' ts' dl' i d of
        (p, d') \<Rightarrow> (case p of PollDone r \<Rightarrow> Some (r, d') | PollAgain input' \<Rightarrow> loop e' ts' dl' input' d')) = Some y"
    obtain p d1 where p: "encode_poll e' ts' dl' i d = (p, d1)" by fastforce
    with run have run: "(case p of PollDone r \<Rightarrow> Some (r, d1) | PollAgain i \<Rightarrow> loop e' ts' dl' i d1) = Some y" by simp
    show "P e' ts' dl' i d y"
      unfolding P_def
    proof (intro impI, elim conjE)
      assume [simp]: "e' = e" "ts' = ts" "dl' = dl" and kept: "keeps i d"
      from step [OF kept] p have "case p of PollDone r \<Rightarrow> post r d1 | PollAgain i \<Rightarrow> keeps i d1" by simp
      with run IH show "post (fst y) (snd y)"
        by (cases p) (auto simp: P_def)
    qed
  qed
  with assms(2) show ?thesis by (simp add: P_def)
qed

text \<open>The loop submits its sample at most once, and nothing once the sample is gone.\<close>

lemma encode_loop_submissions:
  assumes "encode_loop e ts dl (Some s) d = Some (r, d')"
  shows "submissions d' = submissions d \<or> submissions d' = submissions d @ [(s, ts)]"
proof (rule encode_loop_rule [OF assms, of "\<lambda>i d1. submissions d1 = submissions d \<and> (i = None \<or> i = Some s)
      \<or> submissions d1 = submissions d @ [(s, ts)] \<and> i = None"])
  fix input d1 p d2
  assume "submissions d1 = submissions d \<and> (input = None \<or> input = Some s)
      \<or> submissions d1 = submissions d @ [(s, ts)] \<and> input = None"
    and "encode_poll e ts dl input d1 = (p, d2)"
  with encode_poll_submissions [OF this(2)]
  show "case p of PollDone r \<Rightarrow> submissions d2 = submissions d \<or> submissions d2 = submissions d @ [(s, ts)]
    | PollAgain i \<Rightarrow> submissions d2 = submissions d \<and> (i = None \<or> i = Some s)
      \<or> submissions d2 = submissions d @ [(s, ts)] \<and> i = None"
    by (cases p) auto
qed simp

lemma take_output_nonempty: "take_output e d = (Ok f, d') \<Longrightarrow> hf_data f \<noteq> []"
  by (auto simp: take_output_def Let_def io_then_Ok_iff io_ok_def io_fail_def split: if_splits)

lemma handle_event_nonempty: "handle_event e ts input d = (Ok (PollDone (Ok f)), d') \<Longrightarrow> hf_data f \<noteq> []"
  by (auto simp: handle_event_def io_then_Ok_iff io_ok_def io_fail_def dest!: take_output_nonempty
      split: if_splits option.splits)

lemma encode_poll_nonempty: "encode_poll e ts dl input d = (PollDone (Ok f), d') \<Longrightarrow> hf_data f \<noteq> []"
  by (auto simp: encode_poll_def dest: handle_event_nonempty split: if_splits option.splits result.splits prod.splits)

lemma encode_loop_nonempty:
  assumes "encode_loop e ts dl input d = Some (Ok f, d')"
  shows "hf_data f \<noteq> []"
proof -
  have "case p of PollDone r \<Rightarrow> \<forall>f. r = Ok f \<longrightarrow> hf_data f \<noteq> [] | PollAgain i \<Rightarrow> True"
    if "encode_poll e ts dl i d1 = (p, d2)" for i d1 p d2
    using that by (cases p) (auto dest: encode_poll_nonempty)
  from encode_loop_rule [OF assms, of "\<lambda>_ _. True" "\<lambda>r _. \<forall>f. r = Ok f \<longrightarrow> hf_data f \<noteq> []", OF TrueI this]
  show ?thesis by simp
qed

section \<open>The loop returns\<close>

text \<open>Documented of \<open>Instant\<close>: the clock does not go back, and it does not stand still for ever.\<close>

definition clock_passes :: "driver \<Rightarrow> bool" where
  "clock_passes d \<longleftrightarrow> (\<forall>t. \<exists>k. \<forall>j \<ge> k. t \<le> fa_clock (dv_answers d j))"

lemma encode_loop_returns_by:
  assumes "\<forall>j \<ge> k. dl \<le> fa_clock (dv_answers d j)"
  shows "\<exists>r d'. encode_loop e ts dl input d = Some (r, d') \<and> dv_answers d' = dv_answers d"
  using assms
proof (induction "k - dv_calls d" arbitrary: d input rule: less_induct)
  case less
  obtain p d1 where p: "encode_poll e ts dl input d = (p, d1)" by fastforce
  note answers = encode_poll_answers [OF p]
  show ?case
  proof (cases p)
    case (PollDone r)
    with p answers show ?thesis by (simp add: encode_loop.simps)
  next
    case (PollAgain input')
    have "dv_calls d < k"
    proof (rule ccontr)
      assume "\<not> dv_calls d < k"
      with less.prems have "dl \<le> fa_clock (dv_answers d (dv_calls d))" by simp
      with p PollAgain show False by (simp add: encode_poll_def ask_def)
    qed
    with encode_poll_advances [OF p] have "k - dv_calls d1 < k - dv_calls d" by simp
    with less.hyps [of d1 input'] less.prems answers obtain r d' where
      "encode_loop e ts dl input' d1 = Some (r, d')" "dv_answers d' = dv_answers d1" by auto
    with p PollAgain answers show ?thesis by (simp add: encode_loop.simps [of e ts dl input d])
  qed
qed

lemma encode_sample_returns:
  assumes "clock_passes d"
  shows "\<exists>r e' d'. mf_encode_sample s e d = Some (r, e', d') \<and> dv_answers d' = dv_answers d"
proof -
  obtain r d1 where st: "stamp_sample d = (r, d1)" by fastforce
  then have a1: "dv_answers d1 = dv_answers d" by (rule preservesD [OF stamp_sample_keeps(2)])
  show ?thesis
  proof (cases r)
    case (Err err)
    with st a1 show ?thesis by (simp add: mf_encode_sample_def)
  next
    case (Ok u)
    let ?dl = "fa_clock (fst (ask d1)) + EVENT_DEADLINE"
    from assms obtain k where "\<forall>j \<ge> k. ?dl \<le> fa_clock (dv_answers d j)" unfolding clock_passes_def by blast
    then have k: "\<forall>j \<ge> k. ?dl \<le> fa_clock (dv_answers (snd (ask d1)) j)" using a1 by (simp add: ask_def)
    then obtain r' d' where
      "encode_loop (e\<lparr>me_next_timestamp := i64_sat (sint (me_next_timestamp e) + sint (me_frame_duration e))\<rparr>)
        (me_next_timestamp e) ?dl (Some s) (snd (ask d1)) = Some (r', d')" "dv_answers d' = dv_answers (snd (ask d1))"
      using encode_loop_returns_by by blast
    with st Ok a1 show ?thesis by (auto simp: mf_encode_sample_def Let_def split_beta ask_def)
  qed
qed

text \<open>Construction leaves the clock alone.\<close>

lemma ignore_calls_keeps [preserves_intro]:
  "preserves dv_log (ignore_calls n)" "preserves dv_answers (ignore_calls n)" "advances (ignore_calls n)"
proof -
  have "dv_log (snd (ignore_calls n d)) = dv_log d \<and> dv_answers (snd (ignore_calls n d)) = dv_answers d
      \<and> dv_calls d \<le> dv_calls (snd (ignore_calls n d))" for d
  proof (induction n arbitrary: d)
    case (Suc n)
    from Suc.IH [of "snd (ask d)"] show ?case by (simp add: ask_def)
  qed simp
  then show "preserves dv_log (ignore_calls n)" "preserves dv_answers (ignore_calls n)" "advances (ignore_calls n)"
    by (simp_all add: preserves_def advances_def)
qed

lemma set_attributes_keeps [preserves_intro]:
  "preserves dv_answers (set_attributes n)" "preserves dv_log (set_attributes n)"
  using ignore_calls_keeps(1,2) [of n] by (simp_all add: preserves_def set_attributes_def ask_def)

lemma initialize_keeps [preserves_intro]:
  "preserves dv_answers initialize_media_foundation" "preserves dv_log initialize_media_foundation"
  unfolding initialize_media_foundation_def
  by (intro preserves_intro; simp add: preserves_def initialize_com_def start_media_foundation_def ask_def Let_def
      split: option.splits)+

lemma attribute_string_keeps [preserves_intro]:
  "preserves dv_answers attribute_string" "preserves dv_log attribute_string"
  by (simp_all add: preserves_def attribute_string_def ask_def Let_def)

lemma set_video_type_keeps [preserves_intro]:
  "preserves dv_answers (set_video_type c w h rate b)" "preserves dv_log (set_video_type c w h rate b)"
  unfolding set_video_type_def by (intro preserves_intro)+

lemma configure_probe_keeps [preserves_intro]:
  "preserves dv_answers (configure_probe c w h rate b)"
  unfolding configure_probe_def Let_def by (intro preserves_intro)+

lemma mf_new_keeps [preserves_intro]:
  "preserves dv_answers (mf_new_internal codec w h rate b device)"
  unfolding mf_new_internal_def first_activation_def attach_d3d_manager_def Let_def by (intro preserves_intro)+

lemma clock_passes_same: "dv_answers d' = dv_answers d \<Longrightarrow> clock_passes d \<Longrightarrow> clock_passes d'"
  by (simp add: clock_passes_def)

lemma encode_nv12_returns:
  assumes "clock_passes d"
  shows "\<exists>r e' d'. mf_encode_nv12 nv12 e d = Some (r, e', d') \<and> dv_answers d' = dv_answers d"
proof -
  obtain r d1 where st: "nv12_sample d = (r, d1)" by fastforce
  then have a1: "dv_answers d1 = dv_answers d" by (rule preservesD [OF sample_keeps(2)])
  with encode_sample_returns [OF clock_passes_same [OF a1 assms], of "SampleBytes nv12" e] st
  show ?thesis by (cases r) (auto simp: mf_encode_nv12_def)
qed

lemma encode_surface_returns:
  assumes "clock_passes d"
  shows "\<exists>r e' d'. mf_encode_nv12_surface s e d = Some (r, e', d') \<and> dv_answers d' = dv_answers d"
proof -
  obtain r d1 where st: "surface_sample d = (r, d1)" by fastforce
  then have a1: "dv_answers d1 = dv_answers d" by (rule preservesD [OF sample_keeps(5)])
  with encode_sample_returns [OF clock_passes_same [OF a1 assms], of "SampleTexture (gs_texture s)" e] st
  show ?thesis by (cases r) (auto simp: mf_encode_nv12_surface_def)
qed

lemma functional_probe_returns:
  assumes "clock_passes d"
  shows "\<exists>r d'. functional_probe codec d = Some (r, d') \<and> dv_answers d' = dv_answers d"
proof -
  obtain r d1 where new: "mf_new codec 1280 720 60 5000000 d = (r, d1)" by fastforce
  then have a1: "dv_answers d1 = dv_answers d" unfolding mf_new_def by (rule preservesD [OF mf_new_keeps])
  show ?thesis
  proof (cases r)
    case (Ok e)
    from encode_nv12_returns [OF clock_passes_same [OF a1 assms], of "probe_frame 1280 720" e] Ok new a1
    show ?thesis by (auto simp: functional_probe_def)
  qed (use new a1 in \<open>simp add: functional_probe_def\<close>)
qed

text \<open>On a clock that does not stand still, every hardware encode and the functional probe return, whatever events,
  failures and silences the transform answers with: the wait for an encoded frame always ends.\<close>
theorem hardware_encode_returns:
  assumes "clock_passes d"
  shows "(\<exists>r e' d'. mf_encode_nv12 nv12 e d = Some (r, e', d')) \<and> (\<exists>r e' d'. mf_encode_nv12_surface s e d = Some (r, e', d'))
    \<and> (\<exists>r d'. functional_probe codec d = Some (r, d'))"
  using encode_nv12_returns [OF assms] encode_surface_returns [OF assms] functional_probe_returns [OF assms] by blast

definition ticking_driver :: driver where
  "ticking_driver = fresh_driver (\<lambda>j. quiet_answer\<lparr>fa_clock := j * 1000000, fa_error := Some (lit ''no events''),
     fa_code := MF_E_NO_EVENTS_AVAILABLE\<rparr>)"

lemma ticking_clock: "clock_passes ticking_driver"
proof -
  have "\<exists>k. \<forall>j \<ge> k. t \<le> j * 1000000" for t :: nat
    by (rule exI [of _ t]) auto
  then show ?thesis by (auto simp: clock_passes_def ticking_driver_def fresh_driver_def)
qed

theorem hardware_encode_returns_witness:
  "\<forall>nv12 e s codec. (\<exists>r e' d'. mf_encode_nv12 nv12 e ticking_driver = Some (r, e', d'))
    \<and> (\<exists>r e' d'. mf_encode_nv12_surface s e ticking_driver = Some (r, e', d')) \<and> (\<exists>r d'. functional_probe codec ticking_driver = Some (r, d'))"
  using hardware_encode_returns [OF ticking_clock] by blast

section \<open>A stream of frames\<close>

lemma mf_encode_sample_effect:
  assumes "mf_encode_sample s e d = Some (r, e', d')"
  shows "e' = e\<lparr>me_next_timestamp := i64_sat (sint (me_next_timestamp e) + sint (me_frame_duration e))\<rparr>
    \<and> (submissions d' = submissions d \<or> submissions d' = submissions d @ [(s, me_next_timestamp e)])
    \<and> (\<forall>f. r = Ok f \<longrightarrow> hf_data f \<noteq> [])"
proof -
  let ?e = "e\<lparr>me_next_timestamp := i64_sat (sint (me_next_timestamp e) + sint (me_frame_duration e))\<rparr>"
  obtain st d1 where st: "stamp_sample d = (st, d1)" by fastforce
  have log1: "dv_log d1 = dv_log d" using st by (rule preservesD [OF stamp_sample_keeps(1)])
  show ?thesis
  proof (cases st)
    case (Ok u)
    let ?dl = "fa_clock (fst (ask d1)) + EVENT_DEADLINE"
    have run: "encode_loop ?e (me_next_timestamp e) ?dl (Some s) (snd (ask d1)) = Some (r, d') \<and> e' = ?e"
      using assms st Ok by (auto simp: mf_encode_sample_def Let_def split_beta)
    moreover have "submissions (snd (ask d1)) = submissions d"
      using log1 by (simp add: submissions_def ask_def)
    ultimately show ?thesis
      using encode_loop_submissions [of ?e "me_next_timestamp e" ?dl s "snd (ask d1)" r d']
        encode_loop_nonempty [of ?e "me_next_timestamp e" ?dl "Some s" "snd (ask d1)" _ d']
      by auto
  qed (use assms st log1 in \<open>auto simp: mf_encode_sample_def submissions_def\<close>)
qed

lemma mf_encode_nv12_effect:
  assumes "mf_encode_nv12 nv12 e d = Some (r, e', d')"
  shows "(e' = e \<and> submissions d' = submissions d
      \<or> e' = e\<lparr>me_next_timestamp := i64_sat (sint (me_next_timestamp e) + sint (me_frame_duration e))\<rparr>
        \<and> (submissions d' = submissions d \<or> submissions d' = submissions d @ [(SampleBytes nv12, me_next_timestamp e)]))
    \<and> (\<forall>f. r = Ok f \<longrightarrow> hf_data f \<noteq> [])"
proof -
  obtain st d1 where st: "nv12_sample d = (st, d1)" by fastforce
  have log1: "dv_log d1 = dv_log d" using st by (rule preservesD [OF sample_keeps(1)])
  show ?thesis
  proof (cases st)
    case (Ok u)
    with assms st have "mf_encode_sample (SampleBytes nv12) e d1 = Some (r, e', d')" by (simp add: mf_encode_nv12_def)
    from mf_encode_sample_effect [OF this] log1 show ?thesis by (simp add: submissions_def)
  qed (use assms st log1 in \<open>auto simp: mf_encode_nv12_def submissions_def\<close>)
qed

primrec encode_stream :: "u8 list list \<Rightarrow> media_foundation_encoder \<Rightarrow> driver \<Rightarrow> (media_foundation_encoder \<times> driver) option" where
  "encode_stream [] e d = Some (e, d)"
| "encode_stream (f # fs) e d =
     (case mf_encode_nv12 f e d of None \<Rightarrow> None | Some (_, e, d) \<Rightarrow> encode_stream fs e d)"

lemma sint_i64_sat: "- (2 ^ 63) \<le> z \<Longrightarrow> z < 2 ^ 63 \<Longrightarrow> sint (i64_sat z) = z"
  by (simp add: i64_sat_def sint_sbintrunc' signed_take_bit_int_eq_self)

lemma encode_stream_effect:
  assumes "encode_stream fs e d = Some (e', d')" "0 < sint (me_frame_duration e)" "0 \<le> sint (me_next_timestamp e)"
    and "sint (me_next_timestamp e) + int (length fs) * sint (me_frame_duration e) < 2 ^ 63"
  shows "\<exists>new. submissions d' = submissions d @ new \<and> subseq (map fst new) (map SampleBytes fs)
    \<and> sorted_wrt (\<lambda>a b. sint a < sint b) (map snd new) \<and> (\<forall>t \<in> set (map snd new). sint (me_next_timestamp e) \<le> sint t)"
  using assms
proof (induction fs arbitrary: e d)
  case Nil
  then show ?case by simp
next
  case (Cons f fs)
  let ?t = "sint (me_next_timestamp e)" and ?n = "sint (me_frame_duration e)"
  from Cons.prems(1) obtain r e1 d1 where one: "mf_encode_nv12 f e d = Some (r, e1, d1)" and rest: "encode_stream fs e1 d1 = Some (e', d')"
    by (auto split: option.splits)
  have bound: "?t + ?n + int (length fs) * ?n < 2 ^ 63" using Cons.prems(4) by (simp add: algebra_simps)
  moreover have "0 \<le> int (length fs) * ?n" using Cons.prems(2) by simp
  ultimately have sat: "sint (i64_sat (?t + ?n)) = ?t + ?n" using Cons.prems(2,3) by (intro sint_i64_sat) linarith+
  from mf_encode_nv12_effect [OF one] show ?case
  proof (elim conjE disjE)
    assume "e1 = e" "submissions d1 = submissions d"
    with Cons.IH [OF rest] Cons.prems(2,3) bound show ?thesis
      by (auto intro: list_emb_Cons)
  next
    assume e1: "e1 = e\<lparr>me_next_timestamp := i64_sat (?t + ?n)\<rparr>" and "submissions d1 = submissions d"
    with Cons.IH [OF rest] Cons.prems(2,3) bound sat show ?thesis
      by (fastforce intro: list_emb_Cons)
  next
    assume e1: "e1 = e\<lparr>me_next_timestamp := i64_sat (?t + ?n)\<rparr>"
      and sub: "submissions d1 = submissions d @ [(SampleBytes f, me_next_timestamp e)]"
    with Cons.IH [OF rest] Cons.prems(2,3) bound sat obtain new where new: "submissions d' = submissions d1 @ new"
      "subseq (map fst new) (map SampleBytes fs)" "sorted_wrt (\<lambda>a b. sint a < sint b) (map snd new)"
      "\<forall>t \<in> set (map snd new). ?t + ?n \<le> sint t" by auto
    have later: "?t < sint t" if "t \<in> set (map snd new)" for t
      using new(4) that Cons.prems(2) by fastforce
    show ?thesis
      by (rule exI [of _ "(SampleBytes f, me_next_timestamp e) # new"]) (use new sub later in \<open>auto simp: less_imp_le\<close>)
  qed
qed

text \<open>While the presentation time fits its 64 bits, an encoder that is given frame after frame submits each at most
  once, in order, with strictly increasing presentation times, whatever fails in between.\<close>
theorem submitted_timestamps_increase:
  assumes "encode_stream fs e d = Some (e', d')" "0 < sint (me_frame_duration e)" "0 \<le> sint (me_next_timestamp e)"
    and "sint (me_next_timestamp e) + int (length fs) * sint (me_frame_duration e) < 2 ^ 63"
  shows "\<exists>new. submissions d' = submissions d @ new \<and> subseq (map fst new) (map SampleBytes fs)
    \<and> sorted_wrt (\<lambda>a b. sint a < sint b) (map snd new)"
  using encode_stream_effect [OF assms] by blast

definition sample_encoder :: media_foundation_encoder where
  "sample_encoder = \<lparr>me_transform = 1, me_events = 2, me_output_provides_samples = True, me_output_buffer_size = 0,
     me_frame_duration = 166666, me_next_timestamp = 0, me_d3d_manager = None, me_encoder_name = lit ''MFT'', me_codec = H264\<rparr>"

text \<open>A transform that asks for input and then has output, at calls 11 and 16 of the 24 that a frame takes.\<close>

definition obliging_answers :: "nat \<Rightarrow> driver_answer" where
  "obliging_answers j =
     quiet_answer\<lparr>fa_size := (if j mod 24 = 11 then METransformNeedInput else if j mod 24 = 16 then METransformHaveOutput else 1)\<rparr>"

lemmas encode_evaluation = mf_encode_nv12_def nv12_sample_def mf_encode_sample_def stamp_sample_def encode_poll_def
  handle_event_def submit_input_def take_output_def supply_sample_def read_u32_or_zero_def io_then_def io_ok_def io_fail_def
  io_lift_def attempt_def ask_def perform_def issue_def EVENT_DEADLINE_def METransformNeedInput_def METransformHaveOutput_def
  quiet_answer_def out_param_def

lemma obliging_frame:
  "mf_encode_nv12 [f] sample_encoder (fresh_driver obliging_answers) = Some (Ok \<lparr>hf_data = [0], hf_keyframe = False\<rparr>,
     sample_encoder\<lparr>me_next_timestamp := 166666\<rparr>,
     (fresh_driver obliging_answers)\<lparr>dv_calls := 24, dv_log := [TransformInput (SampleBytes [f]) 0]\<rparr>)"
  by (simp add: encode_evaluation encode_loop.simps fresh_driver_def obliging_answers_def sample_encoder_def i64_sat_def)

lemma obliging_second_frame:
  "mf_encode_nv12 [f] (sample_encoder\<lparr>me_next_timestamp := 166666\<rparr>)
       ((fresh_driver obliging_answers)\<lparr>dv_calls := 24, dv_log := [TransformInput (SampleBytes [g]) 0]\<rparr>) =
   Some (Ok \<lparr>hf_data = [0], hf_keyframe = False\<rparr>, sample_encoder\<lparr>me_next_timestamp := 333332\<rparr>,
     (fresh_driver obliging_answers)\<lparr>dv_calls := 48, dv_log := [TransformInput (SampleBytes [g]) 0, TransformInput (SampleBytes [f]) 166666]\<rparr>)"
  by (simp add: encode_evaluation encode_loop.simps fresh_driver_def obliging_answers_def sample_encoder_def i64_sat_def)

theorem submitted_timestamps_increase_witness:
  "\<exists>e' d'. encode_stream [[7], [8]] sample_encoder (fresh_driver obliging_answers) = Some (e', d')
    \<and> submissions d' = [(SampleBytes [7], 0), (SampleBytes [8], 166666)]
    \<and> (\<exists>new. submissions d' = submissions (fresh_driver obliging_answers) @ new \<and> subseq (map fst new) [SampleBytes [7], SampleBytes [8]]
         \<and> sorted_wrt (\<lambda>a b. sint a < sint b) (map snd new))"
proof -
  obtain e' d' where run: "encode_stream [[7], [8]] sample_encoder (fresh_driver obliging_answers) = Some (e', d')"
    and log: "dv_log d' = [TransformInput (SampleBytes [7]) 0, TransformInput (SampleBytes [8]) 166666]"
    by (simp add: obliging_frame obliging_second_frame)
  then show ?thesis
    using submitted_timestamps_increase [OF run]
    by (simp add: sample_encoder_def submissions_def map_filter_def)
qed

end
