(* ===== verification/Discovery.thy ===== *)
theory Discovery
  imports Media_Foundation Video
begin

text \<open>
  \<open>crates/host-windows/src/hardware.rs\<close>: which video encoders the host reports.  Discovery lists
  the adapters, inspects every activation object Media Foundation returns for each codec, and then
  lets each codec's first transform encode one frame; only the transform that returned bytes is
  reported as functional.  It runs on a worker thread of its own, so that the COM apartment it enters
  is not the caller's.
\<close>

record adapter_identity =
  ai_name :: ustring
  ai_vendor :: ustring

definition vendor_name :: "u32 \<Rightarrow> ustring" where
  "vendor_name i =
     (if i = 0x10de then lit ''NVIDIA'' else if i = 0x1002 \<or> i = 0x1022 then lit ''AMD''
      else if i = 0x8086 then lit ''Intel'' else if i = 0x1414 then lit ''Microsoft'' else lit ''Unknown'')"

text \<open>The adapters by LUID; the order of the association list is the order the hash map happens to have.\<close>

type_synonym adapter_map = "(u64 \<times> adapter_identity) list"

fun enumerate_from :: "nat \<Rightarrow> adapter_map \<Rightarrow> driver \<Rightarrow> adapter_map \<times> driver" where
  "enumerate_from 0 found d = (found, d)"
| "enumerate_from (Suc n) found d =
     (let (a, d) = ask d
      in if fa_error a \<noteq> None then (found, d)
         else
           (let (b, d) = ask d
            in if fa_error b \<noteq> None then enumerate_from n found d
               else
                 (let name = utf16_lossy (takeWhile (\<lambda>u. u \<noteq> 0) (fa_units b));
                      identity = \<lparr>ai_name = name, ai_vendor = vendor_name (fa_size b)\<rparr>
                  in enumerate_from n ((fa_number b, identity) # filter (\<lambda>(luid, _). luid \<noteq> fa_number b) found) d)))"

definition enumerate_adapters :: "driver \<Rightarrow> adapter_map \<times> driver" where
  "enumerate_adapters d =
     (let (a, d) = ask d in if fa_error a \<noteq> None then ([], d) else enumerate_from 32 [] d)"

definition unavailable_hardware :: "video_codec \<Rightarrow> ustring \<Rightarrow> encoder_capability" where
  "unavailable_hardware codec reason =
     \<lparr>ec_id = lit ''mf-'' @ to_ascii_lowercase (codec_label codec) @ lit ''-unavailable'', ec_codec = codec,
      ec_backend = MediaFoundationHardware, ec_hardware = True, ec_encoder_name = codec_label codec @ lit '' Hardware'',
      ec_adapter_name = None, ec_adapter_luid = None, ec_vendor = None, ec_driver_version = None,
      ec_input_formats = [], ec_profiles = [], ec_low_latency = None, ec_rate_control = [],
      ec_maximum_tested_width = None, ec_maximum_tested_height = None, ec_maximum_tested_fps = None,
      ec_state = CapUnavailable, ec_failure_reason = Some reason\<rparr>"

definition software_h264_capability :: encoder_capability where
  "software_h264_capability =
     \<lparr>ec_id = lit ''openh264-software'', ec_codec = H264, ec_backend = OpenH264Software, ec_hardware = False,
      ec_encoder_name = lit ''OpenH264 software encoder'', ec_adapter_name = None, ec_adapter_luid = None,
      ec_vendor = Some (lit ''Cisco OpenH264''), ec_driver_version = None,
      ec_input_formats = [lit ''I420''], ec_profiles = [lit ''Baseline''], ec_low_latency = Some True,
      ec_rate_control = [lit ''bitrate''], ec_maximum_tested_width = Some 2560, ec_maximum_tested_height = Some 1440,
      ec_maximum_tested_fps = Some 60, ec_state = Functional, ec_failure_reason = None\<rparr>"

definition hardware_codecs :: "video_codec list" where
  "hardware_codecs = [H264, Hevc, Av1]"

definition unavailable_discovery_results :: "ustring \<Rightarrow> encoder_capability list" where
  "unavailable_discovery_results reason =
     software_h264_capability # map (\<lambda>codec. unavailable_hardware codec reason) hardware_codecs"

text \<open>The subtypes are told apart by the first field of their GUIDs, the FourCC of the format.\<close>

definition input_format_label :: "u32 \<Rightarrow> ustring option" where
  "input_format_label fourcc =
     (if fourcc = 0x3231564E then Some (lit ''NV12'') else if fourcc = 0x30323449 then Some (lit ''I420'')
      else if fourcc = 0x56555949 then Some (lit ''IYUV'') else if fourcc = 0x32315659 then Some (lit ''YV12'') else None)"

fun input_formats_from :: "nat \<Rightarrow> ustring list \<Rightarrow> driver \<Rightarrow> ustring list \<times> driver" where
  "input_formats_from 0 formats d = (formats, d)"
| "input_formats_from (Suc n) formats d =
     (let (a, d) = ask d
      in if fa_error a \<noteq> None then (formats, d)
         else
           (let (b, d) = ask d
            in case (if fa_error b \<noteq> None then None else input_format_label (fa_size b)) of
                 None \<Rightarrow> input_formats_from n formats d
               | Some label \<Rightarrow> input_formats_from n (if label \<in> set formats then formats else formats @ [label]) d))"

definition available_input_formats :: "driver \<Rightarrow> ustring list \<times> driver" where
  "available_input_formats = input_formats_from 64 []"

definition ascii_upper :: "nat \<Rightarrow> nat" where
  "ascii_upper c = (if 97 \<le> c \<and> c \<le> 122 then c - 32 else c)"

definition find_adapter :: "adapter_map \<Rightarrow> u64 option \<Rightarrow> ustring \<Rightarrow> adapter_identity option" where
  "find_adapter adapters luid name =
     (case (case luid of None \<Rightarrow> None | Some l \<Rightarrow> map_of adapters l) of
        Some a \<Rightarrow> Some a
      | None \<Rightarrow> find (\<lambda>a. sublist (map ascii_upper (ai_vendor a)) (map ascii_upper name)) (map snd adapters))"

definition capability_profile :: "video_codec \<Rightarrow> ustring" where
  "capability_profile codec = (case codec of H264 \<Rightarrow> lit ''Constrained Baseline'' | Hevc \<Rightarrow> lit ''Main 4:2:0 8-bit''
     | Av1 \<Rightarrow> lit ''Main / profile 0'')"

definition codec_api_facts :: "encoder_capability \<Rightarrow> driver \<Rightarrow> encoder_capability \<times> driver" where
  "codec_api_facts c d =
     (let (a, d) = ask d
      in if fa_error a \<noteq> None then (c, d)
         else
           (let (low, d) = ask d; (mean, d) = ask d; (rate, d) = ask d
            in (c\<lparr>ec_low_latency := Some (fa_error low = None),
                  ec_rate_control := ec_rate_control c @ (if fa_error mean = None then [lit ''mean-bitrate''] else [])
                    @ (if fa_error rate = None then [lit ''rate-control''] else [])\<rparr>, d)))"

definition probe_activation :: "encoder_capability \<Rightarrow> driver \<Rightarrow> encoder_capability \<times> driver" where
  "probe_activation c d =
     (let (activated, d) = ask d
      in case fa_error activated of
           Some e \<Rightarrow> (c\<lparr>ec_state := Failed, ec_failure_reason := Some (lit ''encoder activation failed: '' @ e)\<rparr>, d)
         | None \<Rightarrow>
             (let (formats, d) = available_input_formats d;
                  (c, d) = codec_api_facts (c\<lparr>ec_input_formats := formats\<rparr>) d;
                  (probe, d) = configure_probe (ec_codec c) 1280 720 60 5000000 d;
                  c = (case probe of
                      Ok _ \<Rightarrow> c\<lparr>ec_input_formats := (if lit ''NV12'' \<in> set (ec_input_formats c) then ec_input_formats c
                                    else ec_input_formats c @ [lit ''NV12'']),
                                ec_profiles := ec_profiles c @ [capability_profile (ec_codec c)],
                                ec_state := Initializeable,
                                ec_failure_reason := Some (lit ''media types initialized; an encoded-frame probe is still required before use'')\<rparr>
                    | Err e \<Rightarrow> c\<lparr>ec_state := Failed,
                                 ec_failure_reason := Some (lit ''1280'' @ [215] @ lit ''720@60 initialization failed: '' @ e)\<rparr>)
              in (c, issue ShutdownActivation (snd (ask d)))))"

definition inspect_activation :: "video_codec \<Rightarrow> adapter_map \<Rightarrow> driver \<Rightarrow> encoder_capability \<times> driver" where
  "inspect_activation codec adapters d =
     (let (friendly, d) = attribute_string d;
          name = (case friendly of Ok (Some n) \<Rightarrow> n | _ \<Rightarrow> codec_label codec @ lit '' Media Foundation hardware encoder'');
          (url, d) = attribute_string d;
          (a, d) = ask d;
          luid = (if fa_error a = None then Some (fa_number a) else None);
          adapter = find_adapter adapters luid name;
          hex_luid = map_option (\<lambda>v. hex_digits 16 (unat v)) luid
      in probe_activation
           \<lparr>ec_id = lit ''mf:'' @ filter (\<lambda>c. c \<noteq> 46 \<and> c \<noteq> 32) (to_ascii_lowercase (codec_label codec)) @ lit '':'' @ unwrap_or hex_luid name,
            ec_codec = codec, ec_backend = MediaFoundationHardware, ec_hardware = True, ec_encoder_name = name,
            ec_adapter_name = map_option ai_name adapter, ec_adapter_luid = hex_luid, ec_vendor = map_option ai_vendor adapter,
            ec_driver_version = None, ec_input_formats = [], ec_profiles = [], ec_low_latency = None, ec_rate_control = [],
            ec_maximum_tested_width = None, ec_maximum_tested_height = None, ec_maximum_tested_fps = None, ec_state = Detected,
            ec_failure_reason = (case url of Ok (Some u) \<Rightarrow> Some (lit ''hardware endpoint: '' @ u) | _ \<Rightarrow> None)\<rparr> d)"

fun inspect_slots :: "video_codec \<Rightarrow> adapter_map \<Rightarrow> nat option list \<Rightarrow> driver \<Rightarrow> encoder_capability list \<times> driver" where
  "inspect_slots codec adapters [] d = ([], d)"
| "inspect_slots codec adapters (None # slots) d = inspect_slots codec adapters slots d"
| "inspect_slots codec adapters (Some _ # slots) d =
     (let (c, d) = inspect_activation codec adapters d; (cs, d) = inspect_slots codec adapters slots d in (c # cs, d))"

definition enumerate_codec :: "video_codec \<Rightarrow> adapter_map \<Rightarrow> encoder_capability list io" where
  "enumerate_codec codec adapters =
     io_then (attempt (\<lambda>e. codec_label codec @ lit '' hardware enumeration failed: '' @ e)) (\<lambda>a.
     if fa_null a \<or> fa_size a = 0 then
       io_ok [unavailable_hardware codec (lit ''no hardware '' @ codec_label codec @ lit '' encoder MFT was returned by Windows'')]
     else (\<lambda>d. let (cs, d) = inspect_slots codec adapters (map (activation_slot a) [0..<unat (fa_size a)]) d
       in (Ok (if cs = [] then [unavailable_hardware codec (lit ''Windows returned an empty activation list'')] else cs), d)))"

fun enumerate_codecs :: "adapter_map \<Rightarrow> video_codec list \<Rightarrow> driver \<Rightarrow> encoder_capability list \<times> driver" where
  "enumerate_codecs adapters [] d = ([], d)"
| "enumerate_codecs adapters (codec # codecs) d =
     (let (r, d) = enumerate_codec codec adapters d;
          found = (case r of Ok cs \<Rightarrow> cs | Err e \<Rightarrow> [unavailable_hardware codec e]);
          (rest, d) = enumerate_codecs adapters codecs d
      in (found @ rest, d))"

fun update_first :: "('a \<Rightarrow> bool) \<Rightarrow> ('a \<Rightarrow> 'a) \<Rightarrow> 'a list \<Rightarrow> 'a list" where
  "update_first p f [] = []"
| "update_first p f (x # xs) = (if p x then f x # xs else x # update_first p f xs)"

definition apply_probe :: "video_codec \<Rightarrow> (ustring \<times> nat \<times> bool, ustring) result \<Rightarrow> encoder_capability list \<Rightarrow> encoder_capability list" where
  "apply_probe codec r =
     (case r of
        Ok (name, _, _) \<Rightarrow>
          update_first (\<lambda>c. ec_codec c = codec \<and> ec_backend c = MediaFoundationHardware \<and> ec_encoder_name c = name)
            (\<lambda>c. c\<lparr>ec_state := Functional, ec_maximum_tested_width := Some 1280, ec_maximum_tested_height := Some 720,
                   ec_maximum_tested_fps := Some 60, ec_failure_reason := None\<rparr>)
      | Err e \<Rightarrow>
          update_first (\<lambda>c. ec_codec c = codec \<and> ec_backend c = MediaFoundationHardware)
            (\<lambda>c. c\<lparr>ec_state := Failed, ec_failure_reason := Some (lit ''encoded-frame probe failed: '' @ e)\<rparr>))"

fun probe_codecs :: "video_codec list \<Rightarrow> encoder_capability list \<Rightarrow> driver \<Rightarrow> (encoder_capability list \<times> driver) option" where
  "probe_codecs [] cs d = Some (cs, d)"
| "probe_codecs (codec # codecs) cs d =
     (case functional_probe codec d of None \<Rightarrow> None | Some (r, d) \<Rightarrow> probe_codecs codecs (apply_probe codec r cs) d)"

definition discover_on_current_thread :: "driver \<Rightarrow> (encoder_capability list \<times> driver) option" where
  "discover_on_current_thread d =
     (let (adapters, d) = enumerate_adapters d
      in case initialize_media_foundation d of
           (Err startup_error, d) \<Rightarrow>
             Some (software_h264_capability # map (\<lambda>codec. unavailable_hardware codec startup_error) hardware_codecs, d)
         | (Ok _, d) \<Rightarrow>
             (let (found, d) = enumerate_codecs adapters hardware_codecs d
              in probe_codecs hardware_codecs (software_h264_capability # found) d))"

datatype worker_outcome = WorkerJoined | WorkerPanicked | WorkerNotStarted ustring

text \<open>The worker's thread-local apartment guard starts empty and is dropped when the thread ends.\<close>

definition leave_worker :: "(bool, ustring) result option \<Rightarrow> driver \<Rightarrow> driver" where
  "leave_worker callers_com d =
     (let d = (if dv_com d = Some (Ok True) then issue UninitializeCom d else d) in d\<lparr>dv_com := callers_com\<rparr>)"

definition discover_video_encoders :: "worker_outcome \<Rightarrow> driver \<Rightarrow> (encoder_capability list \<times> driver) option" where
  "discover_video_encoders outcome d =
     (case outcome of
        WorkerNotStarted e \<Rightarrow>
          Some (unavailable_discovery_results (lit ''Media Foundation discovery worker could not start: '' @ e), d)
      | _ \<Rightarrow>
          map_option (\<lambda>(cs, d').
              (if outcome = WorkerPanicked then unavailable_discovery_results (lit ''Media Foundation discovery worker panicked'') else cs,
               leave_worker (dv_com d) d'))
            (discover_on_current_thread (d\<lparr>dv_com := None\<rparr>)))"

section \<open>What is reported\<close>

text \<open>A probe succeeded when the codec's first transform encoded the grey test frame into at least one byte.\<close>

definition probed :: "(nat \<Rightarrow> driver_answer) \<Rightarrow> video_codec \<Rightarrow> ustring \<Rightarrow> bool" where
  "probed answers codec name \<longleftrightarrow>
     (\<exists>d n k d'. dv_answers d = answers \<and> functional_probe codec d = Some (Ok (name, n, k), d') \<and> 0 < n)"

definition hardware_entry :: "(nat \<Rightarrow> driver_answer) \<Rightarrow> encoder_capability \<Rightarrow> bool" where
  "hardware_entry answers c \<longleftrightarrow> ec_backend c = MediaFoundationHardware \<and> ec_hardware c \<and>
     (is_usable (ec_state c) \<longrightarrow> probed answers (ec_codec c) (ec_encoder_name c) \<and> ec_maximum_tested_width c = Some 1280
        \<and> ec_maximum_tested_height c = Some 720 \<and> ec_maximum_tested_fps c = Some 60)"

lemma unavailable_entry [simp]: "hardware_entry answers (unavailable_hardware codec reason)" "ec_codec (unavailable_hardware codec reason) = codec"
  by (simp_all add: hardware_entry_def unavailable_hardware_def is_usable_def)

lemma codec_api_facts_keeps:
  "codec_api_facts c d = (c', d') \<Longrightarrow> ec_codec c' = ec_codec c \<and> ec_backend c' = ec_backend c \<and> ec_hardware c' = ec_hardware c
     \<and> ec_state c' = ec_state c"
  by (auto simp: codec_api_facts_def Let_def split_beta split: if_splits)

lemma probe_activation_entry:
  assumes "probe_activation c d = (c', d')" "ec_backend c = MediaFoundationHardware" "ec_hardware c"
  shows "hardware_entry answers c' \<and> ec_codec c' = ec_codec c"
proof (cases "fa_error (fst (ask d))")
  case (Some e)
  with assms show ?thesis by (auto simp: probe_activation_def split_beta hardware_entry_def is_usable_def)
next
  case None
  obtain formats d1 where f: "available_input_formats (snd (ask d)) = (formats, d1)" by fastforce
  obtain c1 d2 where c1: "codec_api_facts (c\<lparr>ec_input_formats := formats\<rparr>) d1 = (c1, d2)" by fastforce
  from codec_api_facts_keeps [OF c1] None f c1 assms show ?thesis
    by (auto simp: probe_activation_def Let_def split_beta hardware_entry_def is_usable_def split: result.splits)
qed

lemma inspect_activation_entry:
  "inspect_activation codec adapters d = (c, d') \<Longrightarrow> hardware_entry answers c \<and> ec_codec c = codec"
  using probe_activation_entry [of _ _ c d' answers]
  by (simp add: inspect_activation_def Let_def split_beta)

lemma inspect_slots_entry:
  "inspect_slots codec adapters slots d = (cs, d') \<Longrightarrow> \<forall>c \<in> set cs. hardware_entry answers c \<and> ec_codec c = codec"
proof (induction slots arbitrary: d cs)
  case (Cons slot slots)
  show ?case
  proof (cases slot)
    case (Some i)
    obtain c d1 where c: "inspect_activation codec adapters d = (c, d1)" by fastforce
    obtain rest d2 where rest: "inspect_slots codec adapters slots d1 = (rest, d2)" by fastforce
    with Some Cons.prems c have "cs = c # rest \<and> d2 = d'" by simp
    with rest Cons.IH [of d1 rest] inspect_activation_entry [OF c, of answers] show ?thesis by simp
  qed (use Cons in simp)
qed simp

lemma enumerate_codec_entries:
  "enumerate_codec codec adapters d = (Ok cs, d') \<Longrightarrow> cs \<noteq> [] \<and> (\<forall>c \<in> set cs. hardware_entry answers c \<and> ec_codec c = codec)"
proof -
  assume run: "enumerate_codec codec adapters d = (Ok cs, d')"
  then obtain a d1 where run: "(if fa_null a \<or> fa_size a = 0 then
       io_ok [unavailable_hardware codec (lit ''no hardware '' @ codec_label codec @ lit '' encoder MFT was returned by Windows'')]
     else (\<lambda>d. let (cs, d) = inspect_slots codec adapters (map (activation_slot a) [0..<unat (fa_size a)]) d
       in (Ok (if cs = [] then [unavailable_hardware codec (lit ''Windows returned an empty activation list'')] else cs), d))) d1 = (Ok cs, d')"
    unfolding enumerate_codec_def io_then_Ok_iff by blast
  obtain found d2 where found: "inspect_slots codec adapters (map (activation_slot a) [0..<unat (fa_size a)]) d1 = (found, d2)" by fastforce
  from run found inspect_slots_entry [OF found, of answers] show ?thesis
    by (auto simp: io_ok_def split: if_splits)
qed

lemma enumerate_codecs_entries:
  "enumerate_codecs adapters codecs d = (cs, d') \<Longrightarrow>
     (\<forall>c \<in> set cs. hardware_entry answers c) \<and> set codecs \<subseteq> ec_codec ` set cs"
proof (induction codecs arbitrary: d cs d')
  case (Cons codec codecs)
  obtain r d1 where r: "enumerate_codec codec adapters d = (r, d1)" by fastforce
  obtain rest d2 where rest: "enumerate_codecs adapters codecs d1 = (rest, d2)" by fastforce
  let ?found = "case r of Ok cs \<Rightarrow> cs | Err e \<Rightarrow> [unavailable_hardware codec e]"
  have found: "?found \<noteq> [] \<and> (\<forall>c \<in> set ?found. hardware_entry answers c \<and> ec_codec c = codec)"
    using r enumerate_codec_entries [of codec adapters d _ d1] by (cases r) auto
  then have "codec \<in> ec_codec ` set ?found" by (metis image_eqI list.set_sel(1))
  with found Cons.IH [OF rest] Cons.prems r rest show ?case by (auto simp: Let_def)
qed simp

lemma update_first_entries:
  "(\<And>x. x \<in> set xs \<Longrightarrow> p x \<Longrightarrow> q x \<Longrightarrow> q (f x)) \<Longrightarrow> \<forall>x \<in> set xs. q x \<Longrightarrow> \<forall>x \<in> set (update_first p f xs). q x"
  by (induction xs) auto

lemma update_first_map: "(\<And>x. g (f x) = g x) \<Longrightarrow> map g (update_first p f xs) = map g xs"
  by (induction xs) auto

lemma functional_probe_bytes:
  "functional_probe codec d = Some (Ok (name, n, k), d') \<Longrightarrow> 0 < n"
  by (auto simp: functional_probe_def split: prod.splits result.splits dest!: mf_encode_nv12_effect)

lemma apply_probe_entries:
  assumes "functional_probe codec d = Some (r, d')" "\<forall>c \<in> set cs. hardware_entry (dv_answers d) c"
  shows "\<forall>c \<in> set (apply_probe codec r cs). hardware_entry (dv_answers d) c"
proof (cases r)
  case (Ok x)
  obtain name n k where x: "x = (name, n, k)" by (cases x) auto
  with Ok assms(1) functional_probe_bytes [of codec d name n k d'] have "probed (dv_answers d) codec name"
    by (auto simp: probed_def)
  then show ?thesis
    unfolding apply_probe_def Ok x result.case prod.case
    by (intro update_first_entries [OF _ assms(2)]) (auto simp: hardware_entry_def)
next
  case (Err e)
  show ?thesis
    unfolding apply_probe_def Err result.case
    by (intro update_first_entries [OF _ assms(2)]) (auto simp: hardware_entry_def is_usable_def)
qed

lemma apply_probe_software: "apply_probe codec r (software_h264_capability # cs) = software_h264_capability # apply_probe codec r cs"
  by (auto simp: apply_probe_def software_h264_capability_def split: result.splits)

lemma apply_probe_codecs: "map ec_codec (apply_probe codec r cs) = map ec_codec cs"
  by (auto simp: apply_probe_def intro!: update_first_map split: result.splits)

lemma probe_codecs_entries:
  assumes "clock_passes d" "\<forall>c \<in> set cs. hardware_entry (dv_answers d) c"
  shows "\<exists>cs' d'. probe_codecs codecs (software_h264_capability # cs) d = Some (software_h264_capability # cs', d')
    \<and> (\<forall>c \<in> set cs'. hardware_entry (dv_answers d) c) \<and> map ec_codec cs' = map ec_codec cs \<and> dv_answers d' = dv_answers d"
  using assms
proof (induction codecs arbitrary: cs d)
  case (Cons codec codecs)
  from functional_probe_returns [OF Cons.prems(1), of codec] obtain r d1 where
    r: "functional_probe codec d = Some (r, d1)" and a: "dv_answers d1 = dv_answers d" by blast
  from Cons.IH [OF clock_passes_same [OF a Cons.prems(1)], of "apply_probe codec r cs"]
    apply_probe_entries [OF r Cons.prems(2)] r a
  show ?case by (auto simp: apply_probe_software apply_probe_codecs)
qed simp

lemma enumerate_from_answers: "enumerate_from n found d = (r, d') \<Longrightarrow> dv_answers d' = dv_answers d"
proof (induction n arbitrary: found d)
  case (Suc n)
  then show ?case
    by (simp add: Let_def split_beta split: if_splits) (auto simp: ask_def dest: Suc.IH)
qed simp

lemma enumerate_adapters_answers: "enumerate_adapters d = (r, d') \<Longrightarrow> dv_answers d' = dv_answers d"
  by (auto simp: enumerate_adapters_def Let_def ask_def split: if_splits dest: enumerate_from_answers)

lemma input_formats_answers: "input_formats_from n formats d = (r, d') \<Longrightarrow> dv_answers d' = dv_answers d"
proof (induction n arbitrary: formats d)
  case (Suc n)
  then show ?case
    by (simp add: Let_def split_beta split: if_splits option.splits) (auto simp: ask_def dest: Suc.IH)
qed simp

lemma codec_api_facts_answers: "codec_api_facts c d = (c', d') \<Longrightarrow> dv_answers d' = dv_answers d"
  by (auto simp: codec_api_facts_def Let_def ask_def split: if_splits)

lemma probe_activation_answers: "probe_activation c d = (c', d') \<Longrightarrow> dv_answers d' = dv_answers d"
proof -
  assume run: "probe_activation c d = (c', d')"
  obtain formats d1 where f: "available_input_formats (snd (ask d)) = (formats, d1)" by fastforce
  obtain c1 d2 where c1: "codec_api_facts (c\<lparr>ec_input_formats := formats\<rparr>) d1 = (c1, d2)" by fastforce
  obtain r d3 where r: "configure_probe (ec_codec c1) 1280 720 60 5000000 d2 = (r, d3)" by fastforce
  have "dv_answers d3 = dv_answers d"
    using preservesD [OF configure_probe_keeps r] codec_api_facts_answers [OF c1]
      input_formats_answers [OF f [unfolded available_input_formats_def]] by (simp add: ask_def)
  with run f c1 r show ?thesis
    by (auto simp: probe_activation_def Let_def split_beta driver_simps split: option.splits)
qed

lemma inspect_activation_answers: "inspect_activation codec adapters d = (c, d') \<Longrightarrow> dv_answers d' = dv_answers d"
proof -
  assume run: "inspect_activation codec adapters d = (c, d')"
  obtain x d1 where x: "attribute_string d = (x, d1)" by fastforce
  obtain y d2 where y: "attribute_string d1 = (y, d2)" by fastforce
  have "dv_answers d2 = dv_answers d"
    using preservesD [OF attribute_string_keeps(1) x] preservesD [OF attribute_string_keeps(1) y] by simp
  moreover from run x y obtain c0 where "probe_activation c0 (snd (ask d2)) = (c, d')"
    by (simp add: inspect_activation_def Let_def split_beta)
  ultimately show ?thesis using probe_activation_answers by (fastforce simp: ask_def)
qed

lemma inspect_slots_answers: "inspect_slots codec adapters slots d = (cs, d') \<Longrightarrow> dv_answers d' = dv_answers d"
proof (induction slots arbitrary: d cs)
  case (Cons slot slots)
  show ?case
  proof (cases slot)
    case (Some i)
    obtain c d1 where c: "inspect_activation codec adapters d = (c, d1)" by fastforce
    obtain rest d2 where rest: "inspect_slots codec adapters slots d1 = (rest, d2)" by fastforce
    with Some Cons.prems c have "d2 = d'" by simp
    with rest Cons.IH [of d1 rest] inspect_activation_answers [OF c] show ?thesis by simp
  qed (use Cons in simp)
qed simp

lemma enumerate_codec_keeps [preserves_intro]: "preserves dv_answers (enumerate_codec codec adapters)"
  unfolding enumerate_codec_def
  by (intro preserves_intro) (auto simp: preserves_def Let_def split_beta inspect_slots_answers [OF surjective_pairing])

lemma enumerate_codecs_answers: "enumerate_codecs adapters codecs d = (cs, d') \<Longrightarrow> dv_answers d' = dv_answers d"
  by (induction codecs arbitrary: d cs d')
    (auto simp: Let_def split: prod.splits dest: preservesD [OF enumerate_codec_keeps])

definition report_ok :: "(nat \<Rightarrow> driver_answer) \<Rightarrow> encoder_capability list \<Rightarrow> bool" where
  "report_ok answers cs \<longleftrightarrow> cs \<noteq> [] \<and> hd cs = software_h264_capability \<and> (\<forall>c \<in> set (tl cs). hardware_entry answers c)
     \<and> set hardware_codecs \<subseteq> ec_codec ` set (tl cs)"

lemma unavailable_report: "report_ok answers (unavailable_discovery_results reason)"
  by (auto simp: report_ok_def unavailable_discovery_results_def hardware_codecs_def)

lemma discover_on_thread_report:
  assumes "clock_passes d"
  shows "\<exists>cs d'. discover_on_current_thread d = Some (cs, d') \<and> report_ok (dv_answers d) cs"
proof -
  obtain adapters d1 where e: "enumerate_adapters d = (adapters, d1)" by fastforce
  obtain r d2 where i: "initialize_media_foundation d1 = (r, d2)" by fastforce
  have a2: "dv_answers d2 = dv_answers d"
    using enumerate_adapters_answers [OF e] preservesD [OF initialize_keeps(1) i] by simp
  show ?thesis
  proof (cases r)
    case (Err err)
    with e i unavailable_report [of "dv_answers d" err] show ?thesis
      by (simp add: discover_on_current_thread_def unavailable_discovery_results_def)
  next
    case (Ok u)
    obtain found d3 where f: "enumerate_codecs adapters hardware_codecs d2 = (found, d3)" by fastforce
    have a3: "dv_answers d3 = dv_answers d" using enumerate_codecs_answers [OF f] a2 by simp
    from enumerate_codecs_entries [OF f, of "dv_answers d"]
    have entries: "\<forall>c \<in> set found. hardware_entry (dv_answers d) c" "set hardware_codecs \<subseteq> ec_codec ` set found" by auto
    from probe_codecs_entries [OF clock_passes_same [OF a3 assms], of found hardware_codecs] entries a3
    obtain cs d4 where "probe_codecs hardware_codecs (software_h264_capability # found) d3 = Some (software_h264_capability # cs, d4)"
      "\<forall>c \<in> set cs. hardware_entry (dv_answers d) c" "map ec_codec cs = map ec_codec found" by auto
    moreover from this(3) have "ec_codec ` set cs = ec_codec ` set found" by (metis list.set_map)
    ultimately show ?thesis using e i Ok f entries(2) by (auto simp: discover_on_current_thread_def report_ok_def)
  qed
qed

lemma discover_report_exists:
  assumes "clock_passes d"
  shows "\<exists>cs d'. discover_video_encoders outcome d = Some (cs, d') \<and> dv_com d' = dv_com d \<and> report_ok (dv_answers d) cs"
proof -
  have "clock_passes (d\<lparr>dv_com := None\<rparr>)" using assms by (simp add: clock_passes_def)
  from discover_on_thread_report [OF this] obtain cs d1 where
    run: "discover_on_current_thread (d\<lparr>dv_com := None\<rparr>) = Some (cs, d1)" and ok: "report_ok (dv_answers d) cs" by auto
  have com: "dv_com (leave_worker (dv_com d) d1) = dv_com d" by (simp add: leave_worker_def Let_def)
  show ?thesis
    by (cases outcome) (simp_all add: discover_video_encoders_def run com ok unavailable_report)
qed

lemma discover_report:
  "clock_passes d \<Longrightarrow> discover_video_encoders outcome d = Some (cs, d') \<Longrightarrow> report_ok (dv_answers d) cs"
  using discover_report_exists [of d outcome] by auto

text \<open>On a clock that does not stand still, encoder discovery always reports, and the report starts with the software
  H.264 encoder, has a hardware entry for every codec, and calls a hardware entry usable only when a transform of its codec and name
  encoded a frame into bytes; the COM apartment of the calling thread is left as it was.\<close>
theorem encoder_discovery_sound:
  assumes "clock_passes d"
  shows "\<exists>cs d'. discover_video_encoders outcome d = Some (cs, d') \<and> dv_com d' = dv_com d
    \<and> hd cs = software_h264_capability \<and> is_usable (ec_state (hd cs))
    \<and> (\<forall>codec. \<exists>c \<in> set (tl cs). ec_codec c = codec \<and> ec_hardware c)
    \<and> (\<forall>c \<in> set (tl cs). is_usable (ec_state c) \<longrightarrow>
         (\<exists>d0 n k d1. dv_answers d0 = dv_answers d \<and> functional_probe (ec_codec c) d0 = Some (Ok (ec_encoder_name c, n, k), d1) \<and> 0 < n))"
proof -
  from discover_report_exists [OF assms, of outcome]
  obtain cs d' where "discover_video_encoders outcome d = Some (cs, d')" "dv_com d' = dv_com d" and rep: "report_ok (dv_answers d) cs" by blast
  moreover have "\<exists>c \<in> set (tl cs). ec_codec c = codec \<and> ec_hardware c" for codec
  proof -
    have "codec \<in> set hardware_codecs" by (cases codec) (simp_all add: hardware_codecs_def)
    with rep show ?thesis unfolding report_ok_def hardware_entry_def by (metis (no_types, lifting) image_iff subsetD)
  qed
  moreover have "hd cs = software_h264_capability \<and> is_usable (ec_state (hd cs))"
    using rep by (simp add: report_ok_def software_h264_capability_def is_usable_def)
  moreover have "\<exists>d0 n k d1. dv_answers d0 = dv_answers d \<and> functional_probe (ec_codec c) d0 = Some (Ok (ec_encoder_name c, n, k), d1) \<and> 0 < n"
    if "c \<in> set (tl cs)" "is_usable (ec_state c)" for c
    using rep that unfolding report_ok_def hardware_entry_def probed_def by blast
  ultimately show ?thesis by blast
qed

theorem encoder_discovery_sound_witness:
  "\<exists>cs d'. discover_video_encoders WorkerJoined ticking_driver = Some (cs, d') \<and> dv_com d' = None
    \<and> is_usable (ec_state (hd cs)) \<and> (\<exists>c \<in> set (tl cs). ec_codec c = Av1)"
proof -
  obtain cs d' where report: "discover_video_encoders WorkerJoined ticking_driver = Some (cs, d')" "dv_com d' = dv_com ticking_driver"
    "is_usable (ec_state (hd cs))" "\<forall>codec. \<exists>c \<in> set (tl cs). ec_codec c = codec \<and> ec_hardware c"
    using encoder_discovery_sound [OF ticking_clock, of WorkerJoined] by metis
  moreover from report(4) have "\<exists>c \<in> set (tl cs). ec_codec c = Av1" by blast
  ultimately show ?thesis by (auto simp: ticking_driver_def fresh_driver_def)
qed

end
