(* ===== verification/Encoder.thy ===== *)
theory Encoder
  imports Media_Foundation Video
begin

text \<open>
  \<open>crates/host-windows/src/encoder.rs\<close>: the codec-neutral video encoder of the live capture and
  of the benchmarks.  Its two implementations are OpenH264 for the software mode and Media
  Foundation for the others; the second takes frames from system memory or as GPU surfaces, and
  falls back from direct GPU input to a read-back.  OpenH264 is a library the source calls, so its
  answers come from the driver; an answer's null flag is a skipped frame.
\<close>

section \<open>Frames and configurations\<close>

record video_encoder_config =
  vc_codec :: video_codec
  vc_mode :: encoder_mode
  vc_width :: u32
  vc_height :: u32
  vc_max_fps :: u32
  vc_bitrate_bps :: u32

record yuv_buffer =
  yb_width :: nat
  yb_height :: nat
  yb_y :: "u8 list"
  yb_u :: "u8 list"
  yb_v :: "u8 list"

text \<open>The library keeps one luma byte for each pixel and a quarter as many of each chroma.\<close>

definition yuv_ok :: "yuv_buffer \<Rightarrow> bool" where
  "yuv_ok b \<longleftrightarrow> length (yb_y b) = yb_width b * yb_height b \<and> length (yb_u b) = yb_width b * yb_height b div 4
     \<and> length (yb_v b) = yb_width b * yb_height b div 4"

datatype video_frame_data = I420 yuv_buffer | D3D11Nv12 gpu_surface

record video_frame =
  vf_width :: u32
  vf_height :: u32
  vf_data :: video_frame_data

record encoded_packet =
  ep_data :: "u8 list"
  ep_keyframe :: bool

definition i420_to_nv12 :: "yuv_buffer \<Rightarrow> u8 list" where
  "i420_to_nv12 b =
     (let y_len = yb_width b * yb_height b; chroma_len = y_len div 4
      in take y_len (yb_y b) @ concat (map (\<lambda>i. [yb_u b ! i, yb_v b ! i]) [0..<chroma_len]))"

section \<open>OpenH264\<close>

record openh264_video_encoder =
  oh_encoder :: nat
  oh_config :: video_encoder_config

definition make_openh264 :: "video_encoder_config \<Rightarrow> nat io" where
  "make_openh264 cfg =
     io_then (attempt id) (\<lambda>a.
     io_then (perform (CreateOpenH264 (vc_bitrate_bps cfg) (vc_max_fps cfg))) (\<lambda>_. io_ok (fa_handle a)))"

definition openh264_new :: "video_encoder_config \<Rightarrow> openh264_video_encoder io" where
  "openh264_new cfg =
     (if vc_codec cfg \<noteq> H264 \<or> vc_mode cfg \<noteq> H264Software then io_fail (lit ''OpenH264 only implements the H.264 software mode'')
      else io_then (make_openh264 cfg) (\<lambda>h. io_ok \<lparr>oh_encoder = h, oh_config = cfg\<rparr>))"

definition openh264_configure :: "video_encoder_config \<Rightarrow> openh264_video_encoder \<Rightarrow> driver
    \<Rightarrow> (unit, ustring) result \<times> openh264_video_encoder \<times> driver" where
  "openh264_configure cfg e d =
     (if vc_codec cfg \<noteq> H264 \<or> vc_mode cfg \<noteq> H264Software then (Err (lit ''OpenH264 cannot be configured for this mode''), e, d)
      else (case make_openh264 cfg d of
          (Err err, d) \<Rightarrow> (Err err, e, d)
        | (Ok h, d) \<Rightarrow> (Ok (), \<lparr>oh_encoder = h, oh_config = cfg\<rparr>, d)))"

definition openh264_encode :: "video_frame \<Rightarrow> encoded_packet option io" where
  "openh264_encode frame =
     (case vf_data frame of
        D3D11Nv12 _ \<Rightarrow> io_fail (lit ''OpenH264 requires an I420 system-memory frame'')
      | I420 yuv \<Rightarrow>
          io_then (perform (OpenH264Frame (yb_y yuv @ yb_u yuv @ yb_v yuv))) (\<lambda>_.
          io_then (attempt id) (\<lambda>a.
          io_ok (if fa_null a then None
            else Some \<lparr>ep_data = map (fa_memory a) [0..<unat (fa_size a)], ep_keyframe = (fa_number a \<noteq> 0)\<rparr>))))"

section \<open>Media Foundation\<close>

record mf_video_encoder =
  mv_encoder :: "media_foundation_encoder option"
  mv_config :: video_encoder_config
  mv_name :: ustring
  mv_force_rebuild :: bool
  mv_d3d_device_identity :: "nat option"
  mv_memory_mode :: pipeline_memory_mode
  mv_nv12_readback :: nv12_readback
  mv_direct_gpu_disabled :: "nat option"

definition mode_fits :: "video_encoder_config \<Rightarrow> bool" where
  "mode_fits cfg \<longleftrightarrow> requires_hardware (vc_mode cfg) \<and> mode_codec (vc_mode cfg) = Some (vc_codec cfg)"

definition mf_video_new :: "video_encoder_config \<Rightarrow> mf_video_encoder io" where
  "mf_video_new cfg =
     (if \<not> mode_fits cfg then io_fail (lit ''Media Foundation hardware mode and codec do not match'')
      else
        io_then (mf_new (vc_codec cfg) (vc_width cfg) (vc_height cfg) (vc_max_fps cfg) (vc_bitrate_bps cfg)) (\<lambda>e.
        io_ok \<lparr>mv_encoder = Some e, mv_config = cfg, mv_name = me_encoder_name e, mv_force_rebuild = False,
          mv_d3d_device_identity = None, mv_memory_mode = CpuPreprocessing, mv_nv12_readback = empty_readback,
          mv_direct_gpu_disabled = None\<rparr>))"

definition rebuild :: "u32 \<Rightarrow> u32 \<Rightarrow> gpu_surface option \<Rightarrow> mf_video_encoder \<Rightarrow> driver
    \<Rightarrow> (unit, ustring) result \<times> mf_video_encoder \<times> driver" where
  "rebuild w h gpu v d =
     (let cfg = (mv_config v)\<lparr>vc_width := w, vc_height := h\<rparr>; v = v\<lparr>mv_config := cfg\<rparr>
      in case (case gpu of
            Some s \<Rightarrow> mf_new_with_d3d11 (vc_codec cfg) w h (vc_max_fps cfg) (vc_bitrate_bps cfg) (gs_device s) d
          | None \<Rightarrow> mf_new (vc_codec cfg) w h (vc_max_fps cfg) (vc_bitrate_bps cfg) d) of
           (Err err, d) \<Rightarrow> (Err err, v, d)
         | (Ok e, d) \<Rightarrow>
             (Ok (), v\<lparr>mv_name := me_encoder_name e, mv_encoder := Some e, mv_force_rebuild := False,
                mv_d3d_device_identity := map_option device_identity gpu,
                mv_memory_mode := (if gpu \<noteq> None then GpuZeroCopy else CpuPreprocessing)\<rparr>, d))"

definition shut_down_error :: ustring where
  "shut_down_error = lit ''hardware encoder is shut down''"

text \<open>The encoder behind the option takes the frame and stays where it is.\<close>

definition with_encoder ::
    "(media_foundation_encoder \<Rightarrow> driver \<Rightarrow> media_foundation_encoder encoded) \<Rightarrow> mf_video_encoder \<Rightarrow> driver \<Rightarrow> mf_video_encoder encoded" where
  "with_encoder f v d =
     (case mv_encoder v of
        None \<Rightarrow> Some (Err shut_down_error, v, d)
      | Some e \<Rightarrow> map_option (\<lambda>(r, e, d). (r, v\<lparr>mv_encoder := Some e\<rparr>, d)) (f e d))"

definition rebuild_if :: "bool \<Rightarrow> u32 \<Rightarrow> u32 \<Rightarrow> mf_video_encoder \<Rightarrow> driver \<Rightarrow> (unit, ustring) result \<times> mf_video_encoder \<times> driver" where
  "rebuild_if needed w h v d = (if needed then rebuild w h None v d else (Ok (), v, d))"

definition size_differs :: "u32 \<Rightarrow> u32 \<Rightarrow> mf_video_encoder \<Rightarrow> bool" where
  "size_differs w h v \<longleftrightarrow> (w, h) \<noteq> (vc_width (mv_config v), vc_height (mv_config v))"

definition encode_gpu_assisted :: "gpu_surface \<Rightarrow> mf_video_encoder \<Rightarrow> driver \<Rightarrow> mf_video_encoder encoded" where
  "encode_gpu_assisted s v d =
     (case nv12_read s (mv_nv12_readback v) d of
        (Err err, rb, d) \<Rightarrow> Some (Err err, v\<lparr>mv_nv12_readback := rb\<rparr>, d)
      | (Ok nv12, rb, d) \<Rightarrow>
          (let v = v\<lparr>mv_nv12_readback := rb\<rparr>
           in case rebuild_if (mv_force_rebuild v \<or> mv_d3d_device_identity v \<noteq> None \<or> mv_encoder v = None
                  \<or> size_differs (gs_width s) (gs_height s) v) (gs_width s) (gs_height s) v d of
                (Err err, v, d) \<Rightarrow> Some (Err err, v, d)
              | (Ok _, v, d) \<Rightarrow> with_encoder (mf_encode_nv12 nv12) (v\<lparr>mv_memory_mode := GpuAssisted\<rparr>) d))"

definition encode_i420 :: "yuv_buffer \<Rightarrow> u32 \<Rightarrow> u32 \<Rightarrow> mf_video_encoder \<Rightarrow> driver \<Rightarrow> mf_video_encoder encoded" where
  "encode_i420 yuv w h v d =
     (case rebuild_if (mv_force_rebuild v \<or> size_differs w h v \<or> mv_d3d_device_identity v \<noteq> None) w h v d of
        (Err err, v, d) \<Rightarrow> Some (Err err, v, d)
      | (Ok _, v, d) \<Rightarrow> with_encoder (mf_encode_nv12 (i420_to_nv12 yuv)) (v\<lparr>mv_memory_mode := CpuPreprocessing\<rparr>) d)"

definition encode_direct :: "gpu_surface \<Rightarrow> mf_video_encoder \<Rightarrow> driver \<Rightarrow> mf_video_encoder encoded" where
  "encode_direct s v d =
     (case mv_encoder v of
        None \<Rightarrow> Some (Err shut_down_error, v, d)
      | Some e \<Rightarrow>
          (case mf_encode_nv12_surface s e d of
             None \<Rightarrow> None
           | Some (Ok f, e, d) \<Rightarrow> Some (Ok f, v\<lparr>mv_encoder := Some e\<rparr>, d)
           | Some (Err _, e, d) \<Rightarrow>
               encode_gpu_assisted s (v\<lparr>mv_encoder := Some e, mv_direct_gpu_disabled := Some (device_identity s)\<rparr>) d))"

definition encode_gpu :: "gpu_surface \<Rightarrow> u32 \<Rightarrow> u32 \<Rightarrow> mf_video_encoder \<Rightarrow> driver \<Rightarrow> mf_video_encoder encoded" where
  "encode_gpu s w h v d =
     (if mv_direct_gpu_disabled v = Some (device_identity s) then encode_gpu_assisted s v d
      else if mv_force_rebuild v \<or> size_differs w h v \<or> mv_d3d_device_identity v \<noteq> Some (device_identity s) then
        (case rebuild w h (Some s) v d of
           (Err _, v, d) \<Rightarrow> encode_gpu_assisted s (v\<lparr>mv_direct_gpu_disabled := Some (device_identity s)\<rparr>) d
         | (Ok _, v, d) \<Rightarrow> encode_direct s (v\<lparr>mv_memory_mode := GpuZeroCopy\<rparr>) d)
      else encode_direct s (v\<lparr>mv_memory_mode := GpuZeroCopy\<rparr>) d)"

definition packet_of :: "hardware_encoded_frame \<Rightarrow> encoded_packet" where
  "packet_of f = \<lparr>ep_data = hf_data f, ep_keyframe = hf_keyframe f\<rparr>"

definition mf_video_encode :: "video_frame \<Rightarrow> mf_video_encoder \<Rightarrow> driver
    \<Rightarrow> ((encoded_packet option, ustring) result \<times> mf_video_encoder \<times> driver) option" where
  "mf_video_encode frame v d =
     map_option (\<lambda>(r, v, d). (map_ok (\<lambda>f. Some (packet_of f)) r, v, d))
       (case vf_data frame of
          I420 yuv \<Rightarrow> encode_i420 yuv (vf_width frame) (vf_height frame) v d
        | D3D11Nv12 s \<Rightarrow> encode_gpu s (vf_width frame) (vf_height frame) v d)"

definition mf_video_configure :: "video_encoder_config \<Rightarrow> mf_video_encoder \<Rightarrow> driver
    \<Rightarrow> (unit, ustring) result \<times> mf_video_encoder \<times> driver" where
  "mf_video_configure cfg v d =
     (if \<not> mode_fits cfg then (Err (lit ''Media Foundation hardware mode and codec do not match''), v, d)
      else rebuild (vc_width cfg) (vc_height cfg) None (v\<lparr>mv_config := cfg, mv_direct_gpu_disabled := None\<rparr>) d)"

definition mf_video_request_keyframe :: "mf_video_encoder \<Rightarrow> mf_video_encoder" where
  "mf_video_request_keyframe v = v\<lparr>mv_force_rebuild := True\<rparr>"

definition mf_video_shutdown :: "mf_video_encoder \<Rightarrow> mf_video_encoder" where
  "mf_video_shutdown v = v\<lparr>mv_encoder := None, mv_d3d_device_identity := None\<rparr>"

section \<open>The codec-neutral encoder\<close>

datatype video_encoder = SoftwareEncoder openh264_video_encoder | HardwareEncoder mf_video_encoder

definition create_video_encoder :: "video_encoder_config \<Rightarrow> video_encoder io" where
  "create_video_encoder cfg =
     (if vc_mode cfg = H264Software then io_then (openh264_new cfg) (\<lambda>e. io_ok (SoftwareEncoder e))
      else io_then (mf_video_new cfg) (\<lambda>e. io_ok (HardwareEncoder e)))"

primrec encoder_codec :: "video_encoder \<Rightarrow> video_codec" where
  "encoder_codec (SoftwareEncoder e) = H264"
| "encoder_codec (HardwareEncoder v) = vc_codec (mv_config v)"

primrec encoder_backend_of :: "video_encoder \<Rightarrow> encoder_backend" where
  "encoder_backend_of (SoftwareEncoder e) = OpenH264Software"
| "encoder_backend_of (HardwareEncoder v) = MediaFoundationHardware"

primrec encoder_name :: "video_encoder \<Rightarrow> ustring" where
  "encoder_name (SoftwareEncoder e) = lit ''OpenH264 software encoder''"
| "encoder_name (HardwareEncoder v) = mv_name v"

primrec encoder_memory_mode :: "video_encoder \<Rightarrow> pipeline_memory_mode" where
  "encoder_memory_mode (SoftwareEncoder e) = CpuPreprocessing"
| "encoder_memory_mode (HardwareEncoder v) = mv_memory_mode v"

primrec encoder_configure :: "video_encoder_config \<Rightarrow> video_encoder \<Rightarrow> driver \<Rightarrow> (unit, ustring) result \<times> video_encoder \<times> driver" where
  "encoder_configure cfg (SoftwareEncoder e) d = (case openh264_configure cfg e d of (r, e, d) \<Rightarrow> (r, SoftwareEncoder e, d))"
| "encoder_configure cfg (HardwareEncoder v) d = (case mf_video_configure cfg v d of (r, v, d) \<Rightarrow> (r, HardwareEncoder v, d))"

primrec encoder_encode :: "video_frame \<Rightarrow> video_encoder \<Rightarrow> driver
    \<Rightarrow> ((encoded_packet option, ustring) result \<times> video_encoder \<times> driver) option" where
  "encoder_encode frame (SoftwareEncoder e) d = (case openh264_encode frame d of (r, d) \<Rightarrow> Some (r, SoftwareEncoder e, d))"
| "encoder_encode frame (HardwareEncoder v) d =
     map_option (\<lambda>(r, v, d). (r, HardwareEncoder v, d)) (mf_video_encode frame v d)"

primrec encoder_request_keyframe :: "video_encoder \<Rightarrow> driver \<Rightarrow> (unit, ustring) result \<times> video_encoder \<times> driver" where
  "encoder_request_keyframe (SoftwareEncoder e) d = (Ok (), SoftwareEncoder e, issue ForceIntraFrame d)"
| "encoder_request_keyframe (HardwareEncoder v) d = (Ok (), HardwareEncoder (mf_video_request_keyframe v), d)"

primrec encoder_shutdown :: "video_encoder \<Rightarrow> video_encoder" where
  "encoder_shutdown (SoftwareEncoder e) = SoftwareEncoder e"
| "encoder_shutdown (HardwareEncoder v) = HardwareEncoder (mf_video_shutdown v)"

section \<open>Planes\<close>

definition nv12_planes :: "nat \<Rightarrow> nat \<Rightarrow> u8 list \<Rightarrow> yuv_buffer" where
  "nv12_planes w h bytes =
     (let y_len = w * h; chroma = drop y_len bytes; n = y_len div 4
      in \<lparr>yb_width = w, yb_height = h, yb_y = take y_len bytes,
          yb_u = map (\<lambda>i. chroma ! (2 * i)) [0..<n], yb_v = map (\<lambda>i. chroma ! (2 * i + 1)) [0..<n]\<rparr>)"

lemma length_pairs: "length (concat (map (\<lambda>i. [f i, g i]) [0..<n])) = 2 * n"
  by (induction n) auto

lemma nth_pairs: "i < n \<Longrightarrow> concat (map (\<lambda>i. [f i, g i]) [0..<n]) ! (2 * i) = f i
    \<and> concat (map (\<lambda>i. [f i, g i]) [0..<n]) ! (2 * i + 1) = g i"
proof (induction n)
  case (Suc n)
  have len: "length (concat (map (\<lambda>i. [f i, g i]) [0..<n])) = 2 * n" by (rule length_pairs)
  show ?case
  proof (cases "i < n")
    case True
    with Suc.IH show ?thesis by (simp add: nth_append len)
  next
    case False
    with Suc.prems have "i = n" by simp
    then show ?thesis by (simp add: nth_append len)
  qed
qed simp

text \<open>Interleaving the chroma planes of a well-formed I420 picture loses nothing: the NV12 bytes have one and a half
  bytes for each pixel and give back all three planes.\<close>
theorem i420_nv12_roundtrip:
  assumes "yuv_ok b"
  shows "nv12_planes (yb_width b) (yb_height b) (i420_to_nv12 b) = b
    \<and> length (i420_to_nv12 b) = yb_width b * yb_height b + 2 * (yb_width b * yb_height b div 4)"
proof -
  let ?n = "yb_width b * yb_height b div 4"
  let ?pairs = "concat (map (\<lambda>i. [yb_u b ! i, yb_v b ! i]) [0..<?n])"
  have y: "take (yb_width b * yb_height b) (yb_y b) = yb_y b" using assms by (simp add: yuv_ok_def)
  have "map (\<lambda>i. ?pairs ! (2 * i)) [0..<?n] = yb_u b" "map (\<lambda>i. ?pairs ! (2 * i + 1)) [0..<?n] = yb_v b"
    using assms nth_pairs [of _ ?n "\<lambda>i. yb_u b ! i" "\<lambda>i. yb_v b ! i"]
    by (auto simp: yuv_ok_def intro!: nth_equalityI)
  with assms y show ?thesis
    by (simp add: nv12_planes_def i420_to_nv12_def Let_def yuv_ok_def length_pairs)
qed

definition small_picture :: yuv_buffer where
  "small_picture = \<lparr>yb_width = 4, yb_height = 2, yb_y = [1, 2, 3, 4, 5, 6, 7, 8], yb_u = [9, 10], yb_v = [11, 12]\<rparr>"

theorem i420_nv12_roundtrip_witness:
  "i420_to_nv12 small_picture = [1, 2, 3, 4, 5, 6, 7, 8, 9, 11, 10, 12] \<and> nv12_planes 4 2 (i420_to_nv12 small_picture) = small_picture"
proof -
  have "yuv_ok small_picture" by (simp add: yuv_ok_def small_picture_def)
  from i420_nv12_roundtrip [OF this] show ?thesis
    by (simp add: small_picture_def i420_to_nv12_def upt_rec)
qed

section \<open>The state of the hardware encoder\<close>

lemma attach_d3d_manager_ok: "attach_d3d_manager name device d = (Ok m, d') \<Longrightarrow> m \<noteq> None \<longleftrightarrow> device \<noteq> None"
  by (auto simp: attach_d3d_manager_def io_then_Ok_iff io_ok_def io_fail_def split: option.splits if_splits)

lemma mf_new_internal_ok:
  "mf_new_internal codec w h rate bits device d = (Ok e, d') \<Longrightarrow>
     me_codec e = codec \<and> (me_d3d_manager e \<noteq> None \<longleftrightarrow> device \<noteq> None) \<and> me_next_timestamp e = 0"
  unfolding mf_new_internal_def io_then_Ok_iff Let_def
  by (elim exE conjE, drule attach_d3d_manager_ok) (auto simp: io_then_Ok_iff io_ok_def)

definition same_transform :: "media_foundation_encoder \<Rightarrow> media_foundation_encoder \<Rightarrow> bool" where
  "same_transform e e' \<longleftrightarrow> (\<exists>t. e' = e\<lparr>me_next_timestamp := t\<rparr>)"

lemma same_transform_keeps: "same_transform e e' \<Longrightarrow> me_codec e' = me_codec e \<and> me_d3d_manager e' = me_d3d_manager e"
  by (auto simp: same_transform_def)

lemma same_transform_refl [simp]: "same_transform e e"
  unfolding same_transform_def by (rule exI [of _ "me_next_timestamp e"]) simp

lemma mf_encode_same:
  "mf_encode_nv12 nv12 e d = Some (r, e', d') \<Longrightarrow> same_transform e e'"
  by (drule mf_encode_nv12_effect) (auto, auto simp: same_transform_def)

lemma mf_surface_cases:
  assumes "mf_encode_nv12_surface s e d = Some (r, e', d')"
  shows "same_transform e e' \<and> (\<exists>new. submissions d' = submissions d @ new \<and> (\<forall>(x, t) \<in> set new. x = SampleTexture (gs_texture s)))"
proof -
  obtain st d1 where st: "surface_sample d = (st, d1)" by fastforce
  have log1: "submissions d1 = submissions d" using preservesD [OF sample_keeps(4) st] by (simp add: submissions_def)
  consider "e' = e" "d' = d" | "e' = e" "submissions d' = submissions d"
    | "mf_encode_sample (SampleTexture (gs_texture s)) e d1 = Some (r, e', d')"
    using assms st log1 by (auto simp: mf_encode_nv12_surface_def split: if_splits result.splits)
  then show ?thesis
  proof cases
    case 3
    from mf_encode_sample_effect [OF 3] log1 show ?thesis by (auto simp: same_transform_def)
  qed auto
qed

definition hardware_ok :: "encoder_mode \<Rightarrow> mf_video_encoder \<Rightarrow> bool" where
  "hardware_ok md v \<longleftrightarrow> vc_mode (mv_config v) = md \<and> mode_fits (mv_config v) \<and> mv_memory_mode v \<noteq> CpuCopy
     \<and> (case mv_encoder v of
          None \<Rightarrow> mv_d3d_device_identity v = None
        | Some e \<Rightarrow> me_codec e = vc_codec (mv_config v) \<and> (me_d3d_manager e \<noteq> None \<longleftrightarrow> mv_d3d_device_identity v \<noteq> None)
            \<and> (mv_memory_mode v = GpuZeroCopy \<longleftrightarrow> mv_d3d_device_identity v \<noteq> None))"

definition resized :: "u32 \<Rightarrow> u32 \<Rightarrow> mf_video_encoder \<Rightarrow> mf_video_encoder" where
  "resized w h v = v\<lparr>mv_config := (mv_config v)\<lparr>vc_width := w, vc_height := h\<rparr>\<rparr>"

lemma rebuild_cases:
  assumes "rebuild w h gpu v d = (r, v', d')"
  obtains (failed) err where "r = Err err" "v' = resized w h v"
  | (built) e where "r = Ok ()" "me_codec e = vc_codec (mv_config v)" "me_d3d_manager e \<noteq> None \<longleftrightarrow> gpu \<noteq> None"
      "v' = (resized w h v)\<lparr>mv_name := me_encoder_name e, mv_encoder := Some e, mv_force_rebuild := False,
                mv_d3d_device_identity := map_option device_identity gpu,
                mv_memory_mode := (if gpu \<noteq> None then GpuZeroCopy else CpuPreprocessing)\<rparr>"
proof -
  let ?cfg = "mv_config (resized w h v)"
  let ?new = "mf_new_internal (vc_codec ?cfg) w h (vc_max_fps ?cfg) (vc_bitrate_bps ?cfg) (map_option gs_device gpu) d"
  obtain m d1 where m: "?new = (m, d1)" by fastforce
  note unfold = rebuild_def Let_def resized_def mf_new_def mf_new_with_d3d11_def
  show thesis
  proof (cases m)
    case (Err err)
    from Err m assms have "r = Err err \<and> v' = resized w h v"
      by (cases gpu) (auto simp: unfold)
    then show ?thesis by (intro failed) auto
  next
    case (Ok e)
    have e: "me_codec e = vc_codec (mv_config v)" "me_d3d_manager e \<noteq> None \<longleftrightarrow> gpu \<noteq> None"
      using mf_new_internal_ok [OF m [unfolded Ok]] by (simp_all add: resized_def)
    from Ok m assms have "r = Ok () \<and> v' = (resized w h v)\<lparr>mv_name := me_encoder_name e, mv_encoder := Some e,
        mv_force_rebuild := False, mv_d3d_device_identity := map_option device_identity gpu,
        mv_memory_mode := (if gpu \<noteq> None then GpuZeroCopy else CpuPreprocessing)\<rparr>"
      by (cases gpu) (auto simp: unfold)
    with e show ?thesis by (intro built [of e]) auto
  qed
qed

lemma rebuild_ok:
  assumes "rebuild w h gpu v d = (r, v', d')" "hardware_ok md v"
  shows "hardware_ok md v' \<and> mv_direct_gpu_disabled v' = mv_direct_gpu_disabled v
    \<and> (r = Ok () \<longrightarrow> mv_encoder v' \<noteq> None \<and> mv_d3d_device_identity v' = map_option device_identity gpu)"
  using assms(1)
proof (cases rule: rebuild_cases)
  case (failed err)
  with assms(2) show ?thesis by (auto simp: hardware_ok_def resized_def mode_fits_def split: option.splits)
next
  case (built e)
  with assms(2) show ?thesis by (cases gpu) (auto simp: hardware_ok_def resized_def mode_fits_def)
qed

lemma rebuild_if_ok:
  assumes "rebuild_if b w h v d = (r, v', d')" "hardware_ok md v" "mv_d3d_device_identity v \<noteq> None \<Longrightarrow> b"
  shows "hardware_ok md v' \<and> mv_direct_gpu_disabled v' = mv_direct_gpu_disabled v
    \<and> (r = Ok () \<longrightarrow> mv_d3d_device_identity v' = None)"
  using assms rebuild_ok [of w h None v d r v' d']
  by (cases "mv_d3d_device_identity v") (auto simp: rebuild_if_def split: if_splits)

lemma with_encoder_ok:
  assumes "with_encoder (mf_encode_nv12 nv12) v d = Some (r, v', d')" "hardware_ok md v"
  shows "hardware_ok md v' \<and> mv_direct_gpu_disabled v' = mv_direct_gpu_disabled v \<and> mv_memory_mode v' = mv_memory_mode v"
proof (cases "mv_encoder v")
  case (Some e)
  with assms obtain e' where e': "mf_encode_nv12 nv12 e d = Some (r, e', d')" "v' = v\<lparr>mv_encoder := Some e'\<rparr>"
    by (auto simp: with_encoder_def)
  from same_transform_keeps [OF mf_encode_same [OF e'(1)]] e'(2) Some assms(2) show ?thesis
    by (auto simp: hardware_ok_def)
qed (use assms in \<open>auto simp: with_encoder_def\<close>)

lemma memory_mode_ok:
  "hardware_ok md v \<Longrightarrow> mv_d3d_device_identity v = None \<Longrightarrow> m \<noteq> CpuCopy \<Longrightarrow> m \<noteq> GpuZeroCopy \<Longrightarrow> hardware_ok md (v\<lparr>mv_memory_mode := m\<rparr>)"
  by (auto simp: hardware_ok_def split: option.splits)

lemma hardware_ok_bookkeeping:
  "hardware_ok md (v\<lparr>mv_nv12_readback := rb\<rparr>) = hardware_ok md v"
  "hardware_ok md (v\<lparr>mv_direct_gpu_disabled := g\<rparr>) = hardware_ok md v"
  "hardware_ok md (v\<lparr>mv_force_rebuild := b\<rparr>) = hardware_ok md v"
  by (cases "mv_encoder v"; simp add: hardware_ok_def)+

lemma encode_gpu_assisted_ok:
  assumes "encode_gpu_assisted s v d = Some (r, v', d')" "hardware_ok md v"
  shows "hardware_ok md v' \<and> mv_direct_gpu_disabled v' = mv_direct_gpu_disabled v \<and> (is_ok r \<longrightarrow> mv_memory_mode v' = GpuAssisted)"
proof -
  obtain n rb d1 where n: "nv12_read s (mv_nv12_readback v) d = (n, rb, d1)" by (metis prod_cases3)
  let ?v = "v\<lparr>mv_nv12_readback := rb\<rparr>"
  have v: "hardware_ok md ?v" using assms(2) by (simp add: hardware_ok_bookkeeping)
  show ?thesis
  proof (cases n)
    case (Err err)
    with n v assms(1) show ?thesis by (auto simp: encode_gpu_assisted_def)
  next
    case (Ok nv12)
    let ?b = "mv_force_rebuild v \<or> mv_d3d_device_identity v \<noteq> None \<or> mv_encoder v = None \<or> size_differs (gs_width s) (gs_height s) ?v"
    obtain rr v2 d2 where rb: "rebuild_if ?b (gs_width s) (gs_height s) ?v d1 = (rr, v2, d2)" by (metis prod_cases3)
    from rebuild_if_ok [OF rb v] have v2: "hardware_ok md v2" "mv_direct_gpu_disabled v2 = mv_direct_gpu_disabled v"
      "rr = Ok () \<Longrightarrow> mv_d3d_device_identity v2 = None" by auto
    show ?thesis
    proof (cases rr)
      case (Err err)
      with n Ok rb v2 assms(1) show ?thesis by (auto simp: encode_gpu_assisted_def)
    next
      case Done: (Ok u)
      with v2 have "hardware_ok md (v2\<lparr>mv_memory_mode := GpuAssisted\<rparr>)" by (intro memory_mode_ok) auto
      moreover from n Ok rb Done assms(1)
      have "with_encoder (mf_encode_nv12 nv12) (v2\<lparr>mv_memory_mode := GpuAssisted\<rparr>) d2 = Some (r, v', d')"
        by (simp add: encode_gpu_assisted_def Let_def)
      ultimately show ?thesis using with_encoder_ok v2(2) by fastforce
    qed
  qed
qed

lemma encode_i420_ok:
  assumes "encode_i420 yuv w h v d = Some (r, v', d')" "hardware_ok md v"
  shows "hardware_ok md v'"
proof -
  let ?b = "mv_force_rebuild v \<or> size_differs w h v \<or> mv_d3d_device_identity v \<noteq> None"
  obtain rr v2 d2 where rb: "rebuild_if ?b w h v d = (rr, v2, d2)" by (metis prod_cases3)
  from rebuild_if_ok [OF rb assms(2)] have v2: "hardware_ok md v2" "rr = Ok () \<Longrightarrow> mv_d3d_device_identity v2 = None" by auto
  show ?thesis
  proof (cases rr)
    case (Ok u)
    with v2 have "hardware_ok md (v2\<lparr>mv_memory_mode := CpuPreprocessing\<rparr>)" by (intro memory_mode_ok) auto
    moreover from rb Ok assms(1)
    have "with_encoder (mf_encode_nv12 (i420_to_nv12 yuv)) (v2\<lparr>mv_memory_mode := CpuPreprocessing\<rparr>) d2 = Some (r, v', d')"
      by (simp add: encode_i420_def)
    ultimately show ?thesis using with_encoder_ok by fastforce
  qed (use rb v2 assms(1) in \<open>auto simp: encode_i420_def\<close>)
qed

lemma encode_direct_ok:
  assumes "encode_direct s v d = Some (r, v', d')" "hardware_ok md v"
  shows "hardware_ok md v' \<and> mv_direct_gpu_disabled v' \<in> {mv_direct_gpu_disabled v, Some (device_identity s)}"
proof (cases "mv_encoder v")
  case (Some e)
  with assms(1) obtain r1 e1 d1 where one: "mf_encode_nv12_surface s e d = Some (r1, e1, d1)"
    by (auto simp: encode_direct_def split: option.splits)
  have v1: "hardware_ok md (v\<lparr>mv_encoder := Some e1\<rparr>)"
    using same_transform_keeps [of e e1] mf_surface_cases [OF one] Some assms(2) by (auto simp: hardware_ok_def)
  show ?thesis
  proof (cases r1)
    case (Err err)
    with one Some assms(1)
    have "encode_gpu_assisted s (v\<lparr>mv_encoder := Some e1, mv_direct_gpu_disabled := Some (device_identity s)\<rparr>) d1 = Some (r, v', d')"
      by (simp add: encode_direct_def)
    from encode_gpu_assisted_ok [OF this] v1 show ?thesis by (simp add: hardware_ok_bookkeeping)
  qed (use one Some v1 assms(1) in \<open>auto simp: encode_direct_def\<close>)
qed (use assms in \<open>auto simp: encode_direct_def\<close>)

lemma encode_gpu_ok:
  assumes "encode_gpu s w h v d = Some (r, v', d')" "hardware_ok md v"
  shows "hardware_ok md v'"
proof -
  consider (off) "mv_direct_gpu_disabled v = Some (device_identity s)" "encode_gpu_assisted s v d = Some (r, v', d')"
    | (failed) e v1 d1 where "rebuild w h (Some s) v d = (Err e, v1, d1)"
        "encode_gpu_assisted s (v1\<lparr>mv_direct_gpu_disabled := Some (device_identity s)\<rparr>) d1 = Some (r, v', d')"
    | (built) u v1 d1 where "rebuild w h (Some s) v d = (Ok u, v1, d1)"
        "encode_direct s (v1\<lparr>mv_memory_mode := GpuZeroCopy\<rparr>) d1 = Some (r, v', d')"
    | (direct) "mv_d3d_device_identity v = Some (device_identity s)" "encode_direct s (v\<lparr>mv_memory_mode := GpuZeroCopy\<rparr>) d = Some (r, v', d')"
    using assms(1) by (auto simp: encode_gpu_def split: if_splits prod.splits result.splits)
  then show ?thesis
  proof cases
    case off
    from encode_gpu_assisted_ok [OF off(2) assms(2)] show ?thesis by simp
  next
    case failed
    from rebuild_ok [OF failed(1) assms(2)] encode_gpu_assisted_ok [OF failed(2), of md] show ?thesis by (simp add: hardware_ok_bookkeeping)
  next
    case built
    from rebuild_ok [OF built(1) assms(2)] have "hardware_ok md (v1\<lparr>mv_memory_mode := GpuZeroCopy\<rparr>)"
      by (auto simp: hardware_ok_def)
    from encode_direct_ok [OF built(2) this] show ?thesis by simp
  next
    case direct
    with assms(2) have "hardware_ok md (v\<lparr>mv_memory_mode := GpuZeroCopy\<rparr>)" by (auto simp: hardware_ok_def split: option.splits)
    from encode_direct_ok [OF direct(2) this] show ?thesis by simp
  qed
qed

text \<open>
  The life of a hardware encoder.  A configuration that fails leaves the old transform behind the new
  configuration, so the history goes on only after one that succeeded.
\<close>

inductive hardware_run :: "mf_video_encoder \<Rightarrow> bool" where
  hardware_created: "mf_video_new cfg d = (Ok v, d') \<Longrightarrow> hardware_run v"
| hardware_encoded: "hardware_run v \<Longrightarrow> mf_video_encode frame v d = Some (r, v', d') \<Longrightarrow> hardware_run v'"
| hardware_configured: "hardware_run v \<Longrightarrow> mf_video_configure cfg v d = (Ok u, v', d') \<Longrightarrow> hardware_run v'"
| hardware_keyframe: "hardware_run v \<Longrightarrow> hardware_run (mf_video_request_keyframe v)"
| hardware_shut_down: "hardware_run v \<Longrightarrow> hardware_run (mf_video_shutdown v)"

lemma mf_video_new_ok: "mf_video_new cfg d = (Ok v, d') \<Longrightarrow> hardware_ok (vc_mode cfg) v"
  by (auto simp: mf_video_new_def io_then_Ok_iff io_ok_def io_fail_def mf_new_def hardware_ok_def
      dest!: mf_new_internal_ok split: if_splits)

lemma mf_video_encode_ok:
  assumes "mf_video_encode frame v d = Some (r, v', d')" "hardware_ok md v"
  shows "hardware_ok md v'"
  using assms encode_i420_ok encode_gpu_ok
  by (cases "vf_data frame") (fastforce simp: mf_video_encode_def)+

lemma mf_video_configure_ok:
  assumes "mf_video_configure cfg v d = (Ok u, v', d')" "hardware_ok md v"
  shows "hardware_ok (vc_mode cfg) v'"
proof -
  let ?v = "v\<lparr>mv_config := cfg, mv_direct_gpu_disabled := None\<rparr>"
  from assms(1) have fits: "mode_fits cfg" and run: "rebuild (vc_width cfg) (vc_height cfg) None ?v d = (Ok u, v', d')"
    by (auto simp: mf_video_configure_def split: if_splits)
  from run show ?thesis
    by (cases rule: rebuild_cases) (use fits assms(2) in \<open>auto simp: hardware_ok_def resized_def mode_fits_def\<close>)
qed

lemma mf_video_shutdown_ok: "hardware_ok md v \<Longrightarrow> hardware_ok md (mf_video_shutdown v)"
  by (simp add: mf_video_shutdown_def hardware_ok_def)

lemma mf_video_keyframe_ok: "hardware_ok md v \<Longrightarrow> hardware_ok md (mf_video_request_keyframe v)"
  by (simp add: mf_video_request_keyframe_def hardware_ok_bookkeeping)

lemma hardware_run_ok: "hardware_run v \<Longrightarrow> \<exists>md. hardware_ok md v"
proof (induction rule: hardware_run.induct)
  case (hardware_created cfg d v d')
  then show ?case by (blast intro: mf_video_new_ok)
next
  case (hardware_encoded v frame d r v' d')
  then show ?case by (blast intro: mf_video_encode_ok)
next
  case (hardware_configured v cfg d u v' d')
  then show ?case by (blast intro: mf_video_configure_ok)
qed (blast intro: mf_video_shutdown_ok mf_video_keyframe_ok)+


definition hd_config :: video_encoder_config where
  "hd_config = \<lparr>vc_codec = Hevc, vc_mode = HevcHardware, vc_width = 640, vc_height = 360, vc_max_fps = 30, vc_bitrate_bps = 2000000\<rparr>"

definition generous_answer :: driver_answer where
  "generous_answer = quiet_answer\<lparr>fa_size := METransformHaveOutput, fa_memory := (\<lambda>_. 1)\<rparr>"

definition generous_driver :: driver where
  "generous_driver = fresh_driver (\<lambda>_. generous_answer)"

text \<open>The call of a constructor whose every call succeeds.\<close>

definition generous :: "driver \<Rightarrow> bool" where
  "generous d \<longleftrightarrow> dv_answers d = (\<lambda>_. generous_answer) \<and> dv_com d \<in> {None, Some (Ok True)} \<and> dv_startup d \<in> {None, Some (Ok ())}"

definition yields :: "'a io \<Rightarrow> 'a \<Rightarrow> bool" where
  "yields m x \<longleftrightarrow> (\<forall>d. generous d \<longrightarrow> (\<exists>d'. m d = (Ok x, d') \<and> generous d'))"

lemma yields_then: "yields m x \<Longrightarrow> yields (k x) y \<Longrightarrow> yields (io_then m k) y"
  by (fastforce simp: yields_def io_then_def)

lemma generous_answers: "fa_error generous_answer = None"
  "fa_null generous_answer = False" "fa_size generous_answer = METransformHaveOutput" "fa_memory generous_answer k = 1"
  "fa_number generous_answer = 0" "fa_clock generous_answer = 0" "fa_code generous_answer = 0" "fa_handle generous_answer = 1"
  by (simp_all add: generous_answer_def quiet_answer_def)

lemma generous_ask: "generous d \<Longrightarrow> fst (ask d) = generous_answer \<and> generous (snd (ask d))"
  by (simp add: generous_def ask_def)

lemma generous_issue: "generous d \<Longrightarrow> generous (issue c d)"
  by (simp add: generous_def issue_def)

lemma yields_basic:
  "yields (io_ok x) x" "yields (attempt w) generous_answer" "yields (perform c) ()" "yields (ignore_calls n) ()"
  "yields (io_lift (Ok x)) x" "yields m x \<Longrightarrow> yields (io_map_error g m) x"
proof -
  have "\<exists>d'. ignore_calls n d = (Ok (), d') \<and> generous d'" if "generous d" for d
    using that by (induction n arbitrary: d) (simp_all add: generous_ask)
  then show "yields (ignore_calls n) ()" by (simp add: yields_def)
  show "yields (attempt w) generous_answer"
    using generous_ask by (simp add: yields_def attempt_def split_beta generous_answers)
  show "yields (perform c) ()" using generous_issue by (simp add: yields_def perform_def)
  show "yields m x \<Longrightarrow> yields (io_map_error g m) x" by (fastforce simp: yields_def io_map_error_def)
qed (simp_all add: yields_def io_ok_def io_lift_def)

lemma yields_parts:
  "yields initialize_media_foundation ()" "yields (first_activation codec) 0" "yields (set_attributes n) ()"
  "\<exists>name. yields attribute_string name"
proof -
  show "yields (set_attributes n) ()"
    using yields_basic(4) [of n] generous_ask by (simp add: yields_def set_attributes_def split_beta generous_answers)
  show "\<exists>name. yields attribute_string name"
    using generous_ask by (auto simp: yields_def attribute_string_def split_beta Let_def generous_answers(1))
  have "yields initialize_com True" "yields start_media_foundation ()"
    by (auto simp: yields_def initialize_com_def start_media_foundation_def generous_def ask_def Let_def generous_answers(1))
  then show "yields initialize_media_foundation ()"
    unfolding initialize_media_foundation_def by (rule yields_then)
  show "yields (first_activation codec) 0"
    unfolding first_activation_def
    by (rule yields_then [OF yields_basic(2)]) (simp add: generous_answers activation_slot_def yields_basic(5) METransformHaveOutput_def)
qed

lemma yields_media_types: "\<exists>t. yields (set_video_type c w h rate b) t"
  unfolding set_video_type_def
  by (cases b) (auto intro!: exI yields_then yields_basic(1) intro: yields_basic(2))

lemma yields_configure: "yields (configure_probe codec w h rate b) ()"
  unfolding configure_probe_def Let_def
  by (rule yields_then [OF yields_parts(3)] yields_then [OF yields_basic(2)] yields_then [OF yields_basic(3)]
      yields_then [OF yields_basic(6) [OF someI_ex [OF yields_media_types]]] yields_basic(3))+

definition created :: "media_foundation_encoder \<Rightarrow> mf_video_encoder" where
  "created e = \<lparr>mv_encoder = Some e, mv_config = hd_config, mv_name = me_encoder_name e, mv_force_rebuild = False,
     mv_d3d_device_identity = None, mv_memory_mode = CpuPreprocessing, mv_nv12_readback = empty_readback, mv_direct_gpu_disabled = None\<rparr>"

lemma generous_generous: "generous generous_driver"
  by (simp add: generous_def generous_driver_def fresh_driver_def)

lemma generous_creation: "\<exists>e d'. mf_video_new hd_config generous_driver = (Ok (created e), d') \<and> generous d'"
proof -
  have "\<exists>e. yields (mf_new Hevc 640 360 30 2000000) e"
    unfolding mf_new_def mf_new_internal_def attach_d3d_manager_def Let_def
    by (rule exI, (rule yields_then [OF yields_parts(1)] yields_then [OF yields_parts(2)] yields_then [OF yields_parts(3)]
        yields_then [OF someI_ex [OF yields_parts(4)]] yields_then [OF yields_configure] yields_then [OF yields_basic(2)]
        yields_then [OF yields_basic(3)] yields_basic(1) | simp only: option.case | rule yields_then [OF yields_basic(1)])+)
  then obtain e where e: "yields (mf_new Hevc 640 360 30 2000000) e" by blast
  with generous_generous obtain d' where "mf_new Hevc 640 360 30 2000000 generous_driver = (Ok e, d')" "generous d'" by (auto simp: yields_def)
  then have "mf_video_new hd_config generous_driver = (Ok (created e), d') \<and> generous d'"
    by (simp add: mf_video_new_def hd_config_def created_def mode_fits_def requires_hardware_def io_then_def io_ok_def)
  then show ?thesis by blast
qed


section \<open>The encoder of a mode\<close>

definition encoder_matches :: "encoder_mode \<Rightarrow> video_encoder \<Rightarrow> bool" where
  "encoder_matches mode e = (case e of SoftwareEncoder _ \<Rightarrow> mode = H264Software | HardwareEncoder v \<Rightarrow> hardware_ok mode v)"

lemma create_video_encoder_matches:
  assumes "create_video_encoder cfg d = (Ok e, d')"
  shows "encoder_matches (vc_mode cfg) e"
proof (cases "vc_mode cfg = H264Software")
  case True
  with assms show ?thesis by (auto simp: create_video_encoder_def io_then_Ok_iff io_ok_def encoder_matches_def)
next
  case False
  with assms obtain v where "mf_video_new cfg d = (Ok v, d')" "e = HardwareEncoder v"
    by (auto simp: create_video_encoder_def io_then_Ok_iff io_ok_def)
  with mf_video_new_ok show ?thesis by (auto simp: encoder_matches_def)
qed

lemma encoder_encode_matches:
  "encoder_encode frame e d = Some (r, e', d') \<Longrightarrow> encoder_matches mode e \<Longrightarrow> encoder_matches mode e'"
  by (cases e) (auto simp: encoder_matches_def split: prod.splits dest: mf_video_encode_ok)

lemma encoder_keyframe_matches:
  "encoder_request_keyframe e d = (r, e', d') \<Longrightarrow> encoder_matches mode e \<Longrightarrow> encoder_matches mode e'"
  by (cases e) (auto simp: encoder_matches_def intro: mf_video_keyframe_ok)

text \<open>A matching encoder announces the codec of its mode, and its transform produces it.\<close>

definition produces :: "video_encoder \<Rightarrow> video_codec \<Rightarrow> bool" where
  "produces e codec \<longleftrightarrow> encoder_codec e = codec \<and>
     (case e of SoftwareEncoder _ \<Rightarrow> codec = H264
      | HardwareEncoder v \<Rightarrow> (case mv_encoder v of None \<Rightarrow> True | Some t \<Rightarrow> me_codec t = codec))"

lemma encoder_matches_produces: "encoder_matches mode e \<Longrightarrow> mode_codec mode = Some (encoder_codec e) \<and> produces e (encoder_codec e)"
  by (auto simp: encoder_matches_def produces_def hardware_ok_def mode_fits_def split: video_encoder.splits option.splits)

section \<open>Falling back from direct GPU input\<close>

lemma preserves_submissions [preserves_intro]:
  "preserves submissions (attempt w)" "(\<And>s t. c \<noteq> TransformInput s t) \<Longrightarrow> preserves submissions (perform c)"
  by (auto simp: preserves_def submissions_def map_filter_def attempt_def ask_def perform_def issue_def
      split: option.splits native_call.splits)

lemma preserves_submissions_log: "preserves dv_log m \<Longrightarrow> preserves submissions m"
  by (simp add: preserves_def submissions_def)

lemmas submissions_parts [preserves_intro] =
  initialize_keeps(2) [THEN preserves_submissions_log] attribute_string_keeps(2) [THEN preserves_submissions_log]
  set_attributes_keeps(2) [THEN preserves_submissions_log] set_video_type_keeps(2) [THEN preserves_submissions_log]
  read_keeps(1) [THEN preserves_submissions_log]

lemma mf_new_submissions: "preserves submissions (mf_new_internal codec w h rate bits device)"
  unfolding mf_new_internal_def first_activation_def attach_d3d_manager_def configure_probe_def Let_def
  by (intro preserves_intro; simp)+

lemma rebuild_submissions: "rebuild w h gpu v d = (r, v', d') \<Longrightarrow> submissions d' = submissions d"
  using preservesD [OF mf_new_submissions]
  by (fastforce simp: rebuild_def Let_def mf_new_def mf_new_with_d3d11_def split: prod.splits result.splits option.splits)

lemma nv12_read_submissions: "nv12_read s rb d = (r, rb', d') \<Longrightarrow> submissions d' = submissions d"
proof -
  assume run: "nv12_read s rb d = (r, rb', d')"
  have staging: "preserves submissions (readback_staging s rb)"
    unfolding readback_staging_def create_staging_texture_def Let_def by (intro preserves_intro; simp)+
  obtain st d1 where st: "readback_staging s rb d = (st, d1)" by fastforce
  have planes: "preserves submissions (readback_planes s x)" for x
    unfolding readback_planes_def copy_and_map_def Let_def by (intro preserves_intro; simp)+
  from run st preservesD [OF staging st] preservesD [OF planes]
  show ?thesis by (auto simp: nv12_read_def split: if_splits result.splits prod.splits)
qed

definition only_bytes :: "driver \<Rightarrow> driver \<Rightarrow> bool" where
  "only_bytes d d' \<longleftrightarrow> (\<exists>new. submissions d' = submissions d @ new \<and> (\<forall>(x, t) \<in> set new. \<exists>b. x = SampleBytes b))"

lemma with_encoder_bytes: "with_encoder (mf_encode_nv12 nv12) v d = Some (r, v', d') \<Longrightarrow> only_bytes d d'"
  by (auto simp: with_encoder_def only_bytes_def split: option.splits dest!: mf_encode_nv12_effect)

lemma assisted_bytes: "encode_gpu_assisted s v d = Some (r, v', d') \<Longrightarrow> only_bytes d d'"
  by (auto simp: encode_gpu_assisted_def Let_def rebuild_if_def split: prod.splits result.splits if_splits
      dest!: with_encoder_bytes nv12_read_submissions rebuild_submissions) (auto simp: only_bytes_def)

lemma assisted_disables:
  assumes "encode_direct s v d = Some (r, v', d')" "hardware_ok md v" "mv_memory_mode v = GpuZeroCopy" "mv_memory_mode v' = GpuAssisted"
  shows "mv_direct_gpu_disabled v' = Some (device_identity s)"
proof (cases "mv_encoder v")
  case (Some e)
  with assms(1) obtain r1 e1 d1 where one: "mf_encode_nv12_surface s e d = Some (r1, e1, d1)"
    by (auto simp: encode_direct_def split: option.splits)
  have v1: "hardware_ok md (v\<lparr>mv_encoder := Some e1\<rparr>)"
    using same_transform_keeps [of e e1] mf_surface_cases [OF one] Some assms(2) by (auto simp: hardware_ok_def)
  show ?thesis
  proof (cases r1)
    case (Err err)
    with one Some assms(1)
    have "encode_gpu_assisted s (v\<lparr>mv_encoder := Some e1, mv_direct_gpu_disabled := Some (device_identity s)\<rparr>) d1 = Some (r, v', d')"
      by (simp add: encode_direct_def)
    from encode_gpu_assisted_ok [OF this] v1 show ?thesis by (simp add: hardware_ok_bookkeeping)
  qed (use one Some assms in \<open>auto simp: encode_direct_def\<close>)
qed (use assms in \<open>auto simp: encode_direct_def\<close>)

lemma assisted_device_disabled:
  assumes "encode_gpu s w h v d = Some (r, v', d')" "hardware_ok md v" "mv_memory_mode v' = GpuAssisted"
  shows "mv_direct_gpu_disabled v' = Some (device_identity s)"
proof -
  consider (off) "mv_direct_gpu_disabled v = Some (device_identity s)" "encode_gpu_assisted s v d = Some (r, v', d')"
    | (failed) e v1 d1 where "rebuild w h (Some s) v d = (Err e, v1, d1)"
        "encode_gpu_assisted s (v1\<lparr>mv_direct_gpu_disabled := Some (device_identity s)\<rparr>) d1 = Some (r, v', d')"
    | (built) u v1 d1 where "rebuild w h (Some s) v d = (Ok u, v1, d1)"
        "encode_direct s (v1\<lparr>mv_memory_mode := GpuZeroCopy\<rparr>) d1 = Some (r, v', d')"
    | (direct) "mv_d3d_device_identity v = Some (device_identity s)" "encode_direct s (v\<lparr>mv_memory_mode := GpuZeroCopy\<rparr>) d = Some (r, v', d')"
    using assms(1) by (auto simp: encode_gpu_def split: if_splits prod.splits result.splits)
  then show ?thesis
  proof cases
    case off
    from encode_gpu_assisted_ok [OF off(2) assms(2)] off(1) show ?thesis by simp
  next
    case failed
    from rebuild_ok [OF failed(1) assms(2)] encode_gpu_assisted_ok [OF failed(2), of md] show ?thesis by (simp add: hardware_ok_bookkeeping)
  next
    case built
    from rebuild_ok [OF built(1) assms(2)] have "hardware_ok md (v1\<lparr>mv_memory_mode := GpuZeroCopy\<rparr>)"
      by (auto simp: hardware_ok_def)
    from assisted_disables [OF built(2) this _ assms(3)] show ?thesis by simp
  next
    case direct
    with assms(2) have "hardware_ok md (v\<lparr>mv_memory_mode := GpuZeroCopy\<rparr>)" by (auto simp: hardware_ok_def split: option.splits)
    from assisted_disables [OF direct(2) this _ assms(3)] show ?thesis by simp
  qed
qed

text \<open>Once a frame of a GPU device had to be read back, the encoder remembers it: further frames of that device reach the
  transform only as bytes in system memory, and are never again offered to it as GPU surfaces.\<close>
theorem rejected_gpu_input_is_remembered:
  assumes "hardware_run v" "mf_video_encode \<lparr>vf_width = w, vf_height = h, vf_data = D3D11Nv12 s\<rparr> v d = Some (r, v1, d1)"
    and "mv_memory_mode v1 = GpuAssisted" "device_identity s2 = device_identity s"
    and "mf_video_encode \<lparr>vf_width = w2, vf_height = h2, vf_data = D3D11Nv12 s2\<rparr> v1 d1 = Some (r2, v2, d2)"
  shows "\<exists>new. submissions d2 = submissions d1 @ new \<and> (\<forall>(x, t) \<in> set new. \<exists>b. x = SampleBytes b)"
proof -
  from assms(2) obtain r0 where "encode_gpu s w h v d = Some (r0, v1, d1)" by (auto simp: mf_video_encode_def)
  moreover obtain md where "hardware_ok md v" using hardware_run_ok [OF assms(1)] by blast
  ultimately have "mv_direct_gpu_disabled v1 = Some (device_identity s)" using assms(3) by (rule assisted_device_disabled)
  with assms(4,5)
  obtain r3 where "encode_gpu_assisted s2 v1 d1 = Some (r3, v2, d2)" by (auto simp: mf_video_encode_def encode_gpu_def)
  from assisted_bytes [OF this] show ?thesis by (simp add: only_bytes_def)
qed


text \<open>A transform without Direct3D support, whose every call succeeds.\<close>

definition refuses :: "'a io \<Rightarrow> bool" where
  "refuses m \<longleftrightarrow> (\<forall>d. generous d \<longrightarrow> (\<exists>e d'. m d = (Err e, d') \<and> generous d'))"

lemma refuses_then: "yields m x \<Longrightarrow> refuses (k x) \<Longrightarrow> refuses (io_then m k)" "refuses m \<Longrightarrow> refuses (io_then m k)"
  by (fastforce simp: refuses_def yields_def io_then_def)+

lemma yields_read_zero: "yields read_u32_or_zero 0"
  using generous_ask by (simp add: yields_def read_u32_or_zero_def split_beta generous_answers)

lemma generous_refuses_d3d: "refuses (mf_new_with_d3d11 codec w h rate bits device)"
proof -
  have "refuses (attach_d3d_manager name (Some device))" for name
    unfolding attach_d3d_manager_def option.case
    by (rule refuses_then(1) [OF yields_basic(2)], rule refuses_then(1) [OF yields_read_zero])
      (simp add: refuses_def io_fail_def)
  then show ?thesis
    unfolding mf_new_with_d3d11_def mf_new_internal_def Let_def
    by (intro refuses_then(1) [OF yields_parts(1)] refuses_then(1) [OF yields_parts(2)] refuses_then(1) [OF someI_ex [OF yields_parts(4)]]
        refuses_then(1) [OF yields_basic(2)] refuses_then(1) [OF yields_parts(3)] refuses_then(2))
qed

lemma generous_output: "\<exists>f. yields (take_output e) f"
proof -
  have out: "out_param generous_answer = Some 1" by (simp add: out_param_def generous_answers)
  have "\<exists>x. yields (supply_sample e) x"
    unfolding supply_sample_def by (cases "me_output_provides_samples e") (auto intro!: exI yields_then yields_basic(1) intro: yields_basic(2))
  then obtain x where x: "yields (supply_sample e) x" by blast
  have sample: "\<exists>s. yields (io_lift (ok_or err (case x of Some s \<Rightarrow> Some s | None \<Rightarrow> out_param generous_answer))) s" for err
    by (cases x) (auto simp: out intro!: exI yields_basic(5))
  have data: "map (fa_memory generous_answer) [0..<unat (fa_size generous_answer)] \<noteq> []"
    by (simp add: generous_answers METransformHaveOutput_def)
  show ?thesis
    unfolding take_output_def Let_def
    by (rule exI, rule yields_then [OF x], rule yields_then [OF yields_basic(2)], rule yields_then [OF someI_ex [OF sample]],
        rule yields_then [OF yields_read_zero], (rule yields_then [OF yields_basic(2)])+)
      (simp only: data if_False, rule yields_basic(1))
qed

lemma generous_encode:
  assumes "generous d"
  shows "\<exists>f e' d'. mf_encode_nv12 nv12 e d = Some (Ok f, e', d') \<and> generous d'"
proof -
  let ?e = "e\<lparr>me_next_timestamp := i64_sat (sint (me_next_timestamp e) + sint (me_frame_duration e))\<rparr>"
  have "yields nv12_sample ()" "yields stamp_sample ()"
    unfolding nv12_sample_def stamp_sample_def by (rule yields_then yields_basic(2) yields_basic(1))+
  then obtain d1 d2 where s: "nv12_sample d = (Ok (), d1)" "stamp_sample d1 = (Ok (), d2)" "generous d2"
    using assms unfolding yields_def by meson
  obtain f where f: "yields (take_output ?e) f" using generous_output by blast
  have "yields (handle_event ?e t i) (PollDone (Ok f))" for t i
    unfolding handle_event_def
    by (rule yields_then [OF yields_basic(2)], rule yields_then [OF yields_basic(2)])
      (simp add: generous_answers METransformNeedInput_def METransformHaveOutput_def yields_then [OF f] yields_basic(1))
  then obtain d3 where "handle_event ?e (me_next_timestamp e) (Some (SampleBytes nv12)) (snd (ask (snd (ask (snd (ask d2)))))) = (Ok (PollDone (Ok f)), d3)"
    "generous d3" using s(3) generous_ask unfolding yields_def by meson
  then have "mf_encode_nv12 nv12 e d = Some (Ok f, ?e, d3) \<and> generous d3"
    using s generous_ask [OF s(3)] generous_ask [of "snd (ask d2)"] generous_ask [of "snd (ask (snd (ask d2)))"]
    by (simp add: mf_encode_nv12_def mf_encode_sample_def Let_def split_beta encode_loop.simps encode_poll_def generous_answers EVENT_DEADLINE_def)
  then show ?thesis by blast
qed

lemma generous_read:
  assumes "generous d" "gs_format s = DXGI_FORMAT_NV12"
  shows "\<exists>bytes rb d'. nv12_read s empty_readback d = (Ok bytes, rb, d') \<and> generous d'"
proof -
  have "yields (io_lift (ok_or err (out_param generous_answer))) 1" for err
    by (simp add: out_param_def generous_answers yields_basic(5))
  then have "\<exists>r. yields (readback_staging s empty_readback) r \<and> nv_staging r = Some 1"
    unfolding readback_staging_def create_staging_texture_def Let_def
    by (auto simp: empty_readback_def intro!: exI yields_then yields_basic(1,2))
  then obtain r where r: "yields (readback_staging s empty_readback) r" "nv_staging r = Some 1" by blast
  have "\<exists>bytes. yields (readback_planes s r) bytes"
    unfolding readback_planes_def copy_and_map_def Let_def r(2) ok_or.simps
    by (rule exI, rule yields_then [OF yields_basic(5)], rule yields_then [OF yields_then [OF yields_basic(3) yields_basic(2)]],
        rule yields_then [OF yields_basic(3)], rule yields_basic(1))
  with r(1) assms show ?thesis unfolding yields_def nv12_read_def by fastforce
qed

definition other_size :: gpu_surface where
  "other_size = tiny_surface\<lparr>gs_width := 320, gs_height := 180\<rparr>"

lemma generous_fallback:
  "\<exists>e d v1 d1 err bytes rb d2 f e' d'. mf_video_new hd_config generous_driver = (Ok (created e), d)
     \<and> rebuild 320 180 (Some other_size) (created e) d = (Err err, v1, d1)
     \<and> nv12_read other_size empty_readback d1 = (Ok bytes, rb, d2) \<and> mf_encode_nv12 bytes e d2 = Some (Ok f, e', d') \<and> generous d'"
proof -
  obtain e d where new: "mf_video_new hd_config generous_driver = (Ok (created e), d)" and g: "generous d" using generous_creation by blast
  let ?cfg = "mv_config (created e)"
  obtain err d1 where "mf_new_with_d3d11 (vc_codec ?cfg) 320 180 (vc_max_fps ?cfg) (vc_bitrate_bps ?cfg) (gs_device other_size) d = (Err err, d1)"
    and g1: "generous d1" using generous_refuses_d3d g unfolding refuses_def by blast
  then have "\<exists>v1. rebuild 320 180 (Some other_size) (created e) d = (Err err, v1, d1)" by (simp add: rebuild_def Let_def)
  moreover obtain bytes rb d2 where "nv12_read other_size empty_readback d1 = (Ok bytes, rb, d2)" and g2: "generous d2"
    using generous_read [OF g1, of other_size] by (auto simp: other_size_def tiny_surface_def)
  moreover obtain f e' d' where "mf_encode_nv12 bytes e d2 = Some (Ok f, e', d') \<and> generous d'" using generous_encode [OF g2] by blast
  ultimately show ?thesis using new by blast
qed

theorem rejected_gpu_input_is_remembered_witness:
  "\<exists>v d r v1 d1 r2 v2 d2 new. hardware_run v
     \<and> mf_video_encode \<lparr>vf_width = 320, vf_height = 180, vf_data = D3D11Nv12 other_size\<rparr> v d = Some (Ok r, v1, d1)
     \<and> mf_video_encode \<lparr>vf_width = 320, vf_height = 180, vf_data = D3D11Nv12 other_size\<rparr> v1 d1 = Some (r2, v2, d2)
     \<and> submissions d2 = submissions d1 @ new \<and> (\<forall>(x, t) \<in> set new. \<exists>b. x = SampleBytes b)"
proof -
  let ?frame = "\<lparr>vf_width = 320, vf_height = 180, vf_data = D3D11Nv12 other_size\<rparr> :: video_frame"
  obtain e d v1 d1 err bytes rb d2 f e' d' where g: "mf_video_new hd_config generous_driver = (Ok (created e), d)"
      "rebuild 320 180 (Some other_size) (created e) d = (Err err, v1, d1)"
      "nv12_read other_size empty_readback d1 = (Ok bytes, rb, d2)" "mf_encode_nv12 bytes e d2 = Some (Ok f, e', d')" "generous d'"
    using generous_fallback by blast
  from g(2) have v1: "v1 = resized 320 180 (created e)" by (cases rule: rebuild_cases) auto
  define w where "w = v1\<lparr>mv_direct_gpu_disabled := Some (device_identity other_size), mv_nv12_readback := rb,
      mv_memory_mode := GpuAssisted, mv_encoder := Some e'\<rparr>"
  have size: "gs_width other_size = 320" "gs_height other_size = 180" by (simp_all add: other_size_def)
  have first: "mf_video_encode ?frame (created e) d = Some (Ok (Some (packet_of f)), w, d')"
    using g(2,3,4) v1 by (simp add: mf_video_encode_def encode_gpu_def encode_gpu_assisted_def rebuild_if_def with_encoder_def
        Let_def resized_def created_def size_differs_def size w_def)
  have rb: "nv_key rb = Some (device_identity other_size, 320, 180)"
    using nv12_read_ok [OF g(3)] size by auto
  have run: "hardware_run (created e)" using g(1) by (rule hardware_created)
  have "\<exists>r2 v2 d2. mf_video_encode ?frame w d' = Some (r2, v2, d2)"
  proof -
    obtain n rb2 d3 where n: "nv12_read other_size rb d' = (n, rb2, d3)" by (metis prod_cases3)
    have "\<exists>r e d. mf_encode_nv12 x e' d3 = Some (r, e, d)" if "n = Ok x" for x
    proof -
      have "readback_staging other_size rb = io_ok rb" by (simp add: readback_staging_def rb size)
      moreover have "\<exists>y. \<forall>d. generous d \<longrightarrow> (\<exists>d1. readback_planes other_size rb d = (y, d1) \<and> generous d1)"
      proof (cases "nv_staging rb")
        case None
        then show ?thesis by (auto simp: readback_planes_def io_then_def io_lift_def)
      next
        case (Some t)
        have "\<exists>b. yields (readback_planes other_size rb) b"
          unfolding readback_planes_def copy_and_map_def Let_def Some ok_or.simps
          by (rule exI, rule yields_then [OF yields_basic(5)], rule yields_then [OF yields_then [OF yields_basic(3) yields_basic(2)]],
              rule yields_then [OF yields_basic(3)], rule yields_basic(1))
        then show ?thesis unfolding yields_def by blast
      qed
      ultimately have "generous d3" using n g(5) by (auto simp: nv12_read_def io_ok_def split: prod.splits if_splits)
      then show ?thesis using generous_encode by blast
    qed
    then show ?thesis
      using n by (cases n) (auto simp: mf_video_encode_def encode_gpu_def encode_gpu_assisted_def rebuild_if_def with_encoder_def
        Let_def resized_def created_def size_differs_def size w_def v1)
  qed
  then obtain r2 v2 d2' where second: "mf_video_encode ?frame w d' = Some (r2, v2, d2')" by blast
  from rejected_gpu_input_is_remembered [OF run first _ refl second] run first second show ?thesis
    by (simp add: w_def) blast
qed


end
