(* ===== verification/Frame_Slots.thy ===== *)
theory Frame_Slots
  imports Encoder Metrics
begin

text \<open>
  The two one-place queues of \<open>crates/host-windows/src/capture.rs\<close> between capture, preprocessing and
  encoding.  Each holds the latest frame only: a frame that arrives before the last one was taken
  replaces it, and the metrics count the loss.  The lock makes every operation atomic; a \<open>take\<close>
  that finds nothing in a running queue waits, which is the value \<open>None\<close> here.  What both queues
  promise is stated once, in the locale \<open>latest_slot\<close>.
\<close>

section \<open>Frames\<close>

record raw_frame =
  rf_width :: u32
  rf_height :: u32
  rf_bgra :: "u8 list"

datatype captured_frame = CpuFrame raw_frame | GpuFrame gpu_surface

datatype prepared_frame_data = PreparedI420 yuv_buffer | PreparedNv12 gpu_surface

record prepared_frame =
  pd_width :: u32
  pd_height :: u32
  pd_data :: prepared_frame_data

section \<open>The queues\<close>

record latest_frame =
  lf_frame :: "captured_frame option"
  lf_stopped :: bool

definition empty_latest_frame :: latest_frame where
  "empty_latest_frame = \<lparr>lf_frame = None, lf_stopped = False\<rparr>"

definition frame_submit :: "captured_frame \<Rightarrow> metrics \<Rightarrow> latest_frame \<Rightarrow> metrics \<times> latest_frame" where
  "frame_submit f m s = (if lf_frame s \<noteq> None then dropped_frame m else m, s\<lparr>lf_frame := Some f\<rparr>)"

definition frame_take :: "latest_frame \<Rightarrow> (captured_frame option \<times> latest_frame) option" where
  "frame_take s = (if lf_frame s = None \<and> \<not> lf_stopped s then None else Some (lf_frame s, s\<lparr>lf_frame := None\<rparr>))"

definition frame_stop :: "latest_frame \<Rightarrow> latest_frame" where
  "frame_stop s = s\<lparr>lf_stopped := True\<rparr>"

record latest_prepared_frame =
  lp_frame :: "prepared_frame option"
  lp_stopped :: bool

definition empty_latest_prepared :: latest_prepared_frame where
  "empty_latest_prepared = \<lparr>lp_frame = None, lp_stopped = False\<rparr>"

definition prepared_submit :: "prepared_frame \<Rightarrow> metrics \<Rightarrow> latest_prepared_frame \<Rightarrow> metrics \<times> latest_prepared_frame" where
  "prepared_submit f m s = (if lp_frame s \<noteq> None then dropped_frame m else m, s\<lparr>lp_frame := Some f\<rparr>)"

definition prepared_take :: "latest_prepared_frame \<Rightarrow> (prepared_frame option \<times> latest_prepared_frame) option" where
  "prepared_take s = (if lp_frame s = None \<and> \<not> lp_stopped s then None else Some (lp_frame s, s\<lparr>lp_frame := None\<rparr>))"

definition prepared_stop :: "latest_prepared_frame \<Rightarrow> latest_prepared_frame" where
  "prepared_stop s = s\<lparr>lp_stopped := True\<rparr>"

section \<open>What a queue promises\<close>

datatype 'f slot_event = Submit 'f | Take | Stop

primrec submitted :: "'f slot_event list \<Rightarrow> 'f list" where
  "submitted [] = []"
| "submitted (e # es) = (case e of Submit f \<Rightarrow> [f] | Take \<Rightarrow> [] | Stop \<Rightarrow> []) @ submitted es"

locale latest_slot =
  fixes submit :: "'f \<Rightarrow> metrics \<Rightarrow> 's \<Rightarrow> metrics \<times> 's"
    and take_slot :: "'s \<Rightarrow> ('f option \<times> 's) option"
    and stop :: "'s \<Rightarrow> 's"
    and held :: "'s \<Rightarrow> 'f option"
    and stopped :: "'s \<Rightarrow> bool"
  assumes submit_metrics: "fst (submit f m s) = (if held s \<noteq> None then dropped_frame m else m)"
    and submit_held: "held (snd (submit f m s)) = Some f"
    and submit_stopped: "stopped (snd (submit f m s)) = stopped s"
    and take_waits: "take_slot s = None \<longleftrightarrow> held s = None \<and> \<not> stopped s"
    and take_gives: "take_slot s = Some (r, s') \<Longrightarrow> r = held s \<and> held s' = None \<and> stopped s' = stopped s"
    and stop_held: "held (stop s) = held s"
    and stop_stopped: "stopped (stop s)"
begin

text \<open>A history: the frames taken so far, in order; a take that would wait leaves the state alone.\<close>

primrec play :: "'f slot_event list \<Rightarrow> 'f list \<times> metrics \<times> 's \<Rightarrow> 'f list \<times> metrics \<times> 's" where
  "play [] st = st"
| "play (e # es) st =
     play es (case st of (taken, m, s) \<Rightarrow>
       (case e of
          Submit f \<Rightarrow> (taken, submit f m s)
        | Take \<Rightarrow> (case take_slot s of None \<Rightarrow> st | Some (None, s') \<Rightarrow> (taken, m, s') | Some (Some f, s') \<Rightarrow> (taken @ [f], m, s'))
        | Stop \<Rightarrow> (taken, m, stop s)))"

definition slot_list :: "'s \<Rightarrow> 'f list" where
  "slot_list s = (case held s of None \<Rightarrow> [] | Some f \<Rightarrow> [f])"

lemma play_conserves:
  "play es (taken, m, s) = (taken', m', s') \<Longrightarrow>
     \<exists>lost new. taken' = taken @ new \<and> m_dropped_frames m' = m_dropped_frames m + word_of_nat lost
       \<and> length new + lost + length (slot_list s') = length (submitted es) + length (slot_list s)
       \<and> subseq (new @ slot_list s') (slot_list s @ submitted es)"
proof (induction es arbitrary: taken m s)
  case Nil
  then show ?case by (intro exI [of _ 0] exI [of _ "[]"]) simp
next
  case (Cons e es)
  show ?case
  proof (cases e)
    case (Submit f)
    obtain m1 s1 where sub: "submit f m s = (m1, s1)" by fastforce
    with submit_metrics [of f m s] submit_held [of f m s]
    have m1: "m1 = (if held s \<noteq> None then dropped_frame m else m)" and s1: "held s1 = Some f" by simp_all
    from Cons.prems Submit sub have "play es (taken, m1, s1) = (taken', m', s')" by simp
    from Cons.IH [OF this] s1 obtain lost new where ih: "taken' = taken @ new"
        "m_dropped_frames m' = m_dropped_frames m1 + word_of_nat lost"
        "length new + lost + length (slot_list s') = Suc (length (submitted es))"
        "subseq (new @ slot_list s') (f # submitted es)"
      by (auto simp: slot_list_def)
    show ?thesis
    proof (cases "held s")
      case None
      with ih m1 Submit show ?thesis by (auto simp: slot_list_def intro!: exI [of _ lost] exI [of _ new])
    next
      case (Some g)
      from ih(4) have "subseq (new @ slot_list s') (g # f # submitted es)" by (rule list_emb_Cons)
      with Some ih m1 Submit show ?thesis
        by (auto simp: slot_list_def dropped_frame_def intro!: exI [of _ "Suc lost"] exI [of _ new])
    qed
  next
    case Take
    show ?thesis
    proof (cases "take_slot s")
      case None
      with Take Cons show ?thesis by simp
    next
      case (Some p)
      then obtain r s1 where t: "take_slot s = Some (r, s1)" by (cases p) auto
      from take_gives [OF t] have r: "r = held s" "held s1 = None" by auto
      from Cons.prems Take t r have "play es (taken @ slot_list s, m, s1) = (taken', m', s')"
        by (cases "held s") (simp_all add: slot_list_def)
      from Cons.IH [OF this] r obtain lost new where ih: "taken' = taken @ slot_list s @ new"
          "m_dropped_frames m' = m_dropped_frames m + word_of_nat lost"
          "length new + lost + length (slot_list s') = length (submitted es)" "subseq (new @ slot_list s') (submitted es)"
        by (auto simp: slot_list_def)
      from ih(4) have "subseq (slot_list s @ (new @ slot_list s')) (slot_list s @ submitted es)" by (intro list_emb_append_mono) auto
      with ih show ?thesis using Take by (intro exI [of _ lost] exI [of _ "slot_list s @ new"]) auto
    qed
  next
    case Stop
    have "slot_list (stop s) = slot_list s" by (simp add: slot_list_def stop_held)
    with Cons.IH [of taken m "stop s"] Cons.prems Stop show ?thesis by simp
  qed
qed

text \<open>The frame in the queue is always the last one submitted.\<close>

lemma play_latest:
  "play es (taken, m, s) = (taken', m', s') \<Longrightarrow> held s' = Some f \<Longrightarrow> held s = Some f \<and> submitted es = [] \<or> submitted es \<noteq> [] \<and> f = last (submitted es)"
proof (induction es arbitrary: taken m s)
  case (Cons e es)
  show ?case
  proof (cases e)
    case (Submit g)
    obtain m1 s1 where sub: "submit g m s = (m1, s1)" by fastforce
    with submit_held [of g m s] have s1: "held s1 = Some g" by simp
    from Cons.prems Submit sub have "play es (taken, m1, s1) = (taken', m', s')" by simp
    from Cons.IH [OF this Cons.prems(2)] s1 Submit show ?thesis by auto
  next
    case Take
    show ?thesis
    proof (cases "take_slot s")
      case None
      with Take Cons show ?thesis by simp
    next
      case (Some p)
      then obtain r s1 where t: "take_slot s = Some (r, s1)" by (cases p) auto
      from take_gives [OF t] have r: "r = held s" "held s1 = None" by auto
      from Cons.prems Take t obtain taken1 where "play es (taken1, m, s1) = (taken', m', s')"
        by (cases r) auto
      from Cons.IH [OF this Cons.prems(2)] r Take show ?thesis by auto
    qed
  next
    case Stop
    with Cons.IH [of taken m "stop s"] Cons.prems show ?thesis by (simp add: stop_held)
  qed
qed simp

end

interpretation capture_slot: latest_slot frame_submit frame_take frame_stop lf_frame lf_stopped
  by unfold_locales (auto simp: frame_submit_def frame_take_def frame_stop_def split: if_splits)

interpretation prepared_slot: latest_slot prepared_submit prepared_take prepared_stop lp_frame lp_stopped
  by unfold_locales (auto simp: prepared_submit_def prepared_take_def prepared_stop_def split: if_splits)

lemma empty_slot_lists: "capture_slot.slot_list empty_latest_frame = []" "prepared_slot.slot_list empty_latest_prepared = []"
  by (simp_all add: capture_slot.slot_list_def prepared_slot.slot_list_def empty_latest_frame_def empty_latest_prepared_def)

text \<open>C23: Over every interleaving of submissions, takes and a stop, no frame is lost silently between the pipeline stages: each
  frame submitted to either queue is taken, in order, or still waits there as the newest one, or was replaced and counted as dropped.\<close>
theorem frame_queues_conserve:
  assumes "capture_slot.play es ([], m, empty_latest_frame) = (taken, m', s)"
    and "prepared_slot.play ps ([], n, empty_latest_prepared) = (given, n', t)"
  shows "(\<exists>lost. m_dropped_frames m' = m_dropped_frames m + word_of_nat lost
        \<and> length taken + lost + length (capture_slot.slot_list s) = length (submitted es))
     \<and> subseq (taken @ capture_slot.slot_list s) (submitted es) \<and> (\<forall>f. lf_frame s = Some f \<longrightarrow> f = last (submitted es))
     \<and> (\<exists>lost. m_dropped_frames n' = m_dropped_frames n + word_of_nat lost
        \<and> length given + lost + length (prepared_slot.slot_list t) = length (submitted ps))
     \<and> subseq (given @ prepared_slot.slot_list t) (submitted ps) \<and> (\<forall>f. lp_frame t = Some f \<longrightarrow> f = last (submitted ps))"
proof -
  from capture_slot.play_conserves [OF assms(1)] capture_slot.play_latest [OF assms(1)] empty_slot_lists
  have "(\<exists>lost. m_dropped_frames m' = m_dropped_frames m + word_of_nat lost
        \<and> length taken + lost + length (capture_slot.slot_list s) = length (submitted es))
     \<and> subseq (taken @ capture_slot.slot_list s) (submitted es) \<and> (\<forall>f. lf_frame s = Some f \<longrightarrow> f = last (submitted es))"
    by (auto simp: empty_latest_frame_def)
  moreover from prepared_slot.play_conserves [OF assms(2)] prepared_slot.play_latest [OF assms(2)] empty_slot_lists
  have "(\<exists>lost. m_dropped_frames n' = m_dropped_frames n + word_of_nat lost
        \<and> length given + lost + length (prepared_slot.slot_list t) = length (submitted ps))
     \<and> subseq (given @ prepared_slot.slot_list t) (submitted ps) \<and> (\<forall>f. lp_frame t = Some f \<longrightarrow> f = last (submitted ps))"
    by (auto simp: empty_latest_prepared_def)
  ultimately show ?thesis by blast
qed

definition tiny_frame :: "u8 \<Rightarrow> captured_frame" where
  "tiny_frame b = CpuFrame \<lparr>rf_width = 2, rf_height = 2, rf_bgra = replicate 16 b\<rparr>"

theorem frame_queues_conserve_witness:
  "\<exists>m' s. capture_slot.play [Submit (tiny_frame 1), Submit (tiny_frame 2), Take, Submit (tiny_frame 3)] ([], default_metrics 0, empty_latest_frame)
       = ([tiny_frame 2], m', s)
     \<and> lf_frame s = Some (tiny_frame 3) \<and> (\<exists>lost. m_dropped_frames m' = word_of_nat lost \<and> 1 + lost + 1 = 3)"
proof -
  let ?es = "[Submit (tiny_frame 1), Submit (tiny_frame 2), Take, Submit (tiny_frame 3)]"
  obtain m' s where run: "capture_slot.play ?es ([], default_metrics 0, empty_latest_frame) = ([tiny_frame 2], m', s)"
    and held: "lf_frame s = Some (tiny_frame 3)"
    by (simp add: frame_submit_def frame_take_def empty_latest_frame_def)
  then have "capture_slot.slot_list s = [tiny_frame 3]" by (simp add: capture_slot.slot_list_def)
  moreover have "prepared_slot.play [] ([], default_metrics 0, empty_latest_prepared) = ([], default_metrics 0, empty_latest_prepared)" by simp
  from frame_queues_conserve [OF run this] have "\<exists>lost. m_dropped_frames m' = m_dropped_frames (default_metrics 0) + word_of_nat lost
        \<and> length [tiny_frame 2] + lost + length (capture_slot.slot_list s) = length (submitted ?es)" by (elim conjE)
  ultimately show ?thesis using run held by (auto simp: default_metrics_def)
qed

end
