(* ===== verification/Selection.thy ===== *)
theory Selection
  imports Discovery Diagnostics
begin

text \<open>
  The decisions of \<open>crates/host-windows/src/capture.rs\<close> about which encoder to run
  (\<open>select_encoder\<close>), the size of its output and the label of its memory mode, and the
  store of learned benchmark observations (\<open>learned.rs\<close>) they use.
\<close>

section \<open>Printing a float\<close>

text \<open>\<open>{:.n}\<close> prints the exact value rounded to \<open>n\<close> decimals, ties to even.\<close>

definition decimal_digits :: "nat \<Rightarrow> nat \<Rightarrow> ustring" where
  "decimal_digits n k = show_nat (k div 10 ^ n) @ (if n = 0 then [] else 46 # pad_start n 48 (show_nat (k mod 10 ^ n)))"

definition show_fixed :: "nat \<Rightarrow> f64 \<Rightarrow> ustring" where
  "show_fixed n x =
     (case fp64 x of
        FNan \<Rightarrow> lit ''NaN''
      | FInf neg \<Rightarrow> (if neg then lit ''-inf'' else lit ''inf'')
      | FFin neg m \<Rightarrow> (if neg then lit ''-'' else []) @
          decimal_digits n (nat (half_even (10 ^ n * mag_units b64 m) (one_units b64))))"

section \<open>Learned observations\<close>

definition CARGO_PKG_VERSION :: ustring where
  "CARGO_PKG_VERSION = lit ''0.7.0''"

record learned_file =
  lf_schema_version :: u32
  lf_results :: "auto_benchmark_observation list"

record learned_json =
  lj_from_slice :: "u8 list \<Rightarrow> learned_file option"
  lj_to_vec :: "learned_file \<Rightarrow> (u8 list, ustring) result"

record learned_disk =
  ld_path :: bool
  ld_create_error :: "ustring option"
  ld_write_error :: "ustring option"
  ld_readable :: bool
  ld_file :: "u8 list option"

definition learned_load :: "learned_json \<Rightarrow> learned_disk \<Rightarrow> auto_benchmark_observation list" where
  "learned_load json disk =
     (if \<not> ld_path disk \<or> \<not> ld_readable disk then []
      else case ld_file disk of
        None \<Rightarrow> []
      | Some bytes \<Rightarrow> (case lj_from_slice json bytes of None \<Rightarrow> [] | Some f \<Rightarrow> lf_results f))"

definition learned_save :: "learned_json \<Rightarrow> auto_benchmark_observation list \<Rightarrow> learned_disk \<Rightarrow> (unit, ustring) result \<times> learned_disk" where
  "learned_save json results disk =
     (if \<not> ld_path disk then (Err (lit ''NFiDB configuration directory is unavailable''), disk)
      else case ld_create_error disk of
        Some e \<Rightarrow> (Err e, disk)
      | None \<Rightarrow>
          (case lj_to_vec json \<lparr>lf_schema_version = 1, lf_results = results\<rparr> of
             Err e \<Rightarrow> (Err e, disk)
           | Ok bytes \<Rightarrow>
               (case ld_write_error disk of
                  Some e \<Rightarrow> (Err e, disk)
                | None \<Rightarrow> (Ok (), disk\<lparr>ld_file := Some bytes\<rparr>))))"

section \<open>Sizes and memory modes\<close>

definition even_floor :: "u32 \<Rightarrow> u32" where
  "even_floor w = w AND NOT 1"

definition output_dimensions :: "u32 \<Rightarrow> u32 \<Rightarrow> u32 \<Rightarrow> u32 \<times> u32" where
  "output_dimensions sw sh mw =
     (let sw = even_floor (max sw 2); sh = even_floor (max sh 2)
      in if sw \<le> mw then (sw, sh)
         else
           (let w = even_floor (max mw 2);
                h = even_floor (max (ucast (((ucast sh :: u64) * ucast w) div ucast sw)) 2)
            in (w, h)))"

primrec memory_mode_value :: "pipeline_memory_mode \<Rightarrow> u32" where
  "memory_mode_value GpuZeroCopy = 0"
| "memory_mode_value GpuAssisted = 1"
| "memory_mode_value CpuCopy = 2"
| "memory_mode_value CpuPreprocessing = 3"

definition memory_mode_from_value :: "u32 \<Rightarrow> pipeline_memory_mode" where
  "memory_mode_from_value v = (if v = 0 then GpuZeroCopy else if v = 1 then GpuAssisted else if v = 2 then CpuCopy else CpuPreprocessing)"

section \<open>The choice of an encoder\<close>

definition functional :: "encoder_capability list \<Rightarrow> encoder_mode \<Rightarrow> encoder_capability option" where
  "functional caps mode = find (\<lambda>c. capability_mode c = mode \<and> is_usable (ec_state c)) caps"

definition score_key :: "auto_benchmark_observation \<Rightarrow> int" where
  "score_key r = total_key (unwrap_or (as_score (ao_score r)) 0)"

text \<open>\<open>Iterator::max_by\<close> keeps the last of several greatest elements.\<close>

fun max_by :: "('a \<Rightarrow> int) \<Rightarrow> 'a list \<Rightarrow> 'a option" where
  "max_by k [] = None"
| "max_by k (x # xs) = Some (foldl (\<lambda>best y. if k y < k best then best else y) x xs)"

definition trusted :: "video_config \<Rightarrow> browser_video_capabilities \<Rightarrow> encoder_capability \<Rightarrow> auto_benchmark_observation \<Rightarrow> bool" where
  "trusted settings browser c r \<longleftrightarrow>
     ao_schema_version r = 1 \<and> ao_nfidb_version r = CARGO_PKG_VERSION \<and> ao_receiver_runtime r = bv_user_agent browser
     \<and> ao_encoder_id r = ec_id c \<and> ao_profile r = profile settings \<and> ao_max_width r = max_width (active_preset settings)
     \<and> ao_requested_fps r = max_fps (active_preset settings) \<and> ao_end_to_end_verified r \<and> as_passed_gates (ao_score r)"

definition measurements :: "video_config \<Rightarrow> browser_video_capabilities \<Rightarrow> encoder_capability list \<Rightarrow> auto_benchmark_observation list
    \<Rightarrow> (encoder_capability \<times> auto_benchmark_observation) list" where
  "measurements settings browser caps learned =
     List.map_filter (\<lambda>c. map_option (Pair c) (max_by score_key (filter (trusted settings browser c) learned)))
       (filter (\<lambda>c. is_usable (ec_state c) \<and> bc_reported (browser_get browser (ec_codec c))) caps)"

definition measured :: "video_config \<Rightarrow> browser_video_capabilities \<Rightarrow> encoder_capability list \<Rightarrow> auto_benchmark_observation list
    \<Rightarrow> (encoder_capability \<times> auto_benchmark_observation) option" where
  "measured settings browser caps learned =
     (if encoder settings = Auto \<and> bv_user_agent browser \<noteq> [] then
        max_by (\<lambda>(_, r). score_key r) (measurements settings browser caps learned)
      else None)"

definition or_else :: "'a option \<Rightarrow> 'a option \<Rightarrow> 'a option" where
  "or_else a b = (case a of None \<Rightarrow> b | Some _ \<Rightarrow> a)"

definition manual_choice :: "encoder_mode \<Rightarrow> video_codec \<Rightarrow> browser_video_capabilities \<Rightarrow> encoder_capability list
    \<Rightarrow> (encoder_capability, ustring) result" where
  "manual_choice mode codec browser caps =
     (if bv_user_agent browser \<noteq> [] \<and> \<not> bc_reported (browser_get browser codec) then
        Err (mode_label mode @ lit '' cannot be selected because the paired browser did not report '' @ codec_label codec @ lit '' receive support'')
      else
        ok_or (unwrap_or (case find (\<lambda>c. capability_mode c = mode) caps of None \<Rightarrow> None | Some c \<Rightarrow> ec_failure_reason c)
                (mode_label mode @ lit '' is unavailable on this PC''))
          (functional caps mode))"

definition automatic_choice :: "browser_video_capabilities \<Rightarrow> encoder_capability list \<Rightarrow> (encoder_capability, ustring) result" where
  "automatic_choice browser caps =
     (if bc_reported (bv_hevc browser) then
        ok_or (lit ''no functional video encoder is available'')
          (or_else (functional caps HevcHardware) (or_else (functional caps H264Hardware) (functional caps H264Software)))
      else
        ok_or (lit ''no functional H.264 encoder is available'')
          (or_else (functional caps H264Hardware) (functional caps H264Software)))"

definition choice_reason :: "video_config \<Rightarrow> encoder_mode \<Rightarrow> auto_benchmark_observation option \<Rightarrow> ustring" where
  "choice_reason settings mode best =
     (if encoder settings \<noteq> Auto then mode_label mode @ lit '' was selected manually and is mutually supported''
      else case best of
        Some r \<Rightarrow> mode_label mode @ lit '' won the verified Auto benchmark with score '' @ show_fixed 1 (unwrap_or (as_score (ao_score r)) 0)
          @ lit ''; it passed latency, frame-rate, reliability, and presentation gates''
      | None \<Rightarrow>
          if mode = HevcHardware then
            lit ''HEVC hardware is functional and the receiver reports HEVC; Auto will verify presentation before learning this path''
          else if mode = H264Hardware then
            lit ''H.264 hardware is the safe accelerated provisional path before an end-to-end benchmark''
          else lit ''hardware encoding is unavailable; OpenH264 is the universal compatibility fallback'')"

text \<open>A mode other than \<open>Auto\<close> has a codec, so the two cases below are the manual and the automatic ones.\<close>

definition select_encoder :: "video_config \<Rightarrow> browser_video_capabilities \<Rightarrow> encoder_capability list
    \<Rightarrow> auto_benchmark_observation list \<Rightarrow> (encoder_mode \<times> ustring \<times> ustring, ustring) result" where
  "select_encoder settings browser caps learned =
     (let best = measured settings browser caps learned in
      and_then
        (case mode_codec (encoder settings) of
           Some codec \<Rightarrow> manual_choice (encoder settings) codec browser caps
         | None \<Rightarrow> (case best of Some (c, _) \<Rightarrow> Ok c | None \<Rightarrow> automatic_choice browser caps)) (\<lambda>selected.
      Ok (capability_mode selected, choice_reason settings (capability_mode selected) (map_option snd best), ec_encoder_name selected)))"

section \<open>Lemmas on the searches\<close>

lemma max_by_fold:
  "\<forall>y \<in> insert x (set xs). k y \<le> k (foldl (\<lambda>best y. if k y < k best then best else y) x xs)"
  "foldl (\<lambda>best y. if k y < k best then best else y) x xs \<in> insert x (set xs)" for k :: "'a \<Rightarrow> int"
proof (induction xs arbitrary: x)
  case (Cons y ys)
  {
    case 1
    show ?case using Cons(1) [of "if k y < k x then x else y"] by (auto split: if_splits)
  next
    case 2
    show ?case using Cons(2) [of "if k y < k x then x else y"] by (auto split: if_splits)
  }
qed simp_all

lemma max_by_Some: "max_by k xs = Some x \<Longrightarrow> x \<in> set xs \<and> (\<forall>y \<in> set xs. k y \<le> k x)"
proof (cases xs)
  case (Cons y ys)
  then show "max_by k xs = Some x \<Longrightarrow> x \<in> set xs \<and> (\<forall>y \<in> set xs. k y \<le> k x)"
    using max_by_fold [where x = y and xs = ys and k = k] by auto
qed simp

lemma max_by_None [simp]: "max_by k xs = None \<longleftrightarrow> xs = []"
  by (cases xs) simp_all

lemma functional_Some: "functional caps mode = Some c \<Longrightarrow> c \<in> set caps \<and> capability_mode c = mode \<and> is_usable (ec_state c)"
  by (auto simp: functional_def find_Some_iff)

lemma functional_exists: "host_can caps mode \<longleftrightarrow> (\<exists>c. functional caps mode = Some c)"
proof (cases "functional caps mode")
  case None
  then have "\<forall>c \<in> set caps. \<not> (capability_mode c = mode \<and> is_usable (ec_state c))"
    by (simp add: functional_def find_None_iff)
  with None show ?thesis by (simp add: host_can_def)
next
  case (Some c)
  then show ?thesis using functional_Some [OF Some] by (auto simp: host_can_def)
qed

lemma in_map_filter: "y \<in> set (List.map_filter f xs) \<longleftrightarrow> (\<exists>x \<in> set xs. f x = Some y)"
  by (induction xs) (auto simp: map_filter_simps split: option.splits)

lemma in_measurements:
  "(c, r) \<in> set (measurements settings browser caps learned) \<longleftrightarrow>
     c \<in> set caps \<and> is_usable (ec_state c) \<and> bc_reported (browser_get browser (ec_codec c))
     \<and> max_by score_key (filter (trusted settings browser c) learned) = Some r"
  by (auto simp: measurements_def in_map_filter)

lemma measured_Some:
  assumes "measured settings browser caps learned = Some (c, r)"
  shows "c \<in> set caps \<and> is_usable (ec_state c) \<and> bc_reported (browser_get browser (ec_codec c)) \<and> r \<in> set learned
    \<and> trusted settings browser c r \<and> encoder settings = Auto"
proof -
  from assms have "(c, r) \<in> set (measurements settings browser caps learned)" and "encoder settings = Auto"
    by (auto simp: measured_def dest!: max_by_Some split: if_splits)
  then show ?thesis by (auto simp: in_measurements dest!: max_by_Some)
qed

lemma trusted_measurement:
  assumes "c \<in> set caps" "is_usable (ec_state c)" "bc_reported (browser_get browser (ec_codec c))"
    and "r \<in> set learned" "trusted settings browser c r"
  shows "\<exists>q. (c, q) \<in> set (measurements settings browser caps learned) \<and> score_key r \<le> score_key q"
proof -
  have "filter (trusted settings browser c) learned \<noteq> []" using assms(4,5) by (auto simp: filter_empty_conv)
  then obtain q where q: "max_by score_key (filter (trusted settings browser c) learned) = Some q"
    by (metis max_by_None not_Some_eq)
  then have "score_key r \<le> score_key q" using max_by_Some assms(4,5) by fastforce
  with q assms(1-3) show ?thesis by (auto simp: in_measurements)
qed

lemma measured_best:
  assumes "encoder settings = Auto" "bv_user_agent browser \<noteq> []"
    and "c \<in> set caps" "is_usable (ec_state c)" "bc_reported (browser_get browser (ec_codec c))"
    and "r \<in> set learned" "trusted settings browser c r"
  shows "\<exists>c' r'. measured settings browser caps learned = Some (c', r') \<and> score_key r \<le> score_key r'"
proof -
  from trusted_measurement [OF assms(3-7)] obtain q where
    q: "(c, q) \<in> set (measurements settings browser caps learned)" "score_key r \<le> score_key q" by blast
  then have "measurements settings browser caps learned \<noteq> []" by auto
  then obtain p where p: "max_by (\<lambda>(_, r). score_key r) (measurements settings browser caps learned) = Some p"
    by (metis max_by_None not_Some_eq)
  with max_by_Some [OF p] q have "score_key r \<le> score_key (snd p)" by (fastforce simp: split_beta)
  moreover have "measured settings browser caps learned = Some p" using p assms(1,2) by (simp add: measured_def)
  ultimately show ?thesis by (cases p) auto
qed

lemma manual_choice_Ok:
  "manual_choice mode codec browser caps = Ok c \<Longrightarrow> c \<in> set caps \<and> capability_mode c = mode \<and> is_usable (ec_state c)
     \<and> (bv_user_agent browser = [] \<or> bc_reported (browser_get browser codec))"
  by (auto simp: manual_choice_def dest: functional_Some split: if_splits)

lemma automatic_choice_Ok:
  "automatic_choice browser caps = Ok c \<Longrightarrow> c \<in> set caps \<and> is_usable (ec_state c)
     \<and> (capability_mode c = HevcHardware \<and> bc_reported (bv_hevc browser) \<or> capability_mode c \<in> {H264Hardware, H264Software})"
  by (auto simp: automatic_choice_def or_else_def dest: functional_Some split: if_splits option.splits)

lemma automatic_choice_total: "host_can caps H264Software \<Longrightarrow> \<exists>c. automatic_choice browser caps = Ok c"
  by (auto simp: automatic_choice_def or_else_def functional_exists split: option.splits)

lemma select_encoder_chosen:
  assumes "select_encoder settings browser caps learned = Ok (mode, reason, name)"
  obtains c where "c \<in> set caps" "is_usable (ec_state c)" "capability_mode c = mode" "ec_encoder_name c = name"
    "encoder settings \<noteq> Auto \<Longrightarrow> mode = encoder settings"
    "bv_user_agent browser = [] \<or> ec_codec c = H264 \<and> encoder settings = Auto \<or> bc_reported (browser_get browser (ec_codec c))"
proof (cases "mode_codec (encoder settings)")
  case (Some codec)
  then have manual: "encoder settings \<noteq> Auto" by auto
  from assms Some obtain c where c: "manual_choice (encoder settings) codec browser caps = Ok c" "capability_mode c = mode" "ec_encoder_name c = name"
    by (auto simp: select_encoder_def Let_def)
  from manual_choice_Ok [OF c(1)] c manual Some capability_mode_codec [of c] show ?thesis by (intro that [of c]) auto
next
  case None
  then have auto: "encoder settings = Auto" by (cases "encoder settings") auto
  show ?thesis
  proof (cases "measured settings browser caps learned")
    case (Some p)
    then obtain c r where m: "measured settings browser caps learned = Some (c, r)" by (cases p) auto
    with None assms have "capability_mode c = mode" "ec_encoder_name c = name" by (auto simp: select_encoder_def Let_def)
    with measured_Some [OF m] auto show ?thesis by (intro that [of c]) auto
  next
    case missing: None
    with None assms obtain c where c: "automatic_choice browser caps = Ok c" "capability_mode c = mode" "ec_encoder_name c = name"
      by (auto simp: select_encoder_def Let_def)
    have "capability_mode c = HevcHardware \<Longrightarrow> ec_codec c = Hevc" "capability_mode c \<in> {H264Hardware, H264Software} \<Longrightarrow> ec_codec c = H264"
      using capability_mode_codec [of c] by auto
    with automatic_choice_Ok [OF c(1)] c auto show ?thesis by (intro that [of c]) auto
  qed
qed


definition test_browser :: browser_video_capabilities where
  "test_browser = default_browser\<lparr>bv_user_agent := lit ''test'', bv_hevc := default_browser_codec\<lparr>bc_reported := True\<rparr>\<rparr>"


text \<open>C21: With the automatic mode and a host that discovery has reported, selection never fails, and a trusted benchmark of a
  usable encoder whose codec the browser reported decides it: the selected encoder has an observation with at least that score.\<close>
theorem automatic_selection_best:
  assumes "clock_passes d" "discover_video_encoders outcome d = Some (caps, d')" "encoder settings = Auto"
  shows "\<exists>mode reason name. select_encoder settings browser caps learned = Ok (mode, reason, name)
    \<and> (\<forall>c \<in> set caps. \<forall>r \<in> set learned. bv_user_agent browser \<noteq> [] \<and> is_usable (ec_state c) \<and> bc_reported (browser_get browser (ec_codec c))
         \<and> trusted settings browser c r \<longrightarrow>
       (\<exists>c' \<in> set caps. \<exists>r' \<in> set learned. capability_mode c' = mode \<and> ec_encoder_name c' = name \<and> trusted settings browser c' r'
          \<and> score_key r \<le> score_key r'))"
proof -
  from assms(3) have none: "mode_codec (encoder settings) = None" by simp
  from discover_report [OF assms(1,2)] have "host_can caps H264Software"
    by (auto simp: report_ok_def host_can_def neq_Nil_conv software_h264_capability_def capability_mode_def is_usable_def)
  then obtain ca where ca: "automatic_choice browser caps = Ok ca" using automatic_choice_total by blast
  show ?thesis
  proof (cases "measured settings browser caps learned")
    case (Some p)
    then obtain c r where m: "measured settings browser caps learned = Some (c, r)" by (cases p) auto
    then have sel: "select_encoder settings browser caps learned =
        Ok (capability_mode c, choice_reason settings (capability_mode c) (Some r), ec_encoder_name c)"
      by (simp add: select_encoder_def none)
    moreover have "\<exists>c' \<in> set caps. \<exists>r' \<in> set learned. capability_mode c' = capability_mode c \<and> ec_encoder_name c' = ec_encoder_name c
        \<and> trusted settings browser c' r' \<and> score_key r1 \<le> score_key r'"
      if "c1 \<in> set caps" "r1 \<in> set learned" "bv_user_agent browser \<noteq> []" "is_usable (ec_state c1)" "bc_reported (browser_get browser (ec_codec c1))"
        "trusted settings browser c1 r1" for c1 r1
      using measured_best [OF assms(3) that(3,1,4,5,2,6)] m measured_Some [OF m] by auto
    ultimately show ?thesis by blast
  next
    case None
    then have sel: "select_encoder settings browser caps learned =
        Ok (capability_mode ca, choice_reason settings (capability_mode ca) None, ec_encoder_name ca)"
      by (simp add: select_encoder_def none ca)
    have "\<not> (bv_user_agent browser \<noteq> [] \<and> is_usable (ec_state c1) \<and> bc_reported (browser_get browser (ec_codec c1)) \<and> trusted settings browser c1 r1)"
      if "c1 \<in> set caps" "r1 \<in> set learned" for c1 r1
      using measured_best [OF assms(3) _ that(1) _ _ that(2), of browser] None by auto
    with sel show ?thesis by blast
  qed
qed

theorem automatic_selection_best_witness:
  "\<exists>caps d'. discover_video_encoders WorkerJoined ticking_driver = Some (caps, d')
     \<and> (\<forall>browser. is_ok (select_encoder default_video browser caps []))"
proof -
  have auto: "encoder default_video = Auto" by (simp add: default_video_def)
  obtain caps d' where report: "discover_video_encoders WorkerJoined ticking_driver = Some (caps, d')"
    using discover_report_exists [OF ticking_clock, of WorkerJoined] by blast
  have "is_ok (select_encoder default_video browser caps [])" for browser
  proof -
    obtain mode reason name where "select_encoder default_video browser caps [] = Ok (mode, reason, name)"
      using automatic_selection_best [OF ticking_clock report auto, of browser "[]"] by blast
    then show ?thesis by simp
  qed
  with report show ?thesis by blast
qed

section \<open>Round trips\<close>

lemma memory_mode_roundtrip: "memory_mode_from_value (memory_mode_value m) = m"
  by (cases m) (simp_all add: memory_mode_from_value_def)

lemma learned_roundtrip:
  assumes "\<And>f bytes. lj_to_vec json f = Ok bytes \<Longrightarrow> lj_from_slice json bytes = Some f"
    and "learned_save json results disk = (Ok (), disk')" "ld_readable disk"
  shows "learned_load json disk' = results"
  using assms
  by (auto simp: learned_save_def learned_load_def split: if_splits option.splits result.splits)

lemma learned_save_failure_keeps_file:
  "learned_save json results disk = (Err e, disk') \<Longrightarrow> disk' = disk"
  by (auto simp: learned_save_def split: if_splits option.splits result.splits)

section \<open>Output sizes\<close>

lemma unat_bound: "unat w < 2 ^ 32" for w :: u32
  using unsigned_less [of w] by simp

lemma u64_of_u32: "unat (ucast x :: u64) = unat x" for x :: u32
  using unat_bound [of x] by (simp add: unsigned_ucast_eq take_bit_nat_eq_self)

lemma even_floor_unat: "unat (even_floor w) = unat w div 2 * 2"
proof -
  have "even_floor w = 2 * drop_bit 1 w"
    by (rule bit_word_eqI) (auto simp: even_floor_def bit_simps bit_double_iff)
  moreover have "unat (2 * drop_bit 1 w) = unat w div 2 * 2"
    using unat_bound [of w] by (simp add: drop_bit_eq_div unat_word_ariths unat_div)
  ultimately show ?thesis by simp
qed

lemma even_floor_bounds: "even (unat (even_floor w))" "unat (even_floor w) \<le> unat w" "even_floor w \<le> w"
  "2 \<le> unat w \<Longrightarrow> 2 \<le> unat (even_floor w)"
proof -
  show *: "unat (even_floor w) \<le> unat w" by (simp add: even_floor_unat)
  then show "even_floor w \<le> w" by (simp add: word_le_nat_alt)
  show "even (unat (even_floor w))" by (simp add: even_floor_unat)
  assume "2 \<le> unat w"
  then have "1 \<le> unat w div 2" by linarith
  then show "2 \<le> unat (even_floor w)" by (simp add: even_floor_unat)
qed

lemma unat_max: "unat (max a b) = max (unat a) (unat b)" for a b :: "'a::len word"
  by (simp add: max_def word_le_nat_alt)

text \<open>The scaled height is computed in 64 bits, where the product of two 32-bit sizes fits.\<close>

lemma scaled_height:
  fixes sw sh w :: u32
  assumes "w \<le> sw" "sw \<noteq> 0"
  shows "unat (ucast (((ucast sh :: u64) * ucast w) div ucast sw) :: u32) = unat sh * unat w div unat sw"
proof -
  have small: "unat sh < 2 ^ 32" "unat w < 2 ^ 32" "unat sw < 2 ^ 32"
    using unat_bound by blast+
  have "unat sh * unat w < 2 ^ 32 * 2 ^ 32" using small by (intro mult_strict_mono) auto
  then have prod: "unat ((ucast sh :: u64) * ucast w) = unat sh * unat w"
    by (simp add: unat_word_ariths u64_of_u32)
  have "unat (((ucast sh :: u64) * ucast w) div ucast sw) = unat sh * unat w div unat sw"
    by (simp add: unat_div prod u64_of_u32)
  moreover have "unat sh * unat w div unat sw \<le> unat sh"
  proof -
    have "unat sh * unat w \<le> unat sh * unat sw" using assms(1) by (simp add: word_le_nat_alt)
    then have "unat sh * unat w div unat sw \<le> unat sh * unat sw div unat sw" by (rule div_le_mono)
    then show ?thesis by (simp split: if_splits)
  qed
  ultimately show ?thesis using small(1) by (simp add: unsigned_ucast_eq take_bit_nat_eq_self)
qed

lemma output_dimensions_cases:
  fixes sw sh mw :: u32
  defines "s \<equiv> even_floor (max sw 2)" and "t \<equiv> even_floor (max sh 2)" and "m \<equiv> even_floor (max mw 2)"
  shows "output_dimensions sw sh mw =
    (if s \<le> mw then (s, t) else (m, even_floor (max (ucast (((ucast t :: u64) * ucast m) div ucast s)) 2)))"
  by (simp add: output_dimensions_def s_def t_def m_def Let_def)

text \<open>The size a frame is scaled to is even in both directions, at least two by two, no wider than the profile allows and
  no higher than the source; when it is scaled, its height keeps the aspect ratio up to rounding down to an even number.\<close>
theorem output_dimensions_bounds:
  assumes "2 \<le> unat mw" "output_dimensions sw sh mw = (w, h)"
  shows "even (unat w) \<and> even (unat h) \<and> 2 \<le> unat w \<and> unat w \<le> unat mw \<and> 2 \<le> unat h \<and> unat h \<le> max 2 (unat sh)
    \<and> (unat mw < unat (even_floor (max sw 2)) \<longrightarrow>
        w = even_floor mw \<and> unat h = max 2 (unat (even_floor (max sh 2)) * unat w div unat (even_floor (max sw 2)) div 2 * 2))"
proof -
  let ?s = "even_floor (max sw 2)" and ?t = "even_floor (max sh 2)" and ?m = "even_floor (max mw 2)"
  have two: "max mw 2 = mw" using assms(1) by (intro max_absorb1) (simp add: word_le_nat_alt)
  have s: "2 \<le> unat ?s" and t: "2 \<le> unat ?t" "unat ?t \<le> max 2 (unat sh)" "even (unat ?t)"
    using even_floor_bounds [of "max sh 2"] even_floor_bounds(4) [of "max sw 2"] by (auto simp: unat_max)
  show ?thesis
  proof (cases "?s \<le> mw")
    case True
    then have "w = ?s" "h = ?t" using assms(2) by (simp_all add: output_dimensions_cases)
    with True s t even_floor_bounds(1) [of "max sw 2"] show ?thesis by (auto simp: word_le_nat_alt)
  next
    case False
    define x where "x = (ucast (((ucast ?t :: u64) * ucast ?m) div ucast ?s) :: u32)"
    from False assms(2) have w: "w = ?m" and h: "h = even_floor (max x 2)"
      unfolding output_dimensions_cases x_def by auto
    have ms: "?m \<le> ?s" using False even_floor_bounds(3) [of mw] two by (auto simp: word_le_nat_alt)
    moreover have "?s \<noteq> 0" using s by auto
    ultimately have x: "unat x = unat ?t * unat ?m div unat ?s" unfolding x_def by (rule scaled_height)
    have "unat ?t * unat ?m \<le> unat ?t * unat ?s" using ms by (simp add: word_le_nat_alt)
    then have "unat x \<le> unat ?t" using x s by (metis div_le_mono nonzero_mult_div_cancel_right not_numeral_le_zero)
    then have "unat (max x 2) \<le> max 2 (unat sh)" using t(2) by (simp add: unat_max)
    then have hx: "unat h \<le> max 2 (unat sh)"
      using even_floor_bounds(2) [of "max x 2"] unfolding h by (rule le_trans [rotated])
    have pairs: "max n 2 div 2 * 2 = max 2 (n div 2 * 2)" for n :: nat
      unfolding max_def by presburger
    have "unat h = max 2 (unat x div 2 * 2)"
      using pairs [of "unat x"] by (simp add: h even_floor_unat unat_max)
    then have hw: "unat h = max 2 (unat ?t * unat w div unat ?s div 2 * 2)" by (simp only: x w)
    have wm: "w = even_floor mw" unfolding w two by (rule refl)
    have "even (unat w)" "unat w \<le> unat mw" "2 \<le> unat w"
      unfolding wm using even_floor_bounds [of mw] assms(1) by blast+
    moreover have "even (unat h)" unfolding h by (rule even_floor_bounds(1))
    moreover have "2 \<le> unat h" unfolding hw by (rule max.cobounded1)
    ultimately show ?thesis using hx hw wm by blast
  qed
qed

theorem output_dimensions_bounds_witness:
  "output_dimensions 3840 2160 1920 = (1920, 1080) \<and> unat (1080 :: u32) = 2160 * 1920 div 3840 div 2 * 2"
proof -
  have run: "output_dimensions 3840 2160 1920 = (1920, 1080)"
    by (simp add: output_dimensions_def even_floor_def)
  from output_dimensions_bounds [OF _ run] show ?thesis by (simp add: run even_floor_def)
qed

end
