(* ===== verification/Capture.thy ===== *)
theory Capture
  imports Frame_Slots Selection Peer
begin

text \<open>
  The live pipeline of \<open>crates/host-windows/src/capture.rs\<close>: a captured frame enters the first queue,
  the preprocessing loop scales it (on the GPU or the CPU) into the second, and the encoder loop
  turns it into the frames that are broadcast.  Each loop body is one step on the state the threads
  share.  The image library (scaling, colour conversion) and the capture API are not code of the
  repository: the library is a record of its functions, an arriving frame a record of its facts.
\<close>

section \<open>Shared state\<close>

record capture_status =
  cs_running :: bool
  cs_source :: ustring
  cs_encoder :: ustring
  cs_error :: "ustring option"

definition default_capture_status :: capture_status where
  "default_capture_status = \<lparr>cs_running = False, cs_source = lit ''None'', cs_encoder = lit ''No encoder active'', cs_error = None\<rparr>"

record pipeline_selection =
  ps_generation :: u64
  ps_video :: video_config
  ps_active_mode :: encoder_mode

record picture_library =
  pl_resize :: "u32 \<Rightarrow> u32 \<Rightarrow> u8 list \<Rightarrow> u32 \<Rightarrow> u32 \<Rightarrow> (u8 list, ustring) result"
  pl_to_yuv :: "u8 list \<Rightarrow> nat \<Rightarrow> nat \<Rightarrow> yuv_buffer"

record capture_shared =
  sh_metrics :: metrics
  sh_status :: capture_status
  sh_pipeline :: pipeline_selection
  sh_keyframe :: bool
  sh_max_fps :: u32
  sh_max_width :: u32
  sh_hardware :: bool
  sh_memory_mode :: u32
  sh_slot :: latest_frame
  sh_prepared :: latest_prepared_frame
  sh_sent :: "encoded_video_frame list"
  sh_driver :: driver

definition set_error :: "ustring \<Rightarrow> capture_shared \<Rightarrow> capture_shared" where
  "set_error e sh = sh\<lparr>sh_status := (sh_status sh)\<lparr>cs_error := Some e\<rparr>\<rparr>"

text \<open>A frame's GPU handle is dropped with the frame, when it is replaced in a queue or a loop is done with it.\<close>

definition release_frame :: "captured_frame \<Rightarrow> capture_shared \<Rightarrow> capture_shared" where
  "release_frame f sh = (case f of CpuFrame _ \<Rightarrow> sh | GpuFrame s \<Rightarrow> sh\<lparr>sh_driver := drop_surface s (sh_driver sh)\<rparr>)"

definition release_prepared :: "prepared_frame \<Rightarrow> capture_shared \<Rightarrow> capture_shared" where
  "release_prepared f sh =
     (case pd_data f of PreparedI420 _ \<Rightarrow> sh | PreparedNv12 s \<Rightarrow> sh\<lparr>sh_driver := drop_surface s (sh_driver sh)\<rparr>)"

definition submit_captured :: "captured_frame \<Rightarrow> capture_shared \<Rightarrow> capture_shared" where
  "submit_captured f sh =
     (let sh = (case lf_frame (sh_slot sh) of None \<Rightarrow> sh | Some old \<Rightarrow> release_frame old sh);
          (m, s) = frame_submit f (sh_metrics sh) (sh_slot sh)
      in sh\<lparr>sh_metrics := m, sh_slot := s\<rparr>)"

definition submit_prepared :: "prepared_frame \<Rightarrow> capture_shared \<Rightarrow> capture_shared" where
  "submit_prepared f sh =
     (let sh = (case lp_frame (sh_prepared sh) of None \<Rightarrow> sh | Some old \<Rightarrow> release_prepared old sh);
          (m, s) = prepared_submit f (sh_metrics sh) (sh_prepared sh)
      in sh\<lparr>sh_metrics := m, sh_prepared := s\<rparr>)"

definition read_clock :: "capture_shared \<Rightarrow> nat \<times> capture_shared" where
  "read_clock sh = (case ask (sh_driver sh) of (a, d) \<Rightarrow> (fa_clock a, sh\<lparr>sh_driver := d\<rparr>))"

text \<open>\<open>Duration::from_secs_f64\<close> of a positive finite number, in nanoseconds, rounded to the nearest.\<close>

definition duration_from_secs :: "f64 \<Rightarrow> nat" where
  "duration_from_secs x =
     (case fp64 x of FFin False m \<Rightarrow> nat (half_even (1000000000 * mag_units b64 m) (one_units b64)) | _ \<Rightarrow> 0)"

definition frame_period :: "u32 \<Rightarrow> nat" where
  "frame_period fps = duration_from_secs (1 / f64_of_int (uint (max fps 1)))"

section \<open>Capture\<close>

record screen_capture =
  sc_gpu_pool :: gpu_surface_pool
  sc_gpu_capture_unavailable :: bool
  sc_last_frame :: nat

definition screen_capture_new :: "nat \<Rightarrow> screen_capture" where
  "screen_capture_new now = \<lparr>sc_gpu_pool = empty_pool, sc_gpu_capture_unavailable = False, sc_last_frame = now - 1000000000\<rparr>"

record arriving_frame =
  af_width :: u32
  af_height :: u32
  af_device :: nat
  af_context :: nat
  af_texture :: nat
  af_format :: i32
  af_buffer :: "(u8 list, ustring) result"

definition crop_rows :: "nat \<Rightarrow> nat \<Rightarrow> nat \<Rightarrow> u8 list \<Rightarrow> u8 list" where
  "crop_rows stride row_bytes rows bytes =
     concat (map (\<lambda>r. take row_bytes (take stride (drop (r * stride) bytes))) [0..<min rows (length bytes div stride)])"

definition capture_cpu :: "arriving_frame \<Rightarrow> u32 \<Rightarrow> u32 \<Rightarrow> capture_shared \<Rightarrow> (unit, ustring) result \<times> capture_shared" where
  "capture_cpu f w h sh =
     (case af_buffer f of
        Err e \<Rightarrow> (Err e, sh)
      | Ok bytes \<Rightarrow>
          (let bgra = crop_rows (unat (af_width f) * 4) (unat w * 4) (unat h) bytes;
               sh = sh\<lparr>sh_metrics := captured w h (sh_metrics sh)\<rparr>
           in (Ok (), submit_captured (CpuFrame \<lparr>rf_width = w, rf_height = h, rf_bgra = bgra\<rparr>) sh)))"

definition on_frame_arrived :: "arriving_frame \<Rightarrow> screen_capture \<times> capture_shared
    \<Rightarrow> (unit, ustring) result \<times> screen_capture \<times> capture_shared" where
  "on_frame_arrived f st =
     (case st of (sc, sh) \<Rightarrow>
      let (now, sh) = read_clock sh
      in if now - sc_last_frame sc < frame_period (sh_max_fps sh) then (Ok (), sc, sh)
         else
           (let (last, sh) = read_clock sh; sc = sc\<lparr>sc_last_frame := last\<rparr>;
                w = even_floor (af_width f); h = even_floor (af_height f)
            in if w < 2 \<or> h < 2 then (Ok (), sc, sh)
               else if sh_hardware sh \<and> \<not> sc_gpu_capture_unavailable sc then
                 (case copy_capture_surface (af_device f) (af_context f) (af_texture f) w h (af_format f) (sc_gpu_pool sc) (sh_driver sh) of
                    (r, pool, d) \<Rightarrow>
                      (let sc = sc\<lparr>sc_gpu_pool := pool\<rparr>; sh = sh\<lparr>sh_driver := d\<rparr>
                       in case r of
                            Ok (Some s) \<Rightarrow> (Ok (), sc, submit_captured (GpuFrame s) (sh\<lparr>sh_metrics := captured w h (sh_metrics sh)\<rparr>))
                          | Ok None \<Rightarrow> (Ok (), sc, sh\<lparr>sh_metrics := dropped_frame (sh_metrics sh)\<rparr>)
                          | Err e \<Rightarrow>
                              (let sc = sc\<lparr>sc_gpu_capture_unavailable := True\<rparr>;
                                   sh = set_error (lit ''GPU capture copy is unavailable; using the CPU compatibility path: '' @ e) sh;
                                   (r, sh) = capture_cpu f w h sh
                               in (r, sc, sh))))
               else (let (r, sh) = capture_cpu f w h sh in (r, sc, sh))))"

definition on_closed :: "capture_shared \<Rightarrow> capture_shared" where
  "on_closed sh = sh\<lparr>sh_slot := frame_stop (sh_slot sh)\<rparr>"

section \<open>Preprocessing\<close>

definition resize_frame :: "picture_library \<Rightarrow> raw_frame \<Rightarrow> u32 \<Rightarrow> (u8 list \<times> u32 \<times> u32, ustring) result" where
  "resize_frame lib f mw =
     (if rf_width f \<le> mw then Ok (rf_bgra f, rf_width f, rf_height f)
      else
        (let w = even_floor mw;
             h = even_floor (max (ucast (((ucast (rf_height f) :: u64) * ucast w) div ucast (rf_width f))) 2)
         in map_ok (\<lambda>bytes. (bytes, w, h)) (pl_resize lib (rf_width f) (rf_height f) (rf_bgra f) w h)))"

record preprocess_state =
  pp_gpu_processor :: "gpu_video_processor option"
  pp_gpu_failed_generation :: "u64 option"

definition preprocess_start :: preprocess_state where
  "preprocess_start = \<lparr>pp_gpu_processor = None, pp_gpu_failed_generation = None\<rparr>"

definition drop_processor :: "gpu_video_processor option \<Rightarrow> driver \<Rightarrow> driver" where
  "drop_processor p d = (case p of None \<Rightarrow> d | Some p \<Rightarrow> fold drop_surface (sp_surfaces (vp_output_pool p)) d)"

definition ensure_processor :: "gpu_surface \<Rightarrow> u32 \<Rightarrow> u32 \<Rightarrow> u32 \<Rightarrow> u64 \<Rightarrow> preprocess_state \<times> capture_shared \<Rightarrow> preprocess_state \<times> capture_shared" where
  "ensure_processor s w h fps gen st =
     (case st of (pp, sh) \<Rightarrow>
      if (case pp_gpu_processor pp of None \<Rightarrow> True | Some p \<Rightarrow> \<not> processor_matches p s w h fps) then
        (case video_processor_new s w h fps (sh_driver sh) of
           (Ok p, d) \<Rightarrow> (pp\<lparr>pp_gpu_processor := Some p\<rparr>, sh\<lparr>sh_driver := drop_processor (pp_gpu_processor pp) d\<rparr>)
         | (Err e, d) \<Rightarrow>
             (pp\<lparr>pp_gpu_processor := None, pp_gpu_failed_generation := Some gen\<rparr>,
              set_error (lit ''GPU preprocessing is unavailable; using CPU preprocessing: '' @ e)
                (sh\<lparr>sh_driver := drop_processor (pp_gpu_processor pp) d\<rparr>)))
      else (pp, sh))"

definition elapsed_micros :: "nat \<Rightarrow> capture_shared \<Rightarrow> u64 \<times> capture_shared" where
  "elapsed_micros started sh = (let (now, sh) = read_clock sh in (word_of_nat ((now - started) div 1000), sh))"

definition submit_preprocessed :: "nat \<Rightarrow> prepared_frame \<Rightarrow> capture_shared \<Rightarrow> capture_shared" where
  "submit_preprocessed started f sh =
     (let (micros, sh) = elapsed_micros started sh
      in submit_prepared f (sh\<lparr>sh_metrics := preprocessed micros (sh_metrics sh)\<rparr>))"

text \<open>The GPU attempt: whether it dealt with the frame, and the state after it.\<close>

definition preprocess_gpu :: "nat \<Rightarrow> gpu_surface \<Rightarrow> pipeline_selection \<Rightarrow> preprocess_state \<times> capture_shared
    \<Rightarrow> bool \<times> preprocess_state \<times> capture_shared" where
  "preprocess_gpu started s sel st =
     (case st of (_, sh0) \<Rightarrow>
      let (w, h) = output_dimensions (gs_width s) (gs_height s) (sh_max_width sh0);
          (pp, sh) = ensure_processor s w h (max_fps (active_preset (ps_video sel))) (ps_generation sel) st
      in case pp_gpu_processor pp of
           None \<Rightarrow> (False, pp, sh)
         | Some p \<Rightarrow>
             (case processor_process s p (sh_driver sh) of
                (r, p, d) \<Rightarrow>
                  (let sh = sh\<lparr>sh_driver := d\<rparr>; pp = pp\<lparr>pp_gpu_processor := Some p\<rparr>
                   in case r of
                        Ok (Some t) \<Rightarrow> (True, pp, submit_preprocessed started \<lparr>pd_width = w, pd_height = h, pd_data = PreparedNv12 t\<rparr> sh)
                      | Ok None \<Rightarrow> (True, pp, sh\<lparr>sh_metrics := dropped_frame (sh_metrics sh)\<rparr>)
                      | Err e \<Rightarrow>
                          (False, pp\<lparr>pp_gpu_failed_generation := Some (ps_generation sel), pp_gpu_processor := None\<rparr>,
                           set_error (lit ''GPU preprocessing failed; using CPU preprocessing: '' @ e)
                             (sh\<lparr>sh_driver := drop_processor (Some p) d\<rparr>)))))"

definition preprocess_cpu :: "picture_library \<Rightarrow> nat \<Rightarrow> captured_frame \<Rightarrow> capture_shared \<Rightarrow> capture_shared" where
  "preprocess_cpu lib started f sh =
     (let (raw, sh) = (case f of
          CpuFrame r \<Rightarrow> (Ok r, sh)
        | GpuFrame s \<Rightarrow>
            (case read_bgra s (sh_driver sh) of
               (Ok bgra, d) \<Rightarrow> (Ok \<lparr>rf_width = gs_width s, rf_height = gs_height s, rf_bgra = bgra\<rparr>, sh\<lparr>sh_driver := d\<rparr>)
             | (Err e, d) \<Rightarrow> (Err (lit ''GPU frame readback failed: '' @ e), sh\<lparr>sh_driver := d\<rparr>)))
      in case and_then raw (\<lambda>r. resize_frame lib r (sh_max_width sh)) of
           Err e \<Rightarrow> set_error e sh
         | Ok (bgra, w, h) \<Rightarrow>
             submit_preprocessed started \<lparr>pd_width = w, pd_height = h, pd_data = PreparedI420 (pl_to_yuv lib bgra (unat w) (unat h))\<rparr> sh)"

definition preprocess_step :: "picture_library \<Rightarrow> captured_frame \<Rightarrow> preprocess_state \<times> capture_shared \<Rightarrow> preprocess_state \<times> capture_shared" where
  "preprocess_step lib f st =
     (case st of (pp, sh) \<Rightarrow>
      let (started, sh) = read_clock sh; sel = sh_pipeline sh;
          (handled, pp, sh) = (case f of
              GpuFrame s \<Rightarrow>
                if requires_hardware (ps_active_mode sel) \<and> pp_gpu_failed_generation pp \<noteq> Some (ps_generation sel)
                then preprocess_gpu started s sel (pp, sh) else (False, pp, sh)
            | CpuFrame _ \<Rightarrow> (False, pp, sh));
          sh = (if handled then sh else preprocess_cpu lib started f sh)
      in (pp, release_frame f sh))"

section \<open>Encoding\<close>

definition RECOVERY_KEYFRAME_INTERVAL :: nat where "RECOVERY_KEYFRAME_INTERVAL = 5000000000"

record encode_state =
  en_encoder :: "video_encoder option"
  en_generation :: u64
  en_last_sent_at :: "nat option"
  en_last_keyframe_at :: "nat option"

definition encode_start :: encode_state where
  "encode_start = \<lparr>en_encoder = None, en_generation = - 1, en_last_sent_at = None, en_last_keyframe_at = None\<rparr>"

definition mode_codec_or_h264 :: "encoder_mode \<Rightarrow> video_codec" where
  "mode_codec_or_h264 mode = unwrap_or (mode_codec mode) H264"

definition encoder_config_for :: "pipeline_selection \<Rightarrow> u32 \<Rightarrow> u32 \<Rightarrow> video_encoder_config" where
  "encoder_config_for sel w h =
     (let mode = ps_active_mode sel; codec = mode_codec_or_h264 mode; preset = active_preset (ps_video sel)
      in \<lparr>vc_codec = codec, vc_mode = mode, vc_width = w, vc_height = h, vc_max_fps = max_fps preset,
          vc_bitrate_bps = preset_bitrate_bps preset codec\<rparr>)"

text \<open>A new generation of settings shuts the encoder down and forgets the times of the last one.\<close>

definition sync_generation :: "pipeline_selection \<Rightarrow> encode_state \<Rightarrow> encode_state" where
  "sync_generation sel en =
     (if ps_generation sel \<noteq> en_generation en
      then \<lparr>en_encoder = None, en_generation = ps_generation sel, en_last_sent_at = None, en_last_keyframe_at = None\<rparr>
      else en)"

definition ensure_encoder :: "pipeline_selection \<Rightarrow> prepared_frame \<Rightarrow> encode_state \<times> capture_shared \<Rightarrow> encode_state \<times> capture_shared" where
  "ensure_encoder sel f st =
     (case st of (en, sh) \<Rightarrow>
      case en_encoder en of
        Some _ \<Rightarrow> (en, sh)
      | None \<Rightarrow>
          (case create_video_encoder (encoder_config_for sel (pd_width f) (pd_height f)) (sh_driver sh) of
             (Ok e, d) \<Rightarrow>
               (en\<lparr>en_encoder := Some e\<rparr>, sh\<lparr>sh_driver := d, sh_status := (sh_status sh)\<lparr>cs_encoder := encoder_name e\<rparr>\<rparr>)
           | (Err e, d) \<Rightarrow>
               (en, set_error (mode_label (ps_active_mode sel) @ lit '' initialization failed: '' @ e) (sh\<lparr>sh_driver := d\<rparr>))))"

definition recovery_keyframe_due :: "encoder_mode \<Rightarrow> encode_state \<Rightarrow> capture_shared \<Rightarrow> bool \<times> capture_shared" where
  "recovery_keyframe_due mode en sh =
     (case (mode, en_last_keyframe_at en) of
        (H264Software, Some t) \<Rightarrow> (let (now, sh) = read_clock sh in (RECOVERY_KEYFRAME_INTERVAL \<le> now - t, sh))
      | _ \<Rightarrow> (False, sh))"

definition honour_keyframe_request :: "encoder_mode \<Rightarrow> video_encoder \<Rightarrow> encode_state \<Rightarrow> capture_shared \<Rightarrow> video_encoder \<times> capture_shared" where
  "honour_keyframe_request mode e en sh =
     (let (due, sh) = recovery_keyframe_due mode en sh; (requested, pending) = keyframe_take (sh_keyframe sh);
          sh = sh\<lparr>sh_keyframe := pending\<rparr>
      in if requested \<or> due then
           (case encoder_request_keyframe e (sh_driver sh) of
              (r, e, d) \<Rightarrow>
                (e, (case r of Ok _ \<Rightarrow> sh\<lparr>sh_driver := d\<rparr>
                     | Err err \<Rightarrow> set_error (mode_label mode @ lit '' keyframe request failed: '' @ err) (sh\<lparr>sh_driver := d\<rparr>))))
         else (e, sh))"

definition frame_data :: "prepared_frame \<Rightarrow> video_frame" where
  "frame_data f = \<lparr>vf_width = pd_width f, vf_height = pd_height f,
     vf_data = (case pd_data f of PreparedI420 yuv \<Rightarrow> I420 yuv | PreparedNv12 s \<Rightarrow> D3D11Nv12 s)\<rparr>"

definition publish :: "pipeline_selection \<Rightarrow> prepared_frame \<Rightarrow> nat \<Rightarrow> encoded_packet \<Rightarrow> encode_state \<times> capture_shared \<Rightarrow> encode_state \<times> capture_shared" where
  "publish sel f started packet st =
     (case st of (en, sh) \<Rightarrow>
      let (micros, sh) = elapsed_micros started sh;
          sh = sh\<lparr>sh_metrics := encoded (length (ep_data packet)) micros (pd_width f) (pd_height f) (sh_metrics sh)\<rparr>;
          (sent_at, sh) = read_clock sh;
          (en, sh) = (if ep_keyframe packet
            then (en\<lparr>en_last_keyframe_at := Some sent_at\<rparr>, sh\<lparr>sh_metrics := encoded_keyframe (sh_metrics sh)\<rparr>) else (en, sh));
          duration = (case en_last_sent_at en of
              None \<Rightarrow> frame_period (max_fps (active_preset (ps_video sel)))
            | Some previous \<Rightarrow> sent_at - previous)
      in (en\<lparr>en_last_sent_at := Some sent_at\<rparr>,
          sh\<lparr>sh_sent := sh_sent sh @ [\<lparr>ef_data = ep_data packet, ef_codec = mode_codec_or_h264 (ps_active_mode sel), ef_duration = duration,
               ef_width = pd_width f, ef_height = pd_height f, ef_keyframe = ep_keyframe packet\<rparr>]\<rparr>))"

text \<open>One iteration of the encoder loop; the value \<open>None\<close> is an encoder that never returns.\<close>

definition encode_step :: "prepared_frame \<Rightarrow> encode_state \<times> capture_shared \<Rightarrow> (encode_state \<times> capture_shared) option" where
  "encode_step f st =
     (case st of (en, sh) \<Rightarrow>
      let sel = sh_pipeline sh; mode = ps_active_mode sel;
          (en, sh) = ensure_encoder sel f (sync_generation sel en, sh)
      in case en_encoder en of
           None \<Rightarrow> Some (en, release_prepared f sh)
         | Some e \<Rightarrow>
             (let (e, sh) = honour_keyframe_request mode e en sh; (started, sh) = read_clock sh
              in case encoder_encode (frame_data f) e (sh_driver sh) of
                   None \<Rightarrow> None
                 | Some (r, e, d) \<Rightarrow>
                     (let en = en\<lparr>en_encoder := Some e\<rparr>;
                          sh = sh\<lparr>sh_driver := d, sh_memory_mode := memory_mode_value (encoder_memory_mode e)\<rparr>;
                          (en, sh) = (case r of
                              Ok (Some packet) \<Rightarrow> publish sel f started packet (en, sh)
                            | Ok None \<Rightarrow> (en, sh)
                            | Err err \<Rightarrow> (en\<lparr>en_encoder := None\<rparr>, set_error (mode_label mode @ lit '' encode failed: '' @ err) sh))
                      in Some (en, release_prepared f sh))))"

section \<open>Frames are labelled with the codec that made them\<close>

text \<open>
  The encoder loop among the threads of the host: it takes frames, the settings move to the next
  generation (the number counts how often), and other threads change the rest of the state.
\<close>

inductive live_run :: "nat \<Rightarrow> encode_state \<times> capture_shared \<Rightarrow> bool" where
  live_start: "live_run 0 (encode_start, sh)"
| live_frame: "live_run n st \<Longrightarrow> encode_step f st = Some st' \<Longrightarrow> live_run n st'"
| live_settings: "live_run n (en, sh) \<Longrightarrow>
     live_run (Suc n) (en, sh\<lparr>sh_pipeline := \<lparr>ps_generation = ps_generation (sh_pipeline sh) + 1, ps_video = video, ps_active_mode = mode\<rparr>\<rparr>)"
| live_other: "live_run n (en, sh) \<Longrightarrow> sh_pipeline sh' = sh_pipeline sh \<Longrightarrow> live_run n (en, sh')"

definition encoder_current :: "nat \<Rightarrow> encode_state \<times> capture_shared \<Rightarrow> bool" where
  "encoder_current n st = (case st of (en, sh) \<Rightarrow>
     case en_encoder en of
       None \<Rightarrow> True
     | Some e \<Rightarrow> \<exists>k \<le> n. en_generation en + word_of_nat k = ps_generation (sh_pipeline sh)
         \<and> (k = 0 \<longrightarrow> encoder_matches (ps_active_mode (sh_pipeline sh)) e))"

lemma read_clock_frame [frame_simps]:
  "sh_pipeline (snd (read_clock sh)) = sh_pipeline sh" "sh_sent (snd (read_clock sh)) = sh_sent sh"
  by (simp_all add: read_clock_def split_beta)

lemma capture_frame [frame_simps]:
  "sh_pipeline (set_error e sh) = sh_pipeline sh" "sh_sent (set_error e sh) = sh_sent sh"
  "sh_pipeline (release_prepared f sh) = sh_pipeline sh" "sh_sent (release_prepared f sh) = sh_sent sh"
  "sh_pipeline (snd (elapsed_micros t sh)) = sh_pipeline sh" "sh_sent (snd (elapsed_micros t sh)) = sh_sent sh"
  "sh_pipeline (snd (recovery_keyframe_due mode en sh)) = sh_pipeline sh" "sh_sent (snd (recovery_keyframe_due mode en sh)) = sh_sent sh"
  "sh_pipeline (snd (honour_keyframe_request mode enc en sh)) = sh_pipeline sh" "sh_sent (snd (honour_keyframe_request mode enc en sh)) = sh_sent sh"
  by (auto simp: set_error_def release_prepared_def elapsed_micros_def recovery_keyframe_due_def honour_keyframe_request_def
      read_clock_frame Let_def split_beta split: prepared_frame_data.splits encoder_mode.splits option.splits result.splits)

lemma honour_keyframe_matches:
  assumes "encoder_matches m e"
  shows "encoder_matches m (fst (honour_keyframe_request mode e en sh))"
proof -
  have "encoder_matches m (fst (snd (encoder_request_keyframe e d)))" for d
    using encoder_keyframe_matches [OF _ assms, of d "fst (encoder_request_keyframe e d)" _ "snd (snd (encoder_request_keyframe e d))"] by simp
  with assms show ?thesis by (auto simp: honour_keyframe_request_def Let_def split_beta)
qed

lemma ensure_encoder_frame [frame_simps]:
  "sh_pipeline (snd (ensure_encoder sel f st)) = sh_pipeline (snd st)" "sh_sent (snd (ensure_encoder sel f st)) = sh_sent (snd st)"
  "en_generation (fst (ensure_encoder sel f st)) = en_generation (fst st)"
  "en_last_sent_at (fst (ensure_encoder sel f st)) = en_last_sent_at (fst st)"
  by (auto simp: ensure_encoder_def capture_frame split: prod.splits option.splits result.splits)

lemma ensure_encoder_matches:
  assumes "\<And>e. en_encoder (fst st) = Some e \<Longrightarrow> encoder_matches (ps_active_mode sel) e"
    and "en_encoder (fst (ensure_encoder sel f st)) = Some e"
  shows "encoder_matches (ps_active_mode sel) e"
  using assms
  by (auto simp: ensure_encoder_def encoder_config_for_def Let_def split: prod.splits option.splits result.splits
      dest!: create_video_encoder_matches)

lemma publish_effect:
  assumes "publish sel f started packet (en, sh) = (en', sh')"
  shows "sh_pipeline sh' = sh_pipeline sh \<and> en_encoder en' = en_encoder en \<and> en_generation en' = en_generation en
    \<and> (\<exists>g sent_at. sh_sent sh' = sh_sent sh @ [g] \<and> ef_data g = ep_data packet \<and> ef_keyframe g = ep_keyframe packet
        \<and> ef_codec g = mode_codec_or_h264 (ps_active_mode sel) \<and> ef_width g = pd_width f \<and> ef_height g = pd_height f
        \<and> en_last_sent_at en' = Some sent_at
        \<and> ef_duration g = (case en_last_sent_at en of None \<Rightarrow> frame_period (max_fps (active_preset (ps_video sel)))
             | Some previous \<Rightarrow> sent_at - previous))"
  using assms by (auto simp: publish_def Let_def split_beta capture_frame read_clock_frame split: if_splits)

text \<open>A step leaves an encoder behind only when it matches the mode it found; what it sends carries that mode's codec.\<close>

lemma encode_step_effect:
  assumes step: "encode_step f (en, sh) = Some (en', sh')"
    and fits: "\<And>e. en_generation en = ps_generation (sh_pipeline sh) \<Longrightarrow> en_encoder en = Some e \<Longrightarrow> encoder_matches (ps_active_mode (sh_pipeline sh)) e"
  shows "sh_pipeline sh' = sh_pipeline sh \<and> en_generation en' = ps_generation (sh_pipeline sh)
    \<and> (\<forall>e. en_encoder en' = Some e \<longrightarrow> encoder_matches (ps_active_mode (sh_pipeline sh)) e)
    \<and> (sh_sent sh' = sh_sent sh \<or> (\<exists>g e. sh_sent sh' = sh_sent sh @ [g] \<and> en_encoder en' = Some e
         \<and> ef_codec g = mode_codec_or_h264 (ps_active_mode (sh_pipeline sh)) \<and> ef_width g = pd_width f \<and> ef_height g = pd_height f))"
proof -
  let ?sel = "sh_pipeline sh" and ?mode = "ps_active_mode (sh_pipeline sh)"
  obtain en1 sh1 where one: "ensure_encoder ?sel f (sync_generation ?sel en, sh) = (en1, sh1)" by fastforce
  have keep: "sh_pipeline sh1 = ?sel" "sh_sent sh1 = sh_sent sh" "en_generation en1 = ps_generation ?sel"
    using ensure_encoder_frame [of ?sel f "(sync_generation ?sel en, sh)"] one by (simp_all add: sync_generation_def)
  have match: "encoder_matches ?mode e" if "en_encoder en1 = Some e" for e
    using ensure_encoder_matches [of "(sync_generation ?sel en, sh)" ?sel f e] one that fits by (auto simp: sync_generation_def split: if_splits)
  show ?thesis
  proof (cases "en_encoder en1")
    case None
    with step one keep show ?thesis by (auto simp: encode_step_def Let_def capture_frame)
  next
    case (Some e)
    obtain e2 sh2 where two: "honour_keyframe_request ?mode e en1 sh1 = (e2, sh2)" by fastforce
    obtain started sh3 where three: "read_clock sh2 = (started, sh3)" by fastforce
    from step one Some two three obtain r e4 d4 where enc: "encoder_encode (frame_data f) e2 (sh_driver sh3) = Some (r, e4, d4)"
      by (auto simp: encode_step_def Let_def split: option.splits)
    have m2: "encoder_matches ?mode e2" using honour_keyframe_matches [OF match [OF Some], of ?mode en1 sh1] two by simp
    have m4: "encoder_matches ?mode e4" using encoder_encode_matches [OF enc m2] .
    have k3: "sh_pipeline sh3 = ?sel" "sh_sent sh3 = sh_sent sh"
      using keep capture_frame(9,10) [of ?mode e en1 sh1] read_clock_frame [of sh2] two three by simp_all
    let ?en = "en1\<lparr>en_encoder := Some e4\<rparr>"
    let ?sh = "sh3\<lparr>sh_driver := d4, sh_memory_mode := memory_mode_value (encoder_memory_mode e4)\<rparr>"
    have out: "(en', sh') = (case r of
        Ok (Some packet) \<Rightarrow> (case publish ?sel f started packet (?en, ?sh) of (a, b) \<Rightarrow> (a, release_prepared f b))
      | Ok None \<Rightarrow> (?en, release_prepared f ?sh)
      | Err err \<Rightarrow> (?en\<lparr>en_encoder := None\<rparr>, release_prepared f (set_error (mode_label ?mode @ lit '' encode failed: '' @ err) ?sh)))"
      using step one Some two three enc by (auto simp: encode_step_def Let_def split_beta split: result.splits option.splits)
    show ?thesis
    proof (cases r)
      case (Ok p)
      show ?thesis
      proof (cases p)
        case None
        with Ok out keep k3 m4 show ?thesis by (auto simp: capture_frame)
      next
        case (Some packet)
        obtain en5 sh5 where five: "publish ?sel f started packet (?en, ?sh) = (en5, sh5)" by fastforce
        from publish_effect [OF five] Ok Some five out keep k3 m4 show ?thesis by (auto simp: capture_frame)
      qed
    qed (use out keep k3 in \<open>auto simp: capture_frame\<close>)
  qed
qed

lemma current_fits:
  assumes "encoder_current n (en, sh)" "n < 2 ^ 64" "en_generation en = ps_generation (sh_pipeline sh)" "en_encoder en = Some e"
  shows "encoder_matches (ps_active_mode (sh_pipeline sh)) e"
proof -
  from assms(1,4) obtain k where k: "k \<le> n" "en_generation en + word_of_nat k = ps_generation (sh_pipeline sh)"
    "k = 0 \<longrightarrow> encoder_matches (ps_active_mode (sh_pipeline sh)) e" by (auto simp: encoder_current_def)
  with assms(3) have "word_of_nat k = (0 :: u64)" by (metis add_cancel_right_right)
  then have "2 ^ 64 dvd k" by (simp add: word_of_nat_eq_0_iff)
  with k(1) assms(2) have "k = 0" by (meson dvd_imp_le leD le_less_trans not_gr_zero)
  with k(3) show ?thesis by simp
qed

lemma live_run_current: "live_run n st \<Longrightarrow> n < 2 ^ 64 \<Longrightarrow> encoder_current n st"
proof (induction rule: live_run.induct)
  case (live_start sh)
  then show ?case by (simp add: encoder_current_def encode_start_def)
next
  case (live_frame n st f st')
  obtain en sh en' sh' where st: "st = (en, sh)" "st' = (en', sh')" by fastforce
  with live_frame have step: "encode_step f (en, sh) = Some (en', sh')" and cur: "encoder_current n (en, sh)" by auto
  from encode_step_effect [OF step current_fits [OF cur live_frame.prems]] st(2)
  show ?case by (auto simp: encoder_current_def intro!: exI [of _ 0] split: option.splits)
next
  case (live_settings n en sh video mode)
  then have "encoder_current n (en, sh)" by simp
  then show ?case
    by (fastforce simp: encoder_current_def add.assoc split: option.splits intro: exI [where x = "Suc _"])
next
  case (live_other n en sh sh')
  then show ?case by (cases "en_encoder en") (simp_all add: encoder_current_def)
qed

text \<open>C18: However frames, settings changes and the other threads interleave, each frame the encoder loop broadcasts is labelled
  with the codec of the active mode of the settings it found, and was made by an encoder of that mode whose transform produces
  that codec; it has the size of the frame that was encoded.\<close>
theorem sent_frames_carry_their_codec:
  assumes "live_run n (en, sh)" "n < 2 ^ 64" "encode_step f (en, sh) = Some (en', sh')" "sh_sent sh' \<noteq> sh_sent sh"
  shows "\<exists>g e. sh_sent sh' = sh_sent sh @ [g] \<and> en_encoder en' = Some e \<and> produces e (ef_codec g)
    \<and> mode_codec (ps_active_mode (sh_pipeline sh)) = Some (ef_codec g) \<and> ef_width g = pd_width f \<and> ef_height g = pd_height f"
proof -
  from encode_step_effect [OF assms(3) current_fits [OF live_run_current [OF assms(1,2)] assms(2)]] assms(4)
  obtain g e where g: "sh_sent sh' = sh_sent sh @ [g]" "en_encoder en' = Some e" "ef_codec g = mode_codec_or_h264 (ps_active_mode (sh_pipeline sh))"
    "ef_width g = pd_width f" "ef_height g = pd_height f" "encoder_matches (ps_active_mode (sh_pipeline sh)) e" by blast
  with encoder_matches_produces [OF g(6)] show ?thesis by (auto simp: mode_codec_or_h264_def unwrap_or_def)
qed

definition software_shared :: capture_shared where
  "software_shared = \<lparr>sh_metrics = default_metrics 0, sh_status = default_capture_status,
     sh_pipeline = \<lparr>ps_generation = 0, ps_video = default_video, ps_active_mode = H264Software\<rparr>, sh_keyframe = True,
     sh_max_fps = 60, sh_max_width = 1920, sh_hardware = False, sh_memory_mode = 3, sh_slot = empty_latest_frame,
     sh_prepared = empty_latest_prepared, sh_sent = [], sh_driver = fresh_driver (\<lambda>_. quiet_answer\<lparr>fa_size := 1\<rparr>)\<rparr>"

definition small_prepared :: prepared_frame where
  "small_prepared = \<lparr>pd_width = 4, pd_height = 2, pd_data = PreparedI420 small_picture\<rparr>"

lemma software_step:
  "\<exists>en' sh'. encode_step small_prepared (encode_start, software_shared) = Some (en', sh') \<and> sh_sent sh' \<noteq> []"
  by (simp add: encode_step_def encode_start_def software_shared_def small_prepared_def sync_generation_def ensure_encoder_def
      encoder_config_for_def mode_codec_or_h264_def unwrap_or_def create_video_encoder_def openh264_new_def make_openh264_def
      openh264_encode_def honour_keyframe_request_def recovery_keyframe_due_def keyframe_take_def frame_data_def publish_def
      elapsed_micros_def read_clock_def release_prepared_def io_then_def io_ok_def attempt_def ask_def perform_def issue_def
      fresh_driver_def quiet_answer_def Let_def)

theorem sent_frames_carry_their_codec_witness:
  "\<exists>en' sh' g e. encode_step small_prepared (encode_start, software_shared) = Some (en', sh') \<and> sh_sent sh' = [g]
     \<and> en_encoder en' = Some e \<and> produces e (ef_codec g) \<and> ef_codec g = H264 \<and> ef_width g = 4"
proof -
  obtain en' sh' where step: "encode_step small_prepared (encode_start, software_shared) = Some (en', sh')" and sent: "sh_sent sh' \<noteq> []"
    using software_step by blast
  have old: "sh_sent software_shared = []" "mode_codec (ps_active_mode (sh_pipeline software_shared)) = Some H264"
    by (simp_all add: software_shared_def)
  from sent_frames_carry_their_codec [OF live_start _ step] sent old step show ?thesis
    by (auto simp: small_prepared_def)
qed

section \<open>The two ways of preprocessing\<close>

lemma even_floor_id: "even (unat w) \<Longrightarrow> even_floor w = w"
proof -
  assume "even (unat w)"
  then have "unat (even_floor w) = unat w" by (simp add: even_floor_unat)
  then show ?thesis by (simp add: word_unat_eq_iff)
qed

text \<open>For the even frames that capture submits, scaling on the CPU and converting on the GPU give the same size, so a
  fallback from one to the other does not change the size of the stream.\<close>
theorem preprocessing_sizes_agree:
  assumes "even (unat (rf_width f))" "even (unat (rf_height f))" "2 \<le> rf_width f" "2 \<le> rf_height f" "2 \<le> mw"
    and "resize_frame lib f mw = Ok (bytes, w, h)"
  shows "output_dimensions (rf_width f) (rf_height f) mw = (w, h)"
proof -
  have "max (rf_width f) 2 = rf_width f" "max (rf_height f) 2 = rf_height f" "max mw 2 = mw"
    using assms(3-5) by (simp_all add: max_absorb1)
  with assms(1,2,6) show ?thesis
    unfolding output_dimensions_cases
    by (auto simp: resize_frame_def even_floor_id Let_def split: if_splits)
qed

theorem preprocessing_sizes_agree_witness:
  "\<forall>to_yuv. \<exists>bytes. resize_frame \<lparr>pl_resize = (\<lambda>_ _ _ w h. Ok (replicate (unat w * unat h * 4) 0)), pl_to_yuv = to_yuv\<rparr>
       \<lparr>rf_width = 3840, rf_height = 2160, rf_bgra = []\<rparr> 1920 = Ok (bytes, 1920, 1080)
     \<and> output_dimensions 3840 2160 1920 = (1920, 1080)"
proof
  fix to_yuv
  let ?lib = "\<lparr>pl_resize = (\<lambda>_ _ _ w h. Ok (replicate (unat w * unat h * 4) 0)), pl_to_yuv = to_yuv\<rparr>"
  let ?f = "\<lparr>rf_width = 3840, rf_height = 2160, rf_bgra = []\<rparr>"
  have run: "resize_frame ?lib ?f 1920 = Ok (replicate (unat (1920 :: u32) * unat (1080 :: u32) * 4) 0, 1920, 1080)"
    by (simp add: resize_frame_def even_floor_def)
  from preprocessing_sizes_agree [OF _ _ _ _ _ run] run
  show "\<exists>bytes. resize_frame ?lib ?f 1920 = Ok (bytes, 1920, 1080) \<and> output_dimensions 3840 2160 1920 = (1920, 1080)"
    by (intro exI conjI) (assumption, simp)
qed

lemma crop_rows_pitched:
  assumes "row_bytes \<le> stride" "rows * stride \<le> length bytes"
  shows "crop_rows stride row_bytes rows bytes = pitched_rows (\<lambda>i. bytes ! i) 0 stride row_bytes rows"
proof (cases "stride = 0")
  case True
  then show ?thesis using assms by (simp add: crop_rows_def pitched_rows_def)
next
  case False
  with assms(2) have n: "min rows (length bytes div stride) = rows"
    by (simp add: less_eq_div_iff_mult_less_eq min_def)
  have row_eq: "take row_bytes (take stride (drop (r * stride) bytes)) = map (\<lambda>i. bytes ! (r * stride + i)) [0..<row_bytes]" if "r < rows" for r
  proof (rule nth_equalityI)
    have "Suc r * stride \<le> rows * stride" using that by (intro mult_le_mono1) simp
    then have row: "r * stride + stride \<le> length bytes" using assms(2) by simp
    with assms(1) show "length (take row_bytes (take stride (drop (r * stride) bytes))) = length (map (\<lambda>i. bytes ! (r * stride + i)) [0..<row_bytes])"
      by simp
    show "take row_bytes (take stride (drop (r * stride) bytes)) ! i = map (\<lambda>i. bytes ! (r * stride + i)) [0..<row_bytes] ! i"
      if "i < length (take row_bytes (take stride (drop (r * stride) bytes)))" for i
      using that row by (simp add: nth_drop del: drop_drop)
  qed
  show ?thesis unfolding crop_rows_def pitched_rows_def n
    by (rule arg_cong [where f = concat], rule map_cong [OF refl]) (use row_eq in simp)
qed

end
