(* ===== verification/Capture_Manager.thy ===== *)
theory Capture_Manager
  imports Capture
begin

text \<open>
  The manager of the live capture (\<open>crates/host-windows/src/capture.rs\<close>): starting and stopping a source, the
  live switch of the video settings with its test of the new encoder, and the learned benchmarks.  It owns the
  state the threads of the pipeline share (\<open>capture_shared\<close>).  What the operating system answers (monitors,
  threads, the capture session) is an answer of the driver; a handle that is only kept until it is joined is a
  truth value.  A value \<open>None\<close> is an operation that never returns or panics.
\<close>

section \<open>State\<close>

datatype capture_source = MonitorSource nat | TestPatternSource

record capture_manager =
  cm_control :: bool
  cm_producer_thread :: bool
  cm_encoder_thread :: bool
  cm_shared :: capture_shared
  cm_video :: video_config
  cm_browser :: browser_video_capabilities
  cm_capabilities :: "encoder_capability list"
  cm_learned :: "auto_benchmark_observation list"
  cm_runtime :: video_runtime_status
  cm_source :: "capture_source option"
  cm_disk :: learned_disk

record manager_library =
  ml_blank_yuv :: "nat \<Rightarrow> nat \<Rightarrow> yuv_buffer"
  ml_json :: learned_json

definition on_shared :: "(capture_shared \<Rightarrow> capture_shared) \<Rightarrow> capture_manager \<Rightarrow> capture_manager" where
  "on_shared f m = m\<lparr>cm_shared := f (cm_shared m)\<rparr>"

definition runtime_status :: "video_config \<Rightarrow> encoder_mode \<Rightarrow> ustring \<Rightarrow> ustring \<Rightarrow> u64 \<Rightarrow> bool \<Rightarrow> video_runtime_status" where
  "runtime_status video mode name reason restarts switching =
     (let preset = active_preset video; codec = mode_codec_or_h264 mode
      in \<lparr>vr_requested_mode = encoder video, vr_active_mode = mode, vr_codec = codec,
          vr_backend = (if mode = H264Software then OpenH264Software else MediaFoundationHardware),
          vr_encoder_name = name, vr_hardware = (mode \<noteq> H264Software), vr_pipeline_memory_mode = CpuPreprocessing,
          vr_output_width = 0, vr_output_height = 0, vr_target_fps = max_fps preset,
          vr_target_bitrate_bps = preset_bitrate_bps preset codec, vr_restart_count = restarts, vr_switching = switching,
          vr_auto_selection_reason = reason, vr_last_error = None\<rparr>)"

definition fallback_selection :: "encoder_mode \<times> ustring \<times> ustring" where
  "fallback_selection = (H264Software, lit ''hardware discovery did not produce a functional candidate; using compatibility fallback'',
     lit ''OpenH264 software encoder'')"

definition capture_manager_new :: "manager_library \<Rightarrow> metrics \<Rightarrow> video_config \<Rightarrow> encoder_capability list \<Rightarrow> learned_disk \<Rightarrow> driver \<Rightarrow> capture_manager" where
  "capture_manager_new lib metrics video caps disk d =
     (let learned = learned_load (ml_json lib) disk;
          (mode, reason, name) = (case select_encoder video default_browser caps learned of Ok s \<Rightarrow> s | Err _ \<Rightarrow> fallback_selection);
          preset = active_preset video
      in \<lparr>cm_control = False, cm_producer_thread = False, cm_encoder_thread = False,
          cm_shared = \<lparr>sh_metrics = metrics, sh_status = default_capture_status,
            sh_pipeline = \<lparr>ps_generation = 0, ps_video = video, ps_active_mode = mode\<rparr>, sh_keyframe = False,
            sh_max_fps = max_fps preset, sh_max_width = max_width preset, sh_hardware = requires_hardware mode,
            sh_memory_mode = memory_mode_value CpuPreprocessing, sh_slot = empty_latest_frame, sh_prepared = empty_latest_prepared,
            sh_sent = [], sh_driver = d\<rparr>,
          cm_video = video, cm_browser = default_browser, cm_capabilities = caps, cm_learned = learned,
          cm_runtime = runtime_status video mode name reason 0 False, cm_source = None, cm_disk = disk\<rparr>)"

section \<open>Starting and stopping\<close>

text \<open>\<open>stop\<close> gives up the capture session, whose answer is only logged, and waits for the threads.\<close>

definition manager_stop :: "capture_manager \<Rightarrow> capture_manager" where
  "manager_stop m =
     (let m = (if cm_control m then on_shared (\<lambda>sh. snd (read_clock sh)) (m\<lparr>cm_control := False\<rparr>) else m);
          m = on_shared (\<lambda>sh. sh\<lparr>sh_slot := frame_stop (sh_slot sh)\<rparr>) m
      in on_shared (\<lambda>sh. sh\<lparr>sh_status := (sh_status sh)\<lparr>cs_running := False\<rparr>\<rparr>)
           (m\<lparr>cm_producer_thread := False, cm_encoder_thread := False\<rparr>))"

text \<open>A call of the operating system on behalf of the manager.\<close>

definition host_call :: "'a io \<Rightarrow> capture_manager \<Rightarrow> ('a, ustring) result \<times> capture_manager" where
  "host_call f m = (case f (sh_driver (cm_shared m)) of (r, d) \<Rightarrow> (r, on_shared (\<lambda>sh. sh\<lparr>sh_driver := d\<rparr>) m))"

text \<open>The old queue goes with the frame it still holds.\<close>

definition fresh_slot :: "capture_shared \<Rightarrow> capture_shared" where
  "fresh_slot sh = (case lf_frame (sh_slot sh) of None \<Rightarrow> sh | Some f \<Rightarrow> release_frame f sh)\<lparr>sh_slot := empty_latest_frame\<rparr>"

definition size_suffix :: "u32 \<Rightarrow> u32 \<Rightarrow> ustring" where
  "size_suffix w h = lit '' ('' @ show_nat (unat w) @ [215] @ show_nat (unat h) @ lit '')''"

definition running_status :: "ustring \<Rightarrow> capture_manager \<Rightarrow> capture_manager" where
  "running_status source m =
     on_shared (\<lambda>sh. sh\<lparr>sh_status := \<lparr>cs_running = True, cs_source = source, cs_encoder = vr_encoder_name (cm_runtime m), cs_error = None\<rparr>\<rparr>) m"

text \<open>The monitor answers its width, its height and, when it can, its name.\<close>

definition monitor_facts :: "nat \<Rightarrow> (u32 \<times> u32 \<times> ustring) io" where
  "monitor_facts index =
     io_then (attempt id) (\<lambda>_.
     io_then (attempt id) (\<lambda>w.
     io_then (attempt id) (\<lambda>h.
     (\<lambda>d. let (n, d) = ask d
       in (Ok (fa_size w, fa_size h, if fa_error n = None then utf16_lossy (fa_units n) else lit ''Display '' @ show_nat index), d)))))"

definition start_capture :: "ustring \<Rightarrow> capture_manager \<Rightarrow> (unit, ustring) result \<times> capture_manager" where
  "start_capture source m =
     (case host_call (attempt id) m of
        (Err e, m) \<Rightarrow> (Err e, m)
      | (Ok _, m) \<Rightarrow>
          (case host_call (attempt id) m of
             (Ok _, m) \<Rightarrow> (Ok (), running_status source (m\<lparr>cm_control := True, cm_encoder_thread := True\<rparr>))
           | (Err e, m) \<Rightarrow> (Err e, on_shared (\<lambda>sh. set_error e (sh\<lparr>sh_slot := frame_stop (sh_slot sh)\<rparr>)) m)))"

definition start_monitor :: "nat \<Rightarrow> capture_manager \<Rightarrow> (unit, ustring) result \<times> capture_manager" where
  "start_monitor index m =
     (case host_call (monitor_facts index) ((manager_stop m)\<lparr>cm_source := Some (MonitorSource index)\<rparr>) of
        (Err e, m) \<Rightarrow> (Err e, m)
      | (Ok (w, h, name), m) \<Rightarrow> start_capture (name @ size_suffix w h) (on_shared fresh_slot m))"

definition pattern_size :: "u32 \<Rightarrow> u32 \<Rightarrow> u32 \<times> u32" where
  "pattern_size w h = (even_floor (clamp_ord w 320 3840), even_floor (clamp_ord h 180 2160))"

definition start_test_pattern_size :: "u32 \<Rightarrow> u32 \<Rightarrow> capture_manager \<Rightarrow> (unit, ustring) result \<times> capture_manager" where
  "start_test_pattern_size w h m =
     (let (w, h) = pattern_size w h; m = on_shared fresh_slot ((manager_stop m)\<lparr>cm_source := Some TestPatternSource\<rparr>)
      in case host_call (attempt id) m of
           (Err e, m) \<Rightarrow> (Err e, m)
         | (Ok _, m) \<Rightarrow>
             (case host_call (attempt id) (m\<lparr>cm_encoder_thread := True\<rparr>) of
                (Err e, m) \<Rightarrow> (Err e, m)
              | (Ok _, m) \<Rightarrow>
                  (Ok (), running_status (lit ''Generated integrity test pattern'' @ size_suffix w h) (m\<lparr>cm_producer_thread := True\<rparr>))))"

definition start_test_pattern :: "capture_manager \<Rightarrow> (unit, ustring) result \<times> capture_manager" where
  "start_test_pattern = start_test_pattern_size 1280 720"

text \<open>The encoder thread: a queue of prepared frames of its own and, when it can be started, the preprocessing
  thread; at the end of the frames that thread stops the queue, and the encoder loop shuts its encoder down.\<close>

definition encode_loop_start :: "capture_shared \<Rightarrow> bool \<times> capture_shared" where
  "encode_loop_start sh =
     (case attempt id (sh_driver sh) of
        (Ok _, d) \<Rightarrow> (True, sh\<lparr>sh_driver := d, sh_prepared := empty_latest_prepared\<rparr>)
      | (Err e, d) \<Rightarrow> (False, set_error (lit ''video preprocessing thread failed: '' @ e) (sh\<lparr>sh_driver := d\<rparr>)))"

definition preprocess_loop_end :: "preprocess_state \<Rightarrow> capture_shared \<Rightarrow> capture_shared" where
  "preprocess_loop_end pp sh = sh\<lparr>sh_prepared := prepared_stop (sh_prepared sh), sh_driver := drop_processor (pp_gpu_processor pp) (sh_driver sh)\<rparr>"

definition encode_loop_end :: "encode_state \<Rightarrow> encode_state" where
  "encode_loop_end en = en\<lparr>en_encoder := None\<rparr>"

section \<open>Settings\<close>

definition preflight_outcome :: "encoder_mode \<Rightarrow> (encoded_packet option, ustring) result \<Rightarrow> (unit, ustring) result" where
  "preflight_outcome mode r =
     and_then r (\<lambda>packet.
       case packet of
         Some p \<Rightarrow> if ep_data p \<noteq> [] then Ok () else Err (mode_label mode @ lit '' returned no encoded preflight frame'')
       | None \<Rightarrow> Err (mode_label mode @ lit '' returned no encoded preflight frame''))"

definition preflight_encoder :: "manager_library \<Rightarrow> video_config \<Rightarrow> encoder_mode \<Rightarrow> u32 \<Rightarrow> u32 \<Rightarrow> driver
    \<Rightarrow> ((unit, ustring) result \<times> driver) option" where
  "preflight_encoder lib settings mode sw sh d =
     (case mode_codec mode of
        None \<Rightarrow> Some (Err (lit ''Auto is not a concrete encoder''), d)
      | Some codec \<Rightarrow>
          (let preset = active_preset settings; (w, h) = output_dimensions sw sh (max_width preset)
           in case create_video_encoder \<lparr>vc_codec = codec, vc_mode = mode, vc_width = w, vc_height = h, vc_max_fps = max_fps preset,
                  vc_bitrate_bps = preset_bitrate_bps preset codec\<rparr> d of
                (Err e, d) \<Rightarrow> Some (Err e, d)
              | (Ok e, d) \<Rightarrow>
                  (case encoder_request_keyframe e d of
                     (Err err, e, d) \<Rightarrow> Some (Err err, d)
                   | (Ok _, e, d) \<Rightarrow>
                       map_option (\<lambda>(r, e, d). (preflight_outcome mode r, d))
                         (encoder_encode \<lparr>vf_width = w, vf_height = h, vf_data = I420 (ml_blank_yuv lib (unat w) (unat h))\<rparr> e d))))"

text \<open>The first other mode of the list that the computer can encode and that passes the test.\<close>

fun find_fallback :: "manager_library \<Rightarrow> video_config \<Rightarrow> encoder_capability list \<Rightarrow> encoder_mode \<Rightarrow> u32 \<Rightarrow> u32 \<Rightarrow> encoder_mode list
    \<Rightarrow> driver \<Rightarrow> ((encoder_mode \<times> ustring) option \<times> driver) option" where
  "find_fallback lib settings caps active sw sh [] d = Some (None, d)"
| "find_fallback lib settings caps active sw sh (mode # modes) d =
     (if mode = active \<or> functional caps mode = None then find_fallback lib settings caps active sw sh modes d
      else (case preflight_encoder lib settings mode sw sh d of
          None \<Rightarrow> None
        | Some (Ok _, d) \<Rightarrow> Some (map_option (\<lambda>c. (mode, ec_encoder_name c)) (functional caps mode), d)
        | Some (Err _, d) \<Rightarrow> find_fallback lib settings caps active sw sh modes d))"

definition test_selection :: "manager_library \<Rightarrow> video_config \<Rightarrow> encoder_capability list \<Rightarrow> encoder_mode \<times> ustring \<times> ustring \<Rightarrow> u32 \<Rightarrow> u32
    \<Rightarrow> driver \<Rightarrow> ((encoder_mode \<times> ustring \<times> ustring, ustring) result \<times> driver) option" where
  "test_selection lib settings caps chosen sw sh d =
     (case chosen of (mode, reason, name) \<Rightarrow>
      case preflight_encoder lib settings mode sw sh d of
        None \<Rightarrow> None
      | Some (Ok _, d) \<Rightarrow> Some (Ok chosen, d)
      | Some (Err error, d) \<Rightarrow>
          if encoder settings \<noteq> Auto then
            Some (Err (mode_label mode @ lit '' initialization failed; the existing video path was kept: '' @ error), d)
          else
            map_option (\<lambda>(fallback, d). (case fallback of
                None \<Rightarrow> Err (mode_label mode @ lit '' initialization failed and no compatibility fallback initialized: '' @ error)
              | Some (fmode, fname) \<Rightarrow>
                  Ok (fmode, mode_label mode @ lit '' failed its live initialization test ('' @ error @ lit ''); Auto returned to '' @ mode_label fmode,
                    fname), d))
              (find_fallback lib settings caps mode sw sh [H264Hardware, H264Software] d))"

text \<open>The size the new encoder is tested with: the source as last measured, at least the preset's width up to 1920.\<close>

definition test_size :: "video_config \<Rightarrow> metrics_snapshot \<Rightarrow> u32 \<times> u32" where
  "test_size settings snapshot =
     (let sw = max (ms_source_width snapshot) (min (max_width (active_preset settings)) 1920)
      in (sw, max (ms_source_height snapshot) (max (sw * 9 div 16) 2)))"

text \<open>With a source attached the chosen encoder is tested first.\<close>

definition live_selection :: "manager_library \<Rightarrow> video_config \<Rightarrow> encoder_mode \<times> ustring \<times> ustring \<Rightarrow> capture_manager
    \<Rightarrow> ((encoder_mode \<times> ustring \<times> ustring, ustring) result \<times> capture_manager) option" where
  "live_selection lib settings chosen m =
     (if cm_source m = None then Some (Ok chosen, m)
      else
        (let (now, sh) = read_clock (cm_shared m)
         in case metrics_take_snapshot now (sh_metrics sh) of
              None \<Rightarrow> None
            | Some (snapshot, metrics) \<Rightarrow>
                (let (sw, h) = test_size settings snapshot; m = m\<lparr>cm_shared := sh\<lparr>sh_metrics := metrics\<rparr>\<rparr>
                 in map_option (\<lambda>(r, d). (r, on_shared (\<lambda>sh. sh\<lparr>sh_driver := d\<rparr>) m))
                      (test_selection lib settings (cm_capabilities m) chosen sw h (sh_driver sh)))))"

definition commit_settings :: "video_config \<Rightarrow> browser_video_capabilities \<Rightarrow> encoder_mode \<times> ustring \<times> ustring \<Rightarrow> capture_manager \<Rightarrow> capture_manager" where
  "commit_settings settings browser chosen m =
     (case chosen of (mode, reason, name) \<Rightarrow>
      let preset = active_preset settings; sh = cm_shared m; restarts = sat_add (vr_restart_count (cm_runtime m)) 1;
          sh = sh\<lparr>sh_metrics := reset_video_latency_samples (sh_metrics sh), sh_max_fps := max_fps preset, sh_max_width := max_width preset,
                 sh_hardware := requires_hardware mode, sh_memory_mode := memory_mode_value CpuPreprocessing,
                 sh_pipeline := \<lparr>ps_generation = ps_generation (sh_pipeline sh) + 1, ps_video = settings, ps_active_mode = mode\<rparr>\<rparr>
      in m\<lparr>cm_shared := sh, cm_video := settings, cm_browser := browser,
           cm_runtime := runtime_status settings mode name reason restarts (cm_source m \<noteq> None)\<rparr>)"

text \<open>Only a changed cursor restarts the capture, and only that of a monitor.\<close>

definition restart_for_cursor :: "bool \<Rightarrow> capture_manager \<Rightarrow> (unit, ustring) result \<times> capture_manager" where
  "restart_for_cursor changed m =
     (case cm_source m of
        Some (MonitorSource index) \<Rightarrow> if changed then start_monitor index m else (Ok (), m)
      | _ \<Rightarrow> (Ok (), m))"

definition finish_switch :: "encoder_mode \<Rightarrow> capture_manager \<Rightarrow> capture_manager" where
  "finish_switch mode m =
     (on_shared (\<lambda>sh. sh\<lparr>sh_status := (sh_status sh)\<lparr>cs_encoder := lit ''Switching to '' @ mode_label mode\<rparr>,
                       sh_keyframe := keyframe_request (sh_keyframe sh)\<rparr>) m)\<lparr>cm_runtime := (cm_runtime m)\<lparr>vr_switching := False\<rparr>\<rparr>"

definition switch_settings :: "video_config \<Rightarrow> browser_video_capabilities \<Rightarrow> encoder_mode \<times> ustring \<times> ustring \<Rightarrow> capture_manager
    \<Rightarrow> (video_runtime_status, ustring) result \<times> capture_manager" where
  "switch_settings settings browser chosen m =
     (case restart_for_cursor (cursor (cm_video m) \<noteq> cursor settings) (commit_settings settings browser chosen m) of
        (Err e, m) \<Rightarrow> (Err e, m\<lparr>cm_runtime := (cm_runtime m)\<lparr>vr_switching := False, vr_last_error := Some e\<rparr>\<rparr>)
      | (Ok _, m) \<Rightarrow> (let m = finish_switch (fst chosen) m in (Ok (cm_runtime m), m)))"

definition apply_video_settings :: "manager_library \<Rightarrow> video_config \<Rightarrow> browser_video_capabilities \<Rightarrow> capture_manager
    \<Rightarrow> ((video_runtime_status, ustring) result \<times> capture_manager) option" where
  "apply_video_settings lib settings browser m =
     (case and_then (video_validate settings) (\<lambda>_. select_encoder settings browser (cm_capabilities m) (cm_learned m)) of
        Err e \<Rightarrow> Some (Err e, m)
      | Ok (mode, reason, name) \<Rightarrow>
          if cm_video m = settings \<and> vr_active_mode (cm_runtime m) = mode then
            (let runtime = (cm_runtime m)\<lparr>vr_auto_selection_reason := reason, vr_encoder_name := name\<rparr>
             in Some (Ok runtime, m\<lparr>cm_browser := browser, cm_runtime := runtime\<rparr>))
          else
            (case live_selection lib settings (mode, reason, name) m of
               None \<Rightarrow> None
             | Some (Err e, m) \<Rightarrow> Some (Err e, m)
             | Some (Ok chosen, m) \<Rightarrow> Some (switch_settings settings browser chosen m)))"

text \<open>The runtime as reported: the sizes and the memory mode are those of the running pipeline.\<close>

definition video_runtime_status_of :: "capture_manager \<Rightarrow> (video_runtime_status \<times> capture_manager) option" where
  "video_runtime_status_of m =
     (let (now, sh) = read_clock (cm_shared m)
      in map_option (\<lambda>(snapshot, metrics).
           ((cm_runtime m)\<lparr>vr_output_width := ms_output_width snapshot, vr_output_height := ms_output_height snapshot,
              vr_pipeline_memory_mode := memory_mode_from_value (sh_memory_mode sh)\<rparr>,
            m\<lparr>cm_shared := sh\<lparr>sh_metrics := metrics\<rparr>\<rparr>)) (metrics_take_snapshot now (sh_metrics sh)))"

definition request_video_keyframe :: "capture_manager \<Rightarrow> capture_manager" where
  "request_video_keyframe m = on_shared (\<lambda>sh. sh\<lparr>sh_keyframe := keyframe_request (sh_keyframe sh)\<rparr>) m"

section \<open>Learned benchmarks\<close>

definition measured_values :: "benchmark_metrics \<Rightarrow> f64 list" where
  "measured_values b = [bm_encoded_fps b, bm_encode_mean_ms b, bm_encode_p95_ms b, bm_preprocess_mean_ms b, bm_preprocess_p95_ms b,
     bm_actual_mbps b, bm_drop_percent b]"

definition invalid_metrics :: "auto_benchmark_observation \<Rightarrow> bool" where
  "invalid_metrics ob \<longleftrightarrow>
     (let b = ao_metrics ob
      in bm_requested_fps b \<le> 0 \<or> lit64 120 1 < bm_requested_fps b \<or> 7680 < ao_max_width ob \<or> ao_max_width ob < 320
         \<or> (\<exists>v \<in> set (measured_values b). \<not> is_finite64 v \<or> v < 0))"

definition check_observation :: "capture_manager \<Rightarrow> auto_benchmark_observation \<Rightarrow> (unit, ustring) result" where
  "check_observation m ob =
     (if ao_mode ob = Auto then Err (lit ''benchmark observations must identify an actual encoder mode'')
      else if bv_user_agent (cm_browser m) = [] \<or> ao_receiver_runtime ob \<noteq> bv_user_agent (cm_browser m) then
        Err (lit ''benchmark receiver identity does not match the paired browser'')
      else
        and_then (ok_or (lit ''benchmark mode does not have a codec'') (mode_codec (ao_mode ob))) (\<lambda>codec.
        if \<not> bc_presented (browser_get (cm_browser m) codec) \<or> \<not> ao_end_to_end_verified ob then
          Err (lit ''an end-to-end benchmark requires verified decoded presentation'')
        else
          and_then (ok_or (lit ''benchmark encoder identity is not present on this PC'')
            (find (\<lambda>c. ec_id c = ao_encoder_id ob \<and> capability_mode c = ao_mode ob) (cm_capabilities m))) (\<lambda>c.
          if \<not> is_usable (ec_state c) then Err (lit ''benchmark encoder is not functional'')
          else if invalid_metrics ob then Err (lit ''benchmark observation contains invalid metrics'')
          else Ok ())))"

definition stamp_observation :: "auto_benchmark_observation \<Rightarrow> auto_benchmark_observation" where
  "stamp_observation ob = ob\<lparr>ao_schema_version := 1, ao_nfidb_version := CARGO_PKG_VERSION,
     ao_score := score_auto_candidate (ao_mode ob) (ao_metrics ob)\<rparr>"

definition same_trial :: "auto_benchmark_observation \<Rightarrow> auto_benchmark_observation \<Rightarrow> bool" where
  "same_trial a b \<longleftrightarrow> ao_receiver_runtime a = ao_receiver_runtime b \<and> ao_encoder_id a = ao_encoder_id b \<and> ao_profile a = ao_profile b
     \<and> ao_max_width a = ao_max_width b \<and> ao_requested_fps a = ao_requested_fps b"

definition MAX_LEARNED :: nat where "MAX_LEARNED = 128"

definition learn :: "auto_benchmark_observation \<Rightarrow> auto_benchmark_observation list \<Rightarrow> auto_benchmark_observation list" where
  "learn ob learned = (let learned = filter (\<lambda>c. \<not> same_trial c ob) learned @ [ob] in drop (length learned - MAX_LEARNED) learned)"

definition record_auto_benchmark :: "manager_library \<Rightarrow> auto_benchmark_observation \<Rightarrow> capture_manager \<Rightarrow> (unit, ustring) result \<times> capture_manager" where
  "record_auto_benchmark lib ob m =
     (case check_observation m ob of
        Err e \<Rightarrow> (Err e, m)
      | Ok _ \<Rightarrow>
          (let learned = learn (stamp_observation ob) (cm_learned m); (r, disk) = learned_save (ml_json lib) learned (cm_disk m)
           in (r, m\<lparr>cm_learned := learned, cm_disk := disk\<rparr>)))"

definition clear_auto_benchmarks :: "manager_library \<Rightarrow> capture_manager \<Rightarrow> (unit, ustring) result \<times> capture_manager" where
  "clear_auto_benchmarks lib m =
     (let (r, disk) = learned_save (ml_json lib) [] (cm_disk m) in (r, m\<lparr>cm_learned := [], cm_disk := disk\<rparr>))"

end
