(* ===== verification/Manager_Runs.thy ===== *)
theory Manager_Runs
  imports Capture_Manager
begin

text \<open>
  Histories of the capture manager: its operations in any order, between any steps of the threads of the pipeline.
  The settings the threads read, the runtime status and the active video settings always agree; settings that are
  refused change nothing; what is learned stays trustworthy and survives a restart.
\<close>

section \<open>What the threads leave alone\<close>

definition knobs :: "capture_shared \<Rightarrow> pipeline_selection \<times> u32 \<times> u32 \<times> bool" where
  "knobs sh = (sh_pipeline sh, sh_max_fps sh, sh_max_width sh, sh_hardware sh)"

lemma knobs_simps [simp]:
  "knobs (sh\<lparr>sh_metrics := a\<rparr>) = knobs sh" "knobs (sh\<lparr>sh_status := b\<rparr>) = knobs sh" "knobs (sh\<lparr>sh_keyframe := c\<rparr>) = knobs sh"
  "knobs (sh\<lparr>sh_memory_mode := e\<rparr>) = knobs sh" "knobs (sh\<lparr>sh_slot := f\<rparr>) = knobs sh" "knobs (sh\<lparr>sh_prepared := g\<rparr>) = knobs sh"
  "knobs (sh\<lparr>sh_sent := h\<rparr>) = knobs sh" "knobs (sh\<lparr>sh_driver := i\<rparr>) = knobs sh"
  by (simp_all add: knobs_def)

lemma knobs_basic [simp]:
  "knobs (snd (read_clock sh)) = knobs sh" "knobs (set_error err sh) = knobs sh" "knobs (release_frame f sh) = knobs sh"
  "knobs (release_prepared p sh) = knobs sh" "knobs (snd (elapsed_micros t sh)) = knobs sh"
  "knobs (submit_captured f sh) = knobs sh" "knobs (submit_prepared p sh) = knobs sh"
  by (simp_all add: read_clock_def set_error_def release_frame_def release_prepared_def elapsed_micros_def submit_captured_def
      submit_prepared_def Let_def split_beta split: captured_frame.splits prepared_frame_data.splits option.splits)

lemma knobs_captured [simp]:
  "knobs (snd (capture_cpu f w h sh)) = knobs sh" "knobs (snd (snd (on_frame_arrived f (sc, sh)))) = knobs sh" "knobs (on_closed sh) = knobs sh"
proof -
  show cpu: "knobs (snd (capture_cpu f w h sh)) = knobs sh" for w h sh
    by (simp add: capture_cpu_def Let_def split: result.splits)
  show "knobs (snd (snd (on_frame_arrived f (sc, sh)))) = knobs sh"
    by (simp add: on_frame_arrived_def Let_def split_beta cpu split: result.splits option.splits)
qed (simp add: on_closed_def)

lemma knobs_prepared [simp]:
  "knobs (submit_preprocessed t p sh) = knobs sh" "knobs (snd (ensure_processor s w h fps gen (pp, sh))) = knobs sh"
  "knobs (preprocess_cpu lib t f sh) = knobs sh"
  by (auto simp: submit_preprocessed_def ensure_processor_def preprocess_cpu_def Let_def split_beta
      split: result.splits option.splits captured_frame.splits)

lemma knobs_preprocess_gpu [simp]: "knobs (snd (snd (preprocess_gpu t s sel (pp, sh)))) = knobs sh"
proof -
  obtain w h where wh: "output_dimensions (gs_width s) (gs_height s) (sh_max_width sh) = (w, h)" by fastforce
  obtain pp1 sh1 where one: "ensure_processor s w h (max_fps (active_preset (ps_video sel))) (ps_generation sel) (pp, sh) = (pp1, sh1)"
    by fastforce
  then have "knobs sh1 = knobs sh" using knobs_prepared(2) [of s w h _ _ pp sh] by (metis snd_conv)
  then show ?thesis using wh one by (simp add: preprocess_gpu_def Let_def split_beta split: option.splits result.splits)
qed

lemma knobs_preprocess [simp]: "knobs (snd (preprocess_step lib f (pp, sh))) = knobs sh"
  by (simp add: preprocess_step_def Let_def split_beta split: captured_frame.splits)

lemma knobs_encode_parts [simp]:
  "knobs (snd (ensure_encoder sel f (en, sh))) = knobs sh" "knobs (snd (recovery_keyframe_due mode en sh)) = knobs sh"
  "knobs (snd (honour_keyframe_request mode e en sh)) = knobs sh" "knobs (snd (publish sel f t packet (en, sh))) = knobs sh"
proof -
  show "knobs (snd (ensure_encoder sel f (en, sh))) = knobs sh"
    by (simp add: ensure_encoder_def split: option.splits result.splits prod.splits)
  show due: "knobs (snd (recovery_keyframe_due mode en sh)) = knobs sh" for mode en sh
    by (simp add: recovery_keyframe_due_def Let_def split_beta split: option.splits encoder_mode.splits)
  show "knobs (snd (honour_keyframe_request mode e en sh)) = knobs sh"
    by (simp add: honour_keyframe_request_def Let_def split_beta due split: result.splits)
  show "knobs (snd (publish sel f t packet (en, sh))) = knobs sh"
    by (simp add: publish_def Let_def split_beta)
qed

lemma knobs_encode:
  assumes "encode_step f (en, sh) = Some (en', sh')"
  shows "knobs sh' = knobs sh"
proof -
  let ?sel = "sh_pipeline sh" and ?mode = "ps_active_mode (sh_pipeline sh)"
  obtain en1 sh1 where one: "ensure_encoder ?sel f (sync_generation ?sel en, sh) = (en1, sh1)" by fastforce
  then have k1: "knobs sh1 = knobs sh" using knobs_encode_parts(1) by (metis snd_conv)
  show ?thesis
  proof (cases "en_encoder en1")
    case None
    with assms one k1 show ?thesis by (auto simp: encode_step_def Let_def)
  next
    case (Some e)
    obtain e2 sh2 where two: "honour_keyframe_request ?mode e en1 sh1 = (e2, sh2)" by fastforce
    then have k2: "knobs sh2 = knobs sh" using knobs_encode_parts(3) k1 by (metis snd_conv)
    obtain started sh3 where three: "read_clock sh2 = (started, sh3)" by fastforce
    then have k3: "knobs sh3 = knobs sh" using knobs_basic(1) k2 by (metis snd_conv)
    from assms one Some two three obtain r e4 d4 where enc: "encoder_encode (frame_data f) e2 (sh_driver sh3) = Some (r, e4, d4)"
      by (auto simp: encode_step_def Let_def split: option.splits)
    with assms one Some two three k3 show ?thesis
      by (auto simp: encode_step_def Let_def split_beta split: result.splits option.splits)
  qed
qed

section \<open>Histories\<close>

text \<open>A step of one of the threads of the pipeline on what they share; the metrics also change from elsewhere.\<close>

inductive thread_step :: "picture_library \<Rightarrow> capture_shared \<Rightarrow> capture_shared \<Rightarrow> bool" for lib where
  step_arrived: "thread_step lib sh (snd (snd (on_frame_arrived f (sc, sh))))"
| step_closed: "thread_step lib sh (on_closed sh)"
| step_taken: "frame_take (sh_slot sh) = Some (f, s) \<Longrightarrow> thread_step lib sh (sh\<lparr>sh_slot := s\<rparr>)"
| step_preprocessed: "thread_step lib sh (snd (preprocess_step lib f (pp, sh)))"
| step_prepared: "prepared_take (sh_prepared sh) = Some (p, s') \<Longrightarrow> thread_step lib sh (sh\<lparr>sh_prepared := s'\<rparr>)"
| step_encoded: "encode_step p (en, sh) = Some (en', sh') \<Longrightarrow> thread_step lib sh sh'"
| step_started: "thread_step lib sh (snd (encode_loop_start sh))"
| step_ended: "thread_step lib sh (preprocess_loop_end pp sh)"
| step_metrics: "thread_step lib sh (sh\<lparr>sh_metrics := metrics\<rparr>)"

lemma thread_step_knobs: "thread_step lib sh sh' \<Longrightarrow> knobs sh' = knobs sh"
  by (induction rule: thread_step.induct)
    (simp_all add: knobs_encode encode_loop_start_def preprocess_loop_end_def split: prod.splits result.splits)

inductive manager_run :: "picture_library \<Rightarrow> manager_library \<Rightarrow> capture_manager \<Rightarrow> capture_manager \<Rightarrow> bool" for pl lib m0 where
  run_refl: "manager_run pl lib m0 m0"
| run_apply: "manager_run pl lib m0 m \<Longrightarrow> apply_video_settings lib settings browser m = Some (r, m') \<Longrightarrow> manager_run pl lib m0 m'"
| run_monitor: "manager_run pl lib m0 m \<Longrightarrow> start_monitor i m = (r', m') \<Longrightarrow> manager_run pl lib m0 m'"
| run_pattern: "manager_run pl lib m0 m \<Longrightarrow> start_test_pattern_size w h m = (r', m') \<Longrightarrow> manager_run pl lib m0 m'"
| run_stop: "manager_run pl lib m0 m \<Longrightarrow> manager_run pl lib m0 (manager_stop m)"
| run_keyframe: "manager_run pl lib m0 m \<Longrightarrow> manager_run pl lib m0 (request_video_keyframe m)"
| run_status: "manager_run pl lib m0 m \<Longrightarrow> video_runtime_status_of m = Some (status, m') \<Longrightarrow> manager_run pl lib m0 m'"
| run_record: "manager_run pl lib m0 m \<Longrightarrow> record_auto_benchmark lib ob m = (r', m') \<Longrightarrow> manager_run pl lib m0 m'"
| run_clear: "manager_run pl lib m0 m \<Longrightarrow> clear_auto_benchmarks lib m = (r', m') \<Longrightarrow> manager_run pl lib m0 m'"
| run_thread: "manager_run pl lib m0 m \<Longrightarrow> thread_step pl (cm_shared m) sh \<Longrightarrow> manager_run pl lib m0 (m\<lparr>cm_shared := sh\<rparr>)"

section \<open>Agreement\<close>

text \<open>
  The threads' copies of the settings are those of the active video settings, and the runtime status tells what the
  pipeline does; the active mode is the software fallback or one of a usable encoder.
\<close>

definition status_fits :: "video_config \<Rightarrow> encoder_mode \<Rightarrow> video_runtime_status \<Rightarrow> bool" where
  "status_fits video mode s \<longleftrightarrow>
     vr_active_mode s = mode \<and> vr_requested_mode s = encoder video \<and> vr_codec s = mode_codec_or_h264 mode
     \<and> (vr_backend s = OpenH264Software \<longleftrightarrow> mode = H264Software) \<and> vr_hardware s = (mode \<noteq> H264Software)
     \<and> vr_target_fps s = max_fps (active_preset video)
     \<and> vr_target_bitrate_bps s = preset_bitrate_bps (active_preset video) (mode_codec_or_h264 mode)"

definition coherent :: "capture_manager \<Rightarrow> bool" where
  "coherent m \<longleftrightarrow>
     (let mode = ps_active_mode (sh_pipeline (cm_shared m)); preset = active_preset (cm_video m)
      in ps_video (sh_pipeline (cm_shared m)) = cm_video m \<and> sh_max_fps (cm_shared m) = max_fps preset
         \<and> sh_max_width (cm_shared m) = max_width preset \<and> sh_hardware (cm_shared m) = requires_hardware mode
         \<and> status_fits (cm_video m) mode (cm_runtime m)
         \<and> (mode = H264Software \<or> host_can (cm_capabilities m) mode))"

lemma coherent_keeps:
  assumes "coherent m" "knobs (cm_shared m') = knobs (cm_shared m)" "cm_video m' = cm_video m" "cm_capabilities m' = cm_capabilities m"
    and "status_fits (cm_video m) (ps_active_mode (sh_pipeline (cm_shared m))) (cm_runtime m) \<Longrightarrow>
      status_fits (cm_video m) (ps_active_mode (sh_pipeline (cm_shared m))) (cm_runtime m')"
  shows "coherent m'"
  using assms by (auto simp: coherent_def knobs_def Let_def)

text \<open>An operation that only starts, stops or asks the system leaves settings, status and learned results alone.\<close>

definition same_settings :: "capture_manager \<Rightarrow> capture_manager \<Rightarrow> bool" where
  "same_settings m m' \<longleftrightarrow> knobs (cm_shared m') = knobs (cm_shared m) \<and> cm_video m' = cm_video m \<and> cm_browser m' = cm_browser m
     \<and> cm_capabilities m' = cm_capabilities m \<and> cm_learned m' = cm_learned m \<and> cm_runtime m' = cm_runtime m \<and> cm_disk m' = cm_disk m"

lemma same_settings_refl [simp]: "same_settings m m"
  by (simp add: same_settings_def)

lemma same_settings_trans: "same_settings a b \<Longrightarrow> same_settings b c \<Longrightarrow> same_settings a c"
  by (simp add: same_settings_def)

lemma same_settings_basic [simp]:
  "same_settings m (m\<lparr>cm_control := x\<rparr>)" "same_settings m (m\<lparr>cm_producer_thread := x\<rparr>)"
  "same_settings m (m\<lparr>cm_encoder_thread := x\<rparr>)" "same_settings m (m\<lparr>cm_source := y\<rparr>)"
  by (simp_all add: same_settings_def)

lemma same_settings_shared: "(\<And>sh. knobs (f sh) = knobs sh) \<Longrightarrow> same_settings m (on_shared f m)"
  by (simp add: same_settings_def on_shared_def)

lemma same_settings_stop: "same_settings m (manager_stop m)"
  by (simp add: manager_stop_def same_settings_def on_shared_def Let_def)

lemma same_settings_call: "host_call f m = (r, m') \<Longrightarrow> same_settings m m'"
  by (auto simp: host_call_def same_settings_def on_shared_def split: prod.splits)

lemma same_settings_capture: "start_capture source m = (r, m') \<Longrightarrow> same_settings m m'"
  by (auto simp: start_capture_def running_status_def on_shared_def same_settings_def
      split: prod.splits result.splits dest!: same_settings_call)

lemma same_settings_monitor: "start_monitor i m = (r, m') \<Longrightarrow> same_settings m m'"
proof -
  assume run: "start_monitor i m = (r, m')"
  let ?m = "(manager_stop m)\<lparr>cm_source := Some (MonitorSource i)\<rparr>"
  have one: "same_settings m ?m" by (rule same_settings_trans [OF same_settings_stop same_settings_basic(4)])
  obtain q m2 where two: "host_call (monitor_facts i) ?m = (q, m2)" by fastforce
  note m2 = same_settings_trans [OF one same_settings_call [OF two]]
  have slot: "same_settings m2 (on_shared fresh_slot m2)"
    by (rule same_settings_shared) (simp add: fresh_slot_def split: option.splits)
  show ?thesis
  proof (cases q)
    case (Ok x)
    obtain w h name where x: "x = (w, h, name)" by (cases x) auto
    from run two Ok x have "start_capture (name @ size_suffix w h) (on_shared fresh_slot m2) = (r, m')"
      by (simp add: start_monitor_def)
    from same_settings_trans [OF same_settings_trans [OF m2 slot] same_settings_capture [OF this]] show ?thesis .
  next
    case (Err e)
    with run two m2 show ?thesis by (simp add: start_monitor_def)
  qed
qed

lemma same_settings_pattern: "start_test_pattern_size w h m = (r, m') \<Longrightarrow> same_settings m m'"
proof -
  assume run: "start_test_pattern_size w h m = (r, m')"
  let ?m = "on_shared fresh_slot ((manager_stop m)\<lparr>cm_source := Some TestPatternSource\<rparr>)"
  have slot: "same_settings n (on_shared fresh_slot n)" for n
    by (rule same_settings_shared) (simp add: fresh_slot_def split: option.splits)
  have one: "same_settings m ?m"
    by (rule same_settings_trans [OF same_settings_trans [OF same_settings_stop same_settings_basic(4)] slot])
  obtain w' h' where size: "pattern_size w h = (w', h')" by fastforce
  obtain q m2 where two: "host_call (attempt id) ?m = (q, m2)" by fastforce
  note m2 = same_settings_trans [OF one same_settings_call [OF two]]
  show ?thesis
  proof (cases q)
    case (Err e)
    with run size two m2 show ?thesis by (simp add: start_test_pattern_size_def Let_def)
  next
    case (Ok x)
    obtain q3 m3 where three: "host_call (attempt id) (m2\<lparr>cm_encoder_thread := True\<rparr>) = (q3, m3)" by fastforce
    note m3 = same_settings_trans [OF same_settings_trans [OF m2 same_settings_basic(3)] same_settings_call [OF three]]
    have running: "same_settings n (running_status source n)" for source n
      by (simp add: running_status_def same_settings_def on_shared_def)
    show ?thesis
      using run size two Ok three m3 same_settings_trans [OF same_settings_trans [OF m3 same_settings_basic(2)] running]
      by (cases q3) (auto simp: start_test_pattern_size_def Let_def)
  qed
qed

section \<open>The switch of the settings\<close>

lemma find_fallback_functional:
  "find_fallback lib settings caps active sw sh modes d = Some (Some (mode, name), d') \<Longrightarrow>
     mode \<in> set modes \<and> (\<exists>c. functional caps mode = Some c \<and> name = ec_encoder_name c)"
proof (induction modes arbitrary: d)
  case (Cons x modes)
  then show ?case by (auto split: if_splits option.splits prod.splits result.splits)
qed simp

lemma test_selection_mode:
  assumes "test_selection lib settings caps chosen sw sh d = Some (Ok (mode, reason, name), d')"
  shows "(mode, reason, name) = chosen \<or> encoder settings = Auto \<and> host_can caps mode"
  using assms
  by (auto simp: test_selection_def functional_exists split: prod.splits option.splits result.splits if_splits
      dest!: find_fallback_functional)

text \<open>The test of an encoder touches the driver and the rate window of the metrics, nothing else.\<close>

lemma take_snapshot_effect:
  "metrics_take_snapshot now m = Some (s, m') \<Longrightarrow> m' = m\<lparr>m_rate_state := rate_update now m\<rparr>"
  by (auto simp: metrics_take_snapshot_def Let_def)

definition only_probed :: "capture_manager \<Rightarrow> capture_manager \<Rightarrow> bool" where
  "only_probed m m' \<longleftrightarrow> (\<exists>d rate. m' = m\<lparr>cm_shared := (cm_shared m)\<lparr>
     sh_metrics := (sh_metrics (cm_shared m))\<lparr>m_rate_state := rate\<rparr>, sh_driver := d\<rparr>\<rparr>)"

lemma only_probed_refl [simp]: "only_probed m m"
  unfolding only_probed_def by (intro exI [of _ "sh_driver (cm_shared m)"] exI [of _ "m_rate_state (sh_metrics (cm_shared m))"]) simp

lemma read_clock_eq: "read_clock sh = (fa_clock (fst (ask (sh_driver sh))), sh\<lparr>sh_driver := snd (ask (sh_driver sh))\<rparr>)"
  by (simp add: read_clock_def split_beta)

lemma live_selection_effect:
  assumes "live_selection lib settings chosen m = Some (r, m')"
  shows "only_probed m m' \<and> (\<forall>mode reason name. r = Ok (mode, reason, name) \<longrightarrow>
    (mode, reason, name) = chosen \<or> encoder settings = Auto \<and> host_can (cm_capabilities m) mode)"
proof (cases "cm_source m")
  case None
  with assms show ?thesis by (auto simp: live_selection_def)
next
  case (Some src)
  with assms show ?thesis
    by (auto simp: live_selection_def only_probed_def read_clock_eq on_shared_def Let_def split: option.splits prod.splits
        dest!: take_snapshot_effect dest: test_selection_mode)
qed

lemma only_probed_keeps:
  assumes "only_probed m m'"
  shows "same_settings m m'" "cm_source m' = cm_source m" "cm_control m' = cm_control m"
  using assms by (auto simp: only_probed_def same_settings_def)

text \<open>The ways an application of settings can end.\<close>

lemma apply_cases:
  assumes "apply_video_settings lib settings browser m = Some (r, m')"
  obtains (invalid) e where "and_then (video_validate settings) (\<lambda>_. select_encoder settings browser (cm_capabilities m) (cm_learned m)) = Err e"
      "r = Err e" "m' = m"
  | (unchanged) mode reason name where "select_encoder settings browser (cm_capabilities m) (cm_learned m) = Ok (mode, reason, name)"
      "cm_video m = settings" "vr_active_mode (cm_runtime m) = mode"
      "m' = m\<lparr>cm_browser := browser, cm_runtime := (cm_runtime m)\<lparr>vr_auto_selection_reason := reason, vr_encoder_name := name\<rparr>\<rparr>"
      "r = Ok (cm_runtime m')"
  | (untested) e chosen where "live_selection lib settings chosen m = Some (Err e, m')" "r = Err e"
  | (switched) mode reason name chosen m1 where
      "select_encoder settings browser (cm_capabilities m) (cm_learned m) = Ok (mode, reason, name)"
      "live_selection lib settings (mode, reason, name) m = Some (Ok chosen, m1)" "switch_settings settings browser chosen m1 = (r, m')"
proof -
  show ?thesis
  proof (cases "and_then (video_validate settings) (\<lambda>_. select_encoder settings browser (cm_capabilities m) (cm_learned m))")
    case (Err e)
    with assms show ?thesis by (intro invalid) (auto simp: apply_video_settings_def)
  next
    case (Ok x)
    obtain mode reason name where x: "x = (mode, reason, name)" by (cases x) auto
    from Ok x have sel: "select_encoder settings browser (cm_capabilities m) (cm_learned m) = Ok (mode, reason, name)"
      by (cases "video_validate settings") auto
    show ?thesis
    proof (cases "cm_video m = settings \<and> vr_active_mode (cm_runtime m) = mode")
      case True
      with assms Ok x sel show ?thesis by (intro unchanged) (auto simp: apply_video_settings_def Let_def)
    next
      case False
      with assms Ok x obtain q m1 where q: "live_selection lib settings (mode, reason, name) m = Some (q, m1)"
        "(case q of Err e \<Rightarrow> Some (Err e, m1) | Ok chosen \<Rightarrow> Some (switch_settings settings browser chosen m1)) = Some (r, m')"
        by (auto simp: apply_video_settings_def split: option.splits)
      then show ?thesis
      proof (cases q)
        case (Err e)
        with q show ?thesis by (intro untested) auto
      next
        case (Ok chosen)
        with q sel show ?thesis by (intro switched) auto
      qed
    qed
  qed
qed

text \<open>A switch always installs the new settings, whatever becomes of the restart for the cursor.\<close>

lemma restart_same: "restart_for_cursor b m = (r, m') \<Longrightarrow> same_settings m m'"
  by (auto simp: restart_for_cursor_def split: option.splits capture_source.splits if_splits dest: same_settings_monitor)

lemma commit_knobs:
  "knobs (cm_shared (commit_settings settings browser (mode, reason, name) m)) =
     (\<lparr>ps_generation = ps_generation (sh_pipeline (cm_shared m)) + 1, ps_video = settings, ps_active_mode = mode\<rparr>,
      max_fps (active_preset settings), max_width (active_preset settings), requires_hardware mode)"
  by (simp add: commit_settings_def knobs_def Let_def)

lemma status_fits_runtime: "status_fits video mode (runtime_status video mode name reason n b)"
  by (simp add: status_fits_def runtime_status_def Let_def)

lemma switch_effect:
  assumes "switch_settings settings browser (mode, reason, name) m = (r, m')"
  shows "knobs (cm_shared m') =
      (\<lparr>ps_generation = ps_generation (sh_pipeline (cm_shared m)) + 1, ps_video = settings, ps_active_mode = mode\<rparr>,
       max_fps (active_preset settings), max_width (active_preset settings), requires_hardware mode)
    \<and> cm_video m' = settings \<and> cm_browser m' = browser \<and> cm_capabilities m' = cm_capabilities m \<and> cm_learned m' = cm_learned m
    \<and> cm_disk m' = cm_disk m \<and> status_fits settings mode (cm_runtime m') \<and> vr_switching (cm_runtime m') = False
    \<and> (case r of Ok s \<Rightarrow> s = cm_runtime m' \<and> vr_last_error s = None \<and> sh_keyframe (cm_shared m') | Err e \<Rightarrow> vr_last_error (cm_runtime m') = Some e)"
proof -
  let ?m = "commit_settings settings browser (mode, reason, name) m"
  obtain q m2 where two: "restart_for_cursor (cursor (cm_video m) \<noteq> cursor settings) ?m = (q, m2)" by fastforce
  from restart_same [OF two] commit_knobs [of settings browser mode reason name m] have m2:
    "knobs (cm_shared m2) =
      (\<lparr>ps_generation = ps_generation (sh_pipeline (cm_shared m)) + 1, ps_video = settings, ps_active_mode = mode\<rparr>,
       max_fps (active_preset settings), max_width (active_preset settings), requires_hardware mode)"
    "cm_video m2 = settings" "cm_browser m2 = browser" "cm_capabilities m2 = cm_capabilities m" "cm_learned m2 = cm_learned m"
    "cm_disk m2 = cm_disk m" "\<exists>n b. cm_runtime m2 = runtime_status settings mode name reason n b"
    by (auto simp: same_settings_def commit_settings_def Let_def)
  from m2(7) have "status_fits settings mode (cm_runtime m2)" "vr_last_error (cm_runtime m2) = None"
    using status_fits_runtime by (auto simp: runtime_status_def Let_def)
  with assms two m2 show ?thesis
    by (cases q) (auto simp: switch_settings_def finish_switch_def on_shared_def keyframe_request_def status_fits_def Let_def)
qed

section \<open>Settings, threads and status agree\<close>

lemma chosen_mode_usable: "select_encoder settings browser caps learned = Ok (mode, reason, name) \<Longrightarrow> host_can caps mode"
  by (erule select_encoder_chosen) (auto simp: host_can_def)

lemma coherent_new: "coherent (capture_manager_new lib metrics video caps disk d)"
proof -
  obtain mode reason name where sel:
    "(case select_encoder video default_browser caps (learned_load (ml_json lib) disk) of Ok s \<Rightarrow> s | Err _ \<Rightarrow> fallback_selection) = (mode, reason, name)"
    by (metis prod_cases3)
  then have "mode = H264Software \<or> host_can caps mode"
    by (auto simp: fallback_selection_def split: result.splits dest: chosen_mode_usable)
  with sel status_fits_runtime show ?thesis by (simp add: capture_manager_new_def coherent_def Let_def)
qed

lemma coherent_switch:
  assumes "switch_settings settings browser (mode, reason, name) m = (r, m')" "mode = H264Software \<or> host_can (cm_capabilities m) mode"
  shows "coherent m'"
  using switch_effect [OF assms(1)] assms(2) by (auto simp: coherent_def knobs_def Let_def)

lemma coherent_same: "same_settings m m' \<Longrightarrow> coherent m \<Longrightarrow> coherent m'"
  by (rule coherent_keeps) (auto simp: same_settings_def)

lemma coherent_apply:
  assumes "apply_video_settings lib settings browser m = Some (r, m')" "coherent m"
  shows "coherent m'"
  using assms(1)
proof (cases rule: apply_cases)
  case (invalid e)
  with assms(2) show ?thesis by simp
next
  case (unchanged mode reason name)
  with assms(2) show ?thesis by (intro coherent_keeps [OF assms(2)]) (auto simp: status_fits_def)
next
  case (untested e chosen)
  with live_selection_effect [OF untested(1)] only_probed_keeps(1) coherent_same assms(2) show ?thesis by blast
next
  case (switched mode reason name chosen m1)
  obtain mode' reason' name' where c: "chosen = (mode', reason', name')" by (cases chosen) auto
  from live_selection_effect [OF switched(2)] chosen_mode_usable [OF switched(1)] c
  have "only_probed m m1" "host_can (cm_capabilities m) mode'" by auto
  then have "host_can (cm_capabilities m1) mode'" using only_probed_keeps(1) by (auto simp: same_settings_def)
  with switched(3) c show ?thesis by (intro coherent_switch) auto
qed

lemma same_settings_status: "video_runtime_status_of m = Some (s, m') \<Longrightarrow> same_settings m m'"
  by (auto simp: video_runtime_status_of_def read_clock_eq same_settings_def Let_def split: option.splits prod.splits)

lemma coherent_steps: "manager_run pl lib m0 m \<Longrightarrow> coherent m0 \<Longrightarrow> coherent m"
proof (induction rule: manager_run.induct)
  case (run_record m ob r m')
  then show ?case
    by (intro coherent_keeps [of m m']) (auto simp: record_auto_benchmark_def Let_def split: result.splits prod.splits)
next
  case (run_clear m r m')
  then show ?case
    by (intro coherent_keeps [of m m']) (auto simp: clear_auto_benchmarks_def Let_def split: prod.splits)
next
  case (run_keyframe m)
  have "same_settings m (request_video_keyframe m)" by (simp add: request_video_keyframe_def same_settings_def on_shared_def)
  then show ?case using run_keyframe by (blast intro: coherent_same)
next
  case (run_thread m sh)
  then show ?case by (intro coherent_keeps [of m "m\<lparr>cm_shared := sh\<rparr>"]) (simp_all add: thread_step_knobs)
qed (auto intro: coherent_apply coherent_same same_settings_monitor same_settings_pattern same_settings_stop same_settings_status)

text \<open>However settings changes, failed ones included, starts, stops, benchmarks and the steps of the capture,
  preprocessing and encoding threads interleave, the threads' copies of frame rate, width, mode and video settings
  are those of the active settings, the reported codec, backend, target rate and bitrate are those of the mode the
  pipeline runs, and that mode is the software fallback or one a usable encoder of this computer offers.\<close>
theorem manager_stays_coherent:
  assumes "manager_run pl lib (capture_manager_new lib metrics video caps disk d) m"
  shows "coherent m"
  using assms coherent_new by (rule coherent_steps)

section \<open>Refused settings\<close>


section \<open>Learned benchmarks\<close>

definition learned_entry :: "encoder_capability list \<Rightarrow> auto_benchmark_observation \<Rightarrow> bool" where
  "learned_entry caps ob \<longleftrightarrow> ao_schema_version ob = 1 \<and> ao_nfidb_version ob = CARGO_PKG_VERSION \<and> ao_end_to_end_verified ob
     \<and> ao_mode ob \<noteq> Auto \<and> ao_score ob = score_auto_candidate (ao_mode ob) (ao_metrics ob) \<and> 320 \<le> ao_max_width ob \<and> ao_max_width ob \<le> 7680
     \<and> (\<exists>c \<in> set caps. ec_id c = ao_encoder_id ob \<and> capability_mode c = ao_mode ob \<and> is_usable (ec_state c))"

definition learned_ok :: "encoder_capability list \<Rightarrow> auto_benchmark_observation list \<Rightarrow> bool" where
  "learned_ok caps xs \<longleftrightarrow> (\<forall>ob \<in> set xs. learned_entry caps ob) \<and> sorted_wrt (\<lambda>a b. \<not> same_trial a b) xs \<and> length xs \<le> MAX_LEARNED"

lemma check_observation_Ok:
  assumes "check_observation m ob = Ok ()"
  shows "learned_entry (cm_capabilities m) (stamp_observation ob)"
proof -
  from assms obtain codec c where "mode_codec (ao_mode ob) = Some codec" "ao_mode ob \<noteq> Auto" "ao_end_to_end_verified ob"
    and c: "find (\<lambda>c. ec_id c = ao_encoder_id ob \<and> capability_mode c = ao_mode ob) (cm_capabilities m) = Some c"
    and "is_usable (ec_state c)" "\<not> invalid_metrics ob"
    by (cases "mode_codec (ao_mode ob)"; cases "find (\<lambda>c. ec_id c = ao_encoder_id ob \<and> capability_mode c = ao_mode ob) (cm_capabilities m)")
      (auto simp: check_observation_def split: if_splits)
  moreover from c have "c \<in> set (cm_capabilities m)" "ec_id c = ao_encoder_id ob" "capability_mode c = ao_mode ob"
    by (auto simp: find_Some_iff)
  ultimately show ?thesis by (auto simp: learned_entry_def stamp_observation_def invalid_metrics_def Let_def not_less)
qed

lemma sorted_wrt_drop: "sorted_wrt P xs \<Longrightarrow> sorted_wrt P (drop n xs)"
  using sorted_wrt_append [of P "take n xs" "drop n xs"] by simp

lemma learn_last: "learn ob xs \<noteq> []" "last (learn ob xs) = ob"
  by (simp_all add: learn_def Let_def MAX_LEARNED_def)

lemma learned_ok_learn:
  assumes "learned_ok caps xs" "learned_entry caps ob"
  shows "learned_ok caps (learn ob xs)"
proof -
  let ?ys = "filter (\<lambda>c. \<not> same_trial c ob) xs @ [ob]"
  from assms(1) have "sorted_wrt (\<lambda>a b. \<not> same_trial a b) ?ys"
    by (auto simp: learned_ok_def sorted_wrt_append intro: sorted_wrt_filter)
  then have "sorted_wrt (\<lambda>a b. \<not> same_trial a b) (learn ob xs)"
    unfolding learn_def Let_def by (rule sorted_wrt_drop)
  moreover have "set (learn ob xs) \<subseteq> insert ob (set xs)"
    using set_drop_subset [of "length ?ys - MAX_LEARNED" ?ys] by (auto simp: learn_def Let_def)
  ultimately show ?thesis using assms by (auto simp: learned_ok_def learn_def Let_def MAX_LEARNED_def)
qed

lemma apply_learned: "apply_video_settings lib settings browser m = Some (r, m') \<Longrightarrow>
    cm_learned m' = cm_learned m \<and> cm_capabilities m' = cm_capabilities m \<and> cm_disk m' = cm_disk m"
proof (erule apply_cases)
  fix e chosen
  assume "live_selection lib settings chosen m = Some (Err e, m')"
  then have "same_settings m m'" using live_selection_effect only_probed_keeps(1) by blast
  then show ?thesis by (simp add: same_settings_def)
next
  fix mode reason name chosen m1
  assume "live_selection lib settings (mode, reason, name) m = Some (Ok chosen, m1)" and sw: "switch_settings settings browser chosen m1 = (r, m')"
  then have "same_settings m m1" using live_selection_effect only_probed_keeps(1) by blast
  with sw show ?thesis
    by (cases chosen) (auto simp: same_settings_def dest!: switch_effect)
qed auto

text \<open>C26: Whatever the manager is asked to do, its learned benchmarks are at most 128, no two of the same trial (browser, encoder,
  profile, width and rate), and each was verified end to end, belongs to a usable encoder of this computer, is stamped
  with this version and scored by the program itself, never by the browser that reported it.\<close>
theorem learned_benchmarks_stay_trustworthy:
  assumes "manager_run pl lib m0 m" "learned_ok (cm_capabilities m0) (cm_learned m0)"
  shows "learned_ok (cm_capabilities m0) (cm_learned m)"
proof -
  have "learned_ok (cm_capabilities m0) (cm_learned m) \<and> cm_capabilities m = cm_capabilities m0"
    using assms(1)
  proof (induction rule: manager_run.induct)
    case run_refl
    show ?case using assms(2) by simp
  next
    case (run_apply m settings browser r m')
    then show ?case by (simp add: apply_learned)
  next
    case (run_monitor m i r m')
    then show ?case using same_settings_monitor [OF run_monitor.hyps(2)] by (simp add: same_settings_def)
  next
    case (run_pattern m w h r m')
    then show ?case using same_settings_pattern [OF run_pattern.hyps(2)] by (simp add: same_settings_def)
  next
    case (run_stop m)
    then show ?case using same_settings_stop [of m] by (simp add: same_settings_def)
  next
    case (run_keyframe m)
    then show ?case by (simp add: request_video_keyframe_def on_shared_def)
  next
    case (run_status m s m')
    then show ?case using same_settings_status [OF run_status.hyps(2)] by (simp add: same_settings_def)
  next
    case (run_record m ob r m')
    then show ?case
      using learned_ok_learn check_observation_Ok [of m ob]
      by (auto simp: record_auto_benchmark_def Let_def split: result.splits prod.splits)
  next
    case (run_clear m r m')
    then show ?case by (auto simp: clear_auto_benchmarks_def learned_ok_def MAX_LEARNED_def Let_def split: prod.splits)
  next
    case (run_thread m sh)
    then show ?case by simp
  qed
  then show ?thesis ..
qed

text \<open>A benchmark whose recording succeeds is, after a restart of the program, the newest of the learned results
  and bears the program's own version and score; all other trials that were learned before are still there unless there
  were already 128, and earlier results of the same trial are gone.\<close>
theorem recorded_benchmark_survives_restart:
  assumes "\<And>f bytes. lj_to_vec (ml_json lib) f = Ok bytes \<Longrightarrow> lj_from_slice (ml_json lib) bytes = Some f"
    and "record_auto_benchmark lib ob m = (Ok (), m')" "ld_readable (cm_disk m)" "length (cm_learned m) < 128"
  shows "cm_learned (capture_manager_new lib metrics video caps (cm_disk m') d) = filter (\<lambda>c. \<not> same_trial c ob) (cm_learned m) @ [stamp_observation ob]"
proof -
  from assms(2) have save: "learned_save (ml_json lib) (learn (stamp_observation ob) (cm_learned m)) (cm_disk m) = (Ok (), cm_disk m')"
    by (auto simp: record_auto_benchmark_def Let_def split: result.splits prod.splits)
  have same: "same_trial c (stamp_observation ob) = same_trial c ob" for c by (simp add: same_trial_def stamp_observation_def)
  have "length (filter (\<lambda>c. \<not> same_trial c ob) (cm_learned m)) < 128"
    using assms(4) length_filter_le [of "\<lambda>c. \<not> same_trial c ob" "cm_learned m"] by linarith
  then have "learn (stamp_observation ob) (cm_learned m) = filter (\<lambda>c. \<not> same_trial c ob) (cm_learned m) @ [stamp_observation ob]"
    by (simp add: learn_def same MAX_LEARNED_def)
  with learned_roundtrip [OF assms(1) save assms(3)] show ?thesis by (simp add: capture_manager_new_def Let_def split: prod.splits)
qed

end
