(* ===== verification/Manager_Props.thy ===== *)
theory Manager_Props
  imports Manager_Runs
begin

text \<open>
  The live pipeline always moves on: an encoder step and a change of settings return whatever the driver answers.
  The restart of a monitor capture for a changed cursor, when it fails, and concrete runs of the manager.
\<close>

section \<open>Steps and switches return\<close>

definition answers_keep :: "('a \<times> 'b \<times> driver) option \<Rightarrow> driver \<Rightarrow> bool" where
  "answers_keep x d \<longleftrightarrow> (\<exists>r e d'. x = Some (r, e, d') \<and> dv_answers d' = dv_answers d)"

lemma answers_keepI [intro]: "dv_answers d' = dv_answers d \<Longrightarrow> answers_keep (Some (r, e, d')) d"
  by (simp add: answers_keep_def)

lemma answers_keep_same: "dv_answers d' = dv_answers d \<Longrightarrow> answers_keep x d' \<Longrightarrow> answers_keep x d"
  by (simp add: answers_keep_def)

lemma mf_new_answers: "mf_new codec w h rate bits d = (r, d') \<Longrightarrow> dv_answers d' = dv_answers d"
    "mf_new_with_d3d11 codec w h rate bits dev d = (r, d') \<Longrightarrow> dv_answers d' = dv_answers d"
  unfolding mf_new_def mf_new_with_d3d11_def by (rule preservesD [OF mf_new_keeps], assumption)+

lemma rebuild_answers: "rebuild w h gpu v d = (r, v', d') \<Longrightarrow> dv_answers d' = dv_answers d"
  by (cases gpu) (auto simp: rebuild_def Let_def split: prod.splits result.splits dest: mf_new_answers)

lemma rebuild_if_answers: "rebuild_if b w h v d = (r, v', d') \<Longrightarrow> dv_answers d' = dv_answers d"
  by (auto simp: rebuild_if_def split: if_splits dest: rebuild_answers)

lemma nv12_read_answers:
  assumes "nv12_read s rb d = (r, rb', d')"
  shows "dv_answers d' = dv_answers d"
proof -
  have staging: "preserves dv_answers (readback_staging s rb)"
    unfolding readback_staging_def create_staging_texture_def Let_def by (intro preserves_intro)+
  obtain st d1 where st: "readback_staging s rb d = (st, d1)" by fastforce
  have planes: "preserves dv_answers (readback_planes s x)" for x
    unfolding readback_planes_def copy_and_map_def Let_def by (intro preserves_intro)+
  from assms st preservesD [OF staging st] preservesD [OF planes]
  show ?thesis by (auto simp: nv12_read_def split: if_splits result.splits prod.splits)
qed

lemma with_encoder_returns:
  assumes "clock_passes d"
  shows "answers_keep (with_encoder (mf_encode_nv12 nv12) v d) d"
proof (cases "mv_encoder v")
  case (Some e)
  with encode_nv12_returns [OF assms, of nv12 e] show ?thesis by (auto simp: with_encoder_def)
qed (simp add: with_encoder_def answers_keepI)

lemma assisted_returns:
  assumes "clock_passes d"
  shows "answers_keep (encode_gpu_assisted s v d) d"
proof -
  obtain q rb d1 where one: "nv12_read s (mv_nv12_readback v) d = (q, rb, d1)" by (metis prod_cases3)
  note a1 = nv12_read_answers [OF one]
  show ?thesis
  proof (cases q)
    case (Ok nv12)
    let ?v = "v\<lparr>mv_nv12_readback := rb\<rparr>"
    obtain q2 v2 d2 where two: "rebuild_if (mv_force_rebuild ?v \<or> mv_d3d_device_identity ?v \<noteq> None \<or> mv_encoder ?v = None
        \<or> size_differs (gs_width s) (gs_height s) ?v) (gs_width s) (gs_height s) ?v d1 = (q2, v2, d2)" by (metis prod_cases3)
    have a2: "dv_answers d2 = dv_answers d" using rebuild_if_answers [OF two] a1 by simp
    from with_encoder_returns [OF clock_passes_same [OF a2 assms], THEN answers_keep_same [OF a2]] one two Ok a2
    show ?thesis by (cases q2) (auto simp: encode_gpu_assisted_def Let_def)
  qed (use one a1 in \<open>auto simp: encode_gpu_assisted_def\<close>)
qed

lemma direct_returns:
  assumes "clock_passes d"
  shows "answers_keep (encode_direct s v d) d"
proof (cases "mv_encoder v")
  case (Some e)
  obtain r e1 d1 where one: "mf_encode_nv12_surface s e d = Some (r, e1, d1)" and a1: "dv_answers d1 = dv_answers d"
    using encode_surface_returns [OF assms] by blast
  from assisted_returns [OF clock_passes_same [OF a1 assms], THEN answers_keep_same [OF a1]] Some one a1
  show ?thesis by (cases r) (auto simp: encode_direct_def)
qed (simp add: encode_direct_def answers_keepI)

lemma encode_gpu_returns:
  assumes "clock_passes d"
  shows "answers_keep (encode_gpu s w h v d) d"
proof -
  obtain q v1 d1 where one: "rebuild w h (Some s) v d = (q, v1, d1)" by (metis prod_cases3)
  note a1 = rebuild_answers [OF one]
  note later = assisted_returns [OF clock_passes_same [OF a1 assms], THEN answers_keep_same [OF a1]]
    direct_returns [OF clock_passes_same [OF a1 assms], THEN answers_keep_same [OF a1]]
  show ?thesis
    using one later assisted_returns [OF assms] direct_returns [OF assms]
    by (cases q) (auto simp: encode_gpu_def)
qed

lemma encode_i420_returns:
  assumes "clock_passes d"
  shows "answers_keep (encode_i420 yuv w h v d) d"
proof -
  obtain q v1 d1 where one: "rebuild_if (mv_force_rebuild v \<or> size_differs w h v \<or> mv_d3d_device_identity v \<noteq> None) w h v d = (q, v1, d1)"
    by (metis prod_cases3)
  note a1 = rebuild_if_answers [OF one]
  from with_encoder_returns [OF clock_passes_same [OF a1 assms], THEN answers_keep_same [OF a1]] one a1
  show ?thesis by (cases q) (auto simp: encode_i420_def)
qed

lemma encoder_encode_returns:
  assumes "clock_passes d"
  shows "answers_keep (encoder_encode frame e d) d"
proof (cases e)
  case (SoftwareEncoder o')
  have "preserves dv_answers (openh264_encode frame)"
    unfolding openh264_encode_def by (cases "vf_data frame") (auto intro!: preserves_intro)
  then have "dv_answers (snd (openh264_encode frame d)) = dv_answers d" by (simp add: preserves_def)
  with SoftwareEncoder show ?thesis by (auto simp: split_beta)
next
  case (HardwareEncoder v)
  then show ?thesis
    using encode_i420_returns [OF assms] encode_gpu_returns [OF assms]
    by (cases "vf_data frame") (fastforce simp: answers_keep_def mf_video_encode_def)+
qed

lemma create_encoder_answers: "create_video_encoder cfg d = (r, d') \<Longrightarrow> dv_answers d' = dv_answers d"
proof -
  have software: "preserves dv_answers (openh264_new cfg)"
    unfolding openh264_new_def make_openh264_def by (intro preserves_intro)+
  have hardware: "preserves dv_answers (mf_video_new cfg)"
    unfolding mf_video_new_def mf_new_def by (intro preserves_intro)+
  assume "create_video_encoder cfg d = (r, d')"
  moreover have "preserves dv_answers (create_video_encoder cfg)"
    unfolding create_video_encoder_def by (intro preserves_intro software hardware)
  ultimately show ?thesis by (metis preservesD)
qed

lemma keyframe_answers: "encoder_request_keyframe e d = (r, e', d') \<Longrightarrow> dv_answers d' = dv_answers d"
  by (cases e) (auto simp: issue_def)

abbreviation live_answers :: "capture_shared \<Rightarrow> nat \<Rightarrow> driver_answer" where
  "live_answers sh \<equiv> dv_answers (sh_driver sh)"

lemma shared_answers:
  "live_answers (snd (read_clock sh)) = live_answers sh" "live_answers (set_error err sh) = live_answers sh"
  "live_answers (snd (ensure_encoder sel f (en, sh))) = live_answers sh"
  "live_answers (snd (honour_keyframe_request mode e en sh)) = live_answers sh"
proof -
  show clock: "live_answers (snd (read_clock sh)) = live_answers sh" for sh by (simp add: read_clock_eq ask_def)
  show err: "live_answers (set_error err sh) = live_answers sh" for err sh by (simp add: set_error_def)
  show "live_answers (snd (ensure_encoder sel f (en, sh))) = live_answers sh"
    by (auto simp: ensure_encoder_def err split: option.splits result.splits prod.splits dest: create_encoder_answers)
  have due: "live_answers (snd (recovery_keyframe_due mode en sh)) = live_answers sh" for mode en sh
    by (simp add: recovery_keyframe_due_def clock Let_def split_beta split: option.splits encoder_mode.splits)
  have "dv_answers (snd (snd (encoder_request_keyframe e d))) = dv_answers d" for e d
    using keyframe_answers [of e d] by (metis prod.collapse)
  then show "live_answers (snd (honour_keyframe_request mode e en sh)) = live_answers sh"
    by (simp add: honour_keyframe_request_def Let_def split_beta due err split: result.splits)
qed

lemma encode_step_returns:
  assumes "clock_passes (sh_driver sh)"
  shows "\<exists>st'. encode_step f (en, sh) = Some st'"
proof -
  let ?sel = "sh_pipeline sh" and ?mode = "ps_active_mode (sh_pipeline sh)"
  obtain en1 sh1 where one: "ensure_encoder ?sel f (sync_generation ?sel en, sh) = (en1, sh1)" by fastforce
  show ?thesis
  proof (cases "en_encoder en1")
    case None
    with one show ?thesis by (simp add: encode_step_def Let_def)
  next
    case (Some e)
    obtain e2 sh2 where two: "honour_keyframe_request ?mode e en1 sh1 = (e2, sh2)" by fastforce
    obtain started sh3 where three: "read_clock sh2 = (started, sh3)" by fastforce
    have "live_answers sh3 = live_answers sh"
      using one two three shared_answers(1) [of sh2] shared_answers(3) [of ?sel f "sync_generation ?sel en" sh]
        shared_answers(4) [of ?mode e en1 sh1] by simp
    from encoder_encode_returns [OF clock_passes_same [OF this assms], of "frame_data f" e2]
    obtain r e4 d4 where "encoder_encode (frame_data f) e2 (sh_driver sh3) = Some (r, e4, d4)" by (auto simp: answers_keep_def)
    with one Some two three show ?thesis by (simp add: encode_step_def Let_def split_beta)
  qed
qed

lemma preflight_returns:
  assumes "clock_passes d"
  shows "\<exists>r d'. preflight_encoder lib settings mode sw sh d = Some (r, d') \<and> dv_answers d' = dv_answers d"
proof (cases "mode_codec mode")
  case (Some codec)
  let ?preset = "active_preset settings"
  obtain w h where wh: "output_dimensions sw sh (max_width ?preset) = (w, h)" by fastforce
  let ?cfg = "\<lparr>vc_codec = codec, vc_mode = mode, vc_width = w, vc_height = h, vc_max_fps = max_fps ?preset,
     vc_bitrate_bps = preset_bitrate_bps ?preset codec\<rparr>"
  obtain q d1 where one: "create_video_encoder ?cfg d = (q, d1)" by fastforce
  note a1 = create_encoder_answers [OF one]
  show ?thesis
  proof (cases q)
    case (Ok e)
    obtain q2 e2 d2 where two: "encoder_request_keyframe e d1 = (q2, e2, d2)" by (metis prod_cases3)
    have a2: "dv_answers d2 = dv_answers d" using keyframe_answers [OF two] a1 by simp
    from encoder_encode_returns [OF clock_passes_same [OF a2 assms],
        of "\<lparr>vf_width = w, vf_height = h, vf_data = I420 (ml_blank_yuv lib (unat w) (unat h))\<rparr>" e2] a2
    show ?thesis using Some wh one Ok two by (cases q2) (auto simp: preflight_encoder_def answers_keep_def Let_def)
  qed (use Some wh one a1 in \<open>simp add: preflight_encoder_def Let_def\<close>)
qed (simp add: preflight_encoder_def)

lemma find_fallback_returns:
  "clock_passes d \<Longrightarrow> \<exists>r d'. find_fallback lib settings caps active sw sh modes d = Some (r, d') \<and> dv_answers d' = dv_answers d"
proof (induction modes arbitrary: d)
  case (Cons mode modes)
  obtain q d1 where one: "preflight_encoder lib settings mode sw sh d = Some (q, d1)" and a1: "dv_answers d1 = dv_answers d"
    using preflight_returns [OF Cons.prems] by blast
  from Cons.IH [OF clock_passes_same [OF a1 Cons.prems]] Cons.IH [OF Cons.prems] one a1
  show ?case by (cases q) auto
qed simp

lemma test_selection_returns:
  assumes "clock_passes d"
  shows "\<exists>r d'. test_selection lib settings caps chosen sw sh d = Some (r, d')"
proof -
  obtain mode reason name where c: "chosen = (mode, reason, name)" by (cases chosen) auto
  obtain q d1 where one: "preflight_encoder lib settings mode sw sh d = Some (q, d1)" and a1: "dv_answers d1 = dv_answers d"
    using preflight_returns [OF assms] by blast
  obtain r d2 where "find_fallback lib settings caps mode sw sh [H264Hardware, H264Software] d1 = Some (r, d2)"
    using find_fallback_returns [OF clock_passes_same [OF a1 assms]] by blast
  with one c show ?thesis by (cases q) (auto simp: test_selection_def)
qed


section \<open>A failed restart for the cursor\<close>

definition idle :: "capture_manager \<Rightarrow> bool" where
  "idle m \<longleftrightarrow> \<not> cm_control m \<and> \<not> cm_encoder_thread m \<and> \<not> cs_running (sh_status (cm_shared m))"

lemma idle_stop: "idle (manager_stop m)"
  by (simp add: idle_def manager_stop_def on_shared_def Let_def)

lemma idle_call: "host_call f m = (r, m') \<Longrightarrow> idle m \<Longrightarrow> idle m'"
  by (auto simp: host_call_def idle_def on_shared_def split: prod.splits)

lemma idle_slot: "idle m \<Longrightarrow> idle (on_shared fresh_slot m)"
  by (simp add: idle_def on_shared_def fresh_slot_def release_frame_def split: option.splits captured_frame.splits)

lemma idle_capture: "start_capture source m = (Err e, m') \<Longrightarrow> idle m \<Longrightarrow> idle m'"
proof -
  assume run: "start_capture source m = (Err e, m')" and "idle m"
  obtain q m1 where one: "host_call (attempt id) m = (q, m1)" by fastforce
  obtain q2 m2 where two: "host_call (attempt id) m1 = (q2, m2)" by fastforce
  from idle_call [OF one \<open>idle m\<close>] have "idle m1" .
  moreover from idle_call [OF two this] have "idle (on_shared (\<lambda>sh. set_error x (sh\<lparr>sh_slot := frame_stop (sh_slot sh)\<rparr>)) m2)" for x
    by (simp add: idle_def on_shared_def set_error_def)
  ultimately show "idle m'"
    using run one two by (cases q; cases q2) (auto simp: start_capture_def)
qed

lemma idle_monitor:
  assumes "start_monitor i m = (Err e, m')"
  shows "idle m'"
proof -
  obtain q m1 where one: "host_call (monitor_facts i) ((manager_stop m)\<lparr>cm_source := Some (MonitorSource i)\<rparr>) = (q, m1)" by fastforce
  have "idle ((manager_stop m)\<lparr>cm_source := Some (MonitorSource i)\<rparr>)" using idle_stop [of m] by (simp add: idle_def)
  from idle_call [OF one this] have "idle m1" .
  with assms one idle_capture idle_slot show ?thesis
    by (cases q) (auto simp: start_monitor_def split: prod.splits)
qed

text \<open>C38: A change of the cursor setting whose restart of the monitor capture fails is reported as an error, yet the new
  settings are in force and the capture is stopped for good: asking again for the same settings is answered with success
  at once, without any attempt to capture.\<close>
theorem failed_cursor_restart_is_forgotten:
  assumes "video_validate settings = Ok ()" "cm_source m = Some (MonitorSource i)" "cursor settings \<noteq> cursor (cm_video m)"
    and sel: "select_encoder settings browser (cm_capabilities m) (cm_learned m) = Ok (mode, reason, name)"
    and live: "live_selection lib settings (mode, reason, name) m = Some (Ok (mode, reason, name), m1)"
    and restart: "start_monitor i (commit_settings settings browser (mode, reason, name) m1) = (Err e, m2)"
  shows "\<exists>m'. apply_video_settings lib settings browser m = Some (Err e, m') \<and> cm_video m' = settings \<and> idle m'
    \<and> (\<exists>s m''. apply_video_settings lib settings browser m' = Some (Ok s, m'') \<and> idle m'' \<and> cm_shared m'' = cm_shared m')"
proof -
  from live_selection_effect [OF live] have "only_probed m m1" by simp
  then have keep: "cm_source m1 = cm_source m" "same_settings m m1" using only_probed_keeps by blast+
  then have "cursor (cm_video m1) = cursor (cm_video m)" by (simp add: same_settings_def)
  with assms(2,3) keep(1) restart have "restart_for_cursor (cursor (cm_video m1) \<noteq> cursor settings)
      (commit_settings settings browser (mode, reason, name) m1) = (Err e, m2)"
    by (simp add: restart_for_cursor_def commit_settings_def Let_def)
  then have switch: "switch_settings settings browser (mode, reason, name) m1 =
      (Err e, m2\<lparr>cm_runtime := (cm_runtime m2)\<lparr>vr_switching := False, vr_last_error := Some e\<rparr>\<rparr>)" (is "_ = (_, ?m')")
    by (simp add: switch_settings_def)
  have changed: "cm_video m \<noteq> settings" using assms(3) by auto
  then have one: "apply_video_settings lib settings browser m = Some (Err e, ?m')"
    using assms(1) sel live switch by (simp add: apply_video_settings_def)
  from switch_effect [OF switch] keep(2) have after: "cm_video ?m' = settings" "vr_active_mode (cm_runtime ?m') = mode"
    "cm_capabilities ?m' = cm_capabilities m" "cm_learned ?m' = cm_learned m"
    by (auto simp: status_fits_def same_settings_def)
  let ?rt = "(cm_runtime ?m')\<lparr>vr_auto_selection_reason := reason, vr_encoder_name := name\<rparr>"
  have two: "apply_video_settings lib settings browser ?m' = Some (Ok ?rt, ?m'\<lparr>cm_browser := browser, cm_runtime := ?rt\<rparr>)"
    using after sel assms(1) unfolding apply_video_settings_def after(3,4) by (simp add: Let_def)
  have idle: "idle ?m'" using idle_monitor [OF restart] by (simp add: idle_def)
  then have "idle (?m'\<lparr>cm_browser := browser, cm_runtime := ?rt\<rparr>)" by (simp add: idle_def)
  with one two after(1) idle show ?thesis
    by (intro exI [of _ ?m']) (simp add: exI [of _ ?rt])
qed

section \<open>Concrete runs\<close>

definition zero_metrics :: benchmark_metrics where
  "zero_metrics = \<lparr>bm_requested_fps = lit64 120 1, bm_encoded_fps = 0, bm_presented_fps = None, bm_encode_mean_ms = 0, bm_encode_p95_ms = 0,
     bm_preprocess_mean_ms = 0, bm_preprocess_p95_ms = 0, bm_actual_mbps = 0, bm_cpu_percent = None, bm_working_set_mib = None,
     bm_drop_percent = 0, bm_freeze_count = None, bm_pipeline_p95_ms = None, bm_quality_score = None\<rparr>"

definition trial :: auto_benchmark_observation where
  "trial = \<lparr>ao_schema_version = 0, ao_nfidb_version = [], ao_receiver_runtime = lit ''test'', ao_encoder_id = lit ''openh264-software'',
     ao_mode = H264Software, ao_profile = Balanced, ao_max_width = 1920, ao_requested_fps = 60, ao_end_to_end_verified = True,
     ao_recorded_unix_ms = 0, ao_metrics = zero_metrics, ao_score = score_auto_candidate H264Software zero_metrics\<rparr>"

lemma trial_metrics: "\<not> invalid_metrics trial"
proof -
  obtain n where n: "fp64 (lit64 120 1) = FFin False n" "0 < n" "n < inf_mag b64" using lit64_nonzero [of 120] by auto
  then show ?thesis
    by (simp add: invalid_metrics_def trial_def zero_metrics_def measured_values_def Let_def less_eq_f64_def less_f64_def
        fp_less_def fp_less_eq_def is_finite64_def with_sign_def)
qed

definition trial_file :: learned_file where
  "trial_file = \<lparr>lf_schema_version = 1, lf_results = [stamp_observation trial]\<rparr>"

definition trial_library :: manager_library where
  "trial_library = \<lparr>ml_blank_yuv = (\<lambda>w h. \<lparr>yb_width = w, yb_height = h, yb_y = [], yb_u = [], yb_v = []\<rparr>),
     ml_json = \<lparr>lj_from_slice = (\<lambda>bytes. if bytes = [1] then Some trial_file else None),
       lj_to_vec = (\<lambda>f. if f = trial_file then Ok [1] else Err [])\<rparr>\<rparr>"

definition blank_disk :: learned_disk where
  "blank_disk = \<lparr>ld_path = True, ld_create_error = None, ld_write_error = None, ld_readable = True, ld_file = None\<rparr>"

definition trial_manager :: capture_manager where
  "trial_manager = (capture_manager_new trial_library (default_metrics 0) default_video [software_h264_capability] blank_disk (fresh_driver (\<lambda>_. quiet_answer)))
     \<lparr>cm_browser := default_browser\<lparr>bv_user_agent := lit ''test'', bv_h264 := default_browser_codec\<lparr>bc_presented := True\<rparr>\<rparr>\<rparr>"

lemma trial_selection:
  "select_encoder default_video default_browser [software_h264_capability] [] =
     Ok (H264Software, lit ''hardware encoding is unavailable; OpenH264 is the universal compatibility fallback'', lit ''OpenH264 software encoder'')"
  by (simp add: select_encoder_def measured_def measurements_def default_video_def default_browser_def
      default_browser_codec_def automatic_choice_def or_else_def functional_def capability_mode_def software_h264_capability_def
      is_usable_def choice_reason_def map_filter_simps Let_def)

lemma trial_manager_facts:
  "cm_learned trial_manager = []" "cm_capabilities trial_manager = [software_h264_capability]" "cm_disk trial_manager = blank_disk"
    "cm_browser trial_manager = default_browser\<lparr>bv_user_agent := lit ''test'', bv_h264 := default_browser_codec\<lparr>bc_presented := True\<rparr>\<rparr>"
  by (simp_all add: trial_manager_def capture_manager_new_def learned_load_def blank_disk_def Let_def trial_selection split: prod.splits)

lemma trial_recorded:
  "record_auto_benchmark trial_library trial trial_manager =
     (Ok (), trial_manager\<lparr>cm_learned := [stamp_observation trial], cm_disk := blank_disk\<lparr>ld_file := Some [1]\<rparr>\<rparr>)"
proof -
  have "check_observation trial_manager trial = Ok ()"
    using trial_metrics
    by (simp add: check_observation_def trial_manager_facts trial_def lit_def capability_mode_def
        software_h264_capability_def is_usable_def del: and_then_Ok_iff)
  moreover have "learn (stamp_observation trial) [] = [stamp_observation trial]" by (simp add: learn_def MAX_LEARNED_def)
  ultimately show ?thesis
    by (simp add: record_auto_benchmark_def trial_manager_facts learned_save_def blank_disk_def trial_library_def trial_file_def Let_def)
qed

theorem learned_benchmarks_stay_trustworthy_witness:
  "learned_ok [software_h264_capability] [stamp_observation trial]"
proof -
  have "manager_run pl trial_library trial_manager (trial_manager\<lparr>cm_learned := [stamp_observation trial], cm_disk := blank_disk\<lparr>ld_file := Some [1]\<rparr>\<rparr>)" for pl
    by (rule run_record [OF run_refl trial_recorded])
  from learned_benchmarks_stay_trustworthy [OF this] show ?thesis
    by (simp add: trial_manager_facts learned_ok_def)
qed

theorem recorded_benchmark_survives_restart_witness:
  "cm_learned (capture_manager_new trial_library (default_metrics 0) default_video [] (blank_disk\<lparr>ld_file := Some [1]\<rparr>) (fresh_driver (\<lambda>_. quiet_answer)))
     = [stamp_observation trial]"
proof -
  have faithful: "lj_from_slice (ml_json trial_library) bytes = Some f" if "lj_to_vec (ml_json trial_library) f = Ok bytes" for f bytes
    using that by (auto simp: trial_library_def split: if_splits)
  from recorded_benchmark_survives_restart [OF faithful trial_recorded] show ?thesis
    by (simp add: trial_manager_facts blank_disk_def)
qed


definition software_video :: "bool \<Rightarrow> video_config" where
  "software_video b = default_video\<lparr>encoder := H264Software, cursor := b\<rparr>"

lemma software_valid: "video_validate (software_video b) = Ok ()" "cursor (software_video b) = b" "encoder (software_video b) = H264Software"
  using default_video_valid by (simp_all add: software_video_def video_validate_def default_video_def)

lemma software_selection:
  "select_encoder (software_video b) default_browser [software_h264_capability] [] =
     Ok (H264Software, mode_label H264Software @ lit '' was selected manually and is mutually supported'', lit ''OpenH264 software encoder'')"
  by (simp add: select_encoder_def measured_def software_video_def default_video_def default_browser_def manual_choice_def functional_def
      capability_mode_def software_h264_capability_def is_usable_def choice_reason_def Let_def del: mode_label.simps)

definition fresh_trial :: capture_manager where
  "fresh_trial = capture_manager_new trial_library (default_metrics 0) default_video [software_h264_capability] blank_disk (fresh_driver (\<lambda>_. quiet_answer))"

lemma fresh_trial_facts:
  "cm_source fresh_trial = None" "cm_video fresh_trial = default_video" "cm_capabilities fresh_trial = [software_h264_capability]"
  "cm_learned fresh_trial = []"
  by (simp_all add: fresh_trial_def capture_manager_new_def learned_load_def blank_disk_def Let_def split: prod.splits)

lemma software_applied:
  "\<exists>s m'. apply_video_settings trial_library (software_video b) default_browser fresh_trial = Some (Ok s, m')"
proof -
  obtain mode reason name where sel: "select_encoder (software_video b) default_browser [software_h264_capability] [] = Ok (mode, reason, name)"
    using software_selection by blast
  have other: "default_video \<noteq> software_video b"
    by (auto simp: software_video_def default_video_def)
  have "cm_source (commit_settings x y (mode, reason, name) fresh_trial) = None" for x y
    by (simp add: commit_settings_def Let_def fresh_trial_facts)
  then obtain s m' where sw: "switch_settings (software_video b) default_browser (mode, reason, name) fresh_trial = (Ok s, m')"
    by (auto simp: switch_settings_def restart_for_cursor_def Let_def)
  with sel other show ?thesis
    by (simp add: apply_video_settings_def fresh_trial_facts software_valid live_selection_def)
qed

theorem manager_stays_coherent_witness:
  "\<exists>s m'. apply_video_settings trial_library (software_video False) default_browser fresh_trial = Some (Ok s, m')
     \<and> coherent m' \<and> coherent (manager_stop m')"
proof -
  obtain s m' where run: "apply_video_settings trial_library (software_video False) default_browser fresh_trial = Some (Ok s, m')"
    using software_applied by blast
  note history = run_apply [OF run_refl run, unfolded fresh_trial_def]
  from manager_stays_coherent [OF history] manager_stays_coherent [OF run_stop [OF history]] run show ?thesis by blast
qed


lemma software_preflight:
  assumes "fa_error (dv_answers d (dv_calls d)) = None" "fa_error (dv_answers d (Suc (dv_calls d))) = None"
    and "\<not> fa_null (dv_answers d (Suc (dv_calls d)))" "fa_size (dv_answers d (Suc (dv_calls d))) = 1"
  shows "\<exists>d'. preflight_encoder lib settings H264Software sw sh d = Some (Ok (), d') \<and> dv_answers d' = dv_answers d \<and> dv_calls d' = dv_calls d + 2"
  using assms
  by (simp add: preflight_encoder_def Let_def split_beta create_video_encoder_def openh264_new_def make_openh264_def openh264_encode_def
      io_then_def io_ok_def attempt_def ask_def perform_def issue_def preflight_outcome_def)

definition hidden_cursor :: video_config where
  "hidden_cursor = default_video\<lparr>cursor := False\<rparr>"

definition failing_manager :: capture_manager where
  "failing_manager = (capture_manager_new trial_library (default_metrics 0) default_video [software_h264_capability] blank_disk
     (fresh_driver (\<lambda>j. if j < 3 then quiet_answer\<lparr>fa_size := 1\<rparr> else quiet_answer\<lparr>fa_error := Some (lit ''no monitor'')\<rparr>)))
     \<lparr>cm_source := Some (MonitorSource 0)\<rparr>"

lemma failing_manager_facts:
  "cm_source failing_manager = Some (MonitorSource 0)" "cm_video failing_manager = default_video" "cm_learned failing_manager = []"
  "cm_capabilities failing_manager = [software_h264_capability]" "sh_metrics (cm_shared failing_manager) = default_metrics 0"
  "sh_driver (cm_shared failing_manager) =
     fresh_driver (\<lambda>j. if j < 3 then quiet_answer\<lparr>fa_size := 1\<rparr> else quiet_answer\<lparr>fa_error := Some (lit ''no monitor'')\<rparr>)"
  "cm_control failing_manager = False"
  by (simp_all add: failing_manager_def capture_manager_new_def learned_load_def blank_disk_def Let_def split: prod.splits)

lemma hidden_selection:
  "\<exists>reason name. select_encoder hidden_cursor default_browser [software_h264_capability] [] = Ok (H264Software, reason, name)"
  by (simp add: select_encoder_def measured_def measurements_def hidden_cursor_def default_video_def default_browser_def
      default_browser_codec_def automatic_choice_def or_else_def functional_def capability_mode_def software_h264_capability_def
      is_usable_def Let_def)

lemma failing_live_selection:
  "\<exists>m1. live_selection trial_library hidden_cursor (H264Software, reason, name) failing_manager = Some (Ok (H264Software, reason, name), m1)
     \<and> dv_calls (sh_driver (cm_shared m1)) = 3 \<and> dv_answers (sh_driver (cm_shared m1)) = dv_answers (sh_driver (cm_shared failing_manager))"
proof -
  let ?d = "sh_driver (cm_shared failing_manager)"
  let ?now = "fa_clock (fst (ask ?d))"
  obtain snap where snap: "metrics_take_snapshot ?now (default_metrics 0) = Some (snap, (default_metrics 0)\<lparr>m_rate_state := rate_update ?now (default_metrics 0)\<rparr>)"
    using snapshot_exists [OF m_start [of 0]] by blast
  obtain w h where size: "test_size hidden_cursor snap = (w, h)" by fastforce
  have asked: "dv_calls (snd (ask ?d)) = 1" "dv_answers (snd (ask ?d)) = dv_answers ?d"
    by (simp_all add: ask_def failing_manager_facts fresh_driver_def)
  obtain d' where pre: "preflight_encoder trial_library hidden_cursor H264Software w h (snd (ask ?d)) = Some (Ok (), d')"
    "dv_answers d' = dv_answers ?d" "dv_calls d' = 3"
    using software_preflight [of "snd (ask ?d)" trial_library hidden_cursor w h] asked
    by (auto simp: failing_manager_facts fresh_driver_def quiet_answer_def)
  then show ?thesis
    using snap size
    by (simp add: live_selection_def failing_manager_facts(1,4,5) read_clock_eq Let_def test_selection_def on_shared_def)
qed

theorem failed_cursor_restart_is_forgotten_witness:
  "\<exists>e m' s m''. apply_video_settings trial_library hidden_cursor default_browser failing_manager = Some (Err e, m')
     \<and> apply_video_settings trial_library hidden_cursor default_browser m' = Some (Ok s, m'') \<and> idle m''"
proof -
  obtain reason name where sel: "select_encoder hidden_cursor default_browser (cm_capabilities failing_manager) (cm_learned failing_manager) = Ok (H264Software, reason, name)"
    using hidden_selection by (auto simp: failing_manager_facts)
  obtain m1 where live: "live_selection trial_library hidden_cursor (H264Software, reason, name) failing_manager = Some (Ok (H264Software, reason, name), m1)"
    and driver: "dv_calls (sh_driver (cm_shared m1)) = 3" "dv_answers (sh_driver (cm_shared m1)) = dv_answers (sh_driver (cm_shared failing_manager))"
    using failing_live_selection by blast
  from live_selection_effect [OF live] have "cm_control m1 = False"
    using only_probed_keeps(3) by (auto simp: failing_manager_facts)
  then obtain e m2 where restart: "start_monitor 0 (commit_settings hidden_cursor default_browser (H264Software, reason, name) m1) = (Err e, m2)"
    using driver
    by (simp add: start_monitor_def manager_stop_def commit_settings_def Let_def host_call_def on_shared_def monitor_facts_def io_then_def
        attempt_def ask_def failing_manager_facts fresh_driver_def)
  have "video_validate hidden_cursor = Ok ()" "cursor hidden_cursor \<noteq> cursor (cm_video failing_manager)"
    using default_video_valid by (simp_all add: hidden_cursor_def video_validate_def default_video_def failing_manager_facts)
  from failed_cursor_restart_is_forgotten [OF this(1) failing_manager_facts(1) this(2) sel live restart] show ?thesis by blast
qed

end
