(* ===== verification/Pixels.thy ===== *)
theory Pixels
  imports Capture_Manager
begin

text \<open>
  Frames as the code keeps them, four bytes per pixel in rows, and rectangles painted into them.  Shared by the test
  pattern (\<open>crates/host-windows/src/capture.rs\<close>) and the benchmark patterns (\<open>benchmark.rs\<close>), whose \<open>paint_block\<close>
  functions differ in where the block starts.  The frame marker, sixteen blocks at the top and sixteen at the bottom, can be
  read back.
\<close>

section \<open>Pixels\<close>

type_synonym color = "u8 list"

definition pixel :: "u8 list \<Rightarrow> nat \<Rightarrow> color" where
  "pixel frame p = take 4 (drop (p * 4) frame)"

definition set_pixel :: "color \<Rightarrow> nat \<Rightarrow> u8 list \<Rightarrow> u8 list" where
  "set_pixel color p frame = take (p * 4) frame @ color @ drop (p * 4 + 4) frame"

text \<open>The two nested loops over rows and columns, and the color copied to each pixel.\<close>

definition paint_rows :: "nat \<Rightarrow> nat list \<Rightarrow> nat list \<Rightarrow> color \<Rightarrow> u8 list \<Rightarrow> u8 list" where
  "paint_rows w rows columns color = fold (\<lambda>row. fold (\<lambda>column. set_pixel color (row * w + column)) columns) rows"

definition block_of :: "u32 \<Rightarrow> u32" where
  "block_of w = clamp_ord (w div 64) 8 64"

definition marker_color :: "bool \<Rightarrow> color" where
  "marker_color white = (if white then [245, 245, 245, 255] else [8, 8, 8, 255])"

section \<open>Reading back\<close>

lemma length_set_pixel [simp]: "p * 4 + 4 \<le> length frame \<Longrightarrow> length color = 4 \<Longrightarrow> length (set_pixel color p frame) = length frame"
  by (simp add: set_pixel_def)

lemma pixel_set_pixel:
  assumes "p * 4 + 4 \<le> length frame" "q * 4 + 4 \<le> length frame" "length color = 4"
  shows "pixel (set_pixel color p frame) q = (if q = p then color else pixel frame q)"
proof -
  consider "q < p" | "q = p" | "p < q" by linarith
  then show ?thesis
  proof cases
    case 1
    then have "q * 4 + 4 \<le> p * 4" by linarith
    with 1 assms show ?thesis by (simp add: pixel_def set_pixel_def min_absorb1 take_drop)
  next
    case 2
    with assms show ?thesis by (simp add: pixel_def set_pixel_def)
  next
    case 3
    then obtain k where k: "q = Suc p + k" using less_iff_Suc_add by auto
    with assms show ?thesis by (simp add: pixel_def set_pixel_def algebra_simps)
  qed
qed

lemma fold_set_pixel:
  assumes "\<forall>p \<in> set ps. p * 4 + 4 \<le> length frame" "length color = 4" "q * 4 + 4 \<le> length frame"
  shows "length (fold (set_pixel color) ps frame) = length frame
    \<and> pixel (fold (set_pixel color) ps frame) q = (if q \<in> set ps then color else pixel frame q)"
  using assms
proof (induction ps arbitrary: frame)
  case (Cons p ps)
  have len: "length (set_pixel color p frame) = length frame" using Cons.prems by simp
  have "pixel (set_pixel color p frame) q = (if q = p then color else pixel frame q)"
    using Cons.prems by (intro pixel_set_pixel) simp_all
  with Cons.IH [of "set_pixel color p frame"] Cons.prems len show ?case by (cases "q = p") simp_all
qed simp

lemma fold_concat_map: "fold f (concat (map g xs)) = fold (\<lambda>x. fold f (g x)) xs"
  by (induction xs) (simp_all add: fun_eq_iff)

lemma paint_rows_fold: "paint_rows w rows columns color = fold (set_pixel color) (concat (map (\<lambda>row. map (\<lambda>column. row * w + column) columns) rows))"
  by (simp add: paint_rows_def fold_concat_map fold_map comp_def)

lemma row_column_unique: "(r * w + c = r' * w + c') \<longleftrightarrow> r = r' \<and> c = c'" if "c < w" "c' < w" for r w :: nat
  using that by (metis div_mult_self3 div_less add_cancel_right_right add.commute less_nat_zero_code add_left_cancel)

text \<open>After painting, a pixel has the color inside the rectangle and its old color outside.\<close>

lemma paint_rows_pixel:
  assumes "length frame = w * h * 4" "length color = 4" "set rows \<subseteq> {..<h}" "set columns \<subseteq> {..<w}" "c < w" "r < h"
  shows "length (paint_rows w rows columns color frame) = w * h * 4"
    and "pixel (paint_rows w rows columns color frame) (r * w + c) = (if r \<in> set rows \<and> c \<in> set columns then color else pixel frame (r * w + c))"
proof -
  let ?ps = "concat (map (\<lambda>row. map (\<lambda>column. row * w + column) columns) rows)"
  have inside: "(a * w + b) * 4 + 4 \<le> length frame" if "a < h" "b < w" for a b
  proof -
    have "Suc a * w \<le> h * w" using that(1) by (intro mult_le_mono1) simp
    with that(2) show ?thesis by (simp add: assms(1) mult.commute)
  qed
  then have "\<forall>p \<in> set ?ps. p * 4 + 4 \<le> length frame" using assms(3,4) by (auto simp del: length_greater_0_conv)
  note painted = fold_set_pixel [OF this assms(2) inside [OF assms(6,5)]]
  have unique: "r * w + c = a * w + b \<longleftrightarrow> r = a \<and> c = b" if "b \<in> set columns" for a b
    using that assms(4,5) by (intro row_column_unique) auto
  have "r * w + c \<in> set ?ps \<longleftrightarrow> (\<exists>a \<in> set rows. \<exists>b \<in> set columns. r * w + c = a * w + b)" by auto
  also have "\<dots> \<longleftrightarrow> r \<in> set rows \<and> c \<in> set columns" by (simp add: unique cong: bex_cong)
  finally have "r * w + c \<in> set ?ps \<longleftrightarrow> r \<in> set rows \<and> c \<in> set columns" .
  with painted show "length (paint_rows w rows columns color frame) = w * h * 4"
    "pixel (paint_rows w rows columns color frame) (r * w + c) = (if r \<in> set rows \<and> c \<in> set columns then color else pixel frame (r * w + c))"
    by (simp_all add: paint_rows_fold assms(1))
qed

section \<open>Rectangles\<close>

text \<open>A rectangle is its columns, its rows and its color.  As long as all rectangles over a pixel agree on the color, the
  order in which they are painted does not matter.\<close>

type_synonym rectangle = "nat list \<times> nat list \<times> color"

definition covers :: "nat \<Rightarrow> nat \<Rightarrow> rectangle \<Rightarrow> bool" where
  "covers c r rect = (case rect of (columns, rows, _) \<Rightarrow> c \<in> set columns \<and> r \<in> set rows)"

definition paint_rectangle :: "nat \<Rightarrow> rectangle \<Rightarrow> u8 list \<Rightarrow> u8 list" where
  "paint_rectangle w rect = (case rect of (columns, rows, color) \<Rightarrow> paint_rows w rows columns color)"

definition rectangle_fits :: "nat \<Rightarrow> nat \<Rightarrow> rectangle \<Rightarrow> bool" where
  "rectangle_fits w h rect = (case rect of (columns, rows, color) \<Rightarrow> set columns \<subseteq> {..<w} \<and> set rows \<subseteq> {..<h} \<and> length color = 4)"

lemma paint_rectangles_pixel:
  assumes "length frame = w * h * 4" "\<forall>rect \<in> set rects. rectangle_fits w h rect" "c < w" "r < h"
    and "\<forall>rect \<in> set rects. covers c r rect \<longrightarrow> snd (snd rect) = color"
  shows "length (fold (paint_rectangle w) rects frame) = w * h * 4
    \<and> pixel (fold (paint_rectangle w) rects frame) (r * w + c)
        = (if \<exists>rect \<in> set rects. covers c r rect then color else pixel frame (r * w + c))"
  using assms
proof (induction rects arbitrary: frame)
  case (Cons rect rects)
  obtain columns rows own where rect: "rect = (columns, rows, own)" by (cases rect) auto
  with Cons.prems have fits: "set rows \<subseteq> {..<h}" "set columns \<subseteq> {..<w}" "length own = 4" by (auto simp: rectangle_fits_def)
  note painted = paint_rows_pixel [OF Cons.prems(1) fits(3,1,2) Cons.prems(3,4)]
  let ?frame = "paint_rectangle w rect frame"
  have len: "length ?frame = w * h * 4" using painted(1) by (simp add: rect paint_rectangle_def)
  have here: "pixel ?frame (r * w + c) = (if covers c r rect then color else pixel frame (r * w + c))"
    using painted(2) Cons.prems(5) by (auto simp: rect paint_rectangle_def covers_def)
  have "length (fold (paint_rectangle w) rects ?frame) = w * h * 4
    \<and> pixel (fold (paint_rectangle w) rects ?frame) (r * w + c)
        = (if \<exists>rect \<in> set rects. covers c r rect then color else pixel ?frame (r * w + c))"
    using len Cons.prems(2-5) by (intro Cons.IH) simp_all
  with here show ?case by simp
qed simp

text \<open>Reading the marker back: sixteen pixels, the low bit first, each light or dark.\<close>

definition read_marker :: "(nat \<Rightarrow> nat) \<Rightarrow> u8 list \<Rightarrow> nat" where
  "read_marker place frame = horner_sum of_bool 2 (map (\<lambda>k. 128 \<le> hd (pixel frame (place k))) [0..<16])"

lemma read_marker_eq:
  assumes "\<forall>k < 16. pixel frame (place k) = marker_color (bit n k)"
  shows "read_marker place frame = unat (take_bit 16 n)"
proof -
  have "map (\<lambda>k. 128 \<le> hd (pixel frame (place k))) [0..<16] = map (bit (unat n)) [0..<16]"
    using assms by (auto simp: marker_color_def bit_unsigned_iff)
  then have "read_marker place frame = take_bit 16 (unat n)" by (simp only: read_marker_def horner_sum_bit_eq_take_bit)
  then show ?thesis by (simp add: unsigned_take_bit_eq)
qed

end
