(* ===== verification/Test_Pattern.thy ===== *)
theory Test_Pattern
  imports Pixels
begin

text \<open>
  The generated test pattern of \<open>crates/host-windows/src/capture.rs\<close>: a gradient, a bar that moves one column per frame,
  and the number of the frame as two rows of sixteen blocks, mirrored at the bottom.  The receiver reads the number back
  to find frames that were lost or repeated; for every size the host accepts, both rows give the frame's number.
\<close>

section \<open>The picture\<close>

definition pattern_background :: "u32 \<Rightarrow> u32 \<Rightarrow> u8 list" where
  "pattern_background w h =
     concat (map (\<lambda>y. concat (map (\<lambda>x.
         [ucast (word_of_nat x * 160 div w) + 32, ucast (word_of_nat y * 160 div h) + 32, 24, 255])
       [0..<unat w])) [0..<unat h])"

text \<open>The bar changes three of the four bytes of a pixel.\<close>

definition set_bar_pixel :: "nat \<Rightarrow> u8 list \<Rightarrow> u8 list" where
  "set_bar_pixel p frame = frame[p * 4 := 238, p * 4 + 1 := 246, p * 4 + 2 := 255]"

definition draw_bar :: "u32 \<Rightarrow> u32 \<Rightarrow> u64 \<Rightarrow> u8 list \<Rightarrow> u8 list" where
  "draw_bar w h n =
     (let bar = ucast (n mod ucast w) :: u32
      in fold (\<lambda>y. fold (\<lambda>x. set_bar_pixel (y * unat w + x)) [unat (sat_sub bar 7)..<Suc (unat (min (bar + 7) (w - 1)))]) [0..<unat h])"

definition block_rectangle :: "u32 \<Rightarrow> u32 \<Rightarrow> u32 \<Rightarrow> u32 \<Rightarrow> u32 \<Rightarrow> color \<Rightarrow> rectangle" where
  "block_rectangle w h x y side color = ([unat x..<unat (min (x + side) w)], [unat y..<unat (min (y + side) h)], color)"

definition pattern_paint_block :: "u32 \<Rightarrow> u32 \<Rightarrow> u32 \<Rightarrow> u32 \<Rightarrow> u32 \<Rightarrow> color \<Rightarrow> u8 list \<Rightarrow> u8 list" where
  "pattern_paint_block w h x y side color = paint_rectangle (unat w) (block_rectangle w h x y side color)"

definition draw_integrity_marker :: "u32 \<Rightarrow> u32 \<Rightarrow> u64 \<Rightarrow> u8 list \<Rightarrow> u8 list" where
  "draw_integrity_marker w h n =
     (let block = block_of w; margin = block
      in fold (\<lambda>k frame.
           let color = marker_color (n AND push_bit k 1 \<noteq> 0);
               top_x = margin + word_of_nat k * block;
               bottom_x = sat_sub w (margin + (word_of_nat k + 1) * block);
               frame = pattern_paint_block w h top_x margin block color frame
           in pattern_paint_block w h bottom_x (sat_sub h (margin + block)) block color frame) [0..<16])"

definition pattern_frame :: "u32 \<Rightarrow> u32 \<Rightarrow> u64 \<Rightarrow> u8 list" where
  "pattern_frame w h n = draw_integrity_marker w h n (draw_bar w h n (pattern_background w h))"

section \<open>The loop\<close>

text \<open>One iteration: the frame enters the queue, the number goes up, and the thread sleeps for what is left of the period.
  The value \<open>None\<close> is the end of the thread.\<close>

definition pattern_step :: "u32 \<Rightarrow> u32 \<Rightarrow> u64 \<times> capture_shared \<Rightarrow> (nat \<times> u64 \<times> capture_shared) option" where
  "pattern_step w h st =
     (case st of (n, sh) \<Rightarrow>
      if lf_stopped (sh_slot sh) then None
      else
        (let (started, sh) = read_clock sh; period = frame_period (sh_max_fps sh);
             bgra = pattern_frame w h n;
             sh = submit_captured (CpuFrame \<lparr>rf_width = w, rf_height = h, rf_bgra = bgra\<rparr>) (sh\<lparr>sh_metrics := captured w h (sh_metrics sh)\<rparr>);
             (now, sh) = read_clock sh
         in Some (period - (now - started), n + 1, sh)))"

text \<open>Several iterations, as long as the thread runs.\<close>

primrec pattern_steps :: "nat \<Rightarrow> u32 \<Rightarrow> u32 \<Rightarrow> u64 \<times> capture_shared \<Rightarrow> u64 \<times> capture_shared" where
  "pattern_steps 0 w h st = st"
| "pattern_steps (Suc k) w h st = (case pattern_step w h st of None \<Rightarrow> st | Some (_, st) \<Rightarrow> pattern_steps k w h st)"

section \<open>The marker can be read back\<close>

lemma length_background [simp]: "length (pattern_background w h) = unat w * unat h * 4"
  by (simp add: pattern_background_def length_concat comp_def sum_list_triv mult.commute)

lemma unat_min: "unat (min a b) = min (unat a) (unat b)" for a b :: "'a::len word"
  by (simp add: min_def word_le_nat_alt)

lemma unat_sat_sub: "unat (sat_sub a b) = unat a - unat b"
  by (simp add: sat_sub_def unat_sub word_le_nat_alt)

lemma unat_small_add: "unat (a + b) = unat a + unat b" if "unat a \<le> 3840" "unat b \<le> 60" for a b :: u32
  using that by (simp add: unat_plus_if_size word_size)

lemma length_fold: "(\<And>x ys. length (f x ys) = length ys) \<Longrightarrow> length (fold f xs ys) = length ys"
  by (induction xs arbitrary: ys) simp_all

lemma length_draw_bar [simp]: "length (draw_bar w h n frame) = length frame"
  unfolding draw_bar_def Let_def by (intro length_fold) (simp add: set_bar_pixel_def)

text \<open>The sizes the host accepts leave room for both rows: a block is at most a thirty-fourth of the width and a third of
  the height.\<close>

lemma pattern_size_room:
  assumes "pattern_size w0 h0 = (w, h)"
  shows "320 \<le> unat w" "unat w \<le> 3840" "180 \<le> unat h" "unat h \<le> 2160"
    and "8 \<le> unat (block_of w)" "unat (block_of w) \<le> 60" "34 * unat (block_of w) \<le> unat w" "3 * unat (block_of w) \<le> unat h"
proof -
  have clamped: "320 \<le> unat (clamp_ord w0 320 3840)" "unat (clamp_ord w0 320 3840) \<le> 3840"
    "180 \<le> unat (clamp_ord h0 180 2160)" "unat (clamp_ord h0 180 2160) \<le> 2160"
    by (auto simp: clamp_ord_def word_le_nat_alt word_less_nat_alt not_less not_le split: if_splits)
  have "w = even_floor (clamp_ord w0 320 3840)" "h = even_floor (clamp_ord h0 180 2160)" using assms by (simp_all add: pattern_size_def)
  then have wh: "unat w = unat (clamp_ord w0 320 3840) div 2 * 2" "unat h = unat (clamp_ord h0 180 2160) div 2 * 2"
    by (simp_all add: even_floor_unat)
  with clamped div_le_mono [OF clamped(1), of 2] div_le_mono [OF clamped(3), of 2] div_le_mono [OF clamped(2), of 2] div_le_mono [OF clamped(4), of 2]
  have "320 \<le> unat w \<and> unat w \<le> 3840 \<and> 180 \<le> unat h \<and> unat h \<le> 2160" by simp
  then have size: "320 \<le> unat w" "unat w \<le> 3840" "180 \<le> unat h" "unat h \<le> 2160" by simp_all
  then show "320 \<le> unat w" "unat w \<le> 3840" "180 \<le> unat h" "unat h \<le> 2160" .
  have "unat (block_of w) = max 8 (min 64 (unat w div 64))"
    by (auto simp: block_of_def clamp_ord_def word_le_nat_alt word_less_nat_alt unat_div not_less not_le)
  moreover have "unat w div 64 \<le> 60" "34 * (unat w div 64) \<le> unat w"
    using div_le_mono [OF size(2), of 64] div_times_less_eq_dividend [of "unat w" 64] by simp_all
  ultimately have "8 \<le> unat (block_of w)" "unat (block_of w) \<le> 60" "34 * unat (block_of w) \<le> unat w" "3 * unat (block_of w) \<le> unat h"
    using size(1,3) by (simp_all add: max_def min_def split: if_splits)
  then show "8 \<le> unat (block_of w)" "unat (block_of w) \<le> 60" "34 * unat (block_of w) \<le> unat w" "3 * unat (block_of w) \<le> unat h" .
qed

text \<open>The rectangles of the marker, as numbers.\<close>

definition top_block :: "nat \<Rightarrow> u64 \<Rightarrow> nat \<Rightarrow> rectangle" where
  "top_block b n k = ([b * (k + 1)..<b * (k + 2)], [b..<2 * b], marker_color (bit n k))"

definition bottom_block :: "nat \<Rightarrow> nat \<Rightarrow> nat \<Rightarrow> u64 \<Rightarrow> nat \<Rightarrow> rectangle" where
  "bottom_block w h b n k = ([w - b * (k + 2)..<w - b * (k + 1)], [h - 2 * b..<h - b], marker_color (bit n k))"

lemma marker_rectangles:
  assumes "pattern_size w0 h0 = (w, h)"
  defines "b \<equiv> unat (block_of w)"
  shows "draw_integrity_marker w h n frame =
    fold (paint_rectangle (unat w)) (concat (map (\<lambda>k. [top_block b n k, bottom_block (unat w) (unat h) b n k]) [0..<16])) frame"
proof -
  note room = pattern_size_room [OF assms(1)]
  let ?block = "block_of w"
  have top: "block_rectangle w h (?block + word_of_nat k * ?block) ?block ?block (marker_color (n AND push_bit k 1 \<noteq> 0)) = top_block b n k"
    and bottom: "block_rectangle w h (sat_sub w (?block + (word_of_nat k + 1) * ?block)) (sat_sub h (?block + ?block)) ?block
        (marker_color (n AND push_bit k 1 \<noteq> 0)) = bottom_block (unat w) (unat h) b n k" if "k < 16" for k
  proof -
    have bound: "b * (k + 2) \<le> b * 17" using that by (intro mult_le_mono2) simp
    have W: "?block = word_of_nat b" by (simp add: b_def)
    have small: "unat (word_of_nat x :: u32) = x" if "x \<le> 3840" for x using that by (simp add: unat_of_nat take_bit_nat_eq_self)
    have x: "?block + word_of_nat k * ?block = word_of_nat (b * (k + 1))" "word_of_nat (b * (k + 1)) + ?block = word_of_nat (b * (k + 2))"
      "?block + (word_of_nat k + 1) * ?block = word_of_nat (b * (k + 2))" "?block + ?block = word_of_nat (2 * b)"
      by (simp_all add: W algebra_simps)
    have b: "b \<le> 60" "34 * b \<le> unat w" using room by (simp_all add: b_def)
    moreover have "b * (k + 1) \<le> b * (k + 2)" by simp
    ultimately have "b * (k + 1) \<le> 3840" "b * (k + 2) \<le> 3840" "2 * b \<le> 3840" using bound by linarith+
    then have unats: "unat (word_of_nat (b * (k + 1)) :: u32) = b * (k + 1)" "unat (word_of_nat (b * (k + 2)) :: u32) = b * (k + 2)"
      "unat (word_of_nat (2 * b) :: u32) = 2 * b"
      by (simp_all only: small)
    define p where "p = b * (k + 1)"
    have p1: "b * (k + 2) = p + b" by (simp add: p_def)
    have "p + b \<le> b * 17" using bound by (simp only: p1)
    with b(2) p1 have p: "b * (k + 2) = p + b" "p + b \<le> unat w" by simp_all
    have h: "3 * b \<le> unat h" using room by (simp add: b_def)
    have mins: "min (p + b) (unat w) = p + b" "min (2 * b) (unat h) = 2 * b"
      "min (unat w - (p + b) + b) (unat w) = unat w - p" "min (unat h - 2 * b + b) (unat h) = unat h - b"
      using p(2) h by linarith+
    have sums: "unat (sat_sub w (word_of_nat (p + b)) + ?block) = unat w - (p + b) + b"
      "unat (sat_sub h (word_of_nat (2 * b)) + ?block) = unat h - 2 * b + b"
      using room(2,4) b(1) unats by (auto simp only: unat_sat_sub p1 b_def [symmetric] intro!: unat_small_add [THEN trans])
    note folded = x [unfolded p1, folded p_def] unats [unfolded p1, folded p_def]
    show "block_rectangle w h (?block + word_of_nat k * ?block) ?block ?block (marker_color (n AND push_bit k 1 \<noteq> 0)) = top_block b n k"
      by (simp only: block_rectangle_def top_block_def folded unat_min mins bit_iff_and_push_bit_not_eq_0 b_def [symmetric] p_def [symmetric] p)
    show "block_rectangle w h (sat_sub w (?block + (word_of_nat k + 1) * ?block)) (sat_sub h (?block + ?block)) ?block
        (marker_color (n AND push_bit k 1 \<noteq> 0)) = bottom_block (unat w) (unat h) b n k"
      by (simp only: block_rectangle_def bottom_block_def folded unat_min mins sums unat_sat_sub bit_iff_and_push_bit_not_eq_0 b_def [symmetric] p_def [symmetric] p)
  qed
  show ?thesis
    unfolding draw_integrity_marker_def Let_def pattern_paint_block_def fold_concat_map
  proof (rule fold_cong)
    fix k assume "k \<in> set [0..<16]"
    then have k: "k < 16" by simp
    show "(\<lambda>frame. paint_rectangle (unat w) (block_rectangle w h (sat_sub w (?block + (word_of_nat k + 1) * ?block)) (sat_sub h (?block + ?block)) ?block
          (marker_color (n AND push_bit k 1 \<noteq> 0)))
        (paint_rectangle (unat w) (block_rectangle w h (?block + word_of_nat k * ?block) ?block ?block (marker_color (n AND push_bit k 1 \<noteq> 0))) frame))
      = fold (paint_rectangle (unat w)) [top_block b n k, bottom_block (unat w) (unat h) b n k]"
      by (simp only: top [OF k] bottom [OF k]) (simp add: fun_eq_iff)
  qed simp_all
qed

text \<open>The centres of the blocks, as pixel numbers.\<close>

definition top_centre :: "u32 \<Rightarrow> nat \<Rightarrow> nat" where
  "top_centre w k = (let b = unat (block_of w) in (b + b div 2) * unat w + (b * (k + 1) + b div 2))"

definition bottom_centre :: "u32 \<Rightarrow> u32 \<Rightarrow> nat \<Rightarrow> nat" where
  "bottom_centre w h k = (let b = unat (block_of w) in (unat h - 2 * b + b div 2) * unat w + (unat w - b * (k + 2) + b div 2))"

lemma block_column_unique: "b * (k + 1) \<le> b * (j + 1) + b div 2 \<Longrightarrow> b * (j + 1) + b div 2 < b * (k + 2) \<Longrightarrow> 0 < b \<Longrightarrow> k = j" for b k j :: nat
proof -
  assume a: "b * (k + 1) \<le> b * (j + 1) + b div 2" "b * (j + 1) + b div 2 < b * (k + 2)" "0 < b"
  have "b * (j + 1) + b div 2 < b * (j + 2)" using a(3) by simp
  with a(1) have "b * (k + 1) < b * (j + 2)" by linarith
  moreover have "b * (j + 1) < b * (k + 2)" using a(2) by linarith
  ultimately show "k = j" using a(3) by (simp only: mult_less_cancel1) linarith
qed

text \<open>A centre lies in its own block and in no other, so the marker gives the low sixteen bits of the number.\<close>

lemma blocks_fit:
  assumes "17 * b \<le> w" "2 * b \<le> h" "rect \<in> set (concat (map (\<lambda>k. [top_block b n k, bottom_block w h b n k]) [0..<16]))"
  shows "rectangle_fits w h rect"
proof -
  from assms(3) obtain k where k: "k < 16" "rect = top_block b n k \<or> rect = bottom_block w h b n k" by auto
  have "b * (k + 2) \<le> b * 17" using k(1) by (intro mult_le_mono2) simp
  with assms(1) have "b * (k + 2) \<le> w" by linarith
  with k assms(2) show ?thesis by (auto simp: rectangle_fits_def top_block_def bottom_block_def marker_color_def)
qed

lemma painted_blocks:
  fixes n :: u64
  assumes "length frame = w * h * 4" "0 < b" "34 * b \<le> w" "3 * b \<le> h" "k < 16"
  defines "painted \<equiv> fold (paint_rectangle w) (concat (map (\<lambda>k. [top_block b n k, bottom_block w h b n k]) [0..<16])) frame"
  shows "pixel painted ((b + b div 2) * w + (b * (k + 1) + b div 2)) = marker_color (bit n k)"
    and "pixel painted ((h - 2 * b + b div 2) * w + (w - b * (k + 2) + b div 2)) = marker_color (bit n k)"
proof -
  let ?rects = "concat (map (\<lambda>k. [top_block b n k, bottom_block w h b n k]) [0..<16])"
  have fits: "\<forall>rect \<in> set ?rects. rectangle_fits w h rect" using blocks_fit [of b w h] assms(3,4) by auto
  have half: "b div 2 < b" using assms(2) by simp
  have reach: "b * (j + 2) \<le> b * 17" if "j < 16" for j using that by (intro mult_le_mono2) simp
  have colors: "snd (snd (top_block b n j)) = marker_color (bit n j)" "snd (snd (bottom_block w h b n j)) = marker_color (bit n j)" for j
    by (simp_all add: top_block_def bottom_block_def)
  have step: "b * (j + 2) = b * (j + 1) + b" for j by simp
  have read: "pixel painted (r * w + c) = marker_color (bit n k)"
    if "c < w" "r < h" "\<exists>rect \<in> set ?rects. covers c r rect" "\<forall>rect \<in> set ?rects. covers c r rect \<longrightarrow> snd (snd rect) = marker_color (bit n k)" for r c
    using paint_rectangles_pixel [OF assms(1) fits that(1,2,4)] that(3) by (simp add: painted_def)
  show "pixel painted ((b + b div 2) * w + (b * (k + 1) + b div 2)) = marker_color (bit n k)"
  proof (rule read)
    let ?c = "b * (k + 1) + b div 2" and ?r = "b + b div 2"
    have c: "?c < b * 17" using reach [OF assms(5)] half step [of k] by linarith
    with assms(3) show "?c < w" by linarith
    show "?r < h" using half assms(4) by linarith
    have own: "covers ?c ?r (top_block b n k)" using half by (simp add: covers_def top_block_def)
    with assms(5) show "\<exists>rect \<in> set ?rects. covers ?c ?r rect" by force
    have "j = k" if "covers ?c ?r (top_block b n j)" for j
      using that assms(2) by (intro block_column_unique [of b j k]) (simp_all add: covers_def top_block_def)
    moreover have "\<not> covers ?c ?r (bottom_block w h b n j)" if "j < 16" for j
    proof -
      have "?c < w - b * (j + 2)" using reach [OF that] c assms(3) by linarith
      then show ?thesis by (simp add: covers_def bottom_block_def)
    qed
    ultimately show "\<forall>rect \<in> set ?rects. covers ?c ?r rect \<longrightarrow> snd (snd rect) = marker_color (bit n k)"
      using colors by auto
  qed
  show "pixel painted ((h - 2 * b + b div 2) * w + (w - b * (k + 2) + b div 2)) = marker_color (bit n k)"
  proof (rule read)
    let ?c = "w - b * (k + 2) + b div 2" and ?r = "h - 2 * b + b div 2"
    show "?c < w" using reach [OF assms(5)] half step [of k] assms(2,3) by linarith
    show "?r < h" using half assms(2,4) by linarith
    have "?c < w - b * (k + 1)" "?r < h - b" using half step [of k] reach [OF assms(5)] assms(2-4) by linarith+
    then have own: "covers ?c ?r (bottom_block w h b n k)" by (simp add: covers_def bottom_block_def)
    with assms(5) show "\<exists>rect \<in> set ?rects. covers ?c ?r rect" by force
    have "j = k" if "covers ?c ?r (bottom_block w h b n j)" "j < 16" for j
    proof -
      have "w - b * (j + 2) \<le> ?c" "?c < w - b * (j + 1)" using that(1) by (simp_all add: covers_def bottom_block_def)
      moreover have "b * (j + 3) = b * (j + 2) + b" by (simp add: algebra_simps)
      ultimately have "b * (k + 2) < b * (j + 3) \<and> b * (j + 1) < b * (k + 2)"
        using reach [OF that(2)] reach [OF assms(5)] half assms(3) by linarith
      then show ?thesis using assms(2) by (simp only: mult_less_cancel1) linarith
    qed
    then have "snd (snd (bottom_block w h b n j)) = marker_color (bit n k)" if "covers ?c ?r (bottom_block w h b n j)" "j < 16" for j
      using that colors by metis
    moreover have "\<not> covers ?c ?r (top_block b n j)" if "j < 16" for j
    proof -
      have "b * (j + 2) \<le> ?c" using reach [OF that] reach [OF assms(5)] assms(3) by linarith
      then show ?thesis by (simp add: covers_def top_block_def)
    qed
    ultimately show "\<forall>rect \<in> set ?rects. covers ?c ?r rect \<longrightarrow> snd (snd rect) = marker_color (bit n k)"
      using colors by auto
  qed
qed

text \<open>C27: The frame number drawn into a test pattern can be read back: for every size a caller may ask for and every frame
  number, the sixteen blocks of the top row and, read from the right, those of the bottom row, sampled at their centres, give
  the low sixteen bits of the number, although the two rows are painted alternately and share their lines when the picture
  is flat.\<close>
theorem test_pattern_number_reads_back:
  "(case pattern_size w0 h0 of (w, h) \<Rightarrow>
      read_marker (top_centre w) (pattern_frame w h n) = unat (take_bit 16 n)
    \<and> read_marker (bottom_centre w h) (pattern_frame w h n) = unat (take_bit 16 n))"
proof -
  obtain w h where size: "pattern_size w0 h0 = (w, h)" by force
  note room = pattern_size_room [OF size]
  have len: "length (draw_bar w h n (pattern_background w h)) = unat w * unat h * 4" by simp
  note blocks = painted_blocks [OF len _ room(7,8), of _ n, folded marker_rectangles [OF size]]
  show ?thesis
    unfolding size prod.case pattern_frame_def
    using blocks room(5) by (intro conjI read_marker_eq) (simp_all add: top_centre_def bottom_centre_def Let_def)
qed

end
