(* ===== verification/Benchmark.thy ===== *)
theory Benchmark
  imports Test_Pattern
begin

text \<open>
  The host benchmark of \<open>crates/host-windows/src/benchmark.rs\<close>: its cases, the pictures it draws, its statistics and
  the two reports (CSV and Markdown) it writes.  The sine of the standard library is a parameter of the drawing workload;
  everything else is computed.
\<close>

section \<open>Cases\<close>

datatype benchmark_workload = StaticDetail | Drawing | HighMotion

definition all_workloads :: "benchmark_workload list" where
  "all_workloads = [StaticDetail, Drawing, HighMotion]"

primrec workload_label :: "benchmark_workload \<Rightarrow> ustring" where
  "workload_label StaticDetail = lit ''static-detail''"
| "workload_label Drawing = lit ''drawing''"
| "workload_label HighMotion = lit ''high-motion''"

record host_benchmark_case =
  hc_name :: ustring
  hc_source_width :: u32
  hc_source_height :: u32
  hc_max_width :: u32
  hc_requested_fps :: u32
  hc_bitrate_bps :: u32
  hc_workload :: benchmark_workload
  hc_frames :: u32

definition quick_benchmark_cases :: "u32 \<Rightarrow> host_benchmark_case list" where
  "quick_benchmark_cases frames =
     [\<lparr>hc_name = lit ''1080p-balanced-drawing'', hc_source_width = 1920, hc_source_height = 1080, hc_max_width = 1920,
       hc_requested_fps = 60, hc_bitrate_bps = 10000000, hc_workload = Drawing, hc_frames = frames\<rparr>]"

definition benchmark_geometries :: "(ustring \<times> u32 \<times> u32 \<times> u32 \<times> u32) list" where
  "benchmark_geometries =
     [(lit ''4k-to-720p-fast'', 3840, 2160, 1280, 5000000),
      (lit ''1080p-balanced'', 1920, 1080, 1920, 10000000),
      (lit ''4k-to-1080p-balanced'', 3840, 2160, 1920, 10000000),
      (lit ''4k-to-1440p-sharp'', 3840, 2160, 2560, 18000000)]"

definition full_benchmark_cases :: "u32 \<Rightarrow> host_benchmark_case list" where
  "full_benchmark_cases frames =
     concat (map (\<lambda>(name, sw, sh, mw, bitrate). map (\<lambda>workload.
       \<lparr>hc_name = name @ lit ''-'' @ workload_label workload, hc_source_width = sw, hc_source_height = sh, hc_max_width = mw,
        hc_requested_fps = 60, hc_bitrate_bps = bitrate, hc_workload = workload, hc_frames = frames\<rparr>) all_workloads)
     benchmark_geometries)"

section \<open>Pictures\<close>

definition grid_shade :: "u32 \<Rightarrow> u32 \<Rightarrow> u8" where
  "grid_shade x y = (if x mod 64 = 0 \<or> y mod 64 = 0 then 36 else 0)"

definition render_background :: "u32 \<Rightarrow> u32 \<Rightarrow> u8 list" where
  "render_background w h =
     concat (map (\<lambda>y. concat (map (\<lambda>x.
         let grid = grid_shade (word_of_nat x) (word_of_nat y)
         in [sat_add (ucast (word_of_nat x * 160 div w)) (28 + grid), sat_add (ucast (word_of_nat y * 150 div h)) (24 + grid),
             sat_add 28 grid, 255])
       [0..<unat w])) [0..<unat h])"

text \<open>A block starts half its size before the position, and ends its size after it.\<close>

definition benchmark_rectangle :: "u32 \<Rightarrow> u32 \<Rightarrow> u32 \<Rightarrow> u32 \<Rightarrow> u32 \<Rightarrow> color \<Rightarrow> rectangle" where
  "benchmark_rectangle w h x y side color =
     ([unat (sat_sub x (side div 2))..<unat (min (x + side) w)], [unat (sat_sub y (side div 2))..<unat (min (y + side) h)], color)"

definition benchmark_paint_block :: "u32 \<Rightarrow> u32 \<Rightarrow> u32 \<Rightarrow> u32 \<Rightarrow> u32 \<Rightarrow> color \<Rightarrow> u8 list \<Rightarrow> u8 list" where
  "benchmark_paint_block w h x y side color = paint_rectangle (unat w) (benchmark_rectangle w h x y side color)"

definition draw_marker :: "u32 \<Rightarrow> u32 \<Rightarrow> u32 \<Rightarrow> u8 list \<Rightarrow> u8 list" where
  "draw_marker w h n =
     (let block = block_of w
      in fold (\<lambda>k frame.
           let color = marker_color (n AND push_bit k 1 \<noteq> 0);
               frame = benchmark_paint_block w h (block + word_of_nat k * block) block block color frame
           in benchmark_paint_block w h (sat_sub w (block + (word_of_nat k + 1) * block)) (sat_sub h (block * 2)) block color frame) [0..<16])"

definition f64_as_i32 :: "f64 \<Rightarrow> i32" where
  "f64_as_i32 x = word_of_int (fp_to_int b64 (- (2 ^ 31)) (2 ^ 31 - 1) (fp64 x))"

text \<open>One step of the drawn stroke: a point of a sine wave, kept inside the picture (at least five lines high).\<close>

definition stroke_point :: "(f64 \<Rightarrow> f64) \<Rightarrow> host_benchmark_case \<Rightarrow> nat \<Rightarrow> u32 \<times> u32" where
  "stroke_point sine c step =
     (let w = hc_source_width c; h = hc_source_height c;
          x = w div 12 + word_of_nat step * (w * 5 div 6) div 240;
          wave = f64_as_i32 (sine (f64_of_int (int step) / lit64 17 1) * f64_of_int (uint h) * lit64 18 100);
          half = (if sint h < 0 then - (- sint h div 2) else sint h div 2);
          y = clamp_ord (half + sint wave) 2 (sint h - 3)
      in (x, word_of_int y))"

definition render_stroke :: "(f64 \<Rightarrow> f64) \<Rightarrow> host_benchmark_case \<Rightarrow> u32 \<Rightarrow> u8 list \<Rightarrow> u8 list" where
  "render_stroke sine c n =
     fold (\<lambda>step. case stroke_point sine c step of
         (x, y) \<Rightarrow> benchmark_paint_block (hc_source_width c) (hc_source_height c) x y 4 [245, 245, 245, 255])
       [0..<unat (n mod 240 + 1)]"

definition motion_value :: "u32 \<Rightarrow> u32 \<Rightarrow> u32 \<Rightarrow> u8" where
  "motion_value shift x y = ucast (((x + shift) div 16 + y div 16) AND 1) * 210"

definition set_motion_pixel :: "u32 \<Rightarrow> u32 \<Rightarrow> nat \<Rightarrow> nat \<Rightarrow> nat \<Rightarrow> u8 list \<Rightarrow> u8 list" where
  "set_motion_pixel shift n w y x frame =
     (let p = (y * w + x) * 4; v = motion_value shift (word_of_nat x) (word_of_nat y)
      in frame[p := v, p + 1 := v + ucast (n * 3), p + 2 := sat_sub 255 v])"

definition render_motion :: "host_benchmark_case \<Rightarrow> u32 \<Rightarrow> u8 list \<Rightarrow> u8 list" where
  "render_motion c n =
     (let w = hc_source_width c; shift = n * 23 mod max w 1
      in fold (\<lambda>y. fold (\<lambda>x. set_motion_pixel shift n (unat w) y x) [0..<unat w]) [0..<unat (hc_source_height c)])"

definition render_workload_frame :: "(f64 \<Rightarrow> f64) \<Rightarrow> u8 list \<Rightarrow> host_benchmark_case \<Rightarrow> u32 \<Rightarrow> u8 list" where
  "render_workload_frame sine background c n =
     draw_marker (hc_source_width c) (hc_source_height c) n
       ((case hc_workload c of StaticDetail \<Rightarrow> id | Drawing \<Rightarrow> render_stroke sine c n | HighMotion \<Rightarrow> render_motion c n) background)"

section \<open>Statistics\<close>

definition f64_mean :: "f64 list \<Rightarrow> f64 option" where
  "f64_mean values = (if values = [] then None else Some (foldl (+) (- 0) values / f64_of_int (int (length values))))"

text \<open>\<open>sort_by(f64::total_cmp)\<close> is the order of \<open>total_key\<close>.\<close>

definition benchmark_percentile :: "f64 list \<Rightarrow> f64 \<Rightarrow> f64 option" where
  "benchmark_percentile values quantile =
     (if values = [] then None
      else
        (let sorted_values = sort_key total_key values; index = percentile_index (length sorted_values) quantile
         in if index < length sorted_values then Some (sorted_values ! index) else None))"

definition largest :: "f64 list \<Rightarrow> f64 option" where
  "largest values = (case values of [] \<Rightarrow> None | x # xs \<Rightarrow> Some (foldl max64 x xs))"

end
