(* ===== verification/Benchmark_Runs.thy ===== *)
theory Benchmark_Runs
  imports Benchmark Manager_Props
begin

text \<open>
  Running the host benchmark (\<open>crates/host-windows/src/benchmark.rs\<close>): one functional case, frame by frame, the suite
  over all cases and encoder modes, and the reports.  The encoders, the GPU pipeline and the process counters are asked
  through the driver; the value \<open>None\<close> is an encoder that never returns.
\<close>

section \<open>Results\<close>

record host_benchmark_result =
  hr_case :: host_benchmark_case
  hr_mode :: encoder_mode
  hr_codec :: video_codec
  hr_backend :: ustring
  hr_encoder_name :: ustring
  hr_hardware :: bool
  hr_pipeline_memory_mode :: pipeline_memory_mode
  hr_state :: ustring
  hr_reason :: "ustring option"
  hr_output_width :: u32
  hr_output_height :: u32
  hr_input_frames :: u32
  hr_encoded_frames :: u32
  hr_keyframes :: u32
  hr_bytes_encoded :: u64
  hr_average_bytes_per_frame :: "f64 option"
  hr_actual_fps :: "f64 option"
  hr_actual_mbps :: "f64 option"
  hr_preprocess_mean_ms :: "f64 option"
  hr_preprocess_p50_ms :: "f64 option"
  hr_preprocess_p95_ms :: "f64 option"
  hr_preprocess_p99_ms :: "f64 option"
  hr_encode_mean_ms :: "f64 option"
  hr_encode_p50_ms :: "f64 option"
  hr_encode_p95_ms :: "f64 option"
  hr_encode_p99_ms :: "f64 option"
  hr_encode_max_ms :: "f64 option"
  hr_startup_to_first_frame_ms :: "f64 option"
  hr_process_cpu_percent :: "f64 option"
  hr_working_set_mean_mib :: "f64 option"
  hr_working_set_peak_mib :: "f64 option"
  hr_auto_score :: "auto_score option"

record host_benchmark_report =
  hp_schema_version :: u32
  hp_nfidb_version :: ustring
  hp_generated_unix_ms :: nat
  hp_benchmark_kind :: ustring
  hp_capabilities :: "encoder_capability list"
  hp_results :: "host_benchmark_result list"

definition empty_result :: "host_benchmark_case \<Rightarrow> encoder_mode \<Rightarrow> video_codec \<Rightarrow> ustring \<Rightarrow> ustring option \<Rightarrow> host_benchmark_result" where
  "empty_result c mode codec state reason =
     \<lparr>hr_case = c, hr_mode = mode, hr_codec = codec,
      hr_backend = (if requires_hardware mode then lit ''Media Foundation hardware'' else lit ''OpenH264 software''),
      hr_encoder_name = mode_label mode, hr_hardware = requires_hardware mode, hr_pipeline_memory_mode = CpuPreprocessing,
      hr_state = state, hr_reason = reason, hr_output_width = 0, hr_output_height = 0, hr_input_frames = 0,
      hr_encoded_frames = 0, hr_keyframes = 0, hr_bytes_encoded = 0, hr_average_bytes_per_frame = None,
      hr_actual_fps = None, hr_actual_mbps = None, hr_preprocess_mean_ms = None, hr_preprocess_p50_ms = None,
      hr_preprocess_p95_ms = None, hr_preprocess_p99_ms = None, hr_encode_mean_ms = None, hr_encode_p50_ms = None,
      hr_encode_p95_ms = None, hr_encode_p99_ms = None, hr_encode_max_ms = None, hr_startup_to_first_frame_ms = None,
      hr_process_cpu_percent = None, hr_working_set_mean_mib = None, hr_working_set_peak_mib = None, hr_auto_score = None\<rparr>"

section \<open>The process counters\<close>

record process_sample =
  pr_process_100ns :: u64
  pr_working_set_mib :: f64

definition filetime_u64 :: "u32 \<times> u32 \<Rightarrow> u64" where
  "filetime_u64 t = (case t of (low, high) \<Rightarrow> push_bit 32 (ucast high) OR ucast low)"

text \<open>The kernel and the user time of \<open>GetProcessTimes\<close>, as the two halves of each are laid out in memory.\<close>

definition read_filetime :: "driver_answer \<Rightarrow> nat \<Rightarrow> u32 \<times> u32" where
  "read_filetime a offset = (from_le (map (fa_memory a) [offset..<offset + 4]), from_le (map (fa_memory a) [offset + 4..<offset + 8]))"

definition process_sample :: "driver \<Rightarrow> process_sample option \<times> driver" where
  "process_sample d =
     (case attempt id d of
        (Err _, d) \<Rightarrow> (None, d)
      | (Ok stamps, d) \<Rightarrow>
          (case attempt id d of
             (Err _, d) \<Rightarrow> (None, d)
           | (Ok counters, d) \<Rightarrow>
               (Some \<lparr>pr_process_100ns = sat_add (filetime_u64 (read_filetime stamps 0)) (filetime_u64 (read_filetime stamps 8)),
                  pr_working_set_mib = f64_of_int (uint (fa_number counters)) / lit64 1048576 1\<rparr>, d)))"

section \<open>One case\<close>

record benchmark_library =
  bl_sine :: "f64 \<Rightarrow> f64"
  bl_pictures :: picture_library

record bench_state =
  bn_encoder :: video_encoder
  bn_pipeline :: "gpu_benchmark_pipeline option"
  bn_preprocess_ms :: "f64 list"
  bn_encode_ms :: "f64 list"
  bn_working_sets :: "f64 list"
  bn_encoded_frames :: u32
  bn_keyframes :: u32
  bn_bytes_encoded :: u64
  bn_startup_ms :: "f64 option"

definition elapsed_ms :: "nat \<Rightarrow> driver \<Rightarrow> f64 \<times> driver" where
  "elapsed_ms started d = (case ask d of (a, d) \<Rightarrow> (as_secs_f64 (fa_clock a - started) * lit64 1000 1, d))"

definition resize_bgra :: "picture_library \<Rightarrow> u8 list \<Rightarrow> u32 \<Rightarrow> u32 \<Rightarrow> u32 \<Rightarrow> (u8 list \<times> u32 \<times> u32, ustring) result" where
  "resize_bgra lib bgra sw sh mw =
     (if sw \<le> mw then Ok (bgra, sw, sh)
      else
        (let w = even_floor mw; h = even_floor (max (ucast (((ucast sh :: u64) * ucast w) div ucast sw)) 2)
         in map_ok (\<lambda>bytes. (bytes, w, h)) (pl_resize lib sw sh bgra w h)))"

definition benchmark_output :: "host_benchmark_case \<Rightarrow> u32 \<times> u32" where
  "benchmark_output c =
     (let w = even_floor (min (hc_source_width c) (hc_max_width c))
      in (w, even_floor (max (ucast (((ucast (hc_source_height c) :: u64) * ucast w) div ucast (hc_source_width c))) 2)))"

definition timed_encode :: "video_frame \<Rightarrow> bench_state \<Rightarrow> driver \<Rightarrow> ((encoded_packet option, ustring) result \<times> bench_state \<times> driver) option" where
  "timed_encode frame bn d =
     (case ask d of (a, d) \<Rightarrow>
      (case encoder_encode frame (bn_encoder bn) d of
         None \<Rightarrow> None
       | Some (Err e, enc, d) \<Rightarrow> Some (Err e, bn\<lparr>bn_encoder := enc\<rparr>, d)
       | Some (Ok packet, enc, d) \<Rightarrow>
           (let (ms, d) = elapsed_ms (fa_clock a) d
            in Some (Ok packet, bn\<lparr>bn_encoder := enc, bn_encode_ms := bn_encode_ms bn @ [ms]\<rparr>, d))))"

definition push_preprocess :: "nat \<Rightarrow> bench_state \<Rightarrow> driver \<Rightarrow> bench_state \<times> driver" where
  "push_preprocess started bn d =
     (case elapsed_ms started d of (ms, d) \<Rightarrow> (bn\<lparr>bn_preprocess_ms := bn_preprocess_ms bn @ [ms]\<rparr>, d))"

definition encode_benchmark_frame :: "benchmark_library \<Rightarrow> host_benchmark_case \<Rightarrow> u8 list \<Rightarrow> nat \<Rightarrow> bench_state \<Rightarrow> driver
    \<Rightarrow> ((encoded_packet option, ustring) result \<times> bench_state \<times> driver) option" where
  "encode_benchmark_frame lib c bgra started bn d =
     (case bn_pipeline bn of
        Some pipeline \<Rightarrow>
          (case process_bgra bgra pipeline d of
             (Err e, pipeline, d) \<Rightarrow> Some (Err e, bn\<lparr>bn_pipeline := Some pipeline\<rparr>, d)
           | (Ok surface, pipeline, d) \<Rightarrow>
               (let (bn, d) = push_preprocess started (bn\<lparr>bn_pipeline := Some pipeline\<rparr>) d; (w, h) = benchmark_output c
                in map_option (\<lambda>(r, bn, d). (r, bn, drop_surface surface d))
                     (timed_encode \<lparr>vf_width = w, vf_height = h, vf_data = D3D11Nv12 surface\<rparr> bn d)))
      | None \<Rightarrow>
          (case resize_bgra (bl_pictures lib) bgra (hc_source_width c) (hc_source_height c) (hc_max_width c) of
             Err e \<Rightarrow> Some (Err e, bn, d)
           | Ok (bgra, w, h) \<Rightarrow>
               (let yuv = pl_to_yuv (bl_pictures lib) bgra (unat w) (unat h); (bn, d) = push_preprocess started bn d
                in timed_encode \<lparr>vf_width = w, vf_height = h, vf_data = I420 yuv\<rparr> bn d)))"

text \<open>What an encoded frame adds to the totals, and the counters sampled after every frame.\<close>

definition count_packet :: "nat \<Rightarrow> encoded_packet \<Rightarrow> bench_state \<Rightarrow> driver \<Rightarrow> bench_state \<times> driver" where
  "count_packet started packet bn d =
     (let (bn, d) = (case bn_startup_ms bn of
            Some _ \<Rightarrow> (bn, d)
          | None \<Rightarrow> (case elapsed_ms started d of (ms, d) \<Rightarrow> (bn\<lparr>bn_startup_ms := Some ms\<rparr>, d)))
      in (bn\<lparr>bn_encoded_frames := bn_encoded_frames bn + 1, bn_keyframes := bn_keyframes bn + of_bool (ep_keyframe packet),
             bn_bytes_encoded := bn_bytes_encoded bn + word_of_nat (length (ep_data packet))\<rparr>, d))"

definition sample_working_set :: "bench_state \<Rightarrow> driver \<Rightarrow> bench_state \<times> driver" where
  "sample_working_set bn d =
     (case process_sample d of
        (None, d) \<Rightarrow> (bn, d)
      | (Some s, d) \<Rightarrow> (bn\<lparr>bn_working_sets := bn_working_sets bn @ [pr_working_set_mib s]\<rparr>, d))"

definition benchmark_frame :: "benchmark_library \<Rightarrow> host_benchmark_case \<Rightarrow> u8 list \<Rightarrow> nat \<Rightarrow> nat \<Rightarrow> bench_state \<Rightarrow> driver
    \<Rightarrow> ((unit, ustring) result \<times> bench_state \<times> driver) option" where
  "benchmark_frame lib c background started n bn d =
     (case ask d of (a, d) \<Rightarrow>
      (case encode_benchmark_frame lib c (render_workload_frame (bl_sine lib) background c (word_of_nat n)) (fa_clock a) bn d of
         None \<Rightarrow> None
       | Some (Err e, bn, d) \<Rightarrow> Some (Err e, bn, d)
       | Some (Ok packet, bn, d) \<Rightarrow>
           (let (bn, d) = (case packet of None \<Rightarrow> (bn, d) | Some p \<Rightarrow> count_packet started p bn d);
                (bn, d) = sample_working_set bn d
            in Some (Ok (), bn, d))))"

fun benchmark_frames :: "benchmark_library \<Rightarrow> host_benchmark_case \<Rightarrow> u8 list \<Rightarrow> nat \<Rightarrow> nat list \<Rightarrow> bench_state \<Rightarrow> driver
    \<Rightarrow> ((unit, ustring) result \<times> bench_state \<times> driver) option" where
  "benchmark_frames lib c background started [] bn d = Some (Ok (), bn, d)"
| "benchmark_frames lib c background started (n # ns) bn d =
     (case benchmark_frame lib c background started n bn d of
        None \<Rightarrow> None
      | Some (Err e, bn, d) \<Rightarrow> Some (Err e, bn, d)
      | Some (Ok _, bn, d) \<Rightarrow> benchmark_frames lib c background started ns bn d)"

text \<open>The measured facts of a finished run, and the result they give.\<close>

definition cpu_percent_of :: "process_sample option \<Rightarrow> process_sample option \<Rightarrow> f64 \<Rightarrow> driver \<Rightarrow> f64 option \<times> driver" where
  "cpu_percent_of start finish elapsed d =
     (case (start, finish) of
        (Some s, Some f) \<Rightarrow>
          (let seconds = f64_of_int (uint (sat_sub (pr_process_100ns f) (pr_process_100ns s))) / lit64 10000000 1; (r, d) = attempt id d;
               parallelism = (case r of Ok a \<Rightarrow> ucast (fa_number a) :: u32 | Err _ \<Rightarrow> 1)
           in (Some (seconds / elapsed / f64_of_int (uint parallelism) * lit64 100 1), d))
      | _ \<Rightarrow> (None, d))"

definition run_metrics :: "host_benchmark_case \<Rightarrow> bench_state \<Rightarrow> f64 \<Rightarrow> f64 \<Rightarrow> f64 option \<Rightarrow> benchmark_metrics" where
  "run_metrics c bn fps mbps cpu =
     \<lparr>bm_requested_fps = f64_of_int (uint (hc_requested_fps c)), bm_encoded_fps = fps, bm_presented_fps = None,
      bm_encode_mean_ms = unwrap_or (f64_mean (bn_encode_ms bn)) 0, bm_encode_p95_ms = unwrap_or (benchmark_percentile (bn_encode_ms bn) (lit64 95 100)) 0,
      bm_preprocess_mean_ms = unwrap_or (f64_mean (bn_preprocess_ms bn)) 0,
      bm_preprocess_p95_ms = unwrap_or (benchmark_percentile (bn_preprocess_ms bn) (lit64 95 100)) 0, bm_actual_mbps = mbps, bm_cpu_percent = cpu,
      bm_working_set_mib = f64_mean (bn_working_sets bn),
      bm_drop_percent = f64_of_int (uint (sat_sub (hc_frames c) (bn_encoded_frames bn))) / f64_of_int (uint (max (hc_frames c) 1)) * lit64 100 1,
      bm_freeze_count = None, bm_pipeline_p95_ms = None, bm_quality_score = None\<rparr>"

definition completed_result :: "host_benchmark_case \<Rightarrow> encoder_mode \<Rightarrow> video_codec \<Rightarrow> ustring \<Rightarrow> pipeline_memory_mode \<Rightarrow> bench_state
    \<Rightarrow> f64 \<Rightarrow> f64 option \<Rightarrow> host_benchmark_result" where
  "completed_result c mode codec name memory bn elapsed cpu =
     (let fps = f64_of_int (uint (bn_encoded_frames bn)) / elapsed;
          mbps = f64_of_int (uint (bn_bytes_encoded bn)) * lit64 8 1 / elapsed / lit64 1000000 1;
          pre = bn_preprocess_ms bn; enc_ms = bn_encode_ms bn; (w, h) = benchmark_output c
      in \<lparr>hr_case = c, hr_mode = mode, hr_codec = codec, hr_backend = backend_label (encoder_backend_of (bn_encoder bn)),
          hr_encoder_name = name, hr_hardware = requires_hardware mode, hr_pipeline_memory_mode = memory,
          hr_state = lit ''completed'', hr_reason = None, hr_output_width = w, hr_output_height = h, hr_input_frames = hc_frames c,
          hr_encoded_frames = bn_encoded_frames bn, hr_keyframes = bn_keyframes bn, hr_bytes_encoded = bn_bytes_encoded bn,
          hr_average_bytes_per_frame = (if 0 < bn_encoded_frames bn
            then Some (f64_of_int (uint (bn_bytes_encoded bn)) / f64_of_int (uint (bn_encoded_frames bn))) else None),
          hr_actual_fps = Some fps, hr_actual_mbps = Some mbps,
          hr_preprocess_mean_ms = f64_mean pre, hr_preprocess_p50_ms = benchmark_percentile pre (lit64 50 100),
          hr_preprocess_p95_ms = benchmark_percentile pre (lit64 95 100), hr_preprocess_p99_ms = benchmark_percentile pre (lit64 99 100),
          hr_encode_mean_ms = f64_mean enc_ms, hr_encode_p50_ms = benchmark_percentile enc_ms (lit64 50 100),
          hr_encode_p95_ms = benchmark_percentile enc_ms (lit64 95 100), hr_encode_p99_ms = benchmark_percentile enc_ms (lit64 99 100),
          hr_encode_max_ms = largest enc_ms, hr_startup_to_first_frame_ms = bn_startup_ms bn, hr_process_cpu_percent = cpu,
          hr_working_set_mean_mib = f64_mean (bn_working_sets bn), hr_working_set_peak_mib = largest (bn_working_sets bn),
          hr_auto_score = Some (score_auto_candidate mode (run_metrics c bn fps mbps cpu))\<rparr>)"

definition drop_pipeline :: "gpu_benchmark_pipeline option \<Rightarrow> driver \<Rightarrow> driver" where
  "drop_pipeline p d = (case p of None \<Rightarrow> d | Some p \<Rightarrow> drop_processor (Some (gb_processor p)) (drop_surface (gb_input p) d))"

text \<open>The measured part: the frames, then the end of the run.  The pipeline is dropped however it ends.\<close>

definition measure_case :: "benchmark_library \<Rightarrow> host_benchmark_case \<Rightarrow> encoder_mode \<Rightarrow> video_codec \<Rightarrow> ustring \<Rightarrow> video_encoder
    \<Rightarrow> gpu_benchmark_pipeline option \<Rightarrow> driver \<Rightarrow> ((host_benchmark_result, ustring) result \<times> driver) option" where
  "measure_case lib c mode codec name enc pipeline d =
     (let background = render_background (hc_source_width c) (hc_source_height c);
          (first, d) = process_sample d; (a, d) = ask d; started = fa_clock a;
          bn = \<lparr>bn_encoder = enc, bn_pipeline = pipeline, bn_preprocess_ms = [], bn_encode_ms = [], bn_working_sets = [],
            bn_encoded_frames = 0, bn_keyframes = 0, bn_bytes_encoded = 0, bn_startup_ms = None\<rparr>
      in case benchmark_frames lib c background started [0..<unat (hc_frames c)] bn d of
           None \<Rightarrow> None
         | Some (Err e, bn, d) \<Rightarrow> Some (Err e, drop_pipeline (bn_pipeline bn) d)
         | Some (Ok _, bn, d) \<Rightarrow>
             (let memory = encoder_memory_mode (bn_encoder bn); bn = bn\<lparr>bn_encoder := encoder_shutdown (bn_encoder bn)\<rparr>;
                  (a, d) = ask d; elapsed = max64 (as_secs_f64 (fa_clock a - started)) (lit64 1 1000000);
                  (finish, d) = process_sample d; (cpu, d) = cpu_percent_of first finish elapsed d
              in Some (Ok (completed_result c mode codec name memory bn elapsed cpu), drop_pipeline (bn_pipeline bn) d)))"

definition run_functional_case :: "benchmark_library \<Rightarrow> host_benchmark_case \<Rightarrow> encoder_mode \<Rightarrow> video_codec \<Rightarrow> ustring \<Rightarrow> driver
    \<Rightarrow> ((host_benchmark_result, ustring) result \<times> driver) option" where
  "run_functional_case lib c mode codec name d =
     (let (w, h) = benchmark_output c
      in case create_video_encoder \<lparr>vc_codec = codec, vc_mode = mode, vc_width = w, vc_height = h, vc_max_fps = hc_requested_fps c,
             vc_bitrate_bps = hc_bitrate_bps c\<rparr> d of
           (Err e, d) \<Rightarrow> Some (Err e, d)
         | (Ok enc, d) \<Rightarrow>
             (case encoder_request_keyframe enc d of
                (Err e, _, d) \<Rightarrow> Some (Err e, d)
              | (Ok _, enc, d) \<Rightarrow>
                  (if requires_hardware mode then
                     (case benchmark_pipeline_new (hc_source_width c) (hc_source_height c) w h (hc_requested_fps c) d of
                        (Err e, d) \<Rightarrow> Some (Err e, d)
                      | (Ok p, d) \<Rightarrow> measure_case lib c mode codec name enc (Some p) d)
                   else measure_case lib c mode codec name enc None d)))"

section \<open>The suite\<close>

definition run_host_benchmark :: "benchmark_library \<Rightarrow> host_benchmark_case \<Rightarrow> encoder_mode \<Rightarrow> encoder_capability list \<Rightarrow> driver
    \<Rightarrow> (host_benchmark_result \<times> driver) option" where
  "run_host_benchmark lib c mode capabilities d =
     (let codec = unwrap_or (mode_codec mode) H264
      in case List.find (\<lambda>candidate. capability_mode candidate = mode \<and> is_usable (ec_state candidate)) capabilities of
           None \<Rightarrow>
             (let reason = (case List.find (\<lambda>candidate. capability_mode candidate = mode) capabilities of
                    None \<Rightarrow> None | Some candidate \<Rightarrow> ec_failure_reason candidate)
              in Some (empty_result c mode codec (lit ''skipped'')
                   (Some (unwrap_or reason (mode_label mode @ lit '' is unavailable on this PC''))), d))
         | Some candidate \<Rightarrow>
             (case run_functional_case lib c mode codec (ec_encoder_name candidate) d of
                None \<Rightarrow> None
              | Some (Ok r, d) \<Rightarrow> Some (r, d)
              | Some (Err e, d) \<Rightarrow> Some (empty_result c mode codec (lit ''failed'') (Some e), d)))"

fun run_pairs :: "benchmark_library \<Rightarrow> encoder_capability list \<Rightarrow> (host_benchmark_case \<times> encoder_mode) list \<Rightarrow> driver
    \<Rightarrow> (host_benchmark_result list \<times> driver) option" where
  "run_pairs lib capabilities [] d = Some ([], d)"
| "run_pairs lib capabilities ((c, mode) # pairs) d =
     (case run_host_benchmark lib c mode capabilities d of
        None \<Rightarrow> None
      | Some (r, d) \<Rightarrow> (case run_pairs lib capabilities pairs d of None \<Rightarrow> None | Some (rs, d) \<Rightarrow> Some (r # rs, d)))"

definition run_host_benchmark_suite :: "benchmark_library \<Rightarrow> encoder_capability list \<Rightarrow> host_benchmark_case list \<Rightarrow> encoder_mode list \<Rightarrow> nat \<Rightarrow> driver
    \<Rightarrow> (host_benchmark_report \<times> driver) option" where
  "run_host_benchmark_suite lib capabilities cases modes now d =
     map_option (\<lambda>(results, d).
       (\<lparr>hp_schema_version = 1, hp_nfidb_version = CARGO_PKG_VERSION, hp_generated_unix_ms = now, hp_benchmark_kind = lit ''host-encoder'',
         hp_capabilities = capabilities, hp_results = results\<rparr>, d))
       (run_pairs lib capabilities (List.product cases modes) d)"

section \<open>The driver keeps its answers\<close>

lemma ask_answers [simp]: "dv_answers (snd (ask d)) = dv_answers d" "dv_answers (issue c d) = dv_answers d"
  "dv_answers (drop_surface s d) = dv_answers d" "dv_answers (clone_surface s d) = dv_answers d" "dv_answers (snd (new_arc d)) = dv_answers d"
  by (simp_all add: ask_def issue_def drop_surface_def drop_arc_def clone_surface_def clone_arc_def new_arc_def)

lemma fold_drop_answers [simp]: "dv_answers (fold drop_surface ss d) = dv_answers d"
  by (induction ss arbitrary: d) simp_all

lemma attempt_answers [simp]: "dv_answers (snd (attempt w d)) = dv_answers d"
  by (simp add: attempt_def split_beta)

lemma acquire_answers: "acquire dev c w h fmt bind p d = (r, p', d') \<Longrightarrow> dv_answers d' = dv_answers d"
proof -
  have rekeyed: "dv_answers (snd (rekey key c p d)) = dv_answers d" for key by (simp add: rekey_def Let_def split_beta)
  have create: "preserves dv_answers (create_surface dev c w h fmt)"
    unfolding create_surface_def by (intro preserves_intro) (simp add: preserves_def split_beta)
  assume "acquire dev c w h fmt bind p d = (r, p', d')"
  then show ?thesis
    using rekeyed [of "\<lparr>sk_device = dev, sk_width = w, sk_height = h, sk_format = fmt, sk_bind_flags = bind\<rparr>"]
    by (auto simp: acquire_def Let_def split: prod.splits option.splits if_splits result.splits dest: preservesD [OF create])
qed

lemma keeping_answers: "preserves dv_answers m \<Longrightarrow> keeping s m d = (r, d') \<Longrightarrow> dv_answers d' = dv_answers d"
  by (auto simp: keeping_def split: prod.splits result.splits dest: preservesD)

lemma processor_answers:
  assumes "processor_process input p d = (r, p', d')"
  shows "dv_answers d' = dv_answers d"
proof -
  have convert: "preserves dv_answers (convert_surface i s q)" for i s q
    unfolding convert_surface_def by (intro preserves_intro) (simp add: preserves_def split_beta)
  have acquired: "acquire_output input p d = (r2, p2, d2) \<Longrightarrow> dv_answers d2 = dv_answers d" for r2 p2 d2
    by (auto simp: acquire_output_def Let_def split: prod.splits result.splits if_splits dest!: acquire_answers)
  from assms show ?thesis
    by (auto simp: processor_process_def split: prod.splits result.splits option.splits dest!: acquired keeping_answers [OF convert])
qed

lemma process_bgra_answers: "process_bgra bgra b d = (r, b', d') \<Longrightarrow> dv_answers d' = dv_answers d"
  by (auto simp: process_bgra_def Let_def split: prod.splits if_splits dest!: processor_answers)

lemma pipeline_new_answers:
  assumes "benchmark_pipeline_new iw ih ow oh rate d = (r, d')"
  shows "dv_answers d' = dv_answers d"
proof -
  have processor: "preserves dv_answers (video_processor_new input ow oh rate)" for input
    unfolding video_processor_new_def by (intro preserves_intro)+
  have "preserves dv_answers (benchmark_pipeline_new iw ih ow oh rate)"
    unfolding benchmark_pipeline_new_def
    by (intro preserves_intro)
      (auto simp: preserves_def split: prod.splits result.splits option.splits dest!: acquire_answers keeping_answers [OF processor])
  with assms show ?thesis by (rule preservesD [rotated])
qed

lemma elapsed_answers [simp]: "dv_answers (snd (elapsed_ms t d)) = dv_answers d"
  by (simp add: elapsed_ms_def split_beta)

lemma process_sample_answers [simp]: "dv_answers (snd (process_sample d)) = dv_answers d"
  using attempt_answers [of id d]
  by (auto simp: process_sample_def split: prod.splits result.splits) (metis attempt_answers snd_conv)+

section \<open>A run returns\<close>

lemma answers_keep_pair [simp]: "answers_keep (Some (r, p)) d \<longleftrightarrow> dv_answers (snd p) = dv_answers d"
  by (cases p) (simp add: answers_keep_def)

lemma timed_encode_returns:
  assumes "clock_passes d"
  shows "answers_keep (timed_encode frame bn d) d"
proof -
  obtain a d1 where one: "ask d = (a, d1)" by fastforce
  have a1: "dv_answers d1 = dv_answers d" using ask_answers(1) [of d] one by simp
  from encoder_encode_returns [OF clock_passes_same [OF a1 assms], of frame "bn_encoder bn"]
  obtain r e d2 where two: "encoder_encode frame (bn_encoder bn) d1 = Some (r, e, d2)" "dv_answers d2 = dv_answers d"
    by (auto simp: answers_keep_def a1)
  with one elapsed_answers [of "fa_clock a" d2] show ?thesis
    by (cases r) (auto simp: timed_encode_def split_beta intro!: answers_keepI)
qed

lemma push_preprocess_answers [simp]: "dv_answers (snd (push_preprocess t bn d)) = dv_answers d"
  by (simp add: push_preprocess_def split_beta)

lemma encode_benchmark_frame_returns:
  assumes "clock_passes d"
  shows "answers_keep (encode_benchmark_frame lib c bgra started bn d) d"
proof (cases "bn_pipeline bn")
  case None
  show ?thesis
  proof (cases "resize_bgra (bl_pictures lib) bgra (hc_source_width c) (hc_source_height c) (hc_max_width c)")
    case (Ok picture)
    obtain bgra w h where picture: "picture = (bgra, w, h)" by (cases picture)
    obtain bn1 d1 where one: "push_preprocess started bn d = (bn1, d1)" by fastforce
    then have a1: "dv_answers d1 = dv_answers d" using push_preprocess_answers [of started bn d] by simp
    from timed_encode_returns [OF clock_passes_same [OF a1 assms], THEN answers_keep_same [OF a1]] None Ok picture one
    show ?thesis by (simp add: encode_benchmark_frame_def)
  qed (simp add: encode_benchmark_frame_def None answers_keepI)
next
  case (Some q)
  obtain r q1 d1 where one: "process_bgra bgra q d = (r, q1, d1)" by (metis prod_cases3)
  note a1 = process_bgra_answers [OF one]
  show ?thesis
  proof (cases r)
    case (Ok surface)
    obtain bn2 d2 where two: "push_preprocess started (bn\<lparr>bn_pipeline := Some q1\<rparr>) d1 = (bn2, d2)" by fastforce
    then have a2: "dv_answers d2 = dv_answers d" using push_preprocess_answers [of started "bn\<lparr>bn_pipeline := Some q1\<rparr>" d1] a1 by simp
    obtain w h where size: "benchmark_output c = (w, h)" by fastforce
    from timed_encode_returns [OF clock_passes_same [OF a2 assms], of "\<lparr>vf_width = w, vf_height = h, vf_data = D3D11Nv12 surface\<rparr>" bn2]
    obtain q2 bn3 d3 where "timed_encode \<lparr>vf_width = w, vf_height = h, vf_data = D3D11Nv12 surface\<rparr> bn2 d2 = Some (q2, bn3, d3)"
      "dv_answers d3 = dv_answers d"
      by (auto simp: answers_keep_def a2)
    with Some one two Ok size show ?thesis by (auto simp: encode_benchmark_frame_def intro!: answers_keepI)
  qed (use Some one a1 in \<open>auto simp: encode_benchmark_frame_def intro!: answers_keepI\<close>)
qed

lemma count_packet_answers [simp]: "dv_answers (snd (count_packet t p bn d)) = dv_answers d"
  by (simp add: count_packet_def split_beta split: option.split)

lemma sample_working_set_answers [simp]: "dv_answers (snd (sample_working_set bn d)) = dv_answers d"
proof -
  obtain s d1 where "process_sample d = (s, d1)" by fastforce
  then show ?thesis using process_sample_answers [of d] by (cases s) (simp_all add: sample_working_set_def)
qed

lemma benchmark_frame_returns:
  assumes "clock_passes d"
  shows "answers_keep (benchmark_frame lib c background started n bn d) d"
proof -
  obtain a d1 where one: "ask d = (a, d1)" by fastforce
  have a1: "dv_answers d1 = dv_answers d" using ask_answers(1) [of d] one by simp
  from encode_benchmark_frame_returns [OF clock_passes_same [OF a1 assms], of lib c "render_workload_frame (bl_sine lib) background c (word_of_nat n)" "fa_clock a" bn]
  obtain r bn2 d2 where two: "encode_benchmark_frame lib c (render_workload_frame (bl_sine lib) background c (word_of_nat n)) (fa_clock a) bn d1
      = Some (r, bn2, d2)" "dv_answers d2 = dv_answers d"
    by (auto simp: answers_keep_def a1)
  with one show ?thesis
    by (cases r) (auto simp: benchmark_frame_def split_beta split: option.split)
qed

lemma benchmark_frames_returns: "clock_passes d \<Longrightarrow> answers_keep (benchmark_frames lib c background started ns bn d) d"
proof (induction ns arbitrary: bn d)
  case (Cons n ns)
  from benchmark_frame_returns [OF Cons.prems, of lib c background started n bn] obtain r bn1 d1
    where one: "benchmark_frame lib c background started n bn d = Some (r, bn1, d1)" "dv_answers d1 = dv_answers d"
    by (auto simp: answers_keep_def)
  from Cons.IH [OF clock_passes_same [OF one(2) Cons.prems], THEN answers_keep_same [OF one(2)]] one show ?case
    by (cases r) auto
qed auto

definition result_keeps :: "('a \<times> driver) option \<Rightarrow> driver \<Rightarrow> bool" where
  "result_keeps x d \<longleftrightarrow> (\<exists>r d'. x = Some (r, d') \<and> dv_answers d' = dv_answers d)"

lemma result_keepsI [intro]: "dv_answers d' = dv_answers d \<Longrightarrow> result_keeps (Some (r, d')) d"
  by (simp add: result_keeps_def)

lemma drop_pipeline_answers [simp]: "dv_answers (drop_pipeline p d) = dv_answers d"
  by (simp add: drop_pipeline_def drop_processor_def split: option.split)

lemma cpu_percent_answers [simp]: "dv_answers (snd (cpu_percent_of s f e d)) = dv_answers d"
  by (simp add: cpu_percent_of_def split_beta split: option.split)

lemma measure_case_returns:
  assumes "clock_passes d"
  shows "result_keeps (measure_case lib c mode codec name enc q d) d"
proof -
  obtain s d1 a d2 where start: "process_sample d = (s, d1)" "ask d1 = (a, d2)" by (metis surj_pair)
  have a2: "dv_answers d2 = dv_answers d" using process_sample_answers [of d] ask_answers(1) [of d1] start by simp
  let ?bn = "\<lparr>bn_encoder = enc, bn_pipeline = q, bn_preprocess_ms = [], bn_encode_ms = [], bn_working_sets = [],
    bn_encoded_frames = 0, bn_keyframes = 0, bn_bytes_encoded = 0, bn_startup_ms = None\<rparr>"
  from benchmark_frames_returns [OF clock_passes_same [OF a2 assms],
      of lib c "render_background (hc_source_width c) (hc_source_height c)" "fa_clock a" "[0..<unat (hc_frames c)]" ?bn]
  obtain r bn d3 where "benchmark_frames lib c (render_background (hc_source_width c) (hc_source_height c)) (fa_clock a)
      [0..<unat (hc_frames c)] ?bn d2 = Some (r, bn, d3)" "dv_answers d3 = dv_answers d"
    by (auto simp: answers_keep_def a2)
  with start show ?thesis
    by (cases r) (auto simp: measure_case_def Let_def split_beta intro!: result_keepsI)
qed

lemma functional_case_returns:
  assumes "clock_passes d"
  shows "result_keeps (run_functional_case lib c mode codec name d) d"
proof -
  obtain w h where size: "benchmark_output c = (w, h)" by fastforce
  let ?cfg = "\<lparr>vc_codec = codec, vc_mode = mode, vc_width = w, vc_height = h, vc_max_fps = hc_requested_fps c, vc_bitrate_bps = hc_bitrate_bps c\<rparr>"
  obtain r d1 where one: "create_video_encoder ?cfg d = (r, d1)" by fastforce
  note a1 = create_encoder_answers [OF one]
  show ?thesis
  proof (cases r)
    case (Ok e)
    obtain k e2 d2 where two: "encoder_request_keyframe e d1 = (k, e2, d2)" by (metis prod_cases3)
    have a2: "dv_answers d2 = dv_answers d" using keyframe_answers [OF two] a1 by simp
    obtain g d3 where three: "benchmark_pipeline_new (hc_source_width c) (hc_source_height c) w h (hc_requested_fps c) d2 = (g, d3)" by fastforce
    have a3: "dv_answers d3 = dv_answers d" using pipeline_new_answers [OF three] a2 by simp
    from measure_case_returns [OF clock_passes_same [OF a3 assms]] measure_case_returns [OF clock_passes_same [OF a2 assms]]
      size one two three Ok a2 a3
    show ?thesis by (cases k; cases g) (auto simp: run_functional_case_def result_keeps_def)
  qed (use size one a1 in \<open>auto simp: run_functional_case_def intro!: result_keepsI\<close>)
qed

lemma host_benchmark_returns:
  assumes "clock_passes d"
  shows "result_keeps (run_host_benchmark lib c mode caps d) d"
proof (cases "List.find (\<lambda>candidate. capability_mode candidate = mode \<and> is_usable (ec_state candidate)) caps")
  case (Some candidate)
  from functional_case_returns [OF assms, of lib c mode "unwrap_or (mode_codec mode) H264" "ec_encoder_name candidate"]
  show ?thesis by (auto simp: run_host_benchmark_def result_keeps_def Some split: result.split)
qed (auto simp: run_host_benchmark_def Let_def intro!: result_keepsI)

lemma pairs_return: "clock_passes d \<Longrightarrow> result_keeps (run_pairs lib caps pairs d) d"
proof (induction pairs arbitrary: d)
  case (Cons pair pairs)
  obtain c mode where pair: "pair = (c, mode)" by fastforce
  from host_benchmark_returns [OF Cons.prems, of lib c mode caps] obtain r d1
    where one: "run_host_benchmark lib c mode caps d = Some (r, d1)" "dv_answers d1 = dv_answers d" by (auto simp: result_keeps_def)
  from Cons.IH [OF clock_passes_same [OF one(2) Cons.prems]] one pair show ?case by (auto simp: result_keeps_def)
qed auto

text \<open>The host benchmark always comes to an end: as long as the clock advances, the suite returns a report for any cases,
  modes and capabilities, whatever the encoders, the GPU pipeline and the process counters answer; an encoder that stays
  silent or fails only fails its own case.\<close>
theorem benchmark_suite_returns:
  assumes "clock_passes d"
  shows "\<exists>report d'. run_host_benchmark_suite lib capabilities cases modes now d = Some (report, d')"
  using pairs_return [OF assms, of lib capabilities "List.product cases modes"]
  by (auto simp: run_host_benchmark_suite_def result_keeps_def)

section \<open>What a report says\<close>

text \<open>After \<open>k\<close> frames.\<close>

definition tally :: "bench_state \<Rightarrow> nat \<Rightarrow> bool" where
  "tally bn k \<longleftrightarrow> length (bn_preprocess_ms bn) = k \<and> length (bn_encode_ms bn) = k \<and> length (bn_working_sets bn) \<le> k
     \<and> bn_keyframes bn \<le> bn_encoded_frames bn \<and> unat (bn_encoded_frames bn) \<le> k \<and> (bn_startup_ms bn = None \<longleftrightarrow> bn_encoded_frames bn = 0)"

definition same_counts :: "bench_state \<Rightarrow> bench_state \<Rightarrow> bool" where
  "same_counts bn bn' \<longleftrightarrow> bn_working_sets bn' = bn_working_sets bn \<and> bn_keyframes bn' = bn_keyframes bn
     \<and> bn_encoded_frames bn' = bn_encoded_frames bn \<and> bn_startup_ms bn' = bn_startup_ms bn"

lemma timed_encode_counts:
  "timed_encode frame bn d = Some (Ok q, bn', d') \<Longrightarrow> same_counts bn bn' \<and> bn_preprocess_ms bn' = bn_preprocess_ms bn
     \<and> length (bn_encode_ms bn') = Suc (length (bn_encode_ms bn))"
  by (auto simp: timed_encode_def same_counts_def split: prod.splits option.splits result.splits)

lemma encode_frame_counts:
  "encode_benchmark_frame lib c bgra started bn d = Some (Ok q, bn', d') \<Longrightarrow> same_counts bn bn'
     \<and> length (bn_preprocess_ms bn') = Suc (length (bn_preprocess_ms bn)) \<and> length (bn_encode_ms bn') = Suc (length (bn_encode_ms bn))"
  by (auto simp: encode_benchmark_frame_def push_preprocess_def same_counts_def Let_def
      split: prod.splits option.splits result.splits dest!: timed_encode_counts)

lemma tally_step:
  assumes "benchmark_frame lib c background started n bn d = Some (Ok u, bn', d')" "tally bn k" "Suc k < 2 ^ 32"
  shows "tally bn' (Suc k)"
proof -
  obtain a d1 where one: "ask d = (a, d1)" by fastforce
  with assms(1) obtain packet bn2 d2
    where two: "encode_benchmark_frame lib c (render_workload_frame (bl_sine lib) background c (word_of_nat n)) (fa_clock a) bn d1
        = Some (Ok packet, bn2, d2)"
    by (auto simp: benchmark_frame_def split: option.splits result.splits)
  note counts = encode_frame_counts [OF two, unfolded same_counts_def]
  define st where "st = (case packet of None \<Rightarrow> (bn2, d2) | Some p \<Rightarrow> count_packet started p bn2 d2)"
  have bn': "(bn', d') = sample_working_set (fst st) (snd st)"
    using assms(1) one two by (cases packet) (auto simp: benchmark_frame_def st_def split: prod.splits)
  have sampled: "bn_preprocess_ms bn' = bn_preprocess_ms (fst st) \<and> bn_encode_ms bn' = bn_encode_ms (fst st)
      \<and> bn_keyframes bn' = bn_keyframes (fst st) \<and> bn_encoded_frames bn' = bn_encoded_frames (fst st) \<and> bn_startup_ms bn' = bn_startup_ms (fst st)
      \<and> length (bn_working_sets bn') \<le> Suc (length (bn_working_sets (fst st)))"
    using bn' by (auto simp: sample_working_set_def split: prod.splits option.splits)
  show ?thesis
  proof (cases packet)
    case None
    with sampled counts assms(2) show ?thesis by (simp add: tally_def st_def)
  next
    case (Some p)
    let ?e = "bn_encoded_frames bn" and ?f = "bn_keyframes bn"
    have e: "unat (?e + 1) = unat ?e + 1" using assms(2,3) by (simp add: tally_def unat_plus_if_size word_size)
    moreover have "unat (?f + of_bool (ep_keyframe p)) \<le> unat ?f + 1" by (cases "ep_keyframe p") (simp_all add: unat_plus_if_size)
    moreover have "unat ?f \<le> unat ?e" using assms(2) by (simp add: tally_def word_le_nat_alt)
    ultimately have "?f + of_bool (ep_keyframe p) \<le> ?e + 1" "?e + 1 \<noteq> 0" "unat (?e + 1) \<le> Suc k"
      using assms(2) by (auto simp: word_le_nat_alt tally_def)
    with sampled counts assms(2) Some show ?thesis
      by (auto simp: tally_def st_def count_packet_def Let_def split_beta split: option.splits)
  qed
qed

lemma tally_frames:
  "benchmark_frames lib c background started ns bn d = Some (Ok u, bn', d') \<Longrightarrow> tally bn k \<Longrightarrow> k + length ns < 2 ^ 32 \<Longrightarrow> tally bn' (k + length ns)"
proof (induction ns arbitrary: bn d k)
  case (Cons n ns)
  from Cons.prems(1) obtain v bn1 d1 where one: "benchmark_frame lib c background started n bn d = Some (Ok v, bn1, d1)"
    and rest: "benchmark_frames lib c background started ns bn1 d1 = Some (Ok u, bn', d')"
    by (auto split: option.splits result.splits)
  from Cons.IH [OF rest tally_step [OF one Cons.prems(2)]] Cons.prems(3) show ?case by simp
qed simp

text \<open>What each result claims: a case that was run, one without a usable encoder, or one that failed.\<close>

definition completed_ok :: "host_benchmark_result \<Rightarrow> bool" where
  "completed_ok r \<longleftrightarrow> hr_state r = lit ''completed'' \<and> hr_reason r = None \<and> hr_input_frames r = hc_frames (hr_case r)
     \<and> hr_keyframes r \<le> hr_encoded_frames r \<and> hr_encoded_frames r \<le> hr_input_frames r
     \<and> (hr_startup_to_first_frame_ms r = None \<longleftrightarrow> hr_encoded_frames r = 0)
     \<and> (hr_average_bytes_per_frame r = None \<longleftrightarrow> hr_encoded_frames r = 0)
     \<and> (hr_encode_mean_ms r = None \<longleftrightarrow> hr_input_frames r = 0) \<and> (hr_preprocess_mean_ms r = None \<longleftrightarrow> hr_input_frames r = 0)
     \<and> hr_output_width r = fst (benchmark_output (hr_case r)) \<and> hr_output_height r = snd (benchmark_output (hr_case r))
     \<and> hr_backend r \<in> {backend_label MediaFoundationHardware, backend_label OpenH264Software}
     \<and> (\<exists>s. hr_auto_score r = Some s \<and> as_mode s = hr_mode r)"

definition result_honest :: "encoder_capability list \<Rightarrow> host_benchmark_result \<Rightarrow> bool" where
  "result_honest caps r \<longleftrightarrow>
     (if \<exists>c \<in> set caps. capability_mode c = hr_mode r \<and> is_usable (ec_state c)
      then completed_ok r \<or> (\<exists>e. r = empty_result (hr_case r) (hr_mode r) (unwrap_or (mode_codec (hr_mode r)) H264) (lit ''failed'') (Some e))
      else \<exists>e. r = empty_result (hr_case r) (hr_mode r) (unwrap_or (mode_codec (hr_mode r)) H264) (lit ''skipped'') (Some e))"

lemma f64_mean_None: "f64_mean xs = None \<longleftrightarrow> xs = []"
  by (simp add: f64_mean_def)

lemma completed_result_ok:
  assumes "tally bn (unat (hc_frames c))"
  shows "completed_ok (completed_result c mode codec name memory bn elapsed cpu)"
    and "hr_case (completed_result c mode codec name memory bn elapsed cpu) = c" "hr_mode (completed_result c mode codec name memory bn elapsed cpu) = mode"
proof -
  let ?r = "completed_result c mode codec name memory bn elapsed cpu"
  show "hr_case ?r = c" "hr_mode ?r = mode" by (simp_all add: completed_result_def Let_def split_beta)
  have "bn_encoded_frames bn \<le> hc_frames c" using assms by (simp add: tally_def word_le_nat_alt)
  moreover have "bn_encode_ms bn = [] \<longleftrightarrow> hc_frames c = 0" "bn_preprocess_ms bn = [] \<longleftrightarrow> hc_frames c = 0"
    using assms by (auto simp: tally_def unat_eq_0 simp flip: length_0_conv)
  moreover have "as_mode (score_auto_candidate mode m) = mode" for m by (simp add: score_auto_candidate_def Let_def)
  moreover have "0 < bn_encoded_frames bn \<longleftrightarrow> bn_encoded_frames bn \<noteq> 0" by (simp add: word_neq_0_conv)
  moreover have "backend_label (encoder_backend_of (bn_encoder bn)) \<in> {backend_label MediaFoundationHardware, backend_label OpenH264Software}"
    by (cases "bn_encoder bn") simp_all
  ultimately show "completed_ok ?r"
    using assms by (auto simp: completed_ok_def completed_result_def Let_def split_beta f64_mean_None tally_def)
qed

lemma functional_case_ok:
  assumes "run_functional_case lib c mode codec name d = Some (Ok r, d')"
  shows "completed_ok r" "hr_case r = c" "hr_mode r = mode"
proof -
  have measured: "completed_ok r \<and> hr_case r = c \<and> hr_mode r = mode" if "measure_case lib c mode codec name e q d1 = Some (Ok r, d')" for e q d1
  proof -
    have bound: "unat (hc_frames c) < 2 ^ 32" by (rule unat_bound)
    have zero: "tally \<lparr>bn_encoder = e, bn_pipeline = q, bn_preprocess_ms = [], bn_encode_ms = [], bn_working_sets = [],
        bn_encoded_frames = 0, bn_keyframes = 0, bn_bytes_encoded = 0, bn_startup_ms = None\<rparr> 0" by (simp add: tally_def)
    from that obtain bn memory elapsed cpu where t: "tally bn (unat (hc_frames c))"
      and r: "r = completed_result c mode codec name memory (bn\<lparr>bn_encoder := encoder_shutdown (bn_encoder bn)\<rparr>) elapsed cpu"
      using bound by (auto simp: measure_case_def Let_def split_beta split: option.splits result.splits prod.splits dest!: tally_frames [OF _ zero])
    from t have "tally (bn\<lparr>bn_encoder := encoder_shutdown (bn_encoder bn)\<rparr>) (unat (hc_frames c))" by (simp add: tally_def)
    then show ?thesis unfolding r by (simp only: completed_result_ok simp_thms)
  qed
  then show "completed_ok r" "hr_case r = c" "hr_mode r = mode"
    using assms by (auto simp: run_functional_case_def split: prod.splits result.splits if_splits)
qed

lemma find_usable: "List.find P xs = None \<longleftrightarrow> \<not> (\<exists>x \<in> set xs. P x)"
  by (auto simp: find_None_iff)

lemma host_benchmark_honest:
  assumes "run_host_benchmark lib c mode caps d = Some (r, d')"
  shows "hr_case r = c \<and> hr_mode r = mode \<and> result_honest caps r"
proof (cases "List.find (\<lambda>candidate. capability_mode candidate = mode \<and> is_usable (ec_state candidate)) caps")
  case None
  with assms show ?thesis by (auto simp: run_host_benchmark_def result_honest_def find_usable Let_def empty_result_def)
next
  case (Some candidate)
  then have usable: "\<exists>c \<in> set caps. capability_mode c = mode \<and> is_usable (ec_state c)"
    by (auto simp: find_Some_iff intro: nth_mem)
  let ?codec = "unwrap_or (mode_codec mode) H264"
  from assms Some obtain q d1 where q: "run_functional_case lib c mode ?codec (ec_encoder_name candidate) d = Some (q, d1)"
    by (auto simp: run_host_benchmark_def Let_def split: option.splits)
  show ?thesis
  proof (cases q)
    case (Ok r')
    with q assms Some have "r' = r" by (simp add: run_host_benchmark_def Let_def)
    with functional_case_ok [OF q [unfolded Ok]] usable show ?thesis by (simp add: result_honest_def)
  next
    case (Err e)
    with q assms Some have r: "r = empty_result c mode ?codec (lit ''failed'') (Some e)" by (simp add: run_host_benchmark_def Let_def)
    then have "hr_case r = c" "hr_mode r = mode" by (simp_all add: empty_result_def)
    with r usable show ?thesis by (auto simp: result_honest_def)
  qed
qed

lemma pairs_honest:
  "run_pairs lib caps pairs d = Some (rs, d') \<Longrightarrow> map (\<lambda>r. (hr_case r, hr_mode r)) rs = pairs \<and> (\<forall>r \<in> set rs. result_honest caps r)"
proof (induction pairs arbitrary: d rs)
  case (Cons pair pairs)
  obtain c mode where pair: "pair = (c, mode)" by fastforce
  with Cons.prems obtain r d1 rest where "run_host_benchmark lib c mode caps d = Some (r, d1)"
    "run_pairs lib caps pairs d1 = Some (rest, d')" "rs = r # rest"
    by (auto split: option.splits)
  with Cons.IH [of d1 rest] host_benchmark_honest pair show ?case by auto
qed simp

text \<open>C28: a benchmark report is complete and honest: it holds one result for every pair of a case and a mode, in order; a
  mode without a usable encoder on this machine is skipped with a reason and measures nothing; a mode with one is either
  failed with its error, or completed with all frames counted, no more frames encoded than drawn, no more key frames than
  encoded frames, a start-up time and a size per frame exactly when a frame came out, and a score for its mode.\<close>
theorem benchmark_report_is_honest:
  assumes "run_host_benchmark_suite lib capabilities cases modes now d = Some (report, d')"
  shows "map (\<lambda>r. (hr_case r, hr_mode r)) (hp_results report) = List.product cases modes
    \<and> (\<forall>r \<in> set (hp_results report). result_honest capabilities r)"
  using assms pairs_honest [of lib capabilities "List.product cases modes" d] by (auto simp: run_host_benchmark_suite_def)

section \<open>A concrete suite\<close>

definition plain_library :: benchmark_library where
  "plain_library = \<lparr>bl_sine = (\<lambda>x. x), bl_pictures = \<lparr>pl_resize = (\<lambda>_ _ bgra _ _. Ok bgra),
     pl_to_yuv = (\<lambda>bgra w h. small_picture)\<rparr>\<rparr>"

lemma concrete_suite:
  "\<exists>report d'. run_host_benchmark_suite plain_library [software_h264] (quick_benchmark_cases 2) [H264Software, HevcHardware] 0 ticking_driver
     = Some (report, d')"
  using pairs_return [OF ticking_clock, of plain_library "[software_h264]" "List.product (quick_benchmark_cases 2) [H264Software, HevcHardware]"]
  by (auto simp: run_host_benchmark_suite_def result_keeps_def)

theorem benchmark_suite_returns_witness:
  "\<exists>report d'. run_host_benchmark_suite plain_library [software_h264] (full_benchmark_cases 3) [H264Software, Av1Hardware] 0 ticking_driver
     = Some (report, d')"
  by (rule benchmark_suite_returns [OF ticking_clock])

theorem benchmark_report_is_honest_witness:
  "\<exists>report d'. run_host_benchmark_suite plain_library [software_h264] (quick_benchmark_cases 2) [H264Software, HevcHardware] 0 ticking_driver
       = Some (report, d') \<and> map hr_mode (hp_results report) = [H264Software, HevcHardware]
     \<and> (\<forall>r \<in> set (hp_results report). result_honest [software_h264] r)"
proof -
  obtain report d' where run: "run_host_benchmark_suite plain_library [software_h264] (quick_benchmark_cases 2) [H264Software, HevcHardware] 0 ticking_driver
    = Some (report, d')"
    using concrete_suite by blast
  note honest = benchmark_report_is_honest [OF run]
  then have "map snd (map (\<lambda>r. (hr_case r, hr_mode r)) (hp_results report)) = [H264Software, HevcHardware]"
    by (simp add: quick_benchmark_cases_def)
  then have "map hr_mode (hp_results report) = [H264Software, HevcHardware]" by (simp only: map_map comp_def snd_conv)
  with run conjunct2 [OF honest] show ?thesis by (intro exI conjI)
qed

end
