(* ===== verification/Benchmark_Reports.thy ===== *)
theory Benchmark_Reports
  imports Benchmark_Runs "HOL-Library.Sublist"
begin

text \<open>
  The exports of a benchmark (\<open>crates/host-windows/src/benchmark.rs\<close>): the table of comma-separated values, the
  Markdown summary and the five files of an export directory.  The JSON encoders are parameters; the file system answers
  every write.
\<close>

section \<open>Text\<close>

text \<open>\<open>join\<close>, and \<open>replace\<close> of one character.\<close>

fun join_with :: "nat \<Rightarrow> ustring list \<Rightarrow> ustring" where
  "join_with sep [] = []"
| "join_with sep [s] = s"
| "join_with sep (s # ss) = s @ sep # join_with sep ss"

definition replace_char :: "nat \<Rightarrow> nat \<Rightarrow> ustring \<Rightarrow> ustring" where
  "replace_char a b = map (\<lambda>c. if c = a then b else c)"

definition comma :: nat where "comma = 44"
definition newline :: nat where "newline = 10"

text \<open>The names \<open>Debug\<close> prints for modes and codecs.\<close>

primrec mode_debug :: "encoder_mode \<Rightarrow> ustring" where
  "mode_debug Auto = lit ''Auto''"
| "mode_debug H264Hardware = lit ''H264Hardware''"
| "mode_debug HevcHardware = lit ''HevcHardware''"
| "mode_debug Av1Hardware = lit ''Av1Hardware''"
| "mode_debug H264Software = lit ''H264Software''"

primrec codec_debug :: "video_codec \<Rightarrow> ustring" where
  "codec_debug H264 = lit ''H264''"
| "codec_debug Hevc = lit ''Hevc''"
| "codec_debug Av1 = lit ''Av1''"

section \<open>The table\<close>

definition csv_columns :: "ustring list" where
  "csv_columns = map lit [''case'', ''workload'', ''mode'', ''codec'', ''backend'', ''memory_path'', ''state'', ''source'', ''output'',
     ''requested_fps'', ''actual_fps'', ''encode_mean_ms'', ''encode_p95_ms'', ''preprocess_mean_ms'', ''preprocess_p95_ms'',
     ''cpu_percent'', ''working_set_mean_mib'', ''working_set_peak_mib'', ''actual_mbps'', ''auto_score'', ''reason'']"

definition csv_number :: "f64 option \<Rightarrow> ustring" where
  "csv_number v = (case v of None \<Rightarrow> [] | Some x \<Rightarrow> show_fixed 4 x)"

definition show_size :: "u32 \<Rightarrow> u32 \<Rightarrow> ustring" where
  "show_size w h = show_nat (unat w) @ lit ''x'' @ show_nat (unat h)"

definition result_score :: "host_benchmark_result \<Rightarrow> f64 option" where
  "result_score r = (case hr_auto_score r of None \<Rightarrow> None | Some s \<Rightarrow> as_score s)"

definition csv_row :: "host_benchmark_result \<Rightarrow> ustring list" where
  "csv_row r =
     [hc_name (hr_case r), workload_label (hc_workload (hr_case r)), mode_debug (hr_mode r), codec_debug (hr_codec r), hr_backend r,
      memory_mode_label (hr_pipeline_memory_mode r), hr_state r,
      show_size (hc_source_width (hr_case r)) (hc_source_height (hr_case r)), show_size (hr_output_width r) (hr_output_height r),
      show_nat (unat (hc_requested_fps (hr_case r))), csv_number (hr_actual_fps r), csv_number (hr_encode_mean_ms r),
      csv_number (hr_encode_p95_ms r), csv_number (hr_preprocess_mean_ms r), csv_number (hr_preprocess_p95_ms r),
      csv_number (hr_process_cpu_percent r), csv_number (hr_working_set_mean_mib r), csv_number (hr_working_set_peak_mib r),
      csv_number (hr_actual_mbps r), csv_number (result_score r), replace_char comma 59 (unwrap_or (hr_reason r) [])]"

definition report_csv :: "host_benchmark_report \<Rightarrow> ustring" where
  "report_csv report =
     join_with comma csv_columns @ [newline] @ concat (map (\<lambda>r. join_with comma (csv_row r) @ [newline]) (hp_results report))"

section \<open>The summary\<close>

definition markdown_head :: ustring where
  "markdown_head =
     lit ''# NFiDB codec benchmark'' @ [newline, newline]
     @ lit ''Host-only deterministic benchmark. Hardware rows upload the deterministic pattern, then use the same D3D11 GPU preprocessing and Media Foundation surface path as live capture. Missing end-to-end values are unavailable, not zero.'' @ [newline, newline]
     @ lit ''| Case | Workload | Encoder | Memory path | State | FPS | Encode p95 | CPU | RAM peak | Mbps | Auto score |'' @ [newline]
     @ lit ''| --- | --- | --- | --- | --- | ---: | ---: | ---: | ---: | ---: | ---: |'' @ [newline]"

definition markdown_number :: "ustring \<Rightarrow> f64 option \<Rightarrow> ustring" where
  "markdown_number unit_name v = (case v of None \<Rightarrow> [0x2014] | Some x \<Rightarrow> show_fixed 2 x @ unit_name)"

definition markdown_cells :: "host_benchmark_result \<Rightarrow> ustring list" where
  "markdown_cells r =
     [hc_name (hr_case r), workload_label (hc_workload (hr_case r)), mode_label (hr_mode r), memory_mode_label (hr_pipeline_memory_mode r),
      hr_state r, markdown_number [] (hr_actual_fps r), markdown_number (lit '' ms'') (hr_encode_p95_ms r),
      markdown_number (lit ''%'') (hr_process_cpu_percent r), markdown_number (lit '' MiB'') (hr_working_set_peak_mib r),
      markdown_number [] (hr_actual_mbps r), markdown_number [] (result_score r)]"

definition markdown_row :: "host_benchmark_result \<Rightarrow> ustring" where
  "markdown_row r = lit ''|'' @ concat (map (\<lambda>cell. lit '' '' @ cell @ lit '' |'') (markdown_cells r)) @ [newline]"

definition report_markdown :: "host_benchmark_report \<Rightarrow> ustring" where
  "report_markdown report = markdown_head @ concat (map markdown_row (hp_results report))"

section \<open>The files\<close>

record export_json =
  xj_environment :: "host_benchmark_report \<Rightarrow> nat \<Rightarrow> (u8 list, ustring) result"
  xj_capabilities :: "encoder_capability list \<Rightarrow> (u8 list, ustring) result"
  xj_report :: "host_benchmark_report \<Rightarrow> (u8 list, ustring) result"

type_synonym exported_files = "(ustring \<times> u8 list) list"

definition write_one_export :: "ustring \<Rightarrow> (u8 list, ustring) result \<Rightarrow> exported_files \<Rightarrow> driver \<Rightarrow> (unit, ustring) result \<times> exported_files \<times> driver" where
  "write_one_export name bytes files d =
     (case bytes of
        Err e \<Rightarrow> (Err e, files, d)
      | Ok bytes \<Rightarrow> (case attempt id d of (Err e, d) \<Rightarrow> (Err e, files, d) | (Ok _, d) \<Rightarrow> (Ok (), files @ [(name, bytes)], d)))"

fun write_exports :: "(ustring \<times> (u8 list, ustring) result) list \<Rightarrow> exported_files \<Rightarrow> driver \<Rightarrow> (unit, ustring) result \<times> exported_files \<times> driver" where
  "write_exports [] files d = (Ok (), files, d)"
| "write_exports ((name, bytes) # others) files d =
     (case write_one_export name bytes files d of
        (Err e, files, d) \<Rightarrow> (Err e, files, d)
      | (Ok _, files, d) \<Rightarrow> write_exports others files d)"

definition export_contents :: "export_json \<Rightarrow> host_benchmark_report \<Rightarrow> nat \<Rightarrow> (ustring \<times> (u8 list, ustring) result) list" where
  "export_contents json report processors =
     [(lit ''environment.json'', xj_environment json report processors),
      (lit ''capabilities.json'', xj_capabilities json (hp_capabilities report)),
      (lit ''results.json'', xj_report json report),
      (lit ''results.csv'', Ok (utf8_encode (report_csv report))),
      (lit ''summary.md'', Ok (utf8_encode (report_markdown report)))]"

definition write_benchmark_exports :: "export_json \<Rightarrow> host_benchmark_report \<Rightarrow> driver \<Rightarrow> (unit, ustring) result \<times> exported_files \<times> driver" where
  "write_benchmark_exports json report d =
     (case attempt id d of
        (Err e, d) \<Rightarrow> (Err e, [], d)
      | (Ok _, d) \<Rightarrow>
          (let (r, d) = attempt id d; processors = (case r of Ok a \<Rightarrow> unat (fa_number a) | Err _ \<Rightarrow> 1)
           in write_exports (export_contents json report processors) [] d))"

section \<open>The table can be read back\<close>

definition plain :: "ustring \<Rightarrow> bool" where
  "plain s \<longleftrightarrow> comma \<notin> set s \<and> newline \<notin> set s"

lemma plain_append [simp]: "plain (s @ t) \<longleftrightarrow> plain s \<and> plain t" "plain []" "plain (c # s) \<longleftrightarrow> c \<noteq> comma \<and> c \<noteq> newline \<and> plain s"
  by (auto simp: plain_def)

lemma split_on_plain: "sep \<notin> set s \<Longrightarrow> split_on sep s = [s]"
  by (induction s) auto

lemma split_on_append: "sep \<notin> set s \<Longrightarrow> split_on sep (s @ sep # t) = s # split_on sep t"
  by (induction s) auto

lemma split_join: "ss \<noteq> [] \<Longrightarrow> \<forall>s \<in> set ss. sep \<notin> set s \<Longrightarrow> split_on sep (join_with sep ss) = ss"
  by (induction sep ss rule: join_with.induct) (auto simp: split_on_plain split_on_append)

lemma split_lines: "\<forall>s \<in> set ss. sep \<notin> set s \<Longrightarrow> split_on sep (concat (map (\<lambda>s. s @ [sep]) ss)) = ss @ [[]]"
  by (induction ss) (auto simp: split_on_append)

lemma set_join: "set (join_with sep ss) \<subseteq> insert sep (\<Union>s \<in> set ss. set s)"
  by (induction sep ss rule: join_with.induct) auto

lemma plain_show_nat [simp]: "plain (show_nat n)"
  using show_nat_digits [of n] by (auto simp: plain_def comma_def newline_def list_all_iff is_digit_def)

lemma plain_lit [simp]: "plain (lit s) \<longleftrightarrow> CHR '','' \<notin> set s \<and> CHR 0x0A \<notin> set s"
proof -
  have "comma = of_char (CHR '','')" "newline = of_char (CHR 0x0A)" by (simp_all add: comma_def newline_def)
  moreover have "(of_char c :: nat) \<in> set (lit s) \<longleftrightarrow> c \<in> set s" for c by (auto simp: lit_def)
  ultimately show ?thesis by (metis plain_def)
qed

lemma plain_fixed [simp]: "plain (show_fixed n x)"
proof -
  have "plain (pad_start k 48 (show_nat j))" for k j by (simp add: plain_def pad_start_def comma_def newline_def) (metis plain_show_nat plain_def comma_def newline_def)
  then show ?thesis
    by (auto simp: show_fixed_def decimal_digits_def split: fp.split) (simp_all add: comma_def newline_def)
qed

lemma plain_labels [simp]: "plain (workload_label w)" "plain (mode_debug m)" "plain (codec_debug c)" "plain (memory_mode_label k)"
  "plain (backend_label b)"
proof -
  show "plain (workload_label w)" by (cases w) simp_all
  show "plain (mode_debug m)" by (cases m) simp_all
  show "plain (codec_debug c)" by (cases c) simp_all
  show "plain (memory_mode_label k)" by (cases k) simp_all
  show "plain (backend_label b)" by (cases b) simp_all
qed

lemma plain_numbers [simp]: "plain (show_size x y)" "plain (csv_number v)"
  by (simp_all add: show_size_def csv_number_def split: option.split)

definition table_safe :: "host_benchmark_result \<Rightarrow> bool" where
  "table_safe r \<longleftrightarrow> plain (hc_name (hr_case r)) \<and> plain (hr_backend r) \<and> plain (hr_state r) \<and> newline \<notin> set (unwrap_or (hr_reason r) [])"

lemma plain_row: "table_safe r \<Longrightarrow> \<forall>s \<in> set (csv_row r). plain s"
proof -
  have "plain (replace_char comma 59 s) \<longleftrightarrow> newline \<notin> set s" for s by (auto simp: plain_def replace_char_def comma_def newline_def)
  then show "table_safe r \<Longrightarrow> ?thesis" by (simp add: csv_row_def table_safe_def)
qed

lemma plain_columns: "\<forall>s \<in> set csv_columns. plain s"
  by (simp add: csv_columns_def)

lemma join_no_newline: "\<forall>s \<in> set ss. plain s \<Longrightarrow> newline \<notin> set (join_with comma ss)"
  using set_join [of comma ss] by (auto simp: plain_def comma_def newline_def)

lemma honest_is_table_safe:
  "result_honest caps r \<Longrightarrow> plain (hc_name (hr_case r)) \<Longrightarrow> newline \<notin> set (unwrap_or (hr_reason r) []) \<Longrightarrow> table_safe r"
proof -
  assume honest: "result_honest caps r" and safe: "plain (hc_name (hr_case r))" "newline \<notin> set (unwrap_or (hr_reason r) [])"
  have empty: "plain (hr_backend (empty_result c mode codec s reason))" "hr_state (empty_result c mode codec s reason) = s" for c mode codec s reason
    by (simp_all add: empty_result_def)
  from honest consider "completed_ok r"
    | c mode codec e where "r = empty_result c mode codec (lit ''failed'') (Some e)"
    | c mode codec e where "r = empty_result c mode codec (lit ''skipped'') (Some e)"
    unfolding result_honest_def by metis
  then have "plain (hr_backend r) \<and> plain (hr_state r)"
  proof cases
    case 1
    then have "hr_backend r = backend_label MediaFoundationHardware \<or> hr_backend r = backend_label OpenH264Software" "hr_state r = lit ''completed''"
      by (simp_all add: completed_ok_def)
    then show ?thesis by auto
  qed (simp_all only: empty plain_lit, simp_all)
  with safe show "table_safe r" by (simp add: table_safe_def)
qed

text \<open>The table of a benchmark can be read back: as long as the names of the cases have no commas or line breaks and the
  errors of the encoders have no line breaks (commas in them are replaced), splitting the text at line breaks and the lines
  at commas gives the twenty-one column names and one row of twenty-one fields per result.\<close>
theorem benchmark_table_reads_back:
  assumes "run_host_benchmark_suite lib capabilities cases modes now d = Some (report, d')"
    and "\<forall>c \<in> set cases. plain (hc_name c)" "\<forall>r \<in> set (hp_results report). newline \<notin> set (unwrap_or (hr_reason r) [])"
  shows "map (split_on comma) (butlast (split_on newline (report_csv report))) = csv_columns # map csv_row (hp_results report)
    \<and> (\<forall>r \<in> set (hp_results report). length (csv_row r) = length csv_columns)"
proof -
  let ?lines = "map (join_with comma) (csv_columns # map csv_row (hp_results report))"
  from pairs_honest [of lib capabilities "List.product cases modes" d] assms(1)
  have results: "map (\<lambda>r. (hr_case r, hr_mode r)) (hp_results report) = List.product cases modes" "\<forall>r \<in> set (hp_results report). result_honest capabilities r"
    by (auto simp: run_host_benchmark_suite_def)
  have "hr_case r \<in> set cases" if "r \<in> set (hp_results report)" for r
    using arg_cong [OF results(1), of set] that by auto
  with assms(2,3) results(2) have safe: "\<forall>r \<in> set (hp_results report). table_safe r" by (auto intro: honest_is_table_safe)
  have rows: "\<forall>ss \<in> set (csv_columns # map csv_row (hp_results report)). ss \<noteq> [] \<and> (\<forall>s \<in> set ss. plain s)"
    using safe plain_row plain_columns by (auto simp: csv_row_def [of r for r] csv_columns_def)
  have csv: "report_csv report = concat (map (\<lambda>s. s @ [newline]) ?lines)" by (simp add: report_csv_def comp_def)
  have "\<forall>s \<in> set ?lines. newline \<notin> set s" using rows join_no_newline by auto
  then have "butlast (split_on newline (report_csv report)) = ?lines" unfolding csv by (simp only: split_lines butlast_snoc)
  moreover have "split_on comma (join_with comma ss) = ss" if "ss \<in> set (csv_columns # map csv_row (hp_results report))" for ss
    using rows that by (intro split_join) (auto simp: plain_def)
  ultimately have "map (split_on comma) (butlast (split_on newline (report_csv report))) = csv_columns # map csv_row (hp_results report)"
    by (simp only: map_map comp_def map_idI)
  then show ?thesis by (simp add: csv_row_def csv_columns_def)
qed

text \<open>The files of an export: all five in order, or a proper prefix and the first error.\<close>

lemma write_exports_prefix:
  "write_exports todo files d = (r, files', d') \<Longrightarrow>
     \<exists>written. files' = files @ written \<and> prefix (map fst written) (map fst todo) \<and> (is_ok r \<longleftrightarrow> length written = length todo)"
proof (induction todo arbitrary: files d)
  case (Cons one todo)
  obtain name bytes where one: "one = (name, bytes)" by fastforce
  obtain q files1 d1 where w: "write_one_export name bytes files d = (q, files1, d1)" by (metis prod_cases3)
  show ?case
  proof (cases q)
    case (Ok u)
    with w obtain content where files1: "files1 = files @ [(name, content)]" by (auto simp: write_one_export_def split: result.splits prod.splits)
    from Cons.prems one w Ok have "write_exports todo files1 d1 = (r, files', d')" by simp
    from Cons.IH [OF this] obtain written where "files' = files1 @ written" "prefix (map fst written) (map fst todo)"
      "is_ok r \<longleftrightarrow> length written = length todo" by blast
    with files1 one show ?thesis by (intro exI [of _ "(name, content) # written"]) simp
  next
    case (Err e)
    with w have "files1 = files" by (auto simp: write_one_export_def split: result.splits prod.splits)
    with Cons.prems one w Err show ?thesis by (intro exI [of _ "[]"]) auto
  qed
qed auto

lemma exports_in_order:
  assumes "write_benchmark_exports json report d = (r, files, d')"
  shows "prefix (map fst files) (map lit [''environment.json'', ''capabilities.json'', ''results.json'', ''results.csv'', ''summary.md''])
    \<and> (is_ok r \<longleftrightarrow> length files = 5)"
proof -
  have "map fst (export_contents json report k) = map lit [''environment.json'', ''capabilities.json'', ''results.json'', ''results.csv'', ''summary.md'']" for k
    by (simp add: export_contents_def)
  moreover have "length (export_contents json report k) = 5" for k by (simp add: export_contents_def)
  ultimately show ?thesis
    using assms by (auto simp: write_benchmark_exports_def Let_def split: prod.splits result.splits dest!: write_exports_prefix)
qed

section \<open>A concrete table\<close>

theorem benchmark_table_reads_back_witness:
  "\<exists>report d'. run_host_benchmark_suite plain_library [software_h264] (full_benchmark_cases 3) [HevcHardware] 0 quiet_driver = Some (report, d')
    \<and> map (split_on comma) (butlast (split_on newline (report_csv report))) = csv_columns # map csv_row (hp_results report)"
proof -
  let ?e = "mode_label HevcHardware @ lit '' is unavailable on this PC''"
  have one: "run_host_benchmark plain_library c HevcHardware [software_h264] d = Some (empty_result c HevcHardware Hevc (lit ''skipped'') (Some ?e), d)" for c d
    by (simp add: run_host_benchmark_def software_h264_def capability_mode_def unwrap_or_def)
  have all: "run_pairs plain_library [software_h264] (List.product cs [HevcHardware]) d
      = Some (map (\<lambda>c. empty_result c HevcHardware Hevc (lit ''skipped'') (Some ?e)) cs, d)" for cs d
    by (induction cs) (simp_all add: one del: mode_label.simps)
  then obtain report where run: "run_host_benchmark_suite plain_library [software_h264] (full_benchmark_cases 3) [HevcHardware] 0 quiet_driver = Some (report, quiet_driver)"
    "hp_results report = map (\<lambda>c. empty_result c HevcHardware Hevc (lit ''skipped'') (Some ?e)) (full_benchmark_cases 3)"
    by (simp add: run_host_benchmark_suite_def)
  have names: "\<forall>c \<in> set (full_benchmark_cases 3). plain (hc_name c)"
    by (auto simp: full_benchmark_cases_def benchmark_geometries_def all_workloads_def comma_def newline_def)
  have reasons: "newline \<notin> set (unwrap_or (hr_reason r) [])" if "r \<in> set (hp_results report)" for r
  proof -
    have "newline \<notin> set ?e" using plain_lit by (simp add: newline_def lit_def)
    moreover have "hr_reason r = Some ?e" using that run(2) by (auto simp: empty_result_def)
    ultimately show ?thesis by (simp add: unwrap_or_def)
  qed
  have "map (split_on comma) (butlast (split_on newline (report_csv report))) = csv_columns # map csv_row (hp_results report)"
    by (rule benchmark_table_reads_back [OF run(1) names ballI [OF reasons], THEN conjunct1])
  with run(1) show ?thesis by (intro exI conjI)
qed

end
