(* ===== verification/Monitors.thy ===== *)
theory Monitors
  imports Benchmark_Runs Geometry
begin

text \<open>
  The monitors of the desktop (\<open>crates/host-windows/src/monitors.rs\<close>) and the thread that watches the resources of the
  process (\<open>resource_monitor.rs\<close>).  What Windows knows of a monitor and of the process are answers of the driver.
\<close>

section \<open>Monitors\<close>

record monitor_descriptor =
  md_index :: nat
  md_name :: ustring
  md_device_name :: ustring
  md_width :: u32
  md_height :: u32
  md_refresh_rate :: u32
  md_geometry :: target_geometry
  md_primary :: bool

definition read_i32 :: "driver_answer \<Rightarrow> nat \<Rightarrow> i32" where
  "read_i32 a offset = from_le (map (fa_memory a) [offset..<offset + 4])"

definition i32_sat_sub :: "i32 \<Rightarrow> i32 \<Rightarrow> i32" where
  "i32_sat_sub a b = i32_sat (sint a - sint b)"

text \<open>The rectangle of the monitor, as \<open>MONITORINFO\<close> lays it out: left, top, right, bottom.\<close>

definition monitor_geometry :: "target_geometry io" where
  "monitor_geometry =
     io_then (attempt (prefixed ''GetMonitorInfoW failed: '')) (\<lambda>a.
     io_ok \<lparr>tg_left = read_i32 a 0, tg_top = read_i32 a 4, tg_width = i32_sat_sub (read_i32 a 8) (read_i32 a 0),
        tg_height = i32_sat_sub (read_i32 a 12) (read_i32 a 4)\<rparr>)"

text \<open>\<open>unwrap_or_else\<close> on an answer: the fallback when the call fails.\<close>

definition answer_or :: "'a \<Rightarrow> (driver_answer \<Rightarrow> 'a) \<Rightarrow> 'a io" where
  "answer_or fallback read d = (case attempt id d of (Ok a, d) \<Rightarrow> (Ok (read a), d) | (Err _, d) \<Rightarrow> (Ok fallback, d))"

definition describe_monitor :: "nat \<Rightarrow> nat \<Rightarrow> monitor_descriptor io" where
  "describe_monitor primary_monitor handle =
     io_then (attempt id) (\<lambda>index.
     io_then monitor_geometry (\<lambda>geometry.
     io_then (answer_or (lit ''Display '' @ show_nat (fa_handle index)) (\<lambda>a. utf16_lossy (fa_units a))) (\<lambda>name.
     io_then (answer_or [] (\<lambda>a. utf16_lossy (fa_units a))) (\<lambda>device_name.
     io_then (attempt id) (\<lambda>w.
     io_then (attempt id) (\<lambda>h.
     io_then (answer_or 60 fa_size) (\<lambda>rate.
     io_ok \<lparr>md_index = fa_handle index, md_name = name, md_device_name = device_name, md_width = fa_size w, md_height = fa_size h,
        md_refresh_rate = rate, md_geometry = geometry, md_primary = (handle = primary_monitor)\<rparr>)))))))"

fun describe_monitors :: "nat \<Rightarrow> nat list \<Rightarrow> monitor_descriptor list io" where
  "describe_monitors p [] = io_ok []"
| "describe_monitors p (handle # handles) =
     io_then (describe_monitor p handle) (\<lambda>m. io_then (describe_monitors p handles) (\<lambda>ms. io_ok (m # ms)))"

definition enumerate_monitors :: "monitor_descriptor list io" where
  "enumerate_monitors =
     io_then (attempt id) (\<lambda>p.
     io_then (attempt id) (\<lambda>a. describe_monitors (fa_handle p) (map unat (fa_units a))))"

section \<open>The resources of the process\<close>

record resource_sample =
  rs_process_100ns :: u64
  rs_working_set_bytes :: u64
  rs_peak_working_set_bytes :: u64

definition resource_sample_of :: "driver \<Rightarrow> resource_sample option \<times> driver" where
  "resource_sample_of d =
     (case attempt id d of
        (Err _, d) \<Rightarrow> (None, d)
      | (Ok stamps, d) \<Rightarrow>
          (case attempt id d of
             (Err _, d) \<Rightarrow> (None, d)
           | (Ok counters, d) \<Rightarrow>
               (Some \<lparr>rs_process_100ns = sat_add (filetime_u64 (read_filetime stamps 0)) (filetime_u64 (read_filetime stamps 8)),
                  rs_working_set_bytes = fa_number counters,
                  rs_peak_working_set_bytes = from_le (map (fa_memory counters) [0..<8])\<rparr>, d)))"

record resource_monitor =
  rm_processors :: f64
  rm_previous :: "resource_sample option"
  rm_previous_at :: nat

definition resource_monitor_start :: "driver \<Rightarrow> resource_monitor \<times> driver" where
  "resource_monitor_start d =
     (let (r, d) = attempt id d; processors = (case r of Ok a \<Rightarrow> f64_of_int (uint (fa_number a)) | Err _ \<Rightarrow> 1);
          (sample, d) = resource_sample_of d; (a, d) = ask d
      in (\<lparr>rm_processors = processors, rm_previous = sample, rm_previous_at = fa_clock a\<rparr>, d))"

definition process_percent :: "f64 \<Rightarrow> nat \<Rightarrow> resource_sample \<Rightarrow> resource_sample \<Rightarrow> f64" where
  "process_percent processors nanos before current =
     (let elapsed = max64 (as_secs_f64 nanos) (lit64 1 1000);
          seconds = f64_of_int (uint (sat_sub (rs_process_100ns current) (rs_process_100ns before))) / lit64 10000000 1
      in seconds / elapsed / processors * lit64 100 1)"

text \<open>One turn of the loop, after its half second of sleep.  Without an earlier sample a failed or successful one is
  followed by a second, which is kept.\<close>

definition resource_monitor_step :: "resource_monitor \<Rightarrow> metrics \<Rightarrow> driver \<Rightarrow> resource_monitor \<times> metrics \<times> driver" where
  "resource_monitor_step rm m d =
     (let (a, d) = ask d; now = fa_clock a; (sample, d) = resource_sample_of d
      in case (rm_previous rm, sample) of
           (Some before, Some current) \<Rightarrow>
             (rm\<lparr>rm_previous := Some current, rm_previous_at := now\<rparr>,
              process_resources (process_percent (rm_processors rm) (now - rm_previous_at rm) before current)
                (rs_working_set_bytes current) (rs_peak_working_set_bytes current) m, d)
         | _ \<Rightarrow> (let (sample, d) = resource_sample_of d in (rm\<lparr>rm_previous := sample, rm_previous_at := now\<rparr>, m, d)))"

section \<open>What they guarantee\<close>

text \<open>A reported list has one entry per monitor, and each is as the desktop answered: its size is never negative.\<close>

lemma describe_monitors_length: "describe_monitors p hs d = (Ok ms, d') \<Longrightarrow> length ms = length hs"
  by (induction hs arbitrary: d ms d') (auto simp: io_ok_def io_then_def split: prod.splits result.splits)

lemma resource_peak_grows:
  assumes "resource_monitor_step rm m d = (rm', m', d')"
  shows "m_peak_working_set_bytes m \<le> m_peak_working_set_bytes m'" "m_working_set_bytes m' \<le> m_peak_working_set_bytes m' \<or> m' = m"
  using assms
  by (auto simp: resource_monitor_step_def process_resources_def Let_def split_beta max_def split: prod.splits option.splits if_splits)

end
