(* ===== verification/Host_App.thy ===== *)
theory Host_App
  imports Host_Runs Manager_Props Benchmark_Reports Monitors
begin

text \<open>
  The Windows application (\<open>apps/windows-host/src/main.rs\<close>): the command line and what it overrides, the plan of a
  benchmark, the start of the host, and the actions behind the window: monitors, input options, video settings,
  transfers, the background benchmark and the exit.  Here the server is put on the real runtime, the capture manager, and
  on the real input sink, the injector or the log.  Drawing the window is not modelled.
\<close>

section \<open>The command line\<close>

datatype capture_choice = CaptureMonitor | CaptureTestPattern | CaptureNothing
datatype input_sink_choice = SinkInject | SinkLog
datatype benchmark_suite_choice = SuiteQuick | SuiteFull

text \<open>The choices of profile, encoder and workload convert one to one to the values they name.\<close>

datatype video_profile_choice = ChooseFast | ChooseBalanced | ChooseSharp
datatype encoder_mode_choice = ChooseAuto | ChooseH264Hardware | ChooseHevcHardware | ChooseAv1Hardware | ChooseH264Software
datatype benchmark_workload_choice = ChooseStaticDetail | ChooseDrawing | ChooseHighMotion

primrec profile_of_choice :: "video_profile_choice \<Rightarrow> video_profile" where
  "profile_of_choice ChooseFast = Fast"
| "profile_of_choice ChooseBalanced = Balanced"
| "profile_of_choice ChooseSharp = Sharp"

primrec encoder_of_choice :: "encoder_mode_choice \<Rightarrow> encoder_mode" where
  "encoder_of_choice ChooseAuto = Auto"
| "encoder_of_choice ChooseH264Hardware = H264Hardware"
| "encoder_of_choice ChooseHevcHardware = HevcHardware"
| "encoder_of_choice ChooseAv1Hardware = Av1Hardware"
| "encoder_of_choice ChooseH264Software = H264Software"

primrec workload_of_choice :: "benchmark_workload_choice \<Rightarrow> benchmark_workload" where
  "workload_of_choice ChooseStaticDetail = StaticDetail"
| "workload_of_choice ChooseDrawing = Drawing"
| "workload_of_choice ChooseHighMotion = HighMotion"

text \<open>The parser of the command line refuses both of the first two flags at once, and numbers out of their ranges.\<close>

record cli =
  cli_input_only :: bool
  cli_display_only :: bool
  cli_capture :: capture_choice
  cli_input_sink :: input_sink_choice
  cli_log_level :: ustring
  cli_diagnostics :: bool
  cli_headless :: bool
  cli_run_seconds :: "u64 option"
  cli_video_profile :: "video_profile_choice option"
  cli_encoder :: "encoder_mode_choice option"
  cli_max_fps :: "u32 option"
  cli_max_width :: "u32 option"
  cli_bitrate :: "f32 option"
  cli_test_width :: u32
  cli_test_height :: u32
  cli_port :: "u16 option"
  cli_no_mdns :: bool
  cli_session_info :: "ustring option"
  cli_metrics_output :: "ustring option"
  cli_runtime_output :: "ustring option"
  cli_file_inbox :: "ustring option"
  cli_benchmark :: "benchmark_suite_choice option"
  cli_benchmark_output :: "ustring option"
  cli_benchmark_frames :: "u32 option"
  cli_benchmark_workload :: "benchmark_workload_choice option"
  cli_queue_file :: "ustring list"

definition cli_mode :: "cli \<Rightarrow> capture_mode \<Rightarrow> capture_mode" where
  "cli_mode c mode = (if cli_input_only c then InputOnly else if cli_display_only c then DisplayOnly else mode)"

definition cli_video :: "cli \<Rightarrow> video_config \<Rightarrow> video_config" where
  "cli_video c v =
     (let v = (case cli_video_profile c of None \<Rightarrow> v | Some p \<Rightarrow> v\<lparr>profile := profile_of_choice p\<rparr>);
          v = (case cli_encoder c of None \<Rightarrow> v | Some e \<Rightarrow> v\<lparr>encoder := encoder_of_choice e\<rparr>);
          v = (case cli_max_fps c of None \<Rightarrow> v | Some fps \<Rightarrow> v\<lparr>presets := presets_modify (profile v) (\<lambda>p. p\<lparr>max_fps := fps\<rparr>) (presets v)\<rparr>);
          v = (case cli_max_width c of None \<Rightarrow> v | Some w \<Rightarrow> v\<lparr>presets := presets_modify (profile v) (\<lambda>p. p\<lparr>max_width := w\<rparr>) (presets v)\<rparr>)
      in case cli_bitrate c of
           None \<Rightarrow> v
         | Some rate \<Rightarrow>
             (let codec = unwrap_or (mode_codec (encoder v)) H264
              in v\<lparr>presets := presets_modify (profile v) (\<lambda>p. p\<lparr>bitrates := set_bitrate_for_codec (bitrates p) codec rate\<rparr>) (presets v)\<rparr>))"

definition cli_network :: "cli \<Rightarrow> network_config \<Rightarrow> network_config" where
  "cli_network c n =
     (let n = (case cli_port c of None \<Rightarrow> n | Some p \<Rightarrow> n\<lparr>nc_port := p\<rparr>) in if cli_no_mdns c then n\<lparr>nc_mdns := False\<rparr> else n)"

definition cli_transfer :: "cli \<Rightarrow> file_transfer_config \<Rightarrow> file_transfer_config" where
  "cli_transfer c f = (case cli_file_inbox c of None \<Rightarrow> f | Some inbox \<Rightarrow> f\<lparr>fc_inbox_directory := Some inbox\<rparr>)"

definition cli_config :: "cli \<Rightarrow> app_config \<Rightarrow> app_config" where
  "cli_config c cfg = cfg\<lparr>ac_mode := cli_mode c (ac_mode cfg), ac_video := cli_video c (ac_video cfg),
     ac_network := cli_network c (ac_network cfg), ac_file_transfer := cli_transfer c (ac_file_transfer cfg)\<rparr>"

text \<open>The configuration of a run: what was saved (or the defaults, when it cannot be read) with the overrides, validated.\<close>

definition startup_config :: "toml \<Rightarrow> cli \<Rightarrow> config_disk \<Rightarrow> (app_config, ustring) result" where
  "startup_config tm c disk =
     (let cfg = cli_config c (case config_load tm disk of Ok cfg \<Rightarrow> cfg | Err _ \<Rightarrow> default_app)
      in map_ok (\<lambda>_. cfg) (video_validate (ac_video cfg)))"

section \<open>The benchmark of the command line\<close>

fun text_contains :: "ustring \<Rightarrow> ustring \<Rightarrow> bool" where
  "text_contains needle [] \<longleftrightarrow> needle = []"
| "text_contains needle (c # s) \<longleftrightarrow> take (length needle) (c # s) = needle \<or> text_contains needle s"

primrec profile_needle :: "video_profile_choice \<Rightarrow> ustring" where
  "profile_needle ChooseFast = lit ''fast''"
| "profile_needle ChooseBalanced = lit ''balanced''"
| "profile_needle ChooseSharp = lit ''sharp''"

definition benchmark_cases :: "cli \<Rightarrow> benchmark_suite_choice \<Rightarrow> host_benchmark_case list" where
  "benchmark_cases c suite =
     (let frames = unwrap_or (cli_benchmark_frames c) (case suite of SuiteQuick \<Rightarrow> 180 | SuiteFull \<Rightarrow> 120);
          cases = (case suite of SuiteQuick \<Rightarrow> quick_benchmark_cases frames | SuiteFull \<Rightarrow> full_benchmark_cases frames);
          cases = (case cli_benchmark_workload c of None \<Rightarrow> cases
            | Some w \<Rightarrow> filter (\<lambda>k. hc_workload k = workload_of_choice w) cases)
      in case cli_video_profile c of None \<Rightarrow> cases | Some p \<Rightarrow> filter (\<lambda>k. text_contains (profile_needle p) (hc_name k)) cases)"

definition all_encoder_modes :: "encoder_mode list" where
  "all_encoder_modes = [H264Hardware, HevcHardware, Av1Hardware, H264Software]"

definition benchmark_modes :: "cli \<Rightarrow> encoder_mode list" where
  "benchmark_modes c = (case cli_encoder c of None \<Rightarrow> all_encoder_modes | Some e \<Rightarrow> [encoder_of_choice e])"

text \<open>\<open>write_json\<close>: the directory first, when the path has one, then the bytes; both errors name their path.\<close>

definition write_json :: "ustring \<Rightarrow> ustring option \<Rightarrow> (u8 list, ustring) result \<Rightarrow> exported_files \<Rightarrow> driver \<Rightarrow> (unit, ustring) result \<times> exported_files \<times> driver" where
  "write_json path parent bytes files d =
     (case (case parent of None \<Rightarrow> (Ok (), d)
         | Some dir \<Rightarrow> (case attempt (\<lambda>e. lit ''failed to create '' @ dir @ lit '': '' @ e) d of (r, d) \<Rightarrow> (map_ok (\<lambda>_. ()) r, d))) of
        (Err e, d) \<Rightarrow> (Err e, files, d)
      | (Ok _, d) \<Rightarrow>
          (case bytes of
             Err e \<Rightarrow> (Err e, files, d)
           | Ok content \<Rightarrow>
               (case attempt (\<lambda>e. lit ''failed to write '' @ path @ lit '': '' @ e) d of
                  (Err e, d) \<Rightarrow> (Err e, files, d)
                | (Ok _, d) \<Rightarrow> (Ok (), files @ [(path, content)], d))))"

definition latest_directory :: ustring where
  "latest_directory = lit ''build'' @ [92] @ lit ''benchmarks''"

definition latest_report :: ustring where
  "latest_report = latest_directory @ [92] @ lit ''latest.json''"

text \<open>The run with \<open>--benchmark\<close>: the suite, its exports, and once more the report under a fixed name.\<close>

definition command_benchmark :: "benchmark_library \<Rightarrow> export_json \<Rightarrow> cli \<Rightarrow> benchmark_suite_choice \<Rightarrow> encoder_capability list \<Rightarrow> nat \<Rightarrow> driver
    \<Rightarrow> ((unit, ustring) result \<times> exported_files \<times> driver) option" where
  "command_benchmark lib json c suite capabilities now d =
     (case run_host_benchmark_suite lib capabilities (benchmark_cases c suite) (benchmark_modes c) now d of
        None \<Rightarrow> None
      | Some (report, d) \<Rightarrow>
          Some (case write_benchmark_exports json report d of
              (Err e, files, d) \<Rightarrow> (Err e, files, d)
            | (Ok _, files, d) \<Rightarrow> write_json latest_report (Some latest_directory) (xj_report json report) files d))"

section \<open>Names and numbers\<close>

text \<open>\<open>args\<close> are the arguments after the program's name.\<close>

definition is_interactive_gui_invocation :: "ustring list \<Rightarrow> bool" where
  "is_interactive_gui_invocation args \<longleftrightarrow>
     \<not> list_ex (\<lambda>a. a = lit ''--headless'' \<or> a = lit ''--benchmark'' \<or> strip_prefix (lit ''--benchmark='') a \<noteq> None) args"

primrec mode_name :: "capture_mode \<Rightarrow> ustring" where
  "mode_name PenDisplay = lit ''pen-display''"
| "mode_name InputOnly = lit ''input-only''"
| "mode_name DisplayOnly = lit ''display-only''"

definition is_alphanumeric :: "nat \<Rightarrow> bool" where
  "is_alphanumeric c \<longleftrightarrow> 48 \<le> c \<and> c \<le> 57 \<or> 65 \<le> c \<and> c \<le> 90 \<or> 97 \<le> c \<and> c \<le> 122"

definition sanitized_host_name :: "ustring \<Rightarrow> ustring" where
  "sanitized_host_name raw =
     (let name = take 50 (filter (\<lambda>c. is_alphanumeric c \<or> c = 45) raw) in if name = [] then lit ''nfidb-pc'' else name)"

definition format_bytes :: "u64 \<Rightarrow> ustring" where
  "format_bytes n =
     (let x = f64_of_int (uint n)
      in if n < 1024 then show_nat (unat n) @ lit '' B''
         else if n < 1024 * 1024 then show_fixed 1 (x / lit64 1024 1) @ lit '' KiB''
         else if n < 1024 * 1024 * 1024 then show_fixed 2 (x / lit64 1048576 1) @ lit '' MiB''
         else show_fixed 2 (x / lit64 1073741824 1) @ lit '' GiB'')"

text \<open>A PIN is decimal digits, so its bytes are its characters.\<close>

definition format_pin :: "ustring \<Rightarrow> ustring" where
  "format_pin digits = (if str_len digits = 6 then take 3 digits @ lit '' '' @ drop 3 digits else digits)"

definition optional_number :: "f64 option \<Rightarrow> ustring \<Rightarrow> ustring" where
  "optional_number v unit_name = (case v of None \<Rightarrow> [0x2014] | Some x \<Rightarrow> show_fixed 2 x @ unit_name)"

section \<open>The input sink\<close>

text \<open>\<open>Arc<dyn InputSink>\<close>: the log, or the injector with the desktop it acts on.\<close>

datatype host_input = LoggedInput "ustring list" | NativeInput "pointer_injector \<times> desktop"

definition dispatch :: "(ustring list \<Rightarrow> 'a \<times> ustring list) \<Rightarrow> (pointer_injector \<times> desktop \<Rightarrow> 'a \<times> pointer_injector \<times> desktop)
    \<Rightarrow> host_input \<Rightarrow> 'a \<times> host_input" where
  "dispatch log native s =
     (case s of LoggedInput l \<Rightarrow> (case log l of (r, l) \<Rightarrow> (r, LoggedInput l)) | NativeInput p \<Rightarrow> (case native p of (r, p) \<Rightarrow> (r, NativeInput p)))"

definition host_sink :: "bool \<Rightarrow> host_input input_sink" where
  "host_sink debug = \<lparr>
     sk_inject_batch = \<lambda>b. dispatch (sk_inject_batch (logging_input_sink debug) b) (sk_inject_batch injector_sink b),
     sk_inject_wheel = \<lambda>w. dispatch (sk_inject_wheel (logging_input_sink debug) w) (sk_inject_wheel injector_sink w),
     sk_inject_keyboard = \<lambda>k. dispatch (sk_inject_keyboard (logging_input_sink debug) k) (sk_inject_keyboard injector_sink k),
     sk_inject_text = \<lambda>t. dispatch (sk_inject_text (logging_input_sink debug) t) (sk_inject_text injector_sink t),
     sk_inject_command = \<lambda>c. dispatch (sk_inject_command (logging_input_sink debug) c) (sk_inject_command injector_sink c),
     sk_reset_all = dispatch (sk_reset_all (logging_input_sink debug)) (sk_reset_all injector_sink),
     sk_set_remote_input_options = \<lambda>t g. dispatch (sk_set_remote_input_options (logging_input_sink debug) t g)
       (sk_set_remote_input_options injector_sink t g)\<rparr>"

definition sound_input :: "host_input \<Rightarrow> bool" where
  "sound_input s = (case s of LoggedInput _ \<Rightarrow> True | NativeInput p \<Rightarrow> sound_injector p)"

definition input_free :: "host_input \<Rightarrow> bool" where
  "input_free s = (case s of LoggedInput _ \<Rightarrow> True | NativeInput p \<Rightarrow> desktop_free p)"

lemma host_sink_run: "sink_call_run (host_sink debug) c s = dispatch (sink_call_run (logging_input_sink debug) c) (sink_call_run injector_sink c) s"
proof (cases c)
  case (CallMessage m)
  then show ?thesis by (cases m) (simp_all add: host_sink_def)
qed (simp_all add: host_sink_def)

interpretation host_input: releasing_sink "host_sink debug" sound_input polite_call input_free
proof unfold_locales
  show "sound_input (snd (sink_call_run (host_sink debug) c s))" if "sound_input s" "polite_call c" for s c
    using that native_sink.call_sound by (auto simp: host_sink_run dispatch_def sound_input_def split: host_input.splits prod.splits)
      (metis snd_conv)
  show "polite_call CallReset" by (rule native_sink.reset_polite)
  show "polite_call (CallOptions touch gestures)" for touch gestures by (rule native_sink.options_polite)
  show "input_free t" if "sound_input s" "sk_reset_all (host_sink debug) s = (Ok (), t)" for s t
    using that native_sink.reset_releases
    by (auto simp: host_sink_def dispatch_def sound_input_def input_free_def split: host_input.splits prod.splits)
qed

section \<open>The runtime\<close>

text \<open>The capture manager as the server's \<open>VideoSettingsRuntime\<close>.  An operation that never returns has no result here;
  \<open>live_switch_returns\<close> shows that there is none on a clock that moves.\<close>

definition capture_runtime :: "manager_library \<Rightarrow> capture_manager video_runtime" where
  "capture_runtime lib =
     \<lparr>rtm_apply = \<lambda>settings browser m. (case apply_video_settings lib settings browser m of Some x \<Rightarrow> x | None \<Rightarrow> (Err [], m)),
      rtm_status = \<lambda>m. (case video_runtime_status_of m of Some (s, _) \<Rightarrow> s | None \<Rightarrow> cm_runtime m),
      rtm_capabilities = cm_capabilities, rtm_request_keyframe = request_video_keyframe, rtm_record = record_auto_benchmark lib,
      rtm_clear = clear_auto_benchmarks lib, rtm_results = cm_learned\<rparr>"

section \<open>Starting the host\<close>

definition select_monitor :: "nat \<Rightarrow> monitor_descriptor list \<Rightarrow> (monitor_descriptor, ustring) result" where
  "select_monitor index monitors =
     ok_or (lit ''Windows did not report any captureable monitors'')
       (or_else (find (\<lambda>m. md_index m = index) monitors) (if monitors = [] then None else Some (hd monitors)))"

definition options_of_input :: "input_config \<Rightarrow> injector_options" where
  "options_of_input i = \<lparr>io_pen_enabled = ic_pen i, io_touch_enabled = ic_touch i, io_mouse_enabled = ic_mouse i,
     io_keyboard_enabled = ic_keyboard i, io_gestures_enabled = ic_gestures i, io_strict_palm_rejection = ic_strict_palm_rejection i\<rparr>"

text \<open>What creating the two synthetic pointer devices answers, and the desktop.\<close>

record device_facts =
  df_pen_created :: bool
  df_touch_created :: bool
  df_os_text :: ustring
  df_desktop :: desktop

definition start_input :: "cli \<Rightarrow> app_config \<Rightarrow> target_geometry \<Rightarrow> device_facts \<Rightarrow> (host_input, ustring) result" where
  "start_input c cfg geometry facts =
     (if cli_input_sink c = SinkInject \<and> ac_mode cfg \<noteq> DisplayOnly then
        map_ok (\<lambda>i. NativeInput (i, df_desktop facts))
          (injector_new (df_pen_created facts) (df_touch_created facts) (df_os_text facts) geometry (options_of_input (ac_input cfg)))
      else Ok (LoggedInput []))"

text \<open>A capture that does not start is only logged.\<close>

definition start_source :: "cli \<Rightarrow> capture_mode \<Rightarrow> nat \<Rightarrow> capture_manager \<Rightarrow> capture_manager" where
  "start_source c mode index m =
     (if mode = InputOnly then m
      else case cli_capture c of
          CaptureMonitor \<Rightarrow> snd (start_monitor index m)
        | CaptureTestPattern \<Rightarrow> snd (start_test_pattern_size (cli_test_width c) (cli_test_height c) m)
        | CaptureNothing \<Rightarrow> m)"

text \<open>Directories: the configured inbox, the one under the downloads, or the one beside the configuration.\<close>

definition inbox_directory :: "(ustring \<Rightarrow> ustring \<Rightarrow> ustring) \<Rightarrow> ustring option \<Rightarrow> ustring option \<Rightarrow> ustring \<Rightarrow> ustring" where
  "inbox_directory join configured downloads config_directory =
     unwrap_or (or_else configured (map_option (\<lambda>d. join d (lit ''NFiDB Inbox'')) downloads)) (join config_directory (lit ''Inbox''))"

definition u64_sat_mul :: "u64 \<Rightarrow> u64 \<Rightarrow> u64" where
  "u64_sat_mul a b = (if unat a * unat b < 2 ^ 64 then a * b else - 1)"

definition server_options_of :: "app_config \<Rightarrow> ustring \<Rightarrow> ustring \<Rightarrow> server_options" where
  "server_options_of cfg host_name inbox =
     \<lparr>so_preferred_port = nc_port (ac_network cfg), so_host_name = host_name, so_mode = mode_name (ac_mode cfg),
      so_mdns = nc_mdns (ac_network cfg), so_touch_default = ic_touch (ac_input cfg), so_mouse_enabled = ic_mouse (ac_input cfg),
      so_keyboard_enabled = ic_keyboard (ac_input cfg), so_gestures_default = ic_gestures (ac_input cfg),
      so_file_transfer = \<lparr>fo_enabled = fc_enabled (ac_file_transfer cfg),
        fo_max_file_size_bytes = u64_sat_mul (fc_max_file_size_mib (ac_file_transfer cfg)) (1024 * 1024),
        fo_rate_limit_mbps = fc_rate_limit_mbps (ac_file_transfer cfg),
        fo_pause_while_drawing = fc_pause_while_drawing (ac_file_transfer cfg), fo_inbox_directory = inbox\<rparr>,
      so_video = ac_video cfg\<rparr>"

section \<open>The window's state\<close>

datatype host_page = SessionPage | SourcePage | InputPage | FilesPage | DiagnosticsPage | AppSetupPage

text \<open>The channel of the background benchmark: nothing yet, its result, or a worker that is gone.\<close>

datatype benchmark_channel = BenchmarkPending | BenchmarkSent "(ustring \<times> host_benchmark_report, ustring) result" | BenchmarkGone

record 'v host_app =
  ha_config :: app_config
  ha_monitors :: "monitor_descriptor list"
  ha_selected_index :: nat
  ha_server :: "(host_input, capture_manager, 'v) app_state"
  ha_active_page :: host_page
  ha_last_message :: "ustring option"
  ha_last_video_revision :: u64
  ha_last_input_revision :: u64
  ha_benchmark_rx :: "benchmark_channel option"
  ha_benchmark_report :: "host_benchmark_report option"
  ha_benchmark_running_label :: "ustring option"
  ha_benchmark_report_path :: "ustring option"
  ha_resume_capture :: bool

record host_app_env =
  he_server :: "(host_input, capture_manager) server_env"
  he_library :: manager_library

definition ready_env :: "host_app_env \<Rightarrow> bool \<Rightarrow> bool" where
  "ready_env env debug \<longleftrightarrow> ev_sink (he_server env) = host_sink debug \<and> ev_runtime (he_server env) = capture_runtime (he_library env)"

definition host_app_new :: "cli \<Rightarrow> app_config \<Rightarrow> monitor_descriptor list \<Rightarrow> nat \<Rightarrow> (host_input, capture_manager, 'v) app_state \<Rightarrow> 'v host_app" where
  "host_app_new c cfg monitors selected server =
     \<lparr>ha_config = cfg, ha_monitors = monitors, ha_selected_index = selected, ha_server = server,
      ha_active_page = (if cli_diagnostics c then DiagnosticsPage else SessionPage), ha_last_message = None,
      ha_last_video_revision = 0, ha_last_input_revision = 0, ha_benchmark_rx = None, ha_benchmark_report = None,
      ha_benchmark_running_label = None, ha_benchmark_report_path = None, ha_resume_capture = False\<rparr>"

text \<open>From the configuration and the monitors to the window: the inbox that was chosen becomes part of the configuration.\<close>

record start_facts =
  sf_devices :: device_facts
  sf_raw_host_name :: ustring
  sf_join :: "ustring \<Rightarrow> ustring \<Rightarrow> ustring"
  sf_downloads :: "ustring option"
  sf_config_directory :: ustring
  sf_capabilities :: "encoder_capability list"
  sf_learned_disk :: learned_disk
  sf_driver :: driver
  sf_session :: session_state
  sf_metrics :: metrics
  sf_disk :: config_disk
  sf_removed :: "ustring \<Rightarrow> bool"
  sf_staging :: directory
  sf_inbox :: directory

definition start_host :: "manager_library \<Rightarrow> cli \<Rightarrow> app_config \<Rightarrow> monitor_descriptor list \<Rightarrow> start_facts \<Rightarrow> ('v host_app, ustring) result" where
  "start_host lib c cfg monitors facts =
     and_then (select_monitor (ac_monitor_index cfg) monitors) (\<lambda>monitor.
     let cfg = cfg\<lparr>ac_monitor_index := md_index monitor\<rparr>
     in and_then (start_input c cfg (md_geometry monitor) (sf_devices facts)) (\<lambda>input.
        let capture = start_source c (ac_mode cfg) (md_index monitor)
              (capture_manager_new lib (sf_metrics facts) (ac_video cfg) (sf_capabilities facts) (sf_learned_disk facts) (sf_driver facts));
            inbox = inbox_directory (sf_join facts) (fc_inbox_directory (ac_file_transfer cfg)) (sf_downloads facts) (sf_config_directory facts);
            cfg = cfg\<lparr>ac_file_transfer := (ac_file_transfer cfg)\<lparr>fc_inbox_directory := Some inbox\<rparr>\<rparr>;
            server = server_state (sf_removed facts) (server_options_of cfg (sanitized_host_name (sf_raw_host_name facts)) inbox)
              (sf_session facts) (sf_metrics facts) input capture (sf_disk facts) (sf_staging facts) (sf_inbox facts)
        in Ok (host_app_new c cfg monitors (md_index monitor) server)))"

end
