(* ===== verification/Window.thy ===== *)
theory Window
  imports Host_App
begin

text \<open>
  What the pages of the Windows application (\<open>apps/windows-host/src/main.rs\<close>) compute before they draw: which encoders
  the source page offers and why, how a draft of the video settings is edited, and the labels of the pages.  An encoder
  is offered exactly when the selection of the capture would accept it.
\<close>

section \<open>The encoders on offer\<close>

definition encoder_choice_enabled :: "video_control_state \<Rightarrow> encoder_mode \<Rightarrow> bool" where
  "encoder_choice_enabled vs mode \<longleftrightarrow>
     (let entry = find (\<lambda>e. ce_mode e = mode) (vc_compatibility vs);
          host_usable = list_ex (\<lambda>c. capability_mode c = mode \<and> is_usable (ec_state c)) (vc_host_capabilities vs);
          receiver_known = (bv_user_agent (vc_browser_capabilities vs) \<noteq> [])
      in mode = Auto \<or> host_usable \<and> (\<not> receiver_known \<or> (case entry of None \<Rightarrow> False | Some e \<Rightarrow> ce_browser_reported e)))"

definition encoder_choice_reason :: "video_control_state \<Rightarrow> encoder_mode \<Rightarrow> ustring" where
  "encoder_choice_reason vs mode =
     (if mode = Auto then lit ''Benchmarks and validates the best mutually supported low-latency path''
      else case find (\<lambda>e. ce_mode e = mode) (vc_compatibility vs) of
        Some e \<Rightarrow> ce_reason e | None \<Rightarrow> lit ''Waiting for receiver capability discovery'')"

definition encoder_choice_label :: "video_control_state \<Rightarrow> encoder_mode \<Rightarrow> ustring" where
  "encoder_choice_label vs mode =
     (if encoder_choice_enabled vs mode then mode_label mode else mode_label mode @ lit '' '' @ [0x2014] @ lit '' unavailable'')"

primrec encoder_caption :: "encoder_mode \<Rightarrow> ustring" where
  "encoder_caption Auto = lit ''Recommended. Chooses the fastest verified path that meets the latency target.''"
| "encoder_caption H264Hardware = lit ''Best compatibility with low host CPU use.''"
| "encoder_caption HevcHardware = lit ''Lower bandwidth on receivers that prove HEVC playback.''"
| "encoder_caption Av1Hardware = lit ''Highest compression on newer hardware; Auto requires a successful benchmark.''"
| "encoder_caption H264Software = lit ''Universal compatibility fallback; uses more CPU.''"

primrec memory_path_label :: "pipeline_memory_mode \<Rightarrow> ustring" where
  "memory_path_label GpuZeroCopy = lit ''GPU zero-copy''"
| "memory_path_label GpuAssisted = lit ''GPU assisted''"
| "memory_path_label CpuCopy = lit ''CPU copy''"
| "memory_path_label CpuPreprocessing = lit ''CPU preprocess''"

section \<open>The draft of the video settings\<close>

text \<open>The bitrate on show is that of the codec of the draft's encoder or, for the automatic one, of the codec that runs.\<close>

definition draft_codec :: "video_control_state \<Rightarrow> video_config \<Rightarrow> video_codec" where
  "draft_codec vs draft = unwrap_or (mode_codec (encoder draft)) (vr_codec (vc_runtime vs))"

definition edit_draft_width :: "u32 \<Rightarrow> video_config \<Rightarrow> video_config" where
  "edit_draft_width w draft = draft\<lparr>presets := presets_modify (profile draft) (\<lambda>p. p\<lparr>max_width := clamp_ord w 320 7680\<rparr>) (presets draft)\<rparr>"

definition edit_draft_fps :: "u32 \<Rightarrow> video_config \<Rightarrow> video_config" where
  "edit_draft_fps n draft = draft\<lparr>presets := presets_modify (profile draft) (\<lambda>p. p\<lparr>max_fps := clamp_ord n 1 120\<rparr>) (presets draft)\<rparr>"

definition edit_draft_bitrate :: "video_control_state \<Rightarrow> f32 \<Rightarrow> video_config \<Rightarrow> video_config" where
  "edit_draft_bitrate vs rate draft =
     draft\<lparr>presets := presets_modify (profile draft) (\<lambda>p. p\<lparr>bitrates := set_bitrate_for_codec (bitrates p) (draft_codec vs draft) rate\<rparr>)
       (presets draft)\<rparr>"

definition reset_preset :: "video_config \<Rightarrow> video_config" where
  "reset_preset draft =
     draft\<lparr>presets := presets_modify (profile draft) (\<lambda>_. presets_get default_presets (profile draft)) (presets draft)\<rparr>"

definition reset_all_presets :: "video_config \<Rightarrow> video_config" where
  "reset_all_presets draft = draft\<lparr>presets := default_presets\<rparr>"

section \<open>Labels\<close>

definition two_digits :: "nat \<Rightarrow> ustring" where
  "two_digits n = (if n < 10 then lit ''0'' else []) @ show_nat n"

definition pairing_label :: "bool \<Rightarrow> nat \<Rightarrow> ustring" where
  "pairing_label active expires =
     (if active then lit ''CONNECTED '' @ [183] @ lit '' reset to pair a different device''
      else lit ''ROTATES IN '' @ two_digits (expires div 60) @ lit '':'' @ two_digits (expires mod 60) @ lit '' WHILE THIS WINDOW IS ACTIVE'')"

primrec direction_label :: "transfer_direction \<Rightarrow> ustring" where
  "direction_label IpadToWindows = lit ''iPad to Windows''"
| "direction_label WindowsToIpad = lit ''Windows to iPad''"

section \<open>What the source page guarantees\<close>

text \<open>C33: A manual encoder can be chosen on the source page exactly when the capture would accept it: the window's rule (a
  usable encoder on the host and, once a browser is known, its report of the codec) and the selection of the capture
  agree for every encoder, every state of the server and whatever has been learned.\<close>
theorem offered_encoders_are_accepted:
  assumes "mode \<noteq> Auto"
  shows "encoder_choice_enabled (video_response env st) mode \<longleftrightarrow>
    (\<exists>s. select_encoder (v\<lparr>encoder := mode\<rparr>) (app_browser_video st) (rtm_capabilities (ev_runtime env) (app_runtime st)) learned = Ok s)"
proof -
  let ?caps = "rtm_capabilities (ev_runtime env) (app_runtime st)" and ?b = "app_browser_video st"
  obtain codec where codec: "mode_codec mode = Some codec" using assms by (cases mode) auto
  have entry: "find (\<lambda>e. ce_mode e = mode) (compatibility_matrix ?caps ?b) = Some (compatibility_entry_for ?caps ?b mode)"
    using assms by (cases mode) (simp_all add: compatibility_matrix_def manual_modes_def compatibility_entry_for_def Let_def)
  have "ce_browser_reported (compatibility_entry_for ?caps ?b mode) = bc_reported (browser_get ?b codec)"
    by (simp add: compatibility_entry_for_def codec Let_def)
  moreover have "list_ex (\<lambda>c. capability_mode c = mode \<and> is_usable (ec_state c)) ?caps \<longleftrightarrow> functional ?caps mode \<noteq> None"
    by (auto simp: functional_def find_None_iff list_ex_iff)
  ultimately show ?thesis
    using assms codec entry
    by (auto simp: encoder_choice_enabled_def video_response_def select_encoder_def manual_choice_def Let_def)
qed

text \<open>Whatever is done to a valid draft on the page, it stays valid: applying it can only fail for its encoder.\<close>

lemma edits_stay_valid:
  assumes "video_validate draft = Ok ()"
  shows "video_validate (edit_draft_width w draft) = Ok ()" "video_validate (edit_draft_fps n draft) = Ok ()"
    "bitrate_ok rate \<Longrightarrow> video_validate (edit_draft_bitrate vs rate draft) = Ok ()"
    "video_validate (reset_preset draft) = Ok ()" "video_validate (reset_all_presets draft) = Ok ()"
proof -
  have default: "preset_valid (presets_get default_presets p)" for p
    using default_video_valid by (simp add: video_validate_iff default_video_def)
  have rates: "bitrate_ok (bitrate_for_codec (set_bitrate_for_codec b c r) c')"
    if "bitrate_ok r" "\<forall>d. bitrate_ok (bitrate_for_codec b d)" for b c c' r
    using that by (cases c; cases c') (auto simp: all_codecs unwrap_or_def split: option.splits)
  have one: "1 \<le> n" if "n \<noteq> 0" for n :: u32
    using that by (simp add: word_le_nat_alt Suc_le_eq unat_gt_0)
  from assms default rates one show "video_validate (edit_draft_width w draft) = Ok ()" "video_validate (edit_draft_fps n draft) = Ok ()"
    "bitrate_ok rate \<Longrightarrow> video_validate (edit_draft_bitrate vs rate draft) = Ok ()"
    "video_validate (reset_preset draft) = Ok ()" "video_validate (reset_all_presets draft) = Ok ()"
    by (auto simp: video_validate_iff preset_valid_def edit_draft_width_def edit_draft_fps_def edit_draft_bitrate_def reset_preset_def
      reset_all_presets_def clamp_ord_def)
qed

end
