(* ===== verification/Host_Actions.thy ===== *)
theory Host_Actions
  imports Window
begin

text \<open>
  The actions of the Windows application (\<open>apps/windows-host/src/main.rs\<close>), each a function on the state of the window
  and of the server behind it, and the histories of the whole program: actions of the window, requests and callbacks of
  the server, the background benchmark and the threads of the capture, in any order.
\<close>

section \<open>Access to the shared parts\<close>

definition on_server :: "((host_input, capture_manager, 'v) app_state \<Rightarrow> (host_input, capture_manager, 'v) app_state) \<Rightarrow> 'v host_app \<Rightarrow> 'v host_app" where
  "on_server f app = app\<lparr>ha_server := f (ha_server app)\<rparr>"

definition capture_of :: "'v host_app \<Rightarrow> capture_manager" where
  "capture_of app = app_runtime (ha_server app)"

definition put_capture :: "capture_manager \<Rightarrow> 'v host_app \<Rightarrow> 'v host_app" where
  "put_capture m = on_server (\<lambda>st. st\<lparr>app_runtime := m\<rparr>)"

text \<open>A call of the injector, when the application has one.\<close>

definition on_injector :: "(pointer_injector \<Rightarrow> desktop \<Rightarrow> pointer_injector \<times> desktop) \<Rightarrow> 'v host_app \<Rightarrow> 'v host_app" where
  "on_injector f app =
     (case app_sink (ha_server app) of
        LoggedInput _ \<Rightarrow> app
      | NativeInput (i, d) \<Rightarrow> on_server (\<lambda>st. st\<lparr>app_sink := NativeInput (f i d)\<rparr>) app)"

definition release_native :: "pointer_injector \<Rightarrow> desktop \<Rightarrow> pointer_injector \<times> desktop" where
  "release_native i d = snd (reset_all i d)"

text \<open>\<open>let _ = self.config.save()\<close>.\<close>

definition save_config :: "host_app_env \<Rightarrow> 'v host_app \<Rightarrow> 'v host_app" where
  "save_config env app = on_server (\<lambda>st. st\<lparr>app_disk := snd (config_save (ev_toml (he_server env)) (ha_config app) (app_disk st))\<rparr>) app"

definition say :: "ustring \<Rightarrow> 'v host_app \<Rightarrow> 'v host_app" where
  "say message app = app\<lparr>ha_last_message := Some message\<rparr>"

definition monitor_name :: "nat \<Rightarrow> 'v host_app \<Rightarrow> ustring" where
  "monitor_name index app =
     (case find (\<lambda>m. md_index m = index) (ha_monitors app) of None \<Rightarrow> lit ''Display '' @ show_nat index | Some m \<Rightarrow> md_name m)"

section \<open>Monitors and input\<close>

definition change_monitor :: "host_app_env \<Rightarrow> 'v host_app \<Rightarrow> 'v host_app" where
  "change_monitor env app =
     (case find (\<lambda>m. md_index m = ha_selected_index app) (ha_monitors app) of
        None \<Rightarrow> app
      | Some monitor \<Rightarrow>
          (let app = app\<lparr>ha_config := (ha_config app)\<lparr>ac_monitor_index := md_index monitor\<rparr>\<rparr>;
               app = on_injector (\<lambda>i d. case release_native i d of (i, d) \<Rightarrow> (set_target (md_geometry monitor) i, d)) app;
               app = (if ac_mode (ha_config app) = InputOnly then app
                 else (case start_monitor (md_index monitor) (capture_of app) of
                     (Ok _, m) \<Rightarrow> say (lit ''Now capturing '' @ md_name monitor) (put_capture m app)
                   | (Err e, m) \<Rightarrow> say (lit ''Capture failed: '' @ e) (put_capture m app)))
           in save_config env app))"

text \<open>The combo box: only another index than the selected one changes the monitor.\<close>

definition pick_monitor :: "host_app_env \<Rightarrow> nat \<Rightarrow> 'v host_app \<Rightarrow> 'v host_app" where
  "pick_monitor env index app =
     (if index = ha_selected_index app then app else change_monitor env (app\<lparr>ha_selected_index := index\<rparr>))"

definition apply_input_options :: "host_app_env \<Rightarrow> 'v host_app \<Rightarrow> 'v host_app" where
  "apply_input_options env app =
     (let input = ac_input (ha_config app);
          app = on_injector (\<lambda>i d. case release_native i d of (i, d) \<Rightarrow> (set_options (options_of_input input) i, d)) app
      in case apply_input_settings_from_host (he_server env)
             \<lparr>ri_touch_enabled = ic_touch input, ri_gestures_enabled = ic_gestures input\<rparr> (ha_server app) of
           (r, st) \<Rightarrow>
             (let app = app\<lparr>ha_server := st\<rparr>;
                  app = (case r of Ok control \<Rightarrow> app\<lparr>ha_last_input_revision := ic_revision control\<rparr>
                    | Err e \<Rightarrow> say (lit ''Input setting rejected: '' @ e) app)
              in save_config env app))"

definition edit_input :: "host_app_env \<Rightarrow> input_config \<Rightarrow> 'v host_app \<Rightarrow> 'v host_app" where
  "edit_input env input app =
     (if input = ac_input (ha_config app) then app else apply_input_options env (app\<lparr>ha_config := (ha_config app)\<lparr>ac_input := input\<rparr>\<rparr>))"

section \<open>Video settings and transfers\<close>

definition host_apply_video :: "host_app_env \<Rightarrow> 'v host_app \<Rightarrow> 'v host_app" where
  "host_apply_video env app =
     (case apply_video_settings_from_host (he_server env) (ac_video (ha_config app)) (ha_server app) of
        (Ok control, st) \<Rightarrow>
          (let app = app\<lparr>ha_server := st, ha_last_video_revision := vs_revision (vc_settings control),
                         ha_config := (ha_config app)\<lparr>ac_video := vs_settings (vc_settings control)\<rparr>\<rparr>
           in say (lit ''Video updated live: '' @ codec_label (vr_codec (vc_runtime control)) @ lit '' via '' @ vr_encoder_name (vc_runtime control)) app)
      | (Err e, st) \<Rightarrow>
          say (lit ''Video setting rejected: '' @ e)
            (app\<lparr>ha_server := st, ha_config := (ha_config app)\<lparr>ac_video := vs_settings (app_video_settings st)\<rparr>\<rparr>))"

text \<open>The video card edits a draft; a choice of encoder or profile, or the button, applies it at once.\<close>

definition edit_video :: "host_app_env \<Rightarrow> video_config \<Rightarrow> bool \<Rightarrow> 'v host_app \<Rightarrow> 'v host_app" where
  "edit_video env draft apply_now app =
     (let app = app\<lparr>ha_config := (ha_config app)\<lparr>ac_video := draft\<rparr>\<rparr> in if apply_now then host_apply_video env app else app)"

definition edit_transfers :: "host_app_env \<Rightarrow> file_transfer_config \<Rightarrow> 'v host_app \<Rightarrow> 'v host_app" where
  "edit_transfers env f app =
     (let app = app\<lparr>ha_config := (ha_config app)\<lparr>ac_file_transfer := f\<rparr>\<rparr>;
          app = on_server (\<lambda>st. with_files st (configure_transfers (fc_enabled f) (u64_sat_mul (fc_max_file_size_mib f) (1024 * 1024))
            (fc_rate_limit_mbps f) (fc_pause_while_drawing f) (app_files st))) app
      in save_config env app)"

text \<open>Files to queue, each with what the server answered, as they are reported.\<close>

definition queue_message :: "(outgoing_file, ustring) result list \<Rightarrow> ustring" where
  "queue_message answers =
     (let errors = map err_of (filter (\<lambda>r. \<not> is_ok r) answers); count = length answers
      in if errors = [] then lit ''Queued '' @ show_nat count @ lit '' file(s) for the paired iPad''
         else lit ''Queued '' @ show_nat (count - length errors) @ lit '' file(s); '' @ show_nat (length errors) @ lit '' failed: ''
           @ hd errors @ concat (map (\<lambda>e. lit '' '' @ [183] @ lit '' '' @ e) (tl errors)))"

text \<open>Each picked file with the identifier, the time and what the system says of it.\<close>

primrec queue_files :: "host_app_env \<Rightarrow> bool \<Rightarrow> (uuid \<times> int \<times> path_facts) list \<Rightarrow> file_manager \<Rightarrow> (outgoing_file, ustring) result list \<times> file_manager" where
  "queue_files env alive [] m = ([], m)"
| "queue_files env alive (p # ps) m =
     (case p of (uid, wall, facts) \<Rightarrow>
      case queue_outgoing (ev_platform (he_server env)) alive uid wall facts m of (r, m) \<Rightarrow>
      case queue_files env alive ps m of (rs, m) \<Rightarrow> (r # rs, m))"

definition pick_files :: "host_app_env \<Rightarrow> bool \<Rightarrow> (uuid \<times> int \<times> path_facts) list \<Rightarrow> 'v host_app \<Rightarrow> 'v host_app" where
  "pick_files env alive picked app =
     (case queue_files env alive picked (app_files (ha_server app)) of
        (answers, m) \<Rightarrow> say (queue_message answers) (on_server (\<lambda>st. with_files st m) app))"

text \<open>The command line's files: the first that is refused ends the start.\<close>

primrec queue_at_start :: "platform \<Rightarrow> bool \<Rightarrow> (uuid \<times> int \<times> path_facts) list \<Rightarrow> file_manager \<Rightarrow> (unit, ustring) result \<times> file_manager" where
  "queue_at_start pf alive [] m = (Ok (), m)"
| "queue_at_start pf alive (p # ps) m =
     (case p of (uid, wall, facts) \<Rightarrow>
      case queue_outgoing pf alive uid wall facts m of
        (Ok _, m) \<Rightarrow> queue_at_start pf alive ps m
      | (Err e, m) \<Rightarrow> (Err (lit ''failed to queue '' @ pt_display facts @ lit '': '' @ e), m))"

definition remove_file :: "uuid \<Rightarrow> 'v host_app \<Rightarrow> 'v host_app" where
  "remove_file uid = on_server (\<lambda>st. with_files st (snd (remove_outgoing uid (app_files st))))"

definition clear_queue :: "'v host_app \<Rightarrow> 'v host_app" where
  "clear_queue app = say (lit ''Cleared the iPad download queue; source files were not deleted'')
     (on_server (\<lambda>st. with_files st (clear_outgoing (app_files st))) app)"

definition reset_pairing :: "host_app_env \<Rightarrow> (uuid \<Rightarrow> bool) \<Rightarrow> session_draws \<Rightarrow> 'v host_app \<Rightarrow> 'v host_app" where
  "reset_pairing env removed draws app =
     say (lit ''PIN and QR rotated; any connected iPad was disconnected'') (on_server (rotate_pairing (he_server env) removed draws) app)"

definition clear_learned :: "host_app_env \<Rightarrow> 'v host_app \<Rightarrow> 'v host_app" where
  "clear_learned env app =
     (case clear_auto_benchmarks (he_library env) (capture_of app) of
        (Ok _, m) \<Rightarrow> say (lit ''Cleared learned codec results; Auto will use its conservative policy'') (put_capture m app)
      | (Err e, m) \<Rightarrow> say (lit ''Could not clear learned results: '' @ e) (put_capture m app))"

section \<open>The background benchmark\<close>

definition running_label :: "bool \<Rightarrow> ustring" where
  "running_label full =
     (if full then lit ''Testing every functional encoder across 12 workload/geometry cases. Input remains available.''
      else lit ''Testing every functional encoder at Balanced 1080p60. Input remains available.'')"

text \<open>\<open>spawned\<close> is the answer to the request for a thread.\<close>

definition start_video_benchmark :: "bool \<Rightarrow> (unit, ustring) result \<Rightarrow> 'v host_app \<Rightarrow> 'v host_app" where
  "start_video_benchmark full spawned app =
     (if ha_benchmark_rx app \<noteq> None then app
      else
        (let running = cs_running (sh_status (cm_shared (capture_of app))); app = app\<lparr>ha_resume_capture := running\<rparr>;
             app = (if running then put_capture (manager_stop (capture_of app)) app else app);
             app = app\<lparr>ha_benchmark_rx := Some BenchmarkPending, ha_benchmark_running_label := Some (running_label full)\<rparr>
         in case spawned of
              Ok _ \<Rightarrow> app
            | Err e \<Rightarrow> say (lit ''Could not start benchmark: '' @ e) (app\<lparr>ha_benchmark_rx := None, ha_benchmark_running_label := None\<rparr>)))"

text \<open>What the thread does, on a driver of its own.\<close>

definition benchmark_worker :: "benchmark_library \<Rightarrow> export_json \<Rightarrow> encoder_capability list \<Rightarrow> bool \<Rightarrow> ustring \<Rightarrow> nat \<Rightarrow> driver
    \<Rightarrow> ((ustring \<times> host_benchmark_report, ustring) result \<times> driver) option" where
  "benchmark_worker lib json capabilities full output now d =
     (case run_host_benchmark_suite lib capabilities (if full then full_benchmark_cases 120 else quick_benchmark_cases 180) all_encoder_modes now d of
        None \<Rightarrow> None
      | Some (report, d) \<Rightarrow>
          (case write_benchmark_exports json report d of
             (Ok _, _, d) \<Rightarrow> Some (Ok (output, report), d)
           | (Err e, _, d) \<Rightarrow> Some (Err (lit ''benchmark export failed: '' @ e), d)))"

definition worker_sends :: "benchmark_channel \<Rightarrow> 'v host_app \<Rightarrow> 'v host_app" where
  "worker_sends message app = (if ha_benchmark_rx app = Some BenchmarkPending then app\<lparr>ha_benchmark_rx := Some message\<rparr> else app)"

definition take_benchmark :: "(ustring \<times> host_benchmark_report, ustring) result \<Rightarrow> 'v host_app \<Rightarrow> 'v host_app" where
  "take_benchmark r app =
     (let app = app\<lparr>ha_benchmark_rx := None, ha_benchmark_running_label := None\<rparr>;
          app = (case r of
              Ok (path, report) \<Rightarrow> say (lit ''Benchmark complete: '' @ path) (app\<lparr>ha_benchmark_report_path := Some path, ha_benchmark_report := Some report\<rparr>)
            | Err e \<Rightarrow> say e app);
          app = (if ha_resume_capture app \<and> ac_mode (ha_config app) \<noteq> InputOnly then
              (case start_monitor (ha_selected_index app) (capture_of app) of
                 (Ok _, m) \<Rightarrow> put_capture m app
               | (Err e, m) \<Rightarrow> say (lit ''Benchmark finished, but capture could not resume: '' @ e) (put_capture m app))
            else app)
      in app\<lparr>ha_resume_capture := False\<rparr>)"

definition poll_video_benchmark :: "'v host_app \<Rightarrow> 'v host_app" where
  "poll_video_benchmark app =
     (case ha_benchmark_rx app of
        None \<Rightarrow> app
      | Some BenchmarkPending \<Rightarrow> app
      | Some (BenchmarkSent r) \<Rightarrow> take_benchmark r app
      | Some BenchmarkGone \<Rightarrow> take_benchmark (Err (lit ''benchmark worker stopped without a report'')) app)"

section \<open>A frame of the window, and the exit\<close>

definition sync_video :: "'v host_app \<Rightarrow> 'v host_app" where
  "sync_video app =
     (let current = app_video_settings (ha_server app)
      in if vs_revision current \<noteq> ha_last_video_revision app
         then app\<lparr>ha_last_video_revision := vs_revision current, ha_config := (ha_config app)\<lparr>ac_video := vs_settings current\<rparr>\<rparr> else app)"

definition sync_input :: "host_app_env \<Rightarrow> 'v host_app \<Rightarrow> 'v host_app" where
  "sync_input env app =
     (let current = app_input_settings (ha_server app)
      in if ic_revision current \<noteq> ha_last_input_revision app
         then save_config env (app\<lparr>ha_last_input_revision := ic_revision current, ha_config := (ha_config app)\<lparr>ac_input :=
           (ac_input (ha_config app))\<lparr>ic_touch := ri_touch_enabled (ic_settings current), ic_gestures := ri_gestures_enabled (ic_settings current)\<rparr>\<rparr>\<rparr>)
         else app)"

definition ui_frame :: "host_app_env \<Rightarrow> bool \<Rightarrow> (uuid \<Rightarrow> bool) \<Rightarrow> session_draws \<Rightarrow> 'v host_app \<Rightarrow> 'v host_app" where
  "ui_frame env focused removed draws app =
     (let app = sync_input env (sync_video (poll_video_benchmark app))
      in if \<not> focused then app
         else (case rotate_pairing_if_expired (he_server env) removed draws (ha_server app) of
             (True, st) \<Rightarrow> say (lit ''Expired PIN and QR code rotated automatically'') (app\<lparr>ha_server := st\<rparr>)
           | (False, st) \<Rightarrow> app\<lparr>ha_server := st\<rparr>))"

definition on_exit :: "host_app_env \<Rightarrow> 'v host_app \<Rightarrow> 'v host_app" where
  "on_exit env app =
     (let app = on_injector release_native app;
          app = put_capture (manager_stop (capture_of app)) app;
          app = app\<lparr>ha_config := (ha_config app)\<lparr>ac_video := vs_settings (app_video_settings (ha_server app))\<rparr>\<rparr>
      in save_config env app)"

section \<open>Histories of the program\<close>

datatype 'v app_event =
    AppFrame bool "uuid \<Rightarrow> bool" session_draws
  | AppVideo video_config bool
  | AppMonitor nat
  | AppInput input_config
  | AppTransfers file_transfer_config
  | AppFiles bool "(uuid \<times> int \<times> path_facts) list"
  | AppRemoveFile uuid
  | AppChecksum io_outcome "ustring \<Rightarrow> u8 list option"
  | AppClearQueue
  | AppResetPairing "uuid \<Rightarrow> bool" session_draws
  | AppClearLearned
  | AppBenchmark bool "(unit, ustring) result"
  | AppWorker benchmark_channel
  | AppHost "'v host_event"

primrec app_step :: "host_app_env \<Rightarrow> 'v app_event \<Rightarrow> 'v host_app \<Rightarrow> 'v host_app" where
  "app_step env (AppFrame focused removed draws) app = ui_frame env focused removed draws app"
| "app_step env (AppVideo draft now) app = edit_video env draft now app"
| "app_step env (AppMonitor index) app = pick_monitor env index app"
| "app_step env (AppInput input) app = edit_input env input app"
| "app_step env (AppTransfers f) app = edit_transfers env f app"
| "app_step env (AppFiles alive picked) app = pick_files env alive picked app"
| "app_step env (AppRemoveFile uid) app = remove_file uid app"
| "app_step env (AppChecksum outcome disk) app =
     on_server (\<lambda>st. with_files st (checksum_step (ev_platform (he_server env)) outcome disk (app_files st))) app"
| "app_step env (AppResetPairing removed draws) app = reset_pairing env removed draws app"
| "app_step env AppClearQueue app = clear_queue app"
| "app_step env AppClearLearned app = clear_learned env app"
| "app_step env (AppBenchmark full spawned) app = start_video_benchmark full spawned app"
| "app_step env (AppWorker message) app = worker_sends message app"
| "app_step env (AppHost e) app = on_server (host_step (he_server env) e) app"

text \<open>The histories whose actions all satisfy \<open>admits\<close>.\<close>

inductive app_run :: "picture_library \<Rightarrow> host_app_env \<Rightarrow> ('v app_event \<Rightarrow> bool) \<Rightarrow> 'v host_app \<Rightarrow> 'v host_app \<Rightarrow> bool" for pl env admits a0 where
  app_refl: "app_run pl env admits a0 a0"
| app_event: "app_run pl env admits a0 a \<Longrightarrow> admits e \<Longrightarrow> app_run pl env admits a0 (app_step env e a)"
| app_thread: "app_run pl env admits a0 a \<Longrightarrow> thread_step pl (cm_shared (capture_of a)) sh \<Longrightarrow>
    app_run pl env admits a0 (put_capture ((capture_of a)\<lparr>cm_shared := sh\<rparr>) a)"

end
