(* ===== verification/Runtime.thy ===== *)
theory Runtime
  imports Host_Runs
begin

text \<open>
  The contract of \<open>VideoSettingsRuntime\<close> as the server relies on it: whatever the server asks of its runtime, the
  runtime's state only evolves, for a relation the implementation chooses.  Every event of a host then keeps it.
\<close>

locale evolving_runtime =
  fixes rt :: "'r video_runtime"
    and evolves :: "'r \<Rightarrow> 'r \<Rightarrow> bool"
  assumes evolves_refl: "evolves r r"
    and apply_evolves: "evolves r r' \<Longrightarrow> evolves r (snd (rtm_apply rt v b r'))"
    and record_evolves: "evolves r r' \<Longrightarrow> evolves r (snd (rtm_record rt ob r'))"
    and clear_evolves: "evolves r r' \<Longrightarrow> evolves r (snd (rtm_clear rt r'))"
begin

lemma run_apply_evolves:
  assumes "ev_runtime env = rt" "evolves r (app_runtime st)"
  shows "evolves r (app_runtime (snd (run_apply env v b st)))"
  using assms apply_evolves [of r "app_runtime st" v b] by (simp add: run_apply_def split_beta)

lemma shared_steps_runtime [simp]:
  "app_runtime (reset_input env st) = app_runtime st" "app_runtime (forget_continuity st) = app_runtime st"
  "app_runtime (close_peer st) = app_runtime st" "app_runtime (codec_switched env c x st) = app_runtime st"
  "app_runtime (with_files st m) = app_runtime st" "app_runtime (close_active_peer env st) = app_runtime st"
  by (simp_all add: reset_input_def forget_continuity_def close_peer_def codec_switched_def with_files_def close_active_peer_def)

lemma apply_video_evolves:
  assumes "ev_runtime env = rt" "evolves r (app_runtime st)"
  shows "evolves r (app_runtime (snd (apply_video_settings_state env v expected st)))"
proof -
  have two: "evolves r (app_runtime (snd (run_apply env v2 b2 ((snd (run_apply env v1 b1 st))\<lparr>app_disk := disk\<rparr>))))" for v1 b1 v2 b2 disk
    using run_apply_evolves [OF assms, of v1 b1] by (intro run_apply_evolves [OF assms(1)]) simp
  show ?thesis
    using assms(2) run_apply_evolves [OF assms] two
    by (auto simp: apply_video_settings_state_def Let_def split_beta split: result.split)
qed

lemma set_video_evolves:
  assumes "ev_runtime env = rt" "evolves r (app_runtime st)"
  shows "evolves r (app_runtime (snd (set_video_settings env hs q st)))"
proof -
  obtain q1 st1 where "apply_video_settings_state env (sv_settings q) (Some (sv_base_revision q)) st = (q1, st1)" by fastforce
  with apply_video_evolves [OF assms, of "sv_settings q" "Some (sv_base_revision q)"] assms(2) show ?thesis
    by (cases q1) (auto simp: set_video_settings_def video_ok_def Let_def)
qed

lemma browser_video_evolves:
  assumes "ev_runtime env = rt" "evolves r (app_runtime st)"
  shows "evolves r (app_runtime (snd (set_browser_video_capabilities env hs b st)))"
proof -
  obtain q1 st1 where "run_apply env (vs_settings (app_video_settings st)) b st = (q1, st1)" by fastforce
  with run_apply_evolves [OF assms, of "vs_settings (app_video_settings st)" b] assms(2) show ?thesis
    by (cases q1) (auto simp: set_browser_video_capabilities_def video_ok_def Let_def)
qed

lemma presented_evolves:
  assumes "ev_runtime env = rt" "evolves r (app_runtime st)"
  shows "evolves r (app_runtime (snd (video_presented env hs x st)))"
proof -
  have "evolves r (app_runtime (snd (run_apply env v b (st\<lparr>app_browser_video := b'\<rparr>))))" for v b b'
    using assms(2) by (intro run_apply_evolves [OF assms(1)]) simp
  moreover obtain q1 st1 where run: "run_apply env (vs_settings (app_video_settings st)) (browser_modify (pr_codec x) (note_presented x) (app_browser_video st))
      (st\<lparr>app_browser_video := browser_modify (pr_codec x) (note_presented x) (app_browser_video st)\<rparr>) = (q1, st1)"
    by fastforce
  ultimately have "evolves r (app_runtime st1)" by (metis snd_conv)
  with assms(2) run show ?thesis
    by (cases q1) (auto simp: video_presented_def video_ok_def Let_def)
qed

lemma benchmark_evolves:
  assumes "ev_runtime env = rt" "evolves r (app_runtime st)"
  shows "evolves r (app_runtime (snd (record_video_benchmark env hs ob st)))" "evolves r (app_runtime (snd (clear_video_benchmarks env hs st)))"
proof -
  note recorded = record_evolves [OF assms(2)] and cleared = clear_evolves [OF assms(2)]
  have after: "evolves r (app_runtime (snd (run_apply env v b (st\<lparr>app_runtime := m\<rparr>))))" if "evolves r m" for v b m
    using that by (intro run_apply_evolves [OF assms(1)]) simp
  from assms recorded cleared after [OF recorded] after [OF cleared]
  show "evolves r (app_runtime (snd (record_video_benchmark env hs ob st)))" "evolves r (app_runtime (snd (clear_video_benchmarks env hs st)))"
    by (auto simp: record_video_benchmark_def clear_video_benchmarks_def video_ok_def Let_def split_beta split: result.split)
qed

lemma input_state_runtime [simp]: "app_runtime (snd (apply_input_settings_state env x expected st)) = app_runtime st"
  by (auto simp: apply_input_settings_state_def forget_continuity_def Let_def split: result.splits prod.splits)

lemma other_requests_runtime:
  assumes "\<forall>x. q \<noteq> ReqSetVideo x" "\<forall>x. q \<noteq> ReqBrowser x" "\<forall>x. q \<noteq> ReqPresented x" "\<forall>x. q \<noteq> ReqBenchmark x" "q \<noteq> ReqClearBenchmarks" "\<forall>x. q \<noteq> ReqSetInput x"
  shows "app_runtime (snd (handle env hs q st)) = app_runtime st"
  using assms
  by (cases q)
    (auto simp: handler_defs pair_handler_def disconnect_handler_def reset_input_def forget_continuity_def close_peer_def with_files_def
      split: if_splits option.splits prod.splits result.splits)

lemma request_evolves:
  assumes "ev_runtime env = rt" "evolves r (app_runtime st)"
  shows "evolves r (app_runtime (snd (handle env hs q st)))"
proof -
  have input: "app_runtime (snd (set_input_settings env hs x st)) = app_runtime st" for x
  proof -
    obtain q1 st1 where run: "apply_input_settings_state env (sir_settings x) (Some (sir_base_revision x)) st = (q1, st1)" by fastforce
    with input_state_runtime [of env "sir_settings x" "Some (sir_base_revision x)" st] have "app_runtime st1 = app_runtime st" by simp
    with run show ?thesis by (cases q1) (auto simp: set_input_settings_def)
  qed
  show ?thesis
    using set_video_evolves [OF assms] browser_video_evolves [OF assms] presented_evolves [OF assms] benchmark_evolves [OF assms] assms(2) input
      other_requests_runtime [of q env hs st]
    by (cases q) (simp_all add: handle_def answered_def)
qed

lemma host_step_evolves:
  assumes "ev_runtime env = rt" "evolves r (app_runtime st)"
  shows "evolves r (app_runtime (host_step env e st))"
proof (cases e)
  case (HostRequest hs q)
  with request_evolves [OF assms] show ?thesis by (simp add: host_step_def)
next
  case (HostSetsVideo v)
  obtain q1 st1 where "apply_video_settings_state env v None st = (q1, st1)" by fastforce
  with apply_video_evolves [OF assms, of v None] HostSetsVideo show ?thesis
    by (cases q1) (auto simp: host_step_def apply_video_settings_from_host_def Let_def)
next
  case (HostSetsInput x)
  with assms(2) show ?thesis by (simp add: host_step_def apply_input_settings_from_host_def)
qed (use assms(2) in \<open>auto simp: host_step_def socket_step_def socket_end_def with_shared_def rotate_pairing_def rotate_pairing_if_expired_def
    control_message_def Let_def split: socket_event.splits prod.splits option.splits if_splits\<close>)

end

end
