(* ===== verification/Host_App_Runs.thy ===== *)
theory Host_App_Runs
  imports Host_Actions Runtime
begin

text \<open>
  Invariants of the whole program, over its actions and the threads of the capture in any order: what holds of the
  capture manager, and what holds of the server and of the input sink behind the window.
\<close>

section \<open>What an action leaves alone\<close>

lemma capture_of_simps [simp]:
  "capture_of (say t app) = capture_of app" "capture_of (save_config env app) = capture_of app" "capture_of (on_injector f app) = capture_of app"
  "capture_of (put_capture m app) = m" "capture_of (app\<lparr>ha_config := c\<rparr>) = capture_of app"
  "capture_of (app\<lparr>ha_selected_index := i\<rparr>) = capture_of app" "capture_of (app\<lparr>ha_last_video_revision := r\<rparr>) = capture_of app"
  "capture_of (app\<lparr>ha_last_input_revision := r\<rparr>) = capture_of app" "capture_of (app\<lparr>ha_benchmark_rx := x\<rparr>) = capture_of app"
  "capture_of (app\<lparr>ha_benchmark_running_label := l\<rparr>) = capture_of app" "capture_of (app\<lparr>ha_benchmark_report_path := l\<rparr>) = capture_of app"
  "capture_of (app\<lparr>ha_benchmark_report := y\<rparr>) = capture_of app" "capture_of (app\<lparr>ha_resume_capture := b\<rparr>) = capture_of app"
  "capture_of (app\<lparr>ha_server := st\<rparr>) = app_runtime st"
  by (auto simp: capture_of_def say_def save_config_def on_injector_def put_capture_def on_server_def split: host_input.splits prod.splits)

lemma config_simps [simp]:
  "ha_config (say t app) = ha_config app" "ha_config (save_config env app) = ha_config app" "ha_config (on_injector f app) = ha_config app"
  "ha_config (put_capture m app) = ha_config app" "ha_config (on_server g app) = ha_config app"
  by (auto simp: say_def save_config_def on_injector_def put_capture_def on_server_def split: host_input.splits prod.splits)

lemma on_server_capture [simp]: "app_runtime (g (ha_server app)) = app_runtime (ha_server app) \<Longrightarrow> capture_of (on_server g app) = capture_of app"
  by (simp add: on_server_def capture_of_def)

lemma server_simps [simp]:
  "ha_server (say t app) = ha_server app" "ha_server (put_capture m app) = (ha_server app)\<lparr>app_runtime := m\<rparr>"
  "ha_server (on_server g app) = g (ha_server app)"
  by (simp_all add: say_def put_capture_def on_server_def)

lemma take_benchmark_config: "ha_config (take_benchmark r app) = ha_config app"
  by (auto simp: take_benchmark_def Let_def split_beta split: result.splits)

lemma poll_config [simp]: "ha_config (poll_video_benchmark app) = ha_config app"
  by (simp add: poll_video_benchmark_def take_benchmark_config split: option.splits benchmark_channel.splits)

lemma sync_fixed [simp]:
  "ac_mode (ha_config (sync_video app)) = ac_mode (ha_config app)" "ac_mode (ha_config (sync_input env app)) = ac_mode (ha_config app)"
  "ac_network (ha_config (sync_video app)) = ac_network (ha_config app)" "ac_network (ha_config (sync_input env app)) = ac_network (ha_config app)"
  by (simp_all add: sync_video_def sync_input_def Let_def)

lemma apply_fixed [simp]:
  "ac_mode (ha_config (apply_input_options env app)) = ac_mode (ha_config app)" "ac_mode (ha_config (host_apply_video env app)) = ac_mode (ha_config app)"
  "ac_network (ha_config (apply_input_options env app)) = ac_network (ha_config app)"
  "ac_network (ha_config (host_apply_video env app)) = ac_network (ha_config app)"
  by (auto simp: apply_input_options_def host_apply_video_def Let_def split: prod.splits result.splits)

text \<open>The mode of the session and the settings of the network come from the command line or the file, never from the window.\<close>

lemma app_step_fixed [simp]:
  "ac_mode (ha_config (app_step env e app)) = ac_mode (ha_config app)" "ac_network (ha_config (app_step env e app)) = ac_network (ha_config app)"
proof -
  have "ac_mode (ha_config (app_step env e app)) = ac_mode (ha_config app) \<and> ac_network (ha_config (app_step env e app)) = ac_network (ha_config app)"
  proof (cases e)
    case (AppFrame focused removed draws)
    then show ?thesis by (auto simp: ui_frame_def Let_def split: prod.splits bool.splits)
  next
    case (AppMonitor i)
    then show ?thesis
      by (auto simp: pick_monitor_def change_monitor_def Let_def split: option.splits prod.splits result.splits)
  qed (auto simp: edit_video_def edit_input_def edit_transfers_def pick_files_def remove_file_def reset_pairing_def clear_queue_def clear_learned_def
      start_video_benchmark_def worker_sends_def Let_def split: prod.splits result.splits)
  then show "ac_mode (ha_config (app_step env e app)) = ac_mode (ha_config app)"
    "ac_network (ha_config (app_step env e app)) = ac_network (ha_config app)" by simp_all
qed

lemma app_run_fixed:
  assumes "app_run pl env admits a0 a"
  shows "ac_mode (ha_config a) = ac_mode (ha_config a0)" "ac_network (ha_config a) = ac_network (ha_config a0)"
  using assms by (induction rule: app_run.induct) simp_all

section \<open>Invariants of the capture\<close>

text \<open>
  A property of the capture manager that everything the program does with it keeps; in the mode without a display
  the program never starts a capture.
\<close>

locale capture_invariant =
  fixes pl :: picture_library
    and lib :: manager_library
    and mode :: capture_mode
    and holds :: "capture_manager \<Rightarrow> bool"
  assumes keep_apply: "holds m \<Longrightarrow> apply_video_settings lib v b m = Some (r, m') \<Longrightarrow> holds m'"
    and keep_record: "holds m \<Longrightarrow> record_auto_benchmark lib ob m = (q, m') \<Longrightarrow> holds m'"
    and keep_clear: "holds m \<Longrightarrow> clear_auto_benchmarks lib m = (q, m') \<Longrightarrow> holds m'"
    and keep_stop: "holds m \<Longrightarrow> holds (manager_stop m)"
    and keep_monitor: "mode \<noteq> InputOnly \<Longrightarrow> holds m \<Longrightarrow> start_monitor i m = (q, m') \<Longrightarrow> holds m'"
    and keep_thread: "holds m \<Longrightarrow> thread_step pl (cm_shared m) sh \<Longrightarrow> holds (m\<lparr>cm_shared := sh\<rparr>)"
begin

sublocale evolving_runtime "capture_runtime lib" "\<lambda>r r'. holds r \<longrightarrow> holds r'"
proof unfold_locales
  show "holds r \<longrightarrow> holds (snd (rtm_apply (capture_runtime lib) v b r'))" if "holds r \<longrightarrow> holds r'" for r r' v b
  proof (cases "apply_video_settings lib v b r'")
    case (Some x)
    with that keep_apply [of r' v b "fst x" "snd x"] show ?thesis by (simp add: capture_runtime_def)
  qed (use that in \<open>simp add: capture_runtime_def\<close>)
  show "holds r \<longrightarrow> holds (snd (rtm_record (capture_runtime lib) ob r'))" if "holds r \<longrightarrow> holds r'" for r r' ob
    using that keep_record [of r' ob "fst (record_auto_benchmark lib ob r')" "snd (record_auto_benchmark lib ob r')"] by (simp add: capture_runtime_def)
  show "holds r \<longrightarrow> holds (snd (rtm_clear (capture_runtime lib) r'))" if "holds r \<longrightarrow> holds r'" for r r'
    using that keep_clear [of r' "fst (clear_auto_benchmarks lib r')" "snd (clear_auto_benchmarks lib r')"] by (simp add: capture_runtime_def)
qed simp

lemma host_keeps:
  assumes "ready_env env debug" "he_library env = lib" "holds (app_runtime st)"
  shows "holds (app_runtime (host_step (he_server env) e st))"
  using host_step_evolves [of "he_server env" "app_runtime st" st e] assms by (simp add: ready_env_def)

lemmas host_parts = host_keeps [where e = "HostSetsInput x" for x] host_keeps [where e = "HostSetsVideo v" for v]
  host_keeps [where e = "HostRotatesExpired removed d" for removed d]

lemma monitor_keeps: "mode \<noteq> InputOnly \<Longrightarrow> holds m \<Longrightarrow> holds (snd (start_monitor i m))"
  using keep_monitor [of m i "fst (start_monitor i m)" "snd (start_monitor i m)"] by simp

lemma take_benchmark_keeps:
  assumes "ac_mode (ha_config app) = mode" "holds (capture_of app)"
  shows "holds (capture_of (take_benchmark r app))"
  using assms monitor_keeps
  by (auto simp: take_benchmark_def Let_def split_beta split: result.splits)

lemma poll_keeps:
  assumes "ac_mode (ha_config app) = mode" "holds (capture_of app)"
  shows "holds (capture_of (poll_video_benchmark app))"
  using take_benchmark_keeps [OF assms] assms(2) by (simp add: poll_video_benchmark_def split: option.splits benchmark_channel.splits)

lemma step_keeps:
  fixes app :: "'v host_app"
  assumes env: "ready_env env debug" "he_library env = lib" and mode: "ac_mode (ha_config app) = mode" and ok: "holds (capture_of app)"
  shows "holds (capture_of (app_step env e app))"
proof (cases e)
  case (AppFrame focused removed draws)
  let ?app = "sync_input env (sync_video (poll_video_benchmark app))"
  have at: "holds (capture_of ?app)"
    using poll_keeps [OF mode ok] by (simp add: sync_input_def sync_video_def Let_def)
  obtain b st where turn: "rotate_pairing_if_expired (he_server env) removed draws (ha_server ?app) = (b, st)" by fastforce
  from host_parts(3) [OF env, of "ha_server ?app" removed draws] at turn have "holds (app_runtime st)"
    by (simp add: host_step_def capture_of_def)
  with AppFrame at turn show ?thesis by (cases b) (simp_all add: ui_frame_def Let_def)
next
  case (AppVideo draft now)
  have "holds (capture_of (host_apply_video env a))" if "holds (capture_of a)" for a :: "'v host_app"
  proof -
    obtain r st where run: "apply_video_settings_from_host (he_server env) (ac_video (ha_config a)) (ha_server a) = (r, st)" by fastforce
    from host_parts(2) [OF env, of "ha_server a" "ac_video (ha_config a)"] that run have "holds (app_runtime st)"
      by (simp add: host_step_def capture_of_def)
    with run show ?thesis by (cases r) (simp_all add: host_apply_video_def Let_def)
  qed
  with ok AppVideo show ?thesis by (simp add: edit_video_def Let_def)
next
  case (AppMonitor i)
  have "holds (capture_of (change_monitor env a))" if "ac_mode (ha_config a) = mode" "holds (capture_of a)" for a :: "'v host_app"
    using that monitor_keeps by (auto simp: change_monitor_def Let_def split_beta split: option.splits result.splits)
  with mode ok AppMonitor show ?thesis by (simp add: pick_monitor_def)
next
  case (AppInput input)
  have "holds (capture_of (apply_input_options env a))" if "holds (capture_of a)" for a :: "'v host_app"
  proof -
    let ?a = "on_injector (\<lambda>i d. case release_native i d of (i, d) \<Rightarrow> (set_options (options_of_input (ac_input (ha_config a))) i, d)) a"
    let ?x = "\<lparr>ri_touch_enabled = ic_touch (ac_input (ha_config a)), ri_gestures_enabled = ic_gestures (ac_input (ha_config a))\<rparr>"
    obtain r st where run: "apply_input_settings_from_host (he_server env) ?x (ha_server ?a) = (r, st)" by fastforce
    have "holds (app_runtime (ha_server ?a))" using that capture_of_simps(3) [of _ a] unfolding capture_of_def by metis
    from host_parts(1) [OF env this, of ?x] run have "holds (app_runtime st)" by (simp add: host_step_def)
    with run show ?thesis by (cases r) (simp_all add: apply_input_options_def Let_def)
  qed
  with ok AppInput show ?thesis by (simp add: edit_input_def)
next
  case (AppBenchmark full spawned)
  with ok keep_stop show ?thesis by (auto simp: start_video_benchmark_def Let_def split: result.splits)
next
  case (AppHost h)
  with host_keeps [OF env, of "ha_server app" h] ok show ?thesis by (simp add: capture_of_def)
next
  case AppClearLearned
  with ok keep_clear [of "capture_of app"] env(2) show ?thesis
    by (auto simp: clear_learned_def split: prod.splits result.splits)
next
  case (AppResetPairing removed draws)
  with host_keeps [OF env, of "ha_server app" "HostRotates removed draws"] ok show ?thesis
    by (simp add: reset_pairing_def host_step_def capture_of_def)
qed (use ok in \<open>simp_all add: edit_transfers_def pick_files_def remove_file_def clear_queue_def worker_sends_def with_files_def Let_def
    split: prod.splits\<close>)

lemma run_keeps:
  assumes "app_run pl env admits a0 a" "ready_env env debug" "he_library env = lib" "ac_mode (ha_config a0) = mode" "holds (capture_of a0)"
  shows "holds (capture_of a)"
  using assms(1)
proof (induction rule: app_run.induct)
  case app_refl
  show ?case using assms(5) .
next
  case (app_event a e)
  have "ac_mode (ha_config a) = mode" using app_run_fixed(1) [OF app_event.hyps(1)] assms(4) by simp
  from step_keeps [OF assms(2,3) this app_event.IH] show ?case .
next
  case (app_thread a sh)
  then show ?case using keep_thread by simp
qed

end

text \<open>The history itself, seen from the capture manager.\<close>

interpretation traced: capture_invariant pl lib mode "manager_run pl lib m0"
  by unfold_locales (auto intro: run_apply run_record run_clear run_stop run_monitor run_thread)

text \<open>Without a display there is neither a source nor a session nor a thread.\<close>

definition no_capture :: "capture_manager \<Rightarrow> bool" where
  "no_capture m \<longleftrightarrow> cm_source m = None \<and> \<not> cm_control m \<and> \<not> cm_producer_thread m \<and> \<not> cm_encoder_thread m"

lemma no_capture_apply:
  assumes "no_capture m" "apply_video_settings lib v b m = Some (r, m')"
  shows "no_capture m'"
  using assms(2)
proof (cases rule: apply_cases)
  case (untested e chosen)
  with assms(1) show ?thesis by (simp add: live_selection_def no_capture_def)
next
  case (switched mode reason name chosen m1)
  from switched(2) assms(1) have "m1 = m" by (simp add: live_selection_def no_capture_def)
  moreover obtain n where n: "n = commit_settings v b chosen m" "no_capture n"
    using assms(1) by (auto simp: commit_settings_def no_capture_def Let_def split: prod.splits)
  ultimately have "switch_settings v b chosen m1 = (Ok (cm_runtime (finish_switch (fst chosen) n)), finish_switch (fst chosen) n)"
    by (simp add: switch_settings_def restart_for_cursor_def no_capture_def Let_def)
  with switched(3) n(2) show ?thesis by (auto simp: finish_switch_def no_capture_def on_shared_def)
qed (use assms(1) in \<open>auto simp: no_capture_def\<close>)

interpretation undisplayed: capture_invariant pl lib InputOnly no_capture
proof unfold_locales
  show "no_capture m'" if "no_capture m" "record_auto_benchmark lib ob m = (q, m')" for m ob q m'
    using that by (auto simp: record_auto_benchmark_def no_capture_def Let_def split: result.splits prod.splits)
  show "no_capture m'" if "no_capture m" "clear_auto_benchmarks lib m = (q, m')" for m q m'
    using that by (auto simp: clear_auto_benchmarks_def no_capture_def Let_def split: prod.splits)
  show "no_capture (manager_stop m)" if "no_capture m" for m
    using that by (simp add: manager_stop_def no_capture_def on_shared_def Let_def)
  show "no_capture m'" if "no_capture m" "apply_video_settings lib v b m = Some (r, m')" for m v b r m'
    using that by (rule no_capture_apply)
qed (simp_all add: no_capture_def)

section \<open>Invariants of the input\<close>

definition app_polite :: "(sink_call \<Rightarrow> bool) \<Rightarrow> 'v app_event \<Rightarrow> bool" where
  "app_polite polite e = (case e of
     AppHost h \<Rightarrow> host_polite polite h
   | AppTransfers f \<Rightarrow> 16 \<le> fc_max_file_size_mib f \<and> fc_max_file_size_mib f \<le> 102400
   | _ \<Rightarrow> True)"

lemma host_ok_runtime [simp]: "host_ok sound cr (st\<lparr>app_runtime := m\<rparr>) = host_ok sound cr st"
  by (simp add: host_ok_def)

lemma files_step_ok:
  assumes "host_ok sound cr st" "transfer_step pf who (app_files st) m"
  shows "host_ok sound cr (with_files st m)"
  using step_isolates [OF assms(2)] assms(1) by (simp add: host_ok_def isolates_def with_files_def)

lemma queue_files_ok: "uploads_ok m \<Longrightarrow> uploads_ok (snd (queue_files env alive ps m))"
proof (induction ps arbitrary: m)
  case (Cons p ps)
  obtain uid wall facts where p: "p = (uid, wall, facts)" by (cases p) auto
  let ?m = "snd (queue_outgoing (ev_platform (he_server env)) alive uid wall facts m)"
  have "uploads_ok ?m" using step_isolates [OF transfer_step.queue Cons.prems] by (simp add: isolates_def)
  from Cons.IH [OF this] p show ?case by (simp add: split_beta)
qed simp

lemma slider_size:
  fixes n :: u64
  assumes "n \<le> 102400"
  shows "u64_sat_mul n (1024 * 1024) \<noteq> - 1"
proof -
  from assms have "unat n \<le> 102400" by (simp add: word_le_nat_alt)
  then have m: "unat n * 1048576 \<le> 102400 * 1048576" by (rule mult_le_mono1)
  then have "unat (n * 1048576) = unat n * 1048576" by (subst unat_mult_lem [THEN iffD1]) simp_all
  with m show ?thesis by (auto simp: u64_sat_mul_def unsigned_minus_1_eq_mask mask_eq_exp_minus_1)
qed

text \<open>The window uses the injector behind the server's sink: it releases, moves the target and changes the options.\<close>

locale window_input = releasing_sink "host_sink debug" sound polite free
  for debug :: bool and sound :: "host_input \<Rightarrow> bool" and polite free +
  assumes target_sound: "sound (NativeInput (i, d)) \<Longrightarrow> sound (NativeInput (set_target g i, d))"
    and options_set_sound: "sound (NativeInput (i, d)) \<Longrightarrow> sound (NativeInput (set_options opts i, d))"
begin

abbreviation app_ok :: "host_app_env \<Rightarrow> 'v host_app \<Rightarrow> bool" where
  "app_ok env app \<equiv> host_ok sound (ev_crypto (he_server env)) (ha_server app)"

lemma release_sound: "sound (NativeInput (i, d)) \<Longrightarrow> sound (NativeInput (release_native i d))"
  using reset_sound [of "NativeInput (i, d)"] by (auto simp: host_sink_def dispatch_def injector_sink_def on_pair_def release_native_def split: prod.splits)

lemma window_ok [simp]:
  "app_ok env (say t app) = app_ok env app" "app_ok env (save_config env' app) = app_ok env app" "app_ok env (put_capture m app) = app_ok env app"
  by (simp_all add: host_ok_def save_config_def)

lemma injector_ok:
  assumes "app_ok env app" "\<And>i d. sound (NativeInput (i, d)) \<Longrightarrow> sound (NativeInput (f i d))"
  shows "app_ok env (on_injector f app)"
  using assms by (auto simp: on_injector_def on_server_def host_ok_def split: host_input.splits)

lemma take_benchmark_ok: "app_ok env app \<Longrightarrow> app_ok env (take_benchmark r app)"
  by (auto simp: take_benchmark_def Let_def split_beta split: result.splits)

lemma step_ok:
  fixes app :: "'v host_app"
  assumes env: "ready_env env debug" and ok: "app_ok env app" and polite: "app_polite polite e"
  shows "app_ok env (app_step env e app)"
proof -
  have host: "host_ok sound (ev_crypto (he_server env)) (host_step (he_server env) h st)"
    if "host_ok sound (ev_crypto (he_server env)) st" "host_polite polite h" for h and st :: "(host_input, capture_manager, 'v) app_state"
    using host_step_ok [OF that(1) _ that(2)] env by (simp add: ready_env_def)
  show ?thesis
  proof (cases e)
    case (AppFrame focused removed draws)
    let ?app = "sync_input env (sync_video (poll_video_benchmark app))"
    have at: "app_ok env ?app"
      using ok take_benchmark_ok
      by (auto simp: sync_input_def sync_video_def poll_video_benchmark_def Let_def split: option.splits benchmark_channel.splits)
    obtain b st where turn: "rotate_pairing_if_expired (he_server env) removed draws (ha_server ?app) = (b, st)" by fastforce
    from host [OF at, of "HostRotatesExpired removed draws"] turn have "host_ok sound (ev_crypto (he_server env)) st"
      by (simp add: host_step_def host_polite_def)
    with AppFrame at turn show ?thesis by (cases b) (simp_all add: ui_frame_def Let_def)
  next
    case (AppVideo draft now)
    have "app_ok env (host_apply_video env a)" if "app_ok env a" for a :: "'v host_app"
    proof -
      obtain r st where run: "apply_video_settings_from_host (he_server env) (ac_video (ha_config a)) (ha_server a) = (r, st)" by fastforce
      from host [OF that, of "HostSetsVideo (ac_video (ha_config a))"] run have "host_ok sound (ev_crypto (he_server env)) st"
        by (simp add: host_step_def host_polite_def)
      with run show ?thesis by (cases r) (simp_all add: host_apply_video_def Let_def)
    qed
    with ok AppVideo show ?thesis by (simp add: edit_video_def Let_def)
  next
    case (AppMonitor i)
    have "app_ok env (change_monitor env a)" if "app_ok env a" for a :: "'v host_app"
      using that injector_ok [OF _ target_sound] release_sound
      by (auto simp: change_monitor_def Let_def split_beta split: option.splits result.splits intro!: injector_ok target_sound)
    with ok AppMonitor show ?thesis by (simp add: pick_monitor_def)
  next
    case (AppInput input)
    have "app_ok env (apply_input_options env a)" if "app_ok env a" for a :: "'v host_app"
    proof -
      let ?a = "on_injector (\<lambda>i d. case release_native i d of (i, d) \<Rightarrow> (set_options (options_of_input (ac_input (ha_config a))) i, d)) a"
      let ?x = "\<lparr>ri_touch_enabled = ic_touch (ac_input (ha_config a)), ri_gestures_enabled = ic_gestures (ac_input (ha_config a))\<rparr>"
      obtain r st where run: "apply_input_settings_from_host (he_server env) ?x (ha_server ?a) = (r, st)" by fastforce
      have "app_ok env ?a"
        using release_sound by (intro injector_ok [OF that]) (simp add: split_beta options_set_sound)
      from host [OF this, of "HostSetsInput ?x"] run have "host_ok sound (ev_crypto (he_server env)) st"
        by (simp add: host_step_def host_polite_def)
      with run show ?thesis by (cases r) (simp_all add: apply_input_options_def Let_def)
    qed
    with ok AppInput show ?thesis by (simp add: edit_input_def)
  next
    case (AppTransfers f)
    with polite have "u64_sat_mul (fc_max_file_size_mib f) (1024 * 1024) \<noteq> - 1"
      using slider_size by (simp add: app_polite_def)
    with ok show ?thesis
      unfolding AppTransfers app_step.simps edit_transfers_def Let_def window_ok
      by (simp add: host_ok_def with_files_def configure_transfers_def uploads_ok_def)
  next
    case (AppHost h)
    with host [OF ok, of h] polite show ?thesis by (simp add: app_polite_def)
  next
    case (AppFiles alive picked)
    from ok have "uploads_ok (snd (queue_files env alive picked (app_files (ha_server app))))"
      using queue_files_ok by (simp add: host_ok_def)
    with ok AppFiles show ?thesis by (simp add: pick_files_def host_ok_def with_files_def split_beta)
  next
    case (AppRemoveFile uid)
    with files_step_ok [OF ok transfer_step.remove] show ?thesis by (simp add: remove_file_def)
  next
    case (AppChecksum outcome disk)
    with files_step_ok [OF ok transfer_step.checksum] show ?thesis by simp
  next
    case (AppResetPairing removed draws)
    with host [OF ok, of "HostRotates removed draws"] show ?thesis
      by (simp add: reset_pairing_def host_step_def host_polite_def)
  qed (use ok in \<open>auto simp: clear_queue_def clear_learned_def start_video_benchmark_def worker_sends_def host_ok_def with_files_def
      clear_outgoing_def uploads_ok_def Let_def split: prod.splits result.splits\<close>)
qed

lemma window_run_ok:
  assumes "app_run pl env (app_polite polite) a0 a" "ready_env env debug" "app_ok env a0"
  shows "app_ok env a"
  using assms(1)
proof (induction rule: app_run.induct)
  case app_refl
  show ?case using assms(3) .
next
  case (app_event a e)
  from step_ok [OF assms(2) app_event.IH app_event.hyps(2)] show ?case .
next
  case (app_thread a sh)
  then show ?case by simp
qed

end

interpretation native_window: window_input debug sound_input polite_call input_free
  by unfold_locales (auto simp: sound_input_def sound_injector_def set_target_def set_options_def)

definition only_logs :: "host_input \<Rightarrow> bool" where
  "only_logs s \<longleftrightarrow> (\<exists>l. s = LoggedInput l)"

interpretation logged_window: window_input debug only_logs "\<lambda>_. True" input_free
proof unfold_locales
  show "only_logs (snd (sink_call_run (host_sink debug) c s))" if "only_logs s" for s c
    using that by (auto simp: only_logs_def host_sink_run dispatch_def split: prod.splits)
  show "input_free t" if "only_logs s" "sk_reset_all (host_sink debug) s = (Ok (), t)" for s t
    using that by (auto simp: only_logs_def host_sink_def dispatch_def input_free_def split: prod.splits)
qed (auto simp: only_logs_def)

end
