(* ===== verification/Host_App_Props.thy ===== *)
theory Host_App_Props
  imports Host_App_Runs Manager_Props Host_Props
begin

text \<open>
  The properties of the Windows application as a whole, from the configuration file and the command line to the exit,
  over every interleaving of its actions, of requests, sockets and peer callbacks and of the threads of the capture.
\<close>

section \<open>A program that has started\<close>

text \<open>The pieces a start is given: a new session, a desktop that takes the events it has room for.\<close>

definition sane_start :: "host_app_env \<Rightarrow> app_config \<Rightarrow> start_facts \<Rightarrow> bool" where
  "sane_start env cfg facts \<longleftrightarrow> session_ok (ev_crypto (he_server env)) (sf_session facts) \<and> fc_max_file_size_mib (ac_file_transfer cfg) \<le> 102400
     \<and> cooperative (df_desktop (sf_devices facts)) \<and> dk_log (df_desktop (sf_devices facts)) = []"

lemma startup_valid: "startup_config tm c disk = Ok cfg \<Longrightarrow> video_validate (ac_video cfg) = Ok ()"
  by (auto simp: startup_config_def Let_def split: result.splits)

lemma started_parts:
  assumes "start_host lib c cfg monitors facts = Ok a0"
  obtains i input where "capture_of a0 = start_source c (ac_mode cfg) i
      (capture_manager_new lib (sf_metrics facts) (ac_video cfg) (sf_capabilities facts) (sf_learned_disk facts) (sf_driver facts))"
    "\<exists>g. start_input c (cfg\<lparr>ac_monitor_index := i\<rparr>) g (sf_devices facts) = Ok input" "ac_mode (ha_config a0) = ac_mode cfg" "app_sink (ha_server a0) = input"
    "app_session (ha_server a0) = sf_session facts" "vs_settings (app_video_settings (ha_server a0)) = ac_video cfg"
    "fc_max_file_size_mib (ac_file_transfer cfg) \<le> 102400 \<Longrightarrow> uploads_ok (app_files (ha_server a0))"
proof -
  from assms obtain monitor input where parts: "select_monitor (ac_monitor_index cfg) monitors = Ok monitor"
    "start_input c (cfg\<lparr>ac_monitor_index := md_index monitor\<rparr>) (md_geometry monitor) (sf_devices facts) = Ok input"
    by (auto simp: start_host_def Let_def)
  with assms show ?thesis
    by (intro that [of "md_index monitor" input])
      (auto simp: start_host_def Let_def host_app_new_def server_state_def capture_of_def server_options_of_def intro!: new_ok dest!: slider_size)
qed

lemma started_trace:
  assumes "start_host lib c cfg monitors facts = Ok a0"
  shows "manager_run pl lib (capture_manager_new lib (sf_metrics facts) (ac_video cfg) (sf_capabilities facts) (sf_learned_disk facts) (sf_driver facts))
    (capture_of a0)"
proof -
  obtain i where "capture_of a0 = start_source c (ac_mode cfg) i
      (capture_manager_new lib (sf_metrics facts) (ac_video cfg) (sf_capabilities facts) (sf_learned_disk facts) (sf_driver facts))"
    using assms by (rule started_parts) blast
  then show ?thesis
    by (auto simp: start_source_def intro: run_refl run_monitor [OF run_refl surjective_pairing] run_pattern [OF run_refl surjective_pairing]
        split: capture_choice.split)
qed

lemma started_input:
  assumes "start_input c cfg g devices = Ok input" "cooperative (df_desktop devices)" "dk_log (df_desktop devices) = []"
  shows "sound_input input" "ac_mode cfg = DisplayOnly \<Longrightarrow> only_logs input"
proof -
  have "sound_injector (j, df_desktop devices)" if "injector_new p t os g opts = Ok j" for p t os opts j
  proof -
    from that have "p" "t" by (auto simp: injector_new_def split: if_splits)
    with that fresh_sound [OF injector_new_fresh assms(2)] assms(3) show ?thesis by simp
  qed
  with assms(1) show "sound_input input" by (auto simp: start_input_def sound_input_def split: if_splits)
  show "only_logs input" if "ac_mode cfg = DisplayOnly" using assms(1) that by (auto simp: start_input_def only_logs_def)
qed

section \<open>The program's invariants\<close>


lemma started_ok:
  assumes "startup_config tm c disk = Ok cfg" "start_host (he_library env) c cfg monitors facts = Ok a0" "sane_start env cfg facts"
  shows "host_ok sound_input (ev_crypto (he_server env)) (ha_server a0)"
    "ac_mode cfg = DisplayOnly \<Longrightarrow> host_ok only_logs (ev_crypto (he_server env)) (ha_server a0)"
proof -
  obtain i input g where parts: "start_input c (cfg\<lparr>ac_monitor_index := i\<rparr>) g (sf_devices facts) = Ok input" "app_sink (ha_server a0) = input"
    "app_session (ha_server a0) = sf_session facts" "vs_settings (app_video_settings (ha_server a0)) = ac_video cfg"
    "fc_max_file_size_mib (ac_file_transfer cfg) \<le> 102400 \<Longrightarrow> uploads_ok (app_files (ha_server a0))"
    using assms(2) by (rule started_parts) blast
  from started_input [OF parts(1)] parts(2-) startup_valid [OF assms(1)] assms(3)
  show "host_ok sound_input (ev_crypto (he_server env)) (ha_server a0)"
    "ac_mode cfg = DisplayOnly \<Longrightarrow> host_ok only_logs (ev_crypto (he_server env)) (ha_server a0)"
    by (auto simp: host_ok_def sane_start_def)
qed

lemma exit_input: "app_sink (ha_server (on_exit env app)) =
  (case app_sink (ha_server app) of LoggedInput l \<Rightarrow> LoggedInput l | NativeInput (i, d) \<Rightarrow> NativeInput (snd (reset_all i d)))"
  by (auto simp: on_exit_def Let_def on_injector_def on_server_def put_capture_def save_config_def release_native_def
      split: host_input.splits prod.splits)

lemma exit_capture: "capture_of (on_exit env app) = manager_stop (capture_of app)"
  by (simp add: on_exit_def Let_def)


text \<open>C31: The mode of a session is kept for the whole run: started to display only, the application never gets an injector,
  so nothing it is sent reaches the desktop; started for input only, it never has a capture source, session or thread,
  whatever settings, monitors and benchmarks are asked for.\<close>
theorem session_mode_is_kept:
  assumes "startup_config tm c disk = Ok cfg" "start_host (he_library env) c cfg monitors facts = Ok a0" "sane_start env cfg facts"
    and "ready_env env debug" "app_run pl env (app_polite (\<lambda>_. True)) a0 a"
  shows "(ac_mode cfg = DisplayOnly \<longrightarrow> only_logs (app_sink (ha_server a))) \<and> (ac_mode cfg = InputOnly \<longrightarrow> no_capture (capture_of a))"
proof (intro conjI impI)
  assume display: "ac_mode cfg = DisplayOnly"
  from logged_window.window_run_ok [OF assms(5,4) started_ok(2) [OF assms(1-3) display]] show "only_logs (app_sink (ha_server a))"
    by (simp add: host_ok_def)
next
  assume input: "ac_mode cfg = InputOnly"
  obtain i where parts: "capture_of a0 = start_source c (ac_mode cfg) i
      (capture_manager_new (he_library env) (sf_metrics facts) (ac_video cfg) (sf_capabilities facts) (sf_learned_disk facts) (sf_driver facts))"
    "ac_mode (ha_config a0) = ac_mode cfg"
    using assms(2) by (rule started_parts) blast
  then have "no_capture (capture_of a0)"
    by (simp add: input start_source_def capture_manager_new_def no_capture_def Let_def split_beta)
  with undisplayed.run_keeps [OF assms(5,4) refl] parts(2) input show "no_capture (capture_of a)" by simp
qed

section \<open>Applying settings from the window\<close>

lemma applied_video: "apply_video_settings lib v b m = Some (Ok s, m') \<Longrightarrow> cm_video m' = v"
proof (erule apply_cases)
  fix mode reason name chosen m1 assume "switch_settings v b chosen m1 = (Ok s, m')"
  then show "cm_video m' = v" using switch_effect [of v b "fst chosen" "fst (snd chosen)" "snd (snd chosen)" m1] by simp
qed auto

lemma applied_runtime:
  assumes "ready_env env debug" "run_apply (he_server env) v b st = (Ok s, st')"
  shows "cm_video (app_runtime st') = v" "app_disk st' = app_disk st" "app_video_settings st' = app_video_settings st"
  using assms applied_video by (auto simp: run_apply_def ready_env_def capture_runtime_def split: option.splits)

lemma applied_state:
  assumes "ready_env env debug" "apply_video_settings_state (he_server env) v expected st = (Ok s, st')"
  shows "cm_video (app_runtime st') = v" "video_validate v = Ok ()"
    "app_video_settings st' = \<lparr>vs_revision = sat_add (vs_revision (app_video_settings st)) 1, vs_settings = v\<rparr>"
    "save_video_settings (ev_toml (he_server env)) v (app_disk st) = (Ok (), app_disk st')"
proof -
  obtain st1 disk where run: "run_apply (he_server env) v (app_browser_video st) st = (Ok s, st1)" "video_validate v = Ok ()"
    "save_video_settings (ev_toml (he_server env)) v (app_disk st1) = (Ok (), disk)"
    "st' = st1\<lparr>app_disk := disk, app_video_settings := \<lparr>vs_revision = sat_add (vs_revision (app_video_settings st)) 1, vs_settings = v\<rparr>\<rparr>"
    using assms(2) by (auto simp: apply_video_settings_state_def Let_def split: result.splits prod.splits if_splits)
  from applied_runtime [OF assms(1) run(1)] run(2-)
  show "cm_video (app_runtime st') = v" "video_validate v = Ok ()"
    "app_video_settings st' = \<lparr>vs_revision = sat_add (vs_revision (app_video_settings st)) 1, vs_settings = v\<rparr>"
    "save_video_settings (ev_toml (he_server env)) v (app_disk st) = (Ok (), app_disk st')"
    by simp_all
qed

lemma refused_state:
  assumes "apply_video_settings_state env v expected st = (Err e, st')"
  shows "app_video_settings st' = app_video_settings st"
  using assms by (auto simp: apply_video_settings_state_def run_apply_def Let_def split: result.splits prod.splits if_splits)

text \<open>C32: After a change of the video settings in the window, the window shows exactly the settings of the server.
  Either these are the ones of before, or they are the ones that were asked for: then they are valid, they are in force
  in the capture, they were saved to the configuration file, and window and server agree on the new revision.\<close>
theorem window_shows_settings_in_force:
  assumes "ready_env env debug"
  shows "let app' = host_apply_video env app; old = app_video_settings (ha_server app); new = app_video_settings (ha_server app')
    in ac_video (ha_config app') = vs_settings new \<and>
       (new = old \<or>
        vs_settings new = ac_video (ha_config app) \<and> video_validate (vs_settings new) = Ok () \<and> vs_revision new = sat_add (vs_revision old) 1 \<and>
        ha_last_video_revision app' = vs_revision new \<and> cm_video (capture_of app') = vs_settings new \<and>
        save_video_settings (ev_toml (he_server env)) (vs_settings new) (app_disk (ha_server app)) = (Ok (), app_disk (ha_server app')))"
proof -
  let ?v = "ac_video (ha_config app)" and ?env = "he_server env"
  obtain r st where run: "apply_video_settings_state ?env ?v None (ha_server app) = (r, st)" by fastforce
  show ?thesis
  proof (cases r)
    case (Ok s)
    note new = applied_state [OF assms run [unfolded Ok]]
    define st' where "st' = (if vr_codec s \<noteq> current_codec ?env (ha_server app) then close_active_peer ?env st else st)"
    have same: "app_video_settings st' = app_video_settings st" "app_runtime st' = app_runtime st" "app_disk st' = app_disk st"
      by (simp_all add: st'_def close_active_peer_def close_peer_def reset_input_def forget_continuity_def)
    have "apply_video_settings_from_host ?env ?v (ha_server app) = (Ok (video_response ?env st'), st')"
      using run Ok by (simp add: apply_video_settings_from_host_def Let_def st'_def)
    with new same show ?thesis by (simp add: host_apply_video_def Let_def say_def video_response_def capture_of_def)
  next
    case (Err e)
    with run refused_state [OF run [unfolded Err]] show ?thesis
      by (simp add: host_apply_video_def apply_video_settings_from_host_def Let_def say_def)
  qed
qed

section \<open>A benchmark that cannot start\<close>

definition frames :: "host_app_env \<Rightarrow> (bool \<times> (uuid \<Rightarrow> bool) \<times> session_draws) list \<Rightarrow> 'v host_app \<Rightarrow> 'v host_app" where
  "frames env = fold (\<lambda>(focused, removed, draws). ui_frame env focused removed draws)"

lemma rotation_runtime: "app_runtime (snd (rotate_pairing_if_expired env removed d st)) = app_runtime st"
  by (auto simp: rotate_pairing_if_expired_def rotate_pairing_def reset_input_def forget_continuity_def close_peer_def close_active_peer_def
      with_files_def Let_def split: prod.splits)

lemma idle_frame:
  assumes "ha_benchmark_rx app = None"
  shows "capture_of (ui_frame env focused removed draws app) = capture_of app \<and> ha_benchmark_rx (ui_frame env focused removed draws app) = None"
proof -
  let ?app = "sync_input env (sync_video (poll_video_benchmark app))"
  have at: "capture_of ?app = capture_of app" "ha_benchmark_rx ?app = None"
    using assms by (simp_all add: sync_input_def sync_video_def poll_video_benchmark_def save_config_def on_server_def Let_def capture_of_def)
  obtain b st where turn: "rotate_pairing_if_expired (he_server env) removed draws (ha_server ?app) = (b, st)" by fastforce
  with rotation_runtime [of "he_server env" removed draws "ha_server ?app"] at have "app_runtime st = capture_of app"
    by (simp add: capture_of_def)
  with turn at show ?thesis by (cases b) (simp_all add: ui_frame_def Let_def say_def capture_of_def)
qed

text \<open>C40: When the thread of the background benchmark cannot be started, the capture has been stopped for it already and
  stays stopped: however many frames the window draws, the capture manager is never touched again, although the window
  still remembers that it should resume the capture.\<close>
theorem benchmark_without_thread_stops_capture:
  assumes "ha_benchmark_rx app = None" "cs_running (sh_status (cm_shared (capture_of app)))"
    and "app' = start_video_benchmark full (Err e) app"
  shows "ha_resume_capture app' \<and> capture_of (frames env fs app') = manager_stop (capture_of app) \<and> idle (capture_of (frames env fs app'))"
proof -
  have start: "ha_benchmark_rx app' = None" "ha_resume_capture app'" "capture_of app' = manager_stop (capture_of app)"
    using assms by (simp_all add: start_video_benchmark_def Let_def say_def put_capture_def on_server_def capture_of_def)
  have "capture_of (frames env fs a) = capture_of a" if "ha_benchmark_rx a = None" for a :: "'a host_app"
    using that
  proof (induction fs arbitrary: a)
    case (Cons f fs)
    obtain focused removed draws where f: "f = (focused, removed, draws)" by (cases f) auto
    with Cons.IH [of "ui_frame env focused removed draws a"] idle_frame [OF Cons.prems, of env focused removed draws] show ?case
      by (simp add: frames_def)
  qed (simp add: frames_def)
  with start idle_stop show ?thesis by simp
qed

section \<open>Overrides of the command line\<close>

text \<open>C39: An override that the help of the command line calls one for this run outlives it: after \<open>--no-mdns\<close>, whatever happens
  in between, the application that is left normally writes the switched off advertisement into the configuration file.\<close>
theorem override_outlives_the_run:
  assumes "startup_config tm c disk = Ok cfg" "cli_no_mdns c" "start_host (he_library env) c cfg monitors facts = Ok a0" "app_run pl env admits a0 a"
    and "fst (config_save (ev_toml (he_server env)) (ha_config (on_exit env a)) (app_disk (ha_server a))) = Ok ()"
  shows "\<exists>contents. disk_file (app_disk (ha_server (on_exit env a))) = Some contents \<and>
    toml_to_string (ev_toml (he_server env)) (ha_config (on_exit env a)) = Some contents \<and> \<not> nc_mdns (ac_network (ha_config (on_exit env a)))"
proof -
  have "ac_network (ha_config a0) = ac_network cfg" using assms(3) by (auto simp: start_host_def host_app_new_def Let_def)
  moreover have "\<not> nc_mdns (ac_network cfg)"
    using assms(1,2) by (auto simp: startup_config_def cli_config_def cli_network_def Let_def split: option.splits result.splits)
  ultimately have network: "\<not> nc_mdns (ac_network (ha_config (on_exit env a)))"
    using app_run_fixed(2) [OF assms(4)] by (simp add: on_exit_def Let_def)
  have "app_disk (ha_server (on_exit env a)) = snd (config_save (ev_toml (he_server env)) (ha_config (on_exit env a)) (app_disk (ha_server a)))"
    by (auto simp: on_exit_def save_config_def on_injector_def put_capture_def on_server_def Let_def split: host_input.splits prod.splits)
  with assms(5) network show ?thesis
    by (auto simp: config_save_def split: result.splits option.splits if_splits)
qed

section \<open>A small program\<close>

definition example_cli :: "capture_choice \<Rightarrow> bool \<Rightarrow> bool \<Rightarrow> cli" where
  "example_cli source i d = \<lparr>cli_input_only = i, cli_display_only = d, cli_capture = source, cli_input_sink = SinkInject,
     cli_log_level = lit ''info'', cli_diagnostics = False, cli_headless = False, cli_run_seconds = None, cli_video_profile = None, cli_encoder = None, cli_max_fps = None, cli_max_width = None,
     cli_bitrate = None, cli_test_width = 1280, cli_test_height = 720, cli_port = None, cli_no_mdns = True, cli_session_info = None,
     cli_metrics_output = None, cli_runtime_output = None, cli_file_inbox = None, cli_benchmark = None, cli_benchmark_output = None,
     cli_benchmark_frames = None, cli_benchmark_workload = None, cli_queue_file = []\<rparr>"

definition example_monitor :: monitor_descriptor where
  "example_monitor = \<lparr>md_index = 0, md_name = lit ''Display'', md_device_name = [], md_width = 1920, md_height = 1080, md_refresh_rate = 60,
     md_geometry = \<lparr>tg_left = 0, tg_top = 0, tg_width = 1920, tg_height = 1080\<rparr>, md_primary = True\<rparr>"

definition example_facts :: start_facts where
  "example_facts = \<lparr>sf_devices = \<lparr>df_pen_created = True, df_touch_created = True, df_os_text = [], df_desktop = example_desktop\<rparr>,
     sf_raw_host_name = lit ''PC'', sf_join = (@), sf_downloads = None, sf_config_directory = [], sf_capabilities = [software_h264_capability],
     sf_learned_disk = blank_disk, sf_driver = fresh_driver (\<lambda>_. quiet_answer), sf_session = new_session_state toy_crypto toy_draws,
     sf_metrics = default_metrics 0, sf_disk = empty_disk, sf_removed = \<lambda>_. True, sf_staging = Map.empty, sf_inbox = Map.empty\<rparr>"

definition example_app_env :: host_app_env where
  "example_app_env = \<lparr>he_server = \<lparr>ev_crypto = toy_crypto, ev_sink = host_sink False, ev_runtime = capture_runtime trial_library,
     ev_platform = example_platform, ev_toml = toy_toml default_app, ev_io_text = \<lambda>e. []\<rparr>, he_library = trial_library\<rparr>"

definition example_config :: "bool \<Rightarrow> bool \<Rightarrow> app_config" where
  "example_config i d = default_app\<lparr>ac_mode := if i then InputOnly else if d then DisplayOnly else PenDisplay,
     ac_network := (ac_network default_app)\<lparr>nc_mdns := False\<rparr>\<rparr>"

definition example_start :: "capture_choice \<Rightarrow> bool \<Rightarrow> bool \<Rightarrow> unit host_app" where
  "example_start source i d = (case start_host trial_library (example_cli source i d) (example_config i d) [example_monitor] example_facts of Ok a \<Rightarrow> a)"

lemma example_ready: "ready_env example_app_env False"
  by (simp add: ready_env_def example_app_env_def)

lemma example_started:
  "start_host (he_library example_app_env) (example_cli source i d) (example_config i d) [example_monitor] example_facts = Ok (example_start source i d)"
  by (simp add: example_start_def start_host_def select_monitor_def start_input_def injector_new_def example_facts_def example_app_env_def
      example_monitor_def or_else_def Let_def)

lemma example_configured: "startup_config (toy_toml default_app) (example_cli source i d) empty_disk = Ok (example_config i d)"
proof -
  have "config_load (toy_toml default_app) empty_disk = Ok default_app"
    by (simp add: config_load_def toy_toml_def empty_disk_def config_path_def read_config_def)
  then show ?thesis
    using default_video_valid
    by (simp add: startup_config_def cli_config_def cli_video_def cli_network_def cli_transfer_def cli_mode_def example_cli_def example_config_def
        default_app_def Let_def)
qed

lemma example_sane: "sane_start example_app_env (example_config i d) example_facts"
  using example_cooperative new_session_ok [of toy_crypto toy_draws]
  by (simp add: sane_start_def example_app_env_def example_facts_def example_config_def default_app_def default_file_transfer_def example_desktop_def)

lemma example_sink: "app_sink (ha_server (example_start source i d)) = NativeInput (j, dt) \<Longrightarrow> is_touches (in_state j) = []"
  by (auto simp: example_start_def start_host_def select_monitor_def start_input_def injector_new_def example_facts_def initial_injector_state_def
      example_monitor_def or_else_def host_app_new_def server_state_def Let_def split: if_splits)

lemma quiet_call:
  assumes "dv_answers (sh_driver (cm_shared m)) = (\<lambda>_. quiet_answer)"
  shows "\<exists>x m'. host_call (attempt id) m = (Ok x, m') \<and> dv_answers (sh_driver (cm_shared m')) = (\<lambda>_. quiet_answer)"
  using assms by (simp add: host_call_def attempt_def ask_def on_shared_def quiet_answer_def split_beta)

lemma quiet_pattern:
  assumes "dv_answers (sh_driver (cm_shared m)) = (\<lambda>_. quiet_answer)" "lf_frame (sh_slot (cm_shared m)) = None" "\<not> cm_control m"
  shows "cs_running (sh_status (cm_shared (snd (start_test_pattern_size w h m))))"
proof -
  obtain w' h' where size: "pattern_size w h = (w', h')" by fastforce
  let ?m = "on_shared fresh_slot ((manager_stop m)\<lparr>cm_source := Some TestPatternSource\<rparr>)"
  have "dv_answers (sh_driver (cm_shared ?m)) = (\<lambda>_. quiet_answer)"
    using assms by (simp add: on_shared_def manager_stop_def fresh_slot_def frame_stop_def Let_def split: option.splits)
  from quiet_call [OF this] obtain x1 m1 where one: "host_call (attempt id) ?m = (Ok x1, m1)" "dv_answers (sh_driver (cm_shared m1)) = (\<lambda>_. quiet_answer)"
    by blast
  from quiet_call [of "m1\<lparr>cm_encoder_thread := True\<rparr>"] one(2) obtain x2 m2 where
    two: "host_call (attempt id) (m1\<lparr>cm_encoder_thread := True\<rparr>) = (Ok x2, m2)" by auto
  from size one two show ?thesis by (simp add: start_test_pattern_size_def running_status_def on_shared_def Let_def)
qed

lemma example_running:
  "cs_running (sh_status (cm_shared (capture_of (example_start CaptureTestPattern False False))))" "ha_benchmark_rx (example_start source i d) = None"
proof -
  let ?m = "capture_manager_new trial_library (sf_metrics example_facts) (ac_video (example_config False False)) (sf_capabilities example_facts)
    (sf_learned_disk example_facts) (sf_driver example_facts)"
  have "dv_answers (sh_driver (cm_shared ?m)) = (\<lambda>_. quiet_answer)" "lf_frame (sh_slot (cm_shared ?m)) = None" "\<not> cm_control ?m"
    by (simp_all add: capture_manager_new_def example_facts_def fresh_driver_def empty_latest_frame_def Let_def split_beta)
  note running = quiet_pattern [OF this]
  have "start_host trial_library (example_cli CaptureTestPattern False False) (example_config False False) [example_monitor] example_facts =
      Ok (example_start CaptureTestPattern False False)"
    using example_started [of CaptureTestPattern False False] by (simp add: example_app_env_def)
  then obtain k where "capture_of (example_start CaptureTestPattern False False) =
      start_source (example_cli CaptureTestPattern False False) (ac_mode (example_config False False)) k ?m"
    by (rule started_parts) blast
  with running show "cs_running (sh_status (cm_shared (capture_of (example_start CaptureTestPattern False False))))"
    by (simp add: start_source_def example_config_def example_cli_def)
  show "ha_benchmark_rx (example_start source i d) = None"
    by (simp add: example_start_def start_host_def select_monitor_def start_input_def injector_new_def example_facts_def
      example_monitor_def or_else_def host_app_new_def Let_def)
qed

lemma one_step: "admits e \<Longrightarrow> app_run pl env admits a (app_step env e a)"
  by (rule app_event [OF app_refl])



theorem session_mode_is_kept_witness:
  "only_logs (app_sink (ha_server (app_step example_app_env (AppMonitor 0) (example_start CaptureMonitor False True)))) \<and>
   no_capture (capture_of (app_step example_app_env (AppMonitor 0) (example_start CaptureMonitor True False)))"
proof -
  have polite: "app_polite (\<lambda>_. True) (AppMonitor 0 :: unit app_event)" by (simp add: app_polite_def)
  have mode: "ac_mode (example_config False True) = DisplayOnly" "ac_mode (example_config True False) = InputOnly"
    by (simp_all add: example_config_def)
  note runs = session_mode_is_kept [OF example_configured example_started [of CaptureMonitor] example_sane example_ready one_step [of "app_polite (\<lambda>_. True)", OF polite]]
  from runs [of False True] runs [of True False]
  show ?thesis by (simp only: mode simp_thms)
qed

theorem window_shows_settings_in_force_witness:
  "ac_video (ha_config (host_apply_video example_app_env (example_start CaptureNothing False False))) =
     vs_settings (app_video_settings (ha_server (host_apply_video example_app_env (example_start CaptureNothing False False))))"
  using window_shows_settings_in_force [OF example_ready, of "example_start CaptureNothing False False"] by (simp add: Let_def)

theorem benchmark_without_thread_stops_capture_witness:
  "idle (capture_of (frames example_app_env [(False, \<lambda>_. True, toy_draws)]
     (start_video_benchmark True (Err (lit ''no thread'')) (example_start CaptureTestPattern False False))))"
  using benchmark_without_thread_stops_capture [OF example_running(2) example_running(1) refl] by blast

theorem offered_encoders_are_accepted_witness:
  "encoder_choice_enabled (video_response (he_server example_app_env) (ha_server (example_start CaptureNothing False False))) H264Software \<longleftrightarrow>
    (\<exists>s. select_encoder (default_video\<lparr>encoder := H264Software\<rparr>) (app_browser_video (ha_server (example_start CaptureNothing False False)))
      (rtm_capabilities (ev_runtime (he_server example_app_env)) (app_runtime (ha_server (example_start CaptureNothing False False)))) [] = Ok s)"
  by (rule offered_encoders_are_accepted) simp

theorem override_outlives_the_run_witness:
  "disk_file (app_disk (ha_server (on_exit example_app_env (example_start CaptureNothing False False)))) = Some [] \<and>
   \<not> nc_mdns (ac_network (ha_config (on_exit example_app_env (example_start CaptureNothing False False))))"
proof -
  let ?a = "example_start CaptureNothing False False"
  have "app_disk (ha_server ?a) = empty_disk"
    by (simp add: example_start_def start_host_def select_monitor_def start_input_def injector_new_def example_facts_def
      example_monitor_def or_else_def host_app_new_def server_state_def Let_def)
  then have "fst (config_save (ev_toml (he_server example_app_env)) (ha_config (on_exit example_app_env ?a)) (app_disk (ha_server ?a))) = Ok ()"
    by (simp add: config_save_def config_path_def empty_disk_def example_app_env_def toy_toml_def)
  moreover have "cli_no_mdns (example_cli CaptureNothing False False)" by (simp add: example_cli_def)
  ultimately show ?thesis
    using override_outlives_the_run [OF example_configured _ example_started app_refl]
    by (simp add: example_app_env_def toy_toml_def)
qed

end
