(* ===== verification/Spec2Isabelle.thy ===== *)
theory Spec2Isabelle
  imports Remote Geometry Session Video Metrics Transfer_Life Download_Life Input_Props Host_Props Discovery Manager_Props Benchmark_Reports Monitors Test_Pattern Host_App_Props
begin

text \<open>
  NFiDB turns a tablet's browser into a pen display of a Windows computer.  The Windows application captures and
  encodes the screen, serves a web page on the local network, sends the video to the browser over WebRTC and
  receives pen, touch, mouse and keyboard input over a data channel or a WebSocket, which it injects into the
  desktop; files go both ways over HTTP.  This development models the Rust core of that program.

  Parts and their theories, in the order of the code.

  \<^item> \<open>Prelude\<close>, \<open>Soft_Float\<close>, \<open>Floats\<close>, \<open>Utf8\<close>, \<open>Strings\<close>, \<open>Ordered_Map\<close>: results as a
    datatype \<open>Ok\<close>/\<open>Err\<close>, saturating words, IEEE binary32 and binary64 numbers as bit patterns with round to nearest
    even, UTF-8, the string functions of the standard library, ordered maps.  These model the language, not the
    repository.
  \<^item> \<open>Packet\<close> (\<open>crates/protocol/src/packet.rs\<close>) and \<open>Remote\<close> (\<open>remote.rs\<close>): the wire formats.  One locale states
    the codec contract; it is interpreted on each of the five message kinds.  \<open>Geometry\<close> (\<open>mapping.rs\<close>): normalised
    points, pixels and the visible rectangle of the video.
  \<^item> \<open>Session\<close> (\<open>crates/core/src/session.rs\<close>): pairing, tokens, expiry; refined to a session that holds at most one
    token.  \<open>Config\<close> (\<open>config.rs\<close>): settings, validation, migration and the configuration file.  \<open>Video\<close>
    (\<open>video.rs\<close>): capabilities, the compatibility matrix and the automatic score.  \<open>Metrics\<close> (\<open>metrics.rs\<close>): counters,
    continuity of the input, latency windows and snapshots.
  \<^item> \<open>Transfer_Names\<close>, \<open>Transfers\<close>, \<open>Uploads\<close>, \<open>Downloads\<close>, \<open>Transfer_Runs\<close>, \<open>Transfer_Life\<close>,
    \<open>Download_Life\<close> (\<open>crates/transport/src/file_transfer.rs\<close>): file names and byte ranges, the manager's state, each of
    its operations, histories of operations and the life of a whole upload and download.
  \<^item> \<open>Sink\<close> (the trait \<open>InputSink\<close> of \<open>crates/core/src/lib.rs\<close> and \<open>crates/transport/src/lib.rs\<close>): a trait is a record
    of its methods; its contract is the locale \<open>releasing_sink\<close>, used by the peer and the server and interpreted on
    the logging sink and on the injector.  \<open>Injector\<close>, \<open>Injection\<close>, \<open>Injector_Sink\<close>, \<open>Input_Props\<close>
    (\<open>crates/host-windows/src/input.rs\<close>): the Windows injector over a desktop that records which events it took, and
    what that desktop holds pressed.
  \<^item> \<open>Diagnostics\<close> (\<open>crates/transport/src/diagnostics.rs\<close>), \<open>Peer\<close> (\<open>webrtc_session.rs\<close>), \<open>Http\<close>, \<open>Server\<close>,
    \<open>Server_Routes\<close> (\<open>server.rs\<close>): the recorder, the WebRTC peer and its callbacks, headers and authorisation, the
    shared state with every handler, the control socket and the handle of the application.  \<open>Host_Runs\<close> and
    \<open>Host_Props\<close>: histories of the whole host, an arbitrary interleaving of HTTP requests, socket turns, peer callbacks
    and calls of the application on the one shared state.
  \<^item> \<open>Driver\<close>: the operating system as a stream of numbered answers with a log of the calls made; every Win32, Direct3D
    and Media Foundation call of the host takes the next answer, so a theorem about all drivers is one about all behaviours
    of the system.  \<open>Surfaces\<close> (\<open>crates/host-windows/src/gpu_preprocess.rs\<close>): the pool of GPU surfaces and the readback of
    NV12 planes.  \<open>Media_Foundation\<close> and \<open>Encoder\<close> (\<open>mf_encoder.rs\<close>, \<open>encoder.rs\<close>): the hardware transform with its event loop, the
    software encoder, rebuilding and the fallbacks between GPU and CPU input.  \<open>Discovery\<close> (\<open>hardware.rs\<close>): the probe of
    the encoders.
  \<^item> \<open>Selection\<close>, \<open>Frame_Slots\<close>, \<open>Capture\<close>, \<open>Capture_Manager\<close>, \<open>Manager_Runs\<close>, \<open>Manager_Props\<close> (\<open>capture.rs\<close>, \<open>learned.rs\<close>): the
    choice of an encoder, the two queues of one frame, one turn of the capture, preprocessing and encoding threads, the manager
    with its live switch of settings, and its histories between any steps of these threads.
  \<^item> \<open>Pixels\<close> and \<open>Test_Pattern\<close> (\<open>capture.rs\<close>): pictures and the generated pattern with its frame number.  \<open>Benchmark\<close>,
    \<open>Benchmark_Runs\<close>, \<open>Benchmark_Reports\<close> (\<open>benchmark.rs\<close>): cases, pictures, the measured runs and the exported reports.
    \<open>Monitors\<close> (\<open>monitors.rs\<close>, \<open>resource_monitor.rs\<close>): the monitors of the desktop and the resources of the process.
  \<^item> \<open>Host_App\<close>, \<open>Window\<close>, \<open>Host_Actions\<close> (\<open>apps/windows-host/src/main.rs\<close>): the command line, the start of the host on the real
    injector and the real capture manager, what the pages compute and every action behind them.  \<open>Runtime\<close> states the contract of
    the trait \<open>VideoSettingsRuntime\<close>: the locale \<open>evolving_runtime\<close>.  \<open>Host_App_Runs\<close> composes it with the capture manager
    (\<open>capture_invariant\<close>) and with the input sink (\<open>window_input\<close>); \<open>Host_App_Props\<close> holds the properties of the whole program.

  State and effects.  A struct is a record with the source's fields (a prefix where names clash), an enum a datatype.
  A method that changes state returns the new state; a method that can fail returns \<open>Ok\<close> or \<open>Err\<close>; a panic is \<open>None\<close> or
  a constructor of its own.  Integers are words of the source's width; \<open>usize\<close> lengths and times are naturals.  What
  the code asks of its surroundings is an argument: clock readings, random bytes, the outcome of each file-system,
  Win32 or WebRTC call, the SHA-256 and base64 functions, the TOML crate.  Mutexes make each operation one step; a
  handler is one step, and what other tasks do between its suspension points are other steps.

  Bounds and fuel.  The search for a free file name tries 100000 suffixes as the code does (\<open>first_free\<close>), injection
  retries at most 500 times, a port is searched over 100 offsets; the other loops recurse on their input: samples,
  chunks, the views a pacing upload sees, the events of a socket or a video task.  Reading floats from decimal
  literals is exact rational arithmetic, so no fuel is needed there.  The wait for the events of a hardware encoder is the one loop
  that may not end, a \<open>partial_function (option)\<close>: it returns whenever the clock passes its deadline (\<open>EVENT_DEADLINE\<close>), which the
  theorems on returning assume of the driver and nothing else.

  What the lemmas show.  Codecs: round trips, safety of whatever decodes, truthful errors.  Session: refinement to one
  token, the outcomes of pairing.  Transfers: every accepted chunk refines an append to an abstract upload, sessions are
  isolated, whole uploads arrive with their checksum, downloads deliver exactly the promised range.  Input: after any
  history a reset releases everything the desktop holds, disabled devices stay silent.  Host: the invariants compose over
  every interleaving; withdrawing control releases the input; revocation locks the host; the cookie of a pairing is
  the one accepted token; settings move by one revision per matching edit.  The last properties state what the code does
  where it does not do what it means to; the manifest lists them as findings.
  Encoders and capture: the surfaces lent to encoders stay exclusive, queues deliver, drop or hold every frame once, a switch of the
  settings returns, refused settings change nothing, the learned benchmarks stay trustworthy, sent frames carry their codec.  Program:
  from the configuration file and the command line on, the capture stays coherent with its settings over every interleaving, a session
  keeps its mode, the window shows what is in force and offers exactly what the selection accepts, leaving releases everything.

  Not modelled.  Drawing the egui window, the crash dialog, the diagnostic export and the JSON files of the headless mode; the mDNS
  daemon, the web framework and the shutdown of \<open>server.rs\<close>; the start of threads, whose turns are steps; logging; serialisation by
  serde.  Foreign code is a parameter or a driver answer: the image resizer, OpenH264, Media Foundation, the WebRTC crate, SHA-256,
  TOML and JSON.  The one \<open>Metrics\<close> object that the code shares is held once by the server's state and once by the capture's; no
  property relates the two.  The test tool \<open>tools/pointer-sink\<close> and the TypeScript client are left out.
\<close>

end
